(* ===== verification/Tearenv_Prelude.thy ===== *)
theory Tearenv_Prelude
  imports
    Main
    "HOL-Library.AList"
    "HOL-Library.Char_ord"
    "HOL-Library.List_Lexorder"
    "HOL-Library.Sublist"
begin

text \<open>
  Shared vocabulary of the development.

  \<^item> A Go call that returns \<open>(value, error)\<close> is a value of the sum type
    \<open>'e + 'a\<close>: \<open>Inl\<close> carries the error, \<open>Inr\<close> the value.
  \<^item> A Go \<open>for ... range\<close> loop whose body may return early is \<open>rfold\<close>.
  \<^item> A Go map is an association list with distinct keys.  The order of the list is the
    iteration order of \<open>range\<close>, which Go leaves unspecified: theorems are stated for every
    list, so they hold for every iteration order.  Reading is \<open>map_of\<close>, writing is
    \<open>AList.update\<close>, deleting is \<open>AList.delete\<close>.
  \<^item> A Go string is a \<open>string\<close> of bytes, ordered lexicographically by byte as Go's
    \<open><\<close> orders strings.
\<close>

named_theorems result_simps \<open>unfolding of the error-carrying loops\<close>
named_theorems gomap_simps \<open>lookups in updated Go maps\<close>

type_synonym 'v gomap = "(string \<times> 'v) list"

section \<open>Results with errors\<close>

fun is_ok :: "'e + 'a \<Rightarrow> bool" where
  "is_ok (Inr _) = True"
| "is_ok (Inl _) = False"

lemma is_ok_iff: "is_ok r \<longleftrightarrow> (\<exists>x. r = Inr x)"
  by (cases r) auto

text \<open>The loop \<open>for _, x := range xs { s, err = f(x, s); if err != nil { return err } }\<close>.\<close>

fun rfold :: "('a \<Rightarrow> 's \<Rightarrow> 'e + 's) \<Rightarrow> 'a list \<Rightarrow> 's \<Rightarrow> 'e + 's" where
  "rfold f [] s = Inr s"
| "rfold f (x # xs) s = (case f x s of Inl e \<Rightarrow> Inl e | Inr s' \<Rightarrow> rfold f xs s')"

lemma rfold_append:
  "rfold f (xs @ ys) s = (case rfold f xs s of Inl e \<Rightarrow> Inl e | Inr s' \<Rightarrow> rfold f ys s')"
  by (induction xs arbitrary: s) (auto split: sum.splits)

lemma rfold_invariant:
  assumes "rfold f xs s = Inr s'" "P s"
    and "\<And>x t t'. x \<in> set xs \<Longrightarrow> P t \<Longrightarrow> f x t = Inr t' \<Longrightarrow> P t'"
  shows "P s'"
  using assms
proof (induction xs arbitrary: s)
  case (Cons a xs)
  then obtain t where t: "f a s = Inr t" "rfold f xs t = Inr s'"
    by (auto split: sum.splits)
  with Cons.prems(2,3) have "P t" by (meson list.set_intros(1))
  with Cons.IH [OF t(2)] Cons.prems(3) show ?case by (meson list.set_intros(2))
qed simp

lemma rfold_step_ok:
  assumes "rfold f xs s = Inr s'" "x \<in> set xs"
  shows "\<exists>t t'. f x t = Inr t'"
  using assms by (induction xs arbitrary: s) (auto split: sum.splits)

lemma rfold_cong [fundef_cong]:
  assumes "xs = ys" "s = t" "\<And>x u. x \<in> set ys \<Longrightarrow> f x u = g x u"
  shows "rfold f xs s = rfold g ys t"
  using assms by (induction ys arbitrary: xs s t) (auto split: sum.splits)

text \<open>A loop whose body only checks its element and never changes the state.\<close>

fun rcheck :: "('a \<Rightarrow> 'e option) \<Rightarrow> 'a list \<Rightarrow> 'e option" where
  "rcheck f [] = None"
| "rcheck f (x # xs) = (case f x of Some e \<Rightarrow> Some e | None \<Rightarrow> rcheck f xs)"

text \<open>A loop that converts every element and stops at the first failure.\<close>

fun rmap :: "('a \<Rightarrow> 'e + 'b) \<Rightarrow> 'a list \<Rightarrow> 'e + 'b list" where
  "rmap f [] = Inr []"
| "rmap f (x # xs) =
     (case f x of
        Inl e \<Rightarrow> Inl e
      | Inr y \<Rightarrow> (case rmap f xs of Inl e \<Rightarrow> Inl e | Inr ys \<Rightarrow> Inr (y # ys)))"

lemma rmap_Inr_iff [result_simps]: "rmap f xs = Inr ys \<longleftrightarrow> list_all2 (\<lambda>x y. f x = Inr y) xs ys"
proof (induction xs arbitrary: ys)
  case (Cons x xs)
  have "rmap f (x # xs) = Inr ys \<longleftrightarrow> (\<exists>y zs. ys = y # zs \<and> f x = Inr y \<and> rmap f xs = Inr zs)"
    by (auto split: sum.splits)
  with Cons.IH show ?case by (auto simp: list_all2_Cons1)
qed auto

lemma rmap_append:
  "rmap f (xs @ zs) = (case rmap f xs of Inl e \<Rightarrow> Inl e | Inr ys \<Rightarrow> (case rmap f zs of Inl e \<Rightarrow> Inl e | Inr us \<Rightarrow> Inr (ys @ us)))"
  by (induction xs) (auto split: sum.splits)

lemma rmap_total: "(\<And>x. x \<in> set xs \<Longrightarrow> f x = Inr (g x)) \<Longrightarrow> rmap f xs = Inr (map g xs)"
  by (induction xs) auto

lemma rcheck_None_iff [result_simps]: "rcheck f xs = None \<longleftrightarrow> (\<forall>x \<in> set xs. f x = None)"
  by (induction xs) (auto split: option.splits)

lemma rcheck_Some: "rcheck f xs = Some e \<Longrightarrow> \<exists>x \<in> set xs. f x = Some e"
  by (induction xs) (auto split: option.splits)

text \<open>
  The loop that fills a fresh Go map: every element of the list is converted, and the first
  failing conversion ends the loop.
\<close>

definition rbuild :: "('k \<Rightarrow> 'v \<Rightarrow> 'e + 'w) \<Rightarrow> ('k \<times> 'v) list \<Rightarrow> ('k \<times> 'w) list \<Rightarrow> 'e + ('k \<times> 'w) list" where
  "rbuild f kvs m =
     rfold (\<lambda>(k, v) m. case f k v of Inl e \<Rightarrow> Inl e | Inr w \<Rightarrow> Inr (AList.update k w m)) kvs m"

lemma rbuild_Nil [simp, result_simps]: "rbuild f [] m = Inr m"
  by (simp add: rbuild_def)

lemma rbuild_Cons [simp, result_simps]:
  "rbuild f ((k, v) # kvs) m =
     (case f k v of Inl e \<Rightarrow> Inl e | Inr w \<Rightarrow> rbuild f kvs (AList.update k w m))"
  by (simp add: rbuild_def split: sum.splits)

lemma rbuild_distinct:
  "rbuild f kvs m = Inr m' \<Longrightarrow> distinct (map fst m) \<Longrightarrow> distinct (map fst m')"
  by (induction kvs arbitrary: m) (auto split: sum.splits simp: distinct_update)

lemma rbuild_lookup:
  assumes "rbuild f kvs m = Inr m'" "distinct (map fst kvs)"
  shows "map_of m' k =
    (case map_of kvs k of None \<Rightarrow> map_of m k
     | Some v \<Rightarrow> (case f k v of Inr w \<Rightarrow> Some w | Inl _ \<Rightarrow> None))"
  using assms
proof (induction kvs arbitrary: m)
  case Nil
  then show ?case by simp
next
  case (Cons kv kvs)
  obtain k0 v0 where kv: "kv = (k0, v0)" by (cases kv)
  with Cons.prems obtain w where w: "f k0 v0 = Inr w"
    and rest: "rbuild f kvs (AList.update k0 w m) = Inr m'"
    by (auto split: sum.splits)
  have nin: "map_of kvs k0 = None" using Cons.prems(2) kv by (simp add: map_of_eq_None_iff)
  show ?case
    using Cons.IH [OF rest] Cons.prems(2) kv w nin
    by (auto simp: update_conv' split: option.splits)
qed

lemma rbuild_ok:
  assumes "\<And>k v. (k, v) \<in> set kvs \<Longrightarrow> \<exists>w. f k v = Inr w"
  shows "\<exists>m'. rbuild f kvs m = Inr m'"
  using assms
proof (induction kvs arbitrary: m)
  case (Cons kv kvs)
  obtain k0 v0 where kv: "kv = (k0, v0)" by (cases kv)
  with Cons.prems obtain w where "f k0 v0 = Inr w" by fastforce
  with Cons kv show ?case by auto
qed simp

lemma rbuild_ok_all:
  assumes "rbuild f kvs m = Inr m'" "(k, v) \<in> set kvs"
  shows "\<exists>w. f k v = Inr w"
  using assms by (induction kvs arbitrary: m) (auto split: sum.splits)

fun ok_val :: "'e + 'a \<Rightarrow> 'a option" where
  "ok_val (Inr x) = Some x"
| "ok_val (Inl _) = None"

lemma rbuild_ok_iff:
  "is_ok (rbuild f kvs m) \<longleftrightarrow> (\<forall>(k, v) \<in> set kvs. is_ok (f k v))"
  using rbuild_ok [of kvs f m] rbuild_ok_all [of f kvs m] by (fastforce simp: is_ok_iff)

lemma rbuild_lookup_new:
  assumes "rbuild f kvs [] = Inr m'" "distinct (map fst kvs)"
  shows "map_of m' k = Option.bind (map_of kvs k) (\<lambda>v. ok_val (f k v))"
  using rbuild_lookup [OF assms, of k] by (auto split: option.splits sum.splits)

section \<open>Go maps as association lists\<close>

lemma map_of_update [gomap_simps, simp]:
  "map_of (AList.update k v m) k' = (if k' = k then Some v else map_of m k')"
  by (simp add: update_conv')

lemma map_of_delete [gomap_simps, simp]:
  "map_of (AList.delete k m) k' = (if k' = k then None else map_of m k')"
  by (simp add: delete_conv')

lemma distinct_delete_keys [simp]:
  "distinct (map fst m) \<Longrightarrow> distinct (map fst (AList.delete k m))"
  by (rule distinct_delete)

lemma distinct_update_keys [simp]:
  "distinct (map fst m) \<Longrightarrow> distinct (map fst (AList.update k v m))"
  by (rule distinct_update)

lemma map_of_filter_val:
  assumes "distinct (map fst m)"
  shows "map_of (filter (\<lambda>(k, v). P v) m) k =
    (case map_of m k of None \<Rightarrow> None | Some v \<Rightarrow> if P v then Some v else None)"
  using assms
  by (induction m) (auto split: option.splits simp: map_of_eq_None_iff rev_image_eqI)

lemma in_set_iff_lookup:
  "distinct (map fst m) \<Longrightarrow> (k, v) \<in> set m \<longleftrightarrow> map_of m k = Some v"
  by simp

lemma set_update_distinct:
  assumes "distinct (map fst m)"
  shows "set (AList.update k v m) = {(k, v)} \<union> {p \<in> set m. fst p \<noteq> k}"
  using assms by (induction m) (auto simp: rev_image_eqI)

lemma set_update_cases:
  "p \<in> set (AList.update k v m) \<Longrightarrow> p = (k, v) \<or> p \<in> set m"
  by (induction m) (auto split: if_splits)

lemma set_delete_cases: "p \<in> set (AList.delete k m) \<Longrightarrow> p \<in> set m \<and> fst p \<noteq> k"
  by (induction m) (auto split: if_splits)

lemma update_nonempty [simp]: "AList.update k v m \<noteq> []"
  by (cases m) auto

lemma distinct_map_filter [simp]: "distinct (map f xs) \<Longrightarrow> distinct (map f (filter P xs))"
  by (induction xs) auto

text \<open>Sums over a Go map when one entry changes: used for the gauges of the gateway.\<close>

lemma sum_list_update:
  fixes f :: "'v \<Rightarrow> int"
  assumes "distinct (map fst m)"
  shows "sum_list (map (f \<circ> snd) (AList.update k v m)) =
    sum_list (map (f \<circ> snd) m) + f v - (case map_of m k of None \<Rightarrow> 0 | Some u \<Rightarrow> f u)"
  using assms
  by (induction m) (auto split: option.splits simp: map_of_eq_None_iff)

section \<open>Sorting a slice by a key\<close>

lemma map_of_sort_key:
  assumes "distinct (map fst m)"
  shows "map_of (sort_key fst m) = map_of m"
proof -
  have "distinct (map fst (sort_key fst m))"
    using assms by (simp add: distinct_map)
  with assms show ?thesis
    by (intro map_of_eqI) (auto simp: in_set_iff_lookup [symmetric])
qed

lemma sort_key_Nil_iff [simp]: "sort_key f xs = [] \<longleftrightarrow> xs = []"
  by (metis length_0_conv length_sort)

end
