(* ===== verification/Go_Strings.thy ===== *)
theory Go_Strings
  imports Tearenv_Prelude
begin

text \<open>
  The parts of Go's standard library for byte strings that the program calls: \<open>strings\<close>
  (\<open>TrimSpace\<close>, \<open>Trim\<close>, \<open>TrimRight\<close>, \<open>CutPrefix\<close>, \<open>Cut\<close>, \<open>Split\<close>, \<open>Fields\<close>,
  \<open>ReplaceAll\<close>, \<open>Count\<close>, \<open>ToLower\<close>, \<open>EqualFold\<close>), \<open>encoding/hex\<close>, \<open>encoding/base64\<close>
  (raw URL alphabet), \<open>strconv\<close> for decimal numbers and \<open>net.SplitHostPort\<close> with
  \<open>net.JoinHostPort\<close>.  Strings are byte strings; white space is recognised through the UTF-8
  encodings of the runes that \<open>unicode.IsSpace\<close> accepts.
\<close>

section \<open>Character classes\<close>

definition is_lower :: "char \<Rightarrow> bool" where
  "is_lower c \<longleftrightarrow> CHR ''a'' \<le> c \<and> c \<le> CHR ''z''"

definition is_upper :: "char \<Rightarrow> bool" where
  "is_upper c \<longleftrightarrow> CHR ''A'' \<le> c \<and> c \<le> CHR ''Z''"

definition is_digit :: "char \<Rightarrow> bool" where
  "is_digit c \<longleftrightarrow> CHR ''0'' \<le> c \<and> c \<le> CHR ''9''"

lemmas char_class_defs = is_lower_def is_upper_def is_digit_def

definition is_ascii :: "string \<Rightarrow> bool" where
  "is_ascii s \<longleftrightarrow> list_all (\<lambda>c. c < CHR 0x80) s"

definition ascii_lower :: "char \<Rightarrow> char" where
  "ascii_lower c = (if is_upper c then char_of (of_char c + 32 :: nat) else c)"

lemma ascii_lower_not_upper [simp]: "\<not> is_upper c \<Longrightarrow> ascii_lower c = c"
  by (simp add: ascii_lower_def)

lemma ascii_lower_upper: "is_upper c \<Longrightarrow> is_lower (ascii_lower c)"
proof -
  assume u: "is_upper c"
  have cA: "(of_char (CHR ''A'') :: nat) = 65" "(of_char (CHR ''Z'') :: nat) = 90"
    "(of_char (CHR ''a'') :: nat) = 97" "(of_char (CHR ''z'') :: nat) = 122" by simp_all
  from u have "65 \<le> (of_char c :: nat)" "(of_char c :: nat) \<le> 90"
    using cA by (simp_all add: is_upper_def less_eq_char_def)
  then have "97 \<le> (of_char (ascii_lower c) :: nat)" "(of_char (ascii_lower c) :: nat) \<le> 122"
    using u by (simp_all add: ascii_lower_def take_bit_eq_mod of_char_of)
  then show ?thesis
    using cA by (simp add: is_lower_def less_eq_char_def)
qed

text \<open>
  \<open>strings.ToLower\<close>: ASCII strings take a table-free path.  The case tables of the Unicode
  library are the parameter \<open>ul\<close>, applied to strings with a byte above 127.
\<close>

definition toLower :: "(string \<Rightarrow> string) \<Rightarrow> string \<Rightarrow> string" where
  "toLower ul s = (if is_ascii s then map ascii_lower s else ul s)"

text \<open>Simple case folding as far as it can meet an ASCII name: \<open>strings.EqualFold\<close>.\<close>

definition ascii_upper :: "char \<Rightarrow> char" where
  "ascii_upper c = (if is_lower c then char_of (of_char c - 32 :: nat) else c)"

fun foldName :: "string \<Rightarrow> string" where
  "foldName [] = []"
| "foldName (a # s) =
     (if a = CHR 0xC5 \<and> s \<noteq> [] \<and> hd s = CHR 0xBF then CHR ''S'' # foldName (tl s)
      else if a = CHR 0xE2 \<and> length s \<ge> 2 \<and> s ! 0 = CHR 0x84 \<and> s ! 1 = CHR 0xAA
      then CHR ''K'' # foldName (drop 2 s)
      else ascii_upper a # foldName s)"

definition equalFold :: "string \<Rightarrow> string \<Rightarrow> bool" where
  "equalFold a b \<longleftrightarrow> foldName a = foldName b"

section \<open>White space\<close>

text \<open>The UTF-8 encodings of the runes accepted by \<open>unicode.IsSpace\<close>.\<close>

definition space_runes :: "string list" where
  "space_runes =
     [[CHR 0x20], [CHR 0x09], [CHR 0x0A], [CHR 0x0B], [CHR 0x0C], [CHR 0x0D],
      [CHR 0xC2, CHR 0x85], [CHR 0xC2, CHR 0xA0], [CHR 0xE1, CHR 0x9A, CHR 0x80],
      [CHR 0xE2, CHR 0x80, CHR 0x80], [CHR 0xE2, CHR 0x80, CHR 0x81], [CHR 0xE2, CHR 0x80, CHR 0x82],
      [CHR 0xE2, CHR 0x80, CHR 0x83], [CHR 0xE2, CHR 0x80, CHR 0x84], [CHR 0xE2, CHR 0x80, CHR 0x85],
      [CHR 0xE2, CHR 0x80, CHR 0x86], [CHR 0xE2, CHR 0x80, CHR 0x87], [CHR 0xE2, CHR 0x80, CHR 0x88],
      [CHR 0xE2, CHR 0x80, CHR 0x89], [CHR 0xE2, CHR 0x80, CHR 0x8A], [CHR 0xE2, CHR 0x80, CHR 0xA8],
      [CHR 0xE2, CHR 0x80, CHR 0xA9], [CHR 0xE2, CHR 0x80, CHR 0xAF], [CHR 0xE2, CHR 0x81, CHR 0x9F],
      [CHR 0xE3, CHR 0x80, CHR 0x80]]"

definition leading :: "string list \<Rightarrow> string \<Rightarrow> string option" where
  "leading ps s = find (\<lambda>p. p \<noteq> [] \<and> prefix p s) ps"

lemma leading_Some: "leading ps s = Some p \<Longrightarrow> p \<noteq> [] \<and> p \<in> set ps \<and> prefix p s"
  by (auto simp: leading_def find_Some_iff)

lemma leading_None: "leading ps s = None \<longleftrightarrow> (\<forall>p \<in> set ps. p \<noteq> [] \<longrightarrow> \<not> prefix p s)"
  by (auto simp: leading_def find_None_iff)

function trimLeftRunes :: "string list \<Rightarrow> string \<Rightarrow> string" where
  "trimLeftRunes ps s =
     (case leading ps s of None \<Rightarrow> s | Some p \<Rightarrow> trimLeftRunes ps (drop (length p) s))"
  by pat_completeness auto
termination
  by (relation "measure (\<lambda>(ps, s). length s)") (auto dest!: leading_Some simp: prefix_def)

declare trimLeftRunes.simps [simp del]

definition trimRightRunes :: "string list \<Rightarrow> string \<Rightarrow> string" where
  "trimRightRunes ps s = rev (trimLeftRunes (map rev ps) (rev s))"

definition trimSpace :: "string \<Rightarrow> string" where
  "trimSpace s = trimRightRunes space_runes (trimLeftRunes space_runes s)"

lemma trimLeftRunes_suffix: "suffix (trimLeftRunes ps s) s"
proof (induction ps s rule: trimLeftRunes.induct)
  case (1 ps s)
  show ?case
  proof (cases "leading ps s")
    case None
    then show ?thesis by (simp add: trimLeftRunes.simps [of ps s])
  next
    case (Some p)
    have "suffix (drop (length p) s) s" by (rule suffix_drop)
    with "1" [OF Some] Some show ?thesis
      by (auto simp: trimLeftRunes.simps [of ps s] intro: suffix_order.trans)
  qed
qed

lemma trimLeftRunes_done: "leading ps (trimLeftRunes ps s) = None"
proof (induction ps s rule: trimLeftRunes.induct)
  case (1 ps s)
  then show ?case
    by (cases "leading ps s") (auto simp: trimLeftRunes.simps [of ps s])
qed

lemma trimLeftRunes_id: "leading ps s = None \<Longrightarrow> trimLeftRunes ps s = s"
  by (subst trimLeftRunes.simps) simp

lemma leading_prefix_None: "leading ps s = None \<Longrightarrow> prefix t s \<Longrightarrow> leading ps t = None"
  by (auto simp: leading_None)

lemma trimRightRunes_prefix: "prefix (trimRightRunes ps s) s"
  using trimLeftRunes_suffix [of "map rev ps" "rev s"]
  by (simp add: trimRightRunes_def suffix_to_prefix)

lemma trimRightRunes_idem: "trimRightRunes ps (trimRightRunes ps s) = trimRightRunes ps s"
  by (simp add: trimRightRunes_def trimLeftRunes_id trimLeftRunes_done)

lemma trimSpace_leading: "leading space_runes (trimSpace s) = None"
  unfolding trimSpace_def
  by (rule leading_prefix_None [OF trimLeftRunes_done trimRightRunes_prefix])

lemma trimSpace_idem [simp]: "trimSpace (trimSpace s) = trimSpace s"
proof -
  have "trimLeftRunes space_runes (trimSpace s) = trimSpace s"
    by (rule trimLeftRunes_id [OF trimSpace_leading])
  then have "trimSpace (trimSpace s) = trimRightRunes space_runes (trimSpace s)"
    by (simp add: trimSpace_def [of "trimSpace s"])
  also have "\<dots> = trimSpace s"
    by (simp add: trimSpace_def trimRightRunes_idem)
  finally show ?thesis .
qed

lemma trimSpace_Nil [simp]: "trimSpace [] = []"
  by (simp add: trimSpace_def trimRightRunes_def trimLeftRunes.simps leading_def space_runes_def)

lemma length_trimSpace: "length (trimSpace s) \<le> length s"
proof -
  have "length (trimSpace s) \<le> length (trimLeftRunes space_runes s)"
    unfolding trimSpace_def by (rule prefix_length_le [OF trimRightRunes_prefix])
  also have "\<dots> \<le> length s"
    by (rule suffix_length_le [OF trimLeftRunes_suffix])
  finally show ?thesis .
qed

text \<open>\<open>strings.Fields\<close>: the words between runs of white space.\<close>

function fieldsFrom :: "string \<Rightarrow> string \<Rightarrow> string list" where
  "fieldsFrom w [] = (if w = [] then [] else [w])"
| "fieldsFrom w (c # s) =
     (case leading space_runes (c # s) of
        None \<Rightarrow> fieldsFrom (w @ [c]) s
      | Some p \<Rightarrow> (if w = [] then [] else [w]) @ fieldsFrom [] (drop (length p) (c # s)))"
  by pat_completeness auto
termination
  by (relation "measure (\<lambda>(w, s). length s)") (auto dest!: leading_Some simp: prefix_def)

definition fields :: "string \<Rightarrow> string list" where
  "fields s = fieldsFrom [] s"

section \<open>Cut sets, prefixes and substrings\<close>

definition trimLeft :: "string \<Rightarrow> string \<Rightarrow> string" where
  "trimLeft s cutset = dropWhile (\<lambda>c. c \<in> set cutset) s"

definition trimRight :: "string \<Rightarrow> string \<Rightarrow> string" where
  "trimRight s cutset = rev (dropWhile (\<lambda>c. c \<in> set cutset) (rev s))"

definition trim :: "string \<Rightarrow> string \<Rightarrow> string" where
  "trim s cutset = trimRight (trimLeft s cutset) cutset"

definition cutPrefix :: "string \<Rightarrow> string \<Rightarrow> string option" where
  "cutPrefix s p = (if prefix p s then Some (drop (length p) s) else None)"

text \<open>\<open>strings.Cut\<close> at a one-byte separator: before, after, found.\<close>

definition cut :: "string \<Rightarrow> char \<Rightarrow> string \<times> string \<times> bool" where
  "cut s sep = (if sep \<in> set s
     then (takeWhile (\<lambda>c. c \<noteq> sep) s, tl (dropWhile (\<lambda>c. c \<noteq> sep) s), True)
     else (s, [], False))"

text \<open>\<open>strings.Split\<close> at a one-byte separator.\<close>

fun splitChar :: "string \<Rightarrow> char \<Rightarrow> string list" where
  "splitChar [] sep = [[]]"
| "splitChar (c # s) sep =
     (if c = sep then [] # splitChar s sep
      else (case splitChar s sep of [] \<Rightarrow> [[c]] | w # ws \<Rightarrow> (c # w) # ws))"

function replaceAll :: "string \<Rightarrow> string \<Rightarrow> string \<Rightarrow> string" where
  "replaceAll s old new =
     (if old = [] \<or> s = [] then s
      else if prefix old s then new @ replaceAll (drop (length old) s) old new
      else hd s # replaceAll (tl s) old new)"
  by pat_completeness auto
termination
  by (relation "measure (\<lambda>(s, old, new). length s)") (auto simp: prefix_def)

function countOf :: "string \<Rightarrow> string \<Rightarrow> nat" where
  "countOf s sub =
     (if sub = [] \<or> s = [] then 0
      else if prefix sub s then Suc (countOf (drop (length sub) s) sub)
      else countOf (tl s) sub)"
  by pat_completeness auto
termination
  by (relation "measure (\<lambda>(s, sub). length s)") (auto simp: prefix_def)

declare replaceAll.simps [simp del] countOf.simps [simp del]

lemma cutPrefix_append [simp]: "cutPrefix (p @ s) p = Some s"
  by (simp add: cutPrefix_def)

lemma cutPrefix_Some_iff: "cutPrefix s p = Some t \<longleftrightarrow> s = p @ t"
  by (auto simp: cutPrefix_def prefix_def)

lemma set_trim: "set (trim s cs) \<subseteq> set s"
  by (auto simp: trim_def trimRight_def trimLeft_def dest!: set_dropWhileD)

lemma trimRight_last: "trimRight s cs \<noteq> [] \<Longrightarrow> last (trimRight s cs) \<notin> set cs"
  unfolding trimRight_def by (metis (no_types, lifting) Nil_is_rev_conv hd_dropWhile last_rev)

lemma trimRight_prefix: "prefix (trimRight s cs) s"
  unfolding trimRight_def suffix_to_prefix [symmetric]
  by (metis rev_rev_ident suffix_dropWhile suffix_to_prefix)

lemma trimRight_hd: "trimRight s cs \<noteq> [] \<Longrightarrow> hd (trimRight s cs) = hd s"
  using trimRight_prefix [of s cs] by (metis hd_append2 prefix_def)

lemma trimLeft_hd: "trimLeft s cs \<noteq> [] \<Longrightarrow> hd (trimLeft s cs) \<notin> set cs"
  unfolding trimLeft_def by (rule hd_dropWhile) auto

lemma trim_hd: "trim s cs \<noteq> [] \<Longrightarrow> hd (trim s cs) \<notin> set cs"
  unfolding trim_def
  by (metis trimLeft_hd trimRight_hd trimRight_prefix prefix_Nil)

lemma trim_last: "trim s cs \<noteq> [] \<Longrightarrow> last (trim s cs) \<notin> set cs"
  unfolding trim_def by (rule trimRight_last)

lemma length_trimRight: "length (trimRight s cs) \<le> length s"
  by (rule prefix_length_le [OF trimRight_prefix])

lemma length_trim: "length (trim s cs) \<le> length s"
proof -
  have "length (trimLeft s cs) \<le> length s" by (simp add: trimLeft_def length_dropWhile_le)
  with length_trimRight [of "trimLeft s cs" cs] show ?thesis by (simp add: trim_def)
qed

lemma trimRight_Cons: "c \<notin> set cs \<Longrightarrow> trimRight (c # s) cs = c # trimRight s cs"
  by (simp add: trimRight_def dropWhile_append)

lemma trim_nonempty: "s \<noteq> [] \<Longrightarrow> hd s \<notin> set cs \<Longrightarrow> trim s cs \<noteq> [] \<and> hd (trim s cs) = hd s"
  by (cases s) (simp_all add: trim_def trimLeft_def trimRight_Cons)

lemma replaceAll_absent: "countOf s old = 0 \<Longrightarrow> old \<noteq> [] \<Longrightarrow> replaceAll s old new = s"
proof (induction s old arbitrary: new rule: countOf.induct)
  case (1 s sub)
  then show ?case
    by (subst replaceAll.simps) (auto simp: countOf.simps [of s sub] split: if_splits)
qed

end
