(* ===== verification/Go_Encoding.thy ===== *)
theory Go_Encoding
  imports Go_Strings
begin

text \<open>
  Text encodings of the Go standard library that the program relies on, each with the round
  trip or length fact the components use: \<open>encoding/hex\<close>, the raw URL alphabet of
  \<open>encoding/base64\<close>, decimal \<open>strconv.FormatUint\<close> and \<open>strconv.ParseUint\<close>, and
  \<open>net.JoinHostPort\<close> with \<open>net.SplitHostPort\<close>.  Numbers are \<open>int\<close>; every conversion
  to a Go integer width states its range check.
\<close>

section \<open>Hexadecimal\<close>

definition hexDigit :: "nat \<Rightarrow> char" where
  "hexDigit n = ''0123456789abcdef'' ! n"

definition hexVal :: "char \<Rightarrow> nat option" where
  "hexVal c =
     (if is_digit c then Some (of_char c - 48)
      else if CHR ''a'' \<le> c \<and> c \<le> CHR ''f'' then Some (of_char c - 87)
      else if CHR ''A'' \<le> c \<and> c \<le> CHR ''F'' then Some (of_char c - 55)
      else None)"

definition hexByte :: "char \<Rightarrow> string" where
  "hexByte c = [hexDigit (of_char c div 16), hexDigit (of_char c mod 16)]"

definition hexEncode :: "string \<Rightarrow> string" where
  "hexEncode s = concat (map hexByte s)"

fun hexDecode :: "string \<Rightarrow> string option" where
  "hexDecode [] = Some []"
| "hexDecode [c] = None"
| "hexDecode (a # b # s) =
     (case (hexVal a, hexVal b, hexDecode s) of
        (Some x, Some y, Some t) \<Rightarrow> Some (char_of (16 * x + y) # t)
      | _ \<Rightarrow> None)"

definition is_hex :: "char \<Rightarrow> bool" where
  "is_hex c \<longleftrightarrow> is_digit c \<or> (CHR ''a'' \<le> c \<and> c \<le> CHR ''f'')"

lemma hexDigit_facts:
  "n < 16 \<Longrightarrow> hexVal (hexDigit n) = Some n \<and> is_hex (hexDigit n)"
proof -
  have "\<forall>n \<in> set [0..<16]. hexVal (hexDigit n) = Some n \<and> is_hex (hexDigit n)"
    by code_simp
  then show "n < 16 \<Longrightarrow> ?thesis" by simp
qed

lemma of_char_div_16: "(of_char c :: nat) div 16 < 16"
proof -
  have "(of_char c :: nat) < 256" by (rule nat_of_char_less_256)
  then show ?thesis by (simp add: less_mult_imp_div_less)
qed

lemma hexDecode_hexEncode [simp]: "hexDecode (hexEncode s) = Some s"
proof (induction s)
  case Nil
  then show ?case by (simp add: hexEncode_def)
next
  case (Cons c s)
  have "hexEncode (c # s) = hexDigit (of_char c div 16) # hexDigit (of_char c mod 16) # hexEncode s"
    by (simp add: hexEncode_def hexByte_def)
  with Cons show ?case
    by (simp add: hexDigit_facts of_char_div_16)
qed

lemma hexEncode_inject [simp]: "hexEncode s = hexEncode t \<longleftrightarrow> s = t"
  by (metis hexDecode_hexEncode option.inject)

lemma length_hexEncode [simp]: "length (hexEncode s) = 2 * length s"
  by (induction s) (simp_all add: hexEncode_def hexByte_def)

lemma hexEncode_hex: "c \<in> set (hexEncode s) \<Longrightarrow> is_hex c"
  by (induction s) (auto simp: hexEncode_def hexByte_def hexDigit_facts of_char_div_16)

lemma hexEncode_Nil_iff [simp]: "hexEncode s = [] \<longleftrightarrow> s = []"
  by (cases s) (simp_all add: hexEncode_def hexByte_def)

section \<open>Raw URL base64\<close>

definition b64Char :: "int \<Rightarrow> char" where
  "b64Char n =
     (if n < 26 then char_of (65 + n) else if n < 52 then char_of (71 + n)
      else if n < 62 then char_of (n - 4) else if n = 62 then CHR ''-'' else CHR ''_'')"

fun base64RawURL :: "string \<Rightarrow> string" where
  "base64RawURL [] = []"
| "base64RawURL [a] =
     (let x = of_char a :: int in [b64Char (x div 4), b64Char (x mod 4 * 16)])"
| "base64RawURL [a, b] =
     (let x = of_char a :: int; y = of_char b in
      [b64Char (x div 4), b64Char (x mod 4 * 16 + y div 16), b64Char (y mod 16 * 4)])"
| "base64RawURL (a # b # c # s) =
     (let x = of_char a :: int; y = of_char b; z = of_char c in
      b64Char (x div 4) # b64Char (x mod 4 * 16 + y div 16) #
      b64Char (y mod 16 * 4 + z div 64) # b64Char (z mod 64) # base64RawURL s)"

lemma length_base64RawURL: "length s \<le> length (base64RawURL s)"
  by (induction s rule: base64RawURL.induct) (auto simp: Let_def le_SucI)

section \<open>Decimal numbers\<close>

function decString :: "int \<Rightarrow> string" where
  "decString n = (if n < 10 then [char_of (48 + n)] else decString (n div 10) @ [char_of (48 + n mod 10)])"
  by pat_completeness auto
termination
  by (relation "measure nat") auto

declare decString.simps [simp del]

definition digitVal :: "char \<Rightarrow> int" where
  "digitVal c = of_char c - 48"

definition decValue :: "string \<Rightarrow> int" where
  "decValue s = foldl (\<lambda>a c. a * 10 + digitVal c) 0 s"

text \<open>\<open>strconv.ParseUint(s, 10, bits)\<close>: a value out of range is an error.\<close>

definition parseUint :: "string \<Rightarrow> nat \<Rightarrow> int option" where
  "parseUint s bits =
     (if s \<noteq> [] \<and> list_all is_digit s \<and> decValue s < 2 ^ bits then Some (decValue s) else None)"

lemma digit_char:
  fixes n :: int
  assumes "0 \<le> n" "n < 10"
  shows "is_digit (char_of (48 + n))" and "digitVal (char_of (48 + n)) = n"
proof -
  have *: "\<forall>n \<in> set [0..9 :: int]. is_digit (char_of (48 + n)) \<and> digitVal (char_of (48 + n)) = n"
    by code_simp
  have n: "n \<in> set [0..9 :: int]" using assms by simp
  show "is_digit (char_of (48 + n))" and "digitVal (char_of (48 + n)) = n"
    using bspec [OF * n] by auto
qed

lemma decString_digits: "0 \<le> n \<Longrightarrow> list_all is_digit (decString n) \<and> decString n \<noteq> []"
proof (induction n rule: decString.induct)
  case (1 n)
  show ?case
  proof (cases "n < 10")
    case True
    with "1.prems" show ?thesis
      by (simp add: decString.simps [of n] digit_char [of n])
  next
    case False
    with "1" have "list_all is_digit (decString (n div 10))" by auto
    with False show ?thesis
      by (simp add: decString.simps [of n] digit_char [of "n mod 10"])
  qed
qed

lemma decValue_decString: "0 \<le> n \<Longrightarrow> decValue (decString n) = n"
proof (induction n rule: decString.induct)
  case (1 n)
  show ?case
  proof (cases "n < 10")
    case True
    with "1.prems" show ?thesis
      by (simp add: decString.simps [of n] decValue_def digit_char [of n])
  next
    case False
    with "1" have "decValue (decString (n div 10)) = n div 10" by auto
    then have "decValue (decString n) = n div 10 * 10 + n mod 10"
      using False by (simp add: decString.simps [of n] decValue_def digit_char [of "n mod 10"])
    then show ?thesis by simp
  qed
qed

lemma parseUint_decString:
  "0 \<le> n \<Longrightarrow> n < 2 ^ bits \<Longrightarrow> parseUint (decString n) bits = Some n"
  by (simp add: parseUint_def decString_digits decValue_decString)

lemma decValue_nonneg: "list_all is_digit s \<Longrightarrow> 0 \<le> decValue s"
proof (induction s rule: rev_induct)
  case (snoc c s)
  then have "is_digit c" by simp
  then have "(of_char (CHR ''0'') :: nat) \<le> of_char c"
    unfolding is_digit_def less_eq_char_def by blast
  then have "48 \<le> (of_char c :: nat)" by simp
  then have "(48 :: int) \<le> of_char c" by (metis of_nat_le_iff of_nat_numeral of_nat_of_char)
  then have "0 \<le> digitVal c" by (simp add: digitVal_def)
  with snoc show ?case by (simp add: decValue_def)
qed (simp add: decValue_def)

lemma parseUint_range: "parseUint s bits = Some n \<Longrightarrow> 0 \<le> n \<and> n < 2 ^ bits"
  by (auto simp: parseUint_def decValue_nonneg split: if_splits)

section \<open>Host and port\<close>

definition splitHostPort :: "string \<Rightarrow> (string \<times> string) option" where
  "splitHostPort s =
     (if CHR '':'' \<notin> set s then None
      else
        let port = rev (takeWhile (\<lambda>c. c \<noteq> CHR '':'') (rev s));
            i = length s - length port - 1;
            finish = (\<lambda>host j k.
              if CHR ''['' \<in> set (drop j s) then None
              else if CHR '']'' \<in> set (drop k s) then None
              else Some (host, port))
        in if hd s = CHR ''['' then
             (if CHR '']'' \<notin> set s then None
              else let e = length (takeWhile (\<lambda>c. c \<noteq> CHR '']'') s)
                   in if e + 1 = length s then None
                      else if e + 1 = i then finish (take (e - 1) (drop 1 s)) 1 (e + 1)
                      else None)
           else
             let host = take i s
             in if CHR '':'' \<in> set host then None else finish host 0 0)"

definition joinHostPort :: "string \<Rightarrow> string \<Rightarrow> string" where
  "joinHostPort host port =
     (if CHR '':'' \<in> set host then ''['' @ host @ '']:'' @ port else host @ '':'' @ port)"

lemma splitHostPort_joinHostPort:
  assumes "set host \<inter> {CHR '':'', CHR ''['', CHR '']''} = {}"
    and "set port \<inter> {CHR '':'', CHR ''['', CHR '']''} = {}"
  shows "splitHostPort (joinHostPort host port) = Some (host, port)"
proof -
  have tw: "takeWhile (\<lambda>c. c \<noteq> CHR '':'') (rev port @ CHR '':'' # rev host) = rev port"
    using assms(2) by (subst takeWhile_append2) (auto simp: disjoint_iff)
  have hd: "hd (host @ CHR '':'' # port) \<noteq> CHR ''[''"
    using assms(1) by (cases host) auto
  show ?thesis
    using assms hd by (auto simp: splitHostPort_def joinHostPort_def tw Let_def)
qed

end
