(* ===== verification/Go_Time.thy ===== *)
theory Go_Time
  imports Complex_Main Go_Encoding
begin

text \<open>
  \<open>time.Duration\<close> of the Go standard library: a signed 64-bit count of nanoseconds, here an
  \<open>int\<close>, with \<open>time.ParseDuration\<close> and \<open>Duration.String\<close>.  The fractional part of a
  parsed number is multiplied in \<open>float64\<close>, as the library does; \<open>fl53\<close> is the rounding to
  53 significant bits.
\<close>

type_synonym duration = int

definition Nanosecond :: duration where "Nanosecond = 1"
definition Microsecond :: duration where "Microsecond = 1000"
definition Millisecond :: duration where "Millisecond = 1000000"
definition Second :: duration where "Second = 1000000000"
definition Minute :: duration where "Minute = 60000000000"
definition Hour :: duration where "Hour = 3600000000000"

lemmas duration_unit_defs =
  Nanosecond_def Microsecond_def Millisecond_def Second_def Minute_def Hour_def

section \<open>Rounding to float64\<close>

function bitLen :: "int \<Rightarrow> nat" where
  "bitLen n = (if n \<le> 0 then 0 else Suc (bitLen (n div 2)))"
  by pat_completeness auto
termination by (relation "measure nat") auto

declare bitLen.simps [simp del]

definition pow2 :: "int \<Rightarrow> rat" where
  "pow2 e = (if 0 \<le> e then 2 ^ nat e else 1 / 2 ^ nat (- e))"

definition roundEven :: "rat \<Rightarrow> int" where
  "roundEven x =
     (let q = \<lfloor>x\<rfloor>; f = x - of_int q
      in if f < 1 / 2 then q else if 1 / 2 < f then q + 1 else if even q then q else q + 1)"

definition fl53 :: "rat \<Rightarrow> rat" where
  "fl53 r =
     (let (n, d) = quotient_of r;
          e0 = int (bitLen n) - int (bitLen d);
          e = (if r < pow2 e0 then e0 - 1 else e0);
          u = pow2 (e - 52)
      in if r \<le> 0 then r else of_int (roundEven (r / u)) * u)"

section \<open>time.ParseDuration\<close>

text \<open>\<open>leadingInt\<close>: \<open>None\<close> on overflow, otherwise the number and the rest of the string.\<close>

fun leadingInt :: "int \<Rightarrow> string \<Rightarrow> (int \<times> string) option" where
  "leadingInt x [] = Some (x, [])"
| "leadingInt x (c # s) =
     (if \<not> is_digit c then Some (x, c # s)
      else if x > 2 ^ 63 div 10 then None
      else let x' = x * 10 + digitVal c in if x' > 2 ^ 63 then None else leadingInt x' s)"

text \<open>\<open>leadingFraction\<close>: digits beyond the 63-bit range are skipped, not an error.\<close>

fun leadingFraction :: "int \<Rightarrow> int \<Rightarrow> bool \<Rightarrow> string \<Rightarrow> int \<times> int \<times> string" where
  "leadingFraction x scale overflow [] = (x, scale, [])"
| "leadingFraction x scale overflow (c # s) =
     (if \<not> is_digit c then (x, scale, c # s)
      else if overflow then leadingFraction x scale True s
      else if x > (2 ^ 63 - 1) div 10 then leadingFraction x scale True s
      else let y = x * 10 + digitVal c
           in if y > 2 ^ 63 then leadingFraction x scale True s
              else leadingFraction y (scale * 10) False s)"

definition unitMap :: "(string \<times> int) list" where
  "unitMap =
     [(''ns'', Nanosecond), (''us'', Microsecond),
      ([CHR 0xC2, CHR 0xB5, CHR ''s''], Microsecond),
      ([CHR 0xCE, CHR 0xBC, CHR ''s''], Microsecond),
      (''ms'', Millisecond), (''s'', Second), (''m'', Minute), (''h'', Hour)]"

definition is_num_char :: "char \<Rightarrow> bool" where
  "is_num_char c \<longleftrightarrow> c = CHR ''.'' \<or> is_digit c"

text \<open>One round of the loop: a number and its unit; \<open>None\<close> when it is malformed.\<close>

definition parseTerm :: "string \<Rightarrow> (int \<times> string) option" where
  "parseTerm s =
     (if s = [] \<or> \<not> is_num_char (hd s) then None
      else case leadingInt 0 s of None \<Rightarrow> None | Some (v, s1) \<Rightarrow>
        let pre = (length s1 \<noteq> length s);
            (f, scale, s2, post) =
              (if s1 \<noteq> [] \<and> hd s1 = CHR ''.''
               then (let (f, scale, s2) = leadingFraction 0 1 False (tl s1)
                     in (f, scale, s2, length s2 \<noteq> length (tl s1)))
               else (0, 1, s1, False));
            u = takeWhile (\<lambda>c. \<not> is_num_char c) s2;
            s3 = dropWhile (\<lambda>c. \<not> is_num_char c) s2
        in if \<not> pre \<and> \<not> post then None
           else if u = [] then None
           else case map_of unitMap u of None \<Rightarrow> None | Some unit \<Rightarrow>
             if v > 2 ^ 63 div unit then None
             else let v1 = v * unit;
                      v2 = (if f > 0
                            then v1 + \<lfloor>fl53 (fl53 (of_int f) * fl53 (of_int unit / of_int scale))\<rfloor>
                            else v1)
                  in if v2 > 2 ^ 63 then None else Some (v2, s3))"

lemma leadingInt_length: "leadingInt x s = Some (v, t) \<Longrightarrow> length t \<le> length s"
  by (induction x s rule: leadingInt.induct) (auto simp: Let_def split: if_splits)

lemma leadingFraction_length: "leadingFraction x sc b s = (f, sc', t) \<Longrightarrow> length t \<le> length s"
  by (induction x sc b s rule: leadingFraction.induct) (auto simp: Let_def split: if_splits)

lemma parseTerm_shorter: "parseTerm s = Some (v, t) \<Longrightarrow> length t < length s"
proof -
  assume p: "parseTerm s = Some (v, t)"
  then obtain v0 s1 where s1: "leadingInt 0 s = Some (v0, s1)"
    by (auto simp: parseTerm_def split: if_splits option.splits)
  have le1: "length s1 \<le> length s" by (rule leadingInt_length [OF s1])
  obtain f sc s2' where fr: "leadingFraction 0 1 False (tl s1) = (f, sc, s2')" by (metis prod_cases3)
  have le2: "length s2' \<le> length (tl s1)" by (rule leadingFraction_length [OF fr])
  let ?s2 = "if s1 \<noteq> [] \<and> hd s1 = CHR ''.'' then s2' else s1"
  have le: "length ?s2 \<le> length s" using le1 le2 by auto
  have t: "t = dropWhile (\<lambda>c. \<not> is_num_char c) ?s2" and
    u: "takeWhile (\<lambda>c. \<not> is_num_char c) ?s2 \<noteq> []"
    using p s1 fr by (auto simp: parseTerm_def Let_def split: if_splits option.splits)
  have "length t < length ?s2"
    using u unfolding t
    by (metis (no_types, lifting) length_append length_greater_0_conv less_add_same_cancel2
        takeWhile_dropWhile_id)
  with le show ?thesis by simp
qed

function parseTerms :: "int \<Rightarrow> string \<Rightarrow> int option" where
  "parseTerms d s =
     (if s = [] then Some d
      else case parseTerm s of None \<Rightarrow> None | Some (v, t) \<Rightarrow>
        if d + v > 2 ^ 63 then None else parseTerms (d + v) t)"
  by pat_completeness auto
termination
  by (relation "measure (\<lambda>(d, s). length s)") (auto dest: parseTerm_shorter)

declare parseTerms.simps [simp del]

definition parseDurationText :: "string \<Rightarrow> duration option" where
  "parseDurationText s =
     (let neg = (s \<noteq> [] \<and> hd s = CHR ''-'');
          s1 = (if s \<noteq> [] \<and> (hd s = CHR ''-'' \<or> hd s = CHR ''+'') then tl s else s)
      in if s1 = ''0'' then Some 0
         else if s1 = [] then None
         else case parseTerms 0 s1 of None \<Rightarrow> None | Some d \<Rightarrow>
           if neg then Some (- d) else if d > 2 ^ 63 - 1 then None else Some d)"

section \<open>Duration.String\<close>

text \<open>\<open>fmtFrac\<close>: the last \<open>prec\<close> digits after a point, trailing zeros omitted.\<close>

fun fmtFrac :: "int \<Rightarrow> nat \<Rightarrow> bool \<Rightarrow> string \<Rightarrow> string \<times> int" where
  "fmtFrac v 0 pr acc = ((if pr then ''.'' else []) @ acc, v)"
| "fmtFrac v (Suc prec) pr acc =
     (let digit = v mod 10; pr' = (pr \<or> digit \<noteq> 0)
      in fmtFrac (v div 10) prec pr' (if pr' then char_of (48 + digit) # acc else acc))"

definition durationString :: "duration \<Rightarrow> string" where
  "durationString d =
     (let u = \<bar>d\<bar>;
          body =
            (if u < Second then
               (if u = 0 then ''0s''
                else if u < Microsecond then decString u @ ''ns''
                else if u < Millisecond then
                  (let (fr, i) = fmtFrac u 3 False [] in decString i @ fr @ [CHR 0xC2, CHR 0xB5] @ ''s'')
                else (let (fr, i) = fmtFrac u 6 False [] in decString i @ fr @ ''ms''))
             else
               (let (fr, secs) = fmtFrac u 9 False [];
                    mins = secs div 60; hours = mins div 60
                in (if hours > 0 then decString hours @ ''h'' else []) @
                   (if mins > 0 then decString (mins mod 60) @ ''m'' else []) @
                   decString (secs mod 60) @ fr @ ''s''))
      in if d < 0 then ''-'' @ body else body)"

end
