(* ===== verification/Go_Duration.thy ===== *)
theory Go_Duration
  imports Go_Time
begin

text \<open>
  The round trip of Go's durations: \<open>time.Duration.String\<close> prints a text that
  \<open>time.ParseDuration\<close> reads back as the same number of nanoseconds, for every non-negative
  64-bit duration.  The daemon's configuration, the credentials file and the client profile
  store durations as such texts.
\<close>


section \<open>Printing and parsing durations\<close>

lemma digitVal_range: "is_digit c \<Longrightarrow> 0 \<le> digitVal c \<and> digitVal c \<le> 9"
proof -
  assume "is_digit c"
  then have "(of_char (CHR ''0'') :: nat) \<le> of_char c" "of_char c \<le> (of_char (CHR ''9'') :: nat)"
    by (simp_all add: is_digit_def less_eq_char_def)
  then have "48 \<le> (of_char c :: nat)" "(of_char c :: nat) \<le> 57" by simp_all
  then have "(48 :: int) \<le> of_char c" "(of_char c :: int) \<le> 57"
    by (metis of_nat_le_iff of_nat_numeral of_nat_of_char)+
  then show ?thesis by (simp add: digitVal_def)
qed

lemma foldl_digits_ge:
  assumes "list_all is_digit ds" "0 \<le> x"
  shows "x \<le> foldl (\<lambda>a c. a * 10 + digitVal c) x ds"
  using assms
proof (induction ds arbitrary: x)
  case (Cons c ds)
  then have d: "0 \<le> digitVal c" by (simp add: digitVal_range)
  then have "x \<le> x * 10 + digitVal c" "0 \<le> x * 10 + digitVal c" using Cons.prems by auto
  with Cons.IH [of "x * 10 + digitVal c"] Cons.prems show ?case by auto
qed simp

lemma leadingInt_digits:
  assumes "list_all is_digit ds" "0 \<le> x" "r = [] \<or> \<not> is_digit (hd r)"
    and "foldl (\<lambda>a c. a * 10 + digitVal c) x ds \<le> 2 ^ 63"
  shows "leadingInt x (ds @ r) = Some (foldl (\<lambda>a c. a * 10 + digitVal c) x ds, r)"
  using assms
proof (induction ds arbitrary: x)
  case Nil
  then show ?case by (cases r) auto
next
  case (Cons c ds)
  let ?x = "x * 10 + digitVal c"
  have d: "0 \<le> digitVal c" using Cons.prems(1) by (simp add: digitVal_range)
  then have x0: "0 \<le> ?x" using Cons.prems(2) by simp
  have "?x \<le> foldl (\<lambda>a c. a * 10 + digitVal c) ?x ds"
    using foldl_digits_ge [of ds ?x] Cons.prems(1) x0 by simp
  with Cons.prems(4) have x63: "?x \<le> 2 ^ 63" by simp
  with d have "x \<le> 2 ^ 63 div 10" by simp
  with Cons x63 x0 show ?case by (simp add: Let_def)
qed

lemma decString_leadingInt:
  assumes "0 \<le> n" "n \<le> 2 ^ 63" "r = [] \<or> \<not> is_digit (hd r)"
  shows "leadingInt 0 (decString n @ r) = Some (n, r)"
  using leadingInt_digits [of "decString n" 0 r] assms decString_digits [of n] decValue_decString [of n]
  by (simp add: decValue_def)

lemma leadingFraction_digits:
  assumes "list_all is_digit ds" "0 \<le> x" "r = [] \<or> \<not> is_digit (hd r)"
    and "(x + 1) * 10 ^ length ds \<le> 10 ^ 18"
  shows "leadingFraction x sc False (ds @ r) =
    (foldl (\<lambda>a c. a * 10 + digitVal c) x ds, sc * 10 ^ length ds, r)"
  using assms
proof (induction ds arbitrary: x sc)
  case Nil
  then show ?case by (cases r) auto
next
  case (Cons c ds)
  let ?x = "x * 10 + digitVal c"
  have d: "0 \<le> digitVal c" "digitVal c \<le> 9" using Cons.prems(1) by (simp_all add: digitVal_range)
  have "(?x + 1) * 10 ^ length ds \<le> (x + 1) * 10 * 10 ^ length ds"
    using d by (intro mult_right_mono) auto
  also have "\<dots> = (x + 1) * 10 ^ length (c # ds)" by (simp only: list.size power_Suc add_0_right add_Suc_right mult.assoc)
  also have "\<dots> \<le> 10 ^ 18" by (rule Cons.prems(4))
  finally have b: "(?x + 1) * 10 ^ length ds \<le> 10 ^ 18" .
  have "(x + 1) * 10 * 1 \<le> (x + 1) * 10 * 10 ^ length ds"
    using Cons.prems(2) by (intro mult_left_mono) auto
  also have "\<dots> = (x + 1) * 10 ^ length (c # ds)" by (simp only: list.size power_Suc add_0_right add_Suc_right mult.assoc)
  also have "\<dots> \<le> 10 ^ 18" by (rule Cons.prems(4))
  finally have "(x + 1) * 10 \<le> 10 ^ 18" by simp
  then have "x \<le> (2 ^ 63 - 1) div 10" "?x \<le> 2 ^ 63" using d by simp_all
  with Cons b d show ?case by (simp add: Let_def)
qed

lemma fmtFrac_printing:
  assumes "0 \<le> v" "fmtFrac v p True acc = (fr, i)"
  shows "i = v div 10 ^ p \<and> (\<exists>ds. fr = ''.'' @ ds @ acc \<and> list_all is_digit ds \<and> length ds = p \<and>
    decValue ds = v mod 10 ^ p)"
  using assms
proof (induction p arbitrary: v acc)
  case 0
  then show ?case by (auto simp: decValue_def)
next
  case (Suc p)
  let ?d = "v mod 10"
  have "fmtFrac (v div 10) p True (char_of (48 + ?d) # acc) = (fr, i)"
    using Suc.prems by (simp add: Let_def)
  moreover have "0 \<le> v div 10" using Suc.prems(1) by simp
  ultimately obtain ds where
    i: "i = v div 10 div 10 ^ p" and ds: "fr = ''.'' @ ds @ char_of (48 + ?d) # acc"
    "list_all is_digit ds" "length ds = p" "decValue ds = v div 10 mod 10 ^ p"
    using Suc.IH by blast
  have dig: "is_digit (char_of (48 + ?d))" "digitVal (char_of (48 + ?d)) = ?d"
    using digit_char [of ?d] by auto
  have "decValue (ds @ [char_of (48 + ?d)]) = (v div 10 mod 10 ^ p) * 10 + ?d"
    using ds(4) dig by (simp add: decValue_def)
  also have "\<dots> = v mod 10 ^ Suc p"
    by (simp add: mod_mult2_eq' [of v 10 "10 ^ p"] zmod_zmult2_eq)
  finally have val: "decValue (ds @ [char_of (48 + ?d)]) = v mod 10 ^ Suc p" .
  have "i = v div 10 ^ Suc p" using i by (simp add: zdiv_zmult2_eq)
  moreover have "fr = ''.'' @ (ds @ [char_of (48 + ?d)]) @ acc" using ds(1) by simp
  ultimately show ?case using ds(2,3) dig val by (intro conjI exI [of _ "ds @ [char_of (48 + ?d)]"]) auto
qed

lemma fmtFrac_spec:
  assumes "0 \<le> v" "fmtFrac v p False [] = (fr, i)"
  shows "i = v div 10 ^ p \<and>
    (fr = [] \<and> v mod 10 ^ p = 0 \<or>
     (\<exists>ds. fr = ''.'' @ ds \<and> list_all is_digit ds \<and> ds \<noteq> [] \<and> length ds \<le> p \<and> decValue ds > 0 \<and>
        decValue ds * 10 ^ (p - length ds) = v mod 10 ^ p))"
  using assms
proof (induction p arbitrary: v)
  case 0
  then show ?case by simp
next
  case (Suc p)
  let ?d = "v mod 10"
  have split: "v mod 10 ^ Suc p = (v div 10 mod 10 ^ p) * 10 + ?d"
    by (simp add: zmod_zmult2_eq)
  show ?case
  proof (cases "?d = 0")
    case True
    then have "fmtFrac (v div 10) p False [] = (fr, i)" using Suc.prems by simp
    from Suc.IH [OF _ this] Suc.prems(1) have i: "i = v div 10 div 10 ^ p" and
      alt: "fr = [] \<and> v div 10 mod 10 ^ p = 0 \<or>
       (\<exists>ds. fr = ''.'' @ ds \<and> list_all is_digit ds \<and> ds \<noteq> [] \<and> length ds \<le> p \<and> decValue ds > 0 \<and>
        decValue ds * 10 ^ (p - length ds) = v div 10 mod 10 ^ p)" by auto
    have "i = v div 10 ^ Suc p" using i by (simp add: zdiv_zmult2_eq)
    moreover from alt have "fr = [] \<and> v mod 10 ^ Suc p = 0 \<or>
       (\<exists>ds. fr = ''.'' @ ds \<and> list_all is_digit ds \<and> ds \<noteq> [] \<and> length ds \<le> Suc p \<and> decValue ds > 0 \<and>
        decValue ds * 10 ^ (Suc p - length ds) = v mod 10 ^ Suc p)"
      using True split by (auto simp: Suc_diff_le)
    ultimately show ?thesis by blast
  next
    case False
    then have "fmtFrac (v div 10) p True [char_of (48 + ?d)] = (fr, i)"
      using Suc.prems by (simp add: Let_def)
    moreover have "0 \<le> v div 10" using Suc.prems(1) by simp
    ultimately obtain ds where
      i: "i = v div 10 div 10 ^ p" and ds: "fr = ''.'' @ ds @ [char_of (48 + ?d)]"
      "list_all is_digit ds" "length ds = p" "decValue ds = v div 10 mod 10 ^ p"
      using fmtFrac_printing by blast
    have dig: "is_digit (char_of (48 + ?d))" "digitVal (char_of (48 + ?d)) = ?d"
      using digit_char [of ?d] by auto
    have val: "decValue (ds @ [char_of (48 + ?d)]) = v mod 10 ^ Suc p"
      using ds(4) dig split by (simp add: decValue_def)
    have pos: "0 < v mod 10 ^ Suc p"
      using False split by (smt (verit) pos_mod_sign zero_less_power mult_nonneg_nonneg pos_mod_bound)
    have "i = v div 10 ^ Suc p" using i by (simp add: zdiv_zmult2_eq)
    with ds dig val pos show ?thesis
      by (intro conjI disjI2 exI [of _ "ds @ [char_of (48 + ?d)]"]) auto
  qed
qed

lemma bitLen_bounds: "0 < n \<Longrightarrow> 0 < bitLen n \<and> 2 ^ (bitLen n - 1) \<le> n \<and> n < 2 ^ bitLen n"
proof (induction n rule: bitLen.induct)
  case (1 n)
  show ?case
  proof (cases "n = 1")
    case True
    then show ?thesis by (simp add: bitLen.simps)
  next
    case False
    with "1" have h: "0 < bitLen (n div 2)" "2 ^ (bitLen (n div 2) - 1) \<le> n div 2" "n div 2 < 2 ^ bitLen (n div 2)"
      by auto
    obtain b where b: "bitLen (n div 2) = Suc b" using h(1) by (cases "bitLen (n div 2)") auto
    have "bitLen n = Suc (Suc b)" using "1.prems" b by (simp add: bitLen.simps [of n])
    with h b show ?thesis by auto
  qed
qed

lemma roundEven_of_int: "roundEven (of_int k) = k"
  by (simp add: roundEven_def Let_def)

lemma fl53_of_int:
  assumes "0 \<le> n" "n < 2 ^ 53"
  shows "fl53 (of_int n) = of_int n"
proof (cases "n = 0")
  case True
  then show ?thesis by (simp add: fl53_def)
next
  case False
  with assms(1) have pos: "0 < n" by simp
  obtain b where bl: "bitLen n = Suc b" using bitLen_bounds [OF pos] by (cases "bitLen n") auto
  have b: "2 ^ b \<le> n" using bitLen_bounds [OF pos] bl by simp
  have b52: "b \<le> 52"
  proof (rule ccontr)
    assume "\<not> b \<le> 52"
    then have "(2 :: int) ^ 53 \<le> 2 ^ b" by (intro power_increasing) auto
    with b assms(2) show False by simp
  qed
  have q: "quotient_of (of_int n) = (n, 1)"
    using quotient_of_int [of n] by (simp add: Rat.of_int_def)
  have bl1: "bitLen 1 = 1" by (simp add: bitLen.simps)
  have p2: "pow2 (int b) = of_int (2 ^ b)" by (simp add: pow2_def)
  have nlt: "\<not> (of_int n :: rat) < pow2 (int b)"
    unfolding p2 using b by (simp only: of_int_less_iff not_less)
  have u: "pow2 (int b - 52) = 1 / 2 ^ (52 - b)"
    using b52 by (cases "b = 52") (auto simp: pow2_def nat_diff_distrib')
  have "fl53 (of_int n) = of_int (roundEven (of_int n / (1 / 2 ^ (52 - b)))) * (1 / 2 ^ (52 - b))"
    using pos by (simp add: fl53_def q bl1 bl nlt u Let_def)
  also have "(of_int n :: rat) / (1 / 2 ^ (52 - b)) = of_int (n * 2 ^ (52 - b))" by simp
  also have "roundEven (of_int (n * 2 ^ (52 - b))) = n * 2 ^ (52 - b)" by (rule roundEven_of_int)
  finally show ?thesis by simp
qed

text \<open>A printed term is read back: a whole number with its unit, then a fraction of the unit.\<close>

lemma takeWhile_unit:
  assumes "list_all (\<lambda>c. \<not> is_num_char c) u" "r = [] \<or> is_num_char (hd r)"
  shows "takeWhile (\<lambda>c. \<not> is_num_char c) (u @ r) = u" "dropWhile (\<lambda>c. \<not> is_num_char c) (u @ r) = r"
  using assms by (induction u) (cases r, auto)+

lemma parseTerm_int:
  assumes "0 \<le> n" "map_of unitMap u = Some unit" "0 < unit" "n * unit \<le> 2 ^ 63"
    and u: "u \<noteq> []" "list_all (\<lambda>c. \<not> is_num_char c) u" and r: "r = [] \<or> is_num_char (hd r)"
  shows "parseTerm (decString n @ u @ r) = Some (n * unit, r)"
proof -
  have "n * 1 \<le> n * unit" using assms(1,3) by (intro mult_left_mono) auto
  then have n63: "n \<le> 2 ^ 63" using assms(4) by simp
  have hu: "\<not> is_num_char (hd u)" using u by (cases u) auto
  have li: "leadingInt 0 (decString n @ u @ r) = Some (n, u @ r)"
    by (rule decString_leadingInt) (use assms(1) n63 hu u(1) in \<open>auto simp: is_num_char_def\<close>)
  have dn: "decString n \<noteq> []" "is_num_char (hd (decString n))"
    using decString_digits [OF assms(1)] by (cases "decString n"; simp add: is_num_char_def)+
  have v: "\<not> n > 2 ^ 63 div unit"
    using zdiv_mono1 [OF assms(4,3)] assms(3) by simp
  have dot: "hd u \<noteq> CHR ''.''" using hu by (auto simp: is_num_char_def)
  show ?thesis
    using li dn u r v dot assms(2,4) takeWhile_unit [OF u(2) r]
    by (simp add: parseTerm_def Let_def)
qed

lemma parseTerm_frac:
  assumes n: "0 \<le> n" and un: "map_of unitMap u = Some unit" "unit = 10 ^ p" "p \<le> 9"
    and ds: "list_all is_digit ds" "ds \<noteq> []" "length ds \<le> p" "0 < decValue ds"
    and m: "decValue ds * 10 ^ (p - length ds) = m" "m < unit" and tot: "n * unit + m \<le> 2 ^ 63"
    and u: "u \<noteq> []" "list_all (\<lambda>c. \<not> is_num_char c) u" and r: "r = [] \<or> is_num_char (hd r)"
  shows "parseTerm (decString n @ (''.'' @ ds) @ u @ r) = Some (n * unit + m, r)"
proof -
  let ?f = "decValue ds" and ?k = "length ds"
  have unit0: "0 < unit" using un(2) by simp
  have m0: "0 < m" using m(1) ds(4) by auto
  have nu: "n * unit \<le> 2 ^ 63" using tot m0 by simp
  have "n * 1 \<le> n * unit" using n unit0 by (intro mult_left_mono) auto
  then have n63: "n \<le> 2 ^ 63" using nu by simp
  have hu: "\<not> is_num_char (hd u)" using u by (cases u) auto
  have li: "leadingInt 0 (decString n @ CHR ''.'' # ds @ u @ r) = Some (n, CHR ''.'' # ds @ u @ r)"
    by (rule decString_leadingInt) (use n n63 in \<open>auto simp: is_digit_def\<close>)
  have "(10 :: int) ^ ?k \<le> 10 ^ 18" using ds(3) un(3) by (intro power_increasing) auto
  then have lf: "leadingFraction 0 1 False (ds @ u @ r) = (?f, 10 ^ ?k, u @ r)"
    using leadingFraction_digits [of ds 0 "u @ r" 1] ds(1) u hu
    by (auto simp: is_num_char_def decValue_def)
  have p9: "(10 :: int) ^ p \<le> 10 ^ 9" using un(3) by (intro power_increasing) auto
  have "?f * 1 \<le> ?f * 10 ^ (p - ?k)" using ds(4) by (intro mult_left_mono) auto
  then have fb: "?f < 2 ^ 53" using m un(2) p9 by simp
  have "unit = 10 ^ (p - ?k) * 10 ^ ?k" using ds(3) un(2) by (simp flip: power_add)
  then have "(of_int unit :: rat) / of_int (10 ^ ?k) = of_int (10 ^ (p - ?k))" by simp
  moreover have "(10 :: int) ^ (p - ?k) \<le> 10 ^ 9" using un(3) by (intro power_increasing) auto
  ultimately have q: "fl53 (of_int unit / of_int (10 ^ ?k)) = of_int (10 ^ (p - ?k))"
    using fl53_of_int [of "10 ^ (p - ?k)"] by simp
  have fm: "(of_int ?f :: rat) * of_int (10 ^ (p - ?k)) = of_int m" using m(1) by (metis of_int_mult)
  have f1: "fl53 (of_int ?f) = of_int ?f" using fb ds(4) by (intro fl53_of_int) auto
  have m1: "fl53 (of_int m) = of_int m" using m(2) m0 un(2) p9 by (intro fl53_of_int) auto
  have fl: "fl53 (fl53 (of_int ?f) * fl53 (of_int unit / of_int (10 ^ ?k))) = of_int m"
    by (simp only: q f1 fm m1)
  have dn: "decString n \<noteq> []" "is_num_char (hd (decString n))"
    using decString_digits [OF n] by (cases "decString n"; simp add: is_num_char_def)+
  have v: "\<not> n > 2 ^ 63 div unit"
    using zdiv_mono1 [OF nu unit0] unit0 by simp
  show ?thesis
    using li lf fl dn u r v un(1) tot ds takeWhile_unit [OF u(2) r]
    by (simp add: parseTerm_def Let_def)
qed

lemma parseTerm_printed:
  assumes "0 \<le> v" "fmtFrac v p False [] = (fr, i)" "0 \<le> n" "n * 10 ^ p + v mod 10 ^ p \<le> 2 ^ 63" "p \<le> 9"
    and "map_of unitMap u = Some (10 ^ p)" "u \<noteq> []" "list_all (\<lambda>c. \<not> is_num_char c) u"
    and "r = [] \<or> is_num_char (hd r)"
  shows "parseTerm (decString n @ fr @ u @ r) = Some (n * 10 ^ p + v mod 10 ^ p, r)"
proof -
  from fmtFrac_spec [OF assms(1,2)] consider
    (none) "fr = []" "v mod 10 ^ p = 0"
  | (some) ds where "fr = ''.'' @ ds" "list_all is_digit ds" "ds \<noteq> []" "length ds \<le> p" "0 < decValue ds"
      "decValue ds * 10 ^ (p - length ds) = v mod 10 ^ p" by blast
  then show ?thesis
  proof cases
    case none
    then show ?thesis using parseTerm_int [of n u "10 ^ p" r] assms by simp
  next
    case some
    then show ?thesis
      using parseTerm_frac [of n u "10 ^ p" p ds "v mod 10 ^ p" r] assms by simp
  qed
qed

lemma parseTerms_step:
  "parseTerm s = Some (v, t) \<Longrightarrow> d + v \<le> 2 ^ 63 \<Longrightarrow> parseTerms d s = parseTerms (d + v) t"
  by (subst parseTerms.simps) (auto simp: parseTerm_def)

lemma parseTerms_Nil [simp]: "parseTerms d [] = Some d"
  by (simp add: parseTerms.simps)

lemma unitMap_units:
  "map_of unitMap ''ns'' = Some (10 ^ 0)" "map_of unitMap [CHR 0xC2, CHR 0xB5, CHR ''s''] = Some (10 ^ 3)"
  "map_of unitMap ''ms'' = Some (10 ^ 6)" "map_of unitMap ''s'' = Some (10 ^ 9)"
  "map_of unitMap ''m'' = Some Minute" "map_of unitMap ''h'' = Some Hour"
  by (simp_all add: unitMap_def duration_unit_defs)

lemma unit_chars:
  "list_all (\<lambda>c. \<not> is_num_char c) ''ns''" "list_all (\<lambda>c. \<not> is_num_char c) [CHR 0xC2, CHR 0xB5, CHR ''s'']"
  "list_all (\<lambda>c. \<not> is_num_char c) ''ms''" "list_all (\<lambda>c. \<not> is_num_char c) ''s''"
  "list_all (\<lambda>c. \<not> is_num_char c) ''m''" "list_all (\<lambda>c. \<not> is_num_char c) ''h''"
  by (simp_all add: is_num_char_def is_digit_def)

lemma decString_hd: "0 \<le> n \<Longrightarrow> is_digit (hd (decString n @ s))"
  using decString_digits [of n] by (cases "decString n") auto

lemma parseTerms_printed:
  assumes "0 \<le> v" "fmtFrac v p False [] = (fr, i)" "0 \<le> n" "0 \<le> d" "p \<le> 9"
    and "d + (n * 10 ^ p + v mod 10 ^ p) \<le> 2 ^ 63"
    and "map_of unitMap u = Some (10 ^ p)" "u \<noteq> []" "list_all (\<lambda>c. \<not> is_num_char c) u"
  shows "parseTerms d (decString n @ fr @ u) = Some (d + (n * 10 ^ p + v mod 10 ^ p))"
proof -
  have "parseTerm (decString n @ fr @ u @ []) = Some (n * 10 ^ p + v mod 10 ^ p, [])"
    using assms by (intro parseTerm_printed) auto
  with assms(6) show ?thesis by (simp add: parseTerms_step)
qed

lemma parseTerms_unit:
  assumes "0 \<le> n" "0 \<le> d" "d + n * unit \<le> 2 ^ 63" "map_of unitMap u = Some unit" "0 < unit"
    and "u \<noteq> []" "list_all (\<lambda>c. \<not> is_num_char c) u" "is_digit (hd r)"
  shows "parseTerms d (decString n @ u @ r) = parseTerms (d + n * unit) r"
proof -
  have "parseTerm (decString n @ u @ r) = Some (n * unit, r)"
    using assms by (intro parseTerm_int) (auto simp: is_num_char_def)
  with assms(3) show ?thesis by (simp add: parseTerms_step)
qed

lemma durationString_small_terms:
  assumes "0 \<le> d" "d < Second"
  shows "parseTerms 0 (durationString d) = Some d"
proof -
  have sub: "parseTerms 0 (decString i @ fr @ u) = Some d"
    if f: "fmtFrac d p False [] = (fr, i)" and p: "p \<le> 9"
      and u: "map_of unitMap u = Some (10 ^ p)" "u \<noteq> []" "list_all (\<lambda>c. \<not> is_num_char c) u" for p fr i u
  proof -
    have i: "i = d div 10 ^ p" using fmtFrac_spec [OF assms(1) f] by simp
    have tot: "i * 10 ^ p + d mod 10 ^ p = d" unfolding i by (rule div_mult_mod_eq)
    have i0: "0 \<le> i" using assms(1) i by (simp add: pos_imp_zdiv_nonneg_iff)
    show ?thesis
      using parseTerms_printed [OF assms(1) f i0 _ p _ u, of 0] tot assms by (simp add: Second_def)
  qed
  obtain f3 i3 where f3: "fmtFrac d 3 False [] = (f3, i3)" by (metis surj_pair)
  obtain f6 i6 where f6: "fmtFrac d 6 False [] = (f6, i6)" by (metis surj_pair)
  have zero: "decString 0 = ''0''"
    by (subst decString.simps) (simp, code_simp)
  consider "d = 0" | (ns) "0 < d" "d < Microsecond" | (us) "Microsecond \<le> d" "d < Millisecond"
    | (ms) "Millisecond \<le> d"
    using assms(1) by force
  then show ?thesis
  proof cases
    case 1
    then show ?thesis
      using parseTerms_unit [of 0 0 "10 ^ 9" "''s''" "''0''"] parseTerms_printed [of 0 0 "[]" 0 0 0 "''ns''"]
        parseTerms_printed [of 0 9 "[]" 0 0 0 "''s''"] unitMap_units unit_chars zero
      by (simp add: durationString_def Second_def Let_def eval_nat_numeral)
  next
    case ns
    then show ?thesis
      using sub [of 0 "[]" d "''ns''"] unitMap_units(1) unit_chars(1) assms
      by (simp add: durationString_def duration_unit_defs)
  next
    case us
    then show ?thesis
      using sub [OF f3 _ unitMap_units(2) _ unit_chars(2)] f3 assms
      by (simp add: durationString_def duration_unit_defs)
  next
    case ms
    then show ?thesis
      using sub [OF f6 _ unitMap_units(3) _ unit_chars(3)] f6 assms
      by (simp add: durationString_def duration_unit_defs)
  qed
qed

lemma durationString_large_terms:
  assumes "Second \<le> d" "d < 2 ^ 63"
  shows "parseTerms 0 (durationString d) = Some d"
proof -
  obtain fr secs where f: "fmtFrac d 9 False [] = (fr, secs)" by (metis surj_pair)
  have d0: "0 \<le> d" using assms(1) by (simp add: Second_def)
  have secs: "secs = d div 10 ^ 9" using fmtFrac_spec [OF d0 f] by simp
  let ?mins = "secs div 60" and ?ns = "d mod 10 ^ 9"
  let ?hours = "?mins div 60"
  have s0: "0 \<le> secs" "0 \<le> ?ns" using d0 secs by simp_all
  have tot: "?hours * Hour + (?mins mod 60) * Minute + (secs mod 60 * 10 ^ 9 + ?ns) = d"
  proof -
    have p9: "(10 :: int) ^ 9 = 1000000000" by simp
    have "secs * 10 ^ 9 + ?ns = d" unfolding secs by (rule div_mult_mod_eq)
    moreover have "?mins * 60 + secs mod 60 = secs" by (rule div_mult_mod_eq)
    moreover have "?hours * 60 + ?mins mod 60 = ?mins" by (rule div_mult_mod_eq)
    ultimately show ?thesis unfolding Hour_def Minute_def p9 by linarith
  qed
  let ?sec = "decString (secs mod 60) @ fr @ ''s''"
  let ?min = "(if ?mins > 0 then decString (?mins mod 60) @ ''m'' else []) @ ?sec"
  have str: "durationString d = (if ?hours > 0 then decString ?hours @ ''h'' else []) @ ?min"
    using assms f by (simp add: durationString_def duration_unit_defs Let_def)
  have secp: "parseTerms a ?sec = Some (a + (secs mod 60 * 10 ^ 9 + ?ns))"
    if "0 \<le> a" "a + (secs mod 60 * 10 ^ 9 + ?ns) \<le> 2 ^ 63" for a
    by (rule parseTerms_printed [OF d0 f]) (use that s0 unitMap_units(4) unit_chars(4) in auto)
  have minp: "parseTerms a ?min = Some (a + ?mins mod 60 * Minute + (secs mod 60 * 10 ^ 9 + ?ns))"
    if "0 \<le> a" "a + ?mins mod 60 * Minute + (secs mod 60 * 10 ^ 9 + ?ns) \<le> 2 ^ 63" for a
  proof (cases "?mins > 0")
    case True
    have m0: "0 \<le> ?mins mod 60" by simp
    have x0: "0 \<le> secs mod 60 * 10 ^ 9 + ?ns" using s0 by simp
    have mle: "a + ?mins mod 60 * Minute \<le> 2 ^ 63" using that(2) x0 by linarith
    have dig: "is_digit (hd ?sec)" using s0 by (auto simp: decString_hd)
    have "parseTerms a (decString (?mins mod 60) @ ''m'' @ ?sec) = parseTerms (a + ?mins mod 60 * Minute) ?sec"
      by (rule parseTerms_unit [OF m0 that(1) mle unitMap_units(5) _ _ unit_chars(5) dig])
        (simp_all add: Minute_def)
    moreover have "0 \<le> a + ?mins mod 60 * Minute" using that(1) m0 by (simp add: Minute_def)
    note secp [OF this that(2)]
    moreover have "?min = decString (?mins mod 60) @ ''m'' @ ?sec"
      using True by (simp only: if_True append_assoc)
    ultimately show ?thesis by (simp only:)
  next
    case False
    with s0 have "?mins = 0" by simp
    with secp [of a] that show ?thesis by simp
  qed
  show ?thesis
  proof (cases "?hours > 0")
    case True
    have hd: "is_digit (hd ?min)" using s0 by (auto simp: decString_hd)
    have m0: "0 \<le> ?mins mod 60 * Minute" by (simp add: Minute_def)
    have x0: "0 \<le> secs mod 60 * 10 ^ 9 + ?ns" using s0 by simp
    have h0: "0 \<le> ?hours * Hour" using s0 by (simp add: Hour_def)
    have hle: "?hours * Hour \<le> 2 ^ 63" using tot m0 x0 assms(2) by linarith
    have "parseTerms 0 (decString ?hours @ ''h'' @ ?min) = parseTerms (0 + ?hours * Hour) ?min"
      by (rule parseTerms_unit) (use hd s0 unitMap_units(6) unit_chars(6) hle in \<open>simp_all add: Hour_def del: hd_append2\<close>)
    moreover have "parseTerms (0 + ?hours * Hour) ?min = Some d"
    proof -
      have "?hours * Hour + ?mins mod 60 * Minute + (secs mod 60 * 10 ^ 9 + ?ns) \<le> 2 ^ 63"
        using tot assms(2) by linarith
      from minp [OF h0 this] show ?thesis by (simp only: tot add_0)
    qed
    moreover have "durationString d = decString ?hours @ ''h'' @ ?min"
      using True by (simp only: str if_True append_assoc)
    ultimately show ?thesis by (simp only:)
  next
    case False
    with s0 have "?hours = 0" by simp
    with minp [of 0] tot assms(2) str show ?thesis by simp
  qed
qed

lemma durationString_last:
  assumes "0 \<le> d"
  shows "durationString d \<noteq> [] \<and> last (durationString d) = CHR ''s''"
proof -
  have abs: "\<bar>d\<bar> = d" "\<not> d < 0" using assms by simp_all
  obtain f3 i3 f6 i6 f9 i9 where "fmtFrac d 3 False [] = (f3, i3)" "fmtFrac d 6 False [] = (f6, i6)"
    "fmtFrac d 9 False [] = (f9, i9)" by (metis surj_pair)
  then show ?thesis unfolding durationString_def abs by (simp add: Let_def abs)
qed

theorem parseDurationText_durationString:
  assumes "0 \<le> d" "d < 2 ^ 63"
  shows "parseDurationText (durationString d) = Some d"
proof -
  have terms: "parseTerms 0 (durationString d) = Some d"
    using assms durationString_small_terms durationString_large_terms by (cases "d < Second") auto
  have h: "durationString d \<noteq> []" "durationString d \<noteq> ''0''"
    using durationString_last [OF assms(1)] by auto
  then have "is_num_char (hd (durationString d))"
    using terms by (auto simp: parseTerms.simps [of 0] parseTerm_def split: if_splits)
  then have "hd (durationString d) \<noteq> CHR ''-''" "hd (durationString d) \<noteq> CHR ''+''"
    by (auto simp: is_num_char_def is_digit_def)
  with h terms assms show ?thesis by (simp add: parseDurationText_def Let_def)
qed

end
