(* ===== verification/Go_Json.thy ===== *)
theory Go_Json
  imports Go_Encoding
begin

text \<open>
  The part of \<open>encoding/json\<close> the program relies on, above the token level: a JSON text is the
  tree it denotes, \<open>json.Unmarshal\<close> decodes a tree \<^emph>\<open>into\<close> an existing Go value and
  \<open>json.Encoder\<close> produces one.  The decoder follows the library: an object key selects the
  struct field of that exact name, else the field equal under simple case folding; unknown keys
  are skipped unless the decoder disallows them; \<open>null\<close> leaves strings, numbers and structs
  alone and clears maps and pointers; a repeated key decodes into what the first occurrence
  left.  The encoder sorts the keys of a map, leaves out empty \<open>omitempty\<close> fields and replaces
  bytes that are not UTF-8.  A nil map and an empty map are one value here: no reader in the
  program tells them apart.
\<close>

datatype json = JNull | JBool bool | JNum string | JStr string | JArr "json list" | JObj "(string \<times> json) list"

datatype json_err = TypeMismatch | UnknownField string

section \<open>UTF-8 in encoded strings\<close>

definition cont_byte :: "char \<Rightarrow> bool" where
  "cont_byte c \<longleftrightarrow> CHR 0x80 \<le> c \<and> c \<le> CHR 0xBF"

definition byte_between :: "char \<Rightarrow> char \<Rightarrow> char \<Rightarrow> bool" where
  "byte_between lo hi c \<longleftrightarrow> lo \<le> c \<and> c \<le> hi"

text \<open>The length of the UTF-8 sequence a string starts with, 0 when it starts with none.\<close>

definition runeLen :: "string \<Rightarrow> nat" where
  "runeLen s =
     (case s of
        [] \<Rightarrow> 0
      | a # r \<Rightarrow>
          if a < CHR 0x80 then 1
          else if byte_between (CHR 0xC2) (CHR 0xDF) a then
            (if length r \<ge> 1 \<and> cont_byte (r ! 0) then 2 else 0)
          else if byte_between (CHR 0xE0) (CHR 0xEF) a then
            (if length r \<ge> 2 \<and> cont_byte (r ! 1) \<and>
                (if a = CHR 0xE0 then byte_between (CHR 0xA0) (CHR 0xBF) (r ! 0)
                 else if a = CHR 0xED then byte_between (CHR 0x80) (CHR 0x9F) (r ! 0)
                 else cont_byte (r ! 0))
             then 3 else 0)
          else if byte_between (CHR 0xF0) (CHR 0xF4) a then
            (if length r \<ge> 3 \<and> cont_byte (r ! 1) \<and> cont_byte (r ! 2) \<and>
                (if a = CHR 0xF0 then byte_between (CHR 0x90) (CHR 0xBF) (r ! 0)
                 else if a = CHR 0xF4 then byte_between (CHR 0x80) (CHR 0x8F) (r ! 0)
                 else cont_byte (r ! 0))
             then 4 else 0)
          else 0)"

function coerceUTF8 :: "string \<Rightarrow> string" where
  "coerceUTF8 [] = []"
| "coerceUTF8 (a # r) =
     (case runeLen (a # r) of
        0 \<Rightarrow> [CHR 0xEF, CHR 0xBF, CHR 0xBD] @ coerceUTF8 r
      | Suc n \<Rightarrow> a # take n r @ coerceUTF8 (drop n r))"
  by pat_completeness auto
termination by (relation "measure length") auto

definition valid_utf8 :: "string \<Rightarrow> bool" where
  "valid_utf8 s \<longleftrightarrow> coerceUTF8 s = s"

lemma valid_utf8_ascii: "is_ascii s \<Longrightarrow> valid_utf8 s"
  unfolding valid_utf8_def
  by (induction s) (auto simp: is_ascii_def runeLen_def)

lemma runeLen_le: "runeLen s \<le> length s"
  by (auto simp: runeLen_def split: list.splits)

lemma runeLen_cases:
  assumes "runeLen (a # r) = Suc n"
  obtains "a < CHR 0x80" "n = 0"
  | b s where "\<not> a < CHR 0x80" "byte_between (CHR 0xC2) (CHR 0xDF) a" "n = 1" "r = b # s" "cont_byte b"
  | b c s where "\<not> a < CHR 0x80" "\<not> byte_between (CHR 0xC2) (CHR 0xDF) a"
      "byte_between (CHR 0xE0) (CHR 0xEF) a" "n = 2" "r = b # c # s" "cont_byte c"
      "if a = CHR 0xE0 then byte_between (CHR 0xA0) (CHR 0xBF) b
       else if a = CHR 0xED then byte_between (CHR 0x80) (CHR 0x9F) b else cont_byte b"
  | b c d s where "\<not> a < CHR 0x80" "\<not> byte_between (CHR 0xC2) (CHR 0xDF) a"
      "\<not> byte_between (CHR 0xE0) (CHR 0xEF) a" "byte_between (CHR 0xF0) (CHR 0xF4) a"
      "n = 3" "r = b # c # d # s" "cont_byte c" "cont_byte d"
      "if a = CHR 0xF0 then byte_between (CHR 0x90) (CHR 0xBF) b
       else if a = CHR 0xF4 then byte_between (CHR 0x80) (CHR 0x8F) b else cont_byte b"
proof -
  have l: "\<exists>b s. r = b # s" if "length r \<ge> 1" using that by (cases r) auto
  have l2: "\<exists>b c s. r = b # c # s" if "length r \<ge> 2"
    using that by (cases r; cases "tl r") auto
  have l3: "\<exists>b c d s. r = b # c # d # s" if "length r \<ge> 3"
    using that by (cases r; cases "tl r"; cases "tl (tl r)") auto
  consider (1) "a < CHR 0x80"
    | (2) "\<not> a < CHR 0x80" "byte_between (CHR 0xC2) (CHR 0xDF) a"
    | (3) "\<not> a < CHR 0x80" "\<not> byte_between (CHR 0xC2) (CHR 0xDF) a" "byte_between (CHR 0xE0) (CHR 0xEF) a"
    | (4) "\<not> a < CHR 0x80" "\<not> byte_between (CHR 0xC2) (CHR 0xDF) a" "\<not> byte_between (CHR 0xE0) (CHR 0xEF) a"
    by blast
  then show ?thesis
  proof cases
    case 1
    with assms that(1) show ?thesis by (simp add: runeLen_def)
  next
    case 2
    with assms have c: "length r \<ge> 1" "cont_byte (r ! 0)" "n = 1"
      by (simp_all add: runeLen_def split: if_split_asm)
    with l 2 that(2) show ?thesis by fastforce
  next
    case 3
    with assms have c: "length r \<ge> 2 \<and> cont_byte (r ! 1) \<and>
        (if a = CHR 0xE0 then byte_between (CHR 0xA0) (CHR 0xBF) (r ! 0)
         else if a = CHR 0xED then byte_between (CHR 0x80) (CHR 0x9F) (r ! 0) else cont_byte (r ! 0))"
      "n = 2"
      by (simp_all only: runeLen_def list.case if_False if_True simp_thms split: if_split_asm)
    with l2 obtain b c' s where r: "r = b # c' # s" by blast
    then have "r ! 0 = b" "r ! 1 = c'" by simp_all
    with c r 3 that(3) [of b c' s] show ?thesis by metis
  next
    case 4
    have f4: "byte_between (CHR 0xF0) (CHR 0xF4) a" using 4 assms by (simp add: runeLen_def split: if_split_asm)
    with 4 assms have c: "length r \<ge> 3 \<and> cont_byte (r ! 1) \<and> cont_byte (r ! 2) \<and>
        (if a = CHR 0xF0 then byte_between (CHR 0x90) (CHR 0xBF) (r ! 0)
         else if a = CHR 0xF4 then byte_between (CHR 0x80) (CHR 0x8F) (r ! 0) else cont_byte (r ! 0))"
      "n = 3"
      by (simp_all only: runeLen_def list.case if_False if_True simp_thms split: if_split_asm)
    with l3 obtain b c' d s where r: "r = b # c' # d # s" by blast
    then have "r ! 0 = b" "r ! 1 = c'" "r ! 2 = d" by (simp_all add: eval_nat_numeral)
    with c r 4 f4 that(4) [of b c' d s] show ?thesis by metis
  qed
qed

lemma runeLen_prefix:
  assumes "runeLen (a # r) = Suc n"
  shows "runeLen (a # take n r @ t) = Suc n"
  using assms
  by (cases rule: runeLen_cases)
    (simp_all only: runeLen_def list.case if_False if_True simp_thms, simp_all add: eval_nat_numeral)

lemma coerceUTF8_idem [simp]: "coerceUTF8 (coerceUTF8 s) = coerceUTF8 s"
proof (induction s rule: coerceUTF8.induct)
  case (2 a r)
  show ?case
  proof (cases "runeLen (a # r)")
    case 0
    have "runeLen (CHR 0xEF # CHR 0xBF # CHR 0xBD # t) = 3" for t
      by (simp add: runeLen_def byte_between_def cont_byte_def)
    with 0 "2.IH"(1) [OF 0] show ?thesis by (simp add: eval_nat_numeral)
  next
    case (Suc n)
    have "n \<le> length r" using runeLen_le [of "a # r"] Suc by simp
    with Suc "2.IH"(2) [OF Suc] runeLen_prefix [OF Suc] show ?thesis by simp
  qed
qed simp

lemma valid_utf8_coerce [simp]: "valid_utf8 (coerceUTF8 s)"
  by (simp add: valid_utf8_def)

lemma is_ascii_append [simp]: "is_ascii (s @ t) \<longleftrightarrow> is_ascii s \<and> is_ascii t"
  by (simp add: is_ascii_def)

lemma is_ascii_Nil [simp]: "is_ascii []"
  by (simp add: is_ascii_def)

lemma is_ascii_Cons [simp]: "is_ascii (c # s) \<longleftrightarrow> c < CHR 0x80 \<and> is_ascii s"
  by (simp add: is_ascii_def)

lemma valid_utf8_Nil [simp]: "valid_utf8 []"
  by (simp add: valid_utf8_def)

section \<open>Decoding into a Go value\<close>

type_synonym 'a dec = "json \<Rightarrow> 'a \<Rightarrow> json_err + 'a"

fun dec_string :: "string dec" where
  "dec_string (JStr s) old = Inr (coerceUTF8 s)"
| "dec_string JNull old = Inr old"
| "dec_string _ old = Inl TypeMismatch"

fun dec_bool :: "bool dec" where
  "dec_bool (JBool b) old = Inr b"
| "dec_bool JNull old = Inr old"
| "dec_bool _ old = Inl TypeMismatch"

fun dec_uint :: "nat \<Rightarrow> int dec" where
  "dec_uint bits (JNum s) old =
     (case parseUint s bits of None \<Rightarrow> Inl TypeMismatch | Some n \<Rightarrow> Inr n)"
| "dec_uint bits JNull old = Inr old"
| "dec_uint bits _ old = Inl TypeMismatch"

text \<open>\<open>strconv.ParseInt\<close> in base 10, as the decoder applies it to a number literal.\<close>

definition parseInt :: "string \<Rightarrow> nat \<Rightarrow> int option" where
  "parseInt s bits =
     (case s of
        [] \<Rightarrow> None
      | c # r \<Rightarrow>
          if c = CHR ''-'' then
            (case parseUint r 64 of
               Some n \<Rightarrow> if n \<le> 2 ^ (bits - 1) then Some (- n) else None
             | None \<Rightarrow> None)
          else
            (case parseUint s 64 of
               Some n \<Rightarrow> if n < 2 ^ (bits - 1) then Some n else None
             | None \<Rightarrow> None))"

fun dec_int :: "nat \<Rightarrow> int dec" where
  "dec_int bits (JNum s) old =
     (case parseInt s bits of None \<Rightarrow> Inl TypeMismatch | Some n \<Rightarrow> Inr n)"
| "dec_int bits JNull old = Inr old"
| "dec_int bits _ old = Inl TypeMismatch"

fun dec_map :: "'v dec \<Rightarrow> 'v \<Rightarrow> 'v gomap dec" where
  "dec_map d zero (JObj kvs) old =
     rfold (\<lambda>(k, j) m. case d j zero of Inl e \<Rightarrow> Inl e | Inr v \<Rightarrow> Inr (AList.update (coerceUTF8 k) v m)) kvs old"
| "dec_map d zero JNull old = Inr []"
| "dec_map d zero _ old = Inl TypeMismatch"

fun dec_ptr :: "'v dec \<Rightarrow> 'v \<Rightarrow> 'v option dec" where
  "dec_ptr d zero JNull old = Inr None"
| "dec_ptr d zero j old =
     (case d j (case old of None \<Rightarrow> zero | Some v \<Rightarrow> v) of Inl e \<Rightarrow> Inl e | Inr v \<Rightarrow> Inr (Some v))"

text \<open>A slice; \<open>None\<close> is the nil slice.  Element \<open>i\<close> is decoded over the old element \<open>i\<close>.\<close>

fun dec_elems :: "'v dec \<Rightarrow> 'v \<Rightarrow> json list \<Rightarrow> 'v list \<Rightarrow> json_err + 'v list" where
  "dec_elems d zero [] olds = Inr []"
| "dec_elems d zero (j # js) olds =
     (case d j (case olds of [] \<Rightarrow> zero | v # _ \<Rightarrow> v) of
        Inl e \<Rightarrow> Inl e
      | Inr v \<Rightarrow> (case dec_elems d zero js (tl olds) of Inl e \<Rightarrow> Inl e | Inr vs \<Rightarrow> Inr (v # vs)))"

fun dec_slice :: "'v dec \<Rightarrow> 'v \<Rightarrow> 'v list option dec" where
  "dec_slice d zero (JArr js) old =
     (case dec_elems d zero js (case old of None \<Rightarrow> [] | Some vs \<Rightarrow> vs) of Inl e \<Rightarrow> Inl e | Inr vs \<Rightarrow> Inr (Some vs))"
| "dec_slice d zero JNull old = Inr None"
| "dec_slice d zero _ old = Inl TypeMismatch"

definition elems :: "'v list option \<Rightarrow> 'v list" where
  "elems s = (case s of None \<Rightarrow> [] | Some vs \<Rightarrow> vs)"

type_synonym 's fields = "(string \<times> 's dec) list"

definition fieldFor :: "'s fields \<Rightarrow> string \<Rightarrow> 's dec option" where
  "fieldFor fs k =
     (case map_of fs k of
        Some f \<Rightarrow> Some f
      | None \<Rightarrow> map_option snd (find (\<lambda>(n, _). foldName n = foldName k) fs))"

fun dec_struct :: "bool \<Rightarrow> 's fields \<Rightarrow> 's dec" where
  "dec_struct strict fs (JObj kvs) old =
     rfold (\<lambda>(k, j) s.
       case fieldFor fs (coerceUTF8 k) of
         Some f \<Rightarrow> f j s
       | None \<Rightarrow> if strict then Inl (UnknownField k) else Inr s) kvs old"
| "dec_struct strict fs JNull old = Inr old"
| "dec_struct strict fs _ old = Inl TypeMismatch"

text \<open>A field decoder from the record's selector and update function.\<close>

definition field :: "string \<Rightarrow> 'a dec \<Rightarrow> ('s \<Rightarrow> 'a) \<Rightarrow> (('a \<Rightarrow> 'a) \<Rightarrow> 's \<Rightarrow> 's) \<Rightarrow> string \<times> 's dec" where
  "field n d get upd =
     (n, \<lambda>j s. case d j (get s) of Inl e \<Rightarrow> Inl e | Inr v \<Rightarrow> Inr (upd (\<lambda>_. v) s))"

section \<open>Encoding\<close>

definition enc_string :: "string \<Rightarrow> json" where
  "enc_string s = JStr (coerceUTF8 s)"

definition enc_int :: "int \<Rightarrow> json" where
  "enc_int n = JNum (if n < 0 then ''-'' @ decString (- n) else decString n)"

definition enc_map :: "('v \<Rightarrow> json) \<Rightarrow> 'v gomap \<Rightarrow> json" where
  "enc_map e m = JObj (map (\<lambda>(k, v). (coerceUTF8 k, e v)) (sort_key fst m))"

definition enc_slice :: "('v \<Rightarrow> json) \<Rightarrow> 'v list option \<Rightarrow> json" where
  "enc_slice e s = (case s of None \<Rightarrow> JNull | Some vs \<Rightarrow> JArr (map e vs))"

text \<open>A struct field, and one marked \<open>omitempty\<close> that is written only when not empty.\<close>

definition emit :: "string \<Rightarrow> json \<Rightarrow> (string \<times> json) list" where
  "emit n j = [(n, j)]"

definition emitIf :: "bool \<Rightarrow> string \<Rightarrow> json \<Rightarrow> (string \<times> json) list" where
  "emitIf present n j = (if present then [(n, j)] else [])"

section \<open>Round trips\<close>

lemma coerceUTF8_ascii: "is_ascii s \<Longrightarrow> coerceUTF8 s = s"
  using valid_utf8_ascii by (simp add: valid_utf8_def)

text \<open>Evaluation of a struct decoder on the keys its encoder wrote.\<close>

lemma dec_struct_field:
  "map_of fs k = Some f \<Longrightarrow> is_ascii k \<Longrightarrow>
   dec_struct strict fs (JObj ((k, j) # kvs)) s =
     (case f j s of Inl e \<Rightarrow> Inl e | Inr s' \<Rightarrow> dec_struct strict fs (JObj kvs) s')"
proof -
  assume "map_of fs k = Some f" "is_ascii k"
  then have "fieldFor fs (coerceUTF8 k) = Some f" by (simp add: fieldFor_def coerceUTF8_ascii)
  then show ?thesis by (simp split: sum.split)
qed

lemma dec_struct_done: "dec_struct strict fs (JObj []) s = Inr s"
  by simp

declare coerceUTF8.simps(2) [simp del]
declare dec_struct.simps [simp del]

lemmas struct_simps = emit_def emitIf_def field_def dec_struct_field dec_struct_done

lemma dec_string_enc: "valid_utf8 s \<Longrightarrow> dec_string (enc_string s) old = Inr s"
  by (simp add: enc_string_def valid_utf8_def)

lemma dec_uint_enc: "0 \<le> n \<Longrightarrow> n < 2 ^ bits \<Longrightarrow> dec_uint bits (enc_int n) old = Inr n"
  by (simp add: enc_int_def parseUint_decString)

lemma dec_int_enc:
  assumes "- (2 ^ (bits - 1)) \<le> n" "n < 2 ^ (bits - 1)" "bits \<le> 64"
  shows "dec_int bits (enc_int n) old = Inr n"
proof -
  have le: "(2 :: int) ^ (bits - 1) \<le> 2 ^ 63" using assms(3) by (intro power_increasing) auto
  have p: "parseUint (decString \<bar>n\<bar>) 64 = Some \<bar>n\<bar>"
    by (rule parseUint_decString) (use assms(1,2) le in \<open>auto simp: abs_if\<close>)
  have d: "list_all is_digit (decString \<bar>n\<bar>) \<and> decString \<bar>n\<bar> \<noteq> []"
    by (rule decString_digits) simp
  then have "hd (decString \<bar>n\<bar>) \<noteq> CHR ''-''"
    by (cases "decString \<bar>n\<bar>") (auto simp: is_digit_def)
  with p d assms(1,2) show ?thesis
    by (cases "decString \<bar>n\<bar>") (auto simp: enc_int_def parseInt_def abs_if split: if_splits)
qed

lemma dec_uint_range:
  "dec_uint bits j old = Inr n \<Longrightarrow> 0 \<le> old \<Longrightarrow> old < 2 ^ bits \<Longrightarrow> 0 \<le> n \<and> n < 2 ^ bits"
  by (cases j) (auto split: option.splits dest: parseUint_range)

lemma dec_int_range:
  assumes "dec_int bits j old = Inr n" "- (2 ^ (bits - 1)) \<le> old" "old < 2 ^ (bits - 1)"
  shows "- (2 ^ (bits - 1)) \<le> n \<and> n < 2 ^ (bits - 1)"
proof (cases j)
  case (JNum s)
  have p: "0 < (2 :: int) ^ (bits - 1)" by simp
  from JNum assms show ?thesis
    by (auto simp: parseInt_def split: option.splits list.splits if_splits dest!: parseUint_range)
qed (use assms in auto)

lemma dec_string_utf8: "dec_string j old = Inr s \<Longrightarrow> valid_utf8 old \<Longrightarrow> valid_utf8 s"
  by (cases j) auto

lemma dec_elems_enc:
  "(\<And>v. v \<in> set vs \<Longrightarrow> d (e v) z = Inr v) \<Longrightarrow> dec_elems d z (map e vs) [] = Inr vs"
  by (induction vs) auto

lemma dec_slice_enc:
  "(\<And>v. v \<in> set (elems s) \<Longrightarrow> d (e v) z = Inr v) \<Longrightarrow> dec_slice d z (enc_slice e s) None = Inr s"
  by (cases s) (auto simp: enc_slice_def elems_def dec_elems_enc)

lemma dec_elems_all:
  assumes "dec_elems d z js olds = Inr vs" "\<And>j v w. d j w = Inr v \<Longrightarrow> Q w \<Longrightarrow> Q v" "Q z" "list_all Q olds"
  shows "list_all Q vs"
  using assms
proof (induction js arbitrary: olds vs)
  case (Cons j js)
  have "Q (case olds of [] \<Rightarrow> z | v # _ \<Rightarrow> v)" using Cons.prems(3,4) by (cases olds) auto
  moreover have "list_all Q (tl olds)" using Cons.prems(4) by (cases olds) auto
  ultimately show ?case using Cons.prems Cons.IH [of "tl olds"] by (auto split: sum.splits)
qed simp

lemma dec_slice_all:
  assumes "dec_slice d z j None = Inr s" "\<And>j v w. d j w = Inr v \<Longrightarrow> Q w \<Longrightarrow> Q v" "Q z"
  shows "list_all Q (elems s)"
  using assms by (cases j) (auto simp: elems_def split: sum.splits intro: dec_elems_all)

lemma dec_struct_invariant:
  assumes "dec_struct strict fs j s = Inr s'" "P s"
    and "\<And>n f j s s'. (n, f) \<in> set fs \<Longrightarrow> P s \<Longrightarrow> f j s = Inr s' \<Longrightarrow> P s'"
  shows "P s'"
proof (cases j)
  case (JObj kvs)
  have ff: "\<exists>n. (n, f) \<in> set fs" if "fieldFor fs k = Some f" for k f
    using that by (auto simp: fieldFor_def find_Some_iff split: option.splits dest: map_of_SomeD nth_mem)
      (metis nth_mem prod.collapse)
  from assms(1) JObj have "rfold (\<lambda>(k, j) s. case fieldFor fs (coerceUTF8 k) of Some f \<Rightarrow> f j s
      | None \<Rightarrow> if strict then Inl (UnknownField k) else Inr s) kvs s = Inr s'"
    by (simp add: dec_struct.simps)
  then show ?thesis
    by (rule rfold_invariant [where P = P])
      (use assms(2) in simp, use assms(3) ff in \<open>fastforce split: option.splits if_splits\<close>)
qed (use assms in \<open>auto simp: dec_struct.simps\<close>)

lemma dec_map_all:
  assumes "dec_map d z j old = Inr m"
    and "\<And>k v. (k, v) \<in> set old \<Longrightarrow> valid_utf8 k \<and> Q v"
    and "\<And>j v. d j z = Inr v \<Longrightarrow> Q v"
  shows "\<forall>(k, v) \<in> set m. valid_utf8 k \<and> Q v"
proof (cases j)
  case (JObj kvs)
  with assms(1) have "rfold (\<lambda>(k, j) m. case d j z of Inl e \<Rightarrow> Inl e | Inr v \<Rightarrow> Inr (AList.update (coerceUTF8 k) v m)) kvs old = Inr m"
    by simp
  then show ?thesis
    by (rule rfold_invariant [where P = "\<lambda>m. \<forall>(k, v) \<in> set m. valid_utf8 k \<and> Q v"])
      (use assms(2,3) in \<open>auto split: sum.splits dest!: set_update_cases\<close>)
qed (use assms in auto)

lemma dec_map_distinct:
  assumes "dec_map d z j old = Inr m" "distinct (map fst old)"
  shows "distinct (map fst m)"
proof (cases j)
  case (JObj kvs)
  with assms(1) have "rfold (\<lambda>(k, j) m. case d j z of Inl e \<Rightarrow> Inl e | Inr v \<Rightarrow> Inr (AList.update (coerceUTF8 k) v m)) kvs old = Inr m"
    by simp
  then show ?thesis
    by (rule rfold_invariant [where P = "\<lambda>m. distinct (map fst m)"])
      (use assms(2) in \<open>auto split: sum.splits\<close>)
qed (use assms in auto)

lemma update_append_new:
  "k \<notin> fst ` set m \<Longrightarrow> AList.update k v m = m @ [(k, v)]"
  by (induction m) auto

lemma rfold_update_distinct:
  assumes "distinct (map fst acc @ map fst kvs)" "\<And>k. k \<in> fst ` set kvs \<Longrightarrow> valid_utf8 k"
    and "\<And>k v. (k, v) \<in> set kvs \<Longrightarrow> d (e v) z = Inr (g v)"
  shows "rfold (\<lambda>(k, j) m. case d j z of Inl e \<Rightarrow> Inl e | Inr v \<Rightarrow> Inr (AList.update (coerceUTF8 k) v m))
      (map (\<lambda>(k, v). (k, e v)) kvs) acc = Inr (acc @ map (apsnd g) kvs)"
  using assms
proof (induction kvs arbitrary: acc)
  case (Cons kv kvs)
  obtain k v where kv: "kv = (k, v)" by (cases kv)
  have dv: "d (e v) z = Inr (g v)" by (rule Cons.prems(3) [of k]) (simp add: kv)
  have ck: "coerceUTF8 k = k" using Cons.prems(2) kv by (simp add: valid_utf8_def)
  have up: "AList.update k (g v) acc = acc @ [(k, g v)]"
    by (rule update_append_new) (use Cons.prems(1) kv in auto)
  have "rfold (\<lambda>(k, j) m. case d j z of Inl e \<Rightarrow> Inl e | Inr v \<Rightarrow> Inr (AList.update (coerceUTF8 k) v m))
      (map (\<lambda>(k, v). (k, e v)) kvs) (acc @ [(k, g v)]) = Inr ((acc @ [(k, g v)]) @ map (apsnd g) kvs)"
    using Cons.prems kv by (intro Cons.IH) auto
  with kv dv up ck show ?case by simp
qed simp

lemma dec_map_enc:
  assumes "distinct (map fst m)" "\<And>k. k \<in> fst ` set m \<Longrightarrow> valid_utf8 k"
    and "\<And>k v. (k, v) \<in> set m \<Longrightarrow> d (e v) z = Inr (g v)"
  shows "dec_map d z (enc_map e m) [] = Inr (map (apsnd g) (sort_key fst m))"
proof -
  have keys: "map (\<lambda>(k, v). (coerceUTF8 k, e v)) (sort_key fst m) =
      map (\<lambda>(k, v). (k, e v)) (sort_key fst m)"
    using assms(2) by (force simp: valid_utf8_def)
  have "distinct (map fst (sort_key fst m))"
    using assms(1) by (simp add: distinct_map)
  then have "rfold (\<lambda>(k, j) m. case d j z of Inl e \<Rightarrow> Inl e | Inr v \<Rightarrow> Inr (AList.update (coerceUTF8 k) v m))
      (map (\<lambda>(k, v). (k, e v)) (sort_key fst m)) [] = Inr ([] @ map (apsnd g) (sort_key fst m))"
    using rfold_update_distinct [of "[]" "sort_key fst m" d e z g] assms(2,3) by simp
  then show ?thesis by (simp add: enc_map_def keys)
qed

lemma map_of_apsnd_sort:
  assumes "distinct (map fst m)"
  shows "map_of (map (apsnd g) (sort_key fst m)) k = map_option g (map_of m k)"
proof -
  have "map_of (map (apsnd g) xs) k = map_option g (map_of xs k)" for xs :: "('a \<times> 'b) list"
    by (induction xs) auto
  then show ?thesis by (simp only: map_of_sort_key [OF assms])
qed

end
