(* ===== verification/Go_Sha256.thy ===== *)
theory Go_Sha256
  imports "HOL-Library.Word" Go_Encoding
begin

text \<open>
  \<open>crypto/sha256.Sum256\<close> on byte strings.  The program hashes invite and enrollment tokens
  with it, derives Kubernetes object names from identities and names blueprint namespaces.
  All arithmetic is on 32-bit words and wraps.
\<close>

unbundle bit_operations_syntax

type_synonym u32 = "32 word"

definition rotr :: "nat \<Rightarrow> u32 \<Rightarrow> u32" where
  "rotr n x = (drop_bit n x) OR (push_bit (32 - n) x)"

definition K256 :: "u32 list" where
  "K256 =
   [1116352408, 1899447441, 3049323471, 3921009573, 961987163, 1508970993,
    2453635748, 2870763221, 3624381080, 310598401, 607225278, 1426881987,
    1925078388, 2162078206, 2614888103, 3248222580, 3835390401, 4022224774,
    264347078, 604807628, 770255983, 1249150122, 1555081692, 1996064986,
    2554220882, 2821834349, 2952996808, 3210313671, 3336571891, 3584528711,
    113926993, 338241895, 666307205, 773529912, 1294757372, 1396182291,
    1695183700, 1986661051, 2177026350, 2456956037, 2730485921, 2820302411,
    3259730800, 3345764771, 3516065817, 3600352804, 4094571909, 275423344,
    430227734, 506948616, 659060556, 883997877, 958139571, 1322822218,
    1537002063, 1747873779, 1955562222, 2024104815, 2227730452, 2361852424,
    2428436474, 2756734187, 3204031479, 3329325298]"

type_synonym hstate = "u32 \<times> u32 \<times> u32 \<times> u32 \<times> u32 \<times> u32 \<times> u32 \<times> u32"

definition H256 :: hstate where
  "H256 = (1779033703, 3144134277, 1013904242, 2773480762, 1359893119, 2600822924, 528734635, 1541459225)"

definition be_word :: "char list \<Rightarrow> u32" where
  "be_word cs = fold (\<lambda>c w. push_bit 8 w OR word_of_int (of_char c)) cs 0"

fun chunks :: "nat \<Rightarrow> 'a list \<Rightarrow> 'a list list" where
  "chunks n [] = []"
| "chunks n (x # xs) = take n (x # xs) # chunks n (drop (n - 1) xs)"

definition sched_next :: "u32 list \<Rightarrow> u32" where
  "sched_next ws = (let a = ws ! 1; b = ws ! 14 in
     (rotr 17 b XOR rotr 19 b XOR drop_bit 10 b) + ws ! 9 + (rotr 7 a XOR rotr 18 a XOR drop_bit 3 a) + ws ! 0)"

fun sched :: "nat \<Rightarrow> u32 list \<Rightarrow> u32 list" where
  "sched 0 ws = ws"
| "sched (Suc n) ws = hd ws # sched n (tl ws @ [sched_next ws])"

fun sha_round :: "u32 \<times> u32 \<Rightarrow> hstate \<Rightarrow> hstate" where
  "sha_round (k, w) (a, b, c, d, e, f, g, h) =
     (let t1 = h + (rotr 6 e XOR rotr 11 e XOR rotr 25 e) + ((e AND f) XOR (NOT e AND g)) + k + w;
          t2 = (rotr 2 a XOR rotr 13 a XOR rotr 22 a) + ((a AND b) XOR (a AND c) XOR (b AND c))
      in (t1 + t2, a, b, c, d + t1, e, f, g))"

fun hadd :: "hstate \<Rightarrow> hstate \<Rightarrow> hstate" where
  "hadd (a, b, c, d, e, f, g, h) (a', b', c', d', e', f', g', h') =
     (a + a', b + b', c + c', d + d', e + e', f + f', g + g', h + h')"

definition sha_block :: "char list \<Rightarrow> hstate \<Rightarrow> hstate" where
  "sha_block blk st = hadd (fold sha_round (zip K256 (sched 48 (map be_word (chunks 4 blk)))) st) st"

definition sha_pad :: "string \<Rightarrow> string" where
  "sha_pad s = s @ [CHR 0x80] @ replicate ((119 - length s mod 64) mod 64) (CHR 0x00) @
     map (\<lambda>i. char_of (8 * int (length s) div 256 ^ (7 - i))) [0..<8]"

definition word_bytes :: "u32 \<Rightarrow> string" where
  "word_bytes w = map (\<lambda>i. char_of (uint (drop_bit (24 - 8 * i) w))) [0..<4]"

fun digest :: "hstate \<Rightarrow> string" where
  "digest (a, b, c, d, e, f, g, h) = concat (map word_bytes [a, b, c, d, e, f, g, h])"

definition sha256 :: "string \<Rightarrow> string" where
  "sha256 s = digest (fold sha_block (chunks 64 (sha_pad s)) H256)"

lemma length_word_bytes [simp]: "length (word_bytes w) = 4"
  by (simp add: word_bytes_def)

lemma length_digest [simp]: "length (digest h) = 32"
  by (cases h rule: digest.cases) simp

lemma length_sha256 [simp]: "length (sha256 s) = 32"
  by (simp add: sha256_def)

lemma length_hexEncode_sha256 [simp]: "length (hexEncode (sha256 s)) = 64"
  by simp

end
