(* ===== verification/Services.thy ===== *)
theory Services
  imports "HOL-Library.Multiset" Go_Duration Go_Json Go_Sha256
begin

text \<open>
  The data shared by the authorization packages (\<open>internal/authorization/credentials.go\<close>):
  a \<open>Service\<close> a user may reach, the \<open>Workload\<close> that is scaled for it, the patterns for
  identities and service names, and \<open>validateService\<close>, which normalises a service.
\<close>

record Workload =
  wl_Kind :: string
  wl_Namespace :: string
  wl_Name :: string
  wl_Replicas :: int
  wl_ReadyTimeout :: duration
  wl_IdleTimeout :: duration

record Service =
  svc_Name :: string
  svc_Target :: string
  svc_LocalPort :: int
  svc_Workload :: "Workload option"

definition minimumTokenLength :: nat where
  "minimumTokenLength = 16"

section \<open>Names\<close>

definition is_alnum :: "char \<Rightarrow> bool" where
  "is_alnum c \<longleftrightarrow> is_upper c \<or> is_lower c \<or> is_digit c"

text \<open>\<open>^[A-Za-z0-9][A-Za-z0-9._@-]{0,63}$\<close>\<close>

definition identity_char :: "char \<Rightarrow> bool" where
  "identity_char c \<longleftrightarrow> is_alnum c \<or> c \<in> set ''._@-''"

definition validIdentity :: "string \<Rightarrow> bool" where
  "validIdentity s \<longleftrightarrow> s \<noteq> [] \<and> is_alnum (hd s) \<and> list_all identity_char (tl s) \<and> length (tl s) \<le> 63"

text \<open>\<open>^[a-z][a-z0-9-]{0,31}$\<close>\<close>

definition service_char :: "char \<Rightarrow> bool" where
  "service_char c \<longleftrightarrow> is_lower c \<or> is_digit c \<or> c = CHR ''-''"

definition validServiceName :: "string \<Rightarrow> bool" where
  "validServiceName s \<longleftrightarrow> s \<noteq> [] \<and> is_lower (hd s) \<and> list_all service_char (tl s) \<and> length (tl s) \<le> 31"

datatype service_err =
    BadServiceName string | TargetNotHostPort string | TargetPort string | BadLocalPort int
  | KindRequired | NameRequired | NegativeReplicas | NegativeTimeout

definition validateWorkload :: "Workload \<Rightarrow> service_err + Workload" where
  "validateWorkload w =
     (if wl_Kind w = [] then Inl KindRequired
      else if wl_Name w = [] then Inl NameRequired
      else let w1 = (if wl_Replicas w = 0 then w\<lparr>wl_Replicas := 1\<rparr> else w) in
      if wl_Replicas w1 < 0 then Inl NegativeReplicas
      else let w2 = (if wl_ReadyTimeout w1 = 0 then w1\<lparr>wl_ReadyTimeout := 2 * Minute\<rparr> else w1) in
      if wl_ReadyTimeout w2 < 0 \<or> wl_IdleTimeout w2 < 0 then Inl NegativeTimeout
      else Inr w2)"

definition validateService :: "Service \<Rightarrow> service_err + Service" where
  "validateService s =
     (if \<not> validServiceName (svc_Name s) then Inl (BadServiceName (svc_Name s))
      else case splitHostPort (svc_Target s) of
        None \<Rightarrow> Inl (TargetNotHostPort (svc_Target s))
      | Some (host, portText) \<Rightarrow>
          if host = [] then Inl (TargetNotHostPort (svc_Target s))
          else (case parseUint portText 16 of
            None \<Rightarrow> Inl (TargetPort (svc_Target s))
          | Some port \<Rightarrow>
              if port = 0 then Inl (TargetPort (svc_Target s))
              else let s1 = (if svc_LocalPort s = 0 then s\<lparr>svc_LocalPort := port\<rparr> else s) in
              if svc_LocalPort s1 > 65535 then Inl (BadLocalPort (svc_LocalPort s1))
              else (case svc_Workload s1 of
                None \<Rightarrow> Inr s1
              | Some w \<Rightarrow>
                  (case validateWorkload w of
                     Inl e \<Rightarrow> Inl e
                   | Inr w' \<Rightarrow> Inr (s1\<lparr>svc_Workload := Some w'\<rparr>)))))"

definition parseDuration :: "string \<Rightarrow> duration \<Rightarrow> duration option" where
  "parseDuration v fallback = (if v = [] then Some fallback else parseDurationText v)"

section \<open>What validation guarantees\<close>

text \<open>The port of a \<open>host:port\<close> target.\<close>

definition targetPort :: "string \<Rightarrow> int option" where
  "targetPort t =
     (case splitHostPort t of
        None \<Rightarrow> None
      | Some (h, p) \<Rightarrow>
          if h = [] then None
          else case parseUint p 16 of None \<Rightarrow> None | Some n \<Rightarrow> if n = 0 then None else Some n)"

definition valid_workload :: "Workload \<Rightarrow> bool" where
  "valid_workload w \<longleftrightarrow> wl_Kind w \<noteq> [] \<and> wl_Name w \<noteq> [] \<and> 1 \<le> wl_Replicas w \<and>
     0 < wl_ReadyTimeout w \<and> 0 \<le> wl_IdleTimeout w"

definition valid_service :: "Service \<Rightarrow> bool" where
  "valid_service s \<longleftrightarrow> validServiceName (svc_Name s) \<and> targetPort (svc_Target s) \<noteq> None \<and>
     svc_LocalPort s \<noteq> 0 \<and> svc_LocalPort s \<le> 65535 \<and>
     (case svc_Workload s of None \<Rightarrow> True | Some w \<Rightarrow> valid_workload w)"

lemma targetPort_range: "targetPort t = Some p \<Longrightarrow> 1 \<le> p \<and> p \<le> 65535"
  by (auto simp: targetPort_def split: option.splits if_splits dest!: parseUint_range)

lemma validateWorkload_valid: "validateWorkload w = Inr w' \<Longrightarrow> valid_workload w'"
  by (auto simp: validateWorkload_def valid_workload_def Let_def Minute_def split: if_splits)

lemma validateWorkload_fix: "valid_workload w \<Longrightarrow> validateWorkload w = Inr w"
  by (auto simp: validateWorkload_def valid_workload_def Let_def)

lemma validateService_alt:
  "validateService s =
     (if \<not> validServiceName (svc_Name s) then Inl (BadServiceName (svc_Name s))
      else case targetPort (svc_Target s) of
        None \<Rightarrow>
          (case splitHostPort (svc_Target s) of
             Some (h, _) \<Rightarrow> if h = [] then Inl (TargetNotHostPort (svc_Target s)) else Inl (TargetPort (svc_Target s))
           | None \<Rightarrow> Inl (TargetNotHostPort (svc_Target s)))
      | Some port \<Rightarrow>
          let s1 = (if svc_LocalPort s = 0 then s\<lparr>svc_LocalPort := port\<rparr> else s) in
          if svc_LocalPort s1 > 65535 then Inl (BadLocalPort (svc_LocalPort s1))
          else (case svc_Workload s of
            None \<Rightarrow> Inr s1
          | Some w \<Rightarrow>
              (case validateWorkload w of
                 Inl e \<Rightarrow> Inl e
               | Inr w' \<Rightarrow> Inr (s1\<lparr>svc_Workload := Some w'\<rparr>))))"
  by (auto simp: validateService_def targetPort_def Let_def split: option.splits prod.splits)

lemma validateService_valid:
  assumes "validateService s = Inr s'"
  shows "valid_service s'" "svc_Name s' = svc_Name s" "svc_Target s' = svc_Target s"
    "svc_LocalPort s' = (if svc_LocalPort s = 0 then the (targetPort (svc_Target s)) else svc_LocalPort s)"
  using assms
  by (auto simp: validateService_alt valid_service_def Let_def
      split: if_splits option.splits prod.splits sum.splits
      dest: validateWorkload_valid targetPort_range)

lemma validateService_fix: "valid_service s \<Longrightarrow> validateService s = Inr s"
  by (auto simp: validateService_alt valid_service_def Let_def validateWorkload_fix split: option.splits)

lemma validateService_Inr_iff: "valid_service s \<longleftrightarrow> validateService s = Inr s"
  using validateService_fix validateService_valid(1) by blast

section \<open>Identities and names are ASCII\<close>

lemma alnum_ascii: "is_alnum c \<Longrightarrow> c < CHR 0x80"
proof -
  assume a: "is_alnum c"
  have b: "x < CHR 0x80" if "x \<le> CHR ''z''" for x :: char
  proof -
    have "CHR ''z'' < CHR 0x80" by simp
    with that show ?thesis by (rule le_less_trans)
  qed
  have "CHR ''Z'' \<le> CHR ''z''" "CHR ''9'' \<le> CHR ''z''" by simp_all
  then show ?thesis using a by (auto simp: is_alnum_def char_class_defs intro!: b elim: order_trans)
qed

lemma identity_char_ascii: "identity_char c \<Longrightarrow> c < CHR 0x80"
  using alnum_ascii by (auto simp: identity_char_def)

lemma identity_chars: "validIdentity s \<Longrightarrow> list_all identity_char s"
  by (cases s) (auto simp: validIdentity_def identity_char_def)

lemma service_chars: "validServiceName s \<Longrightarrow> list_all service_char s"
  by (cases s) (auto simp: validServiceName_def service_char_def)

lemma validIdentity_utf8: "validIdentity s \<Longrightarrow> valid_utf8 s"
  using identity_chars identity_char_ascii
  by (intro valid_utf8_ascii) (auto simp: is_ascii_def list_all_iff)

lemma validServiceName_utf8: "validServiceName s \<Longrightarrow> valid_utf8 s"
proof -
  assume v: "validServiceName s"
  have "c < CHR 0x80" if "service_char c" for c
    using that alnum_ascii [of c] by (auto simp: service_char_def is_alnum_def)
  with service_chars [OF v] show ?thesis
    by (intro valid_utf8_ascii) (auto simp: is_ascii_def list_all_iff)
qed

section \<open>Printed durations are UTF-8\<close>

lemma coerceUTF8_ascii_append: "is_ascii a \<Longrightarrow> coerceUTF8 (a @ b) = a @ coerceUTF8 b"
  by (induction a) (auto simp: runeLen_def coerceUTF8.simps(2))

lemma valid_utf8_ascii_append: "is_ascii a \<Longrightarrow> valid_utf8 b \<Longrightarrow> valid_utf8 (a @ b)"
  by (simp add: valid_utf8_def coerceUTF8_ascii_append)

lemma digits_ascii: "list_all is_digit s \<Longrightarrow> is_ascii s"
  using alnum_ascii by (auto simp: is_ascii_def list_all_iff is_alnum_def)

lemma decString_ascii: "0 \<le> n \<Longrightarrow> is_ascii (decString n)"
  by (rule digits_ascii) (use decString_digits in auto)

lemma fmtFrac_ascii:
  "0 \<le> v \<Longrightarrow> is_ascii acc \<Longrightarrow> fmtFrac v k b acc = (fr, i) \<Longrightarrow> is_ascii fr \<and> 0 \<le> i"
proof (induction v k b acc rule: fmtFrac.induct)
  case (2 v prec pr acc)
  have "is_digit (char_of (48 + v mod 10))" by (rule digit_char) auto
  then have "char_of (48 + v mod 10) < CHR 0x80" by (intro alnum_ascii) (simp add: is_alnum_def)
  with 2 show ?case by (auto simp: Let_def split: if_splits)
qed auto

lemma durationString_utf8: "0 \<le> d \<Longrightarrow> valid_utf8 (durationString d)"
proof -
  assume d: "0 \<le> d"
  obtain f3 i3 f6 i6 f9 i9 where f: "fmtFrac d 3 False [] = (f3, i3)" "fmtFrac d 6 False [] = (f6, i6)"
    "fmtFrac d 9 False [] = (f9, i9)" by (metis surj_pair)
  note a = fmtFrac_ascii [OF d is_ascii_Nil f(1)] fmtFrac_ascii [OF d is_ascii_Nil f(2)]
    fmtFrac_ascii [OF d is_ascii_Nil f(3)]
  have mu: "valid_utf8 [CHR 0xC2, CHR 0xB5, CHR ''s'']"
    by (simp add: valid_utf8_def coerceUTF8.simps(2) runeLen_def byte_between_def cont_byte_def)
  have "valid_utf8 (decString i3 @ f3 @ [CHR 0xC2, CHR 0xB5, CHR ''s''])"
    using a mu by (intro valid_utf8_ascii_append) (auto simp: decString_ascii)
  moreover have "\<bar>d\<bar> = d" "\<not> d < 0" using d by auto
  ultimately show ?thesis
    using f a d unfolding durationString_def
    by (auto simp: Let_def decString_ascii intro!: valid_utf8_ascii)
qed

section \<open>The contract of a policy\<close>

text \<open>
  \<open>authorization.Policy\<close>: the catalog of an identity and the resolution of one name.  A
  provider promises that the catalog is sorted by name, that each resolved service bears the
  name it was asked for, and that catalog and resolution agree.
\<close>

locale service_policy =
  fixes services :: "'s \<Rightarrow> string \<Rightarrow> 'e + Service list"
    and resolve :: "'s \<Rightarrow> string \<Rightarrow> string \<Rightarrow> Service option"
    and good :: "'s \<Rightarrow> bool"
  assumes catalog_sorted: "good s \<Longrightarrow> services s i = Inr xs \<Longrightarrow> sorted (map svc_Name xs)"
    and catalog_distinct: "good s \<Longrightarrow> services s i = Inr xs \<Longrightarrow> distinct (map svc_Name xs)"
    and catalog_resolve: "good s \<Longrightarrow> services s i = Inr xs \<Longrightarrow> x \<in> set xs \<longleftrightarrow> resolve s i (svc_Name x) = Some x"
    and resolve_name: "good s \<Longrightarrow> resolve s i n = Some x \<Longrightarrow> svc_Name x = n"
begin

lemma resolve_in_catalog:
  "good s \<Longrightarrow> services s i = Inr xs \<Longrightarrow> resolve s i n = Some x \<Longrightarrow> x \<in> set xs"
  using catalog_resolve resolve_name by metis

lemma resolve_iff_listed:
  assumes "good s" "services s i = Inr xs"
  shows "resolve s i n \<noteq> None \<longleftrightarrow> n \<in> svc_Name ` set xs"
proof
  assume "resolve s i n \<noteq> None"
  then obtain x where x: "resolve s i n = Some x" by auto
  then show "n \<in> svc_Name ` set xs"
    using resolve_in_catalog [OF assms x] resolve_name [OF assms(1) x] by auto
next
  assume "n \<in> svc_Name ` set xs"
  then show "resolve s i n \<noteq> None" using catalog_resolve [OF assms] by auto
qed

lemma catalog_determines:
  assumes "good s" "good s'" "services s i = Inr xs" "services s' i = Inr xs"
  shows "resolve s i n = resolve s' i n"
proof (cases "resolve s i n")
  case None
  then show ?thesis using resolve_iff_listed [OF assms(1,3), of n] resolve_iff_listed [OF assms(2,4), of n] by simp
next
  case (Some x)
  have "x \<in> set xs" "svc_Name x = n"
    using resolve_in_catalog [OF assms(1,3) Some] resolve_name [OF assms(1) Some] by auto
  then show ?thesis using catalog_resolve [OF assms(2,4)] Some by auto
qed

end

text \<open>
  The loop both providers share: a map of services by name is listed and sorted.  Map order
  does not matter, because the names are distinct.
\<close>

definition catalogOf :: "Service gomap \<Rightarrow> Service list" where
  "catalogOf m = sort_key svc_Name (map snd m)"

definition named :: "Service gomap \<Rightarrow> bool" where
  "named m \<longleftrightarrow> distinct (map fst m) \<and> (\<forall>(n, s) \<in> set m. svc_Name s = n)"

lemma named_names: "named m \<Longrightarrow> map (svc_Name \<circ> snd) m = map fst m"
  by (auto simp: named_def)

lemma catalogOf_sorted: "sorted (map svc_Name (catalogOf m))"
  by (simp add: catalogOf_def)

lemma catalogOf_distinct: "named m \<Longrightarrow> distinct (map svc_Name (catalogOf m))"
proof -
  assume m: "named m"
  have "mset (map svc_Name (catalogOf m)) = mset (map svc_Name (map snd m))"
    by (simp only: catalogOf_def mset_map mset_sort)
  moreover have "distinct (map svc_Name (map snd m))"
    unfolding map_map named_names [OF m] using m by (simp add: named_def)
  ultimately show ?thesis by (metis distinct_count_atmost_1 mset_eq_setD set_mset_mset)
qed

lemma catalogOf_resolve: "named m \<Longrightarrow> x \<in> set (catalogOf m) \<longleftrightarrow> map_of m (svc_Name x) = Some x"
  by (force simp: catalogOf_def named_def in_set_iff_lookup [symmetric] image_iff)

lemma named_update: "named m \<Longrightarrow> svc_Name s = n \<Longrightarrow> named (AList.update n s m)"
  by (auto simp: named_def set_update_distinct)

lemma named_resolve: "named m \<Longrightarrow> map_of m n = Some x \<Longrightarrow> svc_Name x = n"
  by (auto simp: named_def dest: map_of_SomeD)

end
