(* ===== verification/Go_Files.thy ===== *)
theory Go_Files
  imports "HOL-Library.Word" Go_Strings
begin

text \<open>
  The file system as the program uses it: \<open>os.Stat\<close>, \<open>os.ReadFile\<close>, \<open>os.MkdirAll\<close> and the
  replace-by-rename idiom (create a temporary file, protect it, write, sync, close, rename,
  remove the temporary name on return) that the credentials file, the registration store, the
  client profile and the client keys all use.

  A file system is a Go map from lexically clean paths to nodes.  A regular file has its nine
  permission bits and either a complete document or \<open>None\<close>, bytes that are no document (an
  unfinished write).  Every system call may fail: \<open>faults\<close> says which ones do.  The
  replace-by-rename idiom yields the list of all states it goes through, so that a crash at any
  moment is one of them.
\<close>

unbundle bit_operations_syntax

type_synonym perm = "9 word"

datatype 'c node = Regular perm "'c option" | Directory perm

type_synonym 'c fs = "'c node gomap"

datatype sysop = SysStat | SysStatRead | SysRead | SysReadDir | SysMkdir | SysTemp | SysChmod | SysWrite | SysSync
  | SysClose | SysRename | SysRemove

datatype sys_err = NotExist | IOError sysop

record os_env =
  faults :: "sysop \<Rightarrow> bool"
  tempNames :: "string list"
  umask :: perm

section \<open>Paths\<close>

definition dirOf :: "string \<Rightarrow> string" where
  "dirOf p = (let r = dropWhile (\<lambda>c. c \<noteq> CHR ''/'') (rev p) in
     if r = [] then ''.'' else if tl r = [] then ''/'' else rev (tl r))"

definition joinPath :: "string \<Rightarrow> string \<Rightarrow> string" where
  "joinPath d b = (if d \<noteq> [] \<and> last d = CHR ''/'' then d @ b else d @ ''/'' @ b)"

text \<open>The directories \<open>os.MkdirAll\<close> has to find or make, outermost first.\<close>

definition ancestors :: "string \<Rightarrow> string list" where
  "ancestors d = filter (\<lambda>q. q \<noteq> [] \<and> q \<noteq> ''.'' \<and> last q \<noteq> CHR ''/'' \<and>
     (q = d \<or> d ! length q = CHR ''/'')) (prefixes d)"

lemma length_dirOf: "dirOf p \<noteq> ''.'' \<Longrightarrow> dirOf p \<noteq> ''/'' \<Longrightarrow> length (dirOf p) < length p"
proof -
  assume a: "dirOf p \<noteq> ''.''" "dirOf p \<noteq> ''/''"
  let ?r = "dropWhile (\<lambda>c. c \<noteq> CHR ''/'') (rev p)"
  have "length ?r \<le> length p" using length_dropWhile_le [of _ "rev p"] by simp
  moreover have "?r \<noteq> []" "dirOf p = rev (tl ?r)"
    using a unfolding dirOf_def Let_def by (metis, metis)
  ultimately show ?thesis by (cases ?r) simp_all
qed

lemma not_own_ancestor: "p \<notin> set (ancestors (dirOf p))"
proof
  assume a: "p \<in> set (ancestors (dirOf p))"
  then have le: "length p \<le> length (dirOf p)" "p \<noteq> []" "p \<noteq> ''.''" "last p \<noteq> CHR ''/''"
    by (auto simp: ancestors_def dest: prefix_length_le)
  moreover have "dirOf p \<noteq> ''.''" "dirOf p \<noteq> ''/''"
    using a le by (auto simp: ancestors_def prefix_Cons)
  ultimately show False using length_dirOf [of p] by simp
qed

section \<open>System calls\<close>

definition osStat :: "os_env \<Rightarrow> sysop \<Rightarrow> string \<Rightarrow> 'c fs \<Rightarrow> sys_err + 'c node" where
  "osStat env op p fs =
     (if faults env op then Inl (IOError op)
      else case map_of fs p of None \<Rightarrow> Inl NotExist | Some n \<Rightarrow> Inr n)"

fun permOf :: "'c node \<Rightarrow> perm" where
  "permOf (Regular p _) = p"
| "permOf (Directory p) = p"

fun isRegular :: "'c node \<Rightarrow> bool" where
  "isRegular (Regular _ _) = True"
| "isRegular (Directory _) = False"

definition readFile :: "os_env \<Rightarrow> string \<Rightarrow> 'c fs \<Rightarrow> sys_err + 'c option" where
  "readFile env p fs =
     (if faults env SysRead then Inl (IOError SysRead)
      else case map_of fs p of
        None \<Rightarrow> Inl NotExist
      | Some (Regular _ c) \<Rightarrow> Inr c
      | Some (Directory _) \<Rightarrow> Inl (IOError SysRead))"

text \<open>\<open>os.ReadDir\<close>: the entries directly below a directory, sorted by file name.\<close>

definition childName :: "string \<Rightarrow> string \<Rightarrow> string option" where
  "childName d p =
     (case cutPrefix p (joinPath d []) of
        None \<Rightarrow> None
      | Some b \<Rightarrow> if b = [] \<or> CHR ''/'' \<in> set b then None else Some b)"

definition osReadDir :: "os_env \<Rightarrow> string \<Rightarrow> 'c fs \<Rightarrow> sys_err + (string \<times> 'c node) list" where
  "osReadDir env d fs =
     (if faults env SysReadDir then Inl (IOError SysReadDir)
      else case map_of fs d of
        None \<Rightarrow> Inl NotExist
      | Some (Regular _ _) \<Rightarrow> Inl (IOError SysReadDir)
      | Some (Directory _) \<Rightarrow>
          Inr (sort_key fst (concat (map (\<lambda>(p, n). case childName d p of None \<Rightarrow> [] | Some b \<Rightarrow> [(b, n)]) fs))))"

lemma osStat_local: "map_of fs p = map_of fs' p \<Longrightarrow> osStat env op p fs = osStat env op p fs'"
  by (simp add: osStat_def)

lemma readFile_local: "map_of fs p = map_of fs' p \<Longrightarrow> readFile env p fs = readFile env p fs'"
  by (simp add: readFile_def)

fun mkdirs :: "os_env \<Rightarrow> string list \<Rightarrow> 'c fs \<Rightarrow> 'c fs \<times> sys_err option" where
  "mkdirs env [] fs = (fs, None)"
| "mkdirs env (d # ds) fs =
     (case map_of fs d of
        Some (Directory _) \<Rightarrow> mkdirs env ds fs
      | Some (Regular _ _) \<Rightarrow> (fs, Some (IOError SysMkdir))
      | None \<Rightarrow>
          if faults env SysMkdir then (fs, Some (IOError SysMkdir))
          else mkdirs env ds (AList.update d (Directory (0x1C0 AND NOT (umask env))) fs))"

definition mkdirAll :: "os_env \<Rightarrow> string \<Rightarrow> 'c fs \<Rightarrow> 'c fs \<times> sys_err option" where
  "mkdirAll env d fs = mkdirs env (ancestors d) fs"

text \<open>\<open>os.CreateTemp\<close> tries random suffixes until one names no file (\<open>O_EXCL\<close>).\<close>

definition createTemp :: "os_env \<Rightarrow> string \<Rightarrow> string \<Rightarrow> 'c fs \<Rightarrow> string option" where
  "createTemp env d pfx fs =
     (if faults env SysTemp then None
      else find (\<lambda>p. map_of fs p = None) (map (\<lambda>r. joinPath d (pfx @ r)) (tempNames env)))"

definition renameFile :: "os_env \<Rightarrow> string \<Rightarrow> string \<Rightarrow> 'c fs \<Rightarrow> 'c fs option" where
  "renameFile env old new fs =
     (if faults env SysRename then None
      else case (map_of fs old, map_of fs new) of
        (None, _) \<Rightarrow> None
      | (Some _, Some (Directory _)) \<Rightarrow> None
      | (Some n, _) \<Rightarrow> Some (AList.update new n (AList.delete old fs)))"

definition removeFile :: "os_env \<Rightarrow> string \<Rightarrow> 'c fs \<Rightarrow> 'c fs" where
  "removeFile env p fs = (if faults env SysRemove then fs else AList.delete p fs)"

section \<open>Replace by rename\<close>

definition writeTemp :: "os_env \<Rightarrow> string \<Rightarrow> string \<Rightarrow> 'c \<Rightarrow> 'c fs \<Rightarrow> 'c fs list \<times> sys_err option" where
  "writeTemp env tmp path c fs =
     (if faults env SysChmod then ([fs], Some (IOError SysChmod))
      else let fs1 = AList.update tmp (Regular 0x180 None) fs in
      if faults env SysWrite then ([fs, fs1], Some (IOError SysWrite))
      else let fs2 = AList.update tmp (Regular 0x180 (Some c)) fs1 in
      if faults env SysSync then ([fs, fs1, fs2], Some (IOError SysSync))
      else if faults env SysClose then ([fs, fs1, fs2], Some (IOError SysClose))
      else case renameFile env tmp path fs2 of
        None \<Rightarrow> ([fs, fs1, fs2], Some (IOError SysRename))
      | Some fs3 \<Rightarrow> ([fs, fs1, fs2, fs3], None))"

definition replaceFile :: "os_env \<Rightarrow> string \<Rightarrow> string \<Rightarrow> 'c \<Rightarrow> 'c fs \<Rightarrow> 'c fs list \<times> sys_err option" where
  "replaceFile env pfx path c fs =
     (case createTemp env (dirOf path) pfx fs of
        None \<Rightarrow> ([fs], Some (IOError SysTemp))
      | Some tmp \<Rightarrow>
          (case writeTemp env tmp path c (AList.update tmp (Regular (0x180 AND NOT (umask env)) None) fs) of
             (trace, err) \<Rightarrow> (fs # trace @ [removeFile env tmp (last trace)], err)))"

definition atomicWrite :: "os_env \<Rightarrow> string \<Rightarrow> string \<Rightarrow> 'c \<Rightarrow> 'c fs \<Rightarrow> 'c fs list \<times> sys_err option" where
  "atomicWrite env pfx path c fs =
     (case mkdirAll env (dirOf path) fs of
        (fs1, Some e) \<Rightarrow> ([fs, fs1], Some e)
      | (fs1, None) \<Rightarrow> (case replaceFile env pfx path c fs1 of (trace, err) \<Rightarrow> (fs # trace, err)))"

text \<open>The file system when the call has returned.\<close>

definition afterWrite :: "'c fs list \<times> sys_err option \<Rightarrow> 'c fs" where
  "afterWrite r = last (fst r)"

text \<open>The temporary file cannot be the target itself.\<close>

definition separate :: "string \<Rightarrow> string \<Rightarrow> bool" where
  "separate pfx path \<longleftrightarrow> \<not> prefix (joinPath (dirOf path) pfx) path"

lemma joinPath_append: "joinPath d (b @ r) = joinPath d b @ r"
  by (simp add: joinPath_def)

lemma createTemp_Some:
  assumes "createTemp env (dirOf path) pfx fs = Some tmp" "separate pfx path"
  shows "tmp \<noteq> path" "map_of fs tmp = None"
proof -
  obtain r where "tmp = joinPath (dirOf path) pfx @ r" "map_of fs tmp = None"
    using assms(1) by (auto simp: createTemp_def find_Some_iff joinPath_append split: if_splits)
  then show "tmp \<noteq> path" "map_of fs tmp = None"
    using assms(2) unfolding separate_def by (metis prefixI, simp)
qed

lemma mkdirs_keep: "mkdirs env ds fs = (fs', e) \<Longrightarrow> q \<notin> set ds \<Longrightarrow> map_of fs' q = map_of fs q"
  by (induction env ds fs arbitrary: fs' e rule: mkdirs.induct)
    (auto split: option.splits node.splits if_splits)

lemma mkdirAll_keep: "mkdirAll env (dirOf p) fs = (fs', e) \<Longrightarrow> map_of fs' p = map_of fs p"
  unfolding mkdirAll_def by (rule mkdirs_keep [OF _ not_own_ancestor])

lemma writeTemp_states:
  assumes "writeTemp env tmp path c fs = (trace, err)" "tmp \<noteq> path"
  shows "trace \<noteq> []"
    and "\<And>fs'. fs' \<in> set trace \<Longrightarrow>
      map_of fs' path = map_of fs path \<or> map_of fs' path = Some (Regular 0x180 (Some c))"
    and "err \<noteq> None \<Longrightarrow> map_of (last trace) path = map_of fs path"
    and "err = None \<Longrightarrow> map_of (last trace) path = Some (Regular 0x180 (Some c))"
    and "\<And>fs' q. fs' \<in> set trace \<Longrightarrow> q \<noteq> path \<Longrightarrow> q \<noteq> tmp \<Longrightarrow> map_of fs' q = map_of fs q"
  using assms
  by (auto simp: writeTemp_def renameFile_def Let_def
      split: if_splits option.splits node.splits prod.splits)

lemma replaceFile_result:
  assumes "separate pfx path" "replaceFile env pfx path c fs = (trace, err)"
  shows "map_of (last trace) path = (if err = None then Some (Regular 0x180 (Some c)) else map_of fs path)"
proof (cases "createTemp env (dirOf path) pfx fs")
  case None
  with assms(2) show ?thesis by (auto simp: replaceFile_def)
next
  case (Some tmp)
  note t = createTemp_Some [OF Some assms(1)]
  obtain tr e where w: "writeTemp env tmp path c (AList.update tmp (Regular (0x180 AND NOT (umask env)) None) fs) = (tr, e)"
    by (cases "writeTemp env tmp path c (AList.update tmp (Regular (0x180 AND NOT (umask env)) None) fs)")
  with assms(2) Some have "e = err" "last trace = removeFile env tmp (last tr)" by (auto simp: replaceFile_def)
  with writeTemp_states(3,4) [OF w t(1)] t(1) show ?thesis by (auto simp: removeFile_def)
qed

lemma atomicWrite_states:
  assumes "separate pfx path" "fs' \<in> set (fst (atomicWrite env pfx path c fs))"
  shows "map_of fs' path = map_of fs path \<or> map_of fs' path = Some (Regular 0x180 (Some c))"
proof -
  obtain fs1 e where m: "mkdirAll env (dirOf path) fs = (fs1, e)" by (cases "mkdirAll env (dirOf path) fs")
  note k = mkdirAll_keep [OF m]
  show ?thesis
  proof (cases "e = None \<and> createTemp env (dirOf path) pfx fs1 \<noteq> None")
    case True
    then obtain tmp where t: "createTemp env (dirOf path) pfx fs1 = Some tmp" by auto
    note t' = createTemp_Some [OF t assms(1)]
    let ?fs2 = "AList.update tmp (Regular (0x180 AND NOT (umask env)) None) fs1"
    obtain trace err where w: "writeTemp env tmp path c ?fs2 = (trace, err)"
      by (cases "writeTemp env tmp path c ?fs2")
    note ws = writeTemp_states(1,2) [OF w t'(1)]
    have "map_of ?fs2 path = map_of fs path" using t'(1) k by simp
    moreover have "map_of (removeFile env tmp (last trace)) path = map_of (last trace) path"
      using t'(1) by (simp add: removeFile_def)
    moreover have "last trace \<in> set trace" using ws(1) by simp
    moreover have "fs' \<in> {fs, fs1, removeFile env tmp (last trace)} \<union> set trace"
      using assms(2) m t w True by (auto simp: atomicWrite_def replaceFile_def)
    ultimately show ?thesis using ws(2) [of fs'] ws(2) [of "last trace"] k by auto
  next
    case False
    then have "fs' = fs \<or> fs' = fs1" using assms(2) m
      by (auto simp: atomicWrite_def replaceFile_def split: option.splits)
    with k show ?thesis by auto
  qed
qed

lemma atomicWrite_result:
  assumes "separate pfx path" "atomicWrite env pfx path c fs = (trace, err)"
  shows "map_of (last trace) path =
    (if err = None then Some (Regular 0x180 (Some c)) else map_of fs path)"
proof -
  obtain fs1 e where m: "mkdirAll env (dirOf path) fs = (fs1, e)" by (cases "mkdirAll env (dirOf path) fs")
  note k = mkdirAll_keep [OF m]
  show ?thesis
  proof (cases "e = None \<and> createTemp env (dirOf path) pfx fs1 \<noteq> None")
    case True
    then obtain tmp where t: "createTemp env (dirOf path) pfx fs1 = Some tmp" by auto
    note t' = createTemp_Some [OF t assms(1)]
    let ?fs2 = "AList.update tmp (Regular (0x180 AND NOT (umask env)) None) fs1"
    obtain tr err' where w: "writeTemp env tmp path c ?fs2 = (tr, err')"
      by (cases "writeTemp env tmp path c ?fs2")
    then have "err' = err" "last trace = removeFile env tmp (last tr)"
      using assms(2) m t True by (auto simp: atomicWrite_def replaceFile_def)
    with writeTemp_states(3,4) [OF w t'(1)] t'(1) k show ?thesis by (auto simp: removeFile_def)
  next
    case False
    with assms(2) m k show ?thesis by (auto simp: atomicWrite_def replaceFile_def split: option.splits)
  qed
qed

text \<open>What a caller finds elsewhere: only the directories above the target can appear.\<close>

lemma atomicWrite_elsewhere:
  assumes "separate pfx path" "atomicWrite env pfx path c fs = (trace, err)"
    and "\<not> faults env SysRemove" "q \<noteq> path" "q \<notin> set (ancestors (dirOf path))"
  shows "map_of (last trace) q = map_of fs q"
proof -
  obtain fs1 e where m: "mkdirAll env (dirOf path) fs = (fs1, e)" by (cases "mkdirAll env (dirOf path) fs")
  have k: "map_of fs1 q = map_of fs q"
    using m mkdirs_keep assms(5) by (auto simp: mkdirAll_def)
  show ?thesis
  proof (cases "e = None \<and> createTemp env (dirOf path) pfx fs1 \<noteq> None")
    case True
    then obtain tmp where t: "createTemp env (dirOf path) pfx fs1 = Some tmp" by auto
    note t' = createTemp_Some [OF t assms(1)]
    let ?fs2 = "AList.update tmp (Regular (0x180 AND NOT (umask env)) None) fs1"
    obtain tr err' where w: "writeTemp env tmp path c ?fs2 = (tr, err')"
      by (cases "writeTemp env tmp path c ?fs2")
    then have l: "last trace = AList.delete tmp (last tr)"
      using assms(2,3) m t True by (auto simp: atomicWrite_def replaceFile_def removeFile_def)
    note ws = writeTemp_states(1,5) [OF w t'(1)]
    have "q \<noteq> tmp \<Longrightarrow> map_of (last tr) q = map_of ?fs2 q"
      using ws(1) ws(2) [of "last tr" q] assms(4) by simp
    with l k t'(2) show ?thesis by auto
  next
    case False
    with assms(2) m k show ?thesis by (auto simp: atomicWrite_def replaceFile_def split: option.splits)
  qed
qed

text \<open>A path that cannot be a temporary name is untouched even when the clean-up fails.\<close>

lemma atomicWrite_untouched:
  assumes "separate pfx path" "atomicWrite env pfx path c fs = (trace, err)"
    and "\<not> prefix (joinPath (dirOf path) pfx) q" "q \<noteq> path" "q \<notin> set (ancestors (dirOf path))"
  shows "map_of (last trace) q = map_of fs q"
proof -
  obtain fs1 e where m: "mkdirAll env (dirOf path) fs = (fs1, e)" by (cases "mkdirAll env (dirOf path) fs")
  have k: "map_of fs1 q = map_of fs q"
    using m mkdirs_keep assms(5) by (auto simp: mkdirAll_def)
  show ?thesis
  proof (cases "e = None \<and> createTemp env (dirOf path) pfx fs1 \<noteq> None")
    case True
    then obtain tmp where t: "createTemp env (dirOf path) pfx fs1 = Some tmp" by auto
    note t' = createTemp_Some [OF t assms(1)]
    have n: "q \<noteq> tmp"
      using t assms(3) by (auto simp: createTemp_def find_Some_iff joinPath_append split: if_splits)
    let ?fs2 = "AList.update tmp (Regular (0x180 AND NOT (umask env)) None) fs1"
    obtain tr err' where w: "writeTemp env tmp path c ?fs2 = (tr, err')"
      by (cases "writeTemp env tmp path c ?fs2")
    then have "last trace = removeFile env tmp (last tr)"
      using assms(2) m t True by (auto simp: atomicWrite_def replaceFile_def)
    with writeTemp_states(1,5) [OF w t'(1)] n k assms(4) show ?thesis by (simp add: removeFile_def)
  next
    case False
    with assms(2) m k show ?thesis by (auto simp: atomicWrite_def replaceFile_def split: option.splits)
  qed
qed

text \<open>
  When a write must succeed: no call fails, no regular file is in the way of a directory, some
  temporary name is free and the target is not a directory.
\<close>

definition writable :: "os_env \<Rightarrow> string \<Rightarrow> string \<Rightarrow> 'c fs \<Rightarrow> bool" where
  "writable env pfx path fs \<longleftrightarrow>
     list_all (\<lambda>op. \<not> faults env op) [SysMkdir, SysTemp, SysChmod, SysWrite, SysSync, SysClose, SysRename] \<and>
     list_all (\<lambda>d. case map_of fs d of Some (Regular _ _) \<Rightarrow> False | _ \<Rightarrow> True) (ancestors (dirOf path)) \<and>
     list_ex (\<lambda>r. map_of fs (joinPath (dirOf path) (pfx @ r)) = None \<and>
        joinPath (dirOf path) (pfx @ r) \<notin> set (ancestors (dirOf path))) (tempNames env) \<and>
     (case map_of fs path of Some (Directory _) \<Rightarrow> False | _ \<Rightarrow> True)"

lemma mkdirs_live:
  assumes "\<not> faults env SysMkdir"
    and "list_all (\<lambda>d. case map_of fs d of Some (Regular _ _) \<Rightarrow> False | _ \<Rightarrow> True) ds"
  shows "snd (mkdirs env ds fs) = None"
  using assms
proof (induction env ds fs rule: mkdirs.induct)
  case (2 env d ds fs)
  let ?fs = "AList.update d (Directory (0x1C0 AND NOT (umask env))) fs"
  have "list_all (\<lambda>d. case map_of ?fs d of Some (Regular _ _) \<Rightarrow> False | _ \<Rightarrow> True) ds"
    using "2.prems"(2) by (auto simp: list_all_iff)
  with 2 show ?case by (auto split: option.split node.split)
qed simp

lemma atomicWrite_live:
  assumes "writable env pfx path fs" "separate pfx path"
  shows "snd (atomicWrite env pfx path c fs) = None"
proof -
  obtain fs1 where m: "mkdirAll env (dirOf path) fs = (fs1, None)"
    using mkdirs_live [of env fs "ancestors (dirOf path)"] assms(1)
    by (cases "mkdirAll env (dirOf path) fs") (auto simp: writable_def mkdirAll_def)
  obtain r where r: "r \<in> set (tempNames env)" "map_of fs (joinPath (dirOf path) (pfx @ r)) = None"
    "joinPath (dirOf path) (pfx @ r) \<notin> set (ancestors (dirOf path))"
    using assms(1) by (auto simp: writable_def list_ex_iff)
  have "map_of fs1 (joinPath (dirOf path) (pfx @ r)) = None"
    using m mkdirs_keep [of env "ancestors (dirOf path)" fs fs1 None] r(2,3) by (simp add: mkdirAll_def)
  then obtain tmp where t: "createTemp env (dirOf path) pfx fs1 = Some tmp"
    using r(1) assms(1)
    by (cases "createTemp env (dirOf path) pfx fs1") (auto simp: createTemp_def writable_def find_None_iff)
  note t' = createTemp_Some [OF t assms(2)]
  have "map_of fs1 path = map_of fs path" by (rule mkdirAll_keep [OF m])
  with m t t'(1) assms(1) show ?thesis
    by (auto simp: atomicWrite_def replaceFile_def writeTemp_def renameFile_def writable_def Let_def
        split: option.splits node.splits prod.splits)
qed

section \<open>The contract of a document store\<close>

text \<open>
  A store keeps one document per path.  The provider promises that a write goes through states
  in which the target is either untouched or complete, that it ends complete on success and
  untouched on failure, and that reading a completely written file gives the document back.
\<close>

locale document_store =
  fixes put :: "os_env \<Rightarrow> string \<Rightarrow> 'd \<Rightarrow> 'c fs \<Rightarrow> 'c fs list \<times> sys_err option"
    and get :: "os_env \<Rightarrow> string \<Rightarrow> 'c fs \<Rightarrow> 'e + 'd"
    and image :: "'d \<Rightarrow> 'c node"
    and norm :: "'d \<Rightarrow> 'd"
    and good :: "'d \<Rightarrow> bool"
    and target :: "string \<Rightarrow> bool"
  assumes write_states: "target p \<Longrightarrow> fs' \<in> set (fst (put env p d fs)) \<Longrightarrow>
      map_of fs' p = map_of fs p \<or> map_of fs' p = Some (image d)"
    and write_result: "target p \<Longrightarrow> put env p d fs = (trace, err) \<Longrightarrow>
      map_of (last trace) p = (if err = None then Some (image d) else map_of fs p)"
    and read_local: "map_of fs p = map_of fs' p \<Longrightarrow> get env p fs = get env p fs'"
    and read_image: "good d \<Longrightarrow> \<not> faults env SysStatRead \<Longrightarrow> \<not> faults env SysRead \<Longrightarrow>
      map_of fs p = Some (image d) \<Longrightarrow> get env p fs = Inr (norm d)"
begin

lemma read_after_write:
  assumes "target p" "put env p d fs = (trace, None)" "good d"
    and "\<not> faults env' SysStatRead" "\<not> faults env' SysRead"
  shows "get env' p (last trace) = Inr (norm d)"
  using read_image [OF assms(3,4,5)] write_result [OF assms(1,2)] by simp

lemma read_after_failure:
  assumes "target p" "put env p d fs = (trace, Some e)"
  shows "get env' p (last trace) = get env' p fs"
  by (rule read_local) (simp add: write_result [OF assms])

lemma read_after_crash:
  assumes "target p" "fs' \<in> set (fst (put env p d fs))" "good d"
    and "\<not> faults env' SysStatRead" "\<not> faults env' SysRead"
  shows "get env' p fs' = get env' p fs \<or> get env' p fs' = Inr (norm d)"
  using write_states [OF assms(1,2)] read_local read_image [OF assms(3,4,5)] by metis

end

end
