(* ===== verification/Credentials_File.thy ===== *)
theory Credentials_File
  imports Services Go_Files
begin

text \<open>
  The credentials file (\<open>internal/authorization/credentials.go\<close>): its records with their JSON
  tags, reading it with the permission check, \<open>parseCredentials\<close>, and the atomic
  \<open>writeCredentialsFile\<close>.  The last section interprets the document-store contract.
\<close>

record credentialRecord =
  cr_Token :: string
  cr_TokenHash :: string

record inviteRecord =
  ir_Identity :: string

record workloadRecord =
  wr_Kind :: string
  wr_Namespace :: string
  wr_Name :: string
  wr_Replicas :: int
  wr_ReadyTimeout :: string
  wr_IdleTimeout :: string

record serviceRecord =
  sr_Target :: string
  sr_LocalPort :: int
  sr_Workload :: "workloadRecord option"

record accessRecord =
  ar_Services :: "serviceRecord gomap"

record credentialsFile =
  cf_Users :: "credentialRecord gomap"
  cf_Invites :: "inviteRecord gomap"
  cf_Access :: "accessRecord gomap"

definition zero_credentialRecord :: credentialRecord where
  "zero_credentialRecord = \<lparr>cr_Token = [], cr_TokenHash = []\<rparr>"

definition zero_inviteRecord :: inviteRecord where
  "zero_inviteRecord = \<lparr>ir_Identity = []\<rparr>"

definition zero_workloadRecord :: workloadRecord where
  "zero_workloadRecord = \<lparr>wr_Kind = [], wr_Namespace = [], wr_Name = [], wr_Replicas = 0,
     wr_ReadyTimeout = [], wr_IdleTimeout = []\<rparr>"

definition zero_serviceRecord :: serviceRecord where
  "zero_serviceRecord = \<lparr>sr_Target = [], sr_LocalPort = 0, sr_Workload = None\<rparr>"

definition zero_accessRecord :: accessRecord where
  "zero_accessRecord = \<lparr>ar_Services = []\<rparr>"

definition zero_credentialsFile :: credentialsFile where
  "zero_credentialsFile = \<lparr>cf_Users = [], cf_Invites = [], cf_Access = []\<rparr>"

lemmas zero_record_defs = zero_credentialRecord_def zero_inviteRecord_def zero_workloadRecord_def
  zero_serviceRecord_def zero_accessRecord_def zero_credentialsFile_def

section \<open>JSON\<close>

definition dec_credentialRecord :: "credentialRecord dec" where
  "dec_credentialRecord = dec_struct False
     [field ''token'' dec_string cr_Token cr_Token_update,
      field ''token_hash'' dec_string cr_TokenHash cr_TokenHash_update]"

definition dec_inviteRecord :: "inviteRecord dec" where
  "dec_inviteRecord = dec_struct False [field ''identity'' dec_string ir_Identity ir_Identity_update]"

definition dec_workloadRecord :: "workloadRecord dec" where
  "dec_workloadRecord = dec_struct False
     [field ''kind'' dec_string wr_Kind wr_Kind_update,
      field ''namespace'' dec_string wr_Namespace wr_Namespace_update,
      field ''name'' dec_string wr_Name wr_Name_update,
      field ''replicas'' (dec_int 32) wr_Replicas wr_Replicas_update,
      field ''ready_timeout'' dec_string wr_ReadyTimeout wr_ReadyTimeout_update,
      field ''idle_timeout'' dec_string wr_IdleTimeout wr_IdleTimeout_update]"

definition dec_serviceRecord :: "serviceRecord dec" where
  "dec_serviceRecord = dec_struct False
     [field ''target'' dec_string sr_Target sr_Target_update,
      field ''local_port'' (dec_uint 32) sr_LocalPort sr_LocalPort_update,
      field ''workload'' (dec_ptr dec_workloadRecord zero_workloadRecord) sr_Workload sr_Workload_update]"

definition dec_accessRecord :: "accessRecord dec" where
  "dec_accessRecord = dec_struct False
     [field ''services'' (dec_map dec_serviceRecord zero_serviceRecord) ar_Services ar_Services_update]"

definition dec_credentialsFile :: "credentialsFile dec" where
  "dec_credentialsFile = dec_struct False
     [field ''users'' (dec_map dec_credentialRecord zero_credentialRecord) cf_Users cf_Users_update,
      field ''invites'' (dec_map dec_inviteRecord zero_inviteRecord) cf_Invites cf_Invites_update,
      field ''access'' (dec_map dec_accessRecord zero_accessRecord) cf_Access cf_Access_update]"

definition enc_credentialRecord :: "credentialRecord \<Rightarrow> json" where
  "enc_credentialRecord r = JObj
     (emitIf (cr_Token r \<noteq> []) ''token'' (enc_string (cr_Token r)) @
      emitIf (cr_TokenHash r \<noteq> []) ''token_hash'' (enc_string (cr_TokenHash r)))"

definition enc_inviteRecord :: "inviteRecord \<Rightarrow> json" where
  "enc_inviteRecord r = JObj (emit ''identity'' (enc_string (ir_Identity r)))"

definition enc_workloadRecord :: "workloadRecord \<Rightarrow> json" where
  "enc_workloadRecord r = JObj
     (emit ''kind'' (enc_string (wr_Kind r)) @
      emit ''namespace'' (enc_string (wr_Namespace r)) @
      emit ''name'' (enc_string (wr_Name r)) @
      emitIf (wr_Replicas r \<noteq> 0) ''replicas'' (enc_int (wr_Replicas r)) @
      emitIf (wr_ReadyTimeout r \<noteq> []) ''ready_timeout'' (enc_string (wr_ReadyTimeout r)) @
      emitIf (wr_IdleTimeout r \<noteq> []) ''idle_timeout'' (enc_string (wr_IdleTimeout r)))"

definition enc_serviceRecord :: "serviceRecord \<Rightarrow> json" where
  "enc_serviceRecord r = JObj
     (emit ''target'' (enc_string (sr_Target r)) @
      emitIf (sr_LocalPort r \<noteq> 0) ''local_port'' (enc_int (sr_LocalPort r)) @
      (case sr_Workload r of None \<Rightarrow> [] | Some w \<Rightarrow> emit ''workload'' (enc_workloadRecord w)))"

definition enc_accessRecord :: "accessRecord \<Rightarrow> json" where
  "enc_accessRecord r = JObj (emit ''services'' (enc_map enc_serviceRecord (ar_Services r)))"

definition enc_credentialsFile :: "credentialsFile \<Rightarrow> json" where
  "enc_credentialsFile f = JObj
     (emit ''users'' (enc_map enc_credentialRecord (cf_Users f)) @
      emitIf (cf_Invites f \<noteq> []) ''invites'' (enc_map enc_inviteRecord (cf_Invites f)) @
      emitIf (cf_Access f \<noteq> []) ''access'' (enc_map enc_accessRecord (cf_Access f)))"

section \<open>Parsing\<close>

datatype cred_err =
    BadIdentity string | EmptyStore | BadTokenHash string | MissingToken string | BadInviteHash
  | BadTimeout string | BadService string service_err | OpenPermissions perm | FileError sys_err
  | NotJson | BadJson json_err | NoUsers | EntropyError | InviteInvalid | NotFileBacked

definition validateIdentity :: "string \<Rightarrow> cred_err option" where
  "validateIdentity s = (if validIdentity s then None else Some (BadIdentity s))"

definition hexHash :: "string \<Rightarrow> string option" where
  "hexHash s = (case hexDecode s of Some d \<Rightarrow> if length d = 32 then Some d else None | None \<Rightarrow> None)"

definition parseUser :: "string \<Rightarrow> credentialRecord \<Rightarrow> cred_err + string" where
  "parseUser identity r =
     (case validateIdentity identity of
        Some e \<Rightarrow> Inl e
      | None \<Rightarrow>
          if cr_TokenHash r \<noteq> [] then
            (case hexHash (cr_TokenHash r) of None \<Rightarrow> Inl (BadTokenHash identity) | Some h \<Rightarrow> Inr h)
          else if length (cr_Token r) \<ge> minimumTokenLength then Inr (sha256 (cr_Token r))
          else Inl (MissingToken identity))"

definition parseInvite :: "string \<Rightarrow> inviteRecord \<Rightarrow> cred_err + string" where
  "parseInvite hash r =
     (case hexHash hash of
        None \<Rightarrow> Inl BadInviteHash
      | Some _ \<Rightarrow>
          (case validateIdentity (ir_Identity r) of Some e \<Rightarrow> Inl e | None \<Rightarrow> Inr (ir_Identity r)))"

definition parseWorkloadRecord :: "string \<Rightarrow> workloadRecord \<Rightarrow> cred_err + Workload" where
  "parseWorkloadRecord name w =
     (case parseDuration (wr_ReadyTimeout w) (2 * Minute) of
        None \<Rightarrow> Inl (BadTimeout name)
      | Some ready \<Rightarrow>
          (case parseDuration (wr_IdleTimeout w) (10 * Minute) of
             None \<Rightarrow> Inl (BadTimeout name)
           | Some idle \<Rightarrow> Inr \<lparr>wl_Kind = wr_Kind w, wl_Namespace = wr_Namespace w, wl_Name = wr_Name w,
               wl_Replicas = wr_Replicas w, wl_ReadyTimeout = ready, wl_IdleTimeout = idle\<rparr>))"

definition parseServiceRecord :: "string \<Rightarrow> serviceRecord \<Rightarrow> cred_err + Service" where
  "parseServiceRecord name r =
     (let s = \<lparr>svc_Name = name, svc_Target = sr_Target r, svc_LocalPort = sr_LocalPort r, svc_Workload = None\<rparr> in
      case (case sr_Workload r of
              None \<Rightarrow> Inr s
            | Some w \<Rightarrow>
                (case parseWorkloadRecord name w of Inl e \<Rightarrow> Inl e | Inr w' \<Rightarrow> Inr (s\<lparr>svc_Workload := Some w'\<rparr>))) of
        Inl e \<Rightarrow> Inl e
      | Inr s' \<Rightarrow> (case validateService s' of Inl e \<Rightarrow> Inl (BadService name e) | Inr v \<Rightarrow> Inr v))"

definition parseAccess :: "string \<Rightarrow> accessRecord \<Rightarrow> cred_err + Service gomap" where
  "parseAccess identity r =
     (case validateIdentity identity of
        Some e \<Rightarrow> Inl e
      | None \<Rightarrow> rbuild parseServiceRecord (ar_Services r) [])"

definition parseCredentials :: "credentialsFile \<Rightarrow> cred_err + string gomap \<times> string gomap \<times> Service gomap gomap" where
  "parseCredentials doc =
     (if cf_Users doc = [] \<and> cf_Invites doc = [] \<and> cf_Access doc = [] then Inl EmptyStore
      else case rbuild parseUser (cf_Users doc) [] of
        Inl e \<Rightarrow> Inl e
      | Inr users \<Rightarrow>
          (case rbuild parseInvite (cf_Invites doc) [] of
             Inl e \<Rightarrow> Inl e
           | Inr invites \<Rightarrow>
               (case rbuild parseAccess (cf_Access doc) [] of
                  Inl e \<Rightarrow> Inl e
                | Inr services \<Rightarrow> Inr (users, invites, services))))"

section \<open>The file\<close>

definition readCredentialsFile :: "os_env \<Rightarrow> string \<Rightarrow> json fs \<Rightarrow> cred_err + credentialsFile" where
  "readCredentialsFile env path fs =
     (case osStat env SysStatRead path fs of
        Inl e \<Rightarrow> Inl (FileError e)
      | Inr info \<Rightarrow>
          if permOf info AND 0x3F \<noteq> 0 then Inl (OpenPermissions (permOf info))
          else (case readFile env path fs of
            Inl e \<Rightarrow> Inl (FileError e)
          | Inr None \<Rightarrow> Inl NotJson
          | Inr (Some j) \<Rightarrow>
              (case dec_credentialsFile j zero_credentialsFile of
                 Inl e \<Rightarrow> Inl (BadJson e)
               | Inr doc \<Rightarrow> Inr doc)))"

definition writeCredentialsFile :: "os_env \<Rightarrow> string \<Rightarrow> credentialsFile \<Rightarrow> json fs \<Rightarrow> json fs list \<times> sys_err option" where
  "writeCredentialsFile env path doc fs =
     atomicWrite env ''.tearenv-users-'' path (enc_credentialsFile doc) fs"

definition setHashedUsers :: "credentialsFile \<Rightarrow> string gomap \<Rightarrow> credentialsFile" where
  "setHashedUsers doc users =
     doc\<lparr>cf_Users := map (\<lambda>(i, h). (i, \<lparr>cr_Token = [], cr_TokenHash = hexEncode h\<rparr>)) users\<rparr>"

definition tokenHashText :: "string \<Rightarrow> string" where
  "tokenHashText token = hexEncode (sha256 token)"

section \<open>Well-formed documents\<close>

text \<open>The shape of every document the JSON decoder returns.\<close>

definition wf_workloadRecord :: "workloadRecord \<Rightarrow> bool" where
  "wf_workloadRecord w \<longleftrightarrow> valid_utf8 (wr_Kind w) \<and> valid_utf8 (wr_Namespace w) \<and> valid_utf8 (wr_Name w) \<and>
     - (2 ^ 31) \<le> wr_Replicas w \<and> wr_Replicas w < 2 ^ 31 \<and>
     valid_utf8 (wr_ReadyTimeout w) \<and> valid_utf8 (wr_IdleTimeout w)"

definition wf_serviceRecord :: "serviceRecord \<Rightarrow> bool" where
  "wf_serviceRecord r \<longleftrightarrow> valid_utf8 (sr_Target r) \<and> 0 \<le> sr_LocalPort r \<and> sr_LocalPort r < 2 ^ 32 \<and>
     (case sr_Workload r of None \<Rightarrow> True | Some w \<Rightarrow> wf_workloadRecord w)"

definition wf_credentialRecord :: "credentialRecord \<Rightarrow> bool" where
  "wf_credentialRecord r \<longleftrightarrow> valid_utf8 (cr_Token r) \<and> valid_utf8 (cr_TokenHash r)"

definition wf_inviteRecord :: "inviteRecord \<Rightarrow> bool" where
  "wf_inviteRecord r \<longleftrightarrow> valid_utf8 (ir_Identity r)"

definition wf_gomap :: "('v \<Rightarrow> bool) \<Rightarrow> 'v gomap \<Rightarrow> bool" where
  "wf_gomap Q m \<longleftrightarrow> distinct (map fst m) \<and> (\<forall>(k, v) \<in> set m. valid_utf8 k \<and> Q v)"

definition wf_accessRecord :: "accessRecord \<Rightarrow> bool" where
  "wf_accessRecord r \<longleftrightarrow> wf_gomap wf_serviceRecord (ar_Services r)"

definition wf_credentialsFile :: "credentialsFile \<Rightarrow> bool" where
  "wf_credentialsFile f \<longleftrightarrow> wf_gomap wf_credentialRecord (cf_Users f) \<and>
     wf_gomap wf_inviteRecord (cf_Invites f) \<and> wf_gomap wf_accessRecord (cf_Access f)"

definition norm_access :: "accessRecord \<Rightarrow> accessRecord" where
  "norm_access r = r\<lparr>ar_Services := sort_key fst (ar_Services r)\<rparr>"

definition norm_file :: "credentialsFile \<Rightarrow> credentialsFile" where
  "norm_file f = \<lparr>cf_Users = sort_key fst (cf_Users f), cf_Invites = sort_key fst (cf_Invites f),
     cf_Access = map (apsnd norm_access) (sort_key fst (cf_Access f))\<rparr>"

lemma dec_enc_credentialRecord:
  "wf_credentialRecord r \<Longrightarrow> dec_credentialRecord (enc_credentialRecord r) zero_credentialRecord = Inr r"
  by (cases r) (auto simp: wf_credentialRecord_def dec_credentialRecord_def enc_credentialRecord_def
      zero_credentialRecord_def struct_simps dec_string_enc)

lemma dec_enc_inviteRecord:
  "wf_inviteRecord r \<Longrightarrow> dec_inviteRecord (enc_inviteRecord r) zero_inviteRecord = Inr r"
  by (cases r) (auto simp: wf_inviteRecord_def dec_inviteRecord_def enc_inviteRecord_def
      zero_inviteRecord_def struct_simps dec_string_enc)

lemma dec_enc_workloadRecord:
  "wf_workloadRecord r \<Longrightarrow> dec_workloadRecord (enc_workloadRecord r) zero_workloadRecord = Inr r"
  by (cases r) (auto simp: wf_workloadRecord_def dec_workloadRecord_def enc_workloadRecord_def
      zero_workloadRecord_def struct_simps dec_string_enc dec_int_enc)

lemma dec_ptr_enc_workload:
  "wf_workloadRecord w \<Longrightarrow>
   dec_ptr dec_workloadRecord zero_workloadRecord (enc_workloadRecord w) None = Inr (Some w)"
  using dec_enc_workloadRecord [of w] by (simp add: enc_workloadRecord_def)

lemma dec_enc_serviceRecord:
  "wf_serviceRecord r \<Longrightarrow> dec_serviceRecord (enc_serviceRecord r) zero_serviceRecord = Inr r"
  by (cases r) (auto simp: wf_serviceRecord_def dec_serviceRecord_def enc_serviceRecord_def
      zero_serviceRecord_def struct_simps dec_string_enc dec_uint_enc dec_ptr_enc_workload split: option.split)

lemma dec_map_enc_wf:
  assumes "wf_gomap Q m" "\<And>v. Q v \<Longrightarrow> d (e v) z = Inr (g v)"
  shows "dec_map d z (enc_map e m) [] = Inr (map (apsnd g) (sort_key fst m))"
  by (rule dec_map_enc) (use assms in \<open>auto simp: wf_gomap_def\<close>)

lemma apsnd_ident: "map (apsnd (\<lambda>v. v)) xs = xs"
  by (induction xs) auto

lemmas dec_map_enc_same = dec_map_enc_wf [where g = "\<lambda>v. v", unfolded apsnd_ident]

lemma dec_enc_accessRecord:
  "wf_accessRecord r \<Longrightarrow> dec_accessRecord (enc_accessRecord r) zero_accessRecord = Inr (norm_access r)"
  using dec_map_enc_same [where Q = wf_serviceRecord and d = dec_serviceRecord and e = enc_serviceRecord, OF _ dec_enc_serviceRecord, of "ar_Services r"]
  by (cases r) (auto simp: wf_accessRecord_def dec_accessRecord_def enc_accessRecord_def
      zero_accessRecord_def struct_simps norm_access_def)

lemma dec_enc_credentialsFile:
  assumes "wf_credentialsFile f"
  shows "dec_credentialsFile (enc_credentialsFile f) zero_credentialsFile = Inr (norm_file f)"
  using assms dec_map_enc_same [where Q = wf_credentialRecord and d = dec_credentialRecord and e = enc_credentialRecord, OF _ dec_enc_credentialRecord, of "cf_Users f"]
    dec_map_enc_same [where Q = wf_inviteRecord and d = dec_inviteRecord and e = enc_inviteRecord, OF _ dec_enc_inviteRecord, of "cf_Invites f"]
    dec_map_enc_wf [where Q = wf_accessRecord and d = dec_accessRecord and e = enc_accessRecord, OF _ dec_enc_accessRecord, of "cf_Access f"]
  by (auto simp: wf_credentialsFile_def dec_credentialsFile_def enc_credentialsFile_def
      zero_credentialsFile_def struct_simps norm_file_def)

lemma wf_gomap_decoded:
  assumes "dec_map d z j old = Inr m" "wf_gomap Q old" "\<And>j v. d j z = Inr v \<Longrightarrow> Q v"
  shows "wf_gomap Q m"
  unfolding wf_gomap_def
proof
  show "distinct (map fst m)" using dec_map_distinct [OF assms(1)] assms(2) by (simp add: wf_gomap_def)
  show "\<forall>(k, v) \<in> set m. valid_utf8 k \<and> Q v"
    by (rule dec_map_all [OF assms(1)]) (use assms(2,3) in \<open>auto simp: wf_gomap_def\<close>)
qed

lemma dec_credentialRecord_wf:
  "dec_credentialRecord j r = Inr r' \<Longrightarrow> wf_credentialRecord r \<Longrightarrow> wf_credentialRecord r'"
  unfolding dec_credentialRecord_def
  by (erule dec_struct_invariant)
    (auto simp: field_def wf_credentialRecord_def split: sum.splits, (erule (1) dec_string_utf8)+)

lemma dec_inviteRecord_wf:
  "dec_inviteRecord j r = Inr r' \<Longrightarrow> wf_inviteRecord r \<Longrightarrow> wf_inviteRecord r'"
  unfolding dec_inviteRecord_def
  by (erule dec_struct_invariant)
    (auto simp: field_def wf_inviteRecord_def split: sum.splits, (erule (1) dec_string_utf8)+)

lemma dec_workloadRecord_wf:
  "dec_workloadRecord j r = Inr r' \<Longrightarrow> wf_workloadRecord r \<Longrightarrow> wf_workloadRecord r'"
  unfolding dec_workloadRecord_def
  by (erule dec_struct_invariant)
    (auto simp: field_def wf_workloadRecord_def split: sum.splits
      dest!: dec_int_range [where bits = 32, simplified], (erule (1) dec_string_utf8)+)

lemma dec_ptr_workload_wf:
  assumes "dec_ptr dec_workloadRecord zero_workloadRecord j old = Inr p"
    and "case old of None \<Rightarrow> True | Some w \<Rightarrow> wf_workloadRecord w"
  shows "case p of None \<Rightarrow> True | Some w \<Rightarrow> wf_workloadRecord w"
proof -
  have z: "wf_workloadRecord zero_workloadRecord" by (simp add: wf_workloadRecord_def zero_workloadRecord_def)
  have "wf_workloadRecord (case old of None \<Rightarrow> zero_workloadRecord | Some v \<Rightarrow> v)"
    using z assms(2) by (auto split: option.splits)
  then show ?thesis using assms(1) by (cases j) (auto split: sum.splits dest: dec_workloadRecord_wf)
qed

lemma dec_serviceRecord_wf:
  "dec_serviceRecord j r = Inr r' \<Longrightarrow> wf_serviceRecord r \<Longrightarrow> wf_serviceRecord r'"
  unfolding dec_serviceRecord_def
  by (erule dec_struct_invariant)
    (auto simp: field_def wf_serviceRecord_def split: sum.splits
      dest!: dec_uint_range [where bits = 32, simplified],
      (erule (1) dec_string_utf8 | erule (1) dec_ptr_workload_wf)+)

lemma dec_accessRecord_wf:
  assumes "dec_accessRecord j r = Inr r'" "wf_accessRecord r"
  shows "wf_accessRecord r'"
proof -
  have z: "wf_serviceRecord zero_serviceRecord" by (simp add: wf_serviceRecord_def zero_serviceRecord_def)
  show ?thesis
    using assms unfolding dec_accessRecord_def
    by (elim dec_struct_invariant)
      (auto simp: field_def wf_accessRecord_def split: sum.splits
        intro: wf_gomap_decoded dec_serviceRecord_wf [OF _ z])
qed

lemma dec_credentialsFile_wf:
  assumes "dec_credentialsFile j zero_credentialsFile = Inr f"
  shows "wf_credentialsFile f"
proof -
  have z: "wf_credentialRecord zero_credentialRecord" "wf_inviteRecord zero_inviteRecord"
    "wf_accessRecord zero_accessRecord" "wf_credentialsFile zero_credentialsFile"
    by (simp_all add: wf_credentialRecord_def wf_inviteRecord_def wf_accessRecord_def
        wf_credentialsFile_def wf_gomap_def zero_record_defs)
  show ?thesis
    using assms z(4) unfolding dec_credentialsFile_def
    by (elim dec_struct_invariant)
      (auto simp: field_def wf_credentialsFile_def split: sum.splits,
        (erule (1) wf_gomap_decoded, (erule dec_credentialRecord_wf [OF _ z(1)]
          | erule dec_inviteRecord_wf [OF _ z(2)] | erule dec_accessRecord_wf [OF _ z(3)]))+)
qed

section \<open>What parsing computes\<close>

definition service_of :: "Service gomap gomap \<Rightarrow> string \<Rightarrow> string \<Rightarrow> Service option" where
  "service_of sv i n = (case map_of sv i of None \<Rightarrow> None | Some m \<Rightarrow> map_of m n)"

definition record_of :: "credentialsFile \<Rightarrow> string \<Rightarrow> string \<Rightarrow> serviceRecord option" where
  "record_of doc i n = (case map_of (cf_Access doc) i of None \<Rightarrow> None | Some a \<Rightarrow> map_of (ar_Services a) n)"

text \<open>A document that parses: every entry does, and there is at least one.\<close>

definition valid_file :: "credentialsFile \<Rightarrow> bool" where
  "valid_file doc \<longleftrightarrow>
     (cf_Users doc \<noteq> [] \<or> cf_Invites doc \<noteq> [] \<or> cf_Access doc \<noteq> []) \<and>
     (\<forall>(i, r) \<in> set (cf_Users doc). is_ok (parseUser i r)) \<and>
     (\<forall>(h, r) \<in> set (cf_Invites doc). is_ok (parseInvite h r)) \<and>
     (\<forall>(i, a) \<in> set (cf_Access doc). validIdentity i \<and>
        (\<forall>(n, r) \<in> set (ar_Services a). is_ok (parseServiceRecord n r)))"

lemma parseAccess_ok:
  "is_ok (parseAccess i a) \<longleftrightarrow>
     validIdentity i \<and> (\<forall>(n, r) \<in> set (ar_Services a). is_ok (parseServiceRecord n r))"
  by (auto simp: parseAccess_def validateIdentity_def rbuild_ok_iff)

lemma parseCredentials_ok: "is_ok (parseCredentials doc) \<longleftrightarrow> valid_file doc"
proof -
  have "is_ok (parseCredentials doc) \<longleftrightarrow>
     (cf_Users doc \<noteq> [] \<or> cf_Invites doc \<noteq> [] \<or> cf_Access doc \<noteq> []) \<and>
     is_ok (rbuild parseUser (cf_Users doc) []) \<and> is_ok (rbuild parseInvite (cf_Invites doc) []) \<and>
     is_ok (rbuild parseAccess (cf_Access doc) [])"
    by (auto simp: parseCredentials_def split: sum.splits)
  then show ?thesis by (simp add: rbuild_ok_iff parseAccess_ok valid_file_def)
qed

lemma parseCredentials_lookup:
  assumes "parseCredentials doc = Inr (us, iv, sv)" "wf_credentialsFile doc"
  shows "map_of us i = Option.bind (map_of (cf_Users doc) i) (\<lambda>r. ok_val (parseUser i r))"
    and "map_of iv h = Option.bind (map_of (cf_Invites doc) h) (\<lambda>r. ok_val (parseInvite h r))"
    and "service_of sv i n = Option.bind (record_of doc i n) (\<lambda>r. ok_val (parseServiceRecord n r))"
    and "distinct (map fst us)" "distinct (map fst iv)" "distinct (map fst sv)"
proof -
  have d: "distinct (map fst (cf_Users doc))" "distinct (map fst (cf_Invites doc))"
    "distinct (map fst (cf_Access doc))"
    using assms(2) by (auto simp: wf_credentialsFile_def wf_gomap_def)
  have r: "rbuild parseUser (cf_Users doc) [] = Inr us" "rbuild parseInvite (cf_Invites doc) [] = Inr iv"
    "rbuild parseAccess (cf_Access doc) [] = Inr sv"
    using assms(1) by (auto simp: parseCredentials_def split: if_splits sum.splits)
  show "map_of us i = Option.bind (map_of (cf_Users doc) i) (\<lambda>r. ok_val (parseUser i r))"
    by (rule rbuild_lookup_new [OF r(1) d(1)])
  show "map_of iv h = Option.bind (map_of (cf_Invites doc) h) (\<lambda>r. ok_val (parseInvite h r))"
    by (rule rbuild_lookup_new [OF r(2) d(2)])
  show "distinct (map fst us)" "distinct (map fst iv)" "distinct (map fst sv)"
    using r by (auto intro: rbuild_distinct)
  show "service_of sv i n = Option.bind (record_of doc i n) (\<lambda>r. ok_val (parseServiceRecord n r))"
  proof (cases "map_of (cf_Access doc) i")
    case None
    then show ?thesis using rbuild_lookup_new [OF r(3) d(3), of i] by (simp add: service_of_def record_of_def)
  next
    case (Some a)
    with r(3) have "is_ok (parseAccess i a)"
      by (auto dest!: map_of_SomeD simp: is_ok_iff intro: rbuild_ok_all)
    then obtain m where m: "parseAccess i a = Inr m" by (auto simp: is_ok_iff)
    then have rm: "rbuild parseServiceRecord (ar_Services a) [] = Inr m"
      by (auto simp: parseAccess_def split: option.splits)
    have "wf_accessRecord a"
      using assms(2) Some by (auto simp: wf_credentialsFile_def wf_gomap_def dest!: map_of_SomeD)
    then have "distinct (map fst (ar_Services a))" by (simp add: wf_accessRecord_def wf_gomap_def)
    from rbuild_lookup_new [OF rm this, of n] rbuild_lookup_new [OF r(3) d(3), of i] Some m
    show ?thesis by (simp add: service_of_def record_of_def)
  qed
qed

lemma norm_file_lookup:
  assumes "wf_credentialsFile doc"
  shows "map_of (cf_Users (norm_file doc)) = map_of (cf_Users doc)"
    and "map_of (cf_Invites (norm_file doc)) = map_of (cf_Invites doc)"
    and "record_of (norm_file doc) i n = record_of doc i n"
proof -
  have d: "distinct (map fst (cf_Users doc))" "distinct (map fst (cf_Invites doc))"
    "distinct (map fst (cf_Access doc))"
    using assms by (auto simp: wf_credentialsFile_def wf_gomap_def)
  show "map_of (cf_Users (norm_file doc)) = map_of (cf_Users doc)"
    "map_of (cf_Invites (norm_file doc)) = map_of (cf_Invites doc)"
    using d(1,2) by (simp_all add: norm_file_def map_of_sort_key)
  have "map_of (ar_Services (norm_access a)) = map_of (ar_Services a)" if "map_of (cf_Access doc) i = Some a" for a
    using assms that
    by (auto simp: wf_credentialsFile_def wf_gomap_def wf_accessRecord_def norm_access_def
        dest!: map_of_SomeD intro!: map_of_sort_key)
  then show "record_of (norm_file doc) i n = record_of doc i n"
    using d(3) by (auto simp: record_of_def norm_file_def map_of_apsnd_sort split: option.splits)
qed

lemma wf_norm_file: "wf_credentialsFile doc \<Longrightarrow> wf_credentialsFile (norm_file doc)"
proof -
  have s: "wf_gomap Q (sort_key fst m) = wf_gomap Q m" for Q and m :: "'a gomap"
    by (simp add: wf_gomap_def distinct_map)
  have n: "wf_accessRecord (norm_access a) = wf_accessRecord a" for a
    by (simp add: wf_accessRecord_def norm_access_def s)
  have f: "map fst (map (apsnd norm_access) m) = map fst m" for m :: "accessRecord gomap" by simp
  have "wf_gomap wf_accessRecord (map (apsnd norm_access) m)" if "wf_gomap wf_accessRecord m" for m
    using that n unfolding wf_gomap_def f by auto
  then show "wf_credentialsFile doc \<Longrightarrow> wf_credentialsFile (norm_file doc)"
    by (simp add: wf_credentialsFile_def norm_file_def s)
qed

lemma valid_norm_file: "valid_file (norm_file doc) \<longleftrightarrow> valid_file doc"
proof -
  let ?P = "\<lambda>(i, a). validIdentity i \<and> (\<forall>(n, r) \<in> set (ar_Services a). is_ok (parseServiceRecord n r))"
  have "?P (apsnd norm_access p) = ?P p" for p by (cases p) (simp add: norm_access_def)
  then have a: "(\<forall>p \<in> set (map (apsnd norm_access) m). ?P p) \<longleftrightarrow> (\<forall>p \<in> set m. ?P p)" for m
    by (simp only: set_map ball_simps)
  show ?thesis
    unfolding valid_file_def norm_file_def credentialsFile.simps a
    by (simp only: set_sort sort_key_Nil_iff map_is_Nil_conv)
qed

section \<open>The file as a document store\<close>

definition credentials_node :: "credentialsFile \<Rightarrow> json node" where
  "credentials_node doc = Regular 0x180 (Some (enc_credentialsFile doc))"

interpretation cred_store: document_store writeCredentialsFile readCredentialsFile credentials_node
  norm_file wf_credentialsFile "separate ''.tearenv-users-''"
proof
  fix p fs' env d and fs :: "json fs"
  assume "separate ''.tearenv-users-'' p" "fs' \<in> set (fst (writeCredentialsFile env p d fs))"
  then show "map_of fs' p = map_of fs p \<or> map_of fs' p = Some (credentials_node d)"
    unfolding writeCredentialsFile_def credentials_node_def by (rule atomicWrite_states)
next
  fix p env d trace err and fs :: "json fs"
  assume "separate ''.tearenv-users-'' p" "writeCredentialsFile env p d fs = (trace, err)"
  then show "map_of (last trace) p = (if err = None then Some (credentials_node d) else map_of fs p)"
    unfolding writeCredentialsFile_def credentials_node_def by (rule atomicWrite_result)
next
  fix p env and fs fs' :: "json fs"
  assume eq: "map_of fs p = map_of fs' p"
  show "readCredentialsFile env p fs = readCredentialsFile env p fs'"
    unfolding readCredentialsFile_def osStat_local [OF eq] readFile_local [OF eq] ..
next
  fix d p and env :: os_env and fs :: "json fs"
  assume "wf_credentialsFile d" "\<not> faults env SysStatRead" "\<not> faults env SysRead"
    "map_of fs p = Some (credentials_node d)"
  then show "readCredentialsFile env p fs = Inr (norm_file d)"
    by (simp add: readCredentialsFile_def osStat_def readFile_def credentials_node_def dec_enc_credentialsFile)
qed

lemma readCredentialsFile_wf: "readCredentialsFile env p fs = Inr doc \<Longrightarrow> wf_credentialsFile doc"
  by (auto simp: readCredentialsFile_def split: sum.splits if_splits option.splits
      dest: dec_credentialsFile_wf)

end
