(* ===== verification/Credentials.thy ===== *)
theory Credentials
  imports Credentials_File
begin

text \<open>
  The credential set (\<open>internal/authorization/credentials.go\<close>): loading, one-time invites,
  enrollment, service grants and the lookups the gateway makes.  Every operation on the file is
  given with the file system it leaves behind.  \<open>policy\<close> is the abstract specification: who may
  log in with which token hash, which invite hash belongs to whom, which service is granted to
  whom; the refinement lemmas say how each operation changes it.
\<close>

record Credentials =
  cred_path :: string
  cred_users :: "string gomap"
  cred_invites :: "string gomap"
  cred_services :: "Service gomap gomap"

definition LoadCredentials :: "os_env \<Rightarrow> string \<Rightarrow> json fs \<Rightarrow> cred_err + Credentials" where
  "LoadCredentials env path fs =
     (case readCredentialsFile env path fs of
        Inl e \<Rightarrow> Inl e
      | Inr doc \<Rightarrow>
          (case parseCredentials doc of
             Inl e \<Rightarrow> Inl e
           | Inr (users, invites, services) \<Rightarrow>
               Inr \<lparr>cred_path = path, cred_users = users, cred_invites = invites, cred_services = services\<rparr>))"

definition NewCredentials :: "string gomap \<Rightarrow> cred_err + Credentials" where
  "NewCredentials users =
     (if users = [] then Inl NoUsers
      else case rbuild (\<lambda>identity token.
             case validateIdentity identity of
               Some e \<Rightarrow> Inl e
             | None \<Rightarrow> if length token < minimumTokenLength then Inl (MissingToken identity)
                       else Inr (sha256 token)) users [] of
        Inl e \<Rightarrow> Inl e
      | Inr hashes \<Rightarrow> Inr \<lparr>cred_path = [], cred_users = hashes, cred_invites = [], cred_services = []\<rparr>)"

text \<open>\<open>rnd\<close> is what \<open>rand.Read\<close> delivers: 32 bytes, or nothing on failure.\<close>

definition randomToken :: "string \<Rightarrow> string option \<Rightarrow> cred_err + string" where
  "randomToken pfx rnd = (case rnd of None \<Rightarrow> Inl EntropyError | Some bytes \<Rightarrow> Inr (pfx @ base64RawURL bytes))"

definition CreateInvite :: "os_env \<Rightarrow> string option \<Rightarrow> string \<Rightarrow> string \<Rightarrow> json fs \<Rightarrow> json fs \<times> (cred_err + string)" where
  "CreateInvite env rnd path identity fs =
     (case validateIdentity identity of
        Some e \<Rightarrow> (fs, Inl e)
      | None \<Rightarrow>
          (case (case osStat env SysStat path fs of
                   Inr _ \<Rightarrow>
                     (case readCredentialsFile env path fs of
                        Inl e \<Rightarrow> Inl e
                      | Inr loaded \<Rightarrow>
                          (case parseCredentials loaded of
                             Inl e \<Rightarrow> Inl e
                           | Inr (users, _, _) \<Rightarrow> Inr (setHashedUsers loaded users)))
                 | Inl NotExist \<Rightarrow> Inr zero_credentialsFile
                 | Inl e \<Rightarrow> Inl (FileError e)) of
             Inl e \<Rightarrow> (fs, Inl e)
           | Inr doc \<Rightarrow>
               let kept = filter (\<lambda>(_, r). ir_Identity r \<noteq> identity) (cf_Invites doc) in
               (case randomToken ''ti_'' rnd of
                  Inl e \<Rightarrow> (fs, Inl e)
                | Inr invite \<Rightarrow>
                    let doc' = doc\<lparr>cf_Invites := AList.update (tokenHashText invite) \<lparr>ir_Identity = identity\<rparr> kept\<rparr>;
                        w = writeCredentialsFile env path doc' fs
                    in (afterWrite w, case snd w of Some e \<Rightarrow> Inl (FileError e) | None \<Rightarrow> Inr invite))))"

definition serviceToRecord :: "Service \<Rightarrow> serviceRecord" where
  "serviceToRecord s =
     \<lparr>sr_Target = svc_Target s, sr_LocalPort = svc_LocalPort s,
      sr_Workload = (case svc_Workload s of
        None \<Rightarrow> None
      | Some w \<Rightarrow> Some \<lparr>wr_Kind = wl_Kind w, wr_Namespace = wl_Namespace w, wr_Name = wl_Name w,
          wr_Replicas = wl_Replicas w, wr_ReadyTimeout = durationString (wl_ReadyTimeout w),
          wr_IdleTimeout = durationString (wl_IdleTimeout w)\<rparr>)\<rparr>"

definition GrantService :: "os_env \<Rightarrow> string \<Rightarrow> string \<Rightarrow> Service \<Rightarrow> json fs \<Rightarrow> json fs \<times> cred_err option" where
  "GrantService env path identity service fs =
     (case validateIdentity identity of
        Some e \<Rightarrow> (fs, Some e)
      | None \<Rightarrow>
          (case validateService service of
             Inl e \<Rightarrow> (fs, Some (BadService (svc_Name service) e))
           | Inr service \<Rightarrow>
               (case (case osStat env SysStat path fs of
                        Inr _ \<Rightarrow>
                          (case readCredentialsFile env path fs of
                             Inl e \<Rightarrow> Inl e
                           | Inr loaded \<Rightarrow>
                               (case parseCredentials loaded of
                                  Inl e \<Rightarrow> Inl e
                                | Inr (users, _, _) \<Rightarrow> Inr (loaded, users)))
                      | Inl NotExist \<Rightarrow> Inr (zero_credentialsFile, [])
                      | Inl e \<Rightarrow> Inl (FileError e)) of
                  Inl e \<Rightarrow> (fs, Some e)
                | Inr (doc, users) \<Rightarrow>
                    let access = (case map_of (cf_Access doc) identity of None \<Rightarrow> zero_accessRecord | Some a \<Rightarrow> a);
                        access' = access\<lparr>ar_Services := AList.update (svc_Name service) (serviceToRecord service) (ar_Services access)\<rparr>;
                        doc' = doc\<lparr>cf_Access := AList.update identity access' (cf_Access doc)\<rparr>;
                        w = writeCredentialsFile env path (setHashedUsers doc' users) fs
                    in (afterWrite w, map_option FileError (snd w)))))"

definition AuthenticateToken :: "Credentials \<Rightarrow> string \<Rightarrow> string \<Rightarrow> bool" where
  "AuthenticateToken c identity token =
     (let expected = (case map_of (cred_users c) identity of None \<Rightarrow> replicate 32 (CHR 0x00) | Some h \<Rightarrow> h);
          exists = (map_of (cred_users c) identity \<noteq> None)
      in sha256 token = expected \<and> exists)"

definition reloadLocked :: "os_env \<Rightarrow> Credentials \<Rightarrow> json fs \<Rightarrow> Credentials \<times> cred_err option" where
  "reloadLocked env c fs =
     (case readCredentialsFile env (cred_path c) fs of
        Inl e \<Rightarrow> (c, Some e)
      | Inr doc \<Rightarrow>
          (case parseCredentials doc of
             Inl e \<Rightarrow> (c, Some e)
           | Inr (users, invites, services) \<Rightarrow>
               (c\<lparr>cred_users := users, cred_invites := invites, cred_services := services\<rparr>, None)))"

definition AuthenticateInvite :: "os_env \<Rightarrow> Credentials \<Rightarrow> string \<Rightarrow> string \<Rightarrow> json fs \<Rightarrow> Credentials \<times> bool" where
  "AuthenticateInvite env c identity invite fs =
     (if cred_path c = [] then (c, False)
      else case reloadLocked env c fs of
        (c', Some _) \<Rightarrow> (c', False)
      | (c', None) \<Rightarrow> (c', map_of (cred_invites c') (tokenHashText invite) = Some identity))"

definition Enroll :: "os_env \<Rightarrow> string option \<Rightarrow> Credentials \<Rightarrow> string \<Rightarrow> string \<Rightarrow> json fs \<Rightarrow> Credentials \<times> json fs \<times> (cred_err + string)" where
  "Enroll env rnd c identity invite fs =
     (if cred_path c = [] then (c, fs, Inl NotFileBacked)
      else case readCredentialsFile env (cred_path c) fs of
        Inl e \<Rightarrow> (c, fs, Inl e)
      | Inr doc \<Rightarrow>
          (case parseCredentials doc of
             Inl e \<Rightarrow> (c, fs, Inl e)
           | Inr (users, invites, _) \<Rightarrow>
               let inviteHash = tokenHashText invite in
               if map_of invites inviteHash \<noteq> Some identity then (c, fs, Inl InviteInvalid)
               else (case randomToken ''tu_'' rnd of
                  Inl e \<Rightarrow> (c, fs, Inl e)
                | Inr token \<Rightarrow>
                    let doc1 = setHashedUsers doc users;
                        doc2 = doc1\<lparr>cf_Users := AList.update identity
                                  \<lparr>cr_Token = [], cr_TokenHash = tokenHashText token\<rparr> (cf_Users doc1)\<rparr>;
                        doc3 = doc2\<lparr>cf_Invites := AList.delete inviteHash (cf_Invites doc2)\<rparr>;
                        w = writeCredentialsFile env (cred_path c) doc3 fs
                    in (case snd w of
                          Some e \<Rightarrow> (c, afterWrite w, Inl (FileError e))
                        | None \<Rightarrow>
                            (case parseCredentials doc3 of
                               Inl e \<Rightarrow> (c\<lparr>cred_users := [], cred_invites := [], cred_services := []\<rparr>, afterWrite w, Inl e)
                             | Inr (us, iv, sv) \<Rightarrow>
                                 (c\<lparr>cred_users := us, cred_invites := iv, cred_services := sv\<rparr>, afterWrite w, Inr token))))))"

definition reloadIfFile :: "os_env \<Rightarrow> Credentials \<Rightarrow> json fs \<Rightarrow> Credentials \<times> cred_err option" where
  "reloadIfFile env c fs = (if cred_path c \<noteq> [] then reloadLocked env c fs else (c, None))"

definition credentialsServices :: "os_env \<Rightarrow> Credentials \<Rightarrow> string \<Rightarrow> json fs \<Rightarrow> Credentials \<times> (cred_err + Service list)" where
  "credentialsServices env c identity fs =
     (case reloadIfFile env c fs of
        (c', Some e) \<Rightarrow> (c', Inl e)
      | (c', None) \<Rightarrow>
          let grants = (case map_of (cred_services c') identity of None \<Rightarrow> [] | Some m \<Rightarrow> m)
          in (c', Inr (catalogOf grants)))"

definition credentialsResolveService :: "os_env \<Rightarrow> Credentials \<Rightarrow> string \<Rightarrow> string \<Rightarrow> json fs \<Rightarrow> Credentials \<times> Service option" where
  "credentialsResolveService env c identity name fs =
     (case reloadIfFile env c fs of
        (c', Some _) \<Rightarrow> (c', None)
      | (c', None) \<Rightarrow> (c', service_of (cred_services c') identity name))"

section \<open>The abstract policy\<close>

record policy =
  pol_users :: "string \<Rightarrow> string option"
  pol_invites :: "string \<Rightarrow> string option"
  pol_service :: "string \<Rightarrow> string \<Rightarrow> Service option"

definition empty_policy :: policy where
  "empty_policy = \<lparr>pol_users = \<lambda>_. None, pol_invites = \<lambda>_. None, pol_service = \<lambda>_ _. None\<rparr>"

text \<open>What a document grants, and what the file at a path grants to the next reader.\<close>

definition doc_policy :: "credentialsFile \<Rightarrow> policy" where
  "doc_policy doc =
     \<lparr>pol_users = \<lambda>i. Option.bind (map_of (cf_Users doc) i) (\<lambda>r. ok_val (parseUser i r)),
      pol_invites = \<lambda>h. Option.bind (map_of (cf_Invites doc) h) (\<lambda>r. ok_val (parseInvite h r)),
      pol_service = \<lambda>i n. Option.bind (record_of doc i n) (\<lambda>r. ok_val (parseServiceRecord n r))\<rparr>"

definition quiet :: os_env where
  "quiet = \<lparr>faults = \<lambda>_. False, tempNames = [], umask = 0\<rparr>"

definition stored :: "string \<Rightarrow> json fs \<Rightarrow> policy option" where
  "stored path fs =
     (case readCredentialsFile quiet path fs of
        Inl _ \<Rightarrow> None
      | Inr doc \<Rightarrow> if valid_file doc then Some (doc_policy doc) else None)"

text \<open>The policy an administrator's command starts from: a missing file grants nothing.\<close>

definition current :: "string \<Rightarrow> json fs \<Rightarrow> policy option" where
  "current path fs = (if map_of fs path = None then Some empty_policy else stored path fs)"

definition memory_policy :: "Credentials \<Rightarrow> policy" where
  "memory_policy c =
     \<lparr>pol_users = map_of (cred_users c), pol_invites = map_of (cred_invites c),
      pol_service = service_of (cred_services c)\<rparr>"

section \<open>Documents and policies\<close>

lemma read_quiet:
  "readCredentialsFile env p fs = Inr doc \<Longrightarrow> readCredentialsFile quiet p fs = Inr doc"
  by (auto simp: readCredentialsFile_def osStat_def readFile_def quiet_def
      split: sum.splits if_splits option.splits node.splits)

lemma parsed_policy:
  assumes "parseCredentials doc = Inr (us, iv, sv)" "wf_credentialsFile doc"
  shows "pol_users (doc_policy doc) = map_of us" "pol_invites (doc_policy doc) = map_of iv"
    "pol_service (doc_policy doc) = service_of sv"
  using parseCredentials_lookup [OF assms] by (auto simp: doc_policy_def intro!: ext)

lemma norm_policy: "wf_credentialsFile doc \<Longrightarrow> doc_policy (norm_file doc) = doc_policy doc"
  by (simp add: doc_policy_def norm_file_lookup)

lemma stored_after_write:
  assumes "separate ''.tearenv-users-'' path" "wf_credentialsFile doc" "valid_file doc"
    and "snd (writeCredentialsFile env path doc fs) = None"
  shows "stored path (afterWrite (writeCredentialsFile env path doc fs)) = Some (doc_policy doc)"
    and "readCredentialsFile quiet path (afterWrite (writeCredentialsFile env path doc fs)) = Inr (norm_file doc)"
proof -
  obtain trace where w: "writeCredentialsFile env path doc fs = (trace, None)"
    using assms(4) by (metis prod.collapse)
  show r: "readCredentialsFile quiet path (afterWrite (writeCredentialsFile env path doc fs)) = Inr (norm_file doc)"
    using cred_store.read_after_write [OF assms(1) w assms(2), of quiet] w
    by (simp add: quiet_def afterWrite_def)
  show "stored path (afterWrite (writeCredentialsFile env path doc fs)) = Some (doc_policy doc)"
    using r assms(2,3) by (simp add: stored_def valid_norm_file norm_policy)
qed

lemma current_after_failure:
  assumes "separate ''.tearenv-users-'' path" "snd (writeCredentialsFile env path doc fs) = Some e"
  shows "map_of (afterWrite (writeCredentialsFile env path doc fs)) path = map_of fs path"
  using atomicWrite_result [OF assms(1)] assms(2)
  by (metis afterWrite_def option.distinct(1) prod.collapse writeCredentialsFile_def)

section \<open>Hashed users\<close>

lemma hexHash_hexEncode: "length h = 32 \<Longrightarrow> hexHash (hexEncode h) = Some h"
  by (simp add: hexHash_def hexDecode_hexEncode)

lemma parseUser_hashed:
  "validIdentity i \<Longrightarrow> length h = 32 \<Longrightarrow> parseUser i \<lparr>cr_Token = [], cr_TokenHash = hexEncode h\<rparr> = Inr h"
  by (auto simp: parseUser_def validateIdentity_def hexHash_hexEncode hexEncode_Nil_iff)

lemma parseUser_ok: "parseUser i r = Inr h \<Longrightarrow> validIdentity i \<and> length h = 32"
  by (auto simp: parseUser_def validateIdentity_def hexHash_def split: if_splits option.splits)

lemma parsed_users:
  assumes "parseCredentials doc = Inr (us, iv, sv)" "wf_credentialsFile doc"
  shows "distinct (map fst us)" "\<forall>(i, h) \<in> set us. validIdentity i \<and> length h = 32"
    "us = [] \<longleftrightarrow> cf_Users doc = []"
proof -
  show d: "distinct (map fst us)" by (rule parseCredentials_lookup(4) [OF assms])
  show "\<forall>(i, h) \<in> set us. validIdentity i \<and> length h = 32"
  proof safe
    fix i h assume "(i, h) \<in> set us"
    then have "map_of us i = Some h" using d by simp
    then obtain r where "parseUser i r = Inr h"
      using parseCredentials_lookup(1) [OF assms, of i]
      by (cases "map_of (cf_Users doc) i") (auto elim: ok_val.elims)
    then show "validIdentity i" "length h = 32" by (auto dest: parseUser_ok)
  qed
  have "map_of us = Map.empty \<longleftrightarrow> map_of (cf_Users doc) = Map.empty"
  proof -
    have "map_of us i = None \<longleftrightarrow> map_of (cf_Users doc) i = None" for i
    proof (cases "map_of (cf_Users doc) i")
      case (Some r)
      have "valid_file doc" using assms(1) parseCredentials_ok [of doc] by simp
      with Some have "is_ok (parseUser i r)" by (auto simp: valid_file_def dest!: map_of_SomeD)
      with Some parseCredentials_lookup(1) [OF assms, of i] show ?thesis by (auto simp: is_ok_iff)
    qed (use parseCredentials_lookup(1) [OF assms, of i] in simp)
    then show ?thesis by (metis (full_types) ext)
  qed
  then show "us = [] \<longleftrightarrow> cf_Users doc = []" by simp
qed

lemma hexEncode_utf8: "valid_utf8 (hexEncode h)"
proof -
  have "c < CHR 0x80" if "is_hex c" for c
  proof -
    have "CHR ''f'' < CHR 0x80" by simp
    then have "c \<le> CHR ''f'' \<Longrightarrow> c < CHR 0x80" by (rule le_less_trans [rotated])
    with that show ?thesis
      using alnum_ascii [of c] by (auto simp: is_hex_def is_alnum_def)
  qed
  then show ?thesis using hexEncode_hex by (intro valid_utf8_ascii) (auto simp: is_ascii_def list_all_iff)
qed

definition good_users :: "string gomap \<Rightarrow> bool" where
  "good_users us \<longleftrightarrow> distinct (map fst us) \<and> (\<forall>(i, h) \<in> set us. validIdentity i \<and> length h = 32)"

lemma hashed_users:
  assumes "good_users us"
  shows "Option.bind (map_of (cf_Users (setHashedUsers doc us)) i) (\<lambda>r. ok_val (parseUser i r)) = map_of us i"
    and "wf_gomap wf_credentialRecord (cf_Users (setHashedUsers doc us))"
    and "\<forall>(i, r) \<in> set (cf_Users (setHashedUsers doc us)). is_ok (parseUser i r) \<and> cr_Token r = []"
proof -
  let ?g = "\<lambda>h. \<lparr>cr_Token = [], cr_TokenHash = hexEncode h\<rparr>"
  have u: "cf_Users (setHashedUsers doc us) = map (\<lambda>(i, h). (i, ?g h)) us" by (simp add: setHashedUsers_def)
  have m: "map_of (map (\<lambda>(i, h). (i, ?g h)) us) i = map_option ?g (map_of us i)"
    by (induction us) auto
  have v: "map_of us i = Some h \<Longrightarrow> validIdentity i \<and> length h = 32" for h
    using assms by (auto simp: good_users_def dest: map_of_SomeD)
  show "Option.bind (map_of (cf_Users (setHashedUsers doc us)) i) (\<lambda>r. ok_val (parseUser i r)) = map_of us i"
    unfolding u m using v by (cases "map_of us i") (simp_all add: parseUser_hashed)
  have k: "map fst (map (\<lambda>(i, h). (i, ?g h)) us) = map fst us" by (induction us) auto
  show "wf_gomap wf_credentialRecord (cf_Users (setHashedUsers doc us))"
    using assms unfolding u wf_gomap_def k
    by (auto simp: good_users_def wf_credentialRecord_def hexEncode_utf8 validIdentity_utf8)
  show "\<forall>(i, r) \<in> set (cf_Users (setHashedUsers doc us)). is_ok (parseUser i r) \<and> cr_Token r = []"
    using assms unfolding u by (auto simp: good_users_def parseUser_hashed)
qed

lemma good_users_parsed:
  "parseCredentials doc = Inr (us, iv, sv) \<Longrightarrow> wf_credentialsFile doc \<Longrightarrow> good_users us"
  using parsed_users(1,2) unfolding good_users_def by blast

section \<open>Granted services\<close>

text \<open>The Go types of the fields: \<open>uint32\<close>, \<open>int32\<close> and \<open>int64\<close> ranges, texts in UTF-8.\<close>

definition wf_Workload :: "Workload \<Rightarrow> bool" where
  "wf_Workload w \<longleftrightarrow> valid_utf8 (wl_Kind w) \<and> valid_utf8 (wl_Namespace w) \<and> valid_utf8 (wl_Name w) \<and>
     wl_Replicas w < 2 ^ 31 \<and> wl_ReadyTimeout w < 2 ^ 63 \<and> wl_IdleTimeout w < 2 ^ 63"

definition wf_Service :: "Service \<Rightarrow> bool" where
  "wf_Service s \<longleftrightarrow> valid_utf8 (svc_Target s) \<and> 0 \<le> svc_LocalPort s \<and>
     (case svc_Workload s of None \<Rightarrow> True | Some w \<Rightarrow> wf_Workload w)"

lemma validateService_wf:
  assumes "validateService s = Inr s'" "wf_Service s"
  shows "wf_Service s'"
proof -
  have "wf_Workload w'" if "validateWorkload w = Inr w'" "wf_Workload w" for w w'
    using that by (auto simp: validateWorkload_def wf_Workload_def Let_def Minute_def split: if_splits)
  with assms show ?thesis
    by (auto simp: validateService_alt wf_Service_def Let_def split: if_splits option.splits prod.splits sum.splits
        dest: targetPort_range)
qed

lemma parseDuration_printed:
  "0 \<le> d \<Longrightarrow> d < 2 ^ 63 \<Longrightarrow> parseDuration (durationString d) fb = Some d"
  using durationString_last [of d] parseDurationText_durationString [of d]
  by (auto simp: parseDuration_def)

lemma parse_granted:
  assumes "valid_service s" "wf_Service s"
  shows "parseServiceRecord (svc_Name s) (serviceToRecord s) = Inr s"
proof (cases "svc_Workload s")
  case None
  then have "\<lparr>svc_Name = svc_Name s, svc_Target = svc_Target s, svc_LocalPort = svc_LocalPort s, svc_Workload = None\<rparr> = s"
    by (cases s) simp
  note eq = this
  have "validateService \<lparr>svc_Name = svc_Name s, svc_Target = svc_Target s, svc_LocalPort = svc_LocalPort s,
      svc_Workload = None\<rparr> = Inr s" unfolding eq by (rule validateService_fix [OF assms(1)])
  with None show ?thesis
    by (simp add: parseServiceRecord_def serviceToRecord_def)
next
  case (Some w)
  have "valid_workload w" "wf_Workload w" using assms Some by (auto simp: valid_service_def wf_Service_def)
  then have "parseWorkloadRecord (svc_Name s)
      \<lparr>wr_Kind = wl_Kind w, wr_Namespace = wl_Namespace w, wr_Name = wl_Name w,
       wr_Replicas = wl_Replicas w, wr_ReadyTimeout = durationString (wl_ReadyTimeout w),
       wr_IdleTimeout = durationString (wl_IdleTimeout w)\<rparr> = Inr w"
    by (simp add: parseWorkloadRecord_def parseDuration_printed valid_workload_def wf_Workload_def)
  moreover have eq: "\<lparr>svc_Name = svc_Name s, svc_Target = svc_Target s, svc_LocalPort = svc_LocalPort s, svc_Workload = Some w\<rparr> = s"
    using Some by (cases s) simp
  have "validateService \<lparr>svc_Name = svc_Name s, svc_Target = svc_Target s, svc_LocalPort = svc_LocalPort s,
      svc_Workload = Some w\<rparr> = Inr s" unfolding eq by (rule validateService_fix [OF assms(1)])
  ultimately show ?thesis
    using Some by (simp add: parseServiceRecord_def serviceToRecord_def)
qed

lemma wf_granted: "valid_service s \<Longrightarrow> wf_Service s \<Longrightarrow> wf_serviceRecord (serviceToRecord s)"
  by (auto simp: valid_service_def wf_Service_def wf_serviceRecord_def serviceToRecord_def wf_workloadRecord_def
      valid_workload_def wf_Workload_def durationString_utf8 split: option.splits)

section \<open>Updates of a document\<close>

definition entries_ok :: "credentialsFile \<Rightarrow> bool" where
  "entries_ok doc \<longleftrightarrow>
     (\<forall>(i, r) \<in> set (cf_Users doc). is_ok (parseUser i r)) \<and>
     (\<forall>(h, r) \<in> set (cf_Invites doc). is_ok (parseInvite h r)) \<and>
     (\<forall>(i, a) \<in> set (cf_Access doc). validIdentity i \<and>
        (\<forall>(n, r) \<in> set (ar_Services a). is_ok (parseServiceRecord n r)))"

lemma valid_file_entries:
  "valid_file doc \<longleftrightarrow> (cf_Users doc \<noteq> [] \<or> cf_Invites doc \<noteq> [] \<or> cf_Access doc \<noteq> []) \<and> entries_ok doc"
  by (auto simp: valid_file_def entries_ok_def)

text \<open>A document ready for an update, and the users read from it.\<close>

definition updatable :: "credentialsFile \<Rightarrow> string gomap \<Rightarrow> bool" where
  "updatable doc us \<longleftrightarrow> wf_credentialsFile doc \<and> entries_ok doc \<and> good_users us \<and>
     pol_users (doc_policy doc) = map_of us"

lemma updatable_loaded:
  assumes "readCredentialsFile env path fs = Inr doc" "parseCredentials doc = Inr (us, iv, sv)"
  shows "updatable doc us" "current path fs = Some (doc_policy doc)"
proof -
  have wf: "wf_credentialsFile doc" by (rule readCredentialsFile_wf [OF assms(1)])
  have v: "valid_file doc" using assms(2) parseCredentials_ok [of doc] by simp
  show "updatable doc us"
    using wf v good_users_parsed [OF assms(2) wf] parsed_policy(1) [OF assms(2) wf]
    by (auto simp: updatable_def valid_file_entries)
  have "map_of fs path \<noteq> None"
    using assms(1) by (auto simp: readCredentialsFile_def osStat_def split: if_splits option.splits)
  then show "current path fs = Some (doc_policy doc)"
    using read_quiet [OF assms(1)] v by (auto simp: current_def stored_def)
qed

lemma updatable_zero: "updatable zero_credentialsFile []" "doc_policy zero_credentialsFile = empty_policy"
  by (simp_all add: updatable_def zero_credentialsFile_def wf_credentialsFile_def wf_gomap_def entries_ok_def
      good_users_def doc_policy_def empty_policy_def record_of_def)

lemma updatable_hashed:
  assumes "updatable doc us"
  shows "updatable (setHashedUsers doc us) us" "doc_policy (setHashedUsers doc us) = doc_policy doc"
proof -
  have g: "good_users us" and wf: "wf_credentialsFile doc" and e: "entries_ok doc"
    and pu: "pol_users (doc_policy doc) = map_of us"
    using assms by (simp_all add: updatable_def)
  note h = hashed_users [OF g, of doc]
  show p: "doc_policy (setHashedUsers doc us) = doc_policy doc"
    using pu h(1) by (auto simp: doc_policy_def record_of_def setHashedUsers_def)
  show "updatable (setHashedUsers doc us) us"
    using g wf e pu h(2,3) unfolding updatable_def p wf_credentialsFile_def entries_ok_def
    by (auto simp: setHashedUsers_def)
qed

lemma parseInvite_value: "is_ok (parseInvite h r) \<Longrightarrow> parseInvite h r = Inr (ir_Identity r)"
  by (auto simp: parseInvite_def split: option.splits)

lemma parseInvite_new: "validIdentity i \<Longrightarrow> parseInvite (tokenHashText t) \<lparr>ir_Identity = i\<rparr> = Inr i"
  by (simp add: parseInvite_def tokenHashText_def hexHash_hexEncode validateIdentity_def)

text \<open>\<open>CreateInvite\<close> replaces every invite of the identity by the new one.\<close>

definition invite_policy :: "string \<Rightarrow> string \<Rightarrow> policy \<Rightarrow> policy" where
  "invite_policy identity hash p =
     p\<lparr>pol_invites := \<lambda>h. if h = hash then Some identity
                           else if pol_invites p h = Some identity then None else pol_invites p h\<rparr>"

lemma invite_policy_new: "pol_invites (invite_policy identity hash p) hash = Some identity"
  by (simp add: invite_policy_def)

lemma invite_update:
  fixes invite :: string
  assumes "updatable doc us" "validIdentity identity"
  defines "doc' \<equiv> doc\<lparr>cf_Invites := AList.update (tokenHashText invite) \<lparr>ir_Identity = identity\<rparr>
      (filter (\<lambda>(_, r). ir_Identity r \<noteq> identity) (cf_Invites doc))\<rparr>"
  shows "wf_credentialsFile doc'" "valid_file doc'"
    "doc_policy doc' = invite_policy identity (tokenHashText invite) (doc_policy doc)"
proof -
  let ?kept = "filter (\<lambda>(_, r). ir_Identity r \<noteq> identity) (cf_Invites doc)"
  have wf: "wf_credentialsFile doc" and e: "entries_ok doc" using assms(1) by (simp_all add: updatable_def)
  have d: "distinct (map fst (cf_Invites doc))" using wf by (simp add: wf_credentialsFile_def wf_gomap_def)
  then have dk: "distinct (map fst ?kept)" by (rule distinct_map_filter)
  note s = set_update_distinct [OF dk]
  show "wf_credentialsFile doc'"
    using wf dk assms(2)
    by (auto simp: doc'_def wf_credentialsFile_def wf_gomap_def s wf_inviteRecord_def validIdentity_utf8
        tokenHashText_def hexEncode_utf8)
  show "valid_file doc'"
    using e assms(2) by (auto simp: doc'_def valid_file_def entries_ok_def s parseInvite_new update_nonempty)
  have "Option.bind (map_of (cf_Invites doc') h) (\<lambda>r. ok_val (parseInvite h r)) =
      (if h = tokenHashText invite then Some identity
       else if pol_invites (doc_policy doc) h = Some identity then None else pol_invites (doc_policy doc) h)" for h
  proof (cases "map_of (cf_Invites doc) h")
    case None
    then show ?thesis
      using map_of_filter_val [OF d, of "\<lambda>r. ir_Identity r \<noteq> identity" h] assms(2)
      by (simp add: doc'_def doc_policy_def parseInvite_new)
  next
    case (Some r)
    then have "is_ok (parseInvite h r)" using e by (auto simp: entries_ok_def dest!: map_of_SomeD)
    with Some show ?thesis
      using map_of_filter_val [OF d, of "\<lambda>r. ir_Identity r \<noteq> identity" h] assms(2)
      by (simp add: doc'_def doc_policy_def parseInvite_new parseInvite_value)
  qed
  then show "doc_policy doc' = invite_policy identity (tokenHashText invite) (doc_policy doc)"
    by (intro policy.equality ext) (auto simp: doc_policy_def invite_policy_def, auto simp: doc'_def record_of_def)
qed

text \<open>\<open>Enroll\<close> exchanges the invite for the user's token hash.\<close>

definition enroll_policy :: "string \<Rightarrow> string \<Rightarrow> string \<Rightarrow> policy \<Rightarrow> policy" where
  "enroll_policy identity hash token p =
     p\<lparr>pol_users := (pol_users p)(identity := Some (sha256 token)),
       pol_invites := (pol_invites p)(hash := None)\<rparr>"

lemma enroll_update:
  fixes token hash :: string
  assumes "updatable doc us" "validIdentity identity"
  defines "doc' \<equiv> doc\<lparr>cf_Users := AList.update identity \<lparr>cr_Token = [], cr_TokenHash = tokenHashText token\<rparr> (cf_Users doc),
      cf_Invites := AList.delete hash (cf_Invites doc)\<rparr>"
  shows "wf_credentialsFile doc'" "valid_file doc'"
    "doc_policy doc' = enroll_policy identity hash token (doc_policy doc)"
proof -
  have wf: "wf_credentialsFile doc" and e: "entries_ok doc" using assms(1) by (simp_all add: updatable_def)
  have d: "distinct (map fst (cf_Users doc))" "distinct (map fst (cf_Invites doc))"
    using wf by (simp_all add: wf_credentialsFile_def wf_gomap_def)
  note s = set_update_distinct [OF d(1)]
  have pu: "parseUser identity \<lparr>cr_Token = [], cr_TokenHash = tokenHashText token\<rparr> = Inr (sha256 token)"
    unfolding tokenHashText_def by (rule parseUser_hashed) (use assms(2) in simp_all)
  show "wf_credentialsFile doc'"
    using wf d assms(2)
    by (auto simp: doc'_def wf_credentialsFile_def wf_gomap_def s wf_credentialRecord_def validIdentity_utf8
        tokenHashText_def hexEncode_utf8 dest: set_delete_cases)
  show "valid_file doc'"
    using e pu by (auto simp: doc'_def valid_file_def entries_ok_def s dest: set_delete_cases)
  show "doc_policy doc' = enroll_policy identity hash token (doc_policy doc)"
    using pu by (auto simp: doc_policy_def enroll_policy_def doc'_def record_of_def)
qed

text \<open>\<open>GrantService\<close> sets one service of one identity.\<close>

definition grant_policy :: "string \<Rightarrow> Service \<Rightarrow> policy \<Rightarrow> policy" where
  "grant_policy identity s p =
     p\<lparr>pol_service := \<lambda>i n. if i = identity \<and> n = svc_Name s then Some s else pol_service p i n\<rparr>"

definition grant_doc :: "string \<Rightarrow> Service \<Rightarrow> credentialsFile \<Rightarrow> credentialsFile" where
  "grant_doc identity s doc =
     (let access = (case map_of (cf_Access doc) identity of None \<Rightarrow> zero_accessRecord | Some a \<Rightarrow> a)
      in doc\<lparr>cf_Access := AList.update identity
           (access\<lparr>ar_Services := AList.update (svc_Name s) (serviceToRecord s) (ar_Services access)\<rparr>) (cf_Access doc)\<rparr>)"

lemma grant_update:
  assumes "updatable doc us" "validIdentity identity" "valid_service s" "wf_Service s"
  shows "updatable (grant_doc identity s doc) us" "cf_Access (grant_doc identity s doc) \<noteq> []"
    "doc_policy (grant_doc identity s doc) = grant_policy identity s (doc_policy doc)"
proof -
  let ?a = "case map_of (cf_Access doc) identity of None \<Rightarrow> zero_accessRecord | Some a \<Rightarrow> a"
  let ?a' = "?a\<lparr>ar_Services := AList.update (svc_Name s) (serviceToRecord s) (ar_Services ?a)\<rparr>"
  have wf: "wf_credentialsFile doc" and e: "entries_ok doc" using assms(1) by (simp_all add: updatable_def)
  have d: "distinct (map fst (cf_Access doc))" using wf by (simp add: wf_credentialsFile_def wf_gomap_def)
  note st = set_update_distinct [OF d]
  have wa: "wf_accessRecord ?a"
    using wf by (auto simp: wf_credentialsFile_def wf_gomap_def wf_accessRecord_def zero_accessRecord_def
        split: option.split dest!: map_of_SomeD)
  then have da: "distinct (map fst (ar_Services ?a))" by (simp add: wf_accessRecord_def wf_gomap_def)
  have ea: "\<forall>(n, r) \<in> set (ar_Services ?a). is_ok (parseServiceRecord n r)"
    using e by (auto simp: entries_ok_def zero_accessRecord_def split: option.split dest!: map_of_SomeD)
  have pr: "parseServiceRecord (svc_Name s) (serviceToRecord s) = Inr s" by (rule parse_granted [OF assms(3,4)])
  have vn: "valid_utf8 (svc_Name s)" using assms(3) validServiceName_utf8 by (simp add: valid_service_def)
  have wa': "wf_accessRecord ?a'"
    using wa da vn wf_granted [OF assms(3,4)]
    by (auto simp: wf_accessRecord_def wf_gomap_def set_update_distinct)
  have ea': "\<forall>(n, r) \<in> set (ar_Services ?a'). is_ok (parseServiceRecord n r)"
    using ea da pr by (auto simp: set_update_distinct)
  show ne: "cf_Access (grant_doc identity s doc) \<noteq> []" by (simp add: grant_doc_def Let_def)
  have look: "record_of (grant_doc identity s doc) i n =
      (if i = identity \<and> n = svc_Name s then Some (serviceToRecord s) else record_of doc i n)" for i n
    by (auto simp: record_of_def grant_doc_def Let_def zero_accessRecord_def split: option.split)
  then show pol: "doc_policy (grant_doc identity s doc) = grant_policy identity s (doc_policy doc)"
    using pr
    by (intro policy.equality ext) (auto simp: doc_policy_def grant_policy_def, auto simp: grant_doc_def Let_def)
  have "wf_credentialsFile (grant_doc identity s doc)"
    using wf d wa' validIdentity_utf8 [OF assms(2)]
    by (auto simp: grant_doc_def Let_def wf_credentialsFile_def wf_gomap_def st)
  moreover have "entries_ok (grant_doc identity s doc)"
    using e ea' assms(2) by (auto simp: grant_doc_def Let_def entries_ok_def st)
  ultimately show "updatable (grant_doc identity s doc) us"
    using assms(1) pol by (simp add: updatable_def grant_policy_def)
qed

section \<open>The operations refine the policy\<close>

text \<open>No user record of a document carries a plaintext token.\<close>

definition no_plaintext :: "credentialsFile \<Rightarrow> bool" where
  "no_plaintext doc \<longleftrightarrow> (\<forall>(i, r) \<in> set (cf_Users doc). cr_Token r = [])"

lemma no_plaintext_norm: "no_plaintext (norm_file doc) = no_plaintext doc"
  by (simp add: no_plaintext_def norm_file_def)

lemma no_plaintext_hashed: "no_plaintext (setHashedUsers doc us)"
  by (auto simp: no_plaintext_def setHashedUsers_def)

text \<open>Both administrative commands start from this: the loaded document, or an empty one.\<close>

definition loadForUpdate :: "os_env \<Rightarrow> string \<Rightarrow> json fs \<Rightarrow> cred_err + credentialsFile \<times> string gomap" where
  "loadForUpdate env path fs =
     (case osStat env SysStat path fs of
        Inr _ \<Rightarrow>
          (case readCredentialsFile env path fs of
             Inl e \<Rightarrow> Inl e
           | Inr loaded \<Rightarrow>
               (case parseCredentials loaded of Inl e \<Rightarrow> Inl e | Inr (users, _, _) \<Rightarrow> Inr (loaded, users)))
      | Inl NotExist \<Rightarrow> Inr (zero_credentialsFile, [])
      | Inl e \<Rightarrow> Inl (FileError e))"

lemma loadForUpdate_ok:
  assumes "loadForUpdate env path fs = Inr (doc, us)"
  shows "updatable doc us" "current path fs = Some (doc_policy doc)"
  using assms updatable_loaded [of env path fs doc us] updatable_zero
  by (auto simp: loadForUpdate_def osStat_def current_def
      split: sum.splits sys_err.splits if_splits option.splits)

lemma setHashedUsers_zero: "setHashedUsers zero_credentialsFile [] = zero_credentialsFile"
  by (simp add: setHashedUsers_def zero_credentialsFile_def)

lemma CreateInvite_cases:
  "CreateInvite env rnd path identity fs =
     (case validateIdentity identity of
        Some e \<Rightarrow> (fs, Inl e)
      | None \<Rightarrow>
          (case loadForUpdate env path fs of
             Inl e \<Rightarrow> (fs, Inl e)
           | Inr (doc, us) \<Rightarrow>
               (case randomToken ''ti_'' rnd of
                  Inl e \<Rightarrow> (fs, Inl e)
                | Inr invite \<Rightarrow>
                    let doc' = (setHashedUsers doc us)\<lparr>cf_Invites := AList.update (tokenHashText invite) \<lparr>ir_Identity = identity\<rparr>
                          (filter (\<lambda>(_, r). ir_Identity r \<noteq> identity) (cf_Invites (setHashedUsers doc us)))\<rparr>;
                        w = writeCredentialsFile env path doc' fs
                    in (afterWrite w, case snd w of Some e \<Rightarrow> Inl (FileError e) | None \<Rightarrow> Inr invite))))"
proof -
  have load: "(case osStat env SysStat path fs of
        Inr _ \<Rightarrow>
          (case readCredentialsFile env path fs of
             Inl e \<Rightarrow> Inl e
           | Inr loaded \<Rightarrow>
               (case parseCredentials loaded of
                  Inl e \<Rightarrow> Inl e
                | Inr (users, _, _) \<Rightarrow> Inr (setHashedUsers loaded users)))
      | Inl NotExist \<Rightarrow> Inr zero_credentialsFile
      | Inl e \<Rightarrow> Inl (FileError e)) =
      (case loadForUpdate env path fs of Inl e \<Rightarrow> Inl e | Inr (doc, us) \<Rightarrow> Inr (setHashedUsers doc us))"
    by (simp add: loadForUpdate_def setHashedUsers_zero split: sum.split sys_err.split prod.split)
  show ?thesis
    unfolding CreateInvite_def load
    by (cases "loadForUpdate env path fs") (auto simp: Let_def split: option.split sum.split)
qed

lemma GrantService_cases:
  "GrantService env path identity service fs =
     (case validateIdentity identity of
        Some e \<Rightarrow> (fs, Some e)
      | None \<Rightarrow>
          (case validateService service of
             Inl e \<Rightarrow> (fs, Some (BadService (svc_Name service) e))
           | Inr s \<Rightarrow>
               (case loadForUpdate env path fs of
                  Inl e \<Rightarrow> (fs, Some e)
                | Inr (doc, us) \<Rightarrow>
                    let w = writeCredentialsFile env path (setHashedUsers (grant_doc identity s doc) us) fs
                    in (afterWrite w, map_option FileError (snd w)))))"
  unfolding GrantService_def loadForUpdate_def [symmetric]
  by (simp add: grant_doc_def Let_def cong: option.case_cong sum.case_cong)

lemma CreateInvite_refines:
  assumes "separate ''.tearenv-users-'' path" "CreateInvite env rnd path identity fs = (fs', Inr invite)"
  shows "\<exists>P. current path fs = Some P \<and>
      stored path fs' = Some (invite_policy identity (tokenHashText invite) P)"
    and "\<exists>doc. readCredentialsFile quiet path fs' = Inr doc \<and> no_plaintext doc"
proof -
  from assms(2) obtain doc us where vi: "validIdentity identity"
    and l: "loadForUpdate env path fs = Inr (doc, us)"
    by (auto simp: CreateInvite_cases validateIdentity_def Let_def split: option.splits sum.splits if_splits)
  let ?doc = "setHashedUsers doc us"
  let ?doc' = "?doc\<lparr>cf_Invites := AList.update (tokenHashText invite) \<lparr>ir_Identity = identity\<rparr>
      (filter (\<lambda>(_, r). ir_Identity r \<noteq> identity) (cf_Invites ?doc))\<rparr>"
  have w: "snd (writeCredentialsFile env path ?doc' fs) = None"
    "fs' = afterWrite (writeCredentialsFile env path ?doc' fs)"
    using assms(2) l by (auto simp: CreateInvite_cases Let_def split: option.splits sum.splits)
  note u = loadForUpdate_ok [OF l]
  note h = updatable_hashed [OF u(1)]
  note i = invite_update [OF h(1) vi, of invite]
  note sw = stored_after_write [OF assms(1) i(1,2) w(1)]
  show "\<exists>P. current path fs = Some P \<and>
      stored path fs' = Some (invite_policy identity (tokenHashText invite) P)"
    using u(2) sw(1) i(3) h(2) w(2) by simp
  have "no_plaintext ?doc'" using no_plaintext_hashed [of doc us] by (simp add: no_plaintext_def)
  with sw(2) w(2) show "\<exists>doc. readCredentialsFile quiet path fs' = Inr doc \<and> no_plaintext doc"
    by (auto simp: no_plaintext_norm)
qed

lemma GrantService_refines:
  assumes "separate ''.tearenv-users-'' path" "GrantService env path identity service fs = (fs', None)"
    and "wf_Service service"
  shows "\<exists>P s. current path fs = Some P \<and> validateService service = Inr s \<and>
      stored path fs' = Some (grant_policy identity s P)"
    and "\<exists>doc. readCredentialsFile quiet path fs' = Inr doc \<and> no_plaintext doc"
proof -
  from assms(2) obtain doc us s where vi: "validIdentity identity" and vs: "validateService service = Inr s"
    and l: "loadForUpdate env path fs = Inr (doc, us)"
    by (auto simp: GrantService_cases validateIdentity_def Let_def split: option.splits sum.splits if_splits)
  let ?doc = "setHashedUsers (grant_doc identity s doc) us"
  have w: "snd (writeCredentialsFile env path ?doc fs) = None"
    "fs' = afterWrite (writeCredentialsFile env path ?doc fs)"
    using assms(2) l vi vs by (auto simp: GrantService_cases validateIdentity_def Let_def)
  note u = loadForUpdate_ok [OF l]
  note g = grant_update [OF u(1) vi validateService_valid(1) [OF vs] validateService_wf [OF vs assms(3)]]
  note h = updatable_hashed [OF g(1)]
  have v: "valid_file ?doc"
    using h(1) g(2) by (simp add: updatable_def valid_file_entries setHashedUsers_def)
  have wf: "wf_credentialsFile ?doc" using h(1) by (simp add: updatable_def)
  note sw = stored_after_write [OF assms(1) wf v w(1)]
  show "\<exists>P s. current path fs = Some P \<and> validateService service = Inr s \<and>
      stored path fs' = Some (grant_policy identity s P)"
    using u(2) sw(1) g(3) h(2) w(2) vs by simp
  show "\<exists>doc. readCredentialsFile quiet path fs' = Inr doc \<and> no_plaintext doc"
    using sw(2) w(2) no_plaintext_hashed by (auto simp: no_plaintext_norm)
qed

text \<open>The document \<open>Enroll\<close> writes.\<close>

definition enroll_doc :: "string \<Rightarrow> string \<Rightarrow> string \<Rightarrow> string gomap \<Rightarrow> credentialsFile \<Rightarrow> credentialsFile" where
  "enroll_doc identity invite token us doc =
     (setHashedUsers doc us)\<lparr>cf_Users := AList.update identity
          \<lparr>cr_Token = [], cr_TokenHash = tokenHashText token\<rparr> (cf_Users (setHashedUsers doc us)),
         cf_Invites := AList.delete (tokenHashText invite) (cf_Invites (setHashedUsers doc us))\<rparr>"

lemma Enroll_eq:
  assumes "cred_path c \<noteq> []" "readCredentialsFile env (cred_path c) fs = Inr doc"
    and "parseCredentials doc = Inr (us, iv, sv)" "map_of iv (tokenHashText invite) = Some identity"
    and "randomToken ''tu_'' rnd = Inr token"
  shows "Enroll env rnd c identity invite fs =
    (let w = writeCredentialsFile env (cred_path c) (enroll_doc identity invite token us doc) fs in
     case snd w of
       Some e \<Rightarrow> (c, afterWrite w, Inl (FileError e))
     | None \<Rightarrow>
         (case parseCredentials (enroll_doc identity invite token us doc) of
            Inl e \<Rightarrow> (c\<lparr>cred_users := [], cred_invites := [], cred_services := []\<rparr>, afterWrite w, Inl e)
          | Inr (us, iv, sv) \<Rightarrow>
              (c\<lparr>cred_users := us, cred_invites := iv, cred_services := sv\<rparr>, afterWrite w, Inr token)))"
  using assms by (simp add: Enroll_def enroll_doc_def Let_def cong: option.case_cong sum.case_cong)

lemma Enroll_cases:
  assumes "Enroll env rnd c identity invite fs = (c', fs', r)"
  obtains (rejected) e where "r = Inl e" "c' = c" "fs' = fs"
  | (failed) e doc where "r = Inl (FileError e)" "c' = c"
      "fs' = afterWrite (writeCredentialsFile env (cred_path c) doc fs)"
      "snd (writeCredentialsFile env (cred_path c) doc fs) = Some e"
  | (written) doc us iv sv token doc' where
      "readCredentialsFile env (cred_path c) fs = Inr doc" "parseCredentials doc = Inr (us, iv, sv)"
      "map_of iv (tokenHashText invite) = Some identity" "randomToken ''tu_'' rnd = Inr token"
      "doc' = enroll_doc identity invite token us doc"
      "snd (writeCredentialsFile env (cred_path c) doc' fs) = None"
      "fs' = afterWrite (writeCredentialsFile env (cred_path c) doc' fs)"
      "(c', r) = (case parseCredentials doc' of
          Inl e \<Rightarrow> (c\<lparr>cred_users := [], cred_invites := [], cred_services := []\<rparr>, Inl e)
        | Inr (us, iv, sv) \<Rightarrow> (c\<lparr>cred_users := us, cred_invites := iv, cred_services := sv\<rparr>, Inr token))"
proof -
  show ?thesis
  proof (cases "cred_path c = [] \<or> \<not> is_ok (readCredentialsFile env (cred_path c) fs) \<or>
      \<not> is_ok (parseCredentials (the (ok_val (readCredentialsFile env (cred_path c) fs))))")
    case True
    then show ?thesis
      using assms rejected by (auto simp: Enroll_def is_ok_iff split: if_splits sum.splits)
  next
    case False
    then have ne: "cred_path c \<noteq> []" by simp
    from False obtain doc us iv sv where d: "readCredentialsFile env (cred_path c) fs = Inr doc"
      "parseCredentials doc = Inr (us, iv, sv)" by (auto simp: is_ok_iff)
    show ?thesis
    proof (cases "map_of iv (tokenHashText invite) = Some identity \<and> is_ok (randomToken ''tu_'' rnd)")
      case False
      then have "\<exists>e. r = Inl e \<and> c' = c \<and> fs' = fs"
        using assms d \<open>\<not> (_ \<or> _)\<close>
        by (cases "randomToken ''tu_'' rnd") (auto simp: Enroll_def Let_def is_ok_iff split: if_splits dest: sym)
      with rejected show ?thesis by blast
    next
      case True
      then obtain token where t: "randomToken ''tu_'' rnd = Inr token" by (auto simp: is_ok_iff)
      let ?doc = "enroll_doc identity invite token us doc"
      note E = Enroll_eq [OF ne d True [THEN conjunct1] t]
      show ?thesis
      proof (cases "snd (writeCredentialsFile env (cred_path c) ?doc fs)")
        case None
        then show ?thesis
          using assms E written [OF d _ t refl None] True by (auto simp: Let_def split: sum.splits)
      next
        case (Some e)
        then show ?thesis using assms E failed [of e ?doc] by (auto simp: Let_def)
      qed
    qed
  qed
qed

lemma Enroll_written:
  assumes "separate ''.tearenv-users-'' (cred_path c)"
    and "readCredentialsFile env (cred_path c) fs = Inr doc" "parseCredentials doc = Inr (us, iv, sv)"
    and "map_of iv (tokenHashText invite) = Some identity"
    and "doc' = enroll_doc identity invite token us doc"
  shows "wf_credentialsFile doc'" "valid_file doc'" "no_plaintext doc'"
    "stored (cred_path c) fs = Some (doc_policy doc)" "pol_invites (doc_policy doc) (tokenHashText invite) = Some identity"
    "doc_policy doc' = enroll_policy identity (tokenHashText invite) token (doc_policy doc)"
proof -
  have wf: "wf_credentialsFile doc" by (rule readCredentialsFile_wf [OF assms(2)])
  note u = updatable_loaded [OF assms(2,3)]
  note h = updatable_hashed [OF u(1)]
  show inv: "pol_invites (doc_policy doc) (tokenHashText invite) = Some identity"
    using parsed_policy(2) [OF assms(3) wf] assms(4) by simp
  have vi: "validIdentity identity"
    using inv by (auto simp: doc_policy_def parseInvite_def validateIdentity_def bind_eq_Some_conv
        elim!: ok_val.elims split: option.splits if_splits)
  note e = enroll_update [OF h(1) vi, where token = token and hash = "tokenHashText invite"]
  show "wf_credentialsFile doc'" "valid_file doc'"
    "doc_policy doc' = enroll_policy identity (tokenHashText invite) token (doc_policy doc)"
    using e h(2) by (simp_all add: assms(5) enroll_doc_def)
  show "no_plaintext doc'"
    using no_plaintext_hashed [of doc us] unfolding assms(5) enroll_doc_def no_plaintext_def by (auto dest!: set_update_cases)
  have "valid_file doc" using assms(3) parseCredentials_ok [of doc] by simp
  then show "stored (cred_path c) fs = Some (doc_policy doc)"
    using read_quiet [OF assms(2)] by (simp add: stored_def)
qed

lemma Enroll_success:
  assumes "separate ''.tearenv-users-'' (cred_path c)" "Enroll env rnd c identity invite fs = (c', fs', Inr token)"
  shows "(\<exists>P. stored (cred_path c) fs = Some P \<and> pol_invites P (tokenHashText invite) = Some identity \<and>
      stored (cred_path c) fs' = Some (enroll_policy identity (tokenHashText invite) token P) \<and>
      memory_policy c' = enroll_policy identity (tokenHashText invite) token P) \<and>
    (\<exists>doc. readCredentialsFile quiet (cred_path c) fs' = Inr doc \<and> no_plaintext doc) \<and>
    cred_path c' = cred_path c"
  using assms(2)
proof (cases rule: Enroll_cases)
  case (written doc us iv sv tok doc')
  note e = Enroll_written [OF assms(1) written(1,2,3,5)]
  obtain us' iv' sv' where p: "parseCredentials doc' = Inr (us', iv', sv')"
    using e(2) parseCredentials_ok [of doc'] by (metis is_ok_iff prod_cases3)
  have c: "c' = c\<lparr>cred_users := us', cred_invites := iv', cred_services := sv'\<rparr>" "token = tok"
    using written(8) p by simp_all
  have m: "memory_policy c' = doc_policy doc'"
    using parsed_policy [OF p e(1)] by (intro policy.equality) (simp_all add: memory_policy_def c)
  note sw = stored_after_write [OF assms(1) e(1,2) written(6)]
  show ?thesis
    using e(3,4,5,6) sw m written(7) c by (auto simp: no_plaintext_norm)
qed simp_all

lemmas Enroll_refines = Enroll_success [THEN conjunct1] Enroll_success [THEN conjunct2, THEN conjunct1]
  Enroll_success [THEN conjunct2, THEN conjunct2]

text \<open>An operation that reports an error has not changed the file or the memory.\<close>

lemma Enroll_error:
  assumes "separate ''.tearenv-users-'' (cred_path c)" "Enroll env rnd c identity invite fs = (c', fs', Inl e)"
  shows "c' = c \<and> map_of fs' (cred_path c) = map_of fs (cred_path c)"
  using assms(2)
proof (cases rule: Enroll_cases)
  case (failed e doc)
  with current_after_failure [OF assms(1)] show ?thesis by auto
next
  case (written doc us iv sv tok doc')
  note e = Enroll_written [OF assms(1) written(1,2,3,5)]
  obtain us' iv' sv' where "parseCredentials doc' = Inr (us', iv', sv')"
    using e(2) parseCredentials_ok [of doc'] by (metis is_ok_iff prod_cases3)
  with written(8) show ?thesis by simp
qed simp

lemma CreateInvite_error:
  assumes "separate ''.tearenv-users-'' path" "CreateInvite env rnd path identity fs = (fs', Inl e)"
  shows "map_of fs' path = map_of fs path"
  using assms(2) current_after_failure [OF assms(1)]
  by (auto simp: CreateInvite_cases Let_def split: option.splits sum.splits)

lemma GrantService_error:
  assumes "separate ''.tearenv-users-'' path" "GrantService env path identity service fs = (fs', Some e)"
  shows "map_of fs' path = map_of fs path"
  using assms(2) current_after_failure [OF assms(1)]
  by (auto simp: GrantService_cases Let_def split: option.splits sum.splits)

text \<open>Without the invite in the file, \<open>Enroll\<close> refuses and changes nothing.\<close>

lemma Enroll_spent:
  assumes "stored (cred_path c) fs = Some P" "pol_invites P (tokenHashText invite) = None"
    and "Enroll env rnd c identity invite fs = (c', fs', r)"
  shows "\<not> is_ok r \<and> c' = c \<and> fs' = fs"
proof -
  have no: "map_of iv (tokenHashText invite) \<noteq> Some i"
    if "readCredentialsFile env (cred_path c) fs = Inr doc" "parseCredentials doc = Inr (us, iv, sv)" for doc us iv sv i
    using parsed_policy(2) [OF that(2) readCredentialsFile_wf [OF that(1)]] read_quiet [OF that(1)]
      parseCredentials_ok [of doc] that(2) assms(1,2)
    by (auto simp: stored_def split: if_splits)
  show ?thesis
  proof (cases "readCredentialsFile env (cred_path c) fs")
    case (Inr doc)
    then show ?thesis
      using assms(3) no [OF Inr] by (cases "parseCredentials doc") (auto simp: Enroll_def Let_def split: if_splits)
  qed (use assms(3) in \<open>auto simp: Enroll_def split: if_splits\<close>)
qed

lemma read_env:
  assumes "\<not> faults env SysStatRead" "\<not> faults env SysRead"
  shows "readCredentialsFile env p fs = readCredentialsFile quiet p fs"
proof -
  have "osStat env SysStatRead p fs = osStat quiet SysStatRead p fs" "readFile env p fs = readFile quiet p fs"
    using assms by (simp_all add: osStat_def readFile_def quiet_def)
  then show ?thesis by (simp only: readCredentialsFile_def)
qed

lemma Enroll_live:
  assumes "separate ''.tearenv-users-'' (cred_path c)" "cred_path c \<noteq> []"
    and "stored (cred_path c) fs = Some P" "pol_invites P (tokenHashText invite) = Some identity"
    and "\<not> faults env SysStatRead" "\<not> faults env SysRead"
    and "writable env ''.tearenv-users-'' (cred_path c) fs"
  shows "snd (snd (Enroll env (Some bytes) c identity invite fs)) = Inr (''tu_'' @ base64RawURL bytes)"
proof -
  obtain doc where doc: "readCredentialsFile quiet (cred_path c) fs = Inr doc" "valid_file doc" "P = doc_policy doc"
    using assms(3) by (auto simp: stored_def split: sum.splits if_splits)
  have rd: "readCredentialsFile env (cred_path c) fs = Inr doc"
    using doc(1) read_env [OF assms(5,6)] by simp
  obtain us iv sv where ps: "parseCredentials doc = Inr (us, iv, sv)"
    using doc(2) parseCredentials_ok [of doc] by (metis is_ok_iff prod_cases3)
  have inv: "map_of iv (tokenHashText invite) = Some identity"
    using parsed_policy(2) [OF ps readCredentialsFile_wf [OF rd]] assms(4) doc(3) by simp
  let ?t = "''tu_'' @ base64RawURL bytes"
  note E = Enroll_eq [OF assms(2) rd ps inv, of "Some bytes" ?t]
  have "valid_file (enroll_doc identity invite ?t us doc)"
    by (rule Enroll_written(2) [OF assms(1) rd ps inv refl])
  then obtain us2 iv2 sv2 where "parseCredentials (enroll_doc identity invite ?t us doc) = Inr (us2, iv2, sv2)"
    using parseCredentials_ok by (metis is_ok_iff prod_cases3)
  moreover have "snd (writeCredentialsFile env (cred_path c) d fs) = None" for d
    unfolding writeCredentialsFile_def by (rule atomicWrite_live [OF assms(7,1)])
  ultimately show ?thesis using E by (simp add: randomToken_def Let_def)
qed

section \<open>Lookups\<close>

text \<open>A reload shows exactly the stored policy.\<close>

lemma reloadLocked_policy:
  assumes "reloadLocked env c fs = (c', None)"
  shows "stored (cred_path c) fs = Some (memory_policy c')" "cred_path c' = cred_path c"
proof -
  obtain doc us iv sv where r: "readCredentialsFile env (cred_path c) fs = Inr doc"
    "parseCredentials doc = Inr (us, iv, sv)"
    "c' = c\<lparr>cred_users := us, cred_invites := iv, cred_services := sv\<rparr>"
    using assms by (auto simp: reloadLocked_def split: sum.splits)
  have wf: "wf_credentialsFile doc" by (rule readCredentialsFile_wf [OF r(1)])
  have "memory_policy c' = doc_policy doc"
    using parsed_policy [OF r(2) wf] by (intro policy.equality) (simp_all add: memory_policy_def r(3))
  moreover have "valid_file doc" using r(2) parseCredentials_ok [of doc] by simp
  ultimately show "stored (cred_path c) fs = Some (memory_policy c')"
    using read_quiet [OF r(1)] by (simp add: stored_def)
  show "cred_path c' = cred_path c" by (simp add: r(3))
qed

lemma reloadLocked_quiet:
  assumes "stored (cred_path c) fs = Some P"
  shows "\<exists>c'. reloadLocked quiet c fs = (c', None)"
proof -
  obtain doc where "readCredentialsFile quiet (cred_path c) fs = Inr doc" "valid_file doc"
    using assms by (auto simp: stored_def split: sum.splits if_splits)
  moreover from this obtain us iv sv where "parseCredentials doc = Inr (us, iv, sv)"
    using parseCredentials_ok [of doc] by (metis is_ok_iff prod_cases3)
  ultimately show ?thesis by (auto simp: reloadLocked_def)
qed

lemma AuthenticateInvite_policy:
  assumes "cred_path c \<noteq> []" "stored (cred_path c) fs = Some P"
  shows "snd (AuthenticateInvite quiet c identity invite fs) \<longleftrightarrow>
    pol_invites P (tokenHashText invite) = Some identity"
proof -
  obtain c' where r: "reloadLocked quiet c fs = (c', None)" using reloadLocked_quiet [OF assms(2)] by blast
  with reloadLocked_policy(1) [OF r] assms show ?thesis
    by (auto simp: AuthenticateInvite_def memory_policy_def)
qed

lemma AuthenticateToken_policy:
  "AuthenticateToken c identity token \<longleftrightarrow> pol_users (memory_policy c) identity = Some (sha256 token)"
  by (auto simp: AuthenticateToken_def memory_policy_def Let_def split: option.splits)

text \<open>The services in memory are listed under their own names.\<close>

definition wf_Credentials :: "Credentials \<Rightarrow> bool" where
  "wf_Credentials c \<longleftrightarrow> (\<forall>m \<in> snd ` set (cred_services c). named m)"

lemma parseServiceRecord_name: "parseServiceRecord n r = Inr s \<Longrightarrow> svc_Name s = n"
  by (auto simp: parseServiceRecord_def Let_def dest!: validateService_valid(2) split: sum.splits option.splits)

lemma rbuild_services_named: "rbuild parseServiceRecord rs m = Inr m' \<Longrightarrow> named m \<Longrightarrow> named m'"
proof (induction rs arbitrary: m)
  case (Cons r rs)
  then obtain s where s: "parseServiceRecord (fst r) (snd r) = Inr s"
    "rbuild parseServiceRecord rs (AList.update (fst r) s m) = Inr m'"
    by (cases r) (auto split: sum.splits)
  then show ?case
    using Cons.IH [OF s(2)] named_update [OF Cons.prems(2) parseServiceRecord_name [OF s(1)]] by simp
qed simp

lemma parseAccess_named: "parseAccess i a = Inr m \<Longrightarrow> named m"
  using rbuild_services_named [of "ar_Services a" "[]" m]
  by (auto simp: parseAccess_def named_def split: option.splits)

lemma rbuild_access_named:
  "rbuild parseAccess as acc = Inr sv \<Longrightarrow> \<forall>m \<in> snd ` set acc. named m \<Longrightarrow> \<forall>m \<in> snd ` set sv. named m"
proof (induction as arbitrary: acc)
  case (Cons a as)
  then obtain m where m: "parseAccess (fst a) (snd a) = Inr m"
    "rbuild parseAccess as (AList.update (fst a) m acc) = Inr sv"
    by (cases a) (auto split: sum.splits)
  have "\<forall>m \<in> snd ` set (AList.update (fst a) m acc). named m"
    using Cons.prems(2) parseAccess_named [OF m(1)] by (force dest!: set_update_cases)
  with Cons.IH [OF m(2)] show ?case by simp
qed simp

lemma parsed_services_named:
  assumes "parseCredentials doc = Inr (us, iv, sv)"
  shows "\<forall>m \<in> snd ` set sv. named m"
proof -
  have "rbuild parseAccess (cf_Access doc) [] = Inr sv"
    using assms by (auto simp: parseCredentials_def split: if_splits sum.splits)
  then show ?thesis by (rule rbuild_access_named) simp
qed

lemma reload_wf: "reloadIfFile env c fs = (c', e) \<Longrightarrow> wf_Credentials c \<Longrightarrow> wf_Credentials c'"
  using parsed_services_named
  by (fastforce simp: reloadIfFile_def reloadLocked_def wf_Credentials_def split: if_splits sum.splits)

lemma cred_grants:
  assumes w: "wf_Credentials c" and s: "snd (credentialsServices env c i fs) = Inr xs"
  shows "\<exists>m. named m \<and> xs = catalogOf m \<and> (\<forall>n. snd (credentialsResolveService env c i n fs) = map_of m n)"
proof -
  obtain c' where r: "reloadIfFile env c fs = (c', None)"
    using s by (auto simp: credentialsServices_def split: prod.splits option.splits)
  let ?m = "case map_of (cred_services c') i of None \<Rightarrow> [] | Some m \<Rightarrow> m"
  have "named ?m"
    using reload_wf [OF r w]
    by (force simp: wf_Credentials_def named_def split: option.split dest: map_of_SomeD)
  then show ?thesis
    using s r
    by (intro exI [of _ ?m])
      (auto simp: credentialsServices_def credentialsResolveService_def service_of_def split: option.split)
qed

interpretation cred_policy: service_policy
  "\<lambda>(env, c, fs) i. snd (credentialsServices env c i fs)"
  "\<lambda>(env, c, fs) i n. snd (credentialsResolveService env c i n fs)"
  "\<lambda>(env, c, fs). wf_Credentials c"
proof (unfold_locales, goal_cases)
  case (1 s i xs)
  then show ?case using cred_grants catalogOf_sorted by (cases s) fastforce
next
  case (2 s i xs)
  then show ?case using cred_grants catalogOf_distinct by (cases s) fastforce
next
  case (3 s i xs x)
  then show ?case using cred_grants catalogOf_resolve by (cases s) fastforce
next
  case (4 s i n x)
  obtain env c fs where s: "s = (env, c, fs)" by (cases s)
  obtain c' where r: "reloadIfFile env c fs = (c', None)"
    using 4 s by (auto simp: credentialsResolveService_def split: prod.splits option.splits)
  with 4 s have so: "service_of (cred_services c') i n = Some x" by (simp add: credentialsResolveService_def)
  then obtain m where m: "map_of (cred_services c') i = Some m" "map_of m n = Some x"
    by (auto simp: service_of_def split: option.splits)
  have "named m"
    using reload_wf [OF r] 4 s m(1) by (force simp: wf_Credentials_def dest: map_of_SomeD)
  then show ?case using m(2) by (rule named_resolve)
qed

section \<open>Properties of the credential set\<close>

text \<open>
  A successful \<open>CreateInvite\<close> turns the policy the command started from (nothing, when
  the file did not exist) into one in which the new invite belongs to the identity, every older
  invite of that identity is gone and nothing else has changed; the file it leaves holds no
  plaintext token, whatever the file held before.
\<close>

theorem CreateInvite_policy:
  assumes "separate ''.tearenv-users-'' path" "CreateInvite env rnd path identity fs = (fs', Inr invite)"
  shows "(\<exists>P. current path fs = Some P \<and>
            stored path fs' = Some (invite_policy identity (tokenHashText invite) P)) \<and>
         (\<exists>doc. readCredentialsFile quiet path fs' = Inr doc \<and> no_plaintext doc)"
  using CreateInvite_refines [OF assms] by blast

text \<open>The environment of the witnesses: no faults, one temporary name.\<close>

definition calm :: os_env where
  "calm = \<lparr>faults = \<lambda>_. False, tempNames = [''7''], umask = 0\<rparr>"

definition sampleBytes :: string where
  "sampleBytes = replicate 32 (CHR ''x'')"

lemma separate_sample: "separate ''.tearenv-users-'' ''u.json''"
  by (simp add: separate_def dirOf_def Let_def joinPath_def)

lemma identity_sample: "validIdentity ''ada''"
  by (simp add: validIdentity_def is_alnum_def identity_char_def char_class_defs)

lemma calm_faults: "\<not> faults calm op"
  by (simp add: calm_def)

lemma writable_sample:
  assumes "map_of fs ''./.tearenv-users-7'' = None" "\<forall>p. map_of fs ''u.json'' \<noteq> Some (Directory p)"
  shows "writable calm ''.tearenv-users-'' ''u.json'' fs"
  using assms
  by (auto simp: writable_def calm_def dirOf_def Let_def ancestors_def joinPath_def split: option.split node.split)

lemma calm_write:
  assumes "map_of fs ''./.tearenv-users-7'' = None" "\<forall>p. map_of fs ''u.json'' \<noteq> Some (Directory p)"
  shows "snd (writeCredentialsFile calm ''u.json'' doc fs) = None"
  unfolding writeCredentialsFile_def
  by (rule atomicWrite_live [OF writable_sample [OF assms] separate_sample])

lemma CreateInvite_sample:
  "CreateInvite calm (Some sampleBytes) ''u.json'' ''ada'' [] =
     (fst (CreateInvite calm (Some sampleBytes) ''u.json'' ''ada'' []), Inr (''ti_'' @ base64RawURL sampleBytes))"
  using calm_write [of "[]"] identity_sample
  by (simp add: CreateInvite_def validateIdentity_def osStat_def calm_def [symmetric] randomToken_def Let_def,
      simp add: calm_def)

theorem CreateInvite_policy_witness:
  "stored ''u.json'' (fst (CreateInvite calm (Some sampleBytes) ''u.json'' ''ada'' [])) =
     Some (invite_policy ''ada'' (tokenHashText (''ti_'' @ base64RawURL sampleBytes)) empty_policy)"
  using CreateInvite_policy [OF separate_sample CreateInvite_sample] by (simp add: current_def)

text \<open>
  Claim C2.  A successful \<open>GrantService\<close> stores the normalised service for that identity and
  name, exactly as validation returned it (ports, replica count and both timeouts survive the
  trip through the file), changes no other grant, user or invite, and leaves no plaintext token.
\<close>

theorem GrantService_policy:
  assumes "separate ''.tearenv-users-'' path" "wf_Service service"
    and "GrantService env path identity service fs = (fs', None)"
  shows "(\<exists>P s. current path fs = Some P \<and> validateService service = Inr s \<and>
            stored path fs' = Some (grant_policy identity s P)) \<and>
         (\<exists>doc. readCredentialsFile quiet path fs' = Inr doc \<and> no_plaintext doc)"
  using GrantService_refines [OF assms(1,3,2)] by blast

definition sampleService :: Service where
  "sampleService = \<lparr>svc_Name = ''web'', svc_Target = ''web.dev:8080'', svc_LocalPort = 0,
     svc_Workload = Some \<lparr>wl_Kind = ''deployment'', wl_Namespace = ''dev'', wl_Name = ''web'', wl_Replicas = 0,
       wl_ReadyTimeout = 0, wl_IdleTimeout = 90 * Second\<rparr>\<rparr>"

definition sampleNormal :: Service where
  "sampleNormal = \<lparr>svc_Name = ''web'', svc_Target = ''web.dev:8080'', svc_LocalPort = 8080,
     svc_Workload = Some \<lparr>wl_Kind = ''deployment'', wl_Namespace = ''dev'', wl_Name = ''web'', wl_Replicas = 1,
       wl_ReadyTimeout = 2 * Minute, wl_IdleTimeout = 90 * Second\<rparr>\<rparr>"

lemma wf_sampleService: "wf_Service sampleService"
  by (simp add: wf_Service_def sampleService_def wf_Workload_def valid_utf8_ascii Second_def)

lemma validate_sampleService: "validateService sampleService = Inr sampleNormal"
  by code_simp

lemma GrantService_sample:
  "GrantService calm ''u.json'' ''ada'' sampleService [] =
     (fst (GrantService calm ''u.json'' ''ada'' sampleService []), None)"
  using calm_write [of "[]"] identity_sample validate_sampleService
  by (simp add: GrantService_def validateIdentity_def osStat_def Let_def, simp add: calm_def)

theorem GrantService_policy_witness:
  "stored ''u.json'' (fst (GrantService calm ''u.json'' ''ada'' sampleService [])) =
     Some (grant_policy ''ada'' sampleNormal empty_policy)"
  using GrantService_policy [OF separate_sample wf_sampleService GrantService_sample] validate_sampleService
  by (simp add: current_def)

text \<open>
  Claim C1.  Invites are used once.  After a successful \<open>Enroll\<close> the returned token logs its
  identity in, the invite is refused from then on (by \<open>AuthenticateInvite\<close> and by every further
  \<open>Enroll\<close>, which changes nothing), and all other users and grants are as stored before.
\<close>

theorem Enroll_once:
  assumes "separate ''.tearenv-users-'' (cred_path c)"
    and "Enroll env rnd c identity invite fs = (c', fs', Inr token)"
  shows "AuthenticateToken c' identity token \<and>
    \<not> snd (AuthenticateInvite quiet c' i invite fs') \<and>
    (case Enroll env' rnd' c' i invite fs' of (c2, fs2, r) \<Rightarrow> \<not> is_ok r \<and> c2 = c' \<and> fs2 = fs') \<and>
    (\<exists>P. stored (cred_path c) fs = Some P \<and>
      stored (cred_path c) fs' = Some (enroll_policy identity (tokenHashText invite) token P) \<and>
      (\<forall>j. j \<noteq> identity \<longrightarrow> pol_users (memory_policy c') j = pol_users P j) \<and>
      pol_service (memory_policy c') = pol_service P)"
proof -
  obtain P where P: "stored (cred_path c) fs = Some P"
    "stored (cred_path c) fs' = Some (enroll_policy identity (tokenHashText invite) token P)"
    "memory_policy c' = enroll_policy identity (tokenHashText invite) token P"
    using Enroll_refines(1) [OF assms] by blast
  have path: "cred_path c' = cred_path c" by (rule Enroll_refines(3) [OF assms])
  have ne: "cred_path c \<noteq> []" using assms(2) by (auto simp: Enroll_def split: if_splits)
  have gone: "pol_invites (enroll_policy identity (tokenHashText invite) token P) (tokenHashText invite) = None"
    by (simp add: enroll_policy_def)
  have again: "\<not> is_ok r \<and> c2 = c' \<and> fs2 = fs'" if e: "Enroll env' rnd' c' i invite fs' = (c2, fs2, r)" for c2 fs2 r
    by (rule Enroll_spent [OF _ gone e]) (simp add: path P(2))
  have "\<not> snd (AuthenticateInvite quiet c' i invite fs')"
    using AuthenticateInvite_policy [of c' fs'] P(2) path ne gone by simp
  moreover have "AuthenticateToken c' identity token"
    by (simp add: AuthenticateToken_policy P(3) enroll_policy_def)
  ultimately show ?thesis
    using P again by (auto simp: enroll_policy_def split: prod.split)
qed

text \<open>
  An invited identity can enroll: when the stored policy knows the invite for the
  identity, the calls that read the file do not fail, random bytes are available and the file
  can be replaced, \<open>Enroll\<close> returns a token.
\<close>

theorem Enroll_succeeds:
  assumes "separate ''.tearenv-users-'' (cred_path c)" "cred_path c \<noteq> []"
    and "stored (cred_path c) fs = Some P" "pol_invites P (tokenHashText invite) = Some identity"
    and "\<not> faults env SysStatRead" "\<not> faults env SysRead"
    and "writable env ''.tearenv-users-'' (cred_path c) fs"
  shows "snd (snd (Enroll env (Some bytes) c identity invite fs)) = Inr (''tu_'' @ base64RawURL bytes)"
  by (rule Enroll_live [OF assms])

definition invitedFs :: "json fs" where
  "invitedFs = fst (CreateInvite calm (Some sampleBytes) ''u.json'' ''ada'' [])"

definition sampleCredentials :: Credentials where
  "sampleCredentials = \<lparr>cred_path = ''u.json'', cred_users = [], cred_invites = [], cred_services = []\<rparr>"

lemma invitedFs_stored:
  "stored ''u.json'' invitedFs = Some (invite_policy ''ada'' (tokenHashText (''ti_'' @ base64RawURL sampleBytes)) empty_policy)"
  using CreateInvite_refines(1) [OF separate_sample CreateInvite_sample] by (simp add: invitedFs_def current_def)

lemma invitedFs_writable: "writable calm ''.tearenv-users-'' ''u.json'' invitedFs"
proof (rule writable_sample)
  obtain doc where i: "invitedFs = afterWrite (writeCredentialsFile calm ''u.json'' doc [])"
    using identity_sample
    by (simp add: invitedFs_def CreateInvite_def validateIdentity_def osStat_def calm_def randomToken_def Let_def)
  obtain tr where w: "writeCredentialsFile calm ''u.json'' doc [] = (tr, None)"
    using calm_write [of "[]" doc] by (metis map_of.simps(1) option.distinct(1) prod.collapse)
  show "map_of invitedFs ''./.tearenv-users-7'' = None"
    using atomicWrite_elsewhere [OF separate_sample w [unfolded writeCredentialsFile_def], of "''./.tearenv-users-7''"]
    by (simp add: i afterWrite_def w calm_faults dirOf_def Let_def ancestors_def)
  show "\<forall>p. map_of invitedFs ''u.json'' \<noteq> Some (Directory p)"
    using atomicWrite_result [OF separate_sample w [unfolded writeCredentialsFile_def]] by (simp add: i afterWrite_def w)
qed

theorem Enroll_succeeds_witness:
  "snd (snd (Enroll calm (Some sampleBytes) sampleCredentials ''ada'' (''ti_'' @ base64RawURL sampleBytes) invitedFs)) =
     Inr (''tu_'' @ base64RawURL sampleBytes)"
  by (rule Enroll_succeeds [OF _ _ _ invite_policy_new [of "''ada''" _ empty_policy]])
    (simp_all add: sampleCredentials_def invitedFs_stored invitedFs_writable separate_sample calm_faults)

definition sampleEnroll :: "Credentials \<times> json fs \<times> (cred_err + string)" where
  "sampleEnroll = Enroll calm (Some sampleBytes) sampleCredentials ''ada'' (''ti_'' @ base64RawURL sampleBytes) invitedFs"

lemma sampleEnroll_ok:
  "Enroll calm (Some sampleBytes) sampleCredentials ''ada'' (''ti_'' @ base64RawURL sampleBytes) invitedFs =
     (fst sampleEnroll, fst (snd sampleEnroll), Inr (''tu_'' @ base64RawURL sampleBytes))"
proof -
  have "snd (snd sampleEnroll) = Inr (''tu_'' @ base64RawURL sampleBytes)"
    unfolding sampleEnroll_def
    by (rule Enroll_live [OF _ _ _ invite_policy_new [of "''ada''" _ empty_policy]])
      (simp_all add: sampleCredentials_def invitedFs_stored invitedFs_writable separate_sample calm_faults)
  then show ?thesis unfolding sampleEnroll_def by (metis prod.collapse)
qed

theorem Enroll_once_witness:
  "AuthenticateToken (fst sampleEnroll) ''ada'' (''tu_'' @ base64RawURL sampleBytes) \<and>
   \<not> snd (AuthenticateInvite quiet (fst sampleEnroll) ''ada'' (''ti_'' @ base64RawURL sampleBytes) (fst (snd sampleEnroll)))"
  using Enroll_once [OF _ sampleEnroll_ok, of "''ada''"] separate_sample by (simp add: sampleCredentials_def)

text \<open>
  Claim C3.  All or nothing: an administrative command or an enrollment that reports an error
  leaves the credentials file as it was, whichever call failed, and a failed enrollment leaves
  the credentials in memory as they were.
\<close>

theorem credentials_all_or_nothing:
  assumes "separate ''.tearenv-users-'' path"
  shows "(CreateInvite env rnd path identity fs = (fs1, Inl e1) \<longrightarrow> map_of fs1 path = map_of fs path) \<and>
    (GrantService env path identity service fs = (fs2, Some e2) \<longrightarrow> map_of fs2 path = map_of fs path) \<and>
    (cred_path c = path \<longrightarrow> Enroll env rnd c identity invite fs = (c', fs3, Inl e3) \<longrightarrow>
       c' = c \<and> map_of fs3 path = map_of fs path)"
  using CreateInvite_error [OF assms] GrantService_error [OF assms]
    Enroll_error [of c env rnd identity invite fs c' fs3] assms by blast

text \<open>A disk that is full: every write fails.\<close>

definition fullDisk :: os_env where
  "fullDisk = \<lparr>faults = (\<lambda>op. op = SysWrite), tempNames = [''7''], umask = 0\<rparr>"

theorem credentials_all_or_nothing_witness:
  "\<not> is_ok (snd (CreateInvite fullDisk (Some sampleBytes) ''u.json'' ''ada'' [])) \<and>
   map_of (fst (CreateInvite fullDisk (Some sampleBytes) ''u.json'' ''ada'' [])) ''u.json'' = None"
proof -
  let ?r = "CreateInvite fullDisk (Some sampleBytes) ''u.json'' ''ada'' []"
  have "snd ?r = Inl (FileError (IOError SysWrite))"
    using identity_sample
    by (simp add: CreateInvite_def validateIdentity_def osStat_def fullDisk_def randomToken_def Let_def
        writeCredentialsFile_def atomicWrite_def replaceFile_def mkdirAll_def dirOf_def ancestors_def createTemp_def joinPath_def writeTemp_def)
  then have r: "?r = (fst ?r, Inl (FileError (IOError SysWrite)))" by (metis prod.collapse)
  with credentials_all_or_nothing [OF separate_sample, of fullDisk "Some sampleBytes" "''ada''" "[]"]
  have "map_of (fst ?r) ''u.json'' = map_of [] ''u.json''" by blast
  then show ?thesis by (subst r) simp
qed

text \<open>
  Claim C4.  Crash safety: in every state the file system goes through while the credentials are
  replaced, the next reader finds the policy stored before or the new one, never a partial file.
\<close>

theorem credentials_crash_safe:
  assumes "separate ''.tearenv-users-'' path" "wf_credentialsFile doc" "valid_file doc"
    and "fs' \<in> set (fst (writeCredentialsFile env path doc fs))"
  shows "stored path fs' = stored path fs \<or> stored path fs' = Some (doc_policy doc)"
proof -
  have "readCredentialsFile quiet path fs' = readCredentialsFile quiet path fs \<or>
      readCredentialsFile quiet path fs' = Inr (norm_file doc)"
    by (rule cred_store.read_after_crash [OF assms(1,4,2)]) (simp_all add: quiet_def)
  then show ?thesis using assms(2,3) by (auto simp: stored_def valid_norm_file norm_policy)
qed

definition sampleDoc :: credentialsFile where
  "sampleDoc = \<lparr>cf_Users = [(''ada'', \<lparr>cr_Token = ''0123456789abcdef'', cr_TokenHash = []\<rparr>)],
     cf_Invites = [], cf_Access = []\<rparr>"

theorem credentials_crash_safe_witness:
  "list_all (\<lambda>fs'. stored ''u.json'' fs' = None \<or> stored ''u.json'' fs' = Some (doc_policy sampleDoc))
     (fst (writeCredentialsFile fullDisk ''u.json'' sampleDoc []))"
  unfolding list_all_iff
proof
  have wf: "wf_credentialsFile sampleDoc"
    by (simp add: sampleDoc_def wf_credentialsFile_def wf_gomap_def wf_credentialRecord_def valid_utf8_ascii)
  have v: "valid_file sampleDoc"
    using identity_sample
    by (simp add: sampleDoc_def valid_file_def parseUser_def validateIdentity_def minimumTokenLength_def)
  have "stored ''u.json'' [] = None" by (simp add: stored_def readCredentialsFile_def osStat_def quiet_def)
  then show "stored ''u.json'' fs' = None \<or> stored ''u.json'' fs' = Some (doc_policy sampleDoc)"
    if "fs' \<in> set (fst (writeCredentialsFile fullDisk ''u.json'' sampleDoc []))" for fs'
    using credentials_crash_safe [OF separate_sample wf v that] by simp
qed

text \<open>
  The catalog and the gateway agree: what \<open>Services\<close> lists for an identity is sorted
  by name without repetition, and \<open>ResolveService\<close> resolves exactly the listed names, each to the
  listed service.
\<close>

theorem credentials_catalog:
  assumes "wf_Credentials c" "snd (credentialsServices env c identity fs) = Inr xs"
  shows "sorted (map svc_Name xs) \<and> distinct (map svc_Name xs) \<and>
    (\<forall>n s. snd (credentialsResolveService env c identity n fs) = Some s \<longleftrightarrow> s \<in> set xs \<and> svc_Name s = n)"
  using cred_policy.catalog_sorted [of "(env, c, fs)"] cred_policy.catalog_distinct [of "(env, c, fs)"]
    cred_policy.catalog_resolve [of "(env, c, fs)"] cred_policy.resolve_name [of "(env, c, fs)"] assms
  by auto

definition sampleMemory :: Credentials where
  "sampleMemory = \<lparr>cred_path = [], cred_users = [], cred_invites = [],
     cred_services = [(''ada'', [(''web'', sampleNormal), (''api'', sampleNormal\<lparr>svc_Name := ''api''\<rparr>)])]\<rparr>"

theorem credentials_catalog_witness:
  "snd (credentialsServices quiet sampleMemory ''ada'' []) = Inr [sampleNormal\<lparr>svc_Name := ''api''\<rparr>, sampleNormal] \<and>
   snd (credentialsResolveService quiet sampleMemory ''ada'' ''web'' []) = Some sampleNormal"
proof -
  have s: "snd (credentialsServices quiet sampleMemory ''ada'' []) = Inr [sampleNormal\<lparr>svc_Name := ''api''\<rparr>, sampleNormal]"
    by (simp add: credentialsServices_def reloadIfFile_def sampleMemory_def catalogOf_def sampleNormal_def)
  have "wf_Credentials sampleMemory"
    by (simp add: wf_Credentials_def sampleMemory_def named_def sampleNormal_def)
  from credentials_catalog [OF this s] s show ?thesis by (auto simp: sampleNormal_def)
qed

text \<open>
  Claim C5.  Validation is a normal form.  What \<open>validateService\<close> accepts has a well-formed name,
  a \<open>host:port\<close> target with port 1 to 65535, a local port 1 to 65535 that defaults to the target
  port, and a workload with at least one replica, a positive readiness timeout and a
  non-negative idle timeout; validating the result again changes nothing.
\<close>

theorem validateService_normal_form:
  assumes "validateService s = Inr s'" "0 \<le> svc_LocalPort s"
  shows "validateService s' = Inr s' \<and> svc_Name s' = svc_Name s \<and> validServiceName (svc_Name s') \<and>
    (\<exists>p. targetPort (svc_Target s') = Some p \<and> 1 \<le> p \<and> p \<le> 65535 \<and>
       svc_LocalPort s' = (if svc_LocalPort s = 0 then p else svc_LocalPort s)) \<and>
    1 \<le> svc_LocalPort s' \<and> svc_LocalPort s' \<le> 65535 \<and>
    (\<forall>w. svc_Workload s' = Some w \<longrightarrow> 1 \<le> wl_Replicas w \<and> 0 < wl_ReadyTimeout w \<and> 0 \<le> wl_IdleTimeout w)"
proof -
  note v = validateService_valid [OF assms(1)]
  obtain p where p: "targetPort (svc_Target s) = Some p" using v(1,3) by (auto simp: valid_service_def)
  have "1 \<le> svc_LocalPort s'" using v(1,4) p targetPort_range [OF p] assms(2) by (auto split: if_splits)
  then show ?thesis
    using v p targetPort_range [OF p] validateService_fix [OF v(1)]
    by (auto simp: valid_service_def valid_workload_def)
qed

theorem validateService_normal_form_witness:
  "validateService sampleService = Inr sampleNormal \<and> validateService sampleNormal = Inr sampleNormal"
  using validateService_normal_form [OF validate_sampleService] validate_sampleService
  by (simp add: sampleService_def)

end
