(* ===== verification/Libraries.thy ===== *)
theory Libraries
  imports Go_Json Go_Time "HOL-Library.Word"
begin

text \<open>
  The third-party packages the program calls, as parameters: \<open>golang.org/x/crypto/ssh\<close>
  (\<open>ssh_lib\<close>) and \<open>k8s.io/apimachinery/pkg/util/validation\<close> (\<open>k8s_lib\<close>).  A definition that calls
  into such a package takes its record as an argument.  What the program relies on is stated as a
  predicate on the record (\<open>documented_CheckCert\<close>, \<open>documented_SignCert\<close>, \<open>documented_k8s\<close>), used
  as a named hypothesis.  \<open>demoSsh\<close> and \<open>demoK8s\<close> are concrete records that satisfy the predicates;
  only witnesses use them.
\<close>

section \<open>SSH keys and certificates\<close>

datatype cert_type = UserCert | HostCert | OtherCert

text \<open>
  \<open>ssh.PublicKey\<close>: a plain key is known by its wire form; a \<open>*ssh.Certificate\<close> carries its fields.
\<close>

datatype PublicKey =
    PlainKey string
  | Certificate (cert_Nonce: string) (cert_Key: PublicKey) (cert_Serial: "64 word") (cert_CertType: cert_type)
      (cert_KeyId: string) (cert_ValidPrincipals: "string list") (cert_ValidAfter: "64 word")
      (cert_ValidBefore: "64 word") (cert_CriticalOptions: "string gomap") (cert_Extensions: "string gomap")
      (cert_SignatureKey: "PublicKey option") (cert_Signature: string)

fun isCertificate :: "PublicKey \<Rightarrow> bool" where
  "isCertificate (PlainKey _) = False"
| "isCertificate (Certificate _ _ _ _ _ _ _ _ _ _ _ _) = True"

text \<open>The certificate after signing: nonce, signature key and signature are set, the rest is kept.\<close>

fun signedWith :: "string \<Rightarrow> PublicKey \<Rightarrow> string \<Rightarrow> PublicKey \<Rightarrow> PublicKey" where
  "signedWith nonce authority sig (Certificate _ k sr t i ps va vb co ex _ _) =
     Certificate nonce k sr t i ps va vb co ex (Some authority) sig"
| "signedWith nonce authority sig (PlainKey b) = PlainKey b"

lemma signedWith_fields [simp]:
  assumes "isCertificate c"
  shows "cert_Key (signedWith n a s c) = cert_Key c" "cert_Serial (signedWith n a s c) = cert_Serial c"
    "cert_CertType (signedWith n a s c) = cert_CertType c" "cert_KeyId (signedWith n a s c) = cert_KeyId c"
    "cert_ValidPrincipals (signedWith n a s c) = cert_ValidPrincipals c"
    "cert_ValidAfter (signedWith n a s c) = cert_ValidAfter c"
    "cert_ValidBefore (signedWith n a s c) = cert_ValidBefore c"
    "cert_CriticalOptions (signedWith n a s c) = cert_CriticalOptions c"
    "cert_Extensions (signedWith n a s c) = cert_Extensions c"
    "cert_SignatureKey (signedWith n a s c) = Some a" "isCertificate (signedWith n a s c)"
  using assms by (cases c; simp)+

text \<open>A private key is known by its bytes.\<close>

type_synonym Signer = string

record ssh_lib =
  ParseAuthorizedKey :: "string \<Rightarrow> (PublicKey \<times> string) option"
  MarshalAuthorizedKey :: "PublicKey \<Rightarrow> string"
  marshalKey :: "PublicKey \<Rightarrow> string"
  ParsePrivateKey :: "string \<Rightarrow> Signer option"
  signerPublicKey :: "Signer \<Rightarrow> PublicKey"
  SignCert :: "Signer \<Rightarrow> string \<Rightarrow> PublicKey \<Rightarrow> PublicKey option"
  signatureVerifies :: "PublicKey \<Rightarrow> bool"
  criticalOptionsSupported :: "PublicKey \<Rightarrow> bool"
  CheckCert :: "(PublicKey option \<Rightarrow> bool) \<Rightarrow> int \<Rightarrow> string \<Rightarrow> PublicKey \<Rightarrow> bool"

text \<open>
  \<open>CertChecker.CheckCert\<close> is documented to check the critical options, the principals (none means
  any), the validity interval and that the signature verifies under the certificate's own
  signature key.  Its first argument is the checker's \<open>IsUserAuthority\<close>, its second the clock.
\<close>

definition certInWindow :: "int \<Rightarrow> PublicKey \<Rightarrow> bool" where
  "certInWindow now c \<longleftrightarrow> uint (cert_ValidAfter c) < 2 ^ 63 \<and> uint (cert_ValidAfter c) \<le> now \<and>
     (uint (cert_ValidBefore c) = 2 ^ 64 - 1 \<or> (uint (cert_ValidBefore c) < 2 ^ 63 \<and> now < uint (cert_ValidBefore c)))"

definition documented_CheckCert :: "ssh_lib \<Rightarrow> bool" where
  "documented_CheckCert L \<longleftrightarrow> (\<forall>isAuthority now principal c. isCertificate c \<longrightarrow>
     CheckCert L isAuthority now principal c =
       (criticalOptionsSupported L c \<and> (cert_ValidPrincipals c = [] \<or> principal \<in> set (cert_ValidPrincipals c)) \<and>
        certInWindow now c \<and> signatureVerifies L c))"

text \<open>
  \<open>Certificate.SignCert\<close> sets the nonce, the signature key and a signature that verifies; a
  certificate without critical options has no unsupported one.
\<close>

definition documented_SignCert :: "ssh_lib \<Rightarrow> bool" where
  "documented_SignCert L \<longleftrightarrow>
     (\<forall>signer nonce c c'. isCertificate c \<longrightarrow> SignCert L signer nonce c = Some c' \<longrightarrow>
        (\<exists>sig. c' = signedWith nonce (signerPublicKey L signer) sig c) \<and> signatureVerifies L c') \<and>
     (\<forall>c. isCertificate c \<longrightarrow> cert_CriticalOptions c = [] \<longrightarrow> criticalOptionsSupported L c)"

text \<open>The text of a key, as the program writes it, is ASCII and is read back as that key and nothing else.\<close>

definition readsBack :: "ssh_lib \<Rightarrow> PublicKey \<Rightarrow> bool" where
  "readsBack L k \<longleftrightarrow> is_ascii (trimSpace (MarshalAuthorizedKey L k)) \<and>
     ParseAuthorizedKey L (trimSpace (MarshalAuthorizedKey L k)) = Some (k, [])"

section \<open>Kubernetes names\<close>

text \<open>\<open>metav1.Condition\<close>; times are in nanoseconds of Unix time.\<close>

record Condition =
  cond_Type :: string
  cond_Status :: string
  cond_ObservedGeneration :: int
  cond_Reason :: string
  cond_Message :: string
  cond_LastTransitionTime :: int

record k8s_lib =
  IsDNS1123Label :: "string \<Rightarrow> string list"
  IsDNS1123Subdomain :: "string \<Rightarrow> string list"
  DNS1123LabelMaxLength :: nat
  DNS1123SubdomainMaxLength :: nat
  IsQualifiedName :: "string \<Rightarrow> string list"
  IsValidLabelValue :: "string \<Rightarrow> string list"
  LabelValueMaxLength :: nat
  FindStatusCondition :: "Condition list \<Rightarrow> string \<Rightarrow> Condition option"

definition dns_char :: "char \<Rightarrow> bool" where
  "dns_char c \<longleftrightarrow> is_lower c \<or> is_digit c"

definition dnsLabelChars :: "string \<Rightarrow> bool" where
  "dnsLabelChars s \<longleftrightarrow> s \<noteq> [] \<and> dns_char (hd s) \<and> dns_char (last s) \<and> list_all (\<lambda>c. dns_char c \<or> c = CHR ''-'') s"

definition dns1123Label :: "string \<Rightarrow> bool" where
  "dns1123Label s \<longleftrightarrow> dnsLabelChars s \<and> length s \<le> 63"

definition dns1123Subdomain :: "string \<Rightarrow> bool" where
  "dns1123Subdomain s \<longleftrightarrow> list_all dnsLabelChars (splitChar s (CHR ''.'')) \<and> length s \<le> 253"

definition label_char :: "char \<Rightarrow> bool" where
  "label_char c \<longleftrightarrow> is_lower c \<or> is_upper c \<or> is_digit c"

definition labelValue :: "string \<Rightarrow> bool" where
  "labelValue s \<longleftrightarrow> length s \<le> 63 \<and> (s = [] \<or> (label_char (hd s) \<and> label_char (last s))) \<and>
     list_all (\<lambda>c. label_char c \<or> c \<in> set ''-_.'') s"

definition qualifiedName :: "string \<Rightarrow> bool" where
  "qualifiedName s =
     (case splitChar s (CHR ''/'') of
        [n] \<Rightarrow> n \<noteq> [] \<and> labelValue n
      | [p, n] \<Rightarrow> p \<noteq> [] \<and> dns1123Subdomain p \<and> n \<noteq> [] \<and> labelValue n
      | _ \<Rightarrow> False)"

text \<open>
  The validators return the list of problems.  A DNS-1123 label has lower-case alphanumerics and
  inner hyphens and at most 63 characters; a subdomain is a dot-separated sequence of such labels
  with at most 253 characters in all; a label value has at most 63 alphanumerics, dots, hyphens and
  underscores and starts and ends with an alphanumeric; a qualified name is a non-empty one, after an optional
  subdomain and a slash.  \<open>FindStatusCondition\<close> returns the first
  condition of the given type.
\<close>

definition documented_k8s :: "k8s_lib \<Rightarrow> bool" where
  "documented_k8s K \<longleftrightarrow> (\<forall>s. IsDNS1123Label K s = [] \<longleftrightarrow> dns1123Label s) \<and>
     (\<forall>s. IsDNS1123Subdomain K s = [] \<longleftrightarrow> dns1123Subdomain s) \<and>
     DNS1123LabelMaxLength K = 63 \<and> DNS1123SubdomainMaxLength K = 253 \<and>
     (\<forall>s. IsQualifiedName K s = [] \<longleftrightarrow> qualifiedName s) \<and>
     (\<forall>s. IsValidLabelValue K s = [] \<longleftrightarrow> labelValue s) \<and> LabelValueMaxLength K = 63 \<and>
     (\<forall>cs t. FindStatusCondition K cs t = find (\<lambda>c. cond_Type c = t) cs)"

section \<open>Concrete instances\<close>

definition demoParse :: "string \<Rightarrow> (PublicKey \<times> string) option" where
  "demoParse s =
     (case cutPrefix s ''ssh-ed25519 '' of
        None \<Rightarrow> None
      | Some t \<Rightarrow>
          (case cut t (CHR 0x0A) of (h, rest, _) \<Rightarrow>
             (case hexDecode h of Some b \<Rightarrow> if b = [] then None else Some (PlainKey b, rest) | None \<Rightarrow> None)))"

fun demoBlob :: "PublicKey \<Rightarrow> string" where
  "demoBlob (PlainKey b) = b"
| "demoBlob (Certificate n k _ _ i _ _ _ _ _ _ s) = ''cert'' @ n @ demoBlob k @ i @ s"

definition demoSsh :: ssh_lib where
  "demoSsh = \<lparr>ParseAuthorizedKey = demoParse,
     MarshalAuthorizedKey = \<lambda>k. ''ssh-ed25519 '' @ hexEncode (demoBlob k) @ [CHR 0x0A],
     marshalKey = demoBlob,
     ParsePrivateKey = \<lambda>s. if s = [] then None else Some s,
     signerPublicKey = \<lambda>s. PlainKey (''pub-'' @ s),
     SignCert = \<lambda>s n c. Some (signedWith n (PlainKey (''pub-'' @ s)) ''signed'' c),
     signatureVerifies = \<lambda>c. isCertificate c \<and> cert_SignatureKey c \<noteq> None \<and> cert_Signature c = ''signed'',
     criticalOptionsSupported = \<lambda>c. isCertificate c \<and> cert_CriticalOptions c = [],
     CheckCert = \<lambda>_ now p c. isCertificate c \<and> cert_CriticalOptions c = [] \<and>
       (cert_ValidPrincipals c = [] \<or> p \<in> set (cert_ValidPrincipals c)) \<and> certInWindow now c \<and>
       cert_SignatureKey c \<noteq> None \<and> cert_Signature c = ''signed''\<rparr>"

definition demoK8s :: k8s_lib where
  "demoK8s = \<lparr>IsDNS1123Label = \<lambda>s. if dns1123Label s then [] else [''invalid label''],
     IsDNS1123Subdomain = \<lambda>s. if dns1123Subdomain s then [] else [''invalid subdomain''],
     DNS1123LabelMaxLength = 63, DNS1123SubdomainMaxLength = 253,
     IsQualifiedName = \<lambda>s. if qualifiedName s then [] else [''invalid name''],
     IsValidLabelValue = \<lambda>s. if labelValue s then [] else [''invalid value''], LabelValueMaxLength = 63,
     FindStatusCondition = \<lambda>cs t. find (\<lambda>c. cond_Type c = t) cs\<rparr>"

lemma signedWith_signature [simp]: "isCertificate c \<Longrightarrow> cert_Signature (signedWith n a s c) = s"
  by (cases c) auto

lemma demoSsh_CheckCert: "documented_CheckCert demoSsh"
  by (auto simp: documented_CheckCert_def demoSsh_def)

lemma demoSsh_SignCert: "documented_SignCert demoSsh"
  by (auto simp: documented_SignCert_def demoSsh_def)

lemma demoK8s_documented: "documented_k8s demoK8s"
  by (simp add: documented_k8s_def demoK8s_def)

section \<open>Facts about DNS names\<close>

lemma splitChar_single: "sep \<notin> set s \<Longrightarrow> splitChar s sep = [s]"
  by (induction s) auto

lemma dnsLabelChars_no_dot: "dnsLabelChars s \<Longrightarrow> CHR ''.'' \<notin> set s"
  by (auto simp: dnsLabelChars_def list_all_iff dns_char_def is_lower_def is_digit_def)

lemma dns1123Label_subdomain: "dns1123Label s \<Longrightarrow> dns1123Subdomain s"
  using dnsLabelChars_no_dot [of s] by (simp add: dns1123Label_def dns1123Subdomain_def splitChar_single)

end
