(* ===== verification/Authorization.thy ===== *)
theory Authorization
  imports Credentials Libraries
begin

text \<open>
  Authentication providers (\<open>internal/authorization\<close>): the attempt and the result of
  \<open>authorization.go\<close> with the provider chain, the token provider of \<open>credentials.go\<close>, the
  public-key document of \<open>public_keys.go\<close> and the certificate provider of \<open>certificates.go\<close>.
  A provider returns an error, \<open>Inr None\<close> for an attempt that does not match its data, or the
  verified result.  The contract of a provider is the locale \<open>authenticator\<close>.
\<close>

type_synonym Method = string

definition MethodPassword :: Method where "MethodPassword = ''password''"
definition MethodPublicKey :: Method where "MethodPublicKey = ''public-key''"

record Attempt =
  at_Identity :: string
  at_Method :: Method
  at_Password :: string
  at_PublicKey :: "PublicKey option"

text \<open>\<open>res_ValidBefore\<close> is in nanoseconds of Unix time; the zero \<open>time.Time\<close> is \<open>None\<close>.\<close>

record Result =
  res_Identity :: string
  res_Provider :: string
  res_ValidBefore :: "int option"

type_synonym 'e provider = "Attempt \<Rightarrow> 'e + Result option"

section \<open>Chains\<close>

datatype chain_err = NoProviders | NilProvider nat

fun nilProvider :: "nat \<Rightarrow> 'p option list \<Rightarrow> chain_err + 'p list" where
  "nilProvider i [] = Inr []"
| "nilProvider i (None # ps) = Inl (NilProvider i)"
| "nilProvider i (Some p # ps) =
     (case nilProvider (Suc i) ps of Inl e \<Rightarrow> Inl e | Inr qs \<Rightarrow> Inr (p # qs))"

definition NewChain :: "'e provider option list \<Rightarrow> chain_err + 'e provider list" where
  "NewChain providers = (if providers = [] then Inl NoProviders else nilProvider 0 providers)"

fun chainAuthenticate :: "'e provider list \<Rightarrow> 'e provider" where
  "chainAuthenticate [] attempt = Inr None"
| "chainAuthenticate (p # ps) attempt =
     (case p attempt of
        Inl e \<Rightarrow> Inl e
      | Inr (Some result) \<Rightarrow> Inr (Some result)
      | Inr None \<Rightarrow> chainAuthenticate ps attempt)"

section \<open>Tokens\<close>

definition credentialsAuthenticate :: "Credentials \<Rightarrow> 'e provider" where
  "credentialsAuthenticate c attempt =
     (if at_Method attempt \<noteq> MethodPassword then Inr None
      else if \<not> AuthenticateToken c (at_Identity attempt) (at_Password attempt) then Inr None
      else Inr (Some \<lparr>res_Identity = at_Identity attempt, res_Provider = ''token'', res_ValidBefore = None\<rparr>))"

section \<open>Public keys\<close>

datatype keys_err =
    KeysPathRequired | KeysFile sys_err | KeysPermissions perm | KeysNotJson | KeysJson json_err
  | NoIdentities | KeysIdentity cred_err | NoKeys string | KeyUnparsable string | MultipleKeys string
  | KeyRequired

definition parsePublicKey :: "ssh_lib \<Rightarrow> string \<Rightarrow> string \<Rightarrow> keys_err + PublicKey" where
  "parsePublicKey L identity v =
     (case ParseAuthorizedKey L v of
        None \<Rightarrow> Inl (KeyUnparsable identity)
      | Some (key, rest) \<Rightarrow> if trimSpace rest \<noteq> [] then Inl (MultipleKeys identity) else Inr key)"

definition parseIdentityKeys :: "ssh_lib \<Rightarrow> string \<Rightarrow> string list option \<Rightarrow> keys_err + PublicKey list" where
  "parseIdentityKeys L identity values =
     (case validateIdentity identity of
        Some e \<Rightarrow> Inl (KeysIdentity e)
      | None \<Rightarrow>
          if elems values = [] then Inl (NoKeys identity)
          else rmap (parsePublicKey L identity) (elems values))"

type_synonym keysDocument = "string list option gomap"

definition dec_keysDocument :: "keysDocument dec" where
  "dec_keysDocument = dec_map (dec_slice dec_string []) None"

text \<open>The part of \<open>readPublicKeys\<close> after the file has been read.\<close>

definition decodePublicKeys :: "ssh_lib \<Rightarrow> json \<Rightarrow> keys_err + PublicKey list gomap" where
  "decodePublicKeys L j =
     (case dec_keysDocument j [] of
        Inl e \<Rightarrow> Inl (KeysJson e)
      | Inr encoded \<Rightarrow>
          if encoded = [] then Inl NoIdentities
          else rbuild (parseIdentityKeys L) encoded [])"

definition readPublicKeys :: "ssh_lib \<Rightarrow> os_env \<Rightarrow> string \<Rightarrow> json fs \<Rightarrow> keys_err + PublicKey list gomap" where
  "readPublicKeys L env path fs =
     (case osStat env SysStatRead path fs of
        Inl e \<Rightarrow> Inl (KeysFile e)
      | Inr info \<Rightarrow>
          if permOf info AND 0x12 \<noteq> 0 then Inl (KeysPermissions (permOf info))
          else (case readFile env path fs of
            Inl e \<Rightarrow> Inl (KeysFile e)
          | Inr None \<Rightarrow> Inl KeysNotJson
          | Inr (Some j) \<Rightarrow> decodePublicKeys L j))"

definition LoadPublicKeys :: "ssh_lib \<Rightarrow> os_env \<Rightarrow> string \<Rightarrow> json fs \<Rightarrow> keys_err + string" where
  "LoadPublicKeys L env path fs =
     (if path = [] then Inl KeysPathRequired
      else case readPublicKeys L env path fs of Inl e \<Rightarrow> Inl e | Inr _ \<Rightarrow> Inr path)"

definition publicKeysAuthenticate :: "ssh_lib \<Rightarrow> os_env \<Rightarrow> string \<Rightarrow> json fs \<Rightarrow> keys_err provider" where
  "publicKeysAuthenticate L env path fs attempt =
     (case at_PublicKey attempt of
        None \<Rightarrow> Inr None
      | Some key \<Rightarrow>
          if at_Method attempt \<noteq> MethodPublicKey then Inr None
          else case readPublicKeys L env path fs of
            Inl e \<Rightarrow> Inl e
          | Inr document \<Rightarrow>
              (case find (\<lambda>candidate. marshalKey L candidate = marshalKey L key)
                      (case map_of document (at_Identity attempt) of None \<Rightarrow> [] | Some ks \<Rightarrow> ks) of
                 None \<Rightarrow> Inr None
               | Some _ \<Rightarrow> Inr (Some \<lparr>res_Identity = at_Identity attempt, res_Provider = ''public-key'',
                   res_ValidBefore = None\<rparr>)))"

text \<open>Contents handed to \<open>UpsertPublicKey\<close>: blank, not JSON, or a JSON text.\<close>

datatype json_text = BlankText | InvalidText | JsonText json

definition marshalPublicKeys :: "keysDocument \<Rightarrow> json" where
  "marshalPublicKeys document = enc_map (enc_slice enc_string) document"

text \<open>The loop over the existing keys of the identity: whether one of them is the given key.\<close>

fun hasPublicKey :: "ssh_lib \<Rightarrow> string \<Rightarrow> PublicKey \<Rightarrow> string list \<Rightarrow> keys_err + bool" where
  "hasPublicKey L identity key [] = Inr False"
| "hasPublicKey L identity key (v # vs) =
     (case parsePublicKey L identity v of
        Inl e \<Rightarrow> Inl e
      | Inr candidate \<Rightarrow>
          if marshalKey L candidate = marshalKey L key then Inr True else hasPublicKey L identity key vs)"

definition UpsertPublicKey :: "ssh_lib \<Rightarrow> json_text \<Rightarrow> string \<Rightarrow> PublicKey option \<Rightarrow> keys_err + json" where
  "UpsertPublicKey L contents identity key =
     (case validateIdentity identity of
        Some e \<Rightarrow> Inl (KeysIdentity e)
      | None \<Rightarrow>
          (case key of
             None \<Rightarrow> Inl KeyRequired
           | Some k \<Rightarrow>
               (case (case contents of
                        BlankText \<Rightarrow> Inr []
                      | InvalidText \<Rightarrow> Inl KeysNotJson
                      | JsonText j \<Rightarrow> (case dec_keysDocument j [] of Inl e \<Rightarrow> Inl (KeysJson e) | Inr d \<Rightarrow> Inr d)) of
                  Inl e \<Rightarrow> Inl e
                | Inr document \<Rightarrow>
                    let encoded = trimSpace (MarshalAuthorizedKey L k);
                        existing = (case map_of document identity of None \<Rightarrow> [] | Some vs \<Rightarrow> elems vs)
                    in (case hasPublicKey L identity k existing of
                          Inl e \<Rightarrow> Inl e
                        | Inr True \<Rightarrow> Inr (marshalPublicKeys document)
                        | Inr False \<Rightarrow>
                            Inr (marshalPublicKeys (AList.update identity (Some (existing @ [encoded])) document))))))"

section \<open>Certificates\<close>

definition oidcAuthenticationExtension :: string where
  "oidcAuthenticationExtension = ''tearenv.io/authentication''"

record CertificateAuthority =
  ca_authorityBytes :: string

datatype cert_err = AuthorityRequired | ExpiryOutOfRange

definition NewCertificateAuthority :: "ssh_lib \<Rightarrow> PublicKey option \<Rightarrow> cert_err + CertificateAuthority" where
  "NewCertificateAuthority L authority =
     (case authority of
        None \<Rightarrow> Inl AuthorityRequired
      | Some k \<Rightarrow> Inr \<lparr>ca_authorityBytes = marshalKey L k\<rparr>)"

definition isUserAuthority :: "ssh_lib \<Rightarrow> CertificateAuthority \<Rightarrow> PublicKey option \<Rightarrow> bool" where
  "isUserAuthority L ca candidate =
     (case candidate of None \<Rightarrow> False | Some k \<Rightarrow> marshalKey L k = ca_authorityBytes ca)"

definition extensionOf :: "PublicKey \<Rightarrow> string \<Rightarrow> string" where
  "extensionOf c name = (case map_of (cert_Extensions c) name of None \<Rightarrow> [] | Some v \<Rightarrow> v)"

definition certificateAuthenticate :: "ssh_lib \<Rightarrow> CertificateAuthority \<Rightarrow> int \<Rightarrow> cert_err provider" where
  "certificateAuthenticate L ca now attempt =
     (case at_PublicKey attempt of
        None \<Rightarrow> Inr None
      | Some c \<Rightarrow>
          if at_Method attempt \<noteq> MethodPublicKey then Inr None
          else if \<not> isCertificate c then Inr None
          else if cert_CertType c \<noteq> UserCert then Inr None
          else if extensionOf c oidcAuthenticationExtension \<noteq> ''oidc'' then Inr None
          else if \<not> CheckCert L (isUserAuthority L ca) now (at_Identity attempt) c then Inr None
          else if uint (cert_ValidBefore c) > 2 ^ 63 - 1 then Inl ExpiryOutOfRange
          else Inr (Some \<lparr>res_Identity = at_Identity attempt, res_Provider = ''oidc-ssh-certificate'',
            res_ValidBefore = Some (uint (cert_ValidBefore c) * Second)\<rparr>))"

section \<open>The contract of a provider\<close>

locale authenticator =
  fixes authenticate :: "'s \<Rightarrow> Attempt \<Rightarrow> 'e + Result option"
    and accepted_method :: Method
    and provider :: string
  assumes accepted: "authenticate s a = Inr (Some r) \<Longrightarrow>
      res_Identity r = at_Identity a \<and> res_Provider r = provider \<and> at_Method a = accepted_method"
    and other_method: "at_Method a \<noteq> accepted_method \<Longrightarrow> authenticate s a = Inr None"
begin

lemma rejected_method: "at_Method a \<noteq> accepted_method \<Longrightarrow> chainAuthenticate (map authenticate ss) a = Inr None"
  by (induction ss) (auto simp: other_method)

lemma chain_accepted:
  "chainAuthenticate (map authenticate ss) a = Inr (Some r) \<Longrightarrow>
   res_Identity r = at_Identity a \<and> res_Provider r = provider \<and> at_Method a = accepted_method"
  by (induction ss) (auto split: sum.splits option.splits dest: accepted)

end

interpretation token_provider: authenticator credentialsAuthenticate MethodPassword "''token''"
  by unfold_locales (auto simp: credentialsAuthenticate_def split: if_splits)

interpretation key_provider: authenticator "\<lambda>(L, env, path, fs). publicKeysAuthenticate L env path fs"
  MethodPublicKey "''public-key''"
  by unfold_locales (auto simp: publicKeysAuthenticate_def split: if_splits option.splits sum.splits)

interpretation cert_provider: authenticator "\<lambda>(L, ca, now). certificateAuthenticate L ca now"
  MethodPublicKey "''oidc-ssh-certificate''"
  by unfold_locales (auto simp: certificateAuthenticate_def split: if_splits option.splits)

end
