(* ===== verification/Authorization_Properties.thy ===== *)
theory Authorization_Properties
  imports Authorization
begin

text \<open>
  Properties of the authentication providers: the chain, the public-key document, and what a
  certificate login guarantees.
\<close>

section \<open>The chain\<close>

lemma chain_find: "chainAuthenticate ps a = (case find (\<lambda>p. p a \<noteq> Inr None) ps of None \<Rightarrow> Inr None | Some p \<Rightarrow> p a)"
  by (induction ps) (auto split: sum.splits option.splits)

lemma nilProvider_iff: "nilProvider i qs = Inr ps \<longleftrightarrow> qs = map Some ps"
proof (induction qs arbitrary: i ps)
  case (Cons q qs)
  show ?case
  proof (cases q)
    case (Some p)
    have "nilProvider i (q # qs) = Inr ps \<longleftrightarrow> (\<exists>ps'. ps = p # ps' \<and> nilProvider (Suc i) qs = Inr ps')"
      using Some by (auto split: sum.splits)
    with Cons.IH Some show ?thesis by (cases ps) auto
  qed auto
qed auto

section \<open>Public-key documents\<close>

definition wf_keysDocument :: "keysDocument \<Rightarrow> bool" where
  "wf_keysDocument d \<longleftrightarrow> distinct (map fst d) \<and> (\<forall>(k, v) \<in> set d. valid_utf8 k \<and> list_all valid_utf8 (elems v))"

lemma dec_keysDocument_wf:
  assumes "dec_keysDocument j [] = Inr d"
  shows "wf_keysDocument d"
proof -
  have "list_all valid_utf8 (elems v)" if "dec_slice dec_string [] j None = Inr v" for j v
    by (rule dec_slice_all [OF that]) (auto dest: dec_string_utf8)
  then have "\<forall>(k, v) \<in> set d. valid_utf8 k \<and> list_all valid_utf8 (elems v)"
    by (intro dec_map_all [OF assms [unfolded dec_keysDocument_def]]) auto
  then show ?thesis
    using dec_map_distinct [OF assms [unfolded dec_keysDocument_def]] by (simp add: wf_keysDocument_def)
qed

lemma dec_keysDocument_enc:
  assumes "wf_keysDocument d"
  shows "dec_keysDocument (marshalPublicKeys d) [] = Inr (sort_key fst d)"
proof -
  have "dec_map (dec_slice dec_string []) None (enc_map (enc_slice enc_string) d) [] =
      Inr (map (apsnd (\<lambda>v. v)) (sort_key fst d))"
  proof (rule dec_map_enc)
    fix k v
    assume "(k, v) \<in> set d"
    with assms have "list_all valid_utf8 (elems v)" by (auto simp: wf_keysDocument_def)
    then show "dec_slice dec_string [] (enc_slice enc_string v) None = Inr v"
      by (intro dec_slice_enc dec_string_enc) (auto simp: list_all_iff)
  qed (use assms in \<open>auto simp: wf_keysDocument_def\<close>)
  then show ?thesis by (simp add: dec_keysDocument_def marshalPublicKeys_def apsnd_ident)
qed

lemma hasPublicKey_eq:
  "rmap (parsePublicKey L i) vs = Inr ks \<Longrightarrow>
   hasPublicKey L i k vs = Inr (marshalKey L k \<in> marshalKey L ` set ks)"
  by (induction vs arbitrary: ks) (auto split: sum.splits)

text \<open>What a document grants, as text and as keys.\<close>

definition docValues :: "keysDocument \<Rightarrow> string \<Rightarrow> string list" where
  "docValues d i = (case map_of d i of None \<Rightarrow> [] | Some vs \<Rightarrow> elems vs)"

definition keysOf :: "PublicKey list gomap \<Rightarrow> string \<Rightarrow> PublicKey list" where
  "keysOf m i = (case map_of m i of None \<Rightarrow> [] | Some ks \<Rightarrow> ks)"

definition decodeOrEmpty :: "ssh_lib \<Rightarrow> json_text \<Rightarrow> keys_err + PublicKey list gomap" where
  "decodeOrEmpty L t =
     (case t of BlankText \<Rightarrow> Inr [] | InvalidText \<Rightarrow> Inl KeysNotJson | JsonText j \<Rightarrow> decodePublicKeys L j)"

definition loadable :: "ssh_lib \<Rightarrow> keysDocument \<Rightarrow> bool" where
  "loadable L d \<longleftrightarrow> wf_keysDocument d \<and> (\<forall>(i, v) \<in> set d. is_ok (parseIdentityKeys L i v))"

lemma parseIdentityKeys_ok:
  "parseIdentityKeys L i v = Inr ks \<longleftrightarrow> validIdentity i \<and> elems v \<noteq> [] \<and> rmap (parsePublicKey L i) (elems v) = Inr ks"
  by (auto simp: parseIdentityKeys_def validateIdentity_def)

lemma loadable_decode:
  assumes "loadable L d"
  obtains m where "rbuild (parseIdentityKeys L) d [] = Inr m"
    "\<And>i. rmap (parsePublicKey L i) (docValues d i) = Inr (keysOf m i)"
proof -
  have "\<exists>m. rbuild (parseIdentityKeys L) d [] = Inr m"
    by (rule rbuild_ok) (use assms in \<open>auto simp: loadable_def is_ok_iff\<close>)
  then obtain m where m: "rbuild (parseIdentityKeys L) d [] = Inr m" by blast
  have d: "distinct (map fst d)" using assms by (simp add: loadable_def wf_keysDocument_def)
  have "rmap (parsePublicKey L i) (docValues d i) = Inr (keysOf m i)" for i
  proof (cases "map_of d i")
    case None
    then show ?thesis using rbuild_lookup [OF m d, of i] by (simp add: docValues_def keysOf_def)
  next
    case (Some v)
    then have "is_ok (parseIdentityKeys L i v)" using assms by (auto simp: loadable_def dest: map_of_SomeD)
    then obtain ks where ks: "parseIdentityKeys L i v = Inr ks" by (auto simp: is_ok_iff)
    then have "rmap (parsePublicKey L i) (elems v) = Inr ks" by (simp add: parseIdentityKeys_ok)
    then show ?thesis using Some rbuild_lookup [OF m d, of i] ks by (simp add: docValues_def keysOf_def)
  qed
  with m show ?thesis by (rule that)
qed

lemma decoded_loadable:
  assumes "decodeOrEmpty L t = Inr m"
  obtains d where "loadable L d" "\<And>i. rmap (parsePublicKey L i) (docValues d i) = Inr (keysOf m i)"
    "\<And>i k. validIdentity i \<Longrightarrow> UpsertPublicKey L t i (Some k) =
       (if marshalKey L k \<in> marshalKey L ` set (keysOf m i) then Inr (marshalPublicKeys d)
        else Inr (marshalPublicKeys (AList.update i (Some (docValues d i @ [trimSpace (MarshalAuthorizedKey L k)])) d)))"
proof -
  obtain d where d: "loadable L d" "rbuild (parseIdentityKeys L) d [] = Inr m"
    "(case t of BlankText \<Rightarrow> Inr [] | InvalidText \<Rightarrow> Inl KeysNotJson
      | JsonText j \<Rightarrow> (case dec_keysDocument j [] of Inl e \<Rightarrow> Inl (KeysJson e) | Inr d \<Rightarrow> Inr d)) = Inr d"
  proof (cases t)
    case BlankText
    then show ?thesis using assms that [of "[]"] by (simp add: loadable_def wf_keysDocument_def decodeOrEmpty_def)
  next
    case (JsonText j)
    with assms obtain d where dd: "dec_keysDocument j [] = Inr d" and b: "rbuild (parseIdentityKeys L) d [] = Inr m"
      by (auto simp: decodeOrEmpty_def decodePublicKeys_def split: sum.splits if_splits)
    then have "loadable L d" using dec_keysDocument_wf [OF dd] rbuild_ok_all [OF b]
      by (auto simp: loadable_def is_ok_iff)
    with b dd JsonText show ?thesis using that [of d] by simp
  qed (use assms in \<open>simp add: decodeOrEmpty_def\<close>)
  have p: "rmap (parsePublicKey L i) (docValues d i) = Inr (keysOf m i)" for i
    using loadable_decode [OF d(1)] d(2) by (metis sum.inject(2))
  show ?thesis
  proof (rule that [OF d(1) p])
    fix i k
    assume "validIdentity i"
    then show "UpsertPublicKey L t i (Some k) =
       (if marshalKey L k \<in> marshalKey L ` set (keysOf m i) then Inr (marshalPublicKeys d)
        else Inr (marshalPublicKeys (AList.update i (Some (docValues d i @ [trimSpace (MarshalAuthorizedKey L k)])) d)))"
      unfolding UpsertPublicKey_def d(3)
      using hasPublicKey_eq [OF p, of i k] by (simp add: validateIdentity_def Let_def docValues_def)
  qed
qed

lemma decode_marshal:
  assumes "loadable L d" "d \<noteq> []"
  obtains m where "decodePublicKeys L (marshalPublicKeys d) = Inr m"
    "\<And>i. rmap (parsePublicKey L i) (docValues d i) = Inr (keysOf m i)"
proof -
  let ?d = "sort_key fst d"
  have w: "wf_keysDocument d" using assms(1) by (simp add: loadable_def)
  then have dist: "distinct (map fst d)" by (simp add: wf_keysDocument_def)
  then have "distinct (map fst ?d)" by (simp add: distinct_map)
  then have "loadable L ?d" using assms(1) by (simp add: loadable_def wf_keysDocument_def)
  then obtain m where m: "rbuild (parseIdentityKeys L) ?d [] = Inr m"
    "\<And>i. rmap (parsePublicKey L i) (docValues ?d i) = Inr (keysOf m i)" by (rule loadable_decode) blast
  have "docValues ?d i = docValues d i" for i by (simp add: docValues_def map_of_sort_key [OF dist])
  with m assms(2) show ?thesis
    by (intro that [of m]) (simp_all add: decodePublicKeys_def dec_keysDocument_enc [OF w])
qed

lemma sort_marshal: "marshalPublicKeys (sort_key fst d) = marshalPublicKeys d"
  by (simp add: marshalPublicKeys_def enc_map_def sort_key_id_if_sorted)

lemma loadable_upsert:
  assumes "loadable L d" "validIdentity i" "readsBack L k" "rmap (parsePublicKey L i) (docValues d i) = Inr ks"
  shows "loadable L (AList.update i (Some (docValues d i @ [trimSpace (MarshalAuthorizedKey L k)])) d)"
    (is "loadable L (AList.update i (Some (_ @ [?e])) d)")
proof -
  have w: "wf_keysDocument d" using assms(1) by (simp add: loadable_def)
  have e: "parsePublicKey L i ?e = Inr k" "valid_utf8 ?e"
    using assms(3) by (auto simp: readsBack_def parsePublicKey_def valid_utf8_ascii)
  have "parseIdentityKeys L i (Some (docValues d i @ [?e])) = Inr (ks @ [k])"
    using assms(2,4) e(1) by (simp add: parseIdentityKeys_ok elems_def rmap_append)
  moreover have "list_all valid_utf8 (docValues d i)"
    using w by (auto simp: wf_keysDocument_def docValues_def split: option.split dest: map_of_SomeD)
  ultimately show ?thesis
    using assms(1) w e(2) validIdentity_utf8 [OF assms(2)]
    by (auto simp: loadable_def wf_keysDocument_def elems_def dest!: set_update_cases)
qed

lemma docValues_update [simp]: "docValues (AList.update i (Some vs) d) j = (if j = i then vs else docValues d j)"
  by (simp add: docValues_def elems_def)

lemma keysOf_after:
  assumes "rmap (parsePublicKey L i) vs = Inr ks" "readsBack L k"
  shows "rmap (parsePublicKey L i) (vs @ [trimSpace (MarshalAuthorizedKey L k)]) = Inr (ks @ [k])"
  using assms by (simp add: rmap_append parsePublicKey_def readsBack_def)

text \<open>The document after an upsert grants what it granted before and the new key.\<close>

definition granted :: "ssh_lib \<Rightarrow> PublicKey list gomap \<Rightarrow> string \<Rightarrow> PublicKey \<Rightarrow> bool" where
  "granted L m i k \<longleftrightarrow> marshalKey L k \<in> marshalKey L ` set (keysOf m i)"

lemma upsert_decoded:
  assumes "decodeOrEmpty L t = Inr m" "validIdentity i" "readsBack L k"
  obtains d m' where "UpsertPublicKey L t i (Some k) = Inr (marshalPublicKeys d)"
    "UpsertPublicKey L (JsonText (marshalPublicKeys d)) i (Some k) = Inr (marshalPublicKeys d)"
    "decodePublicKeys L (marshalPublicKeys d) = Inr m'"
    "\<And>i' k'. granted L m' i' k' \<longleftrightarrow> (i' = i \<and> marshalKey L k' = marshalKey L k) \<or> granted L m i' k'"
proof -
  obtain d where d: "loadable L d" "\<And>i. rmap (parsePublicKey L i) (docValues d i) = Inr (keysOf m i)"
    "\<And>i k. validIdentity i \<Longrightarrow> UpsertPublicKey L t i (Some k) =
       (if marshalKey L k \<in> marshalKey L ` set (keysOf m i) then Inr (marshalPublicKeys d)
        else Inr (marshalPublicKeys (AList.update i (Some (docValues d i @ [trimSpace (MarshalAuthorizedKey L k)])) d)))"
    using decoded_loadable [OF assms(1)] by metis
  let ?e = "trimSpace (MarshalAuthorizedKey L k)"
  define d' where "d' = (if granted L m i k then d else AList.update i (Some (docValues d i @ [?e])) d)"
  have l': "loadable L d'" using d(1) loadable_upsert [OF d(1) assms(2,3) d(2)] by (simp add: d'_def)
  have ne: "d' \<noteq> []"
  proof (cases "granted L m i k")
    case True
    then have "keysOf m i \<noteq> []" by (auto simp: granted_def)
    then have "docValues d i \<noteq> []" using d(2) [of i] by auto
    then show ?thesis using True by (auto simp: d'_def docValues_def split: option.splits)
  qed (simp add: d'_def)
  obtain m' where m': "decodePublicKeys L (marshalPublicKeys d') = Inr m'"
    "\<And>i. rmap (parsePublicKey L i) (docValues d' i) = Inr (keysOf m' i)"
    using decode_marshal [OF l' ne] by metis
  have keys: "keysOf m' i' = (if i' = i \<and> \<not> granted L m i k then keysOf m i @ [k] else keysOf m i')" for i'
    using m'(2) [of i'] d(2) [of i'] keysOf_after [OF d(2) [of i] assms(3)] by (auto simp: d'_def split: if_splits)
  have g: "granted L m' i' k' \<longleftrightarrow> (i' = i \<and> marshalKey L k' = marshalKey L k) \<or> granted L m i' k'" for i' k'
    using keys [of i'] by (auto simp: granted_def)
  have dec: "dec_keysDocument (marshalPublicKeys d') [] = Inr (sort_key fst d')"
    by (rule dec_keysDocument_enc) (use l' in \<open>simp add: loadable_def\<close>)
  have dist: "distinct (map fst d')" using l' by (simp add: loadable_def wf_keysDocument_def)
  have "hasPublicKey L i k (docValues d' i) = Inr True"
    using hasPublicKey_eq [OF m'(2) [of i], of k] g [of i k] by (simp add: granted_def)
  then have again: "UpsertPublicKey L (JsonText (marshalPublicKeys d')) i (Some k) = Inr (marshalPublicKeys d')"
    using assms(2) by (simp add: UpsertPublicKey_def validateIdentity_def dec map_of_sort_key [OF dist]
        sort_marshal docValues_def)
  have "UpsertPublicKey L t i (Some k) = Inr (marshalPublicKeys d')"
    using d(3) [OF assms(2), of k] by (simp add: d'_def granted_def)
  then show ?thesis using again m'(1) g by (rule that)
qed

lemma find_case: "(case find P xs of None \<Rightarrow> x | Some _ \<Rightarrow> y) = (if \<exists>z \<in> set xs. P z then y else x)"
  by (induction xs) auto

lemma publicKeysAuthenticate_eq:
  assumes "readPublicKeys L env path fs = Inr m" "at_Method a = MethodPublicKey" "at_PublicKey a = Some k"
  shows "publicKeysAuthenticate L env path fs a =
    Inr (if granted L m (at_Identity a) k
      then Some \<lparr>res_Identity = at_Identity a, res_Provider = ''public-key'', res_ValidBefore = None\<rparr> else None)"
  using assms by (cases "map_of m (at_Identity a)")
    (auto simp: publicKeysAuthenticate_def granted_def keysOf_def find_case dest: sym)

section \<open>Sample providers\<close>

definition quietEnv :: os_env where
  "quietEnv = \<lparr>faults = \<lambda>_. False, tempNames = [''1''], umask = 0x12\<rparr>"

definition demoKeyA :: PublicKey where "demoKeyA = PlainKey ''alpha''"

lemma demoKeyA_readsBack: "readsBack demoSsh demoKeyA"
  by code_simp

definition demoCert :: "PublicKey \<Rightarrow> PublicKey" where
  "demoCert authority = Certificate ''n'' demoKeyA 7 UserCert ''oidc:x'' [''ada''] 1000 2000 []
     [(''permit-port-forwarding'', []), (oidcAuthenticationExtension, ''oidc'')] (Some authority) ''signed''"

section \<open>Properties\<close>

text \<open>
  A chain is built exactly from a non-empty list without nil providers, and it answers
  with the first provider, in order, that does not decline: its acceptance, or its error.  Later
  providers are not asked.
\<close>

theorem chain_first_match:
  "(NewChain qs = Inr ps \<longleftrightarrow> qs \<noteq> [] \<and> qs = map Some ps) \<and>
   chainAuthenticate ps a =
     (case find (\<lambda>p. p a \<noteq> Inr None) ps of None \<Rightarrow> Inr None | Some p \<Rightarrow> p a)"
  unfolding NewChain_def using nilProvider_iff [of 0 qs ps] by (simp add: chain_find)

text \<open>
  Adding a public key to a loadable (or empty) document succeeds, doing it twice changes
  nothing, and with the result in a file that others cannot write, public-key logins succeed for
  exactly the added key under its identity and for everything the document granted before.
\<close>

theorem public_keys_upsert:
  assumes "decodeOrEmpty L t = Inr m" "validIdentity i" "readsBack L k"
  shows "\<exists>j. UpsertPublicKey L t i (Some k) = Inr j \<and> UpsertPublicKey L (JsonText j) i (Some k) = Inr j \<and>
    (\<forall>env path fs perm i' k' pw. map_of fs path = Some (Regular perm (Some j)) \<longrightarrow> perm AND 0x12 = 0 \<longrightarrow>
      \<not> faults env SysStatRead \<longrightarrow> \<not> faults env SysRead \<longrightarrow>
      publicKeysAuthenticate L env path fs
        \<lparr>at_Identity = i', at_Method = MethodPublicKey, at_Password = pw, at_PublicKey = Some k'\<rparr> =
        Inr (if (i' = i \<and> marshalKey L k' = marshalKey L k) \<or> granted L m i' k'
          then Some \<lparr>res_Identity = i', res_Provider = ''public-key'', res_ValidBefore = None\<rparr> else None))"
proof -
  obtain d m' where u: "UpsertPublicKey L t i (Some k) = Inr (marshalPublicKeys d)"
    "UpsertPublicKey L (JsonText (marshalPublicKeys d)) i (Some k) = Inr (marshalPublicKeys d)"
    "decodePublicKeys L (marshalPublicKeys d) = Inr m'"
    "\<And>i' k'. granted L m' i' k' \<longleftrightarrow> (i' = i \<and> marshalKey L k' = marshalKey L k) \<or> granted L m i' k'"
    using upsert_decoded [OF assms] by metis
  have "readPublicKeys L env path fs = Inr m'"
    if "map_of fs path = Some (Regular perm (Some (marshalPublicKeys d)))" "perm AND 0x12 = 0"
      "\<not> faults env SysStatRead" "\<not> faults env SysRead" for env path perm and fs :: "json fs"
    using that u(3) by (simp add: readPublicKeys_def osStat_def readFile_def)
  with u show ?thesis by (auto simp: publicKeysAuthenticate_eq)
qed

theorem public_keys_upsert_witness:
  "\<exists>j. UpsertPublicKey demoSsh BlankText ''ada'' (Some demoKeyA) = Inr j \<and>
    publicKeysAuthenticate demoSsh quietEnv ''keys.json'' [(''keys.json'', Regular 0x180 (Some j))]
      \<lparr>at_Identity = ''ada'', at_Method = MethodPublicKey, at_Password = [], at_PublicKey = Some demoKeyA\<rparr> =
      Inr (Some \<lparr>res_Identity = ''ada'', res_Provider = ''public-key'', res_ValidBefore = None\<rparr>)"
proof -
  have "decodeOrEmpty demoSsh BlankText = Inr []" "validIdentity ''ada''" by (simp add: decodeOrEmpty_def, code_simp)
  from public_keys_upsert [OF this demoKeyA_readsBack] obtain j where
    j: "UpsertPublicKey demoSsh BlankText ''ada'' (Some demoKeyA) = Inr j"
    and all: "\<forall>env path fs perm i' k' pw. map_of fs path = Some (Regular perm (Some j)) \<longrightarrow> perm AND 0x12 = 0 \<longrightarrow>
      \<not> faults env SysStatRead \<longrightarrow> \<not> faults env SysRead \<longrightarrow>
      publicKeysAuthenticate demoSsh env path fs
        \<lparr>at_Identity = i', at_Method = MethodPublicKey, at_Password = pw, at_PublicKey = Some k'\<rparr> =
        Inr (if (i' = ''ada'' \<and> marshalKey demoSsh k' = marshalKey demoSsh demoKeyA) \<or> granted demoSsh [] i' k'
          then Some \<lparr>res_Identity = i', res_Provider = ''public-key'', res_ValidBefore = None\<rparr> else None)"
    by blast
  have "map_of [(''keys.json'', Regular 0x180 (Some j))] ''keys.json'' = Some (Regular 0x180 (Some j))"
    "(0x180 :: perm) AND 0x12 = 0" "\<not> faults quietEnv SysStatRead" "\<not> faults quietEnv SysRead"
    by (simp_all add: quietEnv_def)
  with j all [rule_format, where env = quietEnv and i' = "''ada''" and k' = demoKeyA and pw = "[]"] show ?thesis by auto
qed



text \<open>
  The configured authority is never consulted.  \<open>CheckCert\<close> verifies a certificate under its
  own signature key and leaves the authority to \<open>CertChecker.Authenticate\<close>, which this provider does
  not call: a certificate signed by any key, though the provider does not recognise that key as an
  authority, logs in as the identity it names.
\<close>

theorem certificate_authority_ignored:
  assumes "documented_CheckCert L" "isCertificate c" "cert_CertType c = UserCert"
    and "extensionOf c oidcAuthenticationExtension = ''oidc''" "criticalOptionsSupported L c"
    and "identity \<in> set (cert_ValidPrincipals c)" "signatureVerifies L c" "certInWindow now c"
    and "uint (cert_ValidBefore c) < 2 ^ 63"
    and "cert_SignatureKey c = Some rogue" "marshalKey L rogue \<noteq> ca_authorityBytes ca"
  shows "\<not> isUserAuthority L ca (cert_SignatureKey c) \<and>
    certificateAuthenticate L ca now
      \<lparr>at_Identity = identity, at_Method = MethodPublicKey, at_Password = pw, at_PublicKey = Some c\<rparr> =
      Inr (Some \<lparr>res_Identity = identity, res_Provider = ''oidc-ssh-certificate'',
        res_ValidBefore = Some (uint (cert_ValidBefore c) * Second)\<rparr>)"
proof -
  have "CheckCert L q now identity c" for q
    using assms unfolding documented_CheckCert_def by blast
  with assms show ?thesis by (simp add: certificateAuthenticate_def isUserAuthority_def)
qed

theorem certificate_authority_ignored_witness:
  "NewCertificateAuthority demoSsh (Some (PlainKey ''pub-ca'')) = Inr \<lparr>ca_authorityBytes = ''pub-ca''\<rparr> \<and>
   certificateAuthenticate demoSsh \<lparr>ca_authorityBytes = ''pub-ca''\<rparr> 1500
     \<lparr>at_Identity = ''ada'', at_Method = MethodPublicKey, at_Password = [], at_PublicKey = Some (demoCert (PlainKey ''mallory''))\<rparr> =
   Inr (Some \<lparr>res_Identity = ''ada'', res_Provider = ''oidc-ssh-certificate'', res_ValidBefore = Some (2000 * Second)\<rparr>)"
proof -
  have "NewCertificateAuthority demoSsh (Some (PlainKey ''pub-ca'')) = Inr \<lparr>ca_authorityBytes = ''pub-ca''\<rparr>"
    by (simp add: NewCertificateAuthority_def demoSsh_def)
  with certificate_authority_ignored [OF demoSsh_CheckCert,
      of "demoCert (PlainKey ''mallory'')" "''ada''" 1500 "PlainKey ''mallory''" "\<lparr>ca_authorityBytes = ''pub-ca''\<rparr>" "[]"]
  show ?thesis by (simp add: demoCert_def extensionOf_def oidcAuthenticationExtension_def demoSsh_def certInWindow_def)
qed

end
