(* ===== verification/Go_Url.thy ===== *)
theory Go_Url
  imports Go_Encoding
begin

text \<open>
  \<open>net/url\<close>: parsing a URL reference into its parts, with the checks on escapes, user info, host
  and port, and escaping of one path segment.
\<close>

section \<open>Searching\<close>

definition lastIndex :: "char \<Rightarrow> string \<Rightarrow> nat option" where
  "lastIndex c s = (if c \<in> set s then Some (length s - Suc (length (takeWhile (\<lambda>x. x \<noteq> c) (rev s)))) else None)"

fun indexOf :: "string \<Rightarrow> string \<Rightarrow> nat option" where
  "indexOf sub [] = (if sub = [] then Some 0 else None)"
| "indexOf sub (c # s) = (if prefix sub (c # s) then Some 0 else map_option Suc (indexOf sub s))"

section \<open>IP addresses\<close>

text \<open>\<open>netip.ParseAddr\<close> and \<open>net.ParseIP\<close>: dotted IPv4 octets, and IPv6 as eight 16-bit groups.\<close>

definition octet :: "string \<Rightarrow> nat option" where
  "octet s = (if s \<noteq> [] \<and> list_all is_digit s \<and> length s \<le> 3 \<and> (length s = 1 \<or> hd s \<noteq> CHR ''0'') \<and> decValue s \<le> 255
     then Some (nat (decValue s)) else None)"

definition parseIPv4 :: "string \<Rightarrow> nat list option" where
  "parseIPv4 s = (let ps = map octet (splitChar s (CHR ''.'')) in
     if length ps = 4 \<and> None \<notin> set ps then Some (map the ps) else None)"

definition hexGroup :: "string \<Rightarrow> nat option" where
  "hexGroup s = (let ds = map hexVal s in
     if s \<noteq> [] \<and> length s \<le> 4 \<and> None \<notin> set ds then Some (foldl (\<lambda>a d. 16 * a + the d) 0 ds) else None)"

text \<open>The groups between colons; the last one may be an IPv4 address and then counts twice.\<close>

fun ipGroups :: "bool \<Rightarrow> string list \<Rightarrow> nat list option" where
  "ipGroups v4 [] = Some []"
| "ipGroups v4 [g] =
     (case hexGroup g of
        Some n \<Rightarrow> Some [n]
      | None \<Rightarrow>
          (case (if v4 then parseIPv4 g else None) of
             Some [a, b, c, d] \<Rightarrow> Some [256 * a + b, 256 * c + d]
           | _ \<Rightarrow> None))"
| "ipGroups v4 (g # gs) =
     (case (hexGroup g, ipGroups v4 gs) of (Some n, Some ns) \<Rightarrow> Some (n # ns) | _ \<Rightarrow> None)"

definition groupsOf :: "bool \<Rightarrow> string \<Rightarrow> nat list option" where
  "groupsOf v4 s = (if s = [] then Some [] else ipGroups v4 (splitChar s (CHR '':'')))"

definition parseIPv6 :: "string \<Rightarrow> nat list option" where
  "parseIPv6 s =
     (case indexOf ''::'' s of
        Some i \<Rightarrow>
          (case (groupsOf False (take i s), groupsOf True (drop (i + 2) s)) of
             (Some l, Some r) \<Rightarrow>
               if length l + length r \<le> 7 then Some (l @ replicate (8 - length l - length r) 0 @ r) else None
           | _ \<Rightarrow> None)
      | None \<Rightarrow>
          (case ipGroups True (splitChar s (CHR '':'')) of
             Some gs \<Rightarrow> if length gs = 8 then Some gs else None
           | None \<Rightarrow> None))"

text \<open>\<open>IP.IsLoopback\<close> after \<open>net.ParseIP\<close>; an IPv4-mapped IPv6 address counts as IPv4.\<close>

definition loopbackIP :: "string \<Rightarrow> bool" where
  "loopbackIP s =
     (case parseIPv4 s of
        Some bs \<Rightarrow> hd bs = 127
      | None \<Rightarrow>
          (case parseIPv6 s of
             Some gs \<Rightarrow> gs = [0, 0, 0, 0, 0, 0, 0, 1] \<or> (take 6 gs = [0, 0, 0, 0, 0, 65535] \<and> gs ! 6 div 256 = 127)
           | None \<Rightarrow> False))"

section \<open>URLs\<close>

text \<open>The user name of a URL's authority and its password, when there is one.\<close>

type_synonym Userinfo = "string \<times> string option"

record URL =
  url_Scheme :: string
  url_Opaque :: string
  url_User :: "Userinfo option"
  url_Host :: string
  url_Path :: string
  url_RawPath :: string
  url_OmitHost :: bool
  url_ForceQuery :: bool
  url_RawQuery :: string
  url_Fragment :: string
  url_RawFragment :: string

datatype escape_mode =
    EncodePath | EncodePathSegment | EncodeHost | EncodeZone | EncodeUserPassword | EncodeQueryComponent | EncodeFragment

definition is_letter :: "char \<Rightarrow> bool" where
  "is_letter c \<longleftrightarrow> is_lower c \<or> is_upper c"

text \<open>The ASCII bytes that may stand unescaped in a host or zone.\<close>

definition host_char :: "char \<Rightarrow> bool" where
  "host_char c \<longleftrightarrow> is_letter c \<or> is_digit c \<or> c \<in> set ''!$&'()*+,;=:[]<>-_.~'' \<or> c = CHR 0x22"

fun unescape :: "escape_mode \<Rightarrow> string \<Rightarrow> string option" where
  "unescape m [] = Some []"
| "unescape m (c # s) =
     (if c = CHR ''%'' then
        (case s of
           a # b # r \<Rightarrow>
             (case (hexVal a, hexVal b) of
                (Some h, Some l) \<Rightarrow>
                  if m = EncodeHost \<and> h < 8 \<and> \<not> (a = CHR ''2'' \<and> b = CHR ''5'') then None
                  else if m = EncodeZone \<and> \<not> (a = CHR ''2'' \<and> b = CHR ''5'') \<and> 16 * h + l \<noteq> 32 \<and>
                    \<not> host_char (char_of (16 * h + l)) then None
                  else map_option ((#) (char_of (16 * h + l))) (unescape m r)
              | _ \<Rightarrow> None)
         | _ \<Rightarrow> None)
      else if m = EncodeQueryComponent \<and> c = CHR ''+'' then map_option ((#) (CHR '' '')) (unescape m s)
      else if m \<in> {EncodeHost, EncodeZone} \<and> c < CHR 0x80 \<and> \<not> host_char c then None
      else map_option ((#) c) (unescape m s))"

text \<open>\<open>shouldEscape\<close> and \<open>escape\<close>: which bytes of a part are written as a percent sign and two hexadecimal digits.\<close>

definition shouldEscape :: "escape_mode \<Rightarrow> char \<Rightarrow> bool" where
  "shouldEscape m c =
     (if is_letter c \<or> is_digit c then False
      else if m \<in> {EncodeHost, EncodeZone} \<and> (c \<in> set ''!$&'()*+,;=:[]<>'' \<or> c = CHR 0x22) then False
      else if c \<in> set ''-_.~'' then False
      else if c \<in> set ''$&+,/:;=?@'' then
        (case m of
           EncodePath \<Rightarrow> c = CHR ''?''
         | EncodePathSegment \<Rightarrow> c \<in> set ''/;,?''
         | EncodeUserPassword \<Rightarrow> c \<in> set ''@/?:''
         | EncodeQueryComponent \<Rightarrow> True
         | EncodeFragment \<Rightarrow> False
         | _ \<Rightarrow> True)
      else \<not> (m = EncodeFragment \<and> c \<in> set ''!()*''))"

definition upperHex :: "nat \<Rightarrow> char" where
  "upperHex n = ''0123456789ABCDEF'' ! n"

definition escapeByte :: "escape_mode \<Rightarrow> char \<Rightarrow> string" where
  "escapeByte m c =
     (if \<not> shouldEscape m c then [c]
      else if c = CHR '' '' \<and> m = EncodeQueryComponent then ''+''
      else [CHR ''%'', upperHex (of_char c div 16), upperHex (of_char c mod 16)])"

definition urlEscape :: "escape_mode \<Rightarrow> string \<Rightarrow> string" where
  "urlEscape m s = concat (map (escapeByte m) s)"

definition validEncoded :: "escape_mode \<Rightarrow> string \<Rightarrow> bool" where
  "validEncoded m s \<longleftrightarrow> list_all (\<lambda>c. c \<in> set ''!$&'()*+,;=:@[]%'' \<or> \<not> shouldEscape m c) s"

definition validOptionalPort :: "string \<Rightarrow> bool" where
  "validOptionalPort p \<longleftrightarrow> p = [] \<or> (hd p = CHR '':'' \<and> list_all is_digit (tl p))"

definition validUserinfo :: "string \<Rightarrow> bool" where
  "validUserinfo s \<longleftrightarrow> list_all (\<lambda>c. is_letter c \<or> is_digit c \<or> c \<in> set ''-._:~!$&'()*+,;=%@'') s"

text \<open>
  A bracketed host is an IPv6 literal, with an optional zone after \<open>%25\<close>; any other host has at most
  one colon, which starts a port.
\<close>

definition isIPLiteral :: "string \<Rightarrow> bool" where
  "isIPLiteral s = (case cut s (CHR ''%'') of (a, zone, zoned) \<Rightarrow> parseIPv6 a \<noteq> None \<and> (\<not> zoned \<or> zone \<noteq> []))"

definition parseHost :: "string \<Rightarrow> string option" where
  "parseHost host =
     (case lastIndex (CHR ''['') host of
        Some 0 \<Rightarrow>
          (case lastIndex (CHR '']'') host of
             None \<Rightarrow> None
           | Some i \<Rightarrow>
               if \<not> validOptionalPort (drop (Suc i) host) then None
               else (case (case indexOf ''%25'' (take i host) of
                        Some z \<Rightarrow>
                          (case (unescape EncodeHost (drop 1 (take z host)), unescape EncodeZone (drop z (take i host))) of
                             (Some a, Some b) \<Rightarrow> Some (a @ b)
                           | _ \<Rightarrow> None)
                      | None \<Rightarrow> unescape EncodeHost (drop 1 (take i host))) of
                   None \<Rightarrow> None
                 | Some h \<Rightarrow>
                     (case unescape EncodeHost (drop (Suc i) host) of
                        Some p \<Rightarrow> if isIPLiteral h then Some (''['' @ h @ '']'' @ p) else None
                      | None \<Rightarrow> None)))
      | Some _ \<Rightarrow> None
      | None \<Rightarrow>
          (case indexOf '':'' host of
             Some i \<Rightarrow> if validOptionalPort (drop i host) then unescape EncodeHost host else None
           | None \<Rightarrow> unescape EncodeHost host))"

definition parseUserinfo :: "string \<Rightarrow> Userinfo option" where
  "parseUserinfo s =
     (if \<not> validUserinfo s then None
      else case cut s (CHR '':'') of (username, password, found) \<Rightarrow>
        (case (unescape EncodeUserPassword username, unescape EncodeUserPassword password) of
           (Some u, Some p) \<Rightarrow> Some (u, if found then Some p else None)
         | _ \<Rightarrow> None))"

definition parseAuthority :: "string \<Rightarrow> (Userinfo option \<times> string) option" where
  "parseAuthority a =
     (case lastIndex (CHR ''@'') a of
        None \<Rightarrow> map_option (Pair None) (parseHost a)
      | Some i \<Rightarrow>
          (case (parseHost (drop (Suc i) a), parseUserinfo (take i a)) of
             (Some h, Some u) \<Rightarrow> Some (Some u, h)
           | _ \<Rightarrow> None))"

text \<open>\<open>getScheme\<close>: \<open>None\<close> for a leading colon; an empty scheme when there is none.\<close>

fun schemeFrom :: "string \<Rightarrow> string \<Rightarrow> string \<Rightarrow> (string \<times> string) option" where
  "schemeFrom raw acc [] = Some ([], raw)"
| "schemeFrom raw acc (c # s) =
     (if is_letter c then schemeFrom raw (acc @ [c]) s
      else if is_digit c \<or> c \<in> set ''+-.'' then
        (if acc = [] then Some ([], raw) else schemeFrom raw (acc @ [c]) s)
      else if c = CHR '':'' then (if acc = [] then None else Some (acc, s))
      else Some ([], raw))"

definition hasCTL :: "string \<Rightarrow> bool" where
  "hasCTL s \<longleftrightarrow> list_ex (\<lambda>c. c < CHR 0x20 \<or> c = CHR 0x7F) s"

definition zero_URL :: URL where
  "zero_URL = \<lparr>url_Scheme = [], url_Opaque = [], url_User = None, url_Host = [], url_Path = [], url_RawPath = [], url_OmitHost = False,
     url_ForceQuery = False, url_RawQuery = [], url_Fragment = [], url_RawFragment = []\<rparr>"

text \<open>\<open>setPath\<close> and \<open>setFragment\<close> keep the raw text only where escaping the decoded text gives another one.\<close>

definition setPath :: "string \<Rightarrow> URL \<Rightarrow> URL option" where
  "setPath p u =
     (case unescape EncodePath p of
        None \<Rightarrow> None
      | Some path \<Rightarrow> Some (u\<lparr>url_Path := path, url_RawPath := (if p = urlEscape EncodePath path then [] else p)\<rparr>))"

definition setFragment :: "string \<Rightarrow> URL \<Rightarrow> URL option" where
  "setFragment f u =
     (case unescape EncodeFragment f of
        None \<Rightarrow> None
      | Some frag \<Rightarrow> Some (u\<lparr>url_Fragment := frag, url_RawFragment := (if f = urlEscape EncodeFragment frag then [] else f)\<rparr>))"

text \<open>A lone trailing question mark is dropped and remembered; otherwise the query starts at the first one.\<close>

definition cutQuery :: "string \<Rightarrow> string \<times> string \<times> bool" where
  "cutQuery rest =
     (if suffix ''?'' rest \<and> countOf rest ''?'' = 1 then (butlast rest, [], True)
      else case cut rest (CHR ''?'') of (a, b, _) \<Rightarrow> (a, b, False))"

definition parseRest :: "string \<Rightarrow> string \<Rightarrow> URL option" where
  "parseRest scheme rest0 =
     (case cutQuery rest0 of (rest, query, force) \<Rightarrow>
        let u = zero_URL\<lparr>url_Scheme := map ascii_lower scheme, url_RawQuery := query, url_ForceQuery := force\<rparr> in
        if \<not> prefix ''/'' rest \<and> scheme \<noteq> [] then Some (u\<lparr>url_Opaque := rest\<rparr>)
        else if \<not> prefix ''/'' rest \<and> CHR '':'' \<in> set (takeWhile (\<lambda>c. c \<noteq> CHR ''/'') rest) then None
        else if (scheme \<noteq> [] \<or> \<not> prefix ''///'' rest) \<and> prefix ''//'' rest then
          (let a = takeWhile (\<lambda>c. c \<noteq> CHR ''/'') (drop 2 rest);
               path = dropWhile (\<lambda>c. c \<noteq> CHR ''/'') (drop 2 rest)
           in (case parseAuthority a of
                 None \<Rightarrow> None
               | Some (user, host) \<Rightarrow> setPath path (u\<lparr>url_User := user, url_Host := host\<rparr>)))
        else setPath rest (if scheme \<noteq> [] \<and> prefix ''/'' rest then u\<lparr>url_OmitHost := True\<rparr> else u))"

definition parseURL :: "string \<Rightarrow> URL option" where
  "parseURL raw =
     (case cut raw (CHR ''#'') of (u, frag, _) \<Rightarrow>
        case (if hasCTL u then None
          else if u = ''*'' then Some (zero_URL\<lparr>url_Path := ''*''\<rparr>)
          else case schemeFrom u [] u of None \<Rightarrow> None | Some (scheme, rest) \<Rightarrow> parseRest scheme rest) of
          None \<Rightarrow> None
        | Some url \<Rightarrow> if frag = [] then Some url else setFragment frag url)"

text \<open>\<open>EscapedPath\<close>, \<open>EscapedFragment\<close>, \<open>Userinfo.String\<close> and \<open>URL.String\<close>.\<close>

definition EscapedPath :: "URL \<Rightarrow> string" where
  "EscapedPath u =
     (if url_RawPath u \<noteq> [] \<and> validEncoded EncodePath (url_RawPath u) \<and> unescape EncodePath (url_RawPath u) = Some (url_Path u)
      then url_RawPath u
      else if url_Path u = ''*'' then ''*'' else urlEscape EncodePath (url_Path u))"

definition EscapedFragment :: "URL \<Rightarrow> string" where
  "EscapedFragment u =
     (if url_RawFragment u \<noteq> [] \<and> validEncoded EncodeFragment (url_RawFragment u) \<and>
        unescape EncodeFragment (url_RawFragment u) = Some (url_Fragment u)
      then url_RawFragment u else urlEscape EncodeFragment (url_Fragment u))"

definition userinfoString :: "Userinfo \<Rightarrow> string" where
  "userinfoString ui =
     (case ui of (username, password) \<Rightarrow>
        if username = [] \<and> password = None then []
        else urlEscape EncodeUserPassword username @
          (case password of None \<Rightarrow> [] | Some p \<Rightarrow> '':'' @ urlEscape EncodeUserPassword p))"

definition authorityString :: "URL \<Rightarrow> string" where
  "authorityString u =
     (if url_Scheme u = [] \<and> url_Host u = [] \<and> url_User u = None then []
      else if url_OmitHost u \<and> url_Host u = [] \<and> url_User u = None then []
      else (if url_Host u \<noteq> [] \<or> url_Path u \<noteq> [] \<or> url_User u \<noteq> None then ''//'' else []) @
        (case url_User u of None \<Rightarrow> [] | Some ui \<Rightarrow> userinfoString ui @ ''@'') @ urlEscape EncodeHost (url_Host u))"

definition URLString :: "URL \<Rightarrow> string" where
  "URLString u =
     (let scheme = (if url_Scheme u \<noteq> [] then url_Scheme u @ '':'' else []);
          path = EscapedPath u;
          start = scheme @ authorityString u;
          start = (if path \<noteq> [] \<and> hd path \<noteq> CHR ''/'' \<and> url_Host u \<noteq> [] then start @ ''/'' else start);
          start = (if start = [] \<and> CHR '':'' \<in> set (takeWhile (\<lambda>c. c \<noteq> CHR ''/'') path) then ''./'' else start)
      in (if url_Opaque u \<noteq> [] then scheme @ url_Opaque u else start @ path) @
         (if url_ForceQuery u \<or> url_RawQuery u \<noteq> [] then ''?'' @ url_RawQuery u else []) @
         (if url_Fragment u \<noteq> [] then ''#'' @ EscapedFragment u else []))"

text \<open>
  \<open>resolvePath\<close> works on a buffer that starts with a slash; \<open>dst\<close> is the buffer after it.  The result
  is the buffer and the last element.
\<close>

fun resolveElems :: "string \<Rightarrow> bool \<Rightarrow> string list \<Rightarrow> string" where
  "resolveElems dst first [] = dst"
| "resolveElems dst first (e # es) =
     (let (dst', first') =
        (if e = ''.'' then (dst, False)
         else if e = ''..'' then
           (case lastIndex (CHR ''/'') dst of None \<Rightarrow> ([], True) | Some i \<Rightarrow> (take i dst, first))
         else (if first then dst @ e else dst @ ''/'' @ e, False))
      in resolveElems (if es = [] \<and> e \<in> {''.'', ''..''} then dst' @ ''/'' else dst') first' es)"

definition resolvePath :: "string \<Rightarrow> string \<Rightarrow> string" where
  "resolvePath base ref =
     (let full = (if ref = [] then base
          else if hd ref \<noteq> CHR ''/'' then (case lastIndex (CHR ''/'') base of None \<Rightarrow> [] | Some i \<Rightarrow> take (Suc i) base) @ ref
          else ref)
      in if full = [] then []
         else let dst = resolveElems [] True (splitChar full (CHR ''/'')) in if prefix ''/'' dst then dst else ''/'' @ dst)"

text \<open>\<open>ResolveReference\<close>; \<open>setPath\<close> cannot fail there on paths that were escaped, and a failure is ignored.\<close>

definition setPathOr :: "string \<Rightarrow> URL \<Rightarrow> URL" where
  "setPathOr p u = (case setPath p u of None \<Rightarrow> u | Some v \<Rightarrow> v)"

definition ResolveReference :: "URL \<Rightarrow> URL \<Rightarrow> URL" where
  "ResolveReference u ref =
     (let url = (if url_Scheme ref = [] then ref\<lparr>url_Scheme := url_Scheme u\<rparr> else ref) in
      if url_Scheme ref \<noteq> [] \<or> url_Host ref \<noteq> [] \<or> url_User ref \<noteq> None then setPathOr (resolvePath (EscapedPath ref) []) url
      else if url_Opaque ref \<noteq> [] then url\<lparr>url_User := None, url_Host := [], url_Path := []\<rparr>
      else
        let url = (if url_Path ref = [] \<and> \<not> url_ForceQuery ref \<and> url_RawQuery ref = [] then
              (if url_Fragment ref = []
               then url\<lparr>url_RawQuery := url_RawQuery u, url_Fragment := url_Fragment u, url_RawFragment := url_RawFragment u\<rparr>
               else url\<lparr>url_RawQuery := url_RawQuery u\<rparr>)
            else url)
        in if url_Path ref = [] \<and> url_Opaque u \<noteq> [] then url\<lparr>url_Opaque := url_Opaque u, url_User := None, url_Host := [], url_Path := []\<rparr>
           else setPathOr (resolvePath (EscapedPath u) (EscapedPath ref)) (url\<lparr>url_Host := url_Host u, url_User := url_User u\<rparr>))"

text \<open>\<open>url.PathEscape\<close>.\<close>

definition pathEscape :: "string \<Rightarrow> string" where
  "pathEscape s = urlEscape EncodePathSegment s"

text \<open>The check the program makes of issuer URLs.\<close>

definition httpsIssuer :: "string \<Rightarrow> bool" where
  "httpsIssuer s = (case parseURL s of
     None \<Rightarrow> False
   | Some u \<Rightarrow> url_Scheme u = ''https'' \<and> url_Host u \<noteq> [] \<and> url_RawQuery u = [] \<and> url_Fragment u = [])"

section \<open>Escaping and unescaping\<close>

lemma urlEscape_simps [simp]: "urlEscape m [] = []" "urlEscape m (c # s) = escapeByte m c @ urlEscape m s"
  "urlEscape m (s @ t) = urlEscape m s @ urlEscape m t"
  by (simp_all add: urlEscape_def)

lemma urlEscape_id: "list_all (\<lambda>c. \<not> shouldEscape m c) s \<Longrightarrow> urlEscape m s = s"
  by (induction s) (auto simp: escapeByte_def)

lemma hexVal_upperHex: "n < 16 \<Longrightarrow> hexVal (upperHex n) = Some n"
proof -
  have "list_all (\<lambda>n. hexVal (upperHex n) = Some n) [0..<16]" by code_simp
  then show "n < 16 \<Longrightarrow> ?thesis" by (simp add: list_all_iff)
qed

lemma unescape_hex:
  assumes "m \<notin> {EncodeHost, EncodeZone}"
  shows "unescape m ([CHR ''%'', upperHex (of_char c div 16), upperHex (of_char c mod 16)] @ s) = map_option ((#) c) (unescape m s)"
proof -
  have "of_char c < (256 :: nat)" by simp
  then have "hexVal (upperHex (of_char c div 16)) = Some (of_char c div 16)" "hexVal (upperHex (of_char c mod 16)) = Some (of_char c mod 16)"
    by (auto intro!: hexVal_upperHex less_mult_imp_div_less)
  then show ?thesis using assms by simp
qed

lemma unescape_plain: "m \<notin> {EncodeHost, EncodeZone, EncodeQueryComponent} \<Longrightarrow> c \<noteq> CHR ''%'' \<Longrightarrow> unescape m (c # s) = map_option ((#) c) (unescape m s)"
  by auto

lemma shouldEscape_percent: "shouldEscape m (CHR ''%'')"
  by (auto simp: shouldEscape_def is_letter_def is_lower_def is_upper_def is_digit_def)

lemma unescape_escapeByte:
  "m \<in> {EncodePath, EncodePathSegment, EncodeUserPassword, EncodeFragment} \<Longrightarrow> m' \<notin> {EncodeHost, EncodeZone, EncodeQueryComponent} \<Longrightarrow>
   unescape m' (escapeByte m c @ s) = map_option ((#) c) (unescape m' s)"
  using shouldEscape_percent [of m] unescape_hex [of m' c s] unescape_plain [of m' c s]
  by (cases "c = CHR ''%''") (auto simp: escapeByte_def simp del: unescape.simps)

text \<open>What was escaped is what is read back.\<close>

lemma unescape_urlEscape:
  assumes "m \<in> {EncodePath, EncodePathSegment, EncodeUserPassword, EncodeFragment}" "m' \<notin> {EncodeHost, EncodeZone, EncodeQueryComponent}"
  shows "unescape m' (urlEscape m s) = Some s"
  by (induction s) (simp_all add: unescape_escapeByte [OF assms] del: unescape.simps(2))

lemma unescape_query_byte:
  "unescape EncodeQueryComponent (escapeByte EncodeQueryComponent c @ s) = map_option ((#) c) (unescape EncodeQueryComponent s)"
proof (cases "shouldEscape EncodeQueryComponent c")
  case True
  then show ?thesis using unescape_hex [of EncodeQueryComponent c s] by (auto simp: escapeByte_def)
next
  case False
  moreover have "shouldEscape EncodeQueryComponent (CHR ''+'')"
    by (auto simp: shouldEscape_def is_letter_def is_lower_def is_upper_def is_digit_def)
  ultimately show ?thesis using shouldEscape_percent [of EncodeQueryComponent] by (auto simp: escapeByte_def)
qed

lemma unescape_query: "unescape EncodeQueryComponent (urlEscape EncodeQueryComponent s) = Some s"
  by (induction s) (simp_all add: unescape_query_byte del: unescape.simps(2))

end
