(* ===== verification/User_Registration.thy ===== *)
theory User_Registration
  imports Services Libraries Go_Sha256 Go_Url
begin

text \<open>
  The registration resource (\<open>api/v1alpha1/userregistration.go\<close>): its records, the names derived
  from identities and hosts, validation, and the YAML codec, which is a parameter.
\<close>

definition Group :: string where "Group = ''tearenv.io''"
definition Version :: string where "Version = ''v1alpha1''"
definition APIVersion :: string where "APIVersion = Group @ ''/'' @ Version"
definition UserRegistrationKind :: string where "UserRegistrationKind = ''UserRegistration''"
definition UserRegistrationResource :: string where "UserRegistrationResource = ''userregistrations''"
definition ConditionAccepted :: string where "ConditionAccepted = ''Accepted''"
definition AuthenticationMethodOIDC :: string where "AuthenticationMethodOIDC = ''oidc''"
definition ConditionTrue :: string where "ConditionTrue = ''True''"

record SSHPublicKey =
  pk_Name :: string
  pk_Key :: string

record UserRegistrationSpec =
  sp_Identity :: string
  sp_PublicKeys :: "SSHPublicKey list"

record AuthenticatedPrincipal =
  ap_Method :: string
  ap_Issuer :: string
  ap_Subject :: string

record UserRegistrationStatus =
  st_ObservedGeneration :: int
  st_AuthenticatedPrincipal :: "AuthenticatedPrincipal option"
  st_Conditions :: "Condition list"

text \<open>Of the Kubernetes type and object metadata, the fields the program reads or writes.\<close>

record UserRegistration =
  ur_APIVersion :: string
  ur_Kind :: string
  ur_Name :: string
  ur_Namespace :: string
  ur_UID :: string
  ur_ResourceVersion :: string
  ur_Generation :: int
  ur_CreationTimestamp :: "int option"
  ur_Spec :: UserRegistrationSpec
  ur_Status :: "UserRegistrationStatus option"

section \<open>Derived names\<close>

definition resource_char :: "char \<Rightarrow> bool" where
  "resource_char c \<longleftrightarrow> is_lower c \<or> is_digit c \<or> c = CHR ''.'' \<or> c = CHR ''-''"

text \<open>\<open>invalidResourceName.ReplaceAllString(s, "-")\<close>: every run of other bytes becomes one hyphen.\<close>

fun replaceInvalid :: "bool \<Rightarrow> string \<Rightarrow> string" where
  "replaceInvalid inRun [] = []"
| "replaceInvalid inRun (c # s) =
     (if resource_char c then c # replaceInvalid False s
      else if inRun then replaceInvalid True s
      else CHR ''-'' # replaceInvalid True s)"

definition normalizeName :: "(string \<Rightarrow> string) \<Rightarrow> string \<Rightarrow> string" where
  "normalizeName ul original =
     (let n = trim (replaceInvalid False (toLower ul original)) ''.-''
      in if n = [] then ''registration'' else n)"

definition hashPrefix :: "nat \<Rightarrow> string \<Rightarrow> string" where
  "hashPrefix n v = take n (hexEncode (sha256 v))"

definition ResourceName :: "k8s_lib \<Rightarrow> (string \<Rightarrow> string) \<Rightarrow> string \<Rightarrow> string" where
  "ResourceName K ul v =
     (let original = trimSpace v; n = normalizeName ul original in
      if n = original \<and> length n \<le> DNS1123SubdomainMaxLength K \<and> IsDNS1123Subdomain K n = [] then n
      else
        (let digest = hashPrefix 12 v;
             maximumPrefix = DNS1123SubdomainMaxLength K - length digest - 1;
             n1 = (if length n > maximumPrefix then take maximumPrefix n else n)
         in trimRight n1 ''.-'' @ ''-'' @ digest))"

definition KeyName :: "k8s_lib \<Rightarrow> (string \<Rightarrow> string) \<Rightarrow> string \<Rightarrow> string" where
  "KeyName K ul v =
     (let name = replaceAll (ResourceName K ul v) ''.'' ''-'' in
      if length name \<le> DNS1123LabelMaxLength K then name
      else
        (let digest = hashPrefix 12 v
         in trimRight (take (DNS1123LabelMaxLength K - length digest - 1) name) ''-'' @ ''-'' @ digest))"

section \<open>Acceptance\<close>

definition AcceptanceCondition :: "k8s_lib \<Rightarrow> UserRegistration \<Rightarrow> Condition option" where
  "AcceptanceCondition K r =
     (case ur_Status r of None \<Rightarrow> None | Some st \<Rightarrow> FindStatusCondition K (st_Conditions st) ConditionAccepted)"

definition Accepted :: "k8s_lib \<Rightarrow> UserRegistration \<Rightarrow> bool" where
  "Accepted K r =
     (case AcceptanceCondition K r of None \<Rightarrow> False | Some c \<Rightarrow> cond_Status c = ConditionTrue)"

section \<open>Validation\<close>

datatype reg_err =
    BadAPIVersion | BadKind | BadName "string list" | BadNamespace "string list" | BadRegIdentity string
  | NameMismatch string | BadPrincipalMethod | BadPrincipalIssuer | PrincipalSubjectRequired
  | NoPublicKeys | BadKeyName nat "string list" | DuplicateKeyName nat | BadKey nat | TrailingKey nat | DuplicateKey nat
  | YamlParse | YamlEncode

definition validateAuthenticatedPrincipal :: "UserRegistrationStatus option \<Rightarrow> reg_err option" where
  "validateAuthenticatedPrincipal status =
     (case status of
        None \<Rightarrow> None
      | Some st \<Rightarrow>
          (case st_AuthenticatedPrincipal st of
             None \<Rightarrow> None
           | Some p \<Rightarrow>
               if ap_Method p \<noteq> AuthenticationMethodOIDC then Some BadPrincipalMethod
               else if \<not> httpsIssuer (ap_Issuer p) then Some BadPrincipalIssuer
               else if trimSpace (ap_Subject p) = [] then Some PrincipalSubjectRequired
               else None))"

fun validateKeysFrom :: "ssh_lib \<Rightarrow> k8s_lib \<Rightarrow> nat \<Rightarrow> string list \<Rightarrow> string list \<Rightarrow> SSHPublicKey list \<Rightarrow> reg_err option" where
  "validateKeysFrom L K i names keys [] = None"
| "validateKeysFrom L K i names keys (p # ps) =
     (if IsDNS1123Label K (pk_Name p) \<noteq> [] then Some (BadKeyName i (IsDNS1123Label K (pk_Name p)))
      else if pk_Name p \<in> set names then Some (DuplicateKeyName i)
      else (case ParseAuthorizedKey L (pk_Key p) of
          None \<Rightarrow> Some (BadKey i)
        | Some (k, rest) \<Rightarrow>
            if trimSpace rest \<noteq> [] then Some (TrailingKey i)
            else if marshalKey L k \<in> set keys then Some (DuplicateKey i)
            else validateKeysFrom L K (Suc i) (pk_Name p # names) (marshalKey L k # keys) ps))"

definition validatePublicKeys :: "ssh_lib \<Rightarrow> k8s_lib \<Rightarrow> SSHPublicKey list \<Rightarrow> reg_err option" where
  "validatePublicKeys L K ps = (if ps = [] then Some NoPublicKeys else validateKeysFrom L K 0 [] [] ps)"

definition registrationValidate :: "ssh_lib \<Rightarrow> k8s_lib \<Rightarrow> (string \<Rightarrow> string) \<Rightarrow> UserRegistration \<Rightarrow> reg_err option" where
  "registrationValidate L K ul r =
     (if ur_APIVersion r \<noteq> APIVersion then Some BadAPIVersion
      else if ur_Kind r \<noteq> UserRegistrationKind then Some BadKind
      else if IsDNS1123Subdomain K (ur_Name r) \<noteq> [] then Some (BadName (IsDNS1123Subdomain K (ur_Name r)))
      else if ur_Namespace r \<noteq> [] \<and> IsDNS1123Label K (ur_Namespace r) \<noteq> []
        then Some (BadNamespace (IsDNS1123Label K (ur_Namespace r)))
      else if \<not> validIdentity (sp_Identity (ur_Spec r)) then Some (BadRegIdentity (sp_Identity (ur_Spec r)))
      else if ur_Name r \<noteq> ResourceName K ul (sp_Identity (ur_Spec r))
        then Some (NameMismatch (ResourceName K ul (sp_Identity (ur_Spec r))))
      else (case validateAuthenticatedPrincipal (ur_Status r) of
          Some e \<Rightarrow> Some e
        | None \<Rightarrow> validatePublicKeys L K (sp_PublicKeys (ur_Spec r))))"

section \<open>The document\<close>

record 'd yaml_lib =
  yamlMarshal :: "'d \<Rightarrow> string option"
  yamlUnmarshalStrict :: "string \<Rightarrow> 'd option"

record libs =
  lib_ssh :: ssh_lib
  lib_k8s :: k8s_lib
  lib_lower :: "string \<Rightarrow> string"

definition MarshalUserRegistration :: "libs \<Rightarrow> UserRegistration yaml_lib \<Rightarrow> UserRegistration \<Rightarrow> reg_err + string" where
  "MarshalUserRegistration lb Y r =
     (case registrationValidate (lib_ssh lb) (lib_k8s lb) (lib_lower lb) r of
        Some e \<Rightarrow> Inl e
      | None \<Rightarrow> (case yamlMarshal Y r of None \<Rightarrow> Inl YamlEncode | Some s \<Rightarrow> Inr s))"

definition LoadUserRegistration :: "libs \<Rightarrow> UserRegistration yaml_lib \<Rightarrow> string \<Rightarrow> reg_err + UserRegistration" where
  "LoadUserRegistration lb Y contents =
     (case yamlUnmarshalStrict Y contents of
        None \<Rightarrow> Inl YamlParse
      | Some r \<Rightarrow>
          (case registrationValidate (lib_ssh lb) (lib_k8s lb) (lib_lower lb) r of
             Some e \<Rightarrow> Inl e
           | None \<Rightarrow> Inr r))"

section \<open>Validated documents\<close>

text \<open>
  The contract of a codec that validates on both sides: only valid documents are written or
  read, and a document that the YAML library reproduces is read back as it was.
\<close>

definition yamlFaithful :: "'d yaml_lib \<Rightarrow> 'd \<Rightarrow> bool" where
  "yamlFaithful Y d \<longleftrightarrow> (\<forall>s. yamlMarshal Y d = Some s \<longrightarrow> yamlUnmarshalStrict Y s = Some d)"

locale validated_codec =
  fixes marshal :: "'l \<Rightarrow> 'd yaml_lib \<Rightarrow> 'd \<Rightarrow> 'e + string"
    and load :: "'l \<Rightarrow> 'd yaml_lib \<Rightarrow> string \<Rightarrow> 'e + 'd"
    and valid :: "'l \<Rightarrow> 'd \<Rightarrow> bool"
  assumes marshal_iff: "marshal l Y d = Inr s \<longleftrightarrow> valid l d \<and> yamlMarshal Y d = Some s"
    and load_iff: "load l Y s = Inr d \<longleftrightarrow> valid l d \<and> yamlUnmarshalStrict Y s = Some d"
begin

lemma load_marshal: "yamlFaithful Y d \<Longrightarrow> marshal l Y d = Inr s \<Longrightarrow> load l Y s = Inr d"
  by (simp add: marshal_iff load_iff yamlFaithful_def)

lemma load_valid: "load l Y s = Inr d \<Longrightarrow> valid l d"
  by (simp add: load_iff)

lemma remarshal: "load l Y s = Inr d \<Longrightarrow> yamlMarshal Y d = Some t \<Longrightarrow> marshal l Y d = Inr t"
  by (simp add: marshal_iff load_iff)

end

definition validRegistration :: "libs \<Rightarrow> UserRegistration \<Rightarrow> bool" where
  "validRegistration lb r \<longleftrightarrow> registrationValidate (lib_ssh lb) (lib_k8s lb) (lib_lower lb) r = None"

interpretation registration_codec: validated_codec MarshalUserRegistration LoadUserRegistration validRegistration
  by unfold_locales
    (auto simp: MarshalUserRegistration_def LoadUserRegistration_def validRegistration_def split: option.splits)

section \<open>Facts about derived names\<close>

lemma resource_chars_replaceInvalid: "list_all resource_char (replaceInvalid b s)"
  by (induction b s rule: replaceInvalid.induct) (auto simp: resource_char_def)

lemma list_all_subset: "list_all P s \<Longrightarrow> set t \<subseteq> set s \<Longrightarrow> list_all P t"
  by (auto simp: list_all_iff)

lemma dns_char_iff: "resource_char c \<Longrightarrow> c \<notin> set ''.-'' \<Longrightarrow> dns_char c"
  by (auto simp: resource_char_def dns_char_def)

lemma hex_dns_char: "is_hex c \<Longrightarrow> dns_char c"
  by (auto simp: is_hex_def dns_char_def is_lower_def elim: order_trans)

lemma normalizeName_shape:
  fixes s :: string and ul :: "string \<Rightarrow> string"
  defines "n \<equiv> normalizeName ul s"
  shows "n \<noteq> [] \<and> dns_char (hd n) \<and> dns_char (last n) \<and> list_all resource_char n"
proof (cases "trim (replaceInvalid False (toLower ul s)) ''.-'' = []")
  case True
  then have "n = ''registration''" by (simp add: n_def normalizeName_def)
  then show ?thesis by (simp add: dns_char_def resource_char_def char_class_defs)
next
  case False
  let ?t = "trim (replaceInvalid False (toLower ul s)) ''.-''"
  have n: "n = ?t" using False by (simp add: n_def normalizeName_def)
  have a: "list_all resource_char ?t"
    by (rule list_all_subset [OF resource_chars_replaceInvalid set_trim])
  have "hd ?t \<in> set ?t" "last ?t \<in> set ?t" using False by auto
  then show ?thesis
    using a False trim_hd [of _ "''.-''"] trim_last [of _ "''.-''"] unfolding n
    by (auto simp: list_all_iff intro!: dns_char_iff)
qed

lemma hashPrefix_shape: "0 < n \<Longrightarrow> n \<le> 64 \<Longrightarrow>
  length (hashPrefix n v) = n \<and> list_all dns_char (hashPrefix n v)"
  by (auto simp: hashPrefix_def list_all_iff length_sha256 dest!: in_set_takeD hexEncode_hex intro: hex_dns_char)


text \<open>A prefix with its trailing separators cut off, a hyphen and a digest.\<close>

lemma digest_suffix:
  assumes "p \<noteq> []" "dns_char (hd p)" "list_all resource_char p" "CHR ''-'' \<in> set cs" "set cs \<subseteq> set ''.-''"
    and "d \<noteq> []" "list_all dns_char d"
  shows "hd (trimRight p cs @ ''-'' @ d) = hd p \<and> last (trimRight p cs @ ''-'' @ d) = last d \<and>
    dns_char (hd (trimRight p cs @ ''-'' @ d)) \<and> dns_char (last (trimRight p cs @ ''-'' @ d)) \<and>
    list_all resource_char (trimRight p cs @ ''-'' @ d)"
proof -
  obtain c q where p: "p = c # q" using assms(1) by (cases p) auto
  have "c \<notin> set cs" using assms(2,5) p by (auto simp: dns_char_def char_class_defs)
  then have t: "trimRight p cs = c # trimRight q cs" by (simp add: p trimRight_Cons)
  have sub: "set (trimRight q cs) \<subseteq> set q"
    using trimRight_prefix [of q cs] by (simp add: set_mono_prefix)
  have "dns_char (last d)" using assms(6,7) by (simp add: list_all_iff)
  moreover have "list_all resource_char d" using assms(7) by (auto simp: list_all_iff dns_char_def resource_char_def)
  moreover have "list_all resource_char (trimRight q cs)"
    using assms(3) sub p by (auto simp: list_all_iff)
  ultimately show ?thesis using t p assms(2,3,6) by (simp add: resource_char_def)
qed

lemma replaceAll_dot: "replaceAll s ''.'' ''-'' = map (\<lambda>c. if c = CHR ''.'' then CHR ''-'' else c) s"
proof (induction s)
  case (Cons c s)
  then show ?case by (cases "c = CHR ''.''") (subst replaceAll.simps, simp)+
qed (subst replaceAll.simps, simp)

lemma ResourceName_chars:
  fixes v :: string and K :: k8s_lib and ul :: "string \<Rightarrow> string"
  defines "n \<equiv> ResourceName K ul v"
  assumes "documented_k8s K"
  shows "n \<noteq> [] \<and> length n \<le> 253 \<and> dns_char (hd n) \<and> dns_char (last n) \<and> list_all resource_char n"
proof -
  let ?m = "normalizeName ul (trimSpace v)"
  have m: "?m \<noteq> []" "dns_char (hd ?m)" "dns_char (last ?m)" "list_all resource_char ?m"
    using normalizeName_shape by auto
  have K: "DNS1123SubdomainMaxLength K = 253" using assms(2) by (simp add: documented_k8s_def)
  have d: "length (hashPrefix 12 v) = 12" "list_all dns_char (hashPrefix 12 v)" "hashPrefix 12 v \<noteq> []"
    using hashPrefix_shape [of 12 v] by auto
  let ?p = "if length ?m > 240 then take 240 ?m else ?m"
  have p: "?p \<noteq> []" "hd ?p = hd ?m" "list_all resource_char ?p" "length ?p \<le> 240"
    using m(1,4) by (auto simp: list_all_iff hd_take dest: in_set_takeD)
  have "length (trimRight ?p ''.-'') \<le> 240" using length_trimRight [of ?p "''.-''"] p(4) by linarith
  moreover have "dns_char (hd ?p)" using p(2) m(2) by simp
  ultimately show ?thesis
    using m digest_suffix [OF p(1) _ p(3), of "''.-''" "hashPrefix 12 v"] d
    unfolding n_def ResourceName_def by (auto simp: Let_def K)
qed

section \<open>Properties\<close>

text \<open>
  Every key name is a DNS-1123 label, whatever host name it is derived from.
\<close>

theorem KeyName_label:
  assumes "documented_k8s K"
  shows "IsDNS1123Label K (KeyName K ul v) = []"
proof -
  let ?r = "ResourceName K ul v"
  let ?n = "replaceAll ?r ''.'' ''-''"
  let ?f = "\<lambda>c. if c = CHR ''.'' then CHR ''-'' else c"
  have r: "?r \<noteq> []" "dns_char (hd ?r)" "dns_char (last ?r)" "list_all resource_char ?r"
    using ResourceName_chars [OF assms, of ul v] by auto
  have keep: "dns_char c \<Longrightarrow> dns_char (?f c)" for c by (auto simp: dns_char_def char_class_defs)
  have n: "?n \<noteq> []" "dns_char (hd ?n)" "dns_char (last ?n)" "list_all resource_char ?n"
    "list_all (\<lambda>c. dns_char c \<or> c = CHR ''-'') ?n"
    using r keep by (auto simp: replaceAll_dot hd_map last_map list_all_iff resource_char_def dns_char_def)
  let ?p = "take 50 ?n"
  have p: "?p \<noteq> []" "hd ?p = hd ?n" "list_all resource_char ?p"
    using n(1,4) by (auto simp: list_all_iff dest: in_set_takeD)
  have d: "length (hashPrefix 12 v) = 12" "list_all dns_char (hashPrefix 12 v)" "hashPrefix 12 v \<noteq> []"
    using hashPrefix_shape [of 12 v] by auto
  let ?q = "trimRight ?p ''-'' @ ''-'' @ hashPrefix 12 v"
  have q: "dns_char (hd ?q)" "dns_char (last ?q)"
    using digest_suffix [OF p(1) _ p(3), of "''-''" "hashPrefix 12 v"] n(2) p(2) d by auto
  have sub: "set (trimRight ?p ''-'') \<subseteq> set ?n"
    using set_mono_prefix [OF trimRight_prefix [of ?p "''-''"]] set_take_subset by fastforce
  have qc: "list_all (\<lambda>c. dns_char c \<or> c = CHR ''-'') ?q"
    using n(5) sub d(2) by (auto simp: list_all_iff)
  have "length ?q \<le> 63" using length_trimRight [of ?p "''-''"] d(1) by simp
  with n q qc assms show ?thesis
    by (auto simp: KeyName_def Let_def documented_k8s_def dns1123Label_def dnsLabelChars_def d(1))
qed

theorem KeyName_label_witness: "IsDNS1123Label demoK8s (KeyName demoK8s (\<lambda>s. s) ''Ada's laptop'') = []"
  by (rule KeyName_label [OF demoK8s_documented])


definition parsedKeys :: "ssh_lib \<Rightarrow> SSHPublicKey list \<Rightarrow> PublicKey list \<Rightarrow> bool" where
  "parsedKeys L ps ks \<longleftrightarrow>
     list_all2 (\<lambda>p k. \<exists>rest. ParseAuthorizedKey L (pk_Key p) = Some (k, rest) \<and> trimSpace rest = []) ps ks"

lemma validateKeysFrom_iff:
  "validateKeysFrom L K i names keys ps = None \<longleftrightarrow>
     list_all (\<lambda>p. IsDNS1123Label K (pk_Name p) = []) ps \<and> distinct (map pk_Name ps) \<and> set names \<inter> pk_Name ` set ps = {} \<and>
     (\<exists>ks. parsedKeys L ps ks \<and> distinct (map (marshalKey L) ks) \<and> set keys \<inter> marshalKey L ` set ks = {})"
proof (induction ps arbitrary: i names keys)
  case (Cons p ps)
  show ?case
  proof (cases "ParseAuthorizedKey L (pk_Key p)")
    case (Some kr)
    obtain k rest where kr: "kr = (k, rest)" by (cases kr)
    have "(\<exists>ks. parsedKeys L (p # ps) ks \<and> distinct (map (marshalKey L) ks) \<and> set keys \<inter> marshalKey L ` set ks = {}) \<longleftrightarrow>
        trimSpace rest = [] \<and> marshalKey L k \<notin> set keys \<and>
        (\<exists>ks. parsedKeys L ps ks \<and> distinct (map (marshalKey L) ks) \<and>
          set (marshalKey L k # keys) \<inter> marshalKey L ` set ks = {})"
    proof -
      have eq: "parsedKeys L (p # ps) ks \<longleftrightarrow> (\<exists>zs. ks = k # zs \<and> trimSpace rest = [] \<and> parsedKeys L ps zs)" for ks
        using Some kr by (auto simp: parsedKeys_def list_all2_Cons1)
      show ?thesis (is "(\<exists>ks. ?A ks) \<longleftrightarrow> ?r \<and> ?m \<and> (\<exists>ks. ?B ks)")
      proof
        assume "?r \<and> ?m \<and> (\<exists>ks. ?B ks)"
        then obtain zs where "?r" "?m" "?B zs" by blast
        then have "?A (k # zs)" by (simp add: eq)
        then show "\<exists>ks. ?A ks" ..
      qed (auto simp: eq)
    qed
    with Some kr Cons.IH [of "Suc i" "pk_Name p # names" "marshalKey L k # keys"] show ?thesis by auto
  qed (auto simp: parsedKeys_def list_all2_Cons1)
qed (simp add: parsedKeys_def)

definition demoLibs :: libs where
  "demoLibs = \<lparr>lib_ssh = demoSsh, lib_k8s = demoK8s, lib_lower = \<lambda>s. s\<rparr>"

definition demoRegistration :: UserRegistration where
  "demoRegistration = \<lparr>ur_APIVersion = APIVersion, ur_Kind = UserRegistrationKind, ur_Name = ''ada'', ur_Namespace = ''default'',
     ur_UID = [], ur_ResourceVersion = [], ur_Generation = 0, ur_CreationTimestamp = None,
     ur_Spec = \<lparr>sp_Identity = ''ada'', sp_PublicKeys = [\<lparr>pk_Name = ''laptop'', pk_Key = ''ssh-ed25519 616c706861''\<rparr>]\<rparr>,
     ur_Status = None\<rparr>"

lemma demoRegistration_valid: "validRegistration demoLibs demoRegistration"
  by code_simp

lemma registrationValidate_spec:
  assumes "documented_k8s K"
  shows "registrationValidate L K ul r = None \<longleftrightarrow>
    ur_APIVersion r = ''tearenv.io/v1alpha1'' \<and> ur_Kind r = ''UserRegistration'' \<and>
    validIdentity (sp_Identity (ur_Spec r)) \<and> ur_Name r = ResourceName K ul (sp_Identity (ur_Spec r)) \<and>
    dns1123Subdomain (ur_Name r) \<and> (ur_Namespace r = [] \<or> dns1123Label (ur_Namespace r)) \<and>
    (\<forall>st p. ur_Status r = Some st \<longrightarrow> st_AuthenticatedPrincipal st = Some p \<longrightarrow>
       ap_Method p = ''oidc'' \<and> httpsIssuer (ap_Issuer p) \<and> trimSpace (ap_Subject p) \<noteq> []) \<and>
    sp_PublicKeys (ur_Spec r) \<noteq> [] \<and> list_all (\<lambda>p. dns1123Label (pk_Name p)) (sp_PublicKeys (ur_Spec r)) \<and>
    distinct (map pk_Name (sp_PublicKeys (ur_Spec r))) \<and>
    (\<exists>ks. parsedKeys L (sp_PublicKeys (ur_Spec r)) ks \<and> distinct (map (marshalKey L) ks))"
proof -
  have K: "IsDNS1123Label K s = [] \<longleftrightarrow> dns1123Label s" "IsDNS1123Subdomain K s = [] \<longleftrightarrow> dns1123Subdomain s" for s
    using assms by (auto simp: documented_k8s_def)
  have p: "validateAuthenticatedPrincipal (ur_Status r) = None \<longleftrightarrow>
      (\<forall>st p. ur_Status r = Some st \<longrightarrow> st_AuthenticatedPrincipal st = Some p \<longrightarrow>
       ap_Method p = ''oidc'' \<and> httpsIssuer (ap_Issuer p) \<and> trimSpace (ap_Subject p) \<noteq> [])"
    by (auto simp: validateAuthenticatedPrincipal_def AuthenticationMethodOIDC_def split: option.splits)
  have k: "validatePublicKeys L K ps = None \<longleftrightarrow>
      ps \<noteq> [] \<and> list_all (\<lambda>p. dns1123Label (pk_Name p)) ps \<and> distinct (map pk_Name ps) \<and>
      (\<exists>ks. parsedKeys L ps ks \<and> distinct (map (marshalKey L) ks))" for ps
    by (auto simp: validatePublicKeys_def validateKeysFrom_iff K)
  have "registrationValidate L K ul r = None \<longleftrightarrow>
      ur_APIVersion r = APIVersion \<and> ur_Kind r = UserRegistrationKind \<and> dns1123Subdomain (ur_Name r) \<and>
      (ur_Namespace r = [] \<or> dns1123Label (ur_Namespace r)) \<and> validIdentity (sp_Identity (ur_Spec r)) \<and>
      ur_Name r = ResourceName K ul (sp_Identity (ur_Spec r)) \<and>
      validateAuthenticatedPrincipal (ur_Status r) = None \<and>
      validatePublicKeys L K (sp_PublicKeys (ur_Spec r)) = None"
    by (auto simp: registrationValidate_def K split: option.split)
  then show ?thesis unfolding p k by (auto simp: APIVersion_def Group_def Version_def UserRegistrationKind_def)
qed

text \<open>
  What validation accepts, stated without loops: the versioned envelope, a valid identity
  whose derived name is the resource name and a DNS subdomain, an optional namespace label, an OIDC
  owner with an HTTPS issuer, and at least one key, all with distinct label names and parsing to
  distinct keys.
\<close>

theorem registrationValidate_iff:
  assumes "documented_k8s K"
  shows "registrationValidate L K ul r = None \<longleftrightarrow>
    ur_APIVersion r = ''tearenv.io/v1alpha1'' \<and> ur_Kind r = ''UserRegistration'' \<and>
    validIdentity (sp_Identity (ur_Spec r)) \<and> ur_Name r = ResourceName K ul (sp_Identity (ur_Spec r)) \<and>
    dns1123Subdomain (ur_Name r) \<and> (ur_Namespace r = [] \<or> dns1123Label (ur_Namespace r)) \<and>
    (\<forall>st p. ur_Status r = Some st \<longrightarrow> st_AuthenticatedPrincipal st = Some p \<longrightarrow>
       ap_Method p = ''oidc'' \<and> httpsIssuer (ap_Issuer p) \<and> trimSpace (ap_Subject p) \<noteq> []) \<and>
    sp_PublicKeys (ur_Spec r) \<noteq> [] \<and> list_all (\<lambda>p. dns1123Label (pk_Name p)) (sp_PublicKeys (ur_Spec r)) \<and>
    distinct (map pk_Name (sp_PublicKeys (ur_Spec r))) \<and>
    (\<exists>ks. parsedKeys L (sp_PublicKeys (ur_Spec r)) ks \<and> distinct (map (marshalKey L) ks))"
  by (rule registrationValidate_spec [OF assms])

theorem registrationValidate_iff_witness:
  "ur_Name demoRegistration = ResourceName demoK8s (\<lambda>s. s) (sp_Identity (ur_Spec demoRegistration)) \<and>
   list_all (\<lambda>p. dns1123Label (pk_Name p)) (sp_PublicKeys (ur_Spec demoRegistration))"
  using registrationValidate_iff [OF demoK8s_documented, of demoSsh "\<lambda>s. s" demoRegistration] demoRegistration_valid
  by (simp add: validRegistration_def demoLibs_def)

text \<open>
  A registration that is written and read back, with a YAML library that reproduces it, is
  unchanged, and what is read is always valid: in particular it bears the name of its identity.
\<close>

theorem registration_roundtrip:
  assumes "yamlFaithful Y r" "MarshalUserRegistration lb Y r = Inr contents"
  shows "LoadUserRegistration lb Y contents = Inr r \<and> validRegistration lb r \<and>
    ur_Name r = ResourceName (lib_k8s lb) (lib_lower lb) (sp_Identity (ur_Spec r))"
proof -
  have l: "LoadUserRegistration lb Y contents = Inr r" by (rule registration_codec.load_marshal [OF assms])
  then have v: "validRegistration lb r" by (rule registration_codec.load_valid)
  then have "ur_Name r = ResourceName (lib_k8s lb) (lib_lower lb) (sp_Identity (ur_Spec r))"
    by (auto simp: validRegistration_def registrationValidate_def split: if_splits)
  with l v show ?thesis by simp
qed

definition demoYaml :: "UserRegistration yaml_lib" where
  "demoYaml = \<lparr>yamlMarshal = \<lambda>r. Some (ur_Name r), yamlUnmarshalStrict = \<lambda>s. if s = ''ada'' then Some demoRegistration else None\<rparr>"

theorem registration_roundtrip_witness:
  "MarshalUserRegistration demoLibs demoYaml demoRegistration = Inr ''ada'' \<and>
   LoadUserRegistration demoLibs demoYaml ''ada'' = Inr demoRegistration"
proof -
  have "yamlFaithful demoYaml demoRegistration" by (simp add: yamlFaithful_def demoYaml_def demoRegistration_def)
  moreover have "MarshalUserRegistration demoLibs demoYaml demoRegistration = Inr ''ada''"
    using demoRegistration_valid
    by (simp add: registration_codec.marshal_iff demoYaml_def demoRegistration_def)
  ultimately show ?thesis using registration_roundtrip by blast
qed

text \<open>
  Some valid identities cannot be registered.  An identity may contain two dots in a row,
  and its derived name then keeps them, so that it is not a DNS subdomain and validation refuses
  every registration of that identity.
\<close>

theorem double_dot_identity_unregistrable:
  assumes "documented_k8s K" "sp_Identity (ur_Spec r) = ''a..b''"
  shows "validIdentity (sp_Identity (ur_Spec r)) \<and> registrationValidate L K ul r \<noteq> None"
proof -
  have n: "normalizeName ul (trimSpace ''a..b'') = ''a..b''" "trimSpace ''a..b'' = ''a..b''"
    by code_simp+
  have "\<not> dns1123Subdomain ''a..b''" by code_simp
  then have "ResourceName K ul ''a..b'' = ''a..b-'' @ hashPrefix 12 ''a..b''"
    using assms(1) n by (simp add: ResourceName_def Let_def documented_k8s_def hashPrefix_shape trimRight_def)
  moreover have "\<not> dns1123Subdomain (''a..b-'' @ d)" for d
    by (auto simp: dns1123Subdomain_def dnsLabelChars_def)
  ultimately have "\<not> dns1123Subdomain (ResourceName K ul ''a..b'')" by simp
  moreover have "validIdentity ''a..b''" by code_simp
  ultimately show ?thesis using assms by (auto simp: registrationValidate_spec)
qed

theorem double_dot_identity_unregistrable_witness:
  "registrationValidate demoSsh demoK8s (\<lambda>s. s)
     (demoRegistration\<lparr>ur_Spec := \<lparr>sp_Identity = ''a..b'', sp_PublicKeys = []\<rparr>\<rparr>) \<noteq> None"
  using double_dot_identity_unregistrable [OF demoK8s_documented,
      of "demoRegistration\<lparr>ur_Spec := \<lparr>sp_Identity = ''a..b'', sp_PublicKeys = []\<rparr>\<rparr>"] by simp

end
