(* ===== verification/Blueprint.thy ===== *)
theory Blueprint
  imports User_Registration Go_Duration
begin

text \<open>
  Environment blueprints (\<open>internal/blueprint/blueprint.go\<close>): the document, its validation, the
  rendering of names for one identity, and instantiation.  Resources are Go values of type \<open>any\<close>.
  A Go map is iterated in no fixed order; the only place where that could show in a result is the
  substitution of the two template placeholders, whose order is the parameter \<open>swap\<close>.
\<close>

datatype goval = VNil | VBool bool | VInt int | VFloat rat | VStr string | VList "goval list" | VMap "(string \<times> goval) list"

type_synonym Resource = "goval gomap"

record Metadata =
  md_Name :: string

record NamespaceTemplate =
  nt_NameTemplate :: string
  nt_Labels :: "string gomap"

record ServiceTarget =
  tg_Service :: string
  tg_Port :: int

record WorkloadReference =
  ref_APIVersion :: string
  ref_Kind :: string
  ref_Name :: string

record ScalePolicy =
  pol_TargetRef :: WorkloadReference
  pol_Replicas :: int
  pol_ReadyTimeout :: string
  pol_IdleTimeout :: string

record BlueprintService =
  bs_Name :: string
  bs_LocalPort :: int
  bs_Target :: ServiceTarget
  bs_Scale :: ScalePolicy

record BlueprintSpec =
  bsp_Namespace :: NamespaceTemplate
  bsp_Resources :: "Resource list"
  bsp_Services :: "BlueprintService list"

record Blueprint =
  bp_APIVersion :: string
  bp_Kind :: string
  bp_Metadata :: Metadata
  bp_Spec :: BlueprintSpec

record Instance =
  in_Identity :: string
  in_IdentitySlug :: string
  in_BlueprintName :: string
  in_Namespace :: string
  in_Labels :: "string gomap"
  in_Resources :: "Resource list"
  in_Services :: "BlueprintService list"

definition blueprintAPIVersion :: string where "blueprintAPIVersion = ''tearenv.io/v1alpha1''"
definition blueprintKind :: string where "blueprintKind = ''EnvironmentBlueprint''"
definition IdentitySlugTemplate :: string where "IdentitySlugTemplate = ''{{ .IdentitySlug }}''"
definition BlueprintNameTemplate :: string where "BlueprintNameTemplate = ''{{ .BlueprintName }}''"

section \<open>The starter blueprint\<close>

definition workspaceLabels :: goval where
  "workspaceLabels = VMap [(''app.kubernetes.io/name'', VStr ''workspace'')]"

definition defaultDeployment :: Resource where
  "defaultDeployment =
     [(''apiVersion'', VStr ''apps/v1''), (''kind'', VStr ''Deployment''),
      (''metadata'', VMap [(''name'', VStr ''workspace''), (''labels'', workspaceLabels)]),
      (''spec'', VMap
         [(''replicas'', VInt 0),
          (''selector'', VMap [(''matchLabels'', workspaceLabels)]),
          (''template'', VMap
             [(''metadata'', VMap [(''labels'', workspaceLabels)]),
              (''spec'', VMap
                 [(''containers'', VList [VMap
                    [(''name'', VStr ''web''), (''image'', VStr ''nginx:1.27-alpine''),
                     (''ports'', VList [VMap [(''name'', VStr ''http''), (''containerPort'', VInt 80)]])]])])])])]"

definition defaultService :: Resource where
  "defaultService =
     [(''apiVersion'', VStr ''v1''), (''kind'', VStr ''Service''),
      (''metadata'', VMap [(''name'', VStr ''workspace'')]),
      (''spec'', VMap
         [(''selector'', workspaceLabels),
          (''ports'', VList [VMap [(''name'', VStr ''http''), (''port'', VInt 80), (''targetPort'', VStr ''http'')]])])]"

definition Default :: "string \<Rightarrow> Blueprint" where
  "Default name = \<lparr>bp_APIVersion = blueprintAPIVersion, bp_Kind = blueprintKind, bp_Metadata = \<lparr>md_Name = name\<rparr>,
     bp_Spec = \<lparr>
       bsp_Namespace = \<lparr>nt_NameTemplate = ''tearenv-'' @ IdentitySlugTemplate @ ''-'' @ BlueprintNameTemplate,
         nt_Labels = [(''app.kubernetes.io/managed-by'', ''tearenv''),
           (''tearenv.io/identity'', IdentitySlugTemplate), (''tearenv.io/blueprint'', BlueprintNameTemplate)]\<rparr>,
       bsp_Resources = [defaultDeployment, defaultService],
       bsp_Services = [\<lparr>bs_Name = ''web'', bs_LocalPort = 8080, bs_Target = \<lparr>tg_Service = ''workspace'', tg_Port = 80\<rparr>,
         bs_Scale = \<lparr>pol_TargetRef = \<lparr>ref_APIVersion = ''apps/v1'', ref_Kind = ''Deployment'', ref_Name = ''workspace''\<rparr>,
           pol_Replicas = 1, pol_ReadyTimeout = ''2m'', pol_IdleTimeout = ''10m''\<rparr>\<rparr>]\<rparr>\<rparr>"

section \<open>Names\<close>

definition hashDNSLabel :: "k8s_lib \<Rightarrow> string \<Rightarrow> string \<Rightarrow> string" where
  "hashDNSLabel K v hashSource =
     (let hash = hashPrefix 8 hashSource;
          prefixLength = DNS1123LabelMaxLength K - length hash - 1;
          v1 = (if length v > prefixLength then take prefixLength v else v)
      in trim v1 ''-'' @ ''-'' @ hash)"

definition shortenDNSLabel :: "k8s_lib \<Rightarrow> string \<Rightarrow> string \<Rightarrow> string" where
  "shortenDNSLabel K v hashSource =
     (if length v \<le> DNS1123LabelMaxLength K then v else hashDNSLabel K v hashSource)"

definition shortenLabelValue :: "k8s_lib \<Rightarrow> string \<Rightarrow> string" where
  "shortenLabelValue K v =
     (let hash = hashPrefix 8 v; prefixLength = LabelValueMaxLength K - length hash - 1
      in trim (take prefixLength v) ''-_.'' @ ''-'' @ hash)"

datatype bp_err =
    BpAPIVersion | BpKind | BpName "string list" | SlugTemplateCount | NameTemplateCount | BpNamespace "string list"
  | LabelKey string "string list" | LabelValue string "string list" | NoResources | ResourceFields nat
  | ResourceNamespaceSet nat | ResourceNameInvalid nat "string list" | DuplicateResource nat | NoServices
  | BpServiceName nat string | DuplicateService nat | BpTargetPort nat | BpLocalPort nat | NoTargetService nat
  | PortNotExposed nat | ScaleTargetKind nat | ScaleTargetMissing nat | ScaleTargetReplicas nat | ScaleReplicas nat
  | ScaleReadyTimeout nat | ScaleIdleTimeout nat | BpIdentity string | RenderedNamespace "string list"
  | RenderedLabel string "string list" | NilMetadata nat | BpYamlParse | BpYamlEncode

text \<open>The loop of \<open>slugIdentity\<close>; \<open>acc\<close> is the builder.\<close>

fun slugLoop :: "bool \<Rightarrow> string \<Rightarrow> string \<Rightarrow> string" where
  "slugLoop previousHyphen acc [] = acc"
| "slugLoop previousHyphen acc (c # s) =
     (if dns_char c then slugLoop False (acc @ [c]) s
      else if \<not> previousHyphen \<and> acc \<noteq> [] then slugLoop True (acc @ ''-'') s
      else slugLoop previousHyphen acc s)"

definition slugIdentity :: "k8s_lib \<Rightarrow> (string \<Rightarrow> string) \<Rightarrow> string \<Rightarrow> bp_err + string" where
  "slugIdentity K ul identity =
     (if \<not> validIdentity identity then Inl (BpIdentity identity)
      else
        (let v = trim (slugLoop False [] (toLower ul identity)) ''-''
         in Inr (if v \<noteq> identity \<or> length v > DNS1123LabelMaxLength K then hashDNSLabel K v identity else v)))"

definition replaceTemplateValues :: "string \<Rightarrow> (string \<times> string) list \<Rightarrow> string" where
  "replaceTemplateValues v replacements = foldl (\<lambda>v (placeholder, replacement). replaceAll v placeholder replacement) v replacements"

definition renderTemplateValue :: "string \<Rightarrow> string" where
  "renderTemplateValue v = replaceAll (replaceAll v IdentitySlugTemplate ''identity'') BlueprintNameTemplate ''blueprint''"

section \<open>Validation\<close>

definition validateNamespace :: "k8s_lib \<Rightarrow> NamespaceTemplate \<Rightarrow> bp_err option" where
  "validateNamespace K ns =
     (if countOf (nt_NameTemplate ns) IdentitySlugTemplate \<noteq> 1 then Some SlugTemplateCount
      else if countOf (nt_NameTemplate ns) BlueprintNameTemplate \<noteq> 1 then Some NameTemplateCount
      else let problems = IsDNS1123Label K (renderTemplateValue (nt_NameTemplate ns)) in
      if problems \<noteq> [] then Some (BpNamespace problems)
      else rcheck (\<lambda>(key, v).
        if IsQualifiedName K key \<noteq> [] then Some (LabelKey key (IsQualifiedName K key))
        else if IsValidLabelValue K (renderTemplateValue v) \<noteq> []
          then Some (LabelValue key (IsValidLabelValue K (renderTemplateValue v)))
        else None) (nt_Labels ns))"

text \<open>Type assertions: a value of another type, or no value, gives the zero value.\<close>

fun asString :: "goval option \<Rightarrow> string" where
  "asString (Some (VStr s)) = s"
| "asString _ = []"

fun asMap :: "goval option \<Rightarrow> goval gomap" where
  "asMap (Some (VMap m)) = m"
| "asMap _ = []"

fun asList :: "goval option \<Rightarrow> goval list" where
  "asList (Some (VList vs)) = vs"
| "asList _ = []"

definition int64_range :: "int \<Rightarrow> bool" where
  "int64_range n \<longleftrightarrow> - (2 ^ 63) \<le> n \<and> n < 2 ^ 63"

text \<open>A \<open>float64\<close> counts as a number when converting it to \<open>int64\<close> and back loses nothing.\<close>

fun number :: "goval option \<Rightarrow> int option" where
  "number (Some (VInt n)) = Some n"
| "number (Some (VFloat r)) = (if r = of_int \<lfloor>r\<rfloor> \<and> int64_range \<lfloor>r\<rfloor> then Some \<lfloor>r\<rfloor> else None)"
| "number _ = None"

definition nestedNumber :: "Resource \<Rightarrow> string \<Rightarrow> string \<Rightarrow> int option" where
  "nestedNumber r objectKey valueKey = number (map_of (asMap (map_of r objectKey)) valueKey)"

definition resourceExposesPort :: "Resource \<Rightarrow> int \<Rightarrow> bool" where
  "resourceExposesPort r expected =
     list_ex (\<lambda>item. number (map_of (asMap (Some item)) ''port'') = Some expected)
       (asList (map_of (asMap (map_of r ''spec'')) ''ports''))"

definition resourceKey :: "string \<Rightarrow> string \<Rightarrow> string \<Rightarrow> string" where
  "resourceKey apiVersion kind name = apiVersion @ CHR 0x00 # kind @ CHR 0x00 # name"

definition resourceIdentity :: "k8s_lib \<Rightarrow> nat \<Rightarrow> Resource \<Rightarrow> bp_err + (string \<times> string \<times> string)" where
  "resourceIdentity K i r =
     (let apiVersion = asString (map_of r ''apiVersion'');
          kind = asString (map_of r ''kind'');
          metadata = asMap (map_of r ''metadata'');
          name = asString (map_of metadata ''name'')
      in if apiVersion = [] \<or> kind = [] \<or> name = [] then Inl (ResourceFields i)
         else if asString (map_of metadata ''namespace'') \<noteq> [] then Inl (ResourceNamespaceSet i)
         else if IsDNS1123Subdomain K name \<noteq> [] then Inl (ResourceNameInvalid i (IsDNS1123Subdomain K name))
         else Inr (apiVersion, kind, name))"

type_synonym resourceCatalog = "Resource gomap"

fun validateResourcesFrom :: "k8s_lib \<Rightarrow> nat \<Rightarrow> resourceCatalog \<Rightarrow> Resource list \<Rightarrow> bp_err + resourceCatalog" where
  "validateResourcesFrom K i catalog [] = Inr catalog"
| "validateResourcesFrom K i catalog (r # rs) =
     (case resourceIdentity K i r of
        Inl e \<Rightarrow> Inl e
      | Inr (apiVersion, kind, name) \<Rightarrow>
          let identity = resourceKey apiVersion kind name in
          if map_of catalog identity \<noteq> None then Inl (DuplicateResource i)
          else validateResourcesFrom K (Suc i) (AList.update identity r catalog) rs)"

definition validateResources :: "k8s_lib \<Rightarrow> Resource list \<Rightarrow> bp_err + resourceCatalog" where
  "validateResources K rs = (if rs = [] then Inl NoResources else validateResourcesFrom K 0 [] rs)"

definition validateScale :: "nat \<Rightarrow> ScalePolicy \<Rightarrow> resourceCatalog \<Rightarrow> bp_err option" where
  "validateScale i scale resources =
     (let ref = pol_TargetRef scale in
      if ref_APIVersion ref \<noteq> ''apps/v1'' \<or> (ref_Kind ref \<noteq> ''Deployment'' \<and> ref_Kind ref \<noteq> ''StatefulSet'')
      then Some (ScaleTargetKind i)
      else (case map_of resources (resourceKey (ref_APIVersion ref) (ref_Kind ref) (ref_Name ref)) of
          None \<Rightarrow> Some (ScaleTargetMissing i)
        | Some workload \<Rightarrow>
            if nestedNumber workload ''spec'' ''replicas'' \<noteq> Some 0 then Some (ScaleTargetReplicas i)
            else if pol_Replicas scale < 1 then Some (ScaleReplicas i)
            else if (case parseDurationText (pol_ReadyTimeout scale) of None \<Rightarrow> True | Some d \<Rightarrow> d \<le> 0)
              then Some (ScaleReadyTimeout i)
            else if (case parseDurationText (pol_IdleTimeout scale) of None \<Rightarrow> True | Some d \<Rightarrow> d < 0)
              then Some (ScaleIdleTimeout i)
            else None))"

fun validateServicesFrom :: "nat \<Rightarrow> string list \<Rightarrow> BlueprintService list \<Rightarrow> resourceCatalog \<Rightarrow> bp_err option" where
  "validateServicesFrom i names [] resources = None"
| "validateServicesFrom i names (s # ss) resources =
     (if \<not> validServiceName (bs_Name s) then Some (BpServiceName i (bs_Name s))
      else if bs_Name s \<in> set names then Some (DuplicateService i)
      else if tg_Port (bs_Target s) = 0 \<or> tg_Port (bs_Target s) > 65535 then Some (BpTargetPort i)
      else if bs_LocalPort s > 65535 then Some (BpLocalPort i)
      else (case map_of resources (resourceKey ''v1'' ''Service'' (tg_Service (bs_Target s))) of
          None \<Rightarrow> Some (NoTargetService i)
        | Some r \<Rightarrow>
            if \<not> resourceExposesPort r (tg_Port (bs_Target s)) then Some (PortNotExposed i)
            else (case validateScale i (bs_Scale s) resources of
                Some e \<Rightarrow> Some e
              | None \<Rightarrow> validateServicesFrom (Suc i) (bs_Name s # names) ss resources)))"

definition validateServices :: "BlueprintService list \<Rightarrow> resourceCatalog \<Rightarrow> bp_err option" where
  "validateServices ss resources = (if ss = [] then Some NoServices else validateServicesFrom 0 [] ss resources)"

definition blueprintValidate :: "k8s_lib \<Rightarrow> Blueprint \<Rightarrow> bp_err option" where
  "blueprintValidate K d =
     (if bp_APIVersion d \<noteq> blueprintAPIVersion then Some BpAPIVersion
      else if bp_Kind d \<noteq> blueprintKind then Some BpKind
      else if IsDNS1123Label K (md_Name (bp_Metadata d)) \<noteq> [] then Some (BpName (IsDNS1123Label K (md_Name (bp_Metadata d))))
      else (case validateNamespace K (bsp_Namespace (bp_Spec d)) of
          Some e \<Rightarrow> Some e
        | None \<Rightarrow>
            (case validateResources K (bsp_Resources (bp_Spec d)) of
               Inl e \<Rightarrow> Some e
             | Inr resources \<Rightarrow> validateServices (bsp_Services (bp_Spec d)) resources)))"

section \<open>Instantiation\<close>

text \<open>
  \<open>cloneResource\<close> goes through JSON: integers come back as \<open>float64\<close>, strings and keys as valid
  UTF-8.  None of these values fails to encode.
\<close>

definition mergeKeys :: "'v gomap \<Rightarrow> 'v gomap" where
  "mergeKeys m = fold (\<lambda>(k, v). AList.update (coerceUTF8 k) v) (sort_key fst m) []"

primrec cloneValue :: "goval \<Rightarrow> goval" where
  "cloneValue VNil = VNil"
| "cloneValue (VBool b) = VBool b"
| "cloneValue (VInt n) = VFloat (fl53 (of_int n))"
| "cloneValue (VFloat r) = VFloat r"
| "cloneValue (VStr s) = VStr (coerceUTF8 s)"
| "cloneValue (VList vs) = VList (map cloneValue vs)"
| "cloneValue (VMap m) = VMap (mergeKeys (map (map_prod id cloneValue) m))"

definition cloneResource :: "Resource \<Rightarrow> Resource" where
  "cloneResource r = asMap (Some (cloneValue (VMap r)))"

text \<open>Writing to the metadata map of the copy; a nil map makes the program panic.\<close>

definition injectNamespace :: "nat \<Rightarrow> string \<Rightarrow> Resource \<Rightarrow> bp_err + Resource" where
  "injectNamespace i namespace r =
     (case map_of r ''metadata'' of
        Some (VMap m) \<Rightarrow> Inr (AList.update ''metadata'' (VMap (AList.update ''namespace'' (VStr namespace) m)) r)
      | _ \<Rightarrow> Inl (NilMetadata i))"

definition replacements :: "bool \<Rightarrow> string \<Rightarrow> string \<Rightarrow> (string \<times> string) list" where
  "replacements swapped identitySlug name =
     (if swapped then [(BlueprintNameTemplate, name), (IdentitySlugTemplate, identitySlug)]
      else [(IdentitySlugTemplate, identitySlug), (BlueprintNameTemplate, name)])"

definition renderNamespace :: "k8s_lib \<Rightarrow> (string \<Rightarrow> bool) \<Rightarrow> Blueprint \<Rightarrow> string \<Rightarrow> string" where
  "renderNamespace K swap d identitySlug =
     (let t = nt_NameTemplate (bsp_Namespace (bp_Spec d));
          ns = replaceTemplateValues t (replacements (swap t) identitySlug (md_Name (bp_Metadata d)))
      in shortenDNSLabel K ns ns)"

definition renderLabel :: "k8s_lib \<Rightarrow> (string \<Rightarrow> bool) \<Rightarrow> string \<Rightarrow> string \<Rightarrow> string \<Rightarrow> string \<Rightarrow> bp_err + string" where
  "renderLabel K swap identitySlug name key v =
     (let rendered0 = replaceTemplateValues v (replacements (swap v) identitySlug name);
          rendered = (if length rendered0 > LabelValueMaxLength K then shortenLabelValue K rendered0 else rendered0)
      in if IsValidLabelValue K rendered \<noteq> [] then Inl (RenderedLabel key (IsValidLabelValue K rendered)) else Inr rendered)"

definition Instantiate :: "k8s_lib \<Rightarrow> (string \<Rightarrow> string) \<Rightarrow> (string \<Rightarrow> bool) \<Rightarrow> Blueprint \<Rightarrow> string \<Rightarrow> bp_err + Instance" where
  "Instantiate K ul swap d identity =
     (case blueprintValidate K d of
        Some e \<Rightarrow> Inl e
      | None \<Rightarrow>
          (case slugIdentity K ul identity of
             Inl e \<Rightarrow> Inl e
           | Inr identitySlug \<Rightarrow>
               let name = md_Name (bp_Metadata d);
                   namespace = renderNamespace K swap d identitySlug
               in if IsDNS1123Label K namespace \<noteq> [] then Inl (RenderedNamespace (IsDNS1123Label K namespace))
                  else (case rbuild (renderLabel K swap identitySlug name) (nt_Labels (bsp_Namespace (bp_Spec d))) [] of
                      Inl e \<Rightarrow> Inl e
                    | Inr labels0 \<Rightarrow>
                        let labels = AList.update ''tearenv.io/blueprint'' name
                              (AList.update ''tearenv.io/identity'' identitySlug
                                (AList.update ''app.kubernetes.io/managed-by'' ''tearenv'' labels0))
                        in (case rmap (\<lambda>(i, r). injectNamespace i namespace (cloneResource r))
                                  (enumerate 0 (bsp_Resources (bp_Spec d))) of
                              Inl e \<Rightarrow> Inl e
                            | Inr resources \<Rightarrow>
                                Inr \<lparr>in_Identity = identity, in_IdentitySlug = identitySlug, in_BlueprintName = name,
                                  in_Namespace = namespace, in_Labels = labels, in_Resources = resources,
                                  in_Services = bsp_Services (bp_Spec d)\<rparr>))))"

section \<open>The document\<close>

definition blueprintMarshal :: "k8s_lib \<Rightarrow> Blueprint yaml_lib \<Rightarrow> Blueprint \<Rightarrow> bp_err + string" where
  "blueprintMarshal K Y d =
     (case blueprintValidate K d of
        Some e \<Rightarrow> Inl e
      | None \<Rightarrow> (case yamlMarshal Y d of None \<Rightarrow> Inl BpYamlEncode | Some s \<Rightarrow> Inr s))"

definition blueprintLoad :: "k8s_lib \<Rightarrow> Blueprint yaml_lib \<Rightarrow> string \<Rightarrow> bp_err + Blueprint" where
  "blueprintLoad K Y contents =
     (case yamlUnmarshalStrict Y contents of
        None \<Rightarrow> Inl BpYamlParse
      | Some d \<Rightarrow> (case blueprintValidate K d of Some e \<Rightarrow> Inl e | None \<Rightarrow> Inr d))"

interpretation blueprint_codec: validated_codec blueprintMarshal blueprintLoad "\<lambda>K d. blueprintValidate K d = None"
  by unfold_locales (auto simp: blueprintMarshal_def blueprintLoad_def split: option.splits)

end
