(* ===== verification/Blueprint_Rendering.thy ===== *)
theory Blueprint_Rendering
  imports Blueprint
begin

text \<open>
  Rendering of blueprint templates.  A template is read as a list of tokens, plain characters and
  the two placeholders; substitution by \<open>strings.ReplaceAll\<close> is shown to be substitution of tokens
  for every template that validation accepts, in whichever order the placeholders are replaced.
\<close>

datatype tok = Lit char | Slug | Name

fun untok :: "string \<Rightarrow> string \<Rightarrow> tok list \<Rightarrow> string" where
  "untok a b [] = []"
| "untok a b (Lit c # ts) = c # untok a b ts"
| "untok a b (Slug # ts) = a @ untok a b ts"
| "untok a b (Name # ts) = b @ untok a b ts"

abbreviation "plain \<equiv> untok IdentitySlugTemplate BlueprintNameTemplate"

function tokens :: "string \<Rightarrow> tok list" where
  "tokens t =
     (if t = [] then []
      else if prefix IdentitySlugTemplate t then Slug # tokens (drop (length IdentitySlugTemplate) t)
      else if prefix BlueprintNameTemplate t then Name # tokens (drop (length BlueprintNameTemplate) t)
      else Lit (hd t) # tokens (tl t))"
  by pat_completeness auto
termination
  by (relation "measure length") (auto simp: IdentitySlugTemplate_def BlueprintNameTemplate_def)

declare tokens.simps [simp del]

lemmas template_defs = IdentitySlugTemplate_def BlueprintNameTemplate_def

fun canon :: "tok list \<Rightarrow> bool" where
  "canon [] = True"
| "canon (Lit c # ts) \<longleftrightarrow> \<not> prefix IdentitySlugTemplate (c # plain ts) \<and> \<not> prefix BlueprintNameTemplate (c # plain ts) \<and> canon ts"
| "canon (_ # ts) = canon ts"

lemma tokens_plain: "plain (tokens t) = t"
proof (induction t rule: tokens.induct)
  case (1 t)
  then show ?case by (subst tokens.simps) (auto simp: prefix_def)
qed

lemma tokens_canon: "canon (tokens t)"
proof (induction t rule: tokens.induct)
  case (1 t)
  have e: "hd t # plain (tokens (tl t)) = t" if "t \<noteq> []" using that by (simp add: tokens_plain)
  from 1 e show ?case by (subst tokens.simps) auto
qed

lemma replaceAll_here: "old \<noteq> [] \<Longrightarrow> replaceAll (old @ r) old new = new @ replaceAll r old new"
  by (subst replaceAll.simps) simp

lemma replaceAll_step: "\<not> prefix old (c # s) \<Longrightarrow> old \<noteq> [] \<Longrightarrow> replaceAll (c # s) old new = c # replaceAll s old new"
  by (subst replaceAll.simps) simp

lemma replaceAll_Nil [simp]: "replaceAll [] old new = []"
  by (subst replaceAll.simps) simp

lemma countOf_here: "sub \<noteq> [] \<Longrightarrow> countOf (sub @ r) sub = Suc (countOf r sub)"
  by (subst countOf.simps) simp

lemma countOf_step: "\<not> prefix sub (c # s) \<Longrightarrow> sub \<noteq> [] \<Longrightarrow> countOf (c # s) sub = countOf s sub"
  by (subst countOf.simps) simp

lemma countOf_Nil [simp]: "countOf [] sub = 0"
  by (subst countOf.simps) simp

text \<open>Text in which no occurrence can start is skipped.\<close>

lemma replaceAll_skip:
  "(\<And>i. i < length x \<Longrightarrow> \<not> prefix old (drop i x @ r)) \<Longrightarrow> old \<noteq> [] \<Longrightarrow> replaceAll (x @ r) old new = x @ replaceAll r old new"
proof (induction x)
  case (Cons c x)
  have "\<not> prefix old (c # x @ r)" using Cons.prems(1) [of 0] by simp
  moreover have "replaceAll (x @ r) old new = x @ replaceAll r old new"
    by (rule Cons.IH) (use Cons.prems(1) [of "Suc _"] Cons.prems(2) in auto)
  ultimately show ?case using Cons.prems(2) by (simp add: replaceAll_step)
qed simp

lemma countOf_skip:
  "(\<And>i. i < length x \<Longrightarrow> \<not> prefix sub (drop i x @ r)) \<Longrightarrow> sub \<noteq> [] \<Longrightarrow> countOf (x @ r) sub = countOf r sub"
proof (induction x)
  case (Cons c x)
  have "\<not> prefix sub (c # x @ r)" using Cons.prems(1) [of 0] by simp
  moreover have "countOf (x @ r) sub = countOf r sub"
    by (rule Cons.IH) (use Cons.prems(1) [of "Suc _"] Cons.prems(2) in auto)
  ultimately show ?case using Cons.prems(2) by (simp add: countOf_step)
qed simp

lemma less_upt_cases: "i < n \<Longrightarrow> list_all P [0..<n] \<Longrightarrow> P i"
  by (simp add: list_all_iff)

lemma no_slug_in_name: "i < length BlueprintNameTemplate \<Longrightarrow> \<not> prefix IdentitySlugTemplate (drop i BlueprintNameTemplate @ r)"
  by (rule less_upt_cases, assumption) (simp add: template_defs upt_rec)

lemma no_name_in_slug: "i < length IdentitySlugTemplate \<Longrightarrow> \<not> prefix BlueprintNameTemplate (drop i IdentitySlugTemplate @ r)"
  by (rule less_upt_cases, assumption) (simp add: template_defs upt_rec)

lemma template_nonempty [simp]: "IdentitySlugTemplate \<noteq> []" "BlueprintNameTemplate \<noteq> []"
  by (simp_all add: template_defs)

lemma replace_slug: "canon ts \<Longrightarrow> replaceAll (plain ts) IdentitySlugTemplate a = untok a BlueprintNameTemplate ts"
  by (induction ts rule: canon.induct)
    (auto simp: replaceAll_step replaceAll_here replaceAll_skip [OF no_slug_in_name] elim: canon.elims)

lemma replace_name: "canon ts \<Longrightarrow> replaceAll (plain ts) BlueprintNameTemplate b = untok IdentitySlugTemplate b ts"
  by (induction ts rule: canon.induct)
    (auto simp: replaceAll_step replaceAll_here replaceAll_skip [OF no_name_in_slug])

lemma count_slug: "canon ts \<Longrightarrow> countOf (plain ts) IdentitySlugTemplate = length (filter (\<lambda>t. t = Slug) ts)"
  by (induction ts rule: canon.induct)
    (auto simp: countOf_step countOf_here countOf_skip [OF no_slug_in_name])


section \<open>Second substitution\<close>

text \<open>No plain character of the template is an opening brace.\<close>

fun braceFree :: "tok list \<Rightarrow> bool" where
  "braceFree [] = True"
| "braceFree (Lit c # ts) \<longleftrightarrow> c \<noteq> CHR ''{'' \<and> braceFree ts"
| "braceFree (_ # ts) = braceFree ts"

lemma brace_hd: "prefix IdentitySlugTemplate s \<Longrightarrow> s \<noteq> [] \<and> hd s = CHR ''{''"
  "prefix BlueprintNameTemplate s \<Longrightarrow> s \<noteq> [] \<and> hd s = CHR ''{''"
  by (auto simp: template_defs prefix_def)

lemma braceless_skip:
  assumes "CHR ''{'' \<notin> set x" "i < length x"
  shows "\<not> prefix IdentitySlugTemplate (drop i x @ r)" "\<not> prefix BlueprintNameTemplate (drop i x @ r)"
proof -
  have "drop i x @ r \<noteq> []" "hd (drop i x @ r) = x ! i" using assms(2) by (simp_all add: hd_drop_conv_nth hd_append)
  moreover have "x ! i \<noteq> CHR ''{''" using assms nth_mem by metis
  ultimately show "\<not> prefix IdentitySlugTemplate (drop i x @ r)" "\<not> prefix BlueprintNameTemplate (drop i x @ r)"
    using brace_hd by metis+
qed

lemma braceless_lit: "c \<noteq> CHR ''{'' \<Longrightarrow> \<not> prefix IdentitySlugTemplate (c # s)" "c \<noteq> CHR ''{'' \<Longrightarrow> \<not> prefix BlueprintNameTemplate (c # s)"
  by (auto simp: template_defs)

lemma replace_name_after:
  "braceFree ts \<Longrightarrow> CHR ''{'' \<notin> set a \<Longrightarrow> replaceAll (untok a BlueprintNameTemplate ts) BlueprintNameTemplate b = untok a b ts"
  by (induction ts rule: braceFree.induct)
    (auto simp: replaceAll_step braceless_lit replaceAll_here replaceAll_skip [OF braceless_skip(2)])

lemma replace_slug_after:
  "braceFree ts \<Longrightarrow> CHR ''{'' \<notin> set b \<Longrightarrow> replaceAll (untok IdentitySlugTemplate b ts) IdentitySlugTemplate a = untok a b ts"
  by (induction ts rule: braceFree.induct)
    (auto simp: replaceAll_step braceless_lit replaceAll_here replaceAll_skip [OF braceless_skip(1)])

section \<open>What validation renders\<close>

lemma name_suffix_not_identity: "suffix q BlueprintNameTemplate \<Longrightarrow> q \<noteq> [] \<Longrightarrow> \<not> prefix q (''identity'' @ r)"
proof -
  assume q: "suffix q BlueprintNameTemplate" "q \<noteq> []"
  then obtain zs where zs: "BlueprintNameTemplate = zs @ q" by (auto simp: suffix_def)
  then have i: "q = drop (length zs) BlueprintNameTemplate" "length zs < length BlueprintNameTemplate"
    using q(2) by (simp_all add: zs)
  have "list_all (\<lambda>i. \<not> prefix (drop i BlueprintNameTemplate) (''identity'' @ r)) [0..<length BlueprintNameTemplate]"
    by (simp add: template_defs upt_rec)
  with i show ?thesis by (simp add: list_all_iff)
qed

lemma suffix_prefix_plain:
  "suffix q BlueprintNameTemplate \<Longrightarrow> prefix q (untok ''identity'' BlueprintNameTemplate ts) \<Longrightarrow> prefix q (plain ts)"
proof (induction ts arbitrary: q rule: canon.induct [case_names Nil Lit Slug Name])
  case (Lit c ts)
  show ?case
  proof (cases q)
    case (Cons d q')
    with Lit show ?thesis by (auto dest: suffix_ConsD)
  qed simp
next
  case (Slug ts)
  then show ?case using name_suffix_not_identity [of q] by (cases "q = []") auto
next
  case (Name ts)
  have "length q \<le> length BlueprintNameTemplate" using Name.prems(1) by (rule suffix_length_le)
  then have "prefix q BlueprintNameTemplate" using Name.prems(2) by (auto simp: prefix_def append_eq_append_conv2)
  then show ?case by (simp add: prefix_order.order_trans)
qed auto

lemma prefix_Cons_split: "prefix xs (c # u) \<Longrightarrow> xs \<noteq> [] \<Longrightarrow> \<exists>q. xs = c # q \<and> prefix q u"
  by (cases xs) auto

lemma replace_name_identity:
  "canon ts \<Longrightarrow> replaceAll (untok ''identity'' BlueprintNameTemplate ts) BlueprintNameTemplate b = untok ''identity'' b ts"
proof (induction ts rule: canon.induct)
  case (2 c ts)
  have "\<not> prefix BlueprintNameTemplate (c # untok ''identity'' BlueprintNameTemplate ts)"
  proof
    assume p: "prefix BlueprintNameTemplate (c # untok ''identity'' BlueprintNameTemplate ts)"
    then obtain q where q: "BlueprintNameTemplate = c # q" "prefix q (untok ''identity'' BlueprintNameTemplate ts)"
      using prefix_Cons_split [OF p] by auto
    have "suffix q BlueprintNameTemplate" unfolding q(1) by (simp add: suffix_ConsI)
    then have "prefix q (plain ts)" using q(2) by (rule suffix_prefix_plain)
    then have "prefix BlueprintNameTemplate (c # plain ts)" by (subst q(1)) simp
    with 2(2) show False by simp
  qed
  with 2 show ?case by (simp add: replaceAll_step)
qed (auto simp: replaceAll_here replaceAll_step braceless_lit)

lemma renderTemplateValue_untok: "renderTemplateValue t = untok ''identity'' ''blueprint'' (tokens t)"
  using replace_slug [OF tokens_canon, of t "''identity''"] replace_name_identity [OF tokens_canon, of t]
  by (simp add: renderTemplateValue_def tokens_plain)

lemma rendered_braceFree: "CHR ''{'' \<notin> set (untok a b ts) \<Longrightarrow> braceFree ts"
  by (induction ts rule: braceFree.induct) auto

text \<open>Either order of substitution gives the token-wise rendering.\<close>

lemma replaceTemplateValues_untok:
  assumes "CHR ''{'' \<notin> set (renderTemplateValue t)" "CHR ''{'' \<notin> set slug" "CHR ''{'' \<notin> set name"
  shows "replaceTemplateValues t (replacements swapped slug name) = untok slug name (tokens t)"
proof -
  have b: "braceFree (tokens t)" using assms(1) rendered_braceFree by (simp add: renderTemplateValue_untok)
  show ?thesis
    using replace_slug [OF tokens_canon, of t slug] replace_name [OF tokens_canon, of t name]
      replace_name_after [OF b assms(2), of name] replace_slug_after [OF b assms(3), of slug]
    by (auto simp: replaceTemplateValues_def replacements_def tokens_plain)
qed

section \<open>Shape of renderings\<close>

lemma untok_chars: "list_all C (untok a b ts) \<Longrightarrow> list_all C a' \<Longrightarrow> list_all C b' \<Longrightarrow> list_all C (untok a' b' ts)"
  by (induction ts rule: braceFree.induct) auto

lemma untok_Nil_iff: "a \<noteq> [] \<Longrightarrow> b \<noteq> [] \<Longrightarrow> untok a b ts = [] \<longleftrightarrow> ts = []"
  by (cases ts rule: braceFree.cases) auto

lemma untok_hd:
  "a \<noteq> [] \<Longrightarrow> b \<noteq> [] \<Longrightarrow> ts \<noteq> [] \<Longrightarrow> hd (untok a b ts) = (case hd ts of Lit c \<Rightarrow> c | Slug \<Rightarrow> hd a | Name \<Rightarrow> hd b)"
  by (cases ts rule: braceFree.cases) auto

lemma untok_last:
  "a \<noteq> [] \<Longrightarrow> b \<noteq> [] \<Longrightarrow> ts \<noteq> [] \<Longrightarrow> last (untok a b ts) = (case last ts of Lit c \<Rightarrow> c | Slug \<Rightarrow> last a | Name \<Rightarrow> last b)"
proof (induction ts)
  case (Cons t ts)
  then show ?case by (cases "ts = []"; cases t) (auto simp: untok_Nil_iff last_append)
qed simp

lemma untok_ends:
  assumes "D (hd (untok a b ts))" "D (last (untok a b ts))" "a \<noteq> []" "b \<noteq> []" "ts \<noteq> []"
    and "a' \<noteq> []" "D (hd a')" "D (last a')" "b' \<noteq> []" "D (hd b')" "D (last b')"
  shows "D (hd (untok a' b' ts)) \<and> D (last (untok a' b' ts))"
  using assms by (auto simp: untok_hd untok_last split: tok.splits)

lemma untok_slug_inject:
  assumes "length (filter (\<lambda>t. t = Slug) ts) = 1" "untok a b ts = untok a' b ts"
  shows "a = a'"
proof -
  have none: "untok x b us = untok y b us" if "filter (\<lambda>t. t = Slug) us = []" for us x y
    using that by (induction us rule: braceFree.induct) auto
  have app: "untok x b (us @ vs) = untok x b us @ untok x b vs" for x us vs
    by (induction us rule: braceFree.induct) auto
  have "Slug \<in> set ts"
  proof (rule ccontr)
    assume "Slug \<notin> set ts"
    then have "filter (\<lambda>t. t = Slug) ts = []" by (simp add: filter_empty_conv) blast
    with assms(1) show False by simp
  qed
  then obtain us vs where ts: "ts = us @ Slug # vs" by (auto simp: in_set_conv_decomp)
  with assms(1) have "filter (\<lambda>t. t = Slug) us = []" "filter (\<lambda>t. t = Slug) vs = []" by auto
  with assms(2) ts none [of us a a'] none [of vs a a'] show ?thesis by (simp add: app)
qed

end
