(* ===== verification/Blueprint_Properties.thy ===== *)
theory Blueprint_Properties
  imports Blueprint_Rendering
begin

text \<open>
  Properties of blueprints: derived names are valid, a valid blueprint can be instantiated for
  every valid identity, independently of map order, and its resources are confined to the
  identity's namespace.
\<close>

section \<open>Identity slugs\<close>

definition lc :: "char \<Rightarrow> bool" where
  "lc c \<longleftrightarrow> dns_char c \<or> c = CHR ''-''"

lemma slugLoop_keeps:
  "acc \<noteq> [] \<Longrightarrow> slugLoop p acc s \<noteq> [] \<and> hd (slugLoop p acc s) = hd acc"
  by (induction p acc s rule: slugLoop.induct) auto

lemma slugLoop_chars: "list_all lc acc \<Longrightarrow> list_all lc (slugLoop p acc s)"
  by (induction p acc s rule: slugLoop.induct) (auto simp: lc_def)

lemma dnsLabelChars_iff: "dnsLabelChars s \<longleftrightarrow> s \<noteq> [] \<and> dns_char (hd s) \<and> dns_char (last s) \<and> list_all lc s"
  by (simp add: dnsLabelChars_def lc_def [abs_def])

lemma trim_label:
  assumes "v \<noteq> []" "dns_char (hd v)" "list_all lc v"
  shows "dnsLabelChars (trim v ''-'')"
proof -
  have h: "hd v \<notin> set ''-''" using assms(2) by (auto simp: dns_char_def char_class_defs)
  have t: "trim v ''-'' \<noteq> []" "hd (trim v ''-'') = hd v" using trim_nonempty [OF assms(1) h] by auto
  have a: "list_all lc (trim v ''-'')" by (rule list_all_subset [OF assms(3) set_trim])
  have "last (trim v ''-'') \<in> set (trim v ''-'')" using t(1) by simp
  then have "dns_char (last (trim v ''-''))" using a trim_last [OF t(1)] by (auto simp: list_all_iff lc_def)
  with t a assms(2) show ?thesis by (simp add: dnsLabelChars_iff)
qed

lemma hashDNSLabel_label:
  assumes "documented_k8s K" "v \<noteq> []" "dns_char (hd v)" "list_all lc v"
  shows "dns1123Label (hashDNSLabel K v h)"
proof -
  have K: "DNS1123LabelMaxLength K = 63" using assms(1) by (simp add: documented_k8s_def)
  have d: "length (hashPrefix 8 h) = 8" "list_all dns_char (hashPrefix 8 h)" using hashPrefix_shape [of 8 h] by auto
  let ?v = "if length v > 54 then take 54 v else v"
  have v: "?v \<noteq> []" "dns_char (hd ?v)" "list_all lc ?v" "length ?v \<le> 54"
    using assms(2-4) by (auto simp: list_all_iff hd_take dest: in_set_takeD)
  have t: "dnsLabelChars (trim ?v ''-'')" by (rule trim_label [OF v(1-3)])
  have l: "length (trim ?v ''-'') \<le> 54" using length_trim [of ?v "''-''"] v(4) by linarith
  have "last (hashPrefix 8 h) \<in> set (hashPrefix 8 h)" using d(1) by (cases "hashPrefix 8 h") auto
  then have "dns_char (last (hashPrefix 8 h))" using d(2) by (simp add: list_all_iff)
  moreover have "list_all lc (hashPrefix 8 h)" using d(2) by (auto simp: list_all_iff lc_def)
  moreover have "hashPrefix 8 h \<noteq> []" using d(1) by auto
  ultimately have "dnsLabelChars (trim ?v ''-'' @ ''-'' @ hashPrefix 8 h)"
    using t by (simp add: dnsLabelChars_iff lc_def)
  then have "dns1123Label (trim ?v ''-'' @ ''-'' @ hashPrefix 8 h)" using l d(1) by (simp add: dns1123Label_def)
  then show ?thesis using d(1) K by (auto simp: hashDNSLabel_def Let_def split: if_splits)
qed

lemma identity_slug_start:
  assumes "validIdentity i"
  shows "slugLoop False [] (toLower ul i) \<noteq> [] \<and> dns_char (hd (slugLoop False [] (toLower ul i)))"
proof -
  obtain c s where i: "i = c # s" using assms by (cases i) (auto simp: validIdentity_def)
  have "is_alnum c" using assms i by (simp add: validIdentity_def)
  then have d: "dns_char (ascii_lower c)"
    by (cases "is_upper c") (auto simp: is_alnum_def dns_char_def ascii_lower_upper)
  have "is_ascii i" using identity_chars [OF assms] by (auto simp: is_ascii_def list_all_iff identity_char_ascii)
  then have "toLower ul i = ascii_lower c # map ascii_lower s" by (simp add: toLower_def i)
  then show ?thesis using d slugLoop_keeps [of "[ascii_lower c]" False "map ascii_lower s"] by simp
qed

lemma slugIdentity_label:
  assumes "documented_k8s K" "slugIdentity K ul i = Inr s"
  shows "dns1123Label s"
proof -
  let ?w = "slugLoop False [] (toLower ul i)"
  let ?v = "trim ?w ''-''"
  have vi: "validIdentity i" using assms(2) by (auto simp: slugIdentity_def split: if_splits)
  have w: "?w \<noteq> []" "dns_char (hd ?w)" using identity_slug_start [OF vi] by auto
  have "list_all lc ?w" by (rule slugLoop_chars) simp
  then have v: "dnsLabelChars ?v" by (rule trim_label [OF w])
  then have h: "dns1123Label (hashDNSLabel K ?v i)"
    by (intro hashDNSLabel_label [OF assms(1)]) (auto simp: dnsLabelChars_iff)
  have "s = (if ?v \<noteq> i \<or> length ?v > 63 then hashDNSLabel K ?v i else ?v)"
    using assms vi by (simp add: slugIdentity_def Let_def documented_k8s_def)
  then show ?thesis using h v by (auto simp: dns1123Label_def split: if_splits)
qed

section \<open>Rendered names\<close>

lemma label_braceless: "dnsLabelChars s \<Longrightarrow> CHR ''{'' \<notin> set s"
  by (auto simp: dnsLabelChars_iff list_all_iff lc_def dns_char_def char_class_defs)

lemma labelValue_braceless: "labelValue s \<Longrightarrow> CHR ''{'' \<notin> set s"
  by (auto simp: labelValue_def list_all_iff label_char_def char_class_defs)

lemma dns_label_char: "dns_char c \<Longrightarrow> label_char c"
  by (auto simp: dns_char_def label_char_def)

lemma renderNamespace_untok:
  assumes "documented_k8s K" "blueprintValidate K d = None" "dns1123Label slug"
  defines "ts \<equiv> tokens (nt_NameTemplate (bsp_Namespace (bp_Spec d)))"
  defines "ns \<equiv> untok slug (md_Name (bp_Metadata d)) ts"
  shows "renderNamespace K swap d slug = shortenDNSLabel K ns ns" "dnsLabelChars ns"
    "dns1123Label (renderNamespace K swap d slug)" "length (filter (\<lambda>t. t = Slug) ts) = 1"
proof -
  let ?t = "nt_NameTemplate (bsp_Namespace (bp_Spec d))"
  let ?n = "md_Name (bp_Metadata d)"
  have K: "IsDNS1123Label K s = [] \<longleftrightarrow> dns1123Label s" "DNS1123LabelMaxLength K = 63" for s
    using assms(1) by (auto simp: documented_k8s_def)
  have v: "dns1123Label ?n" "countOf ?t IdentitySlugTemplate = 1" "dns1123Label (renderTemplateValue ?t)"
    using assms(2) K by (auto simp: blueprintValidate_def validateNamespace_def Let_def split: if_splits option.splits sum.splits)
  show "length (filter (\<lambda>t. t = Slug) ts) = 1"
    using count_slug [OF tokens_canon, of ?t] v(2) by (simp add: ts_def tokens_plain)
  have r: "dnsLabelChars (untok ''identity'' ''blueprint'' ts)"
    using v(3) by (simp add: renderTemplateValue_untok ts_def dns1123Label_def)
  then have ne: "ts \<noteq> []" by (auto simp: dnsLabelChars_iff)
  have sn: "dnsLabelChars slug" "dnsLabelChars ?n" using assms(3) v(1) by (auto simp: dns1123Label_def)
  have b: "CHR ''{'' \<notin> set (renderTemplateValue ?t)"
    using r label_braceless by (simp add: renderTemplateValue_untok ts_def)
  show e: "renderNamespace K swap d slug = shortenDNSLabel K ns ns"
    by (simp add: renderNamespace_def Let_def ns_def ts_def
        replaceTemplateValues_untok [OF b label_braceless [OF sn(1)] label_braceless [OF sn(2)]])
  have "list_all lc ns" unfolding ns_def
    by (rule untok_chars [of _ "''identity''" "''blueprint''"]) (use r sn in \<open>auto simp: dnsLabelChars_iff\<close>)
  moreover have "dns_char (hd ns) \<and> dns_char (last ns)" unfolding ns_def
    by (rule untok_ends [of dns_char "''identity''" "''blueprint''"]) (use r sn ne in \<open>auto simp: dnsLabelChars_iff\<close>)
  moreover have "ns \<noteq> []" using ne sn by (simp add: ns_def untok_Nil_iff dnsLabelChars_iff)
  ultimately show l: "dnsLabelChars ns" by (simp add: dnsLabelChars_iff)
  then show "dns1123Label (renderNamespace K swap d slug)"
    using hashDNSLabel_label [OF assms(1), of ns] K(2) unfolding e
    by (auto simp: shortenDNSLabel_def dns1123Label_def dnsLabelChars_iff)
qed

lemma shortenLabelValue_valid:
  assumes "documented_k8s K" "v \<noteq> []" "label_char (hd v)" "list_all (\<lambda>c. label_char c \<or> c \<in> set ''-_.'') v"
  shows "labelValue (shortenLabelValue K v)"
proof -
  have K: "LabelValueMaxLength K = 63" using assms(1) by (simp add: documented_k8s_def)
  have d: "length (hashPrefix 8 v) = 8" "list_all dns_char (hashPrefix 8 v)" using hashPrefix_shape [of 8 v] by auto
  let ?p = "take 54 v"
  have p: "?p \<noteq> []" "hd ?p = hd v" using assms(2) by auto
  have "hd ?p \<notin> set ''-_.''" using assms(3) p(2) by (auto simp: label_char_def char_class_defs)
  then have t: "trim ?p ''-_.'' \<noteq> []" "hd (trim ?p ''-_.'') = hd v" using trim_nonempty [OF p(1)] p(2) by auto
  have "set (trim ?p ''-_.'') \<subseteq> set v" using set_trim [of ?p "''-_.''"] set_take_subset [of 54 v] by blast
  then have a: "list_all (\<lambda>c. label_char c \<or> c \<in> set ''-_.'') (trim ?p ''-_.'')"
    using assms(4) by (auto simp: list_all_iff)
  have "length (trim ?p ''-_.'') \<le> 54" using length_trim [of ?p "''-_.''"] by simp
  moreover have ne: "hashPrefix 8 v \<noteq> []" using d(1) by auto
  moreover have "label_char (last (hashPrefix 8 v))"
    using d(2) last_in_set [OF ne] by (simp add: list_all_iff dns_label_char)
  moreover have "list_all (\<lambda>c. label_char c \<or> c \<in> set ''-_.'') (hashPrefix 8 v)"
    using d(2) by (auto simp: list_all_iff intro: dns_label_char)
  ultimately show ?thesis
    using t a assms(3) d(1) K by (simp add: shortenLabelValue_def Let_def labelValue_def)
qed

lemma renderLabel_ok:
  assumes "documented_k8s K" "labelValue (renderTemplateValue v)" "dns1123Label slug" "dns1123Label name"
  shows "\<exists>r. labelValue r \<and> (\<forall>swap key. renderLabel K swap slug name key v = Inr r)"
proof -
  let ?ts = "tokens v"
  let ?C = "\<lambda>c. label_char c \<or> c \<in> set ''-_.''"
  let ?u = "untok slug name ?ts"
  have K: "IsValidLabelValue K s = [] \<longleftrightarrow> labelValue s" "LabelValueMaxLength K = 63" for s
    using assms(1) by (auto simp: documented_k8s_def)
  have sn: "dnsLabelChars slug" "dnsLabelChars name" using assms(3,4) by (auto simp: dns1123Label_def)
  have C: "list_all ?C s" if "dnsLabelChars s" for s
    using that by (auto simp: dnsLabelChars_iff list_all_iff lc_def intro: dns_label_char)
  have r: "labelValue (untok ''identity'' ''blueprint'' ?ts)" using assms(2) by (simp add: renderTemplateValue_untok)
  have u: "replaceTemplateValues v (replacements w slug name) = ?u" for w
    by (rule replaceTemplateValues_untok [OF labelValue_braceless [OF assms(2)] label_braceless [OF sn(1)] label_braceless [OF sn(2)]])
  have a: "list_all ?C ?u"
    by (rule untok_chars [of _ "''identity''" "''blueprint''"]) (use r C sn in \<open>auto simp: labelValue_def\<close>)
  have e: "label_char (hd ?u) \<and> label_char (last ?u)" if "?ts \<noteq> []"
  proof (rule untok_ends [of label_char "''identity''" "''blueprint''"])
    show "label_char (hd (untok ''identity'' ''blueprint'' ?ts))" "label_char (last (untok ''identity'' ''blueprint'' ?ts))"
      using r that by (auto simp: labelValue_def untok_Nil_iff)
  qed (use that sn in \<open>auto simp: dnsLabelChars_iff intro: dns_label_char\<close>)
  define r where "r = (if length ?u > 63 then shortenLabelValue K ?u else ?u)"
  have n: "?u = [] \<longleftrightarrow> ?ts = []" using sn by (simp add: untok_Nil_iff dnsLabelChars_iff)
  have "labelValue r"
  proof (cases "length ?u > 63")
    case True
    then have "?u \<noteq> []" by auto
    then show ?thesis using True shortenLabelValue_valid [OF assms(1) _ _ a] e n by (simp add: r_def)
  next
    case False
    then show ?thesis using a e n by (auto simp: r_def labelValue_def)
  qed
  moreover from this have "renderLabel K swap slug name key v = Inr r" for swap key
    by (simp add: renderLabel_def u K r_def Let_def)
  ultimately show ?thesis by blast
qed


section \<open>Copies of resources\<close>

text \<open>Go maps have distinct keys; here, those of the resources and of their metadata.\<close>

definition wf_resource :: "Resource \<Rightarrow> bool" where
  "wf_resource r \<longleftrightarrow> distinct (map fst r) \<and> distinct (map fst (asMap (map_of r ''metadata'')))"

definition wf_blueprint :: "Blueprint \<Rightarrow> bool" where
  "wf_blueprint d \<longleftrightarrow> distinct (map fst (nt_Labels (bsp_Namespace (bp_Spec d)))) \<and> list_all wf_resource (bsp_Resources (bp_Spec d))"

lemma is_ascii_take_drop: "is_ascii (take n s) \<Longrightarrow> is_ascii (drop n s) \<Longrightarrow> is_ascii s"
  using is_ascii_append [of "take n s" "drop n s"] by simp

lemma coerceUTF8_ascii_inv: "is_ascii (coerceUTF8 k) \<Longrightarrow> coerceUTF8 k = k"
proof (induction k rule: coerceUTF8.induct)
  case (2 a r)
  show ?case
  proof (cases "runeLen (a # r)")
    case 0
    with 2(3) show ?thesis by (simp add: coerceUTF8.simps(2))
  next
    case (Suc n)
    with 2 show ?thesis by (simp add: coerceUTF8.simps(2))
  qed
qed simp

lemma coerceUTF8_eq_ascii: "is_ascii s \<Longrightarrow> coerceUTF8 k = s \<longleftrightarrow> k = s"
  using coerceUTF8_ascii_inv coerceUTF8_ascii by metis

lemma fold_merge_lookup:
  "distinct (map fst xs) \<Longrightarrow> is_ascii k \<Longrightarrow>
   map_of (fold (\<lambda>(k, v). AList.update (coerceUTF8 k) v) xs acc) k =
     (case map_of xs k of Some v \<Rightarrow> Some v | None \<Rightarrow> map_of acc k)"
proof (induction xs arbitrary: acc)
  case (Cons x xs)
  obtain j v where x: "x = (j, v)" by (cases x)
  have "map_of xs k = None" if "j = k" using Cons.prems(1) x that by (simp add: map_of_eq_None_iff)
  moreover have "coerceUTF8 j = k \<longleftrightarrow> j = k" by (rule coerceUTF8_eq_ascii [OF Cons.prems(2)])
  ultimately show ?case using Cons x by (cases "j = k") (auto split: option.split)
qed simp

lemma mergeKeys_lookup:
  "distinct (map fst m) \<Longrightarrow> is_ascii k \<Longrightarrow> map_of (mergeKeys m) k = map_of m k"
  by (simp add: mergeKeys_def fold_merge_lookup distinct_map map_of_sort_key split: option.split)

lemma map_of_map_prod: "map_of (map (map_prod id f) m) k = map_option f (map_of m k)"
  by (induction m) auto

lemma cloneResource_lookup:
  "distinct (map fst r) \<Longrightarrow> is_ascii k \<Longrightarrow> map_of (cloneResource r) k = map_option cloneValue (map_of r k)"
  by (simp add: cloneResource_def mergeKeys_lookup comp_def map_of_map_prod)

lemma cloneValue_map: "cloneValue v = VMap m' \<Longrightarrow> \<exists>m. v = VMap m"
  by (cases v) auto

text \<open>What the loop over the resources has checked.\<close>

lemma validateResourcesFrom_checked:
  "validateResourcesFrom K i catalog rs = Inr c \<Longrightarrow> r \<in> set rs \<Longrightarrow> asString (map_of (asMap (map_of r ''metadata'')) ''name'') \<noteq> []"
proof (induction rs arbitrary: i catalog)
  case (Cons x rs)
  then show ?case by (auto simp: resourceIdentity_def Let_def split: sum.splits if_splits prod.splits)
qed simp

lemma valid_resources_metadata:
  assumes "blueprintValidate K d = None" "r \<in> set (bsp_Resources (bp_Spec d))"
  obtains m where "map_of r ''metadata'' = Some (VMap m)"
proof -
  have "asString (map_of (asMap (map_of r ''metadata'')) ''name'') \<noteq> []"
    using assms validateResourcesFrom_checked
    by (auto simp: blueprintValidate_def validateResources_def split: if_splits option.splits sum.splits)
  then have "asMap (map_of r ''metadata'') \<noteq> []" by auto
  then show ?thesis using that by (cases "map_of r ''metadata''" rule: asMap.cases) auto
qed

definition inNamespace :: "string \<Rightarrow> Resource \<Rightarrow> Resource \<Rightarrow> bool" where
  "inNamespace ns r r' \<longleftrightarrow>
     map_of (asMap (map_of r' ''metadata'')) ''namespace'' = Some (VStr ns) \<and>
     (\<forall>k. is_ascii k \<longrightarrow> k \<noteq> ''metadata'' \<longrightarrow> map_of r' k = map_option cloneValue (map_of r k)) \<and>
     (\<forall>k. is_ascii k \<longrightarrow> k \<noteq> ''namespace'' \<longrightarrow>
        map_of (asMap (map_of r' ''metadata'')) k = map_option cloneValue (map_of (asMap (map_of r ''metadata'')) k))"

lemma injectNamespace_clone:
  assumes "wf_resource r" "map_of r ''metadata'' = Some (VMap m)"
  shows "\<exists>r'. injectNamespace i ns (cloneResource r) = Inr r' \<and> inNamespace ns r r'"
proof -
  have d: "distinct (map fst r)" "distinct (map fst m)" using assms by (auto simp: wf_resource_def)
  have c: "map_of (cloneResource r) k = map_option cloneValue (map_of r k)" if "is_ascii k" for k
    by (rule cloneResource_lookup [OF d(1) that])
  let ?m = "mergeKeys (map (map_prod id cloneValue) m)"
  have md: "map_of (cloneResource r) ''metadata'' = Some (VMap ?m)"
    using c [of "''metadata''"] assms(2) by simp
  have "map_of ?m k = map_option cloneValue (map_of m k)" if "is_ascii k" for k
    using mergeKeys_lookup [of "map (map_prod id cloneValue) m", OF _ that] d(2) by (simp add: comp_def map_of_map_prod)
  with c md assms(2) show ?thesis by (simp add: injectNamespace_def inNamespace_def)
qed

lemma injected_resources:
  assumes "list_all (\<lambda>r. wf_resource r \<and> (\<exists>m. map_of r ''metadata'' = Some (VMap m))) rs"
  shows "\<exists>rs'. rmap (\<lambda>(i, r). injectNamespace i ns (cloneResource r)) (enumerate n rs) = Inr rs' \<and>
    list_all2 (inNamespace ns) rs rs'"
  using assms
proof (induction rs arbitrary: n)
  case (Cons r rs)
  then obtain rs' where rs': "rmap (\<lambda>(i, r). injectNamespace i ns (cloneResource r)) (enumerate (Suc n) rs) = Inr rs'"
    "list_all2 (inNamespace ns) rs rs'" by auto
  from Cons.prems obtain m where "wf_resource r" "map_of r ''metadata'' = Some (VMap m)" by auto
  then obtain r' where "injectNamespace n ns (cloneResource r) = Inr r'" "inNamespace ns r r'"
    using injectNamespace_clone by blast
  with rs' show ?case by auto
qed auto

section \<open>Instantiation\<close>

lemma labels_valid:
  assumes "documented_k8s K" "blueprintValidate K d = None" "(key, v) \<in> set (nt_Labels (bsp_Namespace (bp_Spec d)))"
  shows "labelValue (renderTemplateValue v)"
proof -
  have "validateNamespace K (bsp_Namespace (bp_Spec d)) = None"
    using assms(2) by (auto simp: blueprintValidate_def split: if_splits option.splits)
  then have "rcheck (\<lambda>(key, v).
        if IsQualifiedName K key \<noteq> [] then Some (LabelKey key (IsQualifiedName K key))
        else if IsValidLabelValue K (renderTemplateValue v) \<noteq> []
          then Some (LabelValue key (IsValidLabelValue K (renderTemplateValue v)))
        else None) (nt_Labels (bsp_Namespace (bp_Spec d))) = None"
    by (auto simp: validateNamespace_def Let_def split: if_splits)
  with assms(1,3) show ?thesis
    by (auto simp: rcheck_None_iff documented_k8s_def split: if_splits)
qed

definition labelsOf :: "string gomap \<Rightarrow> string \<Rightarrow> string \<Rightarrow> string gomap" where
  "labelsOf labels0 slug name = AList.update ''tearenv.io/blueprint'' name
     (AList.update ''tearenv.io/identity'' slug (AList.update ''app.kubernetes.io/managed-by'' ''tearenv'' labels0))"

lemma Instantiate_eq:
  assumes "documented_k8s K" "blueprintValidate K d = None" "wf_blueprint d" "slugIdentity K ul identity = Inr slug"
  shows "\<exists>labels0 rs'. list_all2 (inNamespace (renderNamespace K swap d slug)) (bsp_Resources (bp_Spec d)) rs' \<and>
    (\<forall>swap'. Instantiate K ul swap' d identity =
       Inr \<lparr>in_Identity = identity, in_IdentitySlug = slug, in_BlueprintName = md_Name (bp_Metadata d),
         in_Namespace = renderNamespace K swap d slug, in_Labels = labelsOf labels0 slug (md_Name (bp_Metadata d)),
         in_Resources = rs', in_Services = bsp_Services (bp_Spec d)\<rparr>)"
proof -
  let ?name = "md_Name (bp_Metadata d)"
  let ?ls = "nt_Labels (bsp_Namespace (bp_Spec d))"
  have K: "IsDNS1123Label K s = [] \<longleftrightarrow> dns1123Label s" for s using assms(1) by (auto simp: documented_k8s_def)
  have slug: "dns1123Label slug" by (rule slugIdentity_label [OF assms(1,4)])
  have name: "dns1123Label ?name" using assms(2) K by (auto simp: blueprintValidate_def split: if_splits)
  note ns = renderNamespace_untok [OF assms(1,2) slug]
  have same: "renderNamespace K swap' d slug = renderNamespace K swap d slug" for swap' by (simp add: ns(1))
  have lab: "\<exists>r. \<forall>swap'. renderLabel K swap' slug ?name key v = Inr r" if "(key, v) \<in> set ?ls" for key v
    using renderLabel_ok [OF assms(1) labels_valid [OF assms(1,2) that] slug name] by blast
  have labeq: "renderLabel K swap' slug ?name key v = renderLabel K swap slug ?name key v" if "(key, v) \<in> set ?ls" for key v swap'
  proof -
    from lab [OF that] obtain r where "\<forall>swap'. renderLabel K swap' slug ?name key v = Inr r" ..
    then show ?thesis by simp
  qed
  have eq: "rbuild (renderLabel K swap' slug ?name) ?ls [] = rbuild (renderLabel K swap slug ?name) ?ls []" for swap'
    unfolding rbuild_def by (rule rfold_cong [OF refl refl]) (auto simp: labeq [of _ _ swap'])
  have "\<exists>labels0. rbuild (renderLabel K swap slug ?name) ?ls [] = Inr labels0"
    by (rule rbuild_ok) (use lab in blast)
  then obtain labels0 where l0: "rbuild (renderLabel K swap slug ?name) ?ls [] = Inr labels0" by blast
  have "list_all (\<lambda>r. wf_resource r \<and> (\<exists>m. map_of r ''metadata'' = Some (VMap m))) (bsp_Resources (bp_Spec d))"
    unfolding list_all_iff
  proof (intro ballI conjI)
    fix r
    assume r: "r \<in> set (bsp_Resources (bp_Spec d))"
    show "wf_resource r" using assms(3) r by (simp add: wf_blueprint_def list_all_iff)
    show "\<exists>m. map_of r ''metadata'' = Some (VMap m)" using valid_resources_metadata [OF assms(2) r] by blast
  qed
  from injected_resources [OF this, of "renderNamespace K swap d slug" 0] obtain rs' where
    rs': "rmap (\<lambda>(i, r). injectNamespace i (renderNamespace K swap d slug) (cloneResource r))
        (enumerate 0 (bsp_Resources (bp_Spec d))) = Inr rs'"
      "list_all2 (inNamespace (renderNamespace K swap d slug)) (bsp_Resources (bp_Spec d)) rs'" by blast
  have "Instantiate K ul swap' d identity =
       Inr \<lparr>in_Identity = identity, in_IdentitySlug = slug, in_BlueprintName = ?name,
         in_Namespace = renderNamespace K swap d slug, in_Labels = labelsOf labels0 slug ?name,
         in_Resources = rs', in_Services = bsp_Services (bp_Spec d)\<rparr>" for swap'
    using rs'(1) l0 ns(3) [of swap]
    by (simp add: Instantiate_def assms(2,4) Let_def same [of swap'] eq [of swap'] K labelsOf_def)
  with rs'(2) show ?thesis by blast
qed


definition demoBlueprint :: Blueprint where
  "demoBlueprint = Default ''team''"

lemma demoBlueprint_valid: "blueprintValidate demoK8s demoBlueprint = None"
  by code_simp

lemma demoBlueprint_wf: "wf_blueprint demoBlueprint"
  by code_simp

lemma demoSlug: "slugIdentity demoK8s (\<lambda>s. s) ''ada'' = Inr ''ada''" "slugIdentity demoK8s (\<lambda>s. s) ''bob'' = Inr ''bob''"
  by code_simp+

section \<open>Properties\<close>

text \<open>
  Claim C13.  Every identity the program accepts has a slug, and the slug is a DNS-1123 label.
\<close>

theorem slugIdentity_is_label:
  assumes "documented_k8s K"
  shows "(\<forall>e. slugIdentity K ul identity = Inl e \<longrightarrow> \<not> validIdentity identity) \<and>
    (\<forall>s. slugIdentity K ul identity = Inr s \<longrightarrow> validIdentity identity \<and> IsDNS1123Label K s = [])"
proof -
  have "IsDNS1123Label K s = [] \<longleftrightarrow> dns1123Label s" for s using assms by (auto simp: documented_k8s_def)
  with slugIdentity_label [OF assms] show ?thesis
    by (auto simp: slugIdentity_def Let_def split: if_splits)
qed

theorem slugIdentity_is_label_witness:
  "slugIdentity demoK8s (\<lambda>s. s) ''ada'' = Inr ''ada'' \<and> IsDNS1123Label demoK8s ''ada'' = []"
  using slugIdentity_is_label [OF demoK8s_documented, of "\<lambda>s. s" "''ada''"] demoSlug(1) by simp

text \<open>
  Claim C14.  A valid blueprint can be instantiated for every valid identity: no rendered name is ever
  rejected and no metadata map is nil.  All its resources are copies of the declared ones confined
  to one namespace, which is a DNS label, the three reserved labels name the owner, the identity and
  the blueprint, and the declared services are kept.
\<close>

theorem Instantiate_succeeds:
  assumes "documented_k8s K" "blueprintValidate K d = None" "wf_blueprint d" "validIdentity identity"
  shows "\<exists>inst. Instantiate K ul swap d identity = Inr inst \<and> dns1123Label (in_Namespace inst) \<and>
    list_all2 (inNamespace (in_Namespace inst)) (bsp_Resources (bp_Spec d)) (in_Resources inst) \<and>
    in_Services inst = bsp_Services (bp_Spec d) \<and> in_Identity inst = identity \<and>
    slugIdentity K ul identity = Inr (in_IdentitySlug inst) \<and>
    map_of (in_Labels inst) ''app.kubernetes.io/managed-by'' = Some ''tearenv'' \<and>
    map_of (in_Labels inst) ''tearenv.io/identity'' = Some (in_IdentitySlug inst) \<and>
    map_of (in_Labels inst) ''tearenv.io/blueprint'' = Some (md_Name (bp_Metadata d))"
proof -
  obtain slug where s: "slugIdentity K ul identity = Inr slug"
    using assms(4) by (auto simp: slugIdentity_def Let_def)
  have "dns1123Label (renderNamespace K swap d slug)"
    by (rule renderNamespace_untok(3) [OF assms(1,2) slugIdentity_label [OF assms(1) s]])
  with Instantiate_eq [OF assms(1-3) s, of swap] s show ?thesis by (auto simp: labelsOf_def)
qed

theorem Instantiate_succeeds_witness:
  "\<exists>inst. Instantiate demoK8s (\<lambda>s. s) (\<lambda>_. True) demoBlueprint ''ada'' = Inr inst \<and> dns1123Label (in_Namespace inst)"
proof -
  have "validIdentity ''ada''" by code_simp
  from Instantiate_succeeds [OF demoK8s_documented demoBlueprint_valid demoBlueprint_wf this] show ?thesis by blast
qed

text \<open>
  The order in which Go iterates over the two placeholders never shows: instantiating a
  blueprint gives the same result for every order.
\<close>

theorem Instantiate_order_independent:
  assumes "documented_k8s K" "wf_blueprint d"
  shows "Instantiate K ul swap d identity = Instantiate K ul swap' d identity"
proof (cases "blueprintValidate K d")
  case None
  show ?thesis
  proof (cases "slugIdentity K ul identity")
    case (Inr slug)
    from Instantiate_eq [OF assms(1) None assms(2) Inr] show ?thesis by metis
  qed (simp add: Instantiate_def None)
qed (simp add: Instantiate_def)

theorem Instantiate_order_independent_witness:
  "Instantiate demoK8s (\<lambda>s. s) (\<lambda>_. True) demoBlueprint ''ada'' = Instantiate demoK8s (\<lambda>s. s) (\<lambda>_. False) demoBlueprint ''ada''"
  by (rule Instantiate_order_independent [OF demoK8s_documented demoBlueprint_wf])

text \<open>
  Claim C15.  Identities with different slugs get different namespaces, as long as the rendered names
  fit into a label and are not shortened.
\<close>

theorem namespace_isolation:
  assumes "documented_k8s K" "Instantiate K ul swap d i1 = Inr a" "Instantiate K ul swap d i2 = Inr b"
    and "in_IdentitySlug a \<noteq> in_IdentitySlug b"
    and "list_all (\<lambda>s. length (replaceTemplateValues (nt_NameTemplate (bsp_Namespace (bp_Spec d)))
        (replacements False s (md_Name (bp_Metadata d)))) \<le> 63) [in_IdentitySlug a, in_IdentitySlug b]"
  shows "in_Namespace a \<noteq> in_Namespace b"
proof -
  let ?t = "nt_NameTemplate (bsp_Namespace (bp_Spec d))"
  let ?n = "md_Name (bp_Metadata d)"
  have v: "blueprintValidate K d = None" using assms(2) by (auto simp: Instantiate_def split: option.splits)
  have inst: "slugIdentity K ul i = Inr (in_IdentitySlug x) \<and> in_Namespace x = renderNamespace K swap d (in_IdentitySlug x)"
    if "Instantiate K ul swap d i = Inr x" for i x
    using that by (auto simp: Instantiate_def Let_def split: option.splits sum.splits if_splits)
  have m: "DNS1123LabelMaxLength K = 63" using assms(1) by (simp add: documented_k8s_def)
  have ns: "in_Namespace x = untok (in_IdentitySlug x) ?n (tokens ?t)"
    if "Instantiate K ul swap d i = Inr x" "x \<in> {a, b}" for i x
  proof -
    have l: "dns1123Label (in_IdentitySlug x)" using inst [OF that(1)] slugIdentity_label [OF assms(1)] by blast
    have K: "dns1123Label ?n" "dns1123Label (renderTemplateValue ?t)"
      using v assms(1) by (auto simp: blueprintValidate_def validateNamespace_def Let_def documented_k8s_def
          split: if_splits option.splits sum.splits)
    have "replaceTemplateValues ?t (replacements False (in_IdentitySlug x) ?n) = untok (in_IdentitySlug x) ?n (tokens ?t)"
      using l K by (intro replaceTemplateValues_untok label_braceless) (auto simp: dns1123Label_def)
    then have "length (untok (in_IdentitySlug x) ?n (tokens ?t)) \<le> 63" using assms(5) that(2) by auto
    then show ?thesis using inst [OF that(1)] renderNamespace_untok(1) [OF assms(1) v l] m by (simp add: shortenDNSLabel_def)
  qed
  have "length (filter (\<lambda>t. t = Slug) (tokens ?t)) = 1"
    using renderNamespace_untok(4) [OF assms(1) v slugIdentity_label [OF assms(1)]] inst [OF assms(2)] by blast
  then show ?thesis
    using untok_slug_inject assms(4) ns [OF assms(2)] ns [OF assms(3)] by (metis insertCI)
qed

theorem namespace_isolation_witness:
  "\<exists>a b. Instantiate demoK8s (\<lambda>s. s) (\<lambda>_. True) demoBlueprint ''ada'' = Inr a \<and>
     Instantiate demoK8s (\<lambda>s. s) (\<lambda>_. True) demoBlueprint ''bob'' = Inr b \<and> in_Namespace a \<noteq> in_Namespace b"
proof -
  obtain a where a: "Instantiate demoK8s (\<lambda>s. s) (\<lambda>_. True) demoBlueprint ''ada'' = Inr a" "in_IdentitySlug a = ''ada''"
    using Instantiate_eq [OF demoK8s_documented demoBlueprint_valid demoBlueprint_wf demoSlug(1)] by fastforce
  obtain b where b: "Instantiate demoK8s (\<lambda>s. s) (\<lambda>_. True) demoBlueprint ''bob'' = Inr b" "in_IdentitySlug b = ''bob''"
    using Instantiate_eq [OF demoK8s_documented demoBlueprint_valid demoBlueprint_wf demoSlug(2)] by fastforce
  have "list_all (\<lambda>s. length (replaceTemplateValues (nt_NameTemplate (bsp_Namespace (bp_Spec demoBlueprint)))
        (replacements False s (md_Name (bp_Metadata demoBlueprint)))) \<le> 63) [''ada'', ''bob'']" by code_simp
  with a b namespace_isolation [OF demoK8s_documented a(1) b(1)] show ?thesis by auto
qed

text \<open>
  The starter blueprint is valid exactly when its name is a DNS-1123 label, so that
  \<open>blueprint init\<close> never writes a document that \<open>serve\<close> would reject.
\<close>

theorem Default_valid:
  assumes "documented_k8s K"
  shows "blueprintValidate K (Default name) = None \<longleftrightarrow> dns1123Label name"
proof -
  have K: "IsDNS1123Label K s = [] \<longleftrightarrow> dns1123Label s" "IsDNS1123Subdomain K s = [] \<longleftrightarrow> dns1123Subdomain s"
    "IsQualifiedName K s = [] \<longleftrightarrow> qualifiedName s" "IsValidLabelValue K s = [] \<longleftrightarrow> labelValue s" for s
    using assms by (auto simp: documented_k8s_def)
  have c: "countOf (''tearenv-'' @ IdentitySlugTemplate @ ''-'' @ BlueprintNameTemplate) IdentitySlugTemplate = 1"
    "countOf (''tearenv-'' @ IdentitySlugTemplate @ ''-'' @ BlueprintNameTemplate) BlueprintNameTemplate = 1"
    "dns1123Label (renderTemplateValue (''tearenv-'' @ IdentitySlugTemplate @ ''-'' @ BlueprintNameTemplate))"
    "list_all qualifiedName [''app.kubernetes.io/managed-by'', ''tearenv.io/identity'', ''tearenv.io/blueprint'']"
    "list_all labelValue (map renderTemplateValue [''tearenv'', IdentitySlugTemplate, BlueprintNameTemplate])"
    "dns1123Subdomain ''workspace''"
    by code_simp+
  have ns: "validateNamespace K (bsp_Namespace (bp_Spec (Default name))) = None"
    using c by (simp add: validateNamespace_def Default_def Let_def K)
  have "\<exists>rs. validateResources K [defaultDeployment, defaultService] = Inr rs \<and>
      validateServices (bsp_Services (bp_Spec (Default name))) rs = None"
  proof -
    have "validateResources K [defaultDeployment, defaultService] =
        Inr [(resourceKey ''apps/v1'' ''Deployment'' ''workspace'', defaultDeployment),
             (resourceKey ''v1'' ''Service'' ''workspace'', defaultService)]"
      using c(6) by (simp add: validateResources_def resourceIdentity_def Let_def K defaultDeployment_def defaultService_def resourceKey_def)
    moreover have "validateServices (bsp_Services (bp_Spec (Default ''x'')))
        [(resourceKey ''apps/v1'' ''Deployment'' ''workspace'', defaultDeployment),
         (resourceKey ''v1'' ''Service'' ''workspace'', defaultService)] = None" by code_simp
    moreover have "bsp_Services (bp_Spec (Default name)) = bsp_Services (bp_Spec (Default ''x''))" by (simp add: Default_def)
    ultimately show ?thesis by simp
  qed
  with ns show ?thesis
    by (auto simp: blueprintValidate_def K Default_def blueprintAPIVersion_def blueprintKind_def)
qed

theorem Default_valid_witness: "blueprintValidate demoK8s (Default ''team'') = None"
proof -
  have "dns1123Label ''team''" by code_simp
  with Default_valid [OF demoK8s_documented, of "''team''"] show ?thesis by simp
qed

end
