(* ===== verification/Environment.thy ===== *)
theory Environment
  imports Blueprint_Properties Credentials
begin

text \<open>
  The environment manager (\<open>internal/environment/manager.go\<close>): it instantiates the team's blueprint
  for an identity, has it reconciled, and only then publishes the blueprint's services on top of
  the base policy.  The reconciler is an input; the base policy enters through its two operations.
\<close>

record Manager =
  mg_document :: Blueprint
  mg_services :: "Service gomap gomap"

datatype env_err =
    EnvInvalid bp_err | ReconcilerRequired | BaseRequired | EnvInstantiate bp_err
  | EnvReadyTimeout string | EnvIdleTimeout string | ReconcileFailed string

definition NewManager :: "k8s_lib \<Rightarrow> Blueprint \<Rightarrow> bool \<Rightarrow> bool \<Rightarrow> env_err + Manager" where
  "NewManager K d hasReconciler hasBase =
     (case blueprintValidate K d of
        Some e \<Rightarrow> Inl (EnvInvalid e)
      | None \<Rightarrow>
          if \<not> hasReconciler then Inl ReconcilerRequired
          else if \<not> hasBase then Inl BaseRequired
          else Inr \<lparr>mg_document = d, mg_services = []\<rparr>)"

definition instanceService :: "(string \<Rightarrow> string) \<Rightarrow> string \<Rightarrow> BlueprintService \<Rightarrow> env_err + Service" where
  "instanceService ul namespace declared =
     (case parseDurationText (pol_ReadyTimeout (bs_Scale declared)) of
        None \<Rightarrow> Inl (EnvReadyTimeout (bs_Name declared))
      | Some readyTimeout \<Rightarrow>
          (case parseDurationText (pol_IdleTimeout (bs_Scale declared)) of
             None \<Rightarrow> Inl (EnvIdleTimeout (bs_Name declared))
           | Some idleTimeout \<Rightarrow>
               let targetHost = tg_Service (bs_Target declared) @ ''.'' @ namespace @ ''.svc.cluster.local'' in
               Inr \<lparr>svc_Name = bs_Name declared,
                 svc_Target = joinHostPort targetHost (decString (tg_Port (bs_Target declared))),
                 svc_LocalPort = bs_LocalPort declared,
                 svc_Workload = Some
                   \<lparr>wl_Kind = toLower ul (ref_Kind (pol_TargetRef (bs_Scale declared))), wl_Namespace = namespace,
                    wl_Name = ref_Name (pol_TargetRef (bs_Scale declared)), wl_Replicas = pol_Replicas (bs_Scale declared),
                    wl_ReadyTimeout = readyTimeout, wl_IdleTimeout = idleTimeout\<rparr>\<rparr>))"

definition instanceServices :: "(string \<Rightarrow> string) \<Rightarrow> Instance \<Rightarrow> env_err + Service gomap" where
  "instanceServices ul inst =
     rfold (\<lambda>declared m. case instanceService ul (in_Namespace inst) declared of
              Inl e \<Rightarrow> Inl e
            | Inr s \<Rightarrow> Inr (AList.update (bs_Name declared) s m)) (in_Services inst) []"

definition Provision :: "k8s_lib \<Rightarrow> (string \<Rightarrow> string) \<Rightarrow> (string \<Rightarrow> bool) \<Rightarrow> (Instance \<Rightarrow> bool) \<Rightarrow> Manager \<Rightarrow> string \<Rightarrow> Manager \<times> env_err option" where
  "Provision K ul swap reconciles mgr identity =
     (case Instantiate K ul swap (mg_document mgr) identity of
        Inl e \<Rightarrow> (mgr, Some (EnvInstantiate e))
      | Inr inst \<Rightarrow>
          (case instanceServices ul inst of
             Inl e \<Rightarrow> (mgr, Some e)
           | Inr services \<Rightarrow>
               if \<not> reconciles inst then (mgr, Some (ReconcileFailed (in_Namespace inst)))
               else (mgr\<lparr>mg_services := AList.update identity services (mg_services mgr)\<rparr>, None)))"

definition published :: "Manager \<Rightarrow> string \<Rightarrow> Service gomap" where
  "published mgr identity = (case map_of (mg_services mgr) identity of None \<Rightarrow> [] | Some m \<Rightarrow> m)"

definition combinedServices :: "Service list \<Rightarrow> Service gomap \<Rightarrow> Service gomap" where
  "combinedServices base own =
     foldl (\<lambda>m (n, s). AList.update n s m) (foldl (\<lambda>m s. AList.update (svc_Name s) s m) [] base) own"

definition managerServices :: "('s \<Rightarrow> string \<Rightarrow> 'e + Service list) \<Rightarrow> 's \<Rightarrow> Manager \<Rightarrow> string \<Rightarrow> 'e + Service list" where
  "managerServices baseServices s mgr identity =
     (case baseServices s identity of
        Inl e \<Rightarrow> Inl e
      | Inr base \<Rightarrow> Inr (catalogOf (combinedServices base (published mgr identity))))"

definition managerResolveService :: "('s \<Rightarrow> string \<Rightarrow> string \<Rightarrow> Service option) \<Rightarrow> 's \<Rightarrow> Manager \<Rightarrow> string \<Rightarrow> string \<Rightarrow> Service option" where
  "managerResolveService baseResolve s mgr identity name =
     (case map_of (published mgr identity) name of
        Some x \<Rightarrow> Some x
      | None \<Rightarrow> baseResolve s identity name)"

section \<open>The manager is a service policy\<close>

definition wf_Manager :: "Manager \<Rightarrow> bool" where
  "wf_Manager mgr \<longleftrightarrow> (\<forall>m \<in> snd ` set (mg_services mgr). named m)"

lemma published_named: "wf_Manager mgr \<Longrightarrow> named (published mgr i)"
  by (force simp: wf_Manager_def published_def named_def split: option.split dest: map_of_SomeD)

lemma named_foldl_base: "named m \<Longrightarrow> named (foldl (\<lambda>m s. AList.update (svc_Name s) s m) m xs)"
  by (induction xs arbitrary: m) (auto intro: named_update)

lemma named_foldl_own:
  "named m \<Longrightarrow> (\<forall>(n, s) \<in> set own. svc_Name s = n) \<Longrightarrow> named (foldl (\<lambda>m (n, s). AList.update n s m) m own)"
  by (induction own arbitrary: m) (auto intro: named_update)

lemma combined_named: "named own \<Longrightarrow> named (combinedServices base own)"
  unfolding combinedServices_def
  by (intro named_foldl_own named_foldl_base) (auto simp: named_def)

lemma foldl_base_lookup:
  "distinct (map svc_Name xs) \<Longrightarrow> map_of (foldl (\<lambda>m s. AList.update (svc_Name s) s m) m xs) n =
     (case find (\<lambda>s. svc_Name s = n) xs of Some x \<Rightarrow> Some x | None \<Rightarrow> map_of m n)"
proof (induction xs arbitrary: m)
  case (Cons x xs)
  have "find (\<lambda>s. svc_Name s = n) xs = None" if "svc_Name x = n"
    using Cons.prems that by (simp add: find_None_iff) (metis imageI)
  with Cons show ?case by (auto split: option.split)
qed simp

lemma foldl_own_lookup:
  "distinct (map fst own) \<Longrightarrow> map_of (foldl (\<lambda>m (n, s). AList.update n s m) m own) n =
     (case map_of own n of Some x \<Rightarrow> Some x | None \<Rightarrow> map_of m n)"
proof (induction own arbitrary: m)
  case (Cons x own)
  obtain k s where x: "x = (k, s)" by (cases x)
  have "map_of own n = None" if "k = n" using Cons.prems x that by (simp add: map_of_eq_None_iff)
  with Cons x show ?case by (auto split: option.split)
qed simp

context service_policy
begin

lemma overlay_lookup:
  assumes "good s" "services s i = Inr xs" "named own"
  shows "map_of (combinedServices xs own) n = (case map_of own n of Some x \<Rightarrow> Some x | None \<Rightarrow> resolve s i n)"
proof -
  have d: "distinct (map svc_Name xs)" by (rule catalog_distinct [OF assms(1,2)])
  have "find (\<lambda>s. svc_Name s = n) xs = resolve s i n"
  proof (cases "resolve s i n")
    case None
    then show ?thesis using resolve_iff_listed [OF assms(1,2), of n] by (auto simp: find_None_iff)
  next
    case (Some x)
    have "x \<in> set xs" "svc_Name x = n" using resolve_in_catalog [OF assms(1,2) Some] resolve_name [OF assms(1) Some] by auto
    then show ?thesis using d Some
    proof (induction xs)
      case (Cons y ys)
      then show ?case by (cases "y = x") auto
    qed simp
  qed
  then show ?thesis
    using assms(3) foldl_base_lookup [OF d, of "[]" n]
    by (auto simp: combinedServices_def foldl_own_lookup named_def split: option.split)
qed

lemma overlay_catalog:
  assumes "good s" "managerServices services s mgr i = Inr ys" "wf_Manager mgr"
  shows "sorted (map svc_Name ys) \<and> distinct (map svc_Name ys) \<and>
    (\<forall>y. y \<in> set ys \<longleftrightarrow> managerResolveService resolve s mgr i (svc_Name y) = Some y)"
proof -
  obtain xs where xs: "services s i = Inr xs" "ys = catalogOf (combinedServices xs (published mgr i))"
    using assms(2) by (auto simp: managerServices_def split: sum.splits)
  have p: "named (published mgr i)" by (rule published_named [OF assms(3)])
  have n: "named (combinedServices xs (published mgr i))" by (rule combined_named [OF p])
  show ?thesis
    using catalogOf_sorted catalogOf_distinct [OF n] catalogOf_resolve [OF n] overlay_lookup [OF assms(1) xs(1) p]
    unfolding xs(2) by (simp add: managerResolveService_def)
qed

lemma overlay_name:
  assumes "good s" "wf_Manager mgr" "managerResolveService resolve s mgr i n = Some x"
  shows "svc_Name x = n"
  using assms named_resolve [OF published_named [OF assms(2)]] resolve_name
  by (auto simp: managerResolveService_def split: option.splits)

end

interpretation manager_policy: service_policy
  "\<lambda>((env, c, fs), mgr) i. managerServices (\<lambda>(env, c, fs) i. snd (credentialsServices env c i fs)) (env, c, fs) mgr i"
  "\<lambda>((env, c, fs), mgr) i n. managerResolveService (\<lambda>(env, c, fs) i n. snd (credentialsResolveService env c i n fs)) (env, c, fs) mgr i n"
  "\<lambda>((env, c, fs), mgr). wf_Credentials c \<and> wf_Manager mgr"
proof (unfold_locales, goal_cases)
  case (1 s i xs)
  then show ?case using cred_policy.overlay_catalog by (cases s) fastforce
next
  case (2 s i xs)
  then show ?case using cred_policy.overlay_catalog by (cases s) fastforce
next
  case (3 s i xs x)
  then show ?case using cred_policy.overlay_catalog by (cases s) fastforce
next
  case (4 s i n x)
  then show ?case using cred_policy.overlay_name by (cases s) fastforce
qed


section \<open>Services of an instance\<close>

text \<open>A published service runs a workload in the identity's own namespace, with sane lifecycle settings.\<close>

definition runnable :: "string \<Rightarrow> Service \<Rightarrow> bool" where
  "runnable ns x =
     (case svc_Workload x of
        None \<Rightarrow> False
      | Some w \<Rightarrow> wl_Namespace w = ns \<and> wl_Kind w \<in> {''deployment'', ''statefulset''} \<and> 1 \<le> wl_Replicas w \<and>
          0 < wl_ReadyTimeout w \<and> 0 \<le> wl_IdleTimeout w)"

lemma toLower_kinds: "toLower ul ''Deployment'' = ''deployment''" "toLower ul ''StatefulSet'' = ''statefulset''"
  by code_simp+

lemma validateScale_service:
  assumes "validateScale i (bs_Scale s) resources = None"
  shows "\<exists>x. instanceService ul ns s = Inr x \<and> svc_Name x = bs_Name s \<and> runnable ns x"
proof -
  have k: "ref_Kind (pol_TargetRef (bs_Scale s)) = ''Deployment'' \<or> ref_Kind (pol_TargetRef (bs_Scale s)) = ''StatefulSet''"
    and r: "1 \<le> pol_Replicas (bs_Scale s)"
    using assms by (auto simp: validateScale_def Let_def split: if_splits option.splits)
  obtain rt where rt: "parseDurationText (pol_ReadyTimeout (bs_Scale s)) = Some rt" "0 < rt"
    using assms by (auto simp: validateScale_def Let_def split: if_splits option.splits)
  obtain it where it: "parseDurationText (pol_IdleTimeout (bs_Scale s)) = Some it" "0 \<le> it"
    using assms by (auto simp: validateScale_def Let_def split: if_splits option.splits)
  from k r rt it show ?thesis
    by (auto simp: instanceService_def Let_def runnable_def toLower_kinds)
qed

lemma validateServicesFrom_facts:
  assumes "validateServicesFrom i names ss resources = None"
  shows "distinct (map bs_Name ss) \<and> (\<forall>s \<in> set ss. \<exists>i. validateScale i (bs_Scale s) resources = None) \<and>
    set names \<inter> bs_Name ` set ss = {}"
  using assms
proof (induction ss arbitrary: i names)
  case (Cons s ss)
  then have "validateServicesFrom (Suc i) (bs_Name s # names) ss resources = None"
    "validateScale i (bs_Scale s) resources = None" "bs_Name s \<notin> set names"
    by (auto split: if_splits option.splits)
  with Cons.IH [OF this(1)] show ?case by auto
qed simp

lemma valid_blueprint_services:
  assumes "blueprintValidate K d = None"
  shows "distinct (map bs_Name (bsp_Services (bp_Spec d)))"
    "s \<in> set (bsp_Services (bp_Spec d)) \<Longrightarrow> \<exists>x. instanceService ul ns s = Inr x \<and> svc_Name x = bs_Name s \<and> runnable ns x"
proof -
  obtain rs where "validateServicesFrom 0 [] (bsp_Services (bp_Spec d)) rs = None"
    using assms by (auto simp: blueprintValidate_def validateServices_def split: if_splits option.splits sum.splits)
  from validateServicesFrom_facts [OF this]
  show "distinct (map bs_Name (bsp_Services (bp_Spec d)))"
    "s \<in> set (bsp_Services (bp_Spec d)) \<Longrightarrow> \<exists>x. instanceService ul ns s = Inr x \<and> svc_Name x = bs_Name s \<and> runnable ns x"
    using validateScale_service by blast+
qed

lemma rfold_services:
  assumes "\<And>s. s \<in> set ss \<Longrightarrow> \<exists>x. f s = Inr x \<and> svc_Name x = bs_Name s" "distinct (map bs_Name ss)" "named m"
  shows "\<exists>m'. rfold (\<lambda>s m. case f s of Inl e \<Rightarrow> Inl e | Inr x \<Rightarrow> Inr (AList.update (bs_Name s) x m)) ss m = Inr m' \<and>
    named m' \<and> fst ` set m' = fst ` set m \<union> bs_Name ` set ss \<and> (\<forall>s \<in> set ss. \<exists>x. f s = Inr x \<and> map_of m' (bs_Name s) = Some x) \<and>
    (\<forall>k. k \<notin> bs_Name ` set ss \<longrightarrow> map_of m' k = map_of m k)"
  using assms
proof (induction ss arbitrary: m)
  case (Cons s ss)
  obtain x where x: "f s = Inr x" "svc_Name x = bs_Name s" using Cons.prems(1) by auto
  have n: "named (AList.update (bs_Name s) x m)" by (rule named_update [OF Cons.prems(3) x(2)])
  have d: "distinct (map bs_Name ss)" "bs_Name s \<notin> bs_Name ` set ss" using Cons.prems(2) by auto
  obtain m' where m': "rfold (\<lambda>s m. case f s of Inl e \<Rightarrow> Inl e | Inr x \<Rightarrow> Inr (AList.update (bs_Name s) x m)) ss (AList.update (bs_Name s) x m) = Inr m'"
    "named m'" "fst ` set m' = fst ` set (AList.update (bs_Name s) x m) \<union> bs_Name ` set ss"
    "\<forall>s \<in> set ss. \<exists>x. f s = Inr x \<and> map_of m' (bs_Name s) = Some x"
    "\<forall>k. k \<notin> bs_Name ` set ss \<longrightarrow> map_of m' k = map_of (AList.update (bs_Name s) x m) k"
    using Cons.IH [OF Cons.prems(1) d(1) n] by auto
  have "fst ` set (AList.update (bs_Name s) x m) = insert (bs_Name s) (fst ` set m)"
    by (simp add: dom_update)
  with x d m' show ?case by auto
qed simp

lemma instanceServices_ok:
  assumes "blueprintValidate K d = None" "in_Services inst = bsp_Services (bp_Spec d)"
  shows "\<exists>m. instanceServices ul inst = Inr m \<and> named m \<and> fst ` set m = bs_Name ` set (bsp_Services (bp_Spec d)) \<and>
    (\<forall>s \<in> set (bsp_Services (bp_Spec d)). \<exists>x. map_of m (bs_Name s) = Some x \<and>
       instanceService ul (in_Namespace inst) s = Inr x \<and> runnable (in_Namespace inst) x)"
proof -
  let ?f = "instanceService ul (in_Namespace inst)"
  let ?ss = "bsp_Services (bp_Spec d)"
  note v = valid_blueprint_services [OF assms(1)]
  have "\<exists>x. ?f s = Inr x \<and> svc_Name x = bs_Name s" if "s \<in> set ?ss" for s using v(2) [OF that] by blast
  from rfold_services [of ?ss ?f "[]", OF this v(1)]
  obtain m where m: "instanceServices ul inst = Inr m" "named m" "fst ` set m = bs_Name ` set ?ss"
    "\<forall>s \<in> set ?ss. \<exists>x. ?f s = Inr x \<and> map_of m (bs_Name s) = Some x"
    by (auto simp: instanceServices_def assms(2) named_def)
  have "\<exists>x. map_of m (bs_Name s) = Some x \<and> ?f s = Inr x \<and> runnable (in_Namespace inst) x" if "s \<in> set ?ss" for s
    using v(2) [OF that, of ul "in_Namespace inst"] m(4) that by (metis sum.inject(2))
  with m show ?thesis by blast
qed


section \<open>Properties\<close>

text \<open>
  Claim C16.  With direct grants from the credentials file and blueprint services on top, the catalog
  of an identity is sorted, lists no name twice, and lists exactly the services that resolve; every
  name resolves to the published blueprint service if there is one and to the direct grant otherwise.
\<close>

theorem manager_catalog:
  assumes "wf_Credentials c" "wf_Manager mgr"
    and "managerServices (\<lambda>(env, c, fs) i. snd (credentialsServices env c i fs)) (env, c, fs) mgr identity = Inr ys"
  shows "sorted (map svc_Name ys) \<and> distinct (map svc_Name ys) \<and>
    (\<forall>y. y \<in> set ys \<longleftrightarrow>
       (case map_of (published mgr identity) (svc_Name y) of
          Some x \<Rightarrow> x = y
        | None \<Rightarrow> snd (credentialsResolveService env c identity (svc_Name y) fs) = Some y))"
proof -
  have "(case map_of (published mgr identity) n of Some x \<Rightarrow> x = y
        | None \<Rightarrow> snd (credentialsResolveService env c identity n fs) = Some y) \<longleftrightarrow>
      managerResolveService (\<lambda>(env, c, fs) i n. snd (credentialsResolveService env c i n fs)) (env, c, fs) mgr identity n = Some y" for n y
    by (simp add: managerResolveService_def split: option.split)
  then show ?thesis
    using manager_policy.catalog_sorted [of "((env, c, fs), mgr)" identity ys]
      manager_policy.catalog_distinct [of "((env, c, fs), mgr)" identity ys]
      manager_policy.catalog_resolve [of "((env, c, fs), mgr)" identity ys] assms by simp
qed

definition demoManager :: Manager where
  "demoManager = \<lparr>mg_document = demoBlueprint, mg_services = []\<rparr>"

lemma demoManager_wf: "wf_Manager demoManager" "wf_Credentials sampleMemory"
  by code_simp+

theorem manager_catalog_witness:
  "\<exists>ys. managerServices (\<lambda>(env, c, fs) i. snd (credentialsServices env c i fs)) (calm, sampleMemory, []) demoManager ''ada'' = Inr ys \<and>
    distinct (map svc_Name ys)"
proof -
  obtain xs where "snd (credentialsServices calm sampleMemory ''ada'' []) = Inr xs"
    by (simp add: credentialsServices_def reloadIfFile_def sampleMemory_def)
  then obtain ys where "managerServices (\<lambda>(env, c, fs) i. snd (credentialsServices env c i fs)) (calm, sampleMemory, []) demoManager ''ada'' = Inr ys"
    by (simp add: managerServices_def)
  with manager_catalog [OF demoManager_wf(2,1) this] show ?thesis by blast
qed

text \<open>
  Claim C17.  Provisioning a valid blueprint fails only for an invalid identity or when the reconciler
  fails, and then publishes nothing.  When it succeeds, the instance has been reconciled, exactly the
  declared services are published for that identity, each running a workload in the identity's
  namespace, and every other identity keeps what it had.
\<close>

theorem Provision_outcomes:
  assumes "documented_k8s K" "blueprintValidate K (mg_document mgr) = None" "wf_blueprint (mg_document mgr)" "wf_Manager mgr"
  shows "case Provision K ul swap reconciles mgr identity of
      (mgr', Some e) \<Rightarrow> mgr' = mgr \<and> (validIdentity identity \<longrightarrow>
         (\<exists>inst. Instantiate K ul swap (mg_document mgr) identity = Inr inst \<and> \<not> reconciles inst))
    | (mgr', None) \<Rightarrow> \<exists>inst. Instantiate K ul swap (mg_document mgr) identity = Inr inst \<and> reconciles inst \<and>
        mg_document mgr' = mg_document mgr \<and> wf_Manager mgr' \<and>
        (\<forall>j. j \<noteq> identity \<longrightarrow> published mgr' j = published mgr j) \<and>
        fst ` set (published mgr' identity) = bs_Name ` set (bsp_Services (bp_Spec (mg_document mgr))) \<and>
        list_all (\<lambda>s. \<exists>x. map_of (published mgr' identity) (bs_Name s) = Some x \<and>
          instanceService ul (in_Namespace inst) s = Inr x \<and> runnable (in_Namespace inst) x)
          (bsp_Services (bp_Spec (mg_document mgr)))"
proof (cases "Instantiate K ul swap (mg_document mgr) identity")
  case (Inl e)
  have "\<not> validIdentity identity"
  proof
    assume "validIdentity identity"
    then obtain slug where "slugIdentity K ul identity = Inr slug" by (auto simp: slugIdentity_def Let_def)
    from Instantiate_eq [OF assms(1-3) this, of swap] Inl show False by auto
  qed
  with Inl show ?thesis by (simp add: Provision_def)
next
  case (Inr inst)
  have s: "in_Services inst = bsp_Services (bp_Spec (mg_document mgr))"
    using Inr by (auto simp: Instantiate_def Let_def split: option.splits sum.splits if_splits)
  obtain m where m: "instanceServices ul inst = Inr m" "named m" "fst ` set m = bs_Name ` set (bsp_Services (bp_Spec (mg_document mgr)))"
    "\<forall>s \<in> set (bsp_Services (bp_Spec (mg_document mgr))). \<exists>x. map_of m (bs_Name s) = Some x \<and>
       instanceService ul (in_Namespace inst) s = Inr x \<and> runnable (in_Namespace inst) x"
    using instanceServices_ok [OF assms(2) s, of ul] by blast
  have "wf_Manager (mgr\<lparr>mg_services := AList.update identity m (mg_services mgr)\<rparr>)"
    using assms(4) m(2) by (auto simp: wf_Manager_def dest!: set_update_cases)
  with Inr m show ?thesis
    by (simp add: Provision_def published_def list_all_iff)
qed

theorem Provision_outcomes_witness:
  "\<exists>mgr'. Provision demoK8s (\<lambda>s. s) (\<lambda>_. True) (\<lambda>_. True) demoManager ''ada'' = (mgr', None) \<and>
     fst ` set (published mgr' ''ada'') = {''web''}"
proof -
  have v: "blueprintValidate demoK8s (mg_document demoManager) = None" "wf_blueprint (mg_document demoManager)"
    "wf_Manager demoManager" "validIdentity ''ada''"
    using demoBlueprint_valid demoBlueprint_wf by (simp_all add: demoManager_def wf_Manager_def, code_simp)
  have w: "bs_Name ` set (bsp_Services (bp_Spec (mg_document demoManager))) = {''web''}"
    by (simp add: demoManager_def demoBlueprint_def Default_def)
  obtain mgr' err where p: "Provision demoK8s (\<lambda>s. s) (\<lambda>_. True) (\<lambda>_. True) demoManager ''ada'' = (mgr', err)"
    by (cases "Provision demoK8s (\<lambda>s. s) (\<lambda>_. True) (\<lambda>_. True) demoManager ''ada''")
  from Provision_outcomes [OF demoK8s_documented v(1-3), where ul = "\<lambda>s. s" and swap = "\<lambda>_. True" and reconciles = "\<lambda>_. True" and identity = "''ada''"] v(4) p w
  show ?thesis by (cases err) auto
qed

definition portlessService :: BlueprintService where
  "portlessService = (hd (bsp_Services (bp_Spec demoBlueprint)))\<lparr>bs_LocalPort := 0\<rparr>"

definition portlessBlueprint :: Blueprint where
  "portlessBlueprint = demoBlueprint\<lparr>bp_Spec := (bp_Spec demoBlueprint)\<lparr>bsp_Services := [portlessService]\<rparr>\<rparr>"

text \<open>
  A blueprint service without a local port is valid and is published with local port 0,
  whereas validation of the same service as a direct grant fills in the target port.
\<close>

theorem omitted_local_port_published_as_zero:
  "blueprintValidate demoK8s portlessBlueprint = None \<and> bsp_Services (bp_Spec portlessBlueprint) = [portlessService] \<and>
   (\<exists>x y. instanceService ul ''team-ada'' portlessService = Inr x \<and> svc_LocalPort x = 0 \<and>
     validateService x = Inr y \<and> svc_LocalPort y = 80)"
proof -
  let ?x = "case instanceService (\<lambda>s. s) ''team-ada'' portlessService of Inr x \<Rightarrow> x"
  have k: "ref_Kind (pol_TargetRef (bs_Scale portlessService)) = ''Deployment''" by code_simp
  have "instanceService ul ''team-ada'' portlessService = instanceService (\<lambda>s. s) ''team-ada'' portlessService"
    by (simp only: instanceService_def k toLower_kinds)
  moreover have "instanceService (\<lambda>s. s) ''team-ada'' portlessService = Inr ?x \<and> svc_LocalPort ?x = 0" by code_simp
  moreover have "\<exists>y. validateService ?x = Inr y \<and> svc_LocalPort y = 80"
    by (rule exI [of _ "case validateService ?x of Inr y \<Rightarrow> y"]) code_simp
  moreover have "blueprintValidate demoK8s portlessBlueprint = None" by code_simp
  moreover have "bsp_Services (bp_Spec portlessBlueprint) = [portlessService]" by (simp add: portlessBlueprint_def)
  ultimately show ?thesis by auto
qed

end
