(* ===== verification/Lifecycle.thy ===== *)
theory Lifecycle
  imports Services
begin

text \<open>
  The lifecycle gateway (\<open>internal/server/lifecycle.go\<close>) with the gauges of
  \<open>internal/server/metrics.go\<close>: it opens connections to granted services, starts a workload
  for the first one, and stops it when it has been idle.

  Every operation on a runtime holds that runtime's mutex from its first to its last
  instruction, so an execution is a sequence of whole operations: \<open>Open\<close>, \<open>Close\<close> of a tracked
  connection, the callback of an idle timer, and the pass of \<open>Shutdown\<close> over one runtime.
  \<open>time.AfterFunc\<close> adds one step of its own: an armed timer fires, and from then on \<open>Stop\<close>
  cannot prevent its callback from running once it gets the mutex.  The policy's answer, the
  scaler's success and the outcome of every dial are inputs.  \<open>gw_calls\<close> records the calls made
  to the scaler backend, in order.
\<close>

datatype svc_type = UnknownService | StaticService | ManagedService

datatype open_result = ResSuccess | ResDenied | ResScalerUnavailable | ResScaleError | ResDialError

datatype timer_state = Armed | Fired | Stopped | Finished

record idle_timer =
  tm_key :: string
  tm_state :: timer_state

record serviceRuntime =
  rt_workload :: "Workload option"
  rt_label :: string
  rt_active :: int
  rt_scaled :: bool
  rt_idleTimer :: "nat option"

record trackedConnection =
  tc_key :: string
  tc_type :: svc_type
  tc_released :: bool

record Metrics =
  mt_managedWorkloads :: int
  mt_activeConnections :: "svc_type \<Rightarrow> int"
  mt_serviceOpens :: "svc_type \<Rightarrow> open_result \<Rightarrow> nat"
  mt_scaleOperations :: "bool \<Rightarrow> bool \<Rightarrow> nat"

record scale_call =
  sc_kind :: string
  sc_namespace :: string
  sc_name :: string
  sc_replicas :: int
  sc_ok :: bool

record lifecycleGateway =
  gw_hasScaler :: bool
  gw_metrics :: "Metrics option"
  gw_runtimes :: "serviceRuntime gomap"
  gw_timers :: "idle_timer list"
  gw_conns :: "trackedConnection list"
  gw_calls :: "scale_call list"

section \<open>Metrics\<close>

definition zero_Metrics :: Metrics where
  "zero_Metrics = \<lparr>mt_managedWorkloads = 0, mt_activeConnections = \<lambda>_. 0,
     mt_serviceOpens = \<lambda>_ _. 0, mt_scaleOperations = \<lambda>_ _. 0\<rparr>"

definition onMetrics :: "(Metrics \<Rightarrow> Metrics) \<Rightarrow> lifecycleGateway \<Rightarrow> lifecycleGateway" where
  "onMetrics f gw = gw\<lparr>gw_metrics := map_option f (gw_metrics gw)\<rparr>"

definition observeServiceOpen :: "svc_type \<Rightarrow> open_result \<Rightarrow> lifecycleGateway \<Rightarrow> lifecycleGateway" where
  "observeServiceOpen ty res = onMetrics (\<lambda>m. m\<lparr>mt_serviceOpens :=
     (mt_serviceOpens m)(ty := (mt_serviceOpens m ty)(res := mt_serviceOpens m ty res + 1))\<rparr>)"

definition connectionOpened :: "svc_type \<Rightarrow> lifecycleGateway \<Rightarrow> lifecycleGateway" where
  "connectionOpened ty = onMetrics (\<lambda>m. m\<lparr>mt_activeConnections :=
     (mt_activeConnections m)(ty := mt_activeConnections m ty + 1)\<rparr>)"

definition connectionClosed :: "svc_type \<Rightarrow> lifecycleGateway \<Rightarrow> lifecycleGateway" where
  "connectionClosed ty = onMetrics (\<lambda>m. m\<lparr>mt_activeConnections :=
     (mt_activeConnections m)(ty := mt_activeConnections m ty - 1)\<rparr>)"

definition observeScale :: "bool \<Rightarrow> bool \<Rightarrow> lifecycleGateway \<Rightarrow> lifecycleGateway" where
  "observeScale up ok = onMetrics (\<lambda>m. m\<lparr>mt_scaleOperations :=
     (mt_scaleOperations m)(up := (mt_scaleOperations m up)(ok := mt_scaleOperations m up ok + 1))\<rparr>)"

definition workloadStarted :: "lifecycleGateway \<Rightarrow> lifecycleGateway" where
  "workloadStarted = onMetrics (\<lambda>m. m\<lparr>mt_managedWorkloads := mt_managedWorkloads m + 1\<rparr>)"

definition workloadStopped :: "lifecycleGateway \<Rightarrow> lifecycleGateway" where
  "workloadStopped = onMetrics (\<lambda>m. m\<lparr>mt_managedWorkloads := mt_managedWorkloads m - 1\<rparr>)"

section \<open>Runtimes and scaling\<close>

definition NewLifecycleGateway :: "bool \<Rightarrow> Metrics option \<Rightarrow> lifecycleGateway" where
  "NewLifecycleGateway hasScaler metrics =
     \<lparr>gw_hasScaler = hasScaler, gw_metrics = metrics, gw_runtimes = [], gw_timers = [], gw_conns = [], gw_calls = []\<rparr>"

definition nul :: char where
  "nul = CHR 0x00"

definition workloadKey :: "Workload \<Rightarrow> string" where
  "workloadKey w = ''workload'' @ nul # wl_Kind w @ nul # wl_Namespace w @ nul # wl_Name w"

definition runtimeKey :: "string \<Rightarrow> Service \<Rightarrow> string" where
  "runtimeKey identity s =
     (case svc_Workload s of
        None \<Rightarrow> identity @ nul # svc_Name s
      | Some w \<Rightarrow> workloadKey w)"

definition emptyRuntime :: serviceRuntime where
  "emptyRuntime = \<lparr>rt_workload = None, rt_label = [], rt_active = 0, rt_scaled = False, rt_idleTimer = None\<rparr>"

definition getRuntime :: "string \<Rightarrow> lifecycleGateway \<Rightarrow> serviceRuntime" where
  "getRuntime key gw = (case map_of (gw_runtimes gw) key of None \<Rightarrow> emptyRuntime | Some r \<Rightarrow> r)"

definition putRuntime :: "string \<Rightarrow> serviceRuntime \<Rightarrow> lifecycleGateway \<Rightarrow> lifecycleGateway" where
  "putRuntime key r gw = gw\<lparr>gw_runtimes := AList.update key r (gw_runtimes gw)\<rparr>"

definition scalerTarget :: "Workload \<Rightarrow> string \<times> string \<times> string" where
  "scalerTarget w = (wl_Kind w, wl_Namespace w, wl_Name w)"

definition scaleWorkload :: "Workload \<Rightarrow> int \<Rightarrow> bool \<Rightarrow> lifecycleGateway \<Rightarrow> lifecycleGateway" where
  "scaleWorkload w replicas ok gw =
     (case scalerTarget w of (k, ns, n) \<Rightarrow>
        observeScale (replicas > 0) ok
          (gw\<lparr>gw_calls := gw_calls gw @ [\<lparr>sc_kind = k, sc_namespace = ns, sc_name = n, sc_replicas = replicas, sc_ok = ok\<rparr>]\<rparr>))"

text \<open>\<open>time.Timer.Stop\<close>: a timer that has fired is past stopping.\<close>

definition stopTimer :: "nat option \<Rightarrow> lifecycleGateway \<Rightarrow> lifecycleGateway" where
  "stopTimer t gw =
     (case t of
        None \<Rightarrow> gw
      | Some i \<Rightarrow>
          if i < length (gw_timers gw) \<and> tm_state (gw_timers gw ! i) = Armed
          then gw\<lparr>gw_timers := (gw_timers gw)[i := (gw_timers gw ! i)\<lparr>tm_state := Stopped\<rparr>]\<rparr>
          else gw)"

section \<open>Dialing\<close>

text \<open>
  The readiness loop: attempt \<open>k\<close> either connects, or the readiness context has expired by the
  time of the \<open>select\<close>, or the ticker starts attempt \<open>k + 1\<close>.  Without an expiry the loop need
  not end, so not returning is \<open>None\<close>.
\<close>

partial_function (option) dialLoop :: "(nat \<Rightarrow> bool) \<Rightarrow> (nat \<Rightarrow> bool) \<Rightarrow> nat \<Rightarrow> bool option" where
  "dialLoop connects expired k =
     (if connects k then Some True
      else if expired k then Some False
      else dialLoop connects expired (Suc k))"

declare dialLoop.simps [code]

definition dialService :: "(nat \<Rightarrow> bool) \<Rightarrow> (nat \<Rightarrow> bool) \<Rightarrow> Service \<Rightarrow> bool option" where
  "dialService connects expired s =
     (case svc_Workload s of
        None \<Rightarrow> Some (connects 0)
      | Some _ \<Rightarrow> dialLoop connects expired 0)"

section \<open>Open\<close>

datatype open_outcome = Denied | ScalerUnavailable | ScaleFailed | DialFailed | Opened nat

definition serviceTypeOf :: "Service \<Rightarrow> svc_type" where
  "serviceTypeOf s = (if svc_Workload s \<noteq> None then ManagedService else StaticService)"

text \<open>Everything up to the dial: \<open>Inl\<close> when \<open>Open\<close> returns before it.\<close>

definition prepareOpen :: "string \<Rightarrow> Service option \<Rightarrow> bool \<Rightarrow> lifecycleGateway \<Rightarrow>
    (lifecycleGateway \<times> open_outcome) + (string \<times> Service \<times> lifecycleGateway)" where
  "prepareOpen identity resolved upOk gw =
     (case resolved of
        None \<Rightarrow> Inl (observeServiceOpen UnknownService ResDenied gw, Denied)
      | Some s \<Rightarrow>
          let ty = serviceTypeOf s;
              key = runtimeKey identity s;
              r = getRuntime key gw;
              r1 = (case svc_Workload s of None \<Rightarrow> r | Some w \<Rightarrow> r\<lparr>rt_workload := Some w\<rparr>);
              r2 = r1\<lparr>rt_label := identity @ ''/'' @ svc_Name s, rt_idleTimer := None\<rparr>;
              gw1 = putRuntime key r2 (stopTimer (rt_idleTimer r) gw)
          in (case svc_Workload s of
                None \<Rightarrow> Inr (key, s, gw1)
              | Some w \<Rightarrow>
                  if rt_scaled r2 then Inr (key, s, gw1)
                  else if \<not> gw_hasScaler gw1
                  then Inl (observeServiceOpen ty ResScalerUnavailable gw1, ScalerUnavailable)
                  else let gw2 = scaleWorkload w (wl_Replicas w) upOk gw1 in
                    if \<not> upOk then Inl (observeServiceOpen ty ResScaleError gw2, ScaleFailed)
                    else Inr (key, s, workloadStarted (putRuntime key (r2\<lparr>rt_scaled := True\<rparr>) gw2))))"

definition finishOpen :: "string \<Rightarrow> Service \<Rightarrow> bool \<Rightarrow> bool \<Rightarrow> lifecycleGateway \<Rightarrow> lifecycleGateway \<times> open_outcome" where
  "finishOpen key s dialOk downOk gw =
     (let ty = serviceTypeOf s; r = getRuntime key gw in
      if \<not> dialOk then
        (observeServiceOpen ty ResDialError
           (case svc_Workload s of
              None \<Rightarrow> gw
            | Some w \<Rightarrow>
                if rt_active r = 0 then
                  (let gw1 = scaleWorkload w 0 downOk gw in
                   if downOk then workloadStopped (putRuntime key (r\<lparr>rt_scaled := False\<rparr>) gw1) else gw1)
                else gw),
         DialFailed)
      else
        (let gw1 = connectionOpened ty (putRuntime key (r\<lparr>rt_active := rt_active r + 1\<rparr>) gw)
         in (observeServiceOpen ty ResSuccess
               (gw1\<lparr>gw_conns := gw_conns gw1 @ [\<lparr>tc_key = key, tc_type = ty, tc_released = False\<rparr>]\<rparr>),
             Opened (length (gw_conns gw)))))"

definition openService :: "string \<Rightarrow> Service option \<Rightarrow> bool \<Rightarrow> (nat \<Rightarrow> bool) \<Rightarrow> (nat \<Rightarrow> bool) \<Rightarrow> bool \<Rightarrow>
    lifecycleGateway \<Rightarrow> (lifecycleGateway \<times> open_outcome) option" where
  "openService identity resolved upOk connects expired downOk gw =
     (case prepareOpen identity resolved upOk gw of
        Inl r \<Rightarrow> Some r
      | Inr (key, s, gw1) \<Rightarrow>
          (case dialService connects expired s of
             None \<Rightarrow> None
           | Some dialOk \<Rightarrow> Some (finishOpen key s dialOk downOk gw1)))"

section \<open>Close, idle timers and shutdown\<close>

definition releaseRuntime :: "string \<Rightarrow> svc_type \<Rightarrow> lifecycleGateway \<Rightarrow> lifecycleGateway" where
  "releaseRuntime key ty gw =
     (let r = getRuntime key gw;
          r1 = (if rt_active r > 0 then r\<lparr>rt_active := rt_active r - 1\<rparr> else r);
          gw1 = (if rt_active r > 0 then connectionClosed ty gw else gw)
      in if rt_active r1 \<noteq> 0 \<or> rt_workload r1 = None \<or> \<not> rt_scaled r1 then putRuntime key r1 gw1
         else putRuntime key (r1\<lparr>rt_idleTimer := Some (length (gw_timers gw1))\<rparr>)
           (gw1\<lparr>gw_timers := gw_timers gw1 @ [\<lparr>tm_key = key, tm_state = Armed\<rparr>]\<rparr>))"

definition closeConnection :: "nat \<Rightarrow> lifecycleGateway \<Rightarrow> lifecycleGateway" where
  "closeConnection i gw =
     (let c = gw_conns gw ! i in
      if i < length (gw_conns gw) \<and> \<not> tc_released c
      then releaseRuntime (tc_key c) (tc_type c) (gw\<lparr>gw_conns := (gw_conns gw)[i := c\<lparr>tc_released := True\<rparr>]\<rparr>)
      else gw)"

definition fireTimer :: "nat \<Rightarrow> lifecycleGateway \<Rightarrow> lifecycleGateway" where
  "fireTimer i gw =
     (if i < length (gw_timers gw) \<and> tm_state (gw_timers gw ! i) = Armed
      then gw\<lparr>gw_timers := (gw_timers gw)[i := (gw_timers gw ! i)\<lparr>tm_state := Fired\<rparr>]\<rparr>
      else gw)"

text \<open>
  The callback of a fired timer.  The source dereferences \<open>runtime.workload\<close>; that it is set
  whenever the callback gets that far is part of the invariant.
\<close>

definition idleCallback :: "nat \<Rightarrow> bool \<Rightarrow> lifecycleGateway \<Rightarrow> lifecycleGateway" where
  "idleCallback i downOk gw =
     (if i < length (gw_timers gw) \<and> tm_state (gw_timers gw ! i) = Fired then
        (let t = gw_timers gw ! i;
             key = tm_key t;
             gw1 = gw\<lparr>gw_timers := (gw_timers gw)[i := t\<lparr>tm_state := Finished\<rparr>]\<rparr>;
             r = getRuntime key gw1
         in if rt_active r \<noteq> 0 \<or> \<not> rt_scaled r then gw1
            else (case rt_workload r of
              None \<Rightarrow> gw1
            | Some w \<Rightarrow>
                let gw2 = scaleWorkload w 0 downOk gw1 in
                if \<not> downOk then gw2
                else workloadStopped (putRuntime key (r\<lparr>rt_scaled := False, rt_idleTimer := None\<rparr>) gw2)))
      else gw)"

definition shutdownRuntime :: "string \<Rightarrow> bool \<Rightarrow> lifecycleGateway \<Rightarrow> lifecycleGateway \<times> bool" where
  "shutdownRuntime key downOk gw =
     (let r = getRuntime key gw;
          r1 = r\<lparr>rt_idleTimer := None\<rparr>;
          gw1 = putRuntime key r1 (stopTimer (rt_idleTimer r) gw)
      in (case rt_workload r1 of
            None \<Rightarrow> (gw1, True)
          | Some w \<Rightarrow>
              if rt_scaled r1 then
                (let gw2 = scaleWorkload w 0 downOk gw1 in
                 if downOk then (workloadStopped (putRuntime key (r1\<lparr>rt_scaled := False\<rparr>) gw2), True)
                 else (gw2, False))
              else (gw1, True)))"

text \<open>\<open>Shutdown\<close> visits the runtimes in map order and reports the first failure.\<close>

fun shutdownAll :: "(string \<Rightarrow> bool) \<Rightarrow> string list \<Rightarrow> lifecycleGateway \<Rightarrow> string option \<Rightarrow> lifecycleGateway \<times> string option" where
  "shutdownAll downOk [] gw firstError = (gw, firstError)"
| "shutdownAll downOk (k # ks) gw firstError =
     (case shutdownRuntime k (downOk k) gw of
        (gw1, ok) \<Rightarrow> shutdownAll downOk ks gw1 (if \<not> ok \<and> firstError = None then Some k else firstError))"

definition Shutdown :: "(string \<Rightarrow> bool) \<Rightarrow> lifecycleGateway \<Rightarrow> lifecycleGateway \<times> string option" where
  "Shutdown downOk gw = shutdownAll downOk (map fst (gw_runtimes gw)) gw None"

end
