(* ===== verification/Lifecycle_Invariants.thy ===== *)
theory Lifecycle_Invariants
  imports Lifecycle
begin

text \<open>
  Invariants of the lifecycle gateway, proved operation by operation and then for every reachable
  state: the connection counts and gauges (\<open>gateway_inv\<close>), the idle timer of every unused workload
  when scale-downs succeed (\<open>idle_inv\<close>), the calls made to the scaler (\<open>serve_calls\<close>) and the
  agreement between the \<open>scaled\<close> flags and what the backend was told (\<open>agree\<close>).
\<close>

section \<open>Projections\<close>

lemmas metric_defs = onMetrics_def observeServiceOpen_def connectionOpened_def connectionClosed_def
  observeScale_def workloadStarted_def workloadStopped_def

lemma onMetrics_proj [simp]:
  "gw_hasScaler (onMetrics f gw) = gw_hasScaler gw" "gw_runtimes (onMetrics f gw) = gw_runtimes gw"
  "gw_timers (onMetrics f gw) = gw_timers gw" "gw_conns (onMetrics f gw) = gw_conns gw"
  "gw_calls (onMetrics f gw) = gw_calls gw" "gw_metrics (onMetrics f gw) = map_option f (gw_metrics gw)"
  by (simp_all add: onMetrics_def)

lemma scaleWorkload_proj [simp]:
  "gw_hasScaler (scaleWorkload w n ok gw) = gw_hasScaler gw" "gw_runtimes (scaleWorkload w n ok gw) = gw_runtimes gw"
  "gw_timers (scaleWorkload w n ok gw) = gw_timers gw" "gw_conns (scaleWorkload w n ok gw) = gw_conns gw"
  by (simp_all add: scaleWorkload_def observeScale_def scalerTarget_def)

lemma putRuntime_proj [simp]:
  "gw_hasScaler (putRuntime k r gw) = gw_hasScaler gw" "gw_metrics (putRuntime k r gw) = gw_metrics gw"
  "gw_timers (putRuntime k r gw) = gw_timers gw" "gw_conns (putRuntime k r gw) = gw_conns gw"
  "gw_calls (putRuntime k r gw) = gw_calls gw" "gw_runtimes (putRuntime k r gw) = AList.update k r (gw_runtimes gw)"
  by (simp_all add: putRuntime_def)

lemma timer_keys [simp]: "map tm_key (ts[i := (ts ! i)\<lparr>tm_state := s\<rparr>]) = map tm_key ts"
proof (cases "i < length ts")
  case True
  then have "(map tm_key ts)[i := tm_key (ts ! i)] = map tm_key ts"
    by (metis list_update_id nth_map)
  then show ?thesis by (simp add: map_update)
qed (simp only: not_less list_update_beyond)

lemma stopTimer_proj [simp]:
  "gw_hasScaler (stopTimer t gw) = gw_hasScaler gw" "gw_metrics (stopTimer t gw) = gw_metrics gw"
  "gw_runtimes (stopTimer t gw) = gw_runtimes gw" "gw_conns (stopTimer t gw) = gw_conns gw"
  "gw_calls (stopTimer t gw) = gw_calls gw" "map tm_key (gw_timers (stopTimer t gw)) = map tm_key (gw_timers gw)"
  by (auto simp: stopTimer_def split: option.split)

lemma getRuntime_put: "getRuntime k (putRuntime k' r gw) = (if k = k' then r else getRuntime k gw)"
  by (simp add: getRuntime_def)

lemma getRuntime_cong: "gw_runtimes gw = gw_runtimes gw' \<Longrightarrow> getRuntime k gw = getRuntime k gw'"
  by (simp add: getRuntime_def)

lemma getRuntime_proj [simp]:
  "getRuntime k (onMetrics f gw) = getRuntime k gw" "getRuntime k (scaleWorkload w n ok gw) = getRuntime k gw"
  "getRuntime k (stopTimer t gw) = getRuntime k gw" "getRuntime k (gw\<lparr>gw_timers := ts\<rparr>) = getRuntime k gw"
  "getRuntime k (gw\<lparr>gw_conns := cs\<rparr>) = getRuntime k gw"
  by (simp_all add: getRuntime_def)

section \<open>The invariant\<close>

definition unreleased :: "(trackedConnection \<Rightarrow> bool) \<Rightarrow> lifecycleGateway \<Rightarrow> int" where
  "unreleased P gw = int (length (filter (\<lambda>c. P c \<and> \<not> tc_released c) (gw_conns gw)))"

definition scaledCount :: "lifecycleGateway \<Rightarrow> int" where
  "scaledCount gw = sum_list (map ((\<lambda>r. if rt_scaled r then 1 else 0) \<circ> snd) (gw_runtimes gw))"

text \<open>What holds of one runtime.\<close>

definition runtime_ok :: "lifecycleGateway \<Rightarrow> string \<Rightarrow> serviceRuntime \<Rightarrow> bool" where
  "runtime_ok gw k r \<longleftrightarrow>
     rt_active r = unreleased (\<lambda>c. tc_key c = k) gw \<and>
     (rt_scaled r \<longrightarrow> rt_workload r \<noteq> None \<and> gw_hasScaler gw) \<and>
     (\<forall>w. rt_workload r = Some w \<longrightarrow> workloadKey w = k) \<and>
     (\<forall>t. rt_idleTimer r = Some t \<longrightarrow>
        t < length (gw_timers gw) \<and> tm_key (gw_timers gw ! t) = k \<and> rt_active r = 0 \<and> rt_scaled r)"

definition gauges_ok :: "lifecycleGateway \<Rightarrow> bool" where
  "gauges_ok gw \<longleftrightarrow>
     (\<forall>m. gw_metrics gw = Some m \<longrightarrow>
        mt_managedWorkloads m = scaledCount gw \<and>
        (\<forall>ty. mt_activeConnections m ty = unreleased (\<lambda>c. tc_type c = ty) gw))"

definition gateway_inv :: "lifecycleGateway \<Rightarrow> bool" where
  "gateway_inv gw \<longleftrightarrow> distinct (map fst (gw_runtimes gw)) \<and> gauges_ok gw \<and>
     (\<forall>k. runtime_ok gw k (getRuntime k gw))"

lemma scaledCount_put:
  assumes "distinct (map fst (gw_runtimes gw))"
  shows "scaledCount (putRuntime k r gw) =
    scaledCount gw + (if rt_scaled r then 1 else 0) - (if rt_scaled (getRuntime k gw) then 1 else 0)"
  using sum_list_update [OF assms, of "\<lambda>r. if rt_scaled r then 1 else 0" k r]
  by (auto simp: scaledCount_def getRuntime_def emptyRuntime_def split: option.split)

lemma scaledCount_cong: "gw_runtimes gw = gw_runtimes gw' \<Longrightarrow> scaledCount gw = scaledCount gw'"
  by (simp add: scaledCount_def)

lemma unreleased_cong: "gw_conns gw = gw_conns gw' \<Longrightarrow> unreleased P gw = unreleased P gw'"
  by (simp add: unreleased_def)

lemma runtime_ok_cong:
  assumes "gw_conns gw = gw_conns gw'" "gw_hasScaler gw = gw_hasScaler gw'"
    "map tm_key (gw_timers gw) = map tm_key (gw_timers gw')"
  shows "runtime_ok gw k r = runtime_ok gw' k r"
proof -
  have "length (gw_timers gw) = length (gw_timers gw')" using assms(3) by (metis length_map)
  moreover have "t < length (gw_timers gw') \<Longrightarrow> tm_key (gw_timers gw ! t) = tm_key (gw_timers gw' ! t)" for t
    using assms(3) calculation by (metis nth_map)
  ultimately show ?thesis
    using assms(1,2) unreleased_cong [of gw gw'] by (auto simp: runtime_ok_def)
qed

lemma unreleased_nonneg: "0 \<le> unreleased P gw"
  by (simp add: unreleased_def)

lemma runtime_ok_nonneg: "runtime_ok gw k r \<Longrightarrow> 0 \<le> rt_active r"
  using unreleased_nonneg by (simp add: runtime_ok_def)

text \<open>Replacing one runtime, with the managed gauge following its \<open>scaled\<close> flag.\<close>

lemma inv_put:
  assumes "gateway_inv gw" "runtime_ok gw k r"
    and "gw_hasScaler gw' = gw_hasScaler gw" "gw_conns gw' = gw_conns gw"
    and "map tm_key (gw_timers gw') = map tm_key (gw_timers gw)"
    and "gw_runtimes gw' = AList.update k r (gw_runtimes gw)"
    and "\<And>m'. gw_metrics gw' = Some m' \<Longrightarrow> \<exists>m. gw_metrics gw = Some m \<and>
      mt_activeConnections m' = mt_activeConnections m \<and>
      mt_managedWorkloads m' = mt_managedWorkloads m + (if rt_scaled r then 1 else 0) - (if rt_scaled (getRuntime k gw) then 1 else 0)"
  shows "gateway_inv gw'"
proof -
  have d: "distinct (map fst (gw_runtimes gw))" and g: "gauges_ok gw" and ro: "\<forall>k. runtime_ok gw k (getRuntime k gw)"
    using assms(1) by (simp_all add: gateway_inv_def)
  have gr: "getRuntime k' gw' = (if k' = k then r else getRuntime k' gw)" for k'
    using assms(6) by (simp add: getRuntime_def)
  have rc: "runtime_ok gw' k' r' = runtime_ok gw k' r'" for k' r'
    using runtime_ok_cong [of gw' gw] assms(3-5) by simp
  have sc: "scaledCount gw' = scaledCount gw + (if rt_scaled r then 1 else 0) - (if rt_scaled (getRuntime k gw) then 1 else 0)"
    using scaledCount_put [OF d, of k r] scaledCount_cong [of gw' "putRuntime k r gw"] assms(6) by simp
  have "gauges_ok gw'"
    unfolding gauges_ok_def
  proof (intro allI impI)
    fix m' assume "gw_metrics gw' = Some m'"
    then obtain m where m: "gw_metrics gw = Some m" "mt_activeConnections m' = mt_activeConnections m"
      "mt_managedWorkloads m' = mt_managedWorkloads m + (if rt_scaled r then 1 else 0) - (if rt_scaled (getRuntime k gw) then 1 else 0)"
      using assms(7) by blast
    then show "mt_managedWorkloads m' = scaledCount gw' \<and>
        (\<forall>ty. mt_activeConnections m' ty = unreleased (\<lambda>c. tc_type c = ty) gw')"
      using g sc unreleased_cong [OF assms(4)] by (simp add: gauges_ok_def)
  qed
  moreover have "distinct (map fst (gw_runtimes gw'))" using d assms(6) by simp
  moreover have "runtime_ok gw' k' (getRuntime k' gw')" for k'
    using ro assms(2) by (simp add: gr rc)
  ultimately show ?thesis by (simp add: gateway_inv_def)
qed

text \<open>Changes that touch neither runtimes nor connections.\<close>

lemma inv_quiet:
  assumes "gateway_inv gw"
    and "gw_hasScaler gw' = gw_hasScaler gw" "gw_conns gw' = gw_conns gw" "gw_runtimes gw' = gw_runtimes gw"
    and "map tm_key (gw_timers gw') = map tm_key (gw_timers gw)"
    and "\<And>m'. gw_metrics gw' = Some m' \<Longrightarrow> \<exists>m. gw_metrics gw = Some m \<and>
      mt_activeConnections m' = mt_activeConnections m \<and> mt_managedWorkloads m' = mt_managedWorkloads m"
  shows "gateway_inv gw'"
proof -
  have "runtime_ok gw' k r = runtime_ok gw k r" for k r
    using runtime_ok_cong [of gw' gw] assms(2,3,5) by simp
  moreover have "getRuntime k gw' = getRuntime k gw" for k by (rule getRuntime_cong [OF assms(4)])
  moreover have "gauges_ok gw'"
    using assms(1,6) scaledCount_cong [OF assms(4)] unreleased_cong [OF assms(3)]
    by (fastforce simp: gateway_inv_def gauges_ok_def)
  ultimately show ?thesis using assms(1,4) by (simp add: gateway_inv_def)
qed

lemma inv_observe [simp]: "gateway_inv gw \<Longrightarrow> gateway_inv (observeServiceOpen ty res gw)"
  by (rule inv_quiet) (auto simp: observeServiceOpen_def)

lemma inv_scale [simp]: "gateway_inv gw \<Longrightarrow> gateway_inv (scaleWorkload w n ok gw)"
  by (rule inv_quiet) (auto simp: scaleWorkload_def scalerTarget_def observeScale_def)

lemma inv_stopTimer [simp]: "gateway_inv gw \<Longrightarrow> gateway_inv (stopTimer t gw)"
  by (rule inv_quiet) auto

lemma inv_new: "metrics = None \<or> metrics = Some zero_Metrics \<Longrightarrow> gateway_inv (NewLifecycleGateway b metrics)"
  by (auto simp: gateway_inv_def gauges_ok_def NewLifecycleGateway_def scaledCount_def unreleased_def
      runtime_ok_def getRuntime_def emptyRuntime_def zero_Metrics_def)

section \<open>Every operation preserves the invariant\<close>

lemma runtime_ok_get: "gateway_inv gw \<Longrightarrow> runtime_ok gw k (getRuntime k gw)"
  by (simp add: gateway_inv_def)

text \<open>The runtime as \<open>Open\<close> prepares it: workload and label set, idle timer dropped.\<close>

lemma prepared_runtime_ok:
  assumes "gateway_inv gw" "key = runtimeKey identity s"
  defines "r \<equiv> getRuntime key gw"
  shows "runtime_ok gw key ((case svc_Workload s of None \<Rightarrow> r | Some w \<Rightarrow> r\<lparr>rt_workload := Some w\<rparr>)
      \<lparr>rt_label := l, rt_idleTimer := None\<rparr>)"
  using runtime_ok_get [OF assms(1), of key] assms(2)
  by (auto simp: runtime_ok_def r_def runtimeKey_def split: option.splits)

lemma prepareOpen_inv:
  assumes "gateway_inv gw"
  shows "case prepareOpen identity resolved upOk gw of
    Inl (gw', _) \<Rightarrow> gateway_inv gw'
  | Inr (key, s, gw') \<Rightarrow> gateway_inv gw' \<and> resolved = Some s \<and> key = runtimeKey identity s \<and>
      rt_idleTimer (getRuntime key gw') = None \<and>
      (svc_Workload s \<noteq> None \<longrightarrow> rt_scaled (getRuntime key gw') \<and> rt_workload (getRuntime key gw') = svc_Workload s)"
proof (cases resolved)
  case None
  then show ?thesis using assms by (simp add: prepareOpen_def)
next
  case (Some s)
  let ?key = "runtimeKey identity s"
  let ?r = "getRuntime ?key gw"
  let ?r2 = "(case svc_Workload s of None \<Rightarrow> ?r | Some w \<Rightarrow> ?r\<lparr>rt_workload := Some w\<rparr>)
      \<lparr>rt_label := identity @ ''/'' @ svc_Name s, rt_idleTimer := None\<rparr>"
  let ?gw1 = "putRuntime ?key ?r2 (stopTimer (rt_idleTimer ?r) gw)"
  have r2: "runtime_ok gw ?key ?r2" by (rule prepared_runtime_ok [OF assms refl])
  have sc: "rt_scaled ?r2 = rt_scaled ?r" by (simp split: option.split)
  have i1: "gateway_inv ?gw1"
    by (rule inv_put [OF assms r2]) (use sc in auto)
  show ?thesis
  proof (cases "svc_Workload s")
    case None
    then show ?thesis using Some i1 by (simp add: prepareOpen_def Let_def getRuntime_put)
  next
    case w: (Some w)
    show ?thesis
    proof (cases "rt_scaled ?r \<or> \<not> gw_hasScaler gw \<or> \<not> upOk")
      case True
      then show ?thesis using Some w i1 by (auto simp: prepareOpen_def Let_def getRuntime_put)
    next
      case False
      let ?gw2 = "scaleWorkload w (wl_Replicas w) True ?gw1"
      have i2: "gateway_inv ?gw2" by (rule inv_scale [OF i1])
      have ok: "runtime_ok ?gw2 ?key (?r2\<lparr>rt_scaled := True\<rparr>)"
        using runtime_ok_get [OF i2, of ?key] False w
        by (auto simp: runtime_ok_def getRuntime_put)
      have "gateway_inv (workloadStarted (putRuntime ?key (?r2\<lparr>rt_scaled := True\<rparr>) ?gw2))"
        by (rule inv_put [OF i2 ok])
          (use False sc w in \<open>auto simp: workloadStarted_def getRuntime_put\<close>)
      then show ?thesis
        using Some w False
        by (simp add: prepareOpen_def Let_def getRuntime_put workloadStarted_def)
    qed
  qed
qed

lemma finishOpen_inv:
  assumes "gateway_inv gw" "key = runtimeKey identity s" "rt_idleTimer (getRuntime key gw) = None"
    and "svc_Workload s \<noteq> None \<Longrightarrow> rt_scaled (getRuntime key gw)"
  shows "gateway_inv (fst (finishOpen key s dialOk downOk gw))"
proof (cases dialOk)
  case False
  let ?r = "getRuntime key gw"
  have "gateway_inv (workloadStopped (putRuntime key (?r\<lparr>rt_scaled := False\<rparr>) (scaleWorkload w 0 True gw)))"
    if "svc_Workload s = Some w" for w
  proof (rule inv_put)
    show i: "gateway_inv (scaleWorkload w 0 True gw)" by (rule inv_scale [OF assms(1)])
    show "runtime_ok (scaleWorkload w 0 True gw) key (?r\<lparr>rt_scaled := False\<rparr>)"
      using runtime_ok_get [OF i, of key] assms(3) by (simp add: runtime_ok_def)
  qed (use assms(4) that in \<open>auto simp: workloadStopped_def\<close>)
  then show ?thesis
    using False assms(1) by (auto simp: finishOpen_def Let_def split: option.split)
next
  case True
  let ?r = "getRuntime key gw" and ?ty = "serviceTypeOf s"
  let ?c = "\<lparr>tc_key = key, tc_type = ?ty, tc_released = False\<rparr>"
  let ?gw1 = "connectionOpened ?ty (putRuntime key (?r\<lparr>rt_active := rt_active ?r + 1\<rparr>) gw)"
  let ?gw2 = "?gw1\<lparr>gw_conns := gw_conns ?gw1 @ [?c]\<rparr>"
  define gw2 where "gw2 = ?gw2"
  have pr: "gw_hasScaler gw2 = gw_hasScaler gw" "gw_timers gw2 = gw_timers gw" "gw_conns gw2 = gw_conns gw @ [?c]"
    "gw_runtimes gw2 = AList.update key (?r\<lparr>rt_active := rt_active ?r + 1\<rparr>) (gw_runtimes gw)"
    "gw_metrics gw2 = map_option (\<lambda>m. m\<lparr>mt_activeConnections :=
       (mt_activeConnections m)(?ty := mt_activeConnections m ?ty + 1)\<rparr>) (gw_metrics gw)"
    by (simp_all add: gw2_def connectionOpened_def)
  have u: "unreleased P gw2 = unreleased P gw + (if P ?c then 1 else 0)" for P
    by (simp add: unreleased_def pr)
  have d: "distinct (map fst (gw_runtimes gw))" and g: "gauges_ok gw" using assms(1) by (simp_all add: gateway_inv_def)
  have sc: "scaledCount gw2 = scaledCount gw"
    using scaledCount_put [OF d, of key "?r\<lparr>rt_active := rt_active ?r + 1\<rparr>"]
    by (simp add: scaledCount_def pr)
  have gr: "getRuntime k gw2 = (if k = key then ?r\<lparr>rt_active := rt_active ?r + 1\<rparr> else getRuntime k gw)" for k
    by (simp add: getRuntime_def pr)
  have "gauges_ok gw2"
    using g u sc by (auto simp: gauges_ok_def pr)
  moreover have "runtime_ok gw2 k (getRuntime k gw2)" for k
    using runtime_ok_get [OF assms(1), of k] assms(3) u
    by (auto simp: runtime_ok_def gr pr(1,2))
  ultimately have "gateway_inv gw2" using d by (simp add: gateway_inv_def pr)
  then have "gateway_inv ?gw2" by (simp add: gw2_def)
  then show ?thesis using True by (simp add: finishOpen_def Let_def)
qed

lemma openService_inv:
  assumes "gateway_inv gw" "openService identity resolved upOk connects expired downOk gw = Some (gw', r)"
  shows "gateway_inv gw'"
proof (cases "prepareOpen identity resolved upOk gw")
  case (Inl p)
  then show ?thesis using prepareOpen_inv [OF assms(1), where identity = identity and resolved = resolved and upOk = upOk] assms(2)
    by (auto simp: openService_def split: prod.splits)
next
  case (Inr p)
  obtain key s gw1 where p: "p = (key, s, gw1)" by (cases p)
  note i = prepareOpen_inv [OF assms(1), where identity = identity and resolved = resolved and upOk = upOk, unfolded Inr p, simplified]
  obtain dialOk where "finishOpen key s dialOk downOk gw1 = (gw', r)"
    using assms(2) Inr p by (auto simp: openService_def split: option.splits)
  moreover have "gateway_inv (fst (finishOpen key s dialOk downOk gw1))"
    by (rule finishOpen_inv [where identity = identity]) (use i in auto)
  ultimately show ?thesis by simp
qed

lemma unreleased_release:
  assumes "i < length cs" "\<not> tc_released (cs ! i)" "gw_conns gw = cs"
    and "gw_conns gw' = cs[i := (cs ! i)\<lparr>tc_released := True\<rparr>]"
    and "\<And>c. P (c\<lparr>tc_released := True\<rparr>) = P c"
  shows "unreleased P gw' = unreleased P gw - (if P (cs ! i) then 1 else 0)"
proof -
  have cs: "cs = take i cs @ cs ! i # drop (Suc i) cs" using assms(1) by (rule id_take_nth_drop)
  have up: "cs[i := (cs ! i)\<lparr>tc_released := True\<rparr>] = take i cs @ (cs ! i)\<lparr>tc_released := True\<rparr> # drop (Suc i) cs"
    using assms(1) by (rule upd_conv_take_nth_drop)
  have "filter (\<lambda>c. P c \<and> \<not> tc_released c) cs =
      filter (\<lambda>c. P c \<and> \<not> tc_released c) (take i cs) @
      (if P (cs ! i) then [cs ! i] else []) @ filter (\<lambda>c. P c \<and> \<not> tc_released c) (drop (Suc i) cs)"
    by (subst cs) (use assms(2) in simp)
  then show ?thesis by (simp add: unreleased_def assms(3,4) up)
qed

lemma closeConnection_inv:
  assumes "gateway_inv gw"
  shows "gateway_inv (closeConnection i gw)"
proof (cases "i < length (gw_conns gw) \<and> \<not> tc_released (gw_conns gw ! i)")
  case False
  then show ?thesis using assms by (auto simp: closeConnection_def Let_def)
next
  case True
  let ?c = "gw_conns gw ! i"
  let ?key = "tc_key ?c" and ?ty = "tc_type ?c"
  let ?r = "getRuntime ?key gw"
  define gw' where "gw' = closeConnection i gw"
  have ro: "runtime_ok gw ?key ?r" by (rule runtime_ok_get [OF assms])
  have "?c \<in> set (gw_conns gw)" using True by simp
  then have pos: "0 < rt_active ?r"
    using ro True by (force simp: runtime_ok_def unreleased_def filter_empty_conv)
  then have noT: "rt_idleTimer ?r = None" using ro by (cases "rt_idleTimer ?r") (auto simp: runtime_ok_def)
  let ?arm = "rt_active ?r = 1 \<and> rt_workload ?r \<noteq> None \<and> rt_scaled ?r"
  let ?r' = "?r\<lparr>rt_active := rt_active ?r - 1, rt_idleTimer := (if ?arm then Some (length (gw_timers gw)) else None)\<rparr>"
  have same: "?r\<lparr>rt_active := n\<rparr> = ?r\<lparr>rt_active := n, rt_idleTimer := None\<rparr>" for n
    using noT by (cases ?r) simp
  have pr: "gw_hasScaler gw' = gw_hasScaler gw"
    "gw_timers gw' = gw_timers gw @ (if ?arm then [\<lparr>tm_key = ?key, tm_state = Armed\<rparr>] else [])"
    "gw_conns gw' = (gw_conns gw)[i := ?c\<lparr>tc_released := True\<rparr>]"
    "gw_runtimes gw' = AList.update ?key ?r' (gw_runtimes gw)"
    "gw_metrics gw' = map_option (\<lambda>m. m\<lparr>mt_activeConnections :=
       (mt_activeConnections m)(?ty := mt_activeConnections m ?ty - 1)\<rparr>) (gw_metrics gw)"
    using True pos same
    by (auto simp: gw'_def closeConnection_def releaseRuntime_def Let_def connectionClosed_def)
  have u: "unreleased P gw' = unreleased P gw - (if P ?c then 1 else 0)"
    if "\<And>c. P (c\<lparr>tc_released := True\<rparr>) = P c" for P
    using unreleased_release [of i "gw_conns gw" gw gw' P] True pr(3) that by simp
  have d: "distinct (map fst (gw_runtimes gw))" and g: "gauges_ok gw" using assms by (simp_all add: gateway_inv_def)
  have sc: "scaledCount gw' = scaledCount gw"
    using scaledCount_put [OF d, of ?key ?r'] by (simp add: scaledCount_def pr(4))
  have gr: "getRuntime k gw' = (if k = ?key then ?r' else getRuntime k gw)" for k
    by (simp add: getRuntime_def pr(4))
  have "gauges_ok gw'"
    using g u [of "\<lambda>c. tc_type c = _"] sc by (auto simp: gauges_ok_def pr(5))
  moreover have "runtime_ok gw' k (getRuntime k gw')" for k
    using runtime_ok_get [OF assms, of k] u [of "\<lambda>c. tc_key c = k"]
    by (auto simp: runtime_ok_def gr pr(1,2) nth_append)
  ultimately show ?thesis using d by (simp add: gateway_inv_def pr(4) flip: gw'_def)
qed

lemma fireTimer_inv: "gateway_inv gw \<Longrightarrow> gateway_inv (fireTimer i gw)"
  by (erule inv_quiet) (auto simp: fireTimer_def split: if_splits)

lemma downscale_inv:
  assumes "gateway_inv gw" "rt_scaled (getRuntime key gw)"
  shows "gateway_inv (workloadStopped (putRuntime key ((getRuntime key gw)\<lparr>rt_scaled := False, rt_idleTimer := None\<rparr>)
      (scaleWorkload w 0 ok gw)))"
proof (rule inv_put)
  show i: "gateway_inv (scaleWorkload w 0 ok gw)" by (rule inv_scale [OF assms(1)])
  show "runtime_ok (scaleWorkload w 0 ok gw) key ((getRuntime key gw)\<lparr>rt_scaled := False, rt_idleTimer := None\<rparr>)"
    using runtime_ok_get [OF i, of key] by (simp add: runtime_ok_def)
qed (use assms(2) in \<open>auto simp: workloadStopped_def\<close>)

lemma idleCallback_inv:
  assumes "gateway_inv gw"
  shows "gateway_inv (idleCallback i ok gw)"
proof (cases "i < length (gw_timers gw) \<and> tm_state (gw_timers gw ! i) = Fired")
  case False
  then show ?thesis using assms by (auto simp: idleCallback_def)
next
  case True
  let ?gw1 = "gw\<lparr>gw_timers := (gw_timers gw)[i := (gw_timers gw ! i)\<lparr>tm_state := Finished\<rparr>]\<rparr>"
  have i1: "gateway_inv ?gw1" by (rule inv_quiet [OF assms]) auto
  with True downscale_inv [OF i1] show ?thesis
    by (auto simp: idleCallback_def Let_def split: option.split)
qed

lemma runtime_update_swap: "r\<lparr>rt_idleTimer := t, rt_scaled := b\<rparr> = (r :: serviceRuntime)\<lparr>rt_scaled := b, rt_idleTimer := t\<rparr>"
  by (cases r) simp

lemma shutdownRuntime_inv:
  assumes "gateway_inv gw"
  shows "gateway_inv (fst (shutdownRuntime key ok gw))"
proof -
  let ?r = "getRuntime key gw"
  let ?gw1 = "putRuntime key (?r\<lparr>rt_idleTimer := None\<rparr>) (stopTimer (rt_idleTimer ?r) gw)"
  have "runtime_ok gw key (?r\<lparr>rt_idleTimer := None\<rparr>)"
    using runtime_ok_get [OF assms, of key] by (simp add: runtime_ok_def)
  then have i1: "gateway_inv ?gw1" by (rule inv_put [OF assms]) auto
  have g: "getRuntime key ?gw1 = ?r\<lparr>rt_idleTimer := None\<rparr>" by (simp add: getRuntime_put)
  from i1 downscale_inv [OF i1, of key] show ?thesis
    by (auto simp: shutdownRuntime_def Let_def getRuntime_put runtime_update_swap split: option.split)
qed

lemma shutdownAll_inv: "gateway_inv gw \<Longrightarrow> gateway_inv (fst (shutdownAll ok ks gw e))"
proof (induction ks arbitrary: gw e)
  case (Cons k ks)
  obtain gw1 b where s: "shutdownRuntime k (ok k) gw = (gw1, b)" by force
  with shutdownRuntime_inv [OF Cons.prems, of k "ok k"] Cons.IH show ?case by simp
qed simp

section \<open>Executions\<close>

text \<open>
  One step of the serving gateway, and of the gateway that may also shut down.  \<open>svcs identity s\<close>
  says that the policy may resolve a name of that identity to \<open>s\<close>; \<open>reliable\<close> restricts the
  environment to successful scale-downs.
\<close>

inductive serve :: "(string \<Rightarrow> Service \<Rightarrow> bool) \<Rightarrow> bool \<Rightarrow> lifecycleGateway \<Rightarrow> lifecycleGateway \<Rightarrow> bool"
  for svcs reliable where
  open_step: "openService identity resolved upOk connects expired downOk gw = Some (gw', r) \<Longrightarrow>
     (\<And>s. resolved = Some s \<Longrightarrow> svcs identity s) \<Longrightarrow> (reliable \<Longrightarrow> downOk) \<Longrightarrow> serve svcs reliable gw gw'"
| close_step: "serve svcs reliable gw (closeConnection i gw)"
| fire_step: "serve svcs reliable gw (fireTimer i gw)"
| idle_step: "(reliable \<Longrightarrow> downOk) \<Longrightarrow> serve svcs reliable gw (idleCallback i downOk gw)"

inductive step :: "(string \<Rightarrow> Service \<Rightarrow> bool) \<Rightarrow> bool \<Rightarrow> lifecycleGateway \<Rightarrow> lifecycleGateway \<Rightarrow> bool"
  for svcs reliable where
  serve_step: "serve svcs reliable gw gw' \<Longrightarrow> step svcs reliable gw gw'"
| shutdown_step: "(reliable \<Longrightarrow> downOk) \<Longrightarrow> step svcs reliable gw (fst (shutdownRuntime key downOk gw))"

inductive reachable :: "(string \<Rightarrow> Service \<Rightarrow> bool) \<Rightarrow> bool \<Rightarrow> bool \<Rightarrow> lifecycleGateway \<Rightarrow> bool"
  for svcs reliable hasScaler where
  start: "reachable svcs reliable hasScaler (NewLifecycleGateway hasScaler (Some zero_Metrics))"
| more: "reachable svcs reliable hasScaler gw \<Longrightarrow> step svcs reliable gw gw' \<Longrightarrow> reachable svcs reliable hasScaler gw'"

inductive_cases stepE: "step svcs reliable gw gw'"

lemma serve_inv: "serve svcs reliable gw gw' \<Longrightarrow> gateway_inv gw \<Longrightarrow> gateway_inv gw'"
  by (induction rule: serve.induct)
    (auto intro: openService_inv closeConnection_inv fireTimer_inv idleCallback_inv)

lemma step_inv: "step svcs reliable gw gw' \<Longrightarrow> gateway_inv gw \<Longrightarrow> gateway_inv gw'"
  by (induction rule: step.induct) (auto intro: serve_inv shutdownRuntime_inv)

lemma reachable_inv: "reachable svcs reliable hasScaler gw \<Longrightarrow> gateway_inv gw"
  by (induction rule: reachable.induct) (auto intro: inv_new step_inv)

section \<open>Keys\<close>

definition nuls :: "string \<Rightarrow> nat" where
  "nuls s = length (filter (\<lambda>c. c = nul) s)"

lemma nuls_static: "nul \<notin> set identity \<Longrightarrow> nul \<notin> set name \<Longrightarrow> nuls (identity @ nul # name) = 1"
  by (auto simp: nuls_def filter_empty_conv)

lemma nuls_workload: "3 \<le> nuls (workloadKey w)"
  by (simp add: nuls_def workloadKey_def)

text \<open>What the gateway needs of the policy; both policies of the program provide it.\<close>

definition policy_ok :: "(string \<Rightarrow> Service \<Rightarrow> bool) \<Rightarrow> bool" where
  "policy_ok svcs \<longleftrightarrow> (\<forall>identity s. svcs identity s \<longrightarrow>
     (case svc_Workload s of
        None \<Rightarrow> nul \<notin> set identity \<and> nul \<notin> set (svc_Name s)
      | Some w \<Rightarrow> 1 \<le> wl_Replicas w))"

lemma static_runtime_unscaled:
  assumes "gateway_inv gw" "policy_ok svcs" "svcs identity s" "svc_Workload s = None"
  shows "\<not> rt_scaled (getRuntime (runtimeKey identity s) gw)"
proof
  let ?k = "runtimeKey identity s"
  assume "rt_scaled (getRuntime ?k gw)"
  then obtain w where "rt_workload (getRuntime ?k gw) = Some w" "workloadKey w = ?k"
    using runtime_ok_get [OF assms(1), of ?k] by (auto simp: runtime_ok_def)
  moreover have "nuls ?k = 1"
    using assms(2-4) nuls_static [of identity "svc_Name s"] by (force simp: policy_ok_def runtimeKey_def)
  ultimately show False using nuls_workload [of w] by simp
qed

section \<open>A workload without connections is about to stop\<close>

definition pending :: "lifecycleGateway \<Rightarrow> serviceRuntime \<Rightarrow> bool" where
  "pending gw r \<longleftrightarrow>
     (case rt_idleTimer r of
        None \<Rightarrow> False
      | Some t \<Rightarrow> tm_state (gw_timers gw ! t) = Armed \<or> tm_state (gw_timers gw ! t) = Fired)"

definition idle_inv :: "lifecycleGateway \<Rightarrow> bool" where
  "idle_inv gw \<longleftrightarrow> (\<forall>k. rt_scaled (getRuntime k gw) \<longrightarrow> rt_active (getRuntime k gw) = 0 \<longrightarrow> pending gw (getRuntime k gw))"

text \<open>Timers of other runtimes are not touched when one runtime's timer is stopped.\<close>

lemma pending_stopTimer:
  assumes "gateway_inv gw" "k \<noteq> k'" "pending gw (getRuntime k gw)"
  shows "pending (stopTimer (rt_idleTimer (getRuntime k' gw)) gw) (getRuntime k gw)"
proof -
  obtain t where t: "rt_idleTimer (getRuntime k gw) = Some t" using assms(3) by (auto simp: pending_def split: option.splits)
  have "rt_idleTimer (getRuntime k' gw) \<noteq> Some t"
    using runtime_ok_get [OF assms(1), of k] runtime_ok_get [OF assms(1), of k'] t assms(2)
    by (auto simp: runtime_ok_def)
  with assms(3) t show ?thesis
    by (auto simp: pending_def stopTimer_def nth_list_update split: option.splits)
qed

lemma pending_cong: "gw_timers gw = gw_timers gw' \<Longrightarrow> pending gw r = pending gw' r"
  by (simp add: pending_def split: option.split)

lemma idle_inv_put:
  assumes "gateway_inv gw" "idle_inv gw"
    and "\<And>k. k \<noteq> key \<Longrightarrow> getRuntime k gw' = getRuntime k gw"
    and "gw_timers gw' = gw_timers (stopTimer (rt_idleTimer (getRuntime key gw)) gw)"
    and "rt_scaled (getRuntime key gw') \<Longrightarrow> rt_active (getRuntime key gw') = 0 \<Longrightarrow> False"
  shows "idle_inv gw'"
  unfolding idle_inv_def
proof (intro allI impI)
  fix k assume k: "rt_scaled (getRuntime k gw')" "rt_active (getRuntime k gw') = 0"
  then have "k \<noteq> key" using assms(5) by auto
  with k assms(2,3) have "pending gw (getRuntime k gw)" by (simp add: idle_inv_def)
  with pending_stopTimer [OF assms(1) \<open>k \<noteq> key\<close>] assms(3) [OF \<open>k \<noteq> key\<close>] pending_cong [OF assms(4)]
  show "pending gw' (getRuntime k gw')" by simp
qed

text \<open>What \<open>Open\<close> does to the timers, the other runtimes and its own runtime.\<close>

definition frame :: "string \<Rightarrow> lifecycleGateway \<Rightarrow> lifecycleGateway \<Rightarrow> bool" where
  "frame key gw gw' \<longleftrightarrow> (\<forall>k. k \<noteq> key \<longrightarrow> getRuntime k gw' = getRuntime k gw) \<and>
     gw_timers gw' = gw_timers (stopTimer (rt_idleTimer (getRuntime key gw)) gw)"

lemma prepareOpen_frame:
  assumes "resolved = Some s"
  shows "case prepareOpen identity resolved upOk gw of
    Inl (gw', _) \<Rightarrow> frame (runtimeKey identity s) gw gw' \<and> \<not> rt_scaled (getRuntime (runtimeKey identity s) gw')
  | Inr (key, s', gw') \<Rightarrow> s' = s \<and> key = runtimeKey identity s \<and> frame key gw gw' \<and>
      rt_active (getRuntime key gw') = rt_active (getRuntime key gw) \<and>
      (svc_Workload s = None \<longrightarrow> rt_scaled (getRuntime key gw') = rt_scaled (getRuntime key gw))"
  using assms
  by (auto simp: prepareOpen_def Let_def frame_def getRuntime_put workloadStarted_def observeServiceOpen_def
      split: option.split)

lemma finishOpen_frame:
  assumes "finishOpen key s dialOk downOk gw = (gw', res)"
  shows "(\<forall>k. k \<noteq> key \<longrightarrow> getRuntime k gw' = getRuntime k gw) \<and> gw_timers gw' = gw_timers gw \<and>
    rt_active (getRuntime key gw') = rt_active (getRuntime key gw) + (if dialOk then 1 else 0) \<and>
    rt_scaled (getRuntime key gw') =
      (rt_scaled (getRuntime key gw) \<and> \<not> (\<not> dialOk \<and> svc_Workload s \<noteq> None \<and> rt_active (getRuntime key gw) = 0 \<and> downOk))"
  using assms
  by (auto simp: finishOpen_def Let_def getRuntime_put workloadStopped_def observeServiceOpen_def connectionOpened_def
      split: option.splits if_splits)

lemma openService_idle:
  assumes "gateway_inv gw" "idle_inv gw" "policy_ok svcs" "\<And>s. resolved = Some s \<Longrightarrow> svcs identity s"
    and "openService identity resolved upOk connects expired True gw = Some (gw', res)"
  shows "idle_inv gw'"
proof (cases resolved)
  case None
  then have "gw' = observeServiceOpen UnknownService ResDenied gw"
    using assms(5) by (simp add: openService_def prepareOpen_def)
  then show ?thesis
    using assms(2) pending_cong [of gw' gw] by (simp add: idle_inv_def observeServiceOpen_def)
next
  case (Some s)
  let ?key = "runtimeKey identity s"
  note p = prepareOpen_frame [OF Some, where identity = identity and upOk = upOk and gw = gw]
  have act: "0 \<le> rt_active (getRuntime ?key gw)" by (rule runtime_ok_nonneg [OF runtime_ok_get [OF assms(1)]])
  have "frame ?key gw gw' \<and> \<not> (rt_scaled (getRuntime ?key gw') \<and> rt_active (getRuntime ?key gw') = 0)"
  proof (cases "prepareOpen identity resolved upOk gw")
    case (Inl q)
    with p assms(5) show ?thesis by (auto simp: openService_def split: prod.splits)
  next
    case (Inr q)
    obtain gw1 where q: "q = (?key, s, gw1)" "frame ?key gw gw1"
      "rt_active (getRuntime ?key gw1) = rt_active (getRuntime ?key gw)"
      "svc_Workload s = None \<Longrightarrow> rt_scaled (getRuntime ?key gw1) = rt_scaled (getRuntime ?key gw)"
      using p Inr by (cases q) auto
    obtain dialOk where f: "finishOpen ?key s dialOk True gw1 = (gw', res)"
      using assms(5) Inr q(1) by (auto simp: openService_def split: option.splits)
    have "\<not> rt_scaled (getRuntime ?key gw)" if "svc_Workload s = None"
      using static_runtime_unscaled [OF assms(1,3)] assms(4) Some that by blast
    with finishOpen_frame [OF f] q act show ?thesis by (auto simp: frame_def)
  qed
  then show ?thesis
    using idle_inv_put [OF assms(1,2), of ?key gw'] by (auto simp: frame_def)
qed

lemma closeConnection_idle:
  assumes "gateway_inv gw" "idle_inv gw"
  shows "idle_inv (closeConnection i gw)"
proof (cases "i < length (gw_conns gw) \<and> \<not> tc_released (gw_conns gw ! i)")
  case False
  then show ?thesis using assms(2) by (auto simp: closeConnection_def Let_def)
next
  case True
  let ?key = "tc_key (gw_conns gw ! i)"
  have t: "\<exists>ts. gw_timers (closeConnection i gw) = gw_timers gw @ ts"
    using True by (auto simp: closeConnection_def releaseRuntime_def Let_def connectionClosed_def)
  have o: "getRuntime k (closeConnection i gw) = getRuntime k gw" if "k \<noteq> ?key" for k
    using True that
    by (auto simp: closeConnection_def releaseRuntime_def Let_def connectionClosed_def getRuntime_put)
  have own: "pending (closeConnection i gw) (getRuntime ?key (closeConnection i gw))"
    if "rt_scaled (getRuntime ?key (closeConnection i gw))" "rt_active (getRuntime ?key (closeConnection i gw)) = 0"
    using True that runtime_ok_get [OF assms(1), of ?key]
    by (auto simp: closeConnection_def releaseRuntime_def Let_def connectionClosed_def getRuntime_put pending_def
        runtime_ok_def split: if_splits)
  have "pending (closeConnection i gw) (getRuntime k gw)" if "pending gw (getRuntime k gw)" for k
    using that t runtime_ok_get [OF assms(1), of k]
    by (auto simp: pending_def runtime_ok_def nth_append split: option.splits)
  with own o assms(2) show ?thesis unfolding idle_inv_def by metis
qed

lemma fireTimer_idle:
  assumes "idle_inv gw"
  shows "idle_inv (fireTimer i gw)"
proof -
  have "getRuntime k (fireTimer i gw) = getRuntime k gw" for k by (simp add: fireTimer_def)
  moreover have "pending (fireTimer i gw) r" if "pending gw r" for r
    using that by (auto simp: pending_def fireTimer_def nth_list_update split: option.splits)
  ultimately show ?thesis using assms by (simp add: idle_inv_def)
qed

lemma idleCallback_idle:
  assumes "gateway_inv gw" "idle_inv gw"
  shows "idle_inv (idleCallback i True gw)"
proof (cases "i < length (gw_timers gw) \<and> tm_state (gw_timers gw ! i) = Fired")
  case False
  then show ?thesis using assms(2) by (auto simp: idleCallback_def)
next
  case True
  let ?key = "tm_key (gw_timers gw ! i)"
  let ?r = "getRuntime ?key gw"
  have ts: "gw_timers (idleCallback i True gw) = (gw_timers gw)[i := (gw_timers gw ! i)\<lparr>tm_state := Finished\<rparr>]"
    using True by (auto simp: idleCallback_def Let_def workloadStopped_def split: option.split)
  have o: "getRuntime k (idleCallback i True gw) = getRuntime k gw" if "k \<noteq> ?key" for k
    using True that
    by (auto simp: idleCallback_def Let_def workloadStopped_def getRuntime_put split: option.split)
  have own: "\<not> (rt_scaled (getRuntime ?key (idleCallback i True gw)) \<and> rt_active (getRuntime ?key (idleCallback i True gw)) = 0)"
    using True runtime_ok_get [OF assms(1), of ?key]
    by (auto simp: idleCallback_def Let_def workloadStopped_def getRuntime_put runtime_ok_def split: option.split)
  have "pending (idleCallback i True gw) (getRuntime k gw)" if k: "k \<noteq> ?key" "pending gw (getRuntime k gw)" for k
  proof -
    obtain t where t: "rt_idleTimer (getRuntime k gw) = Some t" using k(2) by (auto simp: pending_def split: option.splits)
    then have "t \<noteq> i" using k(1) runtime_ok_get [OF assms(1), of k] by (auto simp: runtime_ok_def)
    with k(2) t show ?thesis by (simp add: pending_def ts)
  qed
  with own o assms(2) show ?thesis unfolding idle_inv_def by metis
qed

lemma shutdownRuntime_stops:
  assumes "gateway_inv gw"
  shows "\<not> rt_scaled (getRuntime key (fst (shutdownRuntime key True gw)))"
proof (cases "rt_scaled (getRuntime key gw)")
  case True
  then obtain w where "rt_workload (getRuntime key gw) = Some w"
    using runtime_ok_get [OF assms, of key] by (auto simp: runtime_ok_def)
  with True show ?thesis by (simp add: shutdownRuntime_def Let_def getRuntime_put workloadStopped_def)
next
  case False
  then show ?thesis by (simp add: shutdownRuntime_def Let_def getRuntime_put split: option.split)
qed

lemma shutdownRuntime_idle:
  assumes "gateway_inv gw" "idle_inv gw"
  shows "idle_inv (fst (shutdownRuntime key True gw))"
proof (rule idle_inv_put [OF assms])
  show "getRuntime k (fst (shutdownRuntime key True gw)) = getRuntime k gw" if "k \<noteq> key" for k
    using that by (simp add: shutdownRuntime_def Let_def getRuntime_put workloadStopped_def split: option.split)
  show "gw_timers (fst (shutdownRuntime key True gw)) = gw_timers (stopTimer (rt_idleTimer (getRuntime key gw)) gw)"
    by (simp add: shutdownRuntime_def Let_def workloadStopped_def split: option.split)
  show False if "rt_scaled (getRuntime key (fst (shutdownRuntime key True gw)))"
    using that shutdownRuntime_stops [OF assms(1)] by blast
qed

lemma step_idle:
  assumes "step svcs True gw gw'" "policy_ok svcs" "gateway_inv gw" "idle_inv gw"
  shows "idle_inv gw'"
  using assms(1)
proof cases
  case serve_step
  then show ?thesis
  proof cases
    case (open_step identity resolved upOk connects expired downOk r)
    have "openService identity resolved upOk connects expired True gw = Some (gw', r)" using open_step(1,3) by simp
    from openService_idle [OF assms(3,4,2) open_step(2) this] show ?thesis .
  qed (use assms closeConnection_idle fireTimer_idle idleCallback_idle in auto)
qed (use assms shutdownRuntime_idle in auto)

lemma reachable_idle:
  assumes "reachable svcs True hasScaler gw" "policy_ok svcs"
  shows "idle_inv gw"
  using assms
proof (induction rule: reachable.induct)
  case start
  then show ?case by (simp add: idle_inv_def NewLifecycleGateway_def getRuntime_def emptyRuntime_def)
qed (use step_idle reachable_inv in blast)

section \<open>Scale-downs while serving\<close>

lemma scaleWorkload_calls [simp]:
  "gw_calls (scaleWorkload w n ok gw) = gw_calls gw @
     [\<lparr>sc_kind = wl_Kind w, sc_namespace = wl_Namespace w, sc_name = wl_Name w, sc_replicas = n, sc_ok = ok\<rparr>]"
  by (simp add: scaleWorkload_def scalerTarget_def observeScale_def)

text \<open>The runtime a call to the scaler concerns.\<close>

definition callKey :: "scale_call \<Rightarrow> string" where
  "callKey c = ''workload'' @ nul # sc_kind c @ nul # sc_namespace c @ nul # sc_name c"

lemma callKey_workload [simp]:
  "callKey \<lparr>sc_kind = wl_Kind w, sc_namespace = wl_Namespace w, sc_name = wl_Name w, sc_replicas = n, sc_ok = ok\<rparr> = workloadKey w"
  by (simp add: callKey_def workloadKey_def)

text \<open>The calls a step adds, when it adds calls at the end.\<close>

definition newCalls :: "lifecycleGateway \<Rightarrow> lifecycleGateway \<Rightarrow> scale_call list" where
  "newCalls gw gw' = drop (length (gw_calls gw)) (gw_calls gw')"

lemma newCalls_append: "gw_calls gw' = gw_calls gw @ cs \<Longrightarrow> newCalls gw gw' = cs"
  by (simp add: newCalls_def)

lemma prepareOpen_calls:
  "case prepareOpen identity resolved upOk gw of
    Inl (gw', _) \<Rightarrow> \<exists>cs. gw_calls gw' = gw_calls gw @ cs \<and>
       (\<forall>c \<in> set cs. gw_hasScaler gw \<and> (\<exists>s w. resolved = Some s \<and> svc_Workload s = Some w \<and> sc_replicas c = wl_Replicas w))
  | Inr (key, s, gw') \<Rightarrow> \<exists>cs. gw_calls gw' = gw_calls gw @ cs \<and>
       (\<forall>c \<in> set cs. gw_hasScaler gw \<and> (\<exists>s w. resolved = Some s \<and> svc_Workload s = Some w \<and> sc_replicas c = wl_Replicas w))"
  by (auto simp: prepareOpen_def Let_def observeServiceOpen_def workloadStarted_def split: option.split)

lemma finishOpen_calls:
  assumes "finishOpen key s dialOk downOk gw = (gw', res)"
  shows "\<exists>cs. gw_calls gw' = gw_calls gw @ cs \<and>
    (\<forall>c \<in> set cs. \<exists>w. svc_Workload s = Some w \<and> callKey c = workloadKey w \<and> rt_active (getRuntime key gw) = 0 \<and> sc_replicas c = 0)"
  using assms
  by (auto simp: finishOpen_def Let_def observeServiceOpen_def workloadStopped_def connectionOpened_def
      split: option.splits if_splits)

lemma idleCallback_calls:
  assumes "gateway_inv gw"
  shows "\<exists>cs. gw_calls (idleCallback i ok gw) = gw_calls gw @ cs \<and>
    (\<forall>c \<in> set cs. gw_hasScaler gw \<and> sc_replicas c = 0 \<and> rt_active (getRuntime (callKey c) gw) = 0)"
proof (cases "i < length (gw_timers gw) \<and> tm_state (gw_timers gw ! i) = Fired")
  case True
  let ?key = "tm_key (gw_timers gw ! i)"
  show ?thesis
    using True runtime_ok_get [OF assms, of ?key]
    by (auto simp: idleCallback_def Let_def workloadStopped_def runtime_ok_def split: option.split)
qed (auto simp: idleCallback_def)

lemma closeConnection_calls: "gw_calls (closeConnection i gw) = gw_calls gw"
  by (simp add: closeConnection_def releaseRuntime_def Let_def connectionClosed_def)

lemma fireTimer_calls: "gw_calls (fireTimer i gw) = gw_calls gw"
  by (simp add: fireTimer_def)

lemma openService_calls:
  assumes "gateway_inv gw" "policy_ok svcs" "\<And>s. resolved = Some s \<Longrightarrow> svcs identity s"
    and "openService identity resolved upOk connects expired downOk gw = Some (gw', res)"
  shows "\<exists>cs. gw_calls gw' = gw_calls gw @ cs \<and>
    (\<forall>c \<in> set cs. gw_hasScaler gw \<and> (sc_replicas c = 0 \<longrightarrow> rt_active (getRuntime (callKey c) gw) = 0))"
proof -
  have up: "c \<in> set cs \<Longrightarrow> \<exists>s w. resolved = Some s \<and> svc_Workload s = Some w \<and> sc_replicas c = wl_Replicas w \<Longrightarrow>
      sc_replicas c \<noteq> 0" for c and cs :: "scale_call list"
    using assms(2,3) by (fastforce simp: policy_ok_def)
  show ?thesis
  proof (cases "prepareOpen identity resolved upOk gw")
    case (Inl p)
    with prepareOpen_calls [where identity = identity and resolved = resolved and upOk = upOk and gw = gw] assms(4) up
    show ?thesis by (fastforce simp: openService_def split: prod.splits)
  next
    case (Inr p)
    obtain key s gw1 where p: "p = (key, s, gw1)" by (cases p)
    note i = prepareOpen_inv [OF assms(1), where identity = identity and resolved = resolved and upOk = upOk, unfolded Inr p, simplified]
    note fr = prepareOpen_frame [of resolved s, where identity = identity and upOk = upOk and gw = gw, unfolded Inr p, simplified]
    obtain cs1 where c1: "gw_calls gw1 = gw_calls gw @ cs1" "\<forall>c \<in> set cs1. gw_hasScaler gw \<and> sc_replicas c \<noteq> 0"
      using prepareOpen_calls [where identity = identity and resolved = resolved and upOk = upOk and gw = gw] Inr p up
      by fastforce
    obtain dialOk where f: "finishOpen key s dialOk downOk gw1 = (gw', res)"
      using assms(4) Inr p by (auto simp: openService_def split: option.splits)
    obtain cs2 where c2: "gw_calls gw' = gw_calls gw1 @ cs2" "\<forall>c \<in> set cs2. \<exists>w. svc_Workload s = Some w \<and>
        callKey c = workloadKey w \<and> rt_active (getRuntime key gw1) = 0 \<and> sc_replicas c = 0"
      using finishOpen_calls [OF f] by blast
    have "\<forall>c \<in> set cs2. gw_hasScaler gw \<and> rt_active (getRuntime (callKey c) gw) = 0"
    proof
      fix c assume "c \<in> set cs2"
      then obtain w where w: "svc_Workload s = Some w" "callKey c = workloadKey w" "rt_active (getRuntime key gw1) = 0"
        using c2(2) by blast
      have k: "key = workloadKey w" using i w(1) by (simp add: runtimeKey_def)
      have "gw_hasScaler gw1" using runtime_ok_get [of gw1 key] i w(1) by (auto simp: runtime_ok_def)
      moreover have "gw_hasScaler gw1 = gw_hasScaler gw"
        using Inr p by (auto simp: prepareOpen_def Let_def workloadStarted_def split: option.splits if_splits)
      ultimately show "gw_hasScaler gw \<and> rt_active (getRuntime (callKey c) gw) = 0"
        using w k fr i by simp
    qed
    with c1 c2 show ?thesis by auto
  qed
qed

lemma serve_calls:
  assumes "serve svcs reliable gw gw'" "policy_ok svcs" "gateway_inv gw"
  shows "\<exists>cs. gw_calls gw' = gw_calls gw @ cs \<and>
    (\<forall>c \<in> set cs. gw_hasScaler gw \<and> (sc_replicas c = 0 \<longrightarrow> rt_active (getRuntime (callKey c) gw) = 0))"
  using assms(1)
proof cases
  case (open_step identity resolved upOk connects expired downOk r)
  show ?thesis by (rule openService_calls [OF assms(3,2) open_step(2,1)])
next
  case (idle_step downOk i)
  then show ?thesis using idleCallback_calls [OF assms(3), of i downOk] by blast
qed (auto simp: closeConnection_calls fireTimer_calls)

section \<open>The gateway knows what runs\<close>

text \<open>The replica count the backend was last told, successfully, for a workload.\<close>

definition replicasOf :: "scale_call list \<Rightarrow> string \<Rightarrow> int" where
  "replicasOf cs k = foldl (\<lambda>n c. if callKey c = k \<and> sc_ok c then sc_replicas c else n) 0 cs"

lemma replicasOf_snoc [simp]:
  "replicasOf (cs @ [c]) k = (if callKey c = k \<and> sc_ok c then sc_replicas c else replicasOf cs k)"
  by (simp add: replicasOf_def)

definition agree :: "lifecycleGateway \<Rightarrow> bool" where
  "agree gw \<longleftrightarrow> (\<forall>k. rt_scaled (getRuntime k gw) \<longleftrightarrow> 0 < replicasOf (gw_calls gw) k)"

lemma agree_cong:
  assumes "agree gw" "gw_calls gw' = gw_calls gw" "\<And>k. rt_scaled (getRuntime k gw') = rt_scaled (getRuntime k gw)"
  shows "agree gw'"
  using assms by (simp add: agree_def)

lemma agree_call:
  assumes "agree gw" "callKey c = key" "gw_calls gw' = gw_calls gw @ [c]"
    and "\<And>k. k \<noteq> key \<Longrightarrow> rt_scaled (getRuntime k gw') = rt_scaled (getRuntime k gw)"
    and "rt_scaled (getRuntime key gw') = (if sc_ok c then 0 < sc_replicas c else rt_scaled (getRuntime key gw))"
  shows "agree gw'"
  unfolding agree_def
proof
  fix k
  show "rt_scaled (getRuntime k gw') \<longleftrightarrow> 0 < replicasOf (gw_calls gw') k"
    using assms by (cases "k = key") (auto simp: agree_def)
qed

lemma prepareOpen_agree:
  assumes "agree gw" "\<And>s w. resolved = Some s \<Longrightarrow> svc_Workload s = Some w \<Longrightarrow> 1 \<le> wl_Replicas w"
  shows "case prepareOpen identity resolved upOk gw of Inl (gw', _) \<Rightarrow> agree gw' | Inr (_, _, gw') \<Rightarrow> agree gw'"
proof (cases resolved)
  case None
  then show ?thesis using assms(1) by (auto simp: prepareOpen_def observeServiceOpen_def intro: agree_cong)
next
  case (Some s)
  let ?key = "runtimeKey identity s"
  let ?r = "getRuntime ?key gw"
  let ?r2 = "(case svc_Workload s of None \<Rightarrow> ?r | Some w \<Rightarrow> ?r\<lparr>rt_workload := Some w\<rparr>)
      \<lparr>rt_label := identity @ ''/'' @ svc_Name s, rt_idleTimer := None\<rparr>"
  define gw1 where "gw1 = putRuntime ?key ?r2 (stopTimer (rt_idleTimer ?r) gw)"
  have sc: "rt_scaled ?r2 = rt_scaled ?r" by (simp split: option.split)
  have a1: "agree gw1" by (rule agree_cong [OF assms(1)]) (use sc in \<open>auto simp: gw1_def getRuntime_put\<close>)
  have g1: "getRuntime ?key gw1 = ?r2" "gw_hasScaler gw1 = gw_hasScaler gw" by (simp_all add: gw1_def getRuntime_put)
  show ?thesis
  proof (cases "svc_Workload s")
    case None
    then show ?thesis using Some a1 by (simp add: prepareOpen_def Let_def gw1_def)
  next
    case w: (Some w)
    have "callKey \<lparr>sc_kind = wl_Kind w, sc_namespace = wl_Namespace w, sc_name = wl_Name w,
        sc_replicas = wl_Replicas w, sc_ok = ok\<rparr> = ?key" for ok
      using w by (simp add: runtimeKey_def)
    then have fail: "agree (observeServiceOpen ty res (scaleWorkload w (wl_Replicas w) False gw1))" for ty res
      by (intro agree_call [OF a1]) (auto simp: observeServiceOpen_def)
    have up: "agree (workloadStarted (putRuntime ?key (?r2\<lparr>rt_scaled := True\<rparr>) (scaleWorkload w (wl_Replicas w) True gw1)))"
      using assms(2) [OF Some w]
      by (intro agree_call [OF a1 \<open>callKey _ = _\<close> [of True]])
        (auto simp: workloadStarted_def getRuntime_put)
    have un: "agree (observeServiceOpen ty res gw1)" for ty res
      by (rule agree_cong [OF a1]) (auto simp: observeServiceOpen_def)
    show ?thesis
      using Some w a1 fail up un sc by (auto simp: prepareOpen_def Let_def gw1_def)
  qed
qed

lemma finishOpen_agree:
  assumes "agree gw" "key = runtimeKey identity s" "finishOpen key s dialOk downOk gw = (gw', res)"
    and "svc_Workload s \<noteq> None \<Longrightarrow> rt_scaled (getRuntime key gw)"
  shows "agree gw'"
proof (cases "\<exists>w. svc_Workload s = Some w \<and> \<not> dialOk \<and> rt_active (getRuntime key gw) = 0")
  case True
  then obtain w where w: "svc_Workload s = Some w" "\<not> dialOk" "rt_active (getRuntime key gw) = 0" by blast
  let ?c = "\<lparr>sc_kind = wl_Kind w, sc_namespace = wl_Namespace w, sc_name = wl_Name w, sc_replicas = 0, sc_ok = downOk\<rparr>"
  show ?thesis
  proof (rule agree_call [OF assms(1), of ?c key])
    show "callKey ?c = key" using w(1) assms(2) by (simp add: runtimeKey_def)
  qed (use w assms(3) in \<open>auto simp: finishOpen_def Let_def observeServiceOpen_def workloadStopped_def getRuntime_put split: if_splits\<close>)
next
  case False
  then show ?thesis
    using assms(3)
    by (intro agree_cong [OF assms(1)])
      (auto simp: finishOpen_def Let_def observeServiceOpen_def connectionOpened_def getRuntime_put split: option.splits if_splits)
qed

lemma openService_agree:
  assumes "gateway_inv gw" "agree gw" "policy_ok svcs" "\<And>s. resolved = Some s \<Longrightarrow> svcs identity s"
    and "openService identity resolved upOk connects expired downOk gw = Some (gw', res)"
  shows "agree gw'"
proof -
  have pos: "1 \<le> wl_Replicas w" if "resolved = Some s" "svc_Workload s = Some w" for s w
    using assms(3) assms(4) [OF that(1)] that(2) by (force simp: policy_ok_def)
  have p: "case prepareOpen identity resolved upOk gw of Inl (gw', _) \<Rightarrow> agree gw' | Inr (_, _, gw') \<Rightarrow> agree gw'"
    by (rule prepareOpen_agree [OF assms(2)]) (use pos in blast)
  show ?thesis
  proof (cases "prepareOpen identity resolved upOk gw")
    case (Inl q)
    with p assms(5) show ?thesis by (auto simp: openService_def split: prod.splits)
  next
    case (Inr q)
    obtain key s gw1 where q: "q = (key, s, gw1)" by (cases q)
    note i = prepareOpen_inv [OF assms(1), where identity = identity and resolved = resolved and upOk = upOk, unfolded Inr q, simplified]
    obtain dialOk where f: "finishOpen key s dialOk downOk gw1 = (gw', res)"
      using assms(5) Inr q by (auto simp: openService_def split: option.splits)
    have "agree gw1" using p Inr q by simp
    from finishOpen_agree [OF this _ f, of identity] i show ?thesis by auto
  qed
qed

lemma downscale_agree:
  assumes "gateway_inv gw" "agree gw" "rt_workload (getRuntime key gw) = Some w"
    and "gw_calls gw' = gw_calls gw @ [\<lparr>sc_kind = wl_Kind w, sc_namespace = wl_Namespace w, sc_name = wl_Name w,
           sc_replicas = 0, sc_ok = ok\<rparr>]"
    and "\<And>k. k \<noteq> key \<Longrightarrow> rt_scaled (getRuntime k gw') = rt_scaled (getRuntime k gw)"
    and "rt_scaled (getRuntime key gw') = (\<not> ok \<and> rt_scaled (getRuntime key gw))"
  shows "agree gw'"
proof (rule agree_call [OF assms(2) _ assms(4,5)])
  show "callKey \<lparr>sc_kind = wl_Kind w, sc_namespace = wl_Namespace w, sc_name = wl_Name w, sc_replicas = 0, sc_ok = ok\<rparr> = key"
    using runtime_ok_get [OF assms(1), of key] assms(3) by (simp add: runtime_ok_def)
qed (use assms(6) in auto)

lemma idleCallback_agree:
  assumes "gateway_inv gw" "agree gw"
  shows "agree (idleCallback i ok gw)"
proof (cases "i < length (gw_timers gw) \<and> tm_state (gw_timers gw ! i) = Fired")
  case False
  then show ?thesis using assms(2) by (auto simp: idleCallback_def)
next
  case True
  let ?key = "tm_key (gw_timers gw ! i)"
  let ?r = "getRuntime ?key gw"
  show ?thesis
  proof (cases "rt_active ?r \<noteq> 0 \<or> \<not> rt_scaled ?r")
    case idle: True
    show ?thesis
      by (rule agree_cong [OF assms(2)]) (use True idle in \<open>auto simp: idleCallback_def Let_def\<close>)
  next
    case stop: False
    then obtain w where w: "rt_workload ?r = Some w"
      using runtime_ok_get [OF assms(1), of ?key] by (auto simp: runtime_ok_def)
    show ?thesis
      by (rule downscale_agree [OF assms w, where ok = ok])
        (use True stop w in \<open>auto simp: idleCallback_def Let_def workloadStopped_def getRuntime_put\<close>)
  qed
qed

lemma shutdownRuntime_agree:
  assumes "gateway_inv gw" "agree gw"
  shows "agree (fst (shutdownRuntime key ok gw))"
proof (cases "\<exists>w. rt_workload (getRuntime key gw) = Some w \<and> rt_scaled (getRuntime key gw)")
  case True
  then obtain w where w: "rt_workload (getRuntime key gw) = Some w" "rt_scaled (getRuntime key gw)" by blast
  show ?thesis
    by (rule downscale_agree [OF assms w(1), where ok = ok])
      (use w in \<open>auto simp: shutdownRuntime_def Let_def workloadStopped_def getRuntime_put\<close>)
next
  case False
  then show ?thesis
    by (intro agree_cong [OF assms(2)])
      (auto simp: shutdownRuntime_def Let_def getRuntime_put split: option.split)
qed

lemma closeConnection_agree: "agree gw \<Longrightarrow> agree (closeConnection i gw)"
  by (erule agree_cong)
    (auto simp: closeConnection_def releaseRuntime_def Let_def connectionClosed_def getRuntime_put)

lemma fireTimer_agree: "agree gw \<Longrightarrow> agree (fireTimer i gw)"
  by (erule agree_cong) (auto simp: fireTimer_def)

lemma step_agree:
  assumes "step svcs reliable gw gw'" "policy_ok svcs" "gateway_inv gw" "agree gw"
  shows "agree gw'"
  using assms(1)
proof cases
  case serve_step
  then show ?thesis
  proof cases
    case (open_step identity resolved upOk connects expired downOk r)
    from openService_agree [OF assms(3,4,2) open_step(2,1)] show ?thesis .
  qed (use assms closeConnection_agree fireTimer_agree idleCallback_agree in auto)
qed (use assms shutdownRuntime_agree in auto)

lemma reachable_agree:
  assumes "reachable svcs reliable hasScaler gw" "policy_ok svcs"
  shows "agree gw"
  using assms
proof (induction rule: reachable.induct)
  case start
  then show ?case
    by (simp add: agree_def NewLifecycleGateway_def getRuntime_def emptyRuntime_def replicasOf_def)
qed (use step_agree reachable_inv in blast)

end
