(* ===== verification/Lifecycle_Properties.thy ===== *)
theory Lifecycle_Properties
  imports Lifecycle_Invariants
begin

text \<open>
  The properties of the lifecycle gateway, stated for every execution: connections open and
  close, timers fire and run their callbacks and runtimes are shut down in any order.
\<close>

section \<open>A sample execution\<close>

definition demoService :: Service where
  "demoService = \<lparr>svc_Name = ''web'', svc_Target = ''web.dev:8080'', svc_LocalPort = 8080,
     svc_Workload = Some \<lparr>wl_Kind = ''deployment'', wl_Namespace = ''dev'', wl_Name = ''web'', wl_Replicas = 1,
       wl_ReadyTimeout = 2 * Minute, wl_IdleTimeout = 10 * Minute\<rparr>\<rparr>"

definition demoPolicy :: "string \<Rightarrow> Service \<Rightarrow> bool" where
  "demoPolicy identity s \<longleftrightarrow> identity = ''ada'' \<and> s = demoService"

definition demoKey :: string where
  "demoKey = runtimeKey ''ada'' demoService"

definition demoOpen :: "lifecycleGateway \<Rightarrow> lifecycleGateway" where
  "demoOpen gw = fst (the (openService ''ada'' (Some demoService) True (\<lambda>_. True) (\<lambda>_. False) True gw))"

definition demo0 :: lifecycleGateway where "demo0 = NewLifecycleGateway True (Some zero_Metrics)"
definition demo1 :: lifecycleGateway where "demo1 = demoOpen demo0"
definition demo2 :: lifecycleGateway where "demo2 = closeConnection 0 demo1"
definition demo3 :: lifecycleGateway where "demo3 = fireTimer 0 demo2"
definition demo4 :: lifecycleGateway where "demo4 = demoOpen demo3"
definition demo5 :: lifecycleGateway where "demo5 = closeConnection 1 demo4"
definition demo6 :: lifecycleGateway where "demo6 = idleCallback 0 True demo5"
definition demo7 :: lifecycleGateway where "demo7 = demoOpen demo6"

lemma demoOpen_reachable:
  assumes "reachable demoPolicy reliable True gw"
  shows "reachable demoPolicy reliable True (demoOpen gw)"
proof -
  have w: "svc_Workload demoService \<noteq> None" by (simp add: demoService_def)
  then have d: "dialService (\<lambda>_. True) (\<lambda>_. False) demoService = Some True"
    by (auto simp: dialService_def dialLoop.simps)
  obtain gw' r where o: "openService ''ada'' (Some demoService) True (\<lambda>_. True) (\<lambda>_. False) True gw = Some (gw', r)"
  proof (cases "prepareOpen ''ada'' (Some demoService) True gw")
    case (Inl p)
    then show ?thesis using that by (cases p) (simp add: openService_def)
  next
    case (Inr p)
    obtain key s g where p: "p = (key, s, g)" by (cases p)
    have "s = demoService" using Inr p by (auto simp: prepareOpen_def Let_def split: option.splits if_splits)
    then show ?thesis using that Inr p d by (cases "finishOpen key s True True g") (simp add: openService_def)
  qed
  have "step demoPolicy reliable gw gw'"
    by (rule serve_step, rule open_step [OF o]) (simp_all add: demoPolicy_def)
  with assms o show ?thesis by (auto simp: demoOpen_def intro: reachable.more)
qed

lemma demo_reachable:
  "reachable demoPolicy reliable True demo1" "reachable demoPolicy reliable True demo2"
  "reachable demoPolicy reliable True demo3" "reachable demoPolicy reliable True demo5"
proof -
  have 0: "reachable demoPolicy reliable True demo0" unfolding demo0_def by (rule reachable.start)
  show 1: "reachable demoPolicy reliable True demo1" unfolding demo1_def by (rule demoOpen_reachable [OF 0])
  show 2: "reachable demoPolicy reliable True demo2"
    unfolding demo2_def by (rule reachable.more [OF 1]) (rule serve_step, rule close_step)
  show 3: "reachable demoPolicy reliable True demo3"
    unfolding demo3_def by (rule reachable.more [OF 2]) (rule serve_step, rule fire_step)
  have 4: "reachable demoPolicy reliable True demo4" unfolding demo4_def by (rule demoOpen_reachable [OF 3])
  show "reachable demoPolicy reliable True demo5"
    unfolding demo5_def by (rule reachable.more [OF 4]) (rule serve_step, rule close_step)
qed

text \<open>The states of the sample execution, gauges aside.\<close>

definition demoWorkload :: Workload where
  "demoWorkload = the (svc_Workload demoService)"

definition demoRuntime :: "int \<Rightarrow> bool \<Rightarrow> nat option \<Rightarrow> serviceRuntime" where
  "demoRuntime active scaled timer = \<lparr>rt_workload = Some demoWorkload, rt_label = ''ada/web'', rt_active = active,
     rt_scaled = scaled, rt_idleTimer = timer\<rparr>"

definition demoConn :: "bool \<Rightarrow> trackedConnection" where
  "demoConn released = \<lparr>tc_key = demoKey, tc_type = ManagedService, tc_released = released\<rparr>"

definition demoTimer :: "timer_state \<Rightarrow> idle_timer" where
  "demoTimer st = \<lparr>tm_key = demoKey, tm_state = st\<rparr>"

definition parts :: "lifecycleGateway \<Rightarrow> serviceRuntime list \<Rightarrow> idle_timer list \<Rightarrow> trackedConnection list \<Rightarrow> bool" where
  "parts gw rs ts cs \<longleftrightarrow> gw_hasScaler gw \<and> gw_runtimes gw = map (Pair demoKey) rs \<and> gw_timers gw = ts \<and> gw_conns gw = cs"

lemmas demo_state_defs = parts_def demoRuntime_def demoConn_def demoTimer_def

lemma demoOpen_parts:
  assumes "parts gw [demoRuntime n b t] ts cs" "n \<ge> 0"
  shows "parts (demoOpen gw) [demoRuntime (n + 1) True None] (gw_timers (stopTimer t gw)) (cs @ [demoConn False])"
proof -
  have d: "svc_Workload demoService = Some demoWorkload" "svc_Name demoService = ''web''"
    "serviceTypeOf demoService = ManagedService" "runtimeKey ''ada'' demoService = demoKey"
    by (simp_all add: demoWorkload_def demoService_def serviceTypeOf_def demoKey_def)
  then have "dialService (\<lambda>_. True) (\<lambda>_. False) demoService = Some True"
    by (simp add: dialService_def dialLoop.simps)
  with d assms show ?thesis
    by (simp add: demo_state_defs demoOpen_def openService_def prepareOpen_def finishOpen_def Let_def getRuntime_def
        workloadStarted_def observeServiceOpen_def connectionOpened_def)
qed

lemma demo1_parts: "parts demo1 [demoRuntime 1 True None] [] [demoConn False]"
proof -
  have d: "svc_Workload demoService = Some demoWorkload" "svc_Name demoService = ''web''"
    "serviceTypeOf demoService = ManagedService" "runtimeKey ''ada'' demoService = demoKey"
    by (simp_all add: demoWorkload_def demoService_def serviceTypeOf_def demoKey_def)
  then have "dialService (\<lambda>_. True) (\<lambda>_. False) demoService = Some True"
    by (simp add: dialService_def dialLoop.simps)
  with d show ?thesis
    by (simp add: demo1_def demo0_def NewLifecycleGateway_def demo_state_defs demoOpen_def openService_def
        prepareOpen_def finishOpen_def Let_def getRuntime_def workloadStarted_def observeServiceOpen_def
        connectionOpened_def emptyRuntime_def stopTimer_def)
qed

lemma demo2_parts: "parts demo2 [demoRuntime 0 True (Some 0)] [demoTimer Armed] [demoConn True]"
  using demo1_parts
  by (simp add: demo2_def demo_state_defs closeConnection_def releaseRuntime_def Let_def getRuntime_def connectionClosed_def)

lemma demo3_parts: "parts demo3 [demoRuntime 0 True (Some 0)] [demoTimer Fired] [demoConn True]"
  using demo2_parts by (simp add: demo3_def demo_state_defs fireTimer_def)

lemma demo4_parts: "parts demo4 [demoRuntime 1 True None] [demoTimer Fired] [demoConn True, demoConn False]"
  using demoOpen_parts [OF demo3_parts] demo3_parts by (simp add: demo4_def demo_state_defs stopTimer_def)

lemma demo5_parts:
  "parts demo5 [demoRuntime 0 True (Some 1)] [demoTimer Fired, demoTimer Armed] [demoConn True, demoConn True]"
  using demo4_parts
  by (simp add: demo5_def demo_state_defs closeConnection_def releaseRuntime_def Let_def getRuntime_def connectionClosed_def)

lemma demo6_parts:
  "parts demo6 [demoRuntime 0 False None] [demoTimer Finished, demoTimer Armed] [demoConn True, demoConn True]"
  using demo5_parts
  by (simp add: demo6_def demo_state_defs idleCallback_def Let_def getRuntime_def workloadStopped_def)

lemma demo7_parts:
  "parts demo7 [demoRuntime 1 True None] [demoTimer Finished, demoTimer Armed] [demoConn True, demoConn True, demoConn False]"
  using demoOpen_parts [OF demo6_parts] demo6_parts by (simp add: demo7_def demo_state_defs stopTimer_def)

lemma demoPolicy_ok: "policy_ok demoPolicy"
  by (simp add: policy_ok_def demoPolicy_def demoService_def)

section \<open>Properties\<close>

text \<open>
  The gauges never lie: in every reachable state \<open>managed_workloads\<close> is the number of
  runtimes the gateway has scaled up, \<open>active_connections\<close> of each service type is the number of
  connections of that type not yet released, every runtime counts exactly its own unreleased
  connections, and none of these is negative.
\<close>

theorem lifecycle_gauges:
  assumes "reachable svcs reliable hasScaler gw" "gw_metrics gw = Some m"
  shows "mt_managedWorkloads m = scaledCount gw \<and> 0 \<le> mt_managedWorkloads m \<and>
    mt_activeConnections m ty = unreleased (\<lambda>c. tc_type c = ty) gw \<and> 0 \<le> mt_activeConnections m ty \<and>
    rt_active (getRuntime k gw) = unreleased (\<lambda>c. tc_key c = k) gw"
proof -
  have i: "gateway_inv gw" by (rule reachable_inv [OF assms(1)])
  have "0 \<le> scaledCount gw" by (auto simp: scaledCount_def intro!: sum_list_nonneg)
  then show ?thesis
    using i assms(2) runtime_ok_get [OF i, of k] unreleased_nonneg
    by (auto simp: gateway_inv_def gauges_ok_def runtime_ok_def)
qed

theorem lifecycle_gauges_witness:
  "mt_managedWorkloads (the (gw_metrics demo1)) = scaledCount demo1 \<and> scaledCount demo1 = 1 \<and>
   mt_activeConnections (the (gw_metrics demo1)) ManagedService = 1"
proof -
  have v: "scaledCount demo1 = 1" "unreleased (\<lambda>c. tc_type c = ManagedService) demo1 = 1" "gw_metrics demo1 \<noteq> None"
    by code_simp+
  then obtain m where "gw_metrics demo1 = Some m" by blast
  with lifecycle_gauges [OF demo_reachable(1) this] v show ?thesis by simp
qed

text \<open>
  Claim C6.  A workload in use is never stopped by the serving gateway: whatever a step other
  than shutdown asks of the scaler, a scale to zero concerns a workload with no open connection,
  and no request is made when no scaler is configured.
\<close>

theorem serving_never_stops_used_workload:
  assumes "reachable svcs reliable hasScaler gw" "policy_ok svcs" "serve svcs reliable gw gw'"
    and "c \<in> set (newCalls gw gw')"
  shows "gw_hasScaler gw \<and>
    (sc_replicas c = 0 \<longrightarrow> unreleased (\<lambda>d. tc_key d = callKey c) gw = 0)"
proof -
  have i: "gateway_inv gw" by (rule reachable_inv [OF assms(1)])
  obtain cs where cs: "gw_calls gw' = gw_calls gw @ cs"
    "\<forall>c \<in> set cs. gw_hasScaler gw \<and> (sc_replicas c = 0 \<longrightarrow> rt_active (getRuntime (callKey c) gw) = 0)"
    using serve_calls [OF assms(3,2) i] by blast
  with assms(4) newCalls_append [OF cs(1)] runtime_ok_get [OF i, of "callKey c"]
  show ?thesis by (auto simp: runtime_ok_def)
qed

theorem serving_never_stops_used_workload_witness:
  "newCalls demo3 (idleCallback 0 True demo3) =
     [\<lparr>sc_kind = ''deployment'', sc_namespace = ''dev'', sc_name = ''web'', sc_replicas = 0, sc_ok = True\<rparr>] \<and>
   unreleased (\<lambda>d. tc_key d = demoKey) demo3 = 0"
proof -
  let ?c = "\<lparr>sc_kind = ''deployment'', sc_namespace = ''dev'', sc_name = ''web'', sc_replicas = 0, sc_ok = True\<rparr>"
  have n: "newCalls demo3 (idleCallback 0 True demo3) = [?c]" by code_simp
  have k: "callKey ?c = demoKey" by code_simp
  have "serve demoPolicy True demo3 (idleCallback 0 True demo3)" by (rule idle_step) simp
  from serving_never_stops_used_workload [OF demo_reachable(3) demoPolicy_ok this, of ?c] n k
  show ?thesis by simp
qed

text \<open>
  Claim C7.  The gateway knows what runs: a runtime is marked scaled exactly when the last
  successful request to the backend for its workload asked for at least one replica, through
  every success, failure and shutdown.
\<close>

theorem scaled_matches_backend:
  assumes "reachable svcs reliable hasScaler gw" "policy_ok svcs"
  shows "rt_scaled (getRuntime k gw) \<longleftrightarrow> 0 < replicasOf (gw_calls gw) k"
  using reachable_agree [OF assms] by (simp add: agree_def)

theorem scaled_matches_backend_witness:
  "replicasOf (gw_calls demo2) demoKey = 1 \<and> rt_scaled (getRuntime demoKey demo2)"
proof -
  have "replicasOf (gw_calls demo2) demoKey = 1" by code_simp
  with scaled_matches_backend [OF demo_reachable(2) demoPolicy_ok, of demoKey] show ?thesis by simp
qed

text \<open>
  Claim C8.  When scale-downs succeed, a running workload without connections always has its idle
  timer pending, and letting that timer run stops the workload: the next request to the scaler is
  a scale to zero and the runtime is no longer marked scaled.
\<close>

theorem idle_workload_stops:
  assumes "reachable svcs True hasScaler gw" "policy_ok svcs"
    and "rt_scaled (getRuntime k gw)" "rt_active (getRuntime k gw) = 0"
  shows "\<exists>t w. rt_idleTimer (getRuntime k gw) = Some t \<and> rt_workload (getRuntime k gw) = Some w \<and>
    (let gw' = idleCallback t True (fireTimer t gw) in
       \<not> rt_scaled (getRuntime k gw') \<and>
       newCalls gw gw' = [\<lparr>sc_kind = wl_Kind w, sc_namespace = wl_Namespace w, sc_name = wl_Name w,
                           sc_replicas = 0, sc_ok = True\<rparr>])"
proof -
  have i: "gateway_inv gw" by (rule reachable_inv [OF assms(1)])
  have "pending gw (getRuntime k gw)"
    using reachable_idle [OF assms(1,2)] assms(3,4) by (simp add: idle_inv_def)
  then obtain t where t: "rt_idleTimer (getRuntime k gw) = Some t"
    "tm_state (gw_timers gw ! t) = Armed \<or> tm_state (gw_timers gw ! t) = Fired"
    by (auto simp: pending_def split: option.splits)
  obtain w where w: "rt_workload (getRuntime k gw) = Some w"
    using runtime_ok_get [OF i, of k] assms(3) by (auto simp: runtime_ok_def)
  have tk: "t < length (gw_timers gw)" "tm_key (gw_timers gw ! t) = k"
    using runtime_ok_get [OF i, of k] t(1) by (auto simp: runtime_ok_def)
  let ?gw1 = "fireTimer t gw"
  have f: "t < length (gw_timers ?gw1)" "tm_state (gw_timers ?gw1 ! t) = Fired" "tm_key (gw_timers ?gw1 ! t) = k"
    "getRuntime k ?gw1 = getRuntime k gw" "gw_calls ?gw1 = gw_calls gw"
    using tk t(2) by (auto simp: fireTimer_def getRuntime_def)
  have "\<not> rt_scaled (getRuntime k (idleCallback t True ?gw1))"
    "gw_calls (idleCallback t True ?gw1) = gw_calls gw @ [\<lparr>sc_kind = wl_Kind w, sc_namespace = wl_Namespace w,
       sc_name = wl_Name w, sc_replicas = 0, sc_ok = True\<rparr>]"
    using f w assms(3,4) by (simp_all add: idleCallback_def Let_def workloadStopped_def getRuntime_put)
  then show ?thesis
    using t(1) w newCalls_append [of "idleCallback t True ?gw1" gw] by (auto simp: Let_def)
qed

theorem idle_workload_stops_witness:
  "rt_idleTimer (getRuntime demoKey demo2) = Some 0 \<and>
   \<not> rt_scaled (getRuntime demoKey (idleCallback 0 True (fireTimer 0 demo2)))"
proof -
  have h: "rt_scaled (getRuntime demoKey demo2)" "rt_active (getRuntime demoKey demo2) = 0"
    "rt_idleTimer (getRuntime demoKey demo2) = Some 0"
    by code_simp+
  with idle_workload_stops [OF demo_reachable(2) demoPolicy_ok h(1,2)] show ?thesis by (auto simp: Let_def)
qed

lemma dialLoop_first:
  assumes "\<And>j. i \<le> j \<Longrightarrow> j < k \<Longrightarrow> \<not> connects j \<and> \<not> expired j" "connects k \<or> expired k" "i \<le> k"
  shows "dialLoop connects expired i = Some (connects k)"
  using assms
proof (induction "k - i" arbitrary: i)
  case 0
  then have "k = i" by simp
  with 0 show ?case by (auto simp: dialLoop.simps [of _ _ i])
next
  case (Suc n)
  then have "\<not> connects i" "\<not> expired i" by auto
  moreover have "dialLoop connects expired (Suc i) = Some (connects k)" using Suc by (intro Suc.hyps(1)) auto
  ultimately show ?case by (simp add: dialLoop.simps [of _ _ i])
qed

text \<open>
  Claim C9.  The readiness loop of \<open>dialService\<close> returns as soon as an attempt connects or the
  readiness context has expired, and reports success exactly when the target accepted at an
  attempt before any expiry; a service without a workload is dialed once.
\<close>

theorem dialService_returns:
  assumes "connects n \<or> expired n"
  shows "\<exists>b. dialService connects expired s = Some b \<and>
    (svc_Workload s = None \<longrightarrow> b = connects 0) \<and>
    (svc_Workload s \<noteq> None \<longrightarrow> b = (\<exists>k. connects k \<and> (\<forall>j < k. \<not> expired j)))"
proof -
  define k where "k = (LEAST k. connects k \<or> expired k)"
  have k: "connects k \<or> expired k" unfolding k_def using assms by (rule LeastI [of "\<lambda>k. connects k \<or> expired k"])
  have before: "\<not> connects j \<and> \<not> expired j" if "j < k" for j
    using that not_less_Least unfolding k_def by blast
  have "dialLoop connects expired 0 = Some (connects k)"
    by (rule dialLoop_first) (use before k in auto)
  moreover have "connects k = (\<exists>k. connects k \<and> (\<forall>j < k. \<not> expired j))"
    using k before by (metis linorder_neqE_nat)
  ultimately show ?thesis by (auto simp: dialService_def split: option.split)
qed

theorem dialService_returns_witness:
  "dialService (\<lambda>k. k = 2) (\<lambda>k. 4 \<le> k) demoService = Some True \<and>
   dialService (\<lambda>k. False) (\<lambda>k. 4 \<le> k) demoService = Some False"
proof -
  have w: "svc_Workload demoService \<noteq> None" by (simp add: demoService_def)
  have "dialService (\<lambda>k. k = 2) (\<lambda>k. 4 \<le> k) demoService = Some True"
    using dialService_returns [of "\<lambda>k. k = 2" 2 "\<lambda>k. 4 \<le> k" demoService] w by auto
  moreover have "dialService (\<lambda>k. False) (\<lambda>k. 4 \<le> k) demoService = Some False"
    using dialService_returns [of "\<lambda>k. False" 4 "\<lambda>k. 4 \<le> k" demoService] w by auto
  ultimately show ?thesis by blast
qed



lemma shutdownAll_stops:
  assumes "gateway_inv gw" "e = None"
  shows "snd (shutdownAll (\<lambda>_. True) ks gw e) = None \<and>
    (\<forall>k. let r = getRuntime k (fst (shutdownAll (\<lambda>_. True) ks gw e)) in
       (k \<in> set ks \<longrightarrow> \<not> rt_scaled r \<and> rt_idleTimer r = None) \<and>
       (\<not> rt_scaled (getRuntime k gw) \<and> rt_idleTimer (getRuntime k gw) = None \<longrightarrow> \<not> rt_scaled r \<and> rt_idleTimer r = None))"
  using assms
proof (induction ks arbitrary: gw e)
  case (Cons k ks)
  obtain gw1 b where s: "shutdownRuntime k True gw = (gw1, b)" by force
  have b: "b" using s by (auto simp: shutdownRuntime_def Let_def split: option.splits if_splits)
  have i1: "gateway_inv gw1" using shutdownRuntime_inv [OF Cons.prems(1), of k True] s by simp
  have own: "\<not> rt_scaled (getRuntime k gw1)" using shutdownRuntime_stops [OF Cons.prems(1), of k] s by simp
  have t: "rt_idleTimer (getRuntime k gw1) = None"
    using s by (auto simp: shutdownRuntime_def Let_def getRuntime_put workloadStopped_def split: option.splits if_splits)
  have o: "getRuntime k' gw1 = getRuntime k' gw" if "k' \<noteq> k" for k'
    using s that by (auto simp: shutdownRuntime_def Let_def getRuntime_put workloadStopped_def split: option.splits if_splits)
  from Cons.IH [OF i1 refl] s b own t o Cons.prems(2) show ?case
    by (auto simp: Let_def) metis+
qed simp

text \<open>
  \<open>Shutdown\<close> with a working backend stops everything: it reports no error, no runtime
  stays scaled or keeps an idle timer, and the managed gauge reads zero.
\<close>

theorem shutdown_stops_all:
  assumes "reachable svcs reliable hasScaler gw"
  shows "snd (Shutdown (\<lambda>_. True) gw) = None \<and>
    \<not> rt_scaled (getRuntime k (fst (Shutdown (\<lambda>_. True) gw))) \<and>
    rt_idleTimer (getRuntime k (fst (Shutdown (\<lambda>_. True) gw))) = None \<and>
    scaledCount (fst (Shutdown (\<lambda>_. True) gw)) = 0"
proof -
  have i: "gateway_inv gw" by (rule reachable_inv [OF assms])
  let ?gw' = "fst (Shutdown (\<lambda>_. True) gw)"
  have absent: "\<not> rt_scaled (getRuntime k gw) \<and> rt_idleTimer (getRuntime k gw) = None"
    if "k \<notin> set (map fst (gw_runtimes gw))" for k
    using that by (auto simp: getRuntime_def emptyRuntime_def map_of_eq_None_iff [THEN iffD2] split: option.split)
  have all: "snd (Shutdown (\<lambda>_. True) gw) = None" "\<not> rt_scaled (getRuntime k ?gw')"
    "rt_idleTimer (getRuntime k ?gw') = None" for k
    using shutdownAll_stops [OF i refl, of "map fst (gw_runtimes gw)"] absent [of k]
    unfolding Shutdown_def Let_def by blast+
  have "gateway_inv ?gw'" unfolding Shutdown_def by (rule shutdownAll_inv [OF i])
  then have d: "distinct (map fst (gw_runtimes ?gw'))" by (simp add: gateway_inv_def)
  have "\<not> rt_scaled r" if "(k, r) \<in> set (gw_runtimes ?gw')" for k r
    using all(2) [of k] that d by (simp add: getRuntime_def)
  then have "map ((\<lambda>r. if rt_scaled r then 1 else 0) \<circ> snd) (gw_runtimes ?gw') = map (\<lambda>_. 0 :: int) (gw_runtimes ?gw')"
    by auto
  then have "scaledCount ?gw' = sum_list (map (\<lambda>_. 0 :: int) (gw_runtimes ?gw'))"
    unfolding scaledCount_def by (simp only:)
  then have "scaledCount ?gw' = 0" by simp
  with all show ?thesis by blast
qed

theorem shutdown_stops_all_witness:
  "snd (Shutdown (\<lambda>_. True) demo1) = None \<and> scaledCount demo1 = 1 \<and> scaledCount (fst (Shutdown (\<lambda>_. True) demo1)) = 0"
proof -
  have "scaledCount demo1 = 1" by code_simp
  with shutdown_stops_all [OF demo_reachable(1)] show ?thesis by blast
qed

lemma nul_split:
  "nul \<notin> set a \<Longrightarrow> nul \<notin> set a' \<Longrightarrow> a @ nul # b = a' @ nul # b' \<longleftrightarrow> a = a' \<and> b = b'"
  by (auto simp: append_eq_append_conv2 append_eq_Cons_conv Cons_eq_append_conv)

definition key_safe :: "string \<Rightarrow> Service \<Rightarrow> bool" where
  "key_safe identity s \<longleftrightarrow>
     (case svc_Workload s of
        None \<Rightarrow> nul \<notin> set identity \<and> nul \<notin> set (svc_Name s)
      | Some w \<Rightarrow> nul \<notin> set (wl_Kind w) \<and> nul \<notin> set (wl_Namespace w))"

text \<open>
  Claim C11.  Connections share a runtime, and with it one start, one connection count and one idle
  timer, exactly when they reach the same workload; unmanaged services never share a runtime with
  a workload or with another identity or name.
\<close>

theorem runtimeKey_shared:
  assumes "key_safe i s" "key_safe i' s'"
  shows "runtimeKey i s = runtimeKey i' s' \<longleftrightarrow>
    (case (svc_Workload s, svc_Workload s') of
       (None, None) \<Rightarrow> i = i' \<and> svc_Name s = svc_Name s'
     | (Some w, Some w') \<Rightarrow> scalerTarget w = scalerTarget w'
     | _ \<Rightarrow> False)"
proof (cases "svc_Workload s"; cases "svc_Workload s'")
  assume "svc_Workload s = None" "svc_Workload s' = None"
  with assms show ?thesis by (simp add: key_safe_def runtimeKey_def nul_split)
next
  fix w assume n: "svc_Workload s = None" "svc_Workload s' = Some w"
  then have "nuls (runtimeKey i s) = 1" using assms nuls_static by (simp add: key_safe_def runtimeKey_def)
  moreover have "3 \<le> nuls (runtimeKey i' s')" using n nuls_workload [of w] by (simp add: runtimeKey_def)
  ultimately show ?thesis using n by auto
next
  fix w assume n: "svc_Workload s = Some w" "svc_Workload s' = None"
  then have "nuls (runtimeKey i' s') = 1" using assms nuls_static by (simp add: key_safe_def runtimeKey_def)
  moreover have "3 \<le> nuls (runtimeKey i s)" using n nuls_workload [of w] by (simp add: runtimeKey_def)
  ultimately show ?thesis using n by auto
next
  fix w w' assume "svc_Workload s = Some w" "svc_Workload s' = Some w'"
  with assms show ?thesis by (simp add: key_safe_def runtimeKey_def workloadKey_def scalerTarget_def nul_split)
qed

theorem runtimeKey_shared_witness:
  "runtimeKey ''ada'' demoService = runtimeKey ''bob'' (demoService\<lparr>svc_Name := ''api''\<rparr>)"
proof -
  have "key_safe ''ada'' demoService" "key_safe ''bob'' (demoService\<lparr>svc_Name := ''api''\<rparr>)"
    by (simp_all add: key_safe_def demoService_def nul_def)
  from runtimeKey_shared [OF this] show ?thesis by (simp add: demoService_def)
qed

text \<open>
  A stale timer stops a workload early.  There is an execution with a working backend in
  which a connection closes, its idle timer fires, a new connection arrives and closes before the
  callback gets the mutex, and the callback then stops the workload although the timer of the new
  idle period is still armed.  That timer stays armed and is forgotten: after the next connection
  it is still running while the connection is open.
\<close>

theorem stale_timer_stops_early:
  "reachable demoPolicy True True demo5 \<and>
   rt_scaled (getRuntime demoKey demo5) \<and> rt_idleTimer (getRuntime demoKey demo5) = Some 1 \<and>
   tm_state (gw_timers demo5 ! 1) = Armed \<and>
   demo6 = idleCallback 0 True demo5 \<and> \<not> rt_scaled (getRuntime demoKey demo6) \<and>
   demo7 = demoOpen demo6 \<and> rt_active (getRuntime demoKey demo7) = 1 \<and>
   rt_idleTimer (getRuntime demoKey demo7) = None \<and> tm_state (gw_timers demo7 ! 1) = Armed"
  using demo_reachable(4) demo5_parts demo6_parts demo7_parts
  by (simp add: demo_state_defs getRuntime_def, simp add: demo6_def demo7_def)

definition failedIdle :: lifecycleGateway where
  "failedIdle = idleCallback 0 False demo3"

text \<open>
  A failed idle scale-down is never retried.  After the callback's request fails the
  workload is still up and unused, and no close, no timer and no callback can change the gateway
  any more: only a new connection or the shutdown of the daemon can stop the workload.
\<close>

theorem failed_downscale_sticks:
  "reachable demoPolicy False True failedIdle \<and>
   rt_scaled (getRuntime demoKey failedIdle) \<and> rt_active (getRuntime demoKey failedIdle) = 0 \<and>
   closeConnection i failedIdle = failedIdle \<and> fireTimer i failedIdle = failedIdle \<and>
   idleCallback i ok failedIdle = failedIdle"
proof -
  have r: "reachable demoPolicy False True failedIdle"
    unfolding failedIdle_def by (rule reachable.more [OF demo_reachable(3)]) (rule serve_step, rule idle_step, simp)
  have s: "rt_scaled (getRuntime demoKey failedIdle)" "rt_active (getRuntime demoKey failedIdle) = 0"
    by code_simp+
  have t: "list_all (\<lambda>t. tm_state t = Finished) (gw_timers failedIdle)" by code_simp
  have c: "list_all tc_released (gw_conns failedIdle)" by code_simp
  have "tm_state (gw_timers failedIdle ! i) = Finished" if "i < length (gw_timers failedIdle)"
    using t that by (auto simp: list_all_iff)
  moreover have "tc_released (gw_conns failedIdle ! i)" if "i < length (gw_conns failedIdle)"
    using c that by (auto simp: list_all_iff)
  ultimately show ?thesis using r s by (auto simp: closeConnection_def fireTimer_def idleCallback_def Let_def)
qed

end
