(* ===== verification/Go_JsonText.thy ===== *)
theory Go_JsonText
  imports Go_Json
begin

text \<open>
  The text level of \<open>encoding/json\<close>, for the places where the program is handed bytes rather than
  a document of its own: a lexer and a push-down parser from bytes to the tree of \<open>Go_Json\<close>, and
  the decoder of unpadded URL-safe base64.  The parser accepts one value surrounded by white space,
  rejects control characters in strings, and stops at 10000 open arrays and objects.
\<close>

section \<open>Characters\<close>

definition json_space :: "char \<Rightarrow> bool" where
  "json_space c \<longleftrightarrow> c \<in> {CHR 0x20, CHR 0x09, CHR 0x0A, CHR 0x0D}"

definition byte :: "nat \<Rightarrow> char" where
  "byte n = char_of n"

text \<open>\<open>utf8.AppendRune\<close> for a rune outside the surrogate range.\<close>

definition encodeRune :: "nat \<Rightarrow> string" where
  "encodeRune r =
     (if r < 0x80 then [byte r]
      else if r < 0x800 then [byte (0xC0 + r div 64), byte (0x80 + r mod 64)]
      else if r < 0x10000 then [byte (0xE0 + r div 4096), byte (0x80 + r div 64 mod 64), byte (0x80 + r mod 64)]
      else [byte (0xF0 + r div 262144), byte (0x80 + r div 4096 mod 64), byte (0x80 + r div 64 mod 64),
            byte (0x80 + r mod 64)])"

definition hex4 :: "string \<Rightarrow> nat option" where
  "hex4 s = (let ds = map hexVal (take 4 s) in
     if length s \<ge> 4 \<and> None \<notin> set ds then Some (foldl (\<lambda>a d. 16 * a + the d) 0 ds) else None)"

definition surrogateHigh :: "nat \<Rightarrow> bool" where "surrogateHigh r \<longleftrightarrow> 0xD800 \<le> r \<and> r < 0xDC00"
definition surrogateLow :: "nat \<Rightarrow> bool" where "surrogateLow r \<longleftrightarrow> 0xDC00 \<le> r \<and> r < 0xE000"

definition simpleEscapes :: "(char \<times> char) list" where
  "simpleEscapes = [(CHR 0x22, CHR 0x22), (CHR 0x5C, CHR 0x5C), (CHR ''/'', CHR ''/''), (CHR ''b'', CHR 0x08),
     (CHR ''f'', CHR 0x0C), (CHR ''n'', CHR 0x0A), (CHR ''r'', CHR 0x0D), (CHR ''t'', CHR 0x09)]"

text \<open>
  The escape after a backslash: its bytes and what follows.  A pair of surrogates is one rune, a
  lone one is the replacement character.
\<close>

definition escape :: "string \<Rightarrow> (string \<times> string) option" where
  "escape s =
     (case s of
        [] \<Rightarrow> None
      | c # r \<Rightarrow>
          (case map_of simpleEscapes c of
             Some d \<Rightarrow> Some ([d], r)
           | None \<Rightarrow>
               if c \<noteq> CHR ''u'' then None
               else (case hex4 r of
                   None \<Rightarrow> None
                 | Some x \<Rightarrow>
                     let rest = drop 4 r;
                         low = (if take 2 rest = [CHR 0x5C, CHR ''u''] then hex4 (drop 2 rest) else None)
                     in if surrogateHigh x then
                          (case low of
                             Some y \<Rightarrow>
                               if surrogateLow y
                               then Some (encodeRune (0x10000 + (x - 0xD800) * 1024 + (y - 0xDC00)), drop 6 rest)
                               else Some (encodeRune 0xFFFD, rest)
                           | None \<Rightarrow> Some (encodeRune 0xFFFD, rest))
                        else if surrogateLow x then Some (encodeRune 0xFFFD, rest)
                        else Some (encodeRune x, rest))))"

lemma escape_shorter: "escape s = Some (b, r) \<Longrightarrow> length r < length s"
  by (auto simp: escape_def Let_def split: list.splits option.splits if_splits)

text \<open>A string after its opening quote: its bytes and what follows the closing quote.\<close>

function stringBody :: "string \<Rightarrow> string \<Rightarrow> (string \<times> string) option" where
  "stringBody acc [] = None"
| "stringBody acc (c # s) =
     (if c = CHR 0x22 then Some (acc, s)
      else if c < CHR 0x20 then None
      else if c = CHR 0x5C then
        (case escape s of None \<Rightarrow> None | Some (b, r) \<Rightarrow> stringBody (acc @ b) r)
      else stringBody (acc @ [c]) s)"
  by pat_completeness auto
termination
  by (relation "measure (length \<circ> snd)") (auto dest: escape_shorter)

lemma stringBody_shorter: "stringBody acc s = Some (b, r) \<Longrightarrow> length r < length s"
proof (induction acc s rule: stringBody.induct)
  case (2 acc c s)
  show ?case
  proof (cases "escape s")
    case None
    with 2 show ?thesis by (auto split: if_splits)
  next
    case (Some br)
    obtain b' r' where br: "br = (b', r')" by (cases br)
    with Some escape_shorter have "length r' < length s" by blast
    with 2 Some br show ?thesis by (fastforce split: if_splits)
  qed
qed simp

section \<open>Numbers\<close>

definition number_char :: "char \<Rightarrow> bool" where
  "number_char c \<longleftrightarrow> is_digit c \<or> c \<in> set ''+-.eE''"

definition digits :: "string \<Rightarrow> bool" where
  "digits s \<longleftrightarrow> s \<noteq> [] \<and> list_all is_digit s"

definition integerPart :: "string \<Rightarrow> bool" where
  "integerPart s \<longleftrightarrow> digits s \<and> (hd s = CHR ''0'' \<longrightarrow> tl s = [])"

definition exponentPart :: "string \<Rightarrow> bool" where
  "exponentPart s \<longleftrightarrow> digits (if s \<noteq> [] \<and> hd s \<in> set ''+-'' then tl s else s)"

definition jsonNumber :: "string \<Rightarrow> bool" where
  "jsonNumber s =
     (let u = (if s \<noteq> [] \<and> hd s = CHR ''-'' then tl s else s);
          mantissa = takeWhile (\<lambda>c. c \<notin> set ''eE'') u;
          expo = dropWhile (\<lambda>c. c \<notin> set ''eE'') u
      in (case cut mantissa (CHR ''.'') of (i, f, dotted) \<Rightarrow> integerPart i \<and> (dotted \<longrightarrow> digits f)) \<and>
         (expo \<noteq> [] \<longrightarrow> exponentPart (tl expo)))"

section \<open>Tokens\<close>

datatype jtok = TOpenArr | TCloseArr | TOpenObj | TCloseObj | TColon | TComma | TString string | TScalar json

definition punctuation :: "(char \<times> jtok) list" where
  "punctuation = [(CHR ''['', TOpenArr), (CHR '']'', TCloseArr), (CHR ''{'', TOpenObj), (CHR ''}'', TCloseObj),
     (CHR '':'', TColon), (CHR '','', TComma)]"

definition jsonLiterals :: "(string \<times> json) list" where
  "jsonLiterals = [(''true'', JBool True), (''false'', JBool False), (''null'', JNull)]"

text \<open>The token a non-empty text starts with, and what follows it.\<close>

definition nextToken :: "char \<Rightarrow> string \<Rightarrow> (jtok \<times> string) option" where
  "nextToken c s =
     (case map_of punctuation c of
        Some t \<Rightarrow> Some (t, s)
      | None \<Rightarrow>
          if c = CHR 0x22 then
            (case stringBody [] s of None \<Rightarrow> None | Some (b, r) \<Rightarrow> Some (TString b, r))
          else if number_char c then
            (let n = c # takeWhile number_char s in
             if jsonNumber n then Some (TScalar (JNum n), dropWhile number_char s) else None)
          else (case find (\<lambda>(k, _). prefix k (c # s)) jsonLiterals of
              None \<Rightarrow> None
            | Some (k, v) \<Rightarrow> Some (TScalar v, drop (length k - 1) s)))"

lemma nextToken_shorter: "nextToken c s = Some (t, r) \<Longrightarrow> length r \<le> length s"
  by (auto simp: nextToken_def Let_def split: option.splits if_splits prod.splits
      dest: stringBody_shorter intro: length_dropWhile_le)

function jsonTokens :: "string \<Rightarrow> jtok list option" where
  "jsonTokens [] = Some []"
| "jsonTokens (c # s) =
     (if json_space c then jsonTokens s
      else (case nextToken c s of
          None \<Rightarrow> None
        | Some (t, r) \<Rightarrow> (case jsonTokens r of None \<Rightarrow> None | Some ts \<Rightarrow> Some (t # ts))))"
  by pat_completeness auto
termination
  by (relation "measure length") (auto dest: nextToken_shorter)

section \<open>Values\<close>

datatype frame = InArr "json list" | InObj "(string \<times> json) list" string

datatype pstate =
    WantValue | WantFirst | WantKey | WantFirstKey | WantColon string | Have json

text \<open>
  The stack holds the open arrays and objects.  \<open>WantFirst\<close> and \<open>WantFirstKey\<close> may see the closing
  bracket of an empty array or object.  An object whose key is awaited keeps the empty key in its
  frame.
\<close>

definition maxNestingDepth :: nat where
  "maxNestingDepth = 10000"

fun startValue :: "frame list \<Rightarrow> jtok \<Rightarrow> (frame list \<times> pstate) option" where
  "startValue st (TScalar v) = Some (st, Have v)"
| "startValue st (TString s) = Some (st, Have (JStr s))"
| "startValue st TOpenArr = (if length st < maxNestingDepth then Some (InArr [] # st, WantFirst) else None)"
| "startValue st TOpenObj = (if length st < maxNestingDepth then Some (InObj [] [] # st, WantFirstKey) else None)"
| "startValue st _ = None"

fun endValue :: "frame list \<Rightarrow> json \<Rightarrow> jtok \<Rightarrow> (frame list \<times> pstate) option" where
  "endValue (InArr vs # st) v TComma = Some (InArr (vs @ [v]) # st, WantValue)"
| "endValue (InArr vs # st) v TCloseArr = Some (st, Have (JArr (vs @ [v])))"
| "endValue (InObj kvs k # st) v TComma = Some (InObj (kvs @ [(k, v)]) [] # st, WantKey)"
| "endValue (InObj kvs k # st) v TCloseObj = Some (st, Have (JObj (kvs @ [(k, v)])))"
| "endValue _ _ _ = None"

fun parserStep :: "frame list \<times> pstate \<Rightarrow> jtok \<Rightarrow> (frame list \<times> pstate) option" where
  "parserStep (st, WantValue) t = startValue st t"
| "parserStep (InArr vs # st, WantFirst) t = (if t = TCloseArr then Some (st, Have (JArr [])) else startValue (InArr vs # st) t)"
| "parserStep (st, WantKey) (TString k) = Some (st, WantColon k)"
| "parserStep (f # st, WantFirstKey) t =
     (case t of TCloseObj \<Rightarrow> Some (st, Have (JObj [])) | TString k \<Rightarrow> Some (f # st, WantColon k) | _ \<Rightarrow> None)"
| "parserStep (InObj kvs _ # st, WantColon k) TColon = Some (InObj kvs k # st, WantValue)"
| "parserStep (st, Have v) t = endValue st v t"
| "parserStep _ _ = None"

fun parserRun :: "frame list \<times> pstate \<Rightarrow> jtok list \<Rightarrow> json option" where
  "parserRun (st, q) [] = (case (st, q) of ([], Have v) \<Rightarrow> Some v | _ \<Rightarrow> None)"
| "parserRun sq (t # ts) = (case parserStep sq t of None \<Rightarrow> None | Some sq' \<Rightarrow> parserRun sq' ts)"

definition parseJson :: "string \<Rightarrow> json option" where
  "parseJson s = (case jsonTokens s of None \<Rightarrow> None | Some ts \<Rightarrow> parserRun ([], WantValue) ts)"

lemma parseJson_object: "parseJson ''{\"typ\": \"at+jwt\", \"n\": [1.5e3, null, {}]}'' =
  Some (JObj [(''typ'', JStr ''at+jwt''), (''n'', JArr [JNum ''1.5e3'', JNull, JObj []])])"
  by code_simp

lemma parseJson_rejects: "parseJson ''{\"a\":01}'' = None" "parseJson ''[1,]'' = None" "parseJson ''{} {}'' = None"
  by code_simp+

section \<open>Unpadded URL-safe base64\<close>

definition b64Val :: "char \<Rightarrow> nat option" where
  "b64Val c =
     (if is_upper c then Some (of_char c - 65)
      else if is_lower c then Some (of_char c - 71)
      else if is_digit c then Some (of_char c + 4)
      else if c = CHR ''-'' then Some 62
      else if c = CHR ''_'' then Some 63
      else None)"

fun b64Groups :: "nat list \<Rightarrow> string option" where
  "b64Groups [] = Some []"
| "b64Groups [a] = None"
| "b64Groups [a, b] = Some [byte (a * 4 + b div 16)]"
| "b64Groups [a, b, c] = Some [byte (a * 4 + b div 16), byte (b mod 16 * 16 + c div 4)]"
| "b64Groups (a # b # c # d # r) =
     map_option (\<lambda>t. byte (a * 4 + b div 16) # byte (b mod 16 * 16 + c div 4) # byte (c mod 4 * 64 + d) # t) (b64Groups r)"

text \<open>\<open>base64.RawURLEncoding.DecodeString\<close> skips line ends and ignores trailing bits.\<close>

definition rawURLDecode :: "string \<Rightarrow> string option" where
  "rawURLDecode s =
     (let vs = map b64Val (filter (\<lambda>c. c \<noteq> CHR 0x0A \<and> c \<noteq> CHR 0x0D) s)
      in if None \<in> set vs then None else b64Groups (map the vs))"

lemma b64Val_b64Char: "0 \<le> n \<Longrightarrow> n < 64 \<Longrightarrow> b64Val (b64Char n) = Some (nat n)"
proof -
  have "list_all (\<lambda>n. b64Val (b64Char n) = Some (nat n)) [0..63]" by code_simp
  then show "0 \<le> n \<Longrightarrow> n < 64 \<Longrightarrow> ?thesis" by (simp add: list_all_iff)
qed

lemma b64Char_plain: "0 \<le> n \<Longrightarrow> n < 64 \<Longrightarrow> b64Char n \<noteq> CHR 0x0A \<and> b64Char n \<noteq> CHR 0x0D"
proof -
  have "list_all (\<lambda>n. b64Char n \<noteq> CHR 0x0A \<and> b64Char n \<noteq> CHR 0x0D) [0..63]" by code_simp
  then show "0 \<le> n \<Longrightarrow> n < 64 \<Longrightarrow> ?thesis" by (simp add: list_all_iff)
qed

end
