(* ===== verification/Authn.thy ===== *)
theory Authn
  imports User_Registration Go_JsonText Go_Files
begin

text \<open>
  Authentication of HTTP callers (\<open>internal/authn\<close>): the principals and the bearer header
  (\<open>authn.go\<close>), the shared token (\<open>static.go\<close>), the advertised configuration
  (\<open>configuration.go\<close>), and OpenID Connect (\<open>oidc.go\<close>).  The verifier of the OIDC library and its
  issuer discovery are parameters.
\<close>

section \<open>Principals and bearer tokens\<close>

definition MethodAnonymous :: string where "MethodAnonymous = ''anonymous''"
definition MethodToken :: string where "MethodToken = ''token''"
definition MethodOIDC :: string where "MethodOIDC = ''oidc''"

record Principal =
  pr_Method :: string
  pr_Issuer :: string
  pr_Subject :: string
  pr_Identity :: string

datatype authn_err =
    ErrUnauthenticated | StaticTokenRequired | BadSubjectTokenType | BadIssuer | AudienceRequired
  | ReadCAFile sys_err | SystemPool | NoCACertificates | DiscoverIssuer

definition bearer :: "string \<Rightarrow> authn_err + string" where
  "bearer authorization =
     (case cutPrefix (trimSpace authorization) ''Bearer '' of
        None \<Rightarrow> Inl ErrUnauthenticated
      | Some token \<Rightarrow> if trimSpace token = [] then Inl ErrUnauthenticated else Inr (trimSpace token))"

definition anonymousAuthenticate :: "string \<Rightarrow> authn_err + Principal" where
  "anonymousAuthenticate _ = Inr \<lparr>pr_Method = MethodAnonymous, pr_Issuer = [], pr_Subject = [], pr_Identity = []\<rparr>"

section \<open>The shared token\<close>

record StaticToken =
  want :: string

definition NewStaticToken :: "string \<Rightarrow> authn_err + StaticToken" where
  "NewStaticToken token =
     (let token = trimSpace token in
      if token = [] then Inl StaticTokenRequired else Inr \<lparr>want = sha256 token\<rparr>)"

definition staticAuthenticate :: "StaticToken \<Rightarrow> string \<Rightarrow> authn_err + Principal" where
  "staticAuthenticate a bearerToken =
     (if want a \<noteq> sha256 (trimSpace bearerToken) then Inl ErrUnauthenticated
      else Inr \<lparr>pr_Method = MethodToken, pr_Issuer = [], pr_Subject = [], pr_Identity = []\<rparr>)"

section \<open>Advertised configuration\<close>

definition SubjectTokenTypeAccessToken :: string where
  "SubjectTokenTypeAccessToken = ''urn:ietf:params:oauth:token-type:access_token''"
definition SubjectTokenTypeIDToken :: string where
  "SubjectTokenTypeIDToken = ''urn:ietf:params:oauth:token-type:id_token''"

record OIDCConfiguration =
  oc_IssuerURL :: string
  oc_ClientID :: string
  oc_Audience :: string
  oc_Scopes :: "string list"
  oc_IdentityClaim :: string
  oc_SubjectTokenType :: string
  oc_DeviceFlow :: bool

record Configuration =
  cf_Mode :: string
  cf_TokenEndpoint :: string
  cf_OIDC :: "OIDCConfiguration option"

definition normalizedOIDC :: "OIDCConfiguration \<Rightarrow> OIDCConfiguration" where
  "normalizedOIDC c =
     \<lparr>oc_IssuerURL = trimRight (trimSpace (oc_IssuerURL c)) ''/'', oc_ClientID = trimSpace (oc_ClientID c),
      oc_Audience = trimSpace (oc_Audience c),
      oc_Scopes = (if ''openid'' \<in> set (oc_Scopes c) then oc_Scopes c else ''openid'' # oc_Scopes c),
      oc_IdentityClaim = trimSpace (oc_IdentityClaim c),
      oc_SubjectTokenType = (if trimSpace (oc_SubjectTokenType c) = [] then SubjectTokenTypeAccessToken
        else trimSpace (oc_SubjectTokenType c)),
      oc_DeviceFlow = oc_DeviceFlow c\<rparr>"

definition normalized :: "Configuration \<Rightarrow> Configuration" where
  "normalized c =
     c\<lparr>cf_Mode := trimSpace (cf_Mode c), cf_TokenEndpoint := trimSpace (cf_TokenEndpoint c),
       cf_OIDC := map_option normalizedOIDC (cf_OIDC c)\<rparr>"

definition NormalizeSubjectTokenType :: "string \<Rightarrow> authn_err + string" where
  "NormalizeSubjectTokenType v =
     (let v = trimSpace v in
      if v = ''access-token'' \<or> v = SubjectTokenTypeAccessToken then Inr SubjectTokenTypeAccessToken
      else if v = ''id-token'' \<or> v = SubjectTokenTypeIDToken then Inr SubjectTokenTypeIDToken
      else Inl BadSubjectTokenType)"

section \<open>OpenID Connect\<close>

record OIDCConfig =
  og_IssuerURL :: string
  og_ClientID :: string
  og_Audience :: string
  og_IdentityClaim :: string
  og_SubjectTokenType :: string
  og_CAFile :: string

record verifiedOIDCToken =
  vt_Issuer :: string
  vt_Subject :: string
  vt_Claims :: "json gomap"

text \<open>
  The OIDC library: issuer discovery, and the verifier for an issuer, an audience and a list of
  signing algorithms, which yields issuer, subject and the claims document of a token it accepts.
\<close>

record oidc_lib =
  discoverProvider :: "string \<Rightarrow> bool"
  verifyToken :: "string \<Rightarrow> string \<Rightarrow> string list \<Rightarrow> string \<Rightarrow> (string \<times> string \<times> json) option"

fun decodeRaw :: "json dec" where
  "decodeRaw j old = Inr j"

definition remoteVerify :: "(string \<Rightarrow> (string \<times> string \<times> json) option) \<Rightarrow> string \<Rightarrow> verifiedOIDCToken option" where
  "remoteVerify verifier rawToken =
     (case verifier rawToken of
        None \<Rightarrow> None
      | Some (issuer, subject, claims) \<Rightarrow>
          (case dec_map decodeRaw JNull claims [] of
             Inl _ \<Rightarrow> None
           | Inr m \<Rightarrow> Some \<lparr>vt_Issuer = issuer, vt_Subject = subject, vt_Claims = m\<rparr>))"

record OIDC =
  oi_issuerURL :: string
  oi_identityClaim :: string
  oi_subjectTokenType :: string
  oi_verifier :: "string \<Rightarrow> verifiedOIDCToken option"

definition newOIDCWithVerifier :: "string \<Rightarrow> string \<Rightarrow> string \<Rightarrow> (string \<Rightarrow> verifiedOIDCToken option) \<Rightarrow> OIDC" where
  "newOIDCWithVerifier issuerURL identityClaim subjectTokenType verifier =
     \<lparr>oi_issuerURL = issuerURL, oi_identityClaim = identityClaim, oi_subjectTokenType = subjectTokenType,
      oi_verifier = verifier\<rparr>"

text \<open>
  The HTTP client is the default one or one that trusts the certificates of a file as well;
  \<open>systemPool\<close> says whether the platform's pool loads, \<open>hasCerts\<close> whether PEM text contains a
  certificate.
\<close>

datatype oidcHTTPClient = DefaultClient duration | TrustingClient string duration

definition newOIDCHTTPClient :: "bool \<Rightarrow> (string \<Rightarrow> bool) \<Rightarrow> os_env \<Rightarrow> string fs \<Rightarrow> string \<Rightarrow> authn_err + oidcHTTPClient" where
  "newOIDCHTTPClient systemPool hasCerts env fs caFile =
     (let caFile = trimSpace caFile in
      if caFile = [] then Inr (DefaultClient (15 * Second))
      else case readFile env caFile fs of
        Inl e \<Rightarrow> Inl (ReadCAFile e)
      | Inr contents \<Rightarrow>
          if \<not> systemPool then Inl SystemPool
          else (case contents of
              None \<Rightarrow> Inl NoCACertificates
            | Some pem \<Rightarrow>
                if \<not> hasCerts pem then Inl NoCACertificates
                else Inr (TrustingClient pem (15 * Second))))"

definition supportedSigningAlgs :: "string list" where
  "supportedSigningAlgs = [''RS256'', ''ES256'', ''PS256'', ''EdDSA'']"

definition NewOIDC :: "(oidcHTTPClient \<Rightarrow> oidc_lib) \<Rightarrow> bool \<Rightarrow> (string \<Rightarrow> bool) \<Rightarrow> os_env \<Rightarrow> string fs \<Rightarrow> OIDCConfig \<Rightarrow> authn_err + OIDC" where
  "NewOIDC lib systemPool hasCerts env fs config =
     (let issuerURL = trimRight (trimSpace (og_IssuerURL config)) ''/'' in
      if \<not> httpsIssuer issuerURL then Inl BadIssuer
      else case NormalizeSubjectTokenType (og_SubjectTokenType config) of
        Inl e \<Rightarrow> Inl e
      | Inr subjectTokenType \<Rightarrow>
          let verificationAudience = (if subjectTokenType = SubjectTokenTypeIDToken
                then trimSpace (og_ClientID config) else trimSpace (og_Audience config)) in
          if verificationAudience = [] then Inl AudienceRequired
          else
            let claim = trimSpace (og_IdentityClaim config);
                identityClaim = (if claim = [] then ''preferred_username'' else claim) in
            (case newOIDCHTTPClient systemPool hasCerts env fs (og_CAFile config) of
               Inl e \<Rightarrow> Inl e
             | Inr client \<Rightarrow>
                 if \<not> discoverProvider (lib client) issuerURL then Inl DiscoverIssuer
                 else Inr (newOIDCWithVerifier issuerURL identityClaim subjectTokenType
                   (remoteVerify (verifyToken (lib client) issuerURL verificationAudience supportedSigningAlgs)))))"

text \<open>The header of a compact token, decoded into its \<open>typ\<close>.\<close>

definition headerType :: "string \<Rightarrow> string option" where
  "headerType encodedHeader =
     (case rawURLDecode encodedHeader of
        None \<Rightarrow> None
      | Some bytes \<Rightarrow>
          (case parseJson bytes of
             None \<Rightarrow> None
           | Some j \<Rightarrow>
               (case dec_struct False [(''typ'', dec_string)] j [] of Inl _ \<Rightarrow> None | Inr typ \<Rightarrow> Some typ)))"

definition matchesSubjectTokenType :: "string \<Rightarrow> string \<Rightarrow> bool" where
  "matchesSubjectTokenType rawToken subjectTokenType =
     (let parts = splitChar rawToken (CHR ''.'') in
      if length parts \<noteq> 3 \<or> [] \<in> set parts then False
      else case headerType (hd parts) of
        None \<Rightarrow> False
      | Some typ \<Rightarrow>
          let isAccessToken = (equalFold typ ''at+jwt'' \<or> equalFold typ ''application/at+jwt'') in
          if subjectTokenType = SubjectTokenTypeAccessToken then isAccessToken
          else if subjectTokenType = SubjectTokenTypeIDToken then \<not> isAccessToken
          else False)"

definition oidcAuthenticate :: "OIDC \<Rightarrow> string \<Rightarrow> authn_err + Principal" where
  "oidcAuthenticate a bearerToken =
     (let bearerToken = trimSpace bearerToken in
      if bearerToken = [] \<or> \<not> matchesSubjectTokenType bearerToken (oi_subjectTokenType a) then Inl ErrUnauthenticated
      else case oi_verifier a bearerToken of
        None \<Rightarrow> Inl ErrUnauthenticated
      | Some verified \<Rightarrow>
          if vt_Issuer verified \<noteq> oi_issuerURL a \<or> trimSpace (vt_Subject verified) = [] then Inl ErrUnauthenticated
          else (case map_of (vt_Claims verified) (oi_identityClaim a) of
              None \<Rightarrow> Inl ErrUnauthenticated
            | Some rawIdentity \<Rightarrow>
                (case dec_string rawIdentity [] of
                   Inl _ \<Rightarrow> Inl ErrUnauthenticated
                 | Inr identity \<Rightarrow>
                     if trimSpace identity = [] then Inl ErrUnauthenticated
                     else Inr \<lparr>pr_Method = MethodOIDC, pr_Issuer = vt_Issuer verified, pr_Subject = vt_Subject verified,
                            pr_Identity = trimSpace identity\<rparr>)))"

section \<open>Configured authenticators\<close>

text \<open>What the registration server can be configured with.\<close>

datatype httpAuthenticator = AnonymousAuth | StaticAuth StaticToken | OIDCAuth OIDC

fun httpAuthenticate :: "httpAuthenticator \<Rightarrow> string \<Rightarrow> authn_err + Principal" where
  "httpAuthenticate AnonymousAuth token = anonymousAuthenticate token"
| "httpAuthenticate (StaticAuth a) token = staticAuthenticate a token"
| "httpAuthenticate (OIDCAuth a) token = oidcAuthenticate a token"

text \<open>
  The contract of an HTTP authenticator, as the registration API relies on it: who is let in comes
  with the authenticator's method, and only the OIDC method names an identity.
\<close>

locale http_authenticator =
  fixes authenticate :: "'a \<Rightarrow> string \<Rightarrow> authn_err + Principal"
    and method_of :: "'a \<Rightarrow> string"
  assumes principal_method: "authenticate a t = Inr p \<Longrightarrow> pr_Method p = method_of a"
    and named_by_oidc: "authenticate a t = Inr p \<Longrightarrow>
      (if method_of a = MethodOIDC then pr_Identity p \<noteq> [] \<and> trimSpace (pr_Identity p) = pr_Identity p \<and> trimSpace (pr_Subject p) \<noteq> []
       else pr_Identity p = [] \<and> pr_Subject p = [] \<and> pr_Issuer p = [])"
    and trimmed: "authenticate a (trimSpace t) = authenticate a t"
begin

lemma oidc_principal:
  assumes "authenticate a t = Inr p" "pr_Method p = MethodOIDC"
  shows "pr_Identity p \<noteq> []" "trimSpace (pr_Identity p) = pr_Identity p" "trimSpace (pr_Subject p) \<noteq> []"
  using principal_method [OF assms(1)] named_by_oidc [OF assms(1)] assms(2) by auto

end

lemmas method_defs = MethodAnonymous_def MethodToken_def MethodOIDC_def

fun authenticatorMethod :: "httpAuthenticator \<Rightarrow> string" where
  "authenticatorMethod AnonymousAuth = MethodAnonymous"
| "authenticatorMethod (StaticAuth _) = MethodToken"
| "authenticatorMethod (OIDCAuth _) = MethodOIDC"

lemma oidcAuthenticate_Inr:
  "oidcAuthenticate a t = Inr p \<longleftrightarrow>
   (\<exists>v raw identity. oi_verifier a (trimSpace t) = Some v \<and> trimSpace t \<noteq> [] \<and>
     matchesSubjectTokenType (trimSpace t) (oi_subjectTokenType a) \<and> vt_Issuer v = oi_issuerURL a \<and>
     trimSpace (vt_Subject v) \<noteq> [] \<and> map_of (vt_Claims v) (oi_identityClaim a) = Some raw \<and>
     dec_string raw [] = Inr identity \<and> trimSpace identity \<noteq> [] \<and>
     p = \<lparr>pr_Method = MethodOIDC, pr_Issuer = oi_issuerURL a, pr_Subject = vt_Subject v, pr_Identity = trimSpace identity\<rparr>)"
  by (auto simp: oidcAuthenticate_def Let_def split: option.splits sum.splits if_splits)

interpretation http_auth: http_authenticator httpAuthenticate authenticatorMethod
proof (unfold_locales, goal_cases)
  case (1 a t p)
  then show ?case
    by (cases a) (auto simp: anonymousAuthenticate_def staticAuthenticate_def oidcAuthenticate_Inr split: if_splits)
next
  case (2 a t p)
  then show ?case
    by (cases a) (auto simp: anonymousAuthenticate_def staticAuthenticate_def oidcAuthenticate_Inr method_defs split: if_splits)
next
  case (3 a t)
  then show ?case
    by (cases a) (simp_all add: anonymousAuthenticate_def staticAuthenticate_def oidcAuthenticate_def)
qed

section \<open>Properties\<close>

text \<open>Every later reader of a bearer header sees a non-blank token without surrounding space.\<close>

lemma bearer_Inr: "bearer h = Inr t \<Longrightarrow> t \<noteq> [] \<and> trimSpace t = t"
  by (auto simp: bearer_def split: option.splits if_splits)

lemma NewOIDC_Inr:
  "NewOIDC lib pool certs env fs config = Inr a \<longleftrightarrow>
   (\<exists>client audience. newOIDCHTTPClient pool certs env fs (og_CAFile config) = Inr client \<and>
     oi_issuerURL a = trimRight (trimSpace (og_IssuerURL config)) ''/'' \<and> httpsIssuer (oi_issuerURL a) \<and>
     NormalizeSubjectTokenType (og_SubjectTokenType config) = Inr (oi_subjectTokenType a) \<and>
     audience = trimSpace (if oi_subjectTokenType a = SubjectTokenTypeIDToken then og_ClientID config else og_Audience config) \<and>
     audience \<noteq> [] \<and>
     oi_identityClaim a = (if trimSpace (og_IdentityClaim config) = [] then ''preferred_username'' else trimSpace (og_IdentityClaim config)) \<and>
     discoverProvider (lib client) (oi_issuerURL a) \<and>
     oi_verifier a = remoteVerify (verifyToken (lib client) (oi_issuerURL a) audience supportedSigningAlgs))"
  by (cases a) (auto simp: NewOIDC_def newOIDCWithVerifier_def Let_def split: sum.splits if_splits)

lemma remoteVerify_Some:
  "remoteVerify f t = Some v \<Longrightarrow> \<exists>claims. f t = Some (vt_Issuer v, vt_Subject v, claims) \<and> dec_map decodeRaw JNull claims [] = Inr (vt_Claims v)"
  by (auto simp: remoteVerify_def split: option.splits sum.splits)

definition demoHeader :: string where
  "demoHeader = base64RawURL ''{\"typ\":\"AT+jwt\"}''"

definition demoToken :: string where
  "demoToken = demoHeader @ ''.e30.c2ln''"

definition demoOidc :: oidc_lib where
  "demoOidc = \<lparr>discoverProvider = \<lambda>u. u = ''https://id.example'',
     verifyToken = \<lambda>issuer audience algs t. if issuer = ''https://id.example'' \<and> audience = ''tearenv'' \<and> t = demoToken
       then Some (issuer, ''sub-1'', JObj [(''preferred_username'', JStr '' ada '')]) else None\<rparr>"

definition demoOidcConfig :: OIDCConfig where
  "demoOidcConfig = \<lparr>og_IssuerURL = ''https://id.example/'', og_ClientID = ''cli'', og_Audience = ''tearenv'', og_IdentityClaim = [],
     og_SubjectTokenType = ''access-token'', og_CAFile = []\<rparr>"

definition noFaults :: os_env where
  "noFaults = \<lparr>faults = \<lambda>_. False, tempNames = [''7''], umask = 0\<rparr>"

definition demoOIDC :: OIDC where
  "demoOIDC = newOIDCWithVerifier ''https://id.example'' ''preferred_username'' SubjectTokenTypeAccessToken
     (remoteVerify (verifyToken demoOidc ''https://id.example'' ''tearenv'' supportedSigningAlgs))"

definition demoPrincipal :: Principal where
  "demoPrincipal = \<lparr>pr_Method = MethodOIDC, pr_Issuer = ''https://id.example'', pr_Subject = ''sub-1'', pr_Identity = ''ada''\<rparr>"

lemma demoOIDC_new: "NewOIDC (\<lambda>_. demoOidc) True (\<lambda>_. True) noFaults [] demoOidcConfig = Inr demoOIDC"
proof -
  have "httpsIssuer ''https://id.example''" "trimRight (trimSpace ''https://id.example/'') ''/'' = ''https://id.example''"
    "trimSpace ''access-token'' = ''access-token''" "trimSpace ''tearenv'' = ''tearenv''"
    "SubjectTokenTypeAccessToken \<noteq> SubjectTokenTypeIDToken" by code_simp+
  then show ?thesis
    by (simp add: NewOIDC_Inr demoOidcConfig_def demoOIDC_def newOIDCWithVerifier_def newOIDCHTTPClient_def NormalizeSubjectTokenType_def
        demoOidc_def Let_def)
qed

lemma demoOIDC_login: "oidcAuthenticate demoOIDC demoToken = Inr demoPrincipal"
  by code_simp

text \<open>
  Claim C18.  A caller authenticates by OpenID Connect only with a token that the library verified for
  the configured HTTPS issuer, for the audience that belongs to the configured token type and for one
  of four signing algorithms; the token's header has that type, the subject is not blank, and the
  identity is the trimmed, non-blank string claim of the configured name.
\<close>

theorem oidc_login_sound:
  assumes "NewOIDC lib pool certs env fs config = Inr a" "oidcAuthenticate a token = Inr p"
  shows "\<exists>client claims raw identity m.
    newOIDCHTTPClient pool certs env fs (og_CAFile config) = Inr client \<and>
    verifyToken (lib client) (pr_Issuer p)
      (trimSpace (if oi_subjectTokenType a = SubjectTokenTypeIDToken then og_ClientID config else og_Audience config))
      supportedSigningAlgs (trimSpace token) = Some (pr_Issuer p, pr_Subject p, claims) \<and>
    pr_Method p = MethodOIDC \<and> pr_Issuer p = trimRight (trimSpace (og_IssuerURL config)) ''/'' \<and> httpsIssuer (pr_Issuer p) \<and>
    NormalizeSubjectTokenType (og_SubjectTokenType config) = Inr (oi_subjectTokenType a) \<and>
    matchesSubjectTokenType (trimSpace token) (oi_subjectTokenType a) \<and> trimSpace (pr_Subject p) \<noteq> [] \<and>
    dec_map decodeRaw JNull claims [] = Inr m \<and> map_of m (oi_identityClaim a) = Some raw \<and>
    dec_string raw [] = Inr identity \<and> pr_Identity p = trimSpace identity \<and> pr_Identity p \<noteq> []"
proof -
  from assms(1) obtain client where c:
    "oi_issuerURL a = trimRight (trimSpace (og_IssuerURL config)) ''/''" "httpsIssuer (oi_issuerURL a)"
    "NormalizeSubjectTokenType (og_SubjectTokenType config) = Inr (oi_subjectTokenType a)"
    "oi_verifier a = remoteVerify (verifyToken (lib client) (oi_issuerURL a)
       (trimSpace (if oi_subjectTokenType a = SubjectTokenTypeIDToken then og_ClientID config else og_Audience config)) supportedSigningAlgs)"
    "newOIDCHTTPClient pool certs env fs (og_CAFile config) = Inr client"
    unfolding NewOIDC_Inr by blast
  from assms(2) obtain v raw identity where v: "oi_verifier a (trimSpace token) = Some v"
    "matchesSubjectTokenType (trimSpace token) (oi_subjectTokenType a)" "vt_Issuer v = oi_issuerURL a"
    "trimSpace (vt_Subject v) \<noteq> []" "map_of (vt_Claims v) (oi_identityClaim a) = Some raw" "dec_string raw [] = Inr identity"
    "trimSpace identity \<noteq> []"
    "p = \<lparr>pr_Method = MethodOIDC, pr_Issuer = oi_issuerURL a, pr_Subject = vt_Subject v, pr_Identity = trimSpace identity\<rparr>"
    unfolding oidcAuthenticate_Inr by blast
  from remoteVerify_Some [OF v(1) [unfolded c(4)]] obtain claims where k:
    "verifyToken (lib client) (oi_issuerURL a)
       (trimSpace (if oi_subjectTokenType a = SubjectTokenTypeIDToken then og_ClientID config else og_Audience config))
       supportedSigningAlgs (trimSpace token) = Some (vt_Issuer v, vt_Subject v, claims)"
    "dec_map decodeRaw JNull claims [] = Inr (vt_Claims v)" by blast
  show ?thesis
    by (rule exI [of _ client], rule exI [of _ claims], rule exI [of _ raw], rule exI [of _ identity], rule exI [of _ "vt_Claims v"])
      (use c(1-3,5) v(2-8) k in simp)
qed

theorem oidc_login_sound_witness:
  "oidcAuthenticate demoOIDC demoToken = Inr demoPrincipal \<and> pr_Issuer demoPrincipal = ''https://id.example'' \<and>
   matchesSubjectTokenType (trimSpace demoToken) (oi_subjectTokenType demoOIDC)"
  using oidc_login_sound [OF demoOIDC_new demoOIDC_login] demoOIDC_login by (auto simp: demoPrincipal_def)

text \<open>The advertised scopes always ask for an identity.\<close>

lemma normalized_scopes: "''openid'' \<in> set (oc_Scopes (normalizedOIDC c))"
  by (simp add: normalizedOIDC_def)

end
