(* ===== verification/Registration_Store.thy ===== *)
theory Registration_Store
  imports Authorization Authn
begin

text \<open>
  The registration store (\<open>internal/registration/store.go\<close>): registrations as protected YAML files
  \<open>root/namespace/name.yaml\<close>, written by rename and read back with permission checks; specs are
  immutable and an OIDC principal owns what it created or adopted.  The store is the SSH
  authenticator of token and anonymous mode.  The root path is lexically clean.
\<close>

record Store =
  sr_root :: string
  sr_authenticationNamespace :: string

datatype store_err =
    ErrNotFound | ErrConflict | ErrForbidden
  | RootRequired | BadAuthenticationNamespace "string list" | RootCreate sys_err | RootStat sys_err | RootNotDirectory | RootPermissions perm
  | PutInvalid reg_err | PutNamespaceRequired
  | PathNamespace "string list" | PathName "string list"
  | FileRead sys_err | FileNotRegular | FilePermissions perm | FileInvalid reg_err
  | FileEncode reg_err | FileWrite sys_err | DirectoryRead sys_err | RandomFailed
  | StoredKeyInvalid string | StoredKeyTrailing string

definition NewStore :: "k8s_lib \<Rightarrow> os_env \<Rightarrow> string \<Rightarrow> string \<Rightarrow> string fs \<Rightarrow> string fs \<times> (store_err + Store)" where
  "NewStore K env path authenticationNamespace fs =
     (if trimSpace path = [] then (fs, Inl RootRequired)
      else if IsDNS1123Label K authenticationNamespace \<noteq> []
        then (fs, Inl (BadAuthenticationNamespace (IsDNS1123Label K authenticationNamespace)))
      else case mkdirAll env path fs of
        (fs1, Some e) \<Rightarrow> (fs1, Inl (RootCreate e))
      | (fs1, None) \<Rightarrow>
          (fs1,
           case osStat env SysStat path fs1 of
             Inl e \<Rightarrow> Inl (RootStat e)
           | Inr info \<Rightarrow>
               if isRegular info then Inl RootNotDirectory
               else if permOf info AND 0x12 \<noteq> 0 then Inl (RootPermissions (permOf info))
               else Inr \<lparr>sr_root = path, sr_authenticationNamespace = authenticationNamespace\<rparr>))"

section \<open>Files\<close>

definition resourcePath :: "k8s_lib \<Rightarrow> Store \<Rightarrow> string \<Rightarrow> string \<Rightarrow> store_err + string" where
  "resourcePath K store namespace name =
     (if IsDNS1123Label K namespace \<noteq> [] then Inl (PathNamespace (IsDNS1123Label K namespace))
      else if IsDNS1123Subdomain K name \<noteq> [] then Inl (PathName (IsDNS1123Subdomain K name))
      else Inr (joinPath (joinPath (sr_root store) namespace) (name @ ''.yaml'')))"

definition randomIdentifier :: "string option \<Rightarrow> store_err + string" where
  "randomIdentifier bytes = (case bytes of None \<Rightarrow> Inl RandomFailed | Some b \<Rightarrow> Inr (hexEncode b))"

definition readStoredFile :: "os_env \<Rightarrow> string \<Rightarrow> string fs \<Rightarrow> store_err + string option" where
  "readStoredFile env path fs =
     (case osStat env SysStatRead path fs of
        Inl e \<Rightarrow> Inl (FileRead e)
      | Inr info \<Rightarrow>
          if \<not> isRegular info then Inl FileNotRegular
          else if permOf info AND 0x12 \<noteq> 0 then Inl (FilePermissions (permOf info))
          else case readFile env path fs of Inl e \<Rightarrow> Inl (FileRead e) | Inr c \<Rightarrow> Inr c)"

text \<open>Reading and decoding one file; bytes that are no document do not parse.\<close>

definition loadStored :: "libs \<Rightarrow> UserRegistration yaml_lib \<Rightarrow> os_env \<Rightarrow> string \<Rightarrow> string fs \<Rightarrow> store_err + UserRegistration" where
  "loadStored lb Y env path fs =
     (case readStoredFile env path fs of
        Inl e \<Rightarrow> Inl e
      | Inr None \<Rightarrow> Inl (FileInvalid YamlParse)
      | Inr (Some contents) \<Rightarrow>
          (case LoadUserRegistration lb Y contents of Inl e \<Rightarrow> Inl (FileInvalid e) | Inr r \<Rightarrow> Inr r))"

definition getUnlocked :: "libs \<Rightarrow> UserRegistration yaml_lib \<Rightarrow> os_env \<Rightarrow> Store \<Rightarrow> string \<Rightarrow> string \<Rightarrow> string fs \<Rightarrow> store_err + UserRegistration" where
  "getUnlocked lb Y env store namespace name fs =
     (case resourcePath (lib_k8s lb) store namespace name of
        Inl e \<Rightarrow> Inl e
      | Inr path \<Rightarrow>
          (case loadStored lb Y env path fs of
             Inl (FileRead NotExist) \<Rightarrow> Inl ErrNotFound
           | Inl e \<Rightarrow> Inl e
           | Inr r \<Rightarrow> Inr r))"

definition writeContents :: "os_env \<Rightarrow> string \<Rightarrow> string \<Rightarrow> string fs \<Rightarrow> string fs list \<times> sys_err option" where
  "writeContents env path contents fs = atomicWrite env ''.user-registration-'' path contents fs"

definition writeUnlocked :: "k8s_lib \<Rightarrow> os_env \<Rightarrow> Store \<Rightarrow> string \<Rightarrow> string \<Rightarrow> string \<Rightarrow> string fs \<Rightarrow> string fs \<times> store_err option" where
  "writeUnlocked K env store namespace name contents fs =
     (case resourcePath K store namespace name of
        Inl e \<Rightarrow> (fs, Some e)
      | Inr path \<Rightarrow>
          (case writeContents env path contents fs of
             (trace, Some e) \<Rightarrow> (last trace, Some (FileWrite e))
           | (trace, None) \<Rightarrow> (last trace, None)))"

section \<open>Ownership\<close>

definition authenticatedPrincipal :: "Principal \<Rightarrow> AuthenticatedPrincipal" where
  "authenticatedPrincipal caller =
     \<lparr>ap_Method = AuthenticationMethodOIDC, ap_Issuer = pr_Issuer caller, ap_Subject = pr_Subject caller\<rparr>"

definition ownerOf :: "UserRegistration \<Rightarrow> AuthenticatedPrincipal option" where
  "ownerOf r = (case ur_Status r of None \<Rightarrow> None | Some st \<Rightarrow> st_AuthenticatedPrincipal st)"

definition registrationOwnedBy :: "UserRegistration \<Rightarrow> Principal \<Rightarrow> bool" where
  "registrationOwnedBy r caller =
     (pr_Method caller = MethodOIDC \<and>
      (case ownerOf r of
         None \<Rightarrow> False
       | Some owner \<Rightarrow> ap_Method owner = AuthenticationMethodOIDC \<and> ap_Issuer owner = pr_Issuer caller \<and>
           ap_Subject owner = pr_Subject caller))"

text \<open>The registration that \<open>bindPrincipalUnlocked\<close> writes.\<close>

definition adopted :: "string \<Rightarrow> Principal \<Rightarrow> UserRegistration \<Rightarrow> UserRegistration" where
  "adopted identifier caller r =
     r\<lparr>ur_Status := Some ((case ur_Status r of
          None \<Rightarrow> \<lparr>st_ObservedGeneration = 0, st_AuthenticatedPrincipal = None, st_Conditions = []\<rparr>
        | Some st \<Rightarrow> st)\<lparr>st_AuthenticatedPrincipal := Some (authenticatedPrincipal caller)\<rparr>),
       ur_ResourceVersion := identifier\<rparr>"

definition bindPrincipalUnlocked :: "libs \<Rightarrow> UserRegistration yaml_lib \<Rightarrow> string option \<Rightarrow> os_env \<Rightarrow> Store \<Rightarrow> UserRegistration \<Rightarrow> Principal \<Rightarrow> string fs \<Rightarrow> string fs \<times> (store_err + UserRegistration)" where
  "bindPrincipalUnlocked lb Y rnd env store r caller fs =
     (case randomIdentifier rnd of
        Inl e \<Rightarrow> (fs, Inl e)
      | Inr identifier \<Rightarrow>
          (case MarshalUserRegistration lb Y (adopted identifier caller r) of
             Inl e \<Rightarrow> (fs, Inl (FileEncode e))
           | Inr contents \<Rightarrow>
               (case writeUnlocked (lib_k8s lb) env store (ur_Namespace r) (ur_Name r) contents fs of
                  (fs', Some e) \<Rightarrow> (fs', Inl e)
                | (fs', None) \<Rightarrow> (fs', Inr (adopted identifier caller r)))))"

section \<open>Operations\<close>

definition acceptedCondition :: "int \<Rightarrow> Condition" where
  "acceptedCondition now =
     \<lparr>cond_Type = ConditionAccepted, cond_Status = ConditionTrue, cond_ObservedGeneration = 1,
      cond_Reason = ''AcceptedByDefault'', cond_Message = ''Registration is accepted automatically.'',
      cond_LastTransitionTime = now\<rparr>"

definition newRegistration :: "string \<Rightarrow> int \<Rightarrow> UserRegistration \<Rightarrow> Principal \<Rightarrow> UserRegistration" where
  "newRegistration identifier now r caller =
     \<lparr>ur_APIVersion = APIVersion, ur_Kind = UserRegistrationKind, ur_Name = ur_Name r, ur_Namespace = ur_Namespace r,
      ur_UID = identifier, ur_ResourceVersion = identifier, ur_Generation = 1, ur_CreationTimestamp = Some now,
      ur_Spec = \<lparr>sp_Identity = sp_Identity (ur_Spec r), sp_PublicKeys = sp_PublicKeys (ur_Spec r)\<rparr>,
      ur_Status = Some \<lparr>st_ObservedGeneration = 1,
        st_AuthenticatedPrincipal = (if pr_Method caller = MethodOIDC then Some (authenticatedPrincipal caller) else None),
        st_Conditions = [acceptedCondition now]\<rparr>\<rparr>"

text \<open>A put that finds a registration, and one that finds none.\<close>

definition retainRegistration :: "libs \<Rightarrow> UserRegistration yaml_lib \<Rightarrow> string option \<Rightarrow> os_env \<Rightarrow> Store \<Rightarrow> UserRegistration \<Rightarrow> UserRegistration \<Rightarrow> Principal \<Rightarrow> string fs \<Rightarrow>
    string fs \<times> (store_err + UserRegistration \<times> bool)" where
  "retainRegistration lb Y rnd env store existing r caller fs =
     (if ur_Spec existing \<noteq> ur_Spec r then (fs, Inl ErrConflict)
      else if pr_Method caller = MethodOIDC \<and> \<not> registrationOwnedBy existing caller then
        (if ownerOf existing \<noteq> None then (fs, Inl ErrForbidden)
         else case bindPrincipalUnlocked lb Y rnd env store existing caller fs of
           (fs', Inl e) \<Rightarrow> (fs', Inl e)
         | (fs', Inr bound) \<Rightarrow> (fs', Inr (bound, False)))
      else (fs, Inr (existing, False)))"

definition createRegistration :: "libs \<Rightarrow> UserRegistration yaml_lib \<Rightarrow> string option \<Rightarrow> int \<Rightarrow> os_env \<Rightarrow> Store \<Rightarrow> UserRegistration \<Rightarrow> Principal \<Rightarrow> string fs \<Rightarrow>
    string fs \<times> (store_err + UserRegistration \<times> bool)" where
  "createRegistration lb Y rnd now env store r caller fs =
     (case randomIdentifier rnd of
        Inl e \<Rightarrow> (fs, Inl e)
      | Inr identifier \<Rightarrow>
          let new = newRegistration identifier now r caller in
          (case MarshalUserRegistration lb Y new of
             Inl e \<Rightarrow> (fs, Inl (FileEncode e))
           | Inr contents \<Rightarrow>
               (case writeUnlocked (lib_k8s lb) env store (ur_Namespace new) (ur_Name new) contents fs of
                  (fs', Some e) \<Rightarrow> (fs', Inl e)
                | (fs', None) \<Rightarrow> (fs', Inr (new, True)))))"

definition PutAs :: "libs \<Rightarrow> UserRegistration yaml_lib \<Rightarrow> string option \<Rightarrow> int \<Rightarrow> os_env \<Rightarrow> Store \<Rightarrow> UserRegistration \<Rightarrow> Principal \<Rightarrow> string fs \<Rightarrow>
    string fs \<times> (store_err + UserRegistration \<times> bool)" where
  "PutAs lb Y rnd now env store r caller fs =
     (case registrationValidate (lib_ssh lb) (lib_k8s lb) (lib_lower lb) r of
        Some e \<Rightarrow> (fs, Inl (PutInvalid e))
      | None \<Rightarrow>
          if ur_Namespace r = [] then (fs, Inl PutNamespaceRequired)
          else if pr_Method caller = MethodOIDC \<and> pr_Identity caller \<noteq> sp_Identity (ur_Spec r) then (fs, Inl ErrForbidden)
          else (case getUnlocked lb Y env store (ur_Namespace r) (ur_Name r) fs of
              Inr existing \<Rightarrow> retainRegistration lb Y rnd env store existing r caller fs
            | Inl e \<Rightarrow>
                if e = ErrNotFound then createRegistration lb Y rnd now env store r caller fs
                else (fs, Inl e)))"

definition storePut :: "libs \<Rightarrow> UserRegistration yaml_lib \<Rightarrow> string option \<Rightarrow> int \<Rightarrow> os_env \<Rightarrow> Store \<Rightarrow> UserRegistration \<Rightarrow> string fs \<Rightarrow>
    string fs \<times> (store_err + UserRegistration \<times> bool)" where
  "storePut lb Y rnd now env store r fs =
     PutAs lb Y rnd now env store r \<lparr>pr_Method = MethodAnonymous, pr_Issuer = [], pr_Subject = [], pr_Identity = []\<rparr> fs"

definition GetAs :: "libs \<Rightarrow> UserRegistration yaml_lib \<Rightarrow> os_env \<Rightarrow> Store \<Rightarrow> string \<Rightarrow> string \<Rightarrow> Principal \<Rightarrow> string fs \<Rightarrow> store_err + UserRegistration" where
  "GetAs lb Y env store namespace name caller fs =
     (case getUnlocked lb Y env store namespace name fs of
        Inl e \<Rightarrow> Inl e
      | Inr r \<Rightarrow> if pr_Method caller = MethodOIDC \<and> \<not> registrationOwnedBy r caller then Inl ErrForbidden else Inr r)"

fun storedKey :: "ssh_lib \<Rightarrow> string \<Rightarrow> SSHPublicKey list \<Rightarrow> store_err + PublicKey" where
  "storedKey L keyName [] = Inl ErrNotFound"
| "storedKey L keyName (encoded # rest) =
     (if pk_Name encoded \<noteq> keyName then storedKey L keyName rest
      else case ParseAuthorizedKey L (pk_Key encoded) of
        None \<Rightarrow> Inl (StoredKeyInvalid (pk_Name encoded))
      | Some (key, trailing) \<Rightarrow> if trimSpace trailing \<noteq> [] then Inl (StoredKeyTrailing (pk_Name encoded)) else Inr key)"

definition storePublicKey :: "libs \<Rightarrow> UserRegistration yaml_lib \<Rightarrow> os_env \<Rightarrow> Store \<Rightarrow> string \<Rightarrow> string \<Rightarrow> string \<Rightarrow> Principal \<Rightarrow> string fs \<Rightarrow> store_err + PublicKey" where
  "storePublicKey lb Y env store namespace name keyName caller fs =
     (case GetAs lb Y env store namespace name caller fs of
        Inl e \<Rightarrow> Inl e
      | Inr r \<Rightarrow>
          if \<not> Accepted (lib_k8s lb) r then Inl ErrForbidden
          else storedKey (lib_ssh lb) keyName (sp_PublicKeys (ur_Spec r)))"

section \<open>The store as an SSH authenticator\<close>

definition extOf :: "string \<Rightarrow> string" where
  "extOf base = (if CHR ''.'' \<in> set base then CHR ''.'' # rev (takeWhile (\<lambda>c. c \<noteq> CHR ''.'') (rev base)) else [])"

fun listFiles :: "libs \<Rightarrow> UserRegistration yaml_lib \<Rightarrow> os_env \<Rightarrow> string \<Rightarrow> (string \<times> string node) list \<Rightarrow> string fs \<Rightarrow> store_err + UserRegistration list" where
  "listFiles lb Y env directory [] fs = Inr []"
| "listFiles lb Y env directory ((name, n) # entries) fs =
     (if \<not> isRegular n \<or> extOf name \<noteq> ''.yaml'' then listFiles lb Y env directory entries fs
      else case loadStored lb Y env (joinPath directory name) fs of
        Inl e \<Rightarrow> Inl e
      | Inr r \<Rightarrow> (case listFiles lb Y env directory entries fs of Inl e \<Rightarrow> Inl e | Inr rs \<Rightarrow> Inr (r # rs)))"

definition storeList :: "libs \<Rightarrow> UserRegistration yaml_lib \<Rightarrow> os_env \<Rightarrow> Store \<Rightarrow> string \<Rightarrow> string fs \<Rightarrow> store_err + UserRegistration list" where
  "storeList lb Y env store namespace fs =
     (let directory = joinPath (sr_root store) namespace in
      case osReadDir env directory fs of
        Inl NotExist \<Rightarrow> Inr []
      | Inl e \<Rightarrow> Inl (DirectoryRead e)
      | Inr entries \<Rightarrow> listFiles lb Y env directory entries fs)"

fun matchKeys :: "ssh_lib \<Rightarrow> PublicKey \<Rightarrow> SSHPublicKey list \<Rightarrow> store_err + bool" where
  "matchKeys L key [] = Inr False"
| "matchKeys L key (encoded # rest) =
     (case ParseAuthorizedKey L (pk_Key encoded) of
        None \<Rightarrow> Inl (StoredKeyInvalid (pk_Name encoded))
      | Some (candidate, _) \<Rightarrow> if marshalKey L candidate = marshalKey L key then Inr True else matchKeys L key rest)"

fun matchRegistrations :: "libs \<Rightarrow> string \<Rightarrow> PublicKey \<Rightarrow> UserRegistration list \<Rightarrow> store_err + Result option" where
  "matchRegistrations lb identity key [] = Inr None"
| "matchRegistrations lb identity key (r # rs) =
     (if sp_Identity (ur_Spec r) \<noteq> identity \<or> \<not> Accepted (lib_k8s lb) r then matchRegistrations lb identity key rs
      else case matchKeys (lib_ssh lb) key (sp_PublicKeys (ur_Spec r)) of
        Inl e \<Rightarrow> Inl e
      | Inr True \<Rightarrow> Inr (Some \<lparr>res_Identity = identity, res_Provider = ''user-registration'', res_ValidBefore = None\<rparr>)
      | Inr False \<Rightarrow> matchRegistrations lb identity key rs)"

definition storeAuthenticate :: "libs \<Rightarrow> UserRegistration yaml_lib \<Rightarrow> os_env \<Rightarrow> Store \<Rightarrow> string fs \<Rightarrow> store_err provider" where
  "storeAuthenticate lb Y env store fs attempt =
     (case at_PublicKey attempt of
        None \<Rightarrow> Inr None
      | Some key \<Rightarrow>
          if at_Method attempt \<noteq> MethodPublicKey then Inr None
          else case storeList lb Y env store (sr_authenticationNamespace store) fs of
            Inl e \<Rightarrow> Inl e
          | Inr registrations \<Rightarrow> matchRegistrations lb (at_Identity attempt) key registrations)"

lemma matchRegistrations_result:
  "matchRegistrations lb i k rs = Inr (Some x) \<Longrightarrow> res_Identity x = i \<and> res_Provider x = ''user-registration''"
  by (induction rs) (auto split: sum.splits bool.splits if_splits)

interpretation store_provider: authenticator "\<lambda>(lb, Y, env, store, fs). storeAuthenticate lb Y env store fs"
  MethodPublicKey "''user-registration''"
  by unfold_locales
    (auto simp: storeAuthenticate_def split: if_splits option.splits sum.splits dest: matchRegistrations_result)

end
