(* ===== verification/Registration_Properties.thy ===== *)
theory Registration_Properties
  imports Registration_Store Credentials
begin

text \<open>
  What the registration store guarantees: paths of different registrations never meet, a stored
  registration reads back with times cut to whole seconds, specs and owners never change, and
  the keys of accepted registrations log in.
\<close>

section \<open>Paths\<close>

lemma dirOf_append: "CHR ''/'' \<notin> set b \<Longrightarrow> x \<noteq> [] \<Longrightarrow> dirOf (x @ CHR ''/'' # b) = x"
proof -
  assume "CHR ''/'' \<notin> set b" "x \<noteq> []"
  then have "dropWhile (\<lambda>c. c \<noteq> CHR ''/'') (rev b @ CHR ''/'' # rev x) = CHR ''/'' # rev x"
    by (subst dropWhile_append2) auto
  with \<open>x \<noteq> []\<close> show ?thesis by (simp add: dirOf_def Let_def)
qed

lemma label_shape:
  assumes "dns1123Label s"
  shows "s \<noteq> []" "CHR ''/'' \<notin> set s" "CHR ''.'' \<notin> set s" "last s \<noteq> CHR ''/''"
proof -
  have "list_all (\<lambda>c. dns_char c \<or> c = CHR ''-'') s" "s \<noteq> []" using assms by (auto simp: dns1123Label_def dnsLabelChars_def)
  moreover have "\<not> (dns_char (CHR ''/'') \<or> CHR ''/'' = CHR ''-'')" "\<not> (dns_char (CHR ''.'') \<or> CHR ''.'' = CHR ''-'')" by code_simp+
  ultimately show n: "s \<noteq> []" "CHR ''/'' \<notin> set s" "CHR ''.'' \<notin> set s" by (auto simp: list_all_iff)
  then show "last s \<noteq> CHR ''/''" by (metis last_in_set)
qed

lemma splitChar_chars: "c \<in> set s \<Longrightarrow> c \<noteq> sep \<Longrightarrow> \<exists>p \<in> set (splitChar s sep). c \<in> set p"
proof (induction s sep rule: splitChar.induct)
  case (2 d s sep)
  show ?case
  proof (cases "d = sep")
    case True
    with 2 show ?thesis by auto
  next
    case False
    then show ?thesis using 2
      by (cases "splitChar s sep") (auto split: list.splits)
  qed
qed simp

lemma splitChar_first: "splitChar s sep \<noteq> [] \<and> hd (splitChar s sep) = takeWhile (\<lambda>c. c \<noteq> sep) s"
  by (induction s) (auto split: list.splits)

lemma subdomain_shape:
  assumes "dns1123Subdomain s"
  shows "s \<noteq> []" "CHR ''/'' \<notin> set s" "hd s \<noteq> CHR ''.''"
proof -
  have a: "dnsLabelChars p" if "p \<in> set (splitChar s (CHR ''.''))" for p
    using assms that by (simp add: dns1123Subdomain_def list_all_iff)
  have f: "dnsLabelChars (takeWhile (\<lambda>c. c \<noteq> CHR ''.'') s)"
    using a splitChar_first [of s "CHR ''.''"] by (metis hd_in_set)
  then show "s \<noteq> []" "hd s \<noteq> CHR ''.''" by (cases s; auto simp: dnsLabelChars_def)+
  have n: "\<not> (dns_char (CHR ''/'') \<or> CHR ''/'' = CHR ''-'')" by code_simp
  show "CHR ''/'' \<notin> set s"
  proof
    assume "CHR ''/'' \<in> set s"
    then obtain p where "p \<in> set (splitChar s (CHR ''.''))" "CHR ''/'' \<in> set p"
      using splitChar_chars [of "CHR ''/''" s "CHR ''.''"] by auto
    with a n show False by (auto simp: dnsLabelChars_def list_all_iff)
  qed
qed

text \<open>The directory of a namespace and the file of a registration in it.\<close>

definition namespaceDir :: "Store \<Rightarrow> string \<Rightarrow> string" where
  "namespaceDir store ns = joinPath (sr_root store) ns"

lemma resourcePath_Inr:
  assumes "documented_k8s K"
  shows "resourcePath K store ns n = Inr p \<longleftrightarrow>
    dns1123Label ns \<and> dns1123Subdomain n \<and> p = namespaceDir store ns @ ''/'' @ n @ ''.yaml''"
proof -
  have "joinPath (joinPath (sr_root store) ns) b = namespaceDir store ns @ ''/'' @ b" if "dns1123Label ns" for b
  proof -
    have "last (joinPath (sr_root store) ns) \<noteq> CHR ''/''"
      using label_shape [OF that] by (auto simp: joinPath_def)
    then show ?thesis by (simp add: joinPath_def namespaceDir_def)
  qed
  with assms show ?thesis by (auto simp: resourcePath_def documented_k8s_def)
qed

lemma namespaceDir_nonempty: "dns1123Label ns \<Longrightarrow> namespaceDir store ns \<noteq> []"
  by (simp add: namespaceDir_def joinPath_def label_shape)

lemma resourcePath_dir:
  assumes "documented_k8s K" "resourcePath K store ns n = Inr p"
  shows "dirOf p = namespaceDir store ns" "separate ''.user-registration-'' p"
proof -
  have r: "dns1123Label ns" "dns1123Subdomain n" "p = namespaceDir store ns @ ''/'' @ n @ ''.yaml''"
    using assms by (simp_all add: resourcePath_Inr)
  show d: "dirOf p = namespaceDir store ns"
    using dirOf_append [of "n @ ''.yaml''" "namespaceDir store ns"] r subdomain_shape(2) namespaceDir_nonempty by simp
  have l: "last (namespaceDir store ns) \<noteq> CHR ''/''"
    using label_shape [OF r(1)] by (auto simp: namespaceDir_def joinPath_def)
  show "separate ''.user-registration-'' p"
  proof -
    have "\<not> prefix ''.user-registration-'' (n @ ''.yaml'')"
      using subdomain_shape(1,3) [OF r(2)] by (cases n) auto
    with l r(3) d show ?thesis by (simp add: separate_def joinPath_def)
  qed
qed

lemma namespaceDir_append: "namespaceDir store ns = joinPath (sr_root store) [] @ ns"
  by (simp add: namespaceDir_def joinPath_def)

lemma first_split: "c \<notin> set a \<Longrightarrow> c \<notin> set b \<Longrightarrow> a @ c # x = b @ c # y \<Longrightarrow> a = b \<and> x = y"
proof (induction a arbitrary: b)
  case Nil
  then show ?case by (cases b) auto
next
  case (Cons d a)
  then show ?case by (cases b) auto
qed

lemma slash_split:
  "x @ CHR ''/'' # b = x' @ CHR ''/'' # b' \<Longrightarrow> CHR ''/'' \<notin> set b \<Longrightarrow> CHR ''/'' \<notin> set b' \<Longrightarrow> x = x' \<and> b = b'"
  using first_split [of "CHR ''/''" "rev b" "rev b'" "rev x" "rev x'"] by (metis rev_append rev_rev_ident rev.simps(2) append.assoc append_Cons append_Nil set_rev)

lemma resourcePath_inject:
  assumes "documented_k8s K" "resourcePath K store ns n = Inr p" "resourcePath K store ns' n' = Inr p"
  shows "ns = ns' \<and> n = n'"
proof -
  have r: "dns1123Label ns" "dns1123Subdomain n" "p = namespaceDir store ns @ ''/'' @ n @ ''.yaml''"
    "dns1123Label ns'" "dns1123Subdomain n'" "p = namespaceDir store ns' @ ''/'' @ n' @ ''.yaml''"
    using assms by (simp_all add: resourcePath_Inr)
  have "namespaceDir store ns = namespaceDir store ns' \<and> n @ ''.yaml'' = n' @ ''.yaml''"
    by (rule slash_split) (use r subdomain_shape(2) in auto)
  then show ?thesis by (simp add: namespaceDir_append)
qed

text \<open>Writing one registration leaves the file of every other one alone.\<close>

lemma write_other:
  assumes "documented_k8s K" "resourcePath K store ns n = Inr p" "resourcePath K store ns' n' = Inr q" "p \<noteq> q"
    and "writeContents env p c fs = (trace, err)"
  shows "map_of (last trace) q = map_of fs q"
proof -
  have r: "dns1123Label ns" "dns1123Label ns'" "dns1123Subdomain n'" "q = namespaceDir store ns' @ ''/'' @ n' @ ''.yaml''"
    using assms(1-3) by (simp_all add: resourcePath_Inr)
  note d = resourcePath_dir [OF assms(1,2)]
  have l: "last (namespaceDir store ns) \<noteq> CHR ''/''"
    using label_shape [OF r(1)] by (auto simp: namespaceDir_append)
  have a: "\<not> prefix (joinPath (sr_root store) [] @ ns' @ ''/'' @ y) (joinPath (sr_root store) [] @ ns)" for y
    using label_shape(2) [OF r(1)] by (auto simp: prefix_def)
  have "q \<notin> set (ancestors (dirOf p))"
    using a [of "n' @ ''.yaml''"] by (simp add: ancestors_def d(1) r(4) namespaceDir_append)
  moreover have "\<not> prefix (joinPath (dirOf p) ''.user-registration-'') q"
  proof
    assume "prefix (joinPath (dirOf p) ''.user-registration-'') q"
    then obtain z where z: "namespaceDir store ns' @ ''/'' @ n' @ ''.yaml'' = namespaceDir store ns @ ''/.user-registration-'' @ z"
      using l by (auto simp: d(1) r(4) joinPath_def prefix_def)
    then have e: "ns' @ ''/'' @ n' @ ''.yaml'' = ns @ ''/.user-registration-'' @ z"
      by (simp add: namespaceDir_append)
    then have "n' @ ''.yaml'' = ''.user-registration-'' @ z"
      using first_split [of "CHR ''/''" ns' ns "n' @ ''.yaml''" "''.user-registration-'' @ z"] label_shape(2) r(1,2) by simp
    with subdomain_shape(1,3) [OF r(3)] show False by (cases n') auto
  qed
  ultimately show ?thesis
    using atomicWrite_untouched [OF d(2) assms(5) [unfolded writeContents_def]] assms(4) by blast
qed

section \<open>Reading back\<close>

lemma find_map: "find P (map f xs) = map_option f (find (P \<circ> f) xs)"
  by (induction xs) auto

text \<open>The YAML form of a time has no fraction of a second.\<close>

definition secondsOf :: "int \<Rightarrow> int" where
  "secondsOf t = t div Second * Second"

definition wholeSeconds :: "UserRegistration \<Rightarrow> UserRegistration" where
  "wholeSeconds r =
     r\<lparr>ur_CreationTimestamp := map_option secondsOf (ur_CreationTimestamp r),
       ur_Status := map_option (\<lambda>st. st\<lparr>st_Conditions :=
         map (\<lambda>c. c\<lparr>cond_LastTransitionTime := secondsOf (cond_LastTransitionTime c)\<rparr>) (st_Conditions st)\<rparr>) (ur_Status r)\<rparr>"

definition readsBackYaml :: "UserRegistration yaml_lib \<Rightarrow> UserRegistration \<Rightarrow> bool" where
  "readsBackYaml Y r \<longleftrightarrow> (\<forall>s. yamlMarshal Y r = Some s \<longrightarrow> yamlUnmarshalStrict Y s = Some (wholeSeconds r))"

lemma wholeSeconds_fields [simp]:
  "ur_Spec (wholeSeconds r) = ur_Spec r" "ur_Name (wholeSeconds r) = ur_Name r" "ur_Namespace (wholeSeconds r) = ur_Namespace r"
  "ownerOf (wholeSeconds r) = ownerOf r" "registrationOwnedBy (wholeSeconds r) p = registrationOwnedBy r p"
  by (simp_all add: wholeSeconds_def ownerOf_def registrationOwnedBy_def split: option.split)

lemma wholeSeconds_principal: "validateAuthenticatedPrincipal (ur_Status (wholeSeconds r)) = validateAuthenticatedPrincipal (ur_Status r)"
  by (cases "ur_Status r") (simp_all add: wholeSeconds_def validateAuthenticatedPrincipal_def)

lemma wholeSeconds_valid [simp]: "validRegistration lb (wholeSeconds r) = validRegistration lb r"
proof -
  have "ur_APIVersion (wholeSeconds r) = ur_APIVersion r" "ur_Kind (wholeSeconds r) = ur_Kind r" by (simp_all add: wholeSeconds_def)
  then show ?thesis by (simp only: validRegistration_def registrationValidate_def wholeSeconds_principal wholeSeconds_fields)
qed

lemma wholeSeconds_accepted [simp]: "documented_k8s K \<Longrightarrow> Accepted K (wholeSeconds r) = Accepted K r"
  by (cases "ur_Status r")
    (auto simp: Accepted_def AcceptanceCondition_def wholeSeconds_def documented_k8s_def find_map comp_def split: option.splits)

section \<open>What the YAML library keeps\<close>

text \<open>
  A registration the library can represent: its strings are UTF-8, its integers are 64-bit and its
  times lie in the years RFC 3339 can write.  The library reads back what it wrote, with times cut
  to seconds, and yields only such registrations.
\<close>

definition representableTime :: "int \<Rightarrow> bool" where
  "representableTime t \<longleftrightarrow> - 62135596800 * Second < t \<and> t < 253402300800 * Second"

definition conditionStrings :: "Condition \<Rightarrow> string list" where
  "conditionStrings c = [cond_Type c, cond_Status c, cond_Reason c, cond_Message c]"

definition principalStrings :: "AuthenticatedPrincipal \<Rightarrow> string list" where
  "principalStrings p = [ap_Method p, ap_Issuer p, ap_Subject p]"

definition representableStatus :: "UserRegistrationStatus \<Rightarrow> bool" where
  "representableStatus st \<longleftrightarrow>
     - (2 ^ 63) \<le> st_ObservedGeneration st \<and> st_ObservedGeneration st < 2 ^ 63 \<and>
     (case st_AuthenticatedPrincipal st of None \<Rightarrow> True | Some p \<Rightarrow> list_all valid_utf8 (principalStrings p)) \<and>
     list_all (\<lambda>c. list_all valid_utf8 (conditionStrings c) \<and> representableTime (cond_LastTransitionTime c) \<and>
       - (2 ^ 63) \<le> cond_ObservedGeneration c \<and> cond_ObservedGeneration c < 2 ^ 63) (st_Conditions st)"

definition representable :: "UserRegistration \<Rightarrow> bool" where
  "representable r \<longleftrightarrow>
     list_all valid_utf8 [ur_APIVersion r, ur_Kind r, ur_Name r, ur_Namespace r, ur_UID r, ur_ResourceVersion r, sp_Identity (ur_Spec r)] \<and>
     list_all (\<lambda>k. valid_utf8 (pk_Name k) \<and> valid_utf8 (pk_Key k)) (sp_PublicKeys (ur_Spec r)) \<and>
     - (2 ^ 63) \<le> ur_Generation r \<and> ur_Generation r < 2 ^ 63 \<and>
     (case ur_CreationTimestamp r of None \<Rightarrow> True | Some t \<Rightarrow> representableTime t) \<and>
     (case ur_Status r of None \<Rightarrow> True | Some st \<Rightarrow> representableStatus st)"

definition documented_yaml :: "UserRegistration yaml_lib \<Rightarrow> bool" where
  "documented_yaml Y \<longleftrightarrow> (\<forall>r. representable r \<longrightarrow> readsBackYaml Y r) \<and>
     (\<forall>s r. yamlUnmarshalStrict Y s = Some r \<longrightarrow> representable r)"

definition utf8Principal :: "Principal \<Rightarrow> bool" where
  "utf8Principal p \<longleftrightarrow> valid_utf8 (pr_Issuer p) \<and> valid_utf8 (pr_Subject p)"

lemma representable_adopted:
  assumes "representable r" "utf8Principal p"
  shows "representable (adopted (hexEncode b) p r)"
proof -
  have "valid_utf8 AuthenticationMethodOIDC" "valid_utf8 (hexEncode b)" by (code_simp, simp add: hexEncode_utf8)
  with assms show ?thesis
    by (auto simp: representable_def adopted_def representableStatus_def principalStrings_def authenticatedPrincipal_def utf8Principal_def
        split: option.splits)
qed

lemma representable_new:
  assumes "representable r" "utf8Principal p" "representableTime now"
  shows "representable (newRegistration (hexEncode b) now r p)"
proof -
  have "valid_utf8 AuthenticationMethodOIDC" "valid_utf8 APIVersion" "valid_utf8 UserRegistrationKind"
    "list_all valid_utf8 (conditionStrings (acceptedCondition now))" by code_simp+
  moreover have "valid_utf8 (hexEncode b)" by (simp add: hexEncode_utf8)
  ultimately show ?thesis using assms
    by (auto simp: representable_def newRegistration_def representableStatus_def principalStrings_def authenticatedPrincipal_def utf8Principal_def
        acceptedCondition_def split: option.splits)
qed

section \<open>The store as a document store\<close>

lemma loadStored_local: "map_of fs p = map_of fs' p \<Longrightarrow> loadStored lb Y env p fs = loadStored lb Y env p fs'"
proof -
  assume a: "map_of fs p = map_of fs' p"
  show ?thesis by (simp only: loadStored_def readStoredFile_def osStat_local [OF a] readFile_local [OF a])
qed


definition yamlText :: "UserRegistration yaml_lib \<Rightarrow> UserRegistration \<Rightarrow> string" where
  "yamlText Y r = (case yamlMarshal Y r of None \<Rightarrow> [] | Some s \<Rightarrow> s)"

interpretation registration_store: document_store "\<lambda>env p r. writeContents env p (yamlText Y r)" "loadStored lb Y"
  "\<lambda>r. Regular 0x180 (Some (yamlText Y r))" wholeSeconds
  "\<lambda>r. validRegistration lb r \<and> yamlMarshal Y r \<noteq> None \<and> readsBackYaml Y r" "separate ''.user-registration-''"
  for lb Y
proof (unfold_locales, goal_cases)
  case (1 p fs' env d fs)
  then show ?case unfolding writeContents_def by (rule atomicWrite_states)
next
  case (2 p env d fs trace err)
  then show ?case unfolding writeContents_def by (rule atomicWrite_result)
next
  case (3 fs p fs' env)
  show ?case by (rule loadStored_local [OF 3])
next
  case (4 d env fs p)
  then obtain s where s: "yamlMarshal Y d = Some s" "yamlUnmarshalStrict Y s = Some (wholeSeconds d)"
    by (auto simp: readsBackYaml_def)
  have "LoadUserRegistration lb Y s = Inr (wholeSeconds d)"
    using 4 s by (simp add: registration_codec.load_iff)
  moreover have "readStoredFile env p fs = Inr (Some s)"
    using 4 s by (simp add: readStoredFile_def osStat_def readFile_def yamlText_def)
  ultimately show ?case by (simp add: loadStored_def)
qed

text \<open>The registrations a store holds, as read when no system call fails.\<close>

definition stored :: "libs \<Rightarrow> UserRegistration yaml_lib \<Rightarrow> Store \<Rightarrow> string fs \<Rightarrow> string \<Rightarrow> string \<Rightarrow> store_err + UserRegistration" where
  "stored lb Y store fs ns n = getUnlocked lb Y noFaults store ns n fs"

lemma loadStored_reads:
  "loadStored lb Y env p fs = Inr r \<Longrightarrow> loadStored lb Y noFaults p fs = Inr r"
  "loadStored lb Y env p fs = Inl (FileRead NotExist) \<Longrightarrow> loadStored lb Y noFaults p fs = Inl (FileRead NotExist)"
  by (auto simp: loadStored_def readStoredFile_def osStat_def readFile_def noFaults_def split: sum.splits option.splits if_splits node.splits)

lemma loadStored_not_found: "loadStored lb Y env p fs \<noteq> Inl ErrNotFound"
  by (auto simp: loadStored_def readStoredFile_def split: sum.splits option.splits if_splits)

lemma getUnlocked_Inr:
  "getUnlocked lb Y env store ns n fs = Inr r \<longleftrightarrow>
   (\<exists>p. resourcePath (lib_k8s lb) store ns n = Inr p \<and> loadStored lb Y env p fs = Inr r)"
  by (cases "resourcePath (lib_k8s lb) store ns n") (auto simp: getUnlocked_def split: sum.split store_err.split sys_err.split)

lemma getUnlocked_not_found:
  "getUnlocked lb Y env store ns n fs = Inl ErrNotFound \<longleftrightarrow>
   (\<exists>p. resourcePath (lib_k8s lb) store ns n = Inr p \<and> loadStored lb Y env p fs = Inl (FileRead NotExist))"
proof -
  have "resourcePath (lib_k8s lb) store ns n \<noteq> Inl ErrNotFound" by (simp add: resourcePath_def)
  then show ?thesis using loadStored_not_found [of lb Y env _ fs]
    by (cases "resourcePath (lib_k8s lb) store ns n") (auto simp: getUnlocked_def split: sum.split store_err.split sys_err.split)
qed

lemma getUnlocked_stored:
  "getUnlocked lb Y env store ns n fs = Inr r \<Longrightarrow> stored lb Y store fs ns n = Inr r"
  "getUnlocked lb Y env store ns n fs = Inl ErrNotFound \<Longrightarrow> stored lb Y store fs ns n = Inl ErrNotFound"
  unfolding stored_def getUnlocked_Inr getUnlocked_not_found using loadStored_reads by blast+

lemma stored_local:
  assumes "\<And>p. resourcePath (lib_k8s lb) store ns n = Inr p \<Longrightarrow> map_of fs p = map_of fs' p"
  shows "stored lb Y store fs ns n = stored lb Y store fs' ns n"
proof (cases "resourcePath (lib_k8s lb) store ns n")
  case (Inr p)
  from loadStored_local [OF assms [OF Inr]] show ?thesis by (simp add: stored_def getUnlocked_def Inr)
qed (simp add: stored_def getUnlocked_def)

text \<open>A write shows at its own path only, and only when it succeeded.\<close>

lemma writeUnlocked_stored:
  assumes "documented_k8s (lib_k8s lb)" "writeUnlocked (lib_k8s lb) env store ns n c fs = (fs', err)"
    and "MarshalUserRegistration lb Y r = Inr c" "readsBackYaml Y r"
  shows "stored lb Y store fs' ns n = (if err = None then Inr (wholeSeconds r) else stored lb Y store fs ns n)"
    and "(ns', n') \<noteq> (ns, n) \<Longrightarrow> stored lb Y store fs' ns' n' = stored lb Y store fs ns' n'"
proof -
  have c: "validRegistration lb r" "yamlMarshal Y r = Some c" "yamlText Y r = c"
    using assms(3) by (auto simp: registration_codec.marshal_iff yamlText_def)
  have "stored lb Y store fs' ns n = (if err = None then Inr (wholeSeconds r) else stored lb Y store fs ns n) \<and>
    ((ns', n') \<noteq> (ns, n) \<longrightarrow> stored lb Y store fs' ns' n' = stored lb Y store fs ns' n')"
  proof (cases "resourcePath (lib_k8s lb) store ns n")
    case (Inl e)
    with assms(2) show ?thesis by (auto simp: writeUnlocked_def)
  next
    case (Inr p)
    note d = resourcePath_dir [OF assms(1) Inr]
    obtain trace e where t: "writeContents env p c fs = (trace, e)" by (cases "writeContents env p c fs")
    with assms(2) Inr have r: "fs' = last trace" "err = map_option FileWrite e"
      by (auto simp: writeUnlocked_def split: option.splits)
    have t': "writeContents env p (yamlText Y r) fs = (trace, e)" using t c(3) by simp
    have own: "stored lb Y store fs' ns n = (if err = None then Inr (wholeSeconds r) else stored lb Y store fs ns n)"
    proof (cases e)
      case None
      have "loadStored lb Y noFaults p (last trace) = Inr (wholeSeconds r)"
        by (rule registration_store.read_after_write [OF d(2), of env Y r fs]) (use t' None c assms(4) in \<open>auto simp: noFaults_def\<close>)
      with None r Inr show ?thesis by (simp add: stored_def getUnlocked_Inr)
    next
      case (Some x)
      have "map_of (last trace) p = map_of fs p"
        using registration_store.write_result [OF d(2) t'] Some by simp
      with Some r Inr stored_local [of lb store ns n fs' fs] show ?thesis by simp
    qed
    have "stored lb Y store fs' ns' n' = stored lb Y store fs ns' n'" if "(ns', n') \<noteq> (ns, n)"
    proof (rule stored_local)
      fix q assume q: "resourcePath (lib_k8s lb) store ns' n' = Inr q"
      have "p \<noteq> q" using resourcePath_inject [OF assms(1) Inr, of ns' n'] q that by auto
      from write_other [OF assms(1) Inr q this t] r show "map_of fs' q = map_of fs q" by simp
    qed
    with own show ?thesis by blast
  qed
  then show "stored lb Y store fs' ns n = (if err = None then Inr (wholeSeconds r) else stored lb Y store fs ns n)"
    and "(ns', n') \<noteq> (ns, n) \<Longrightarrow> stored lb Y store fs' ns' n' = stored lb Y store fs ns' n'" by auto
qed

section \<open>Outcomes of a put\<close>

lemma adopted_fields [simp]:
  "ur_Spec (adopted i p r) = ur_Spec r" "ur_Name (adopted i p r) = ur_Name r" "ur_Namespace (adopted i p r) = ur_Namespace r"
  "ownerOf (adopted i p r) = Some (authenticatedPrincipal p)"
  by (simp_all add: adopted_def ownerOf_def)

lemma new_fields [simp]:
  "ur_Spec (newRegistration i now r p) = ur_Spec r" "ur_Name (newRegistration i now r p) = ur_Name r"
  "ur_Namespace (newRegistration i now r p) = ur_Namespace r"
  "ownerOf (newRegistration i now r p) = (if pr_Method p = MethodOIDC then Some (authenticatedPrincipal p) else None)"
  by (simp_all add: newRegistration_def ownerOf_def)

lemma retainRegistration_cases:
  assumes "retainRegistration lb Y rnd env store existing r caller fs = (fs', res)"
  obtains (refused) e where "fs' = fs" "res = Inl e"
  | (kept) "fs' = fs" "res = Inr (existing, False)" "ur_Spec existing = ur_Spec r"
      "pr_Method caller = MethodOIDC \<longrightarrow> registrationOwnedBy existing caller"
  | (adopting) b c err where "rnd = Some b" "ur_Spec existing = ur_Spec r" "pr_Method caller = MethodOIDC" "ownerOf existing = None"
      "MarshalUserRegistration lb Y (adopted (hexEncode b) caller existing) = Inr c"
      "writeUnlocked (lib_k8s lb) env store (ur_Namespace existing) (ur_Name existing) c fs = (fs', err)"
      "res = (case err of None \<Rightarrow> Inr (adopted (hexEncode b) caller existing, False) | Some e \<Rightarrow> Inl e)"
proof (cases rnd)
  case None
  then show ?thesis using assms that(1,2)
    by (auto simp: retainRegistration_def bindPrincipalUnlocked_def randomIdentifier_def split: if_splits)
next
  case (Some b)
  show ?thesis
  proof (cases "MarshalUserRegistration lb Y (adopted (hexEncode b) caller existing)")
    case (Inl e)
    then show ?thesis using assms Some that(1,2)
      by (auto simp: retainRegistration_def bindPrincipalUnlocked_def randomIdentifier_def split: if_splits)
  next
    case (Inr c)
    obtain fs1 err where "writeUnlocked (lib_k8s lb) env store (ur_Namespace existing) (ur_Name existing) c fs = (fs1, err)"
      by (cases "writeUnlocked (lib_k8s lb) env store (ur_Namespace existing) (ur_Name existing) c fs")
    then show ?thesis using assms Some Inr that(1,2) that(3) [of b c err]
      by (cases err) (auto simp: retainRegistration_def bindPrincipalUnlocked_def randomIdentifier_def split: if_splits)
  qed
qed

lemma createRegistration_cases:
  assumes "createRegistration lb Y rnd now env store r caller fs = (fs', res)"
  obtains (refused) e where "fs' = fs" "res = Inl e"
  | (creating) b c err where "rnd = Some b"
      "MarshalUserRegistration lb Y (newRegistration (hexEncode b) now r caller) = Inr c"
      "writeUnlocked (lib_k8s lb) env store (ur_Namespace r) (ur_Name r) c fs = (fs', err)"
      "res = (case err of None \<Rightarrow> Inr (newRegistration (hexEncode b) now r caller, True) | Some e \<Rightarrow> Inl e)"
proof (cases rnd)
  case None
  then show ?thesis using assms that(1) by (auto simp: createRegistration_def randomIdentifier_def)
next
  case (Some b)
  show ?thesis
  proof (cases "MarshalUserRegistration lb Y (newRegistration (hexEncode b) now r caller)")
    case (Inl e)
    then show ?thesis using assms Some that(1) by (auto simp: createRegistration_def randomIdentifier_def)
  next
    case (Inr c)
    obtain fs1 err where "writeUnlocked (lib_k8s lb) env store (ur_Namespace r) (ur_Name r) c fs = (fs1, err)"
      by (cases "writeUnlocked (lib_k8s lb) env store (ur_Namespace r) (ur_Name r) c fs")
    then show ?thesis using assms Some Inr that(2) [of b c err]
      by (cases err) (auto simp: createRegistration_def randomIdentifier_def)
  qed
qed

lemma PutAs_cases:
  assumes "PutAs lb Y rnd now env store r caller fs = (fs', res)"
  obtains (refused) e where "fs' = fs" "res = Inl e"
  | (kept) existing where "fs' = fs" "res = Inr (existing, False)" "getUnlocked lb Y env store (ur_Namespace r) (ur_Name r) fs = Inr existing"
      "ur_Spec existing = ur_Spec r" "pr_Method caller = MethodOIDC \<longrightarrow> registrationOwnedBy existing caller"
  | (adopting) existing b c err where "getUnlocked lb Y env store (ur_Namespace r) (ur_Name r) fs = Inr existing" "rnd = Some b"
      "ur_Spec existing = ur_Spec r" "pr_Method caller = MethodOIDC" "pr_Identity caller = sp_Identity (ur_Spec r)" "ownerOf existing = None"
      "MarshalUserRegistration lb Y (adopted (hexEncode b) caller existing) = Inr c"
      "writeUnlocked (lib_k8s lb) env store (ur_Namespace existing) (ur_Name existing) c fs = (fs', err)"
      "res = (case err of None \<Rightarrow> Inr (adopted (hexEncode b) caller existing, False) | Some e \<Rightarrow> Inl e)"
  | (creating) b c err where "getUnlocked lb Y env store (ur_Namespace r) (ur_Name r) fs = Inl ErrNotFound" "rnd = Some b"
      "pr_Method caller = MethodOIDC \<longrightarrow> pr_Identity caller = sp_Identity (ur_Spec r)"
      "MarshalUserRegistration lb Y (newRegistration (hexEncode b) now r caller) = Inr c"
      "writeUnlocked (lib_k8s lb) env store (ur_Namespace r) (ur_Name r) c fs = (fs', err)"
      "res = (case err of None \<Rightarrow> Inr (newRegistration (hexEncode b) now r caller, True) | Some e \<Rightarrow> Inl e)"
proof -
  consider (1) e where "fs' = fs" "res = Inl e"
    | (2) existing where "getUnlocked lb Y env store (ur_Namespace r) (ur_Name r) fs = Inr existing"
        "pr_Method caller = MethodOIDC \<longrightarrow> pr_Identity caller = sp_Identity (ur_Spec r)"
        "retainRegistration lb Y rnd env store existing r caller fs = (fs', res)"
    | (3) "getUnlocked lb Y env store (ur_Namespace r) (ur_Name r) fs = Inl ErrNotFound"
        "pr_Method caller = MethodOIDC \<longrightarrow> pr_Identity caller = sp_Identity (ur_Spec r)"
        "createRegistration lb Y rnd now env store r caller fs = (fs', res)"
    using assms by (auto simp: PutAs_def split: option.splits if_splits sum.splits)
  then show ?thesis
  proof cases
    case 2
    from 2(3) show ?thesis
    proof (cases rule: retainRegistration_cases)
      case refused
      then show ?thesis by (rule that(1))
    next
      case kept
      show ?thesis by (rule that(2) [OF kept(1,2) 2(1) kept(3,4)])
    next
      case (adopting b c err)
      have "pr_Identity caller = sp_Identity (ur_Spec r)" using 2(2) adopting(3) by simp
      from that(3) [OF 2(1) adopting(1,2,3) this adopting(4-7)] show ?thesis .
    qed
  next
    case 3
    from 3(3) show ?thesis
    proof (cases rule: createRegistration_cases)
      case refused
      then show ?thesis by (rule that(1))
    next
      case (creating b c err)
      from that(4) [OF 3(1) creating(1) 3(2) creating(2-4)] show ?thesis .
    qed
  qed (rule that(1))
qed

text \<open>Every file holds the registration its path names.\<close>

definition wf_store :: "libs \<Rightarrow> UserRegistration yaml_lib \<Rightarrow> Store \<Rightarrow> string fs \<Rightarrow> bool" where
  "wf_store lb Y store fs \<longleftrightarrow> (\<forall>ns n r. stored lb Y store fs ns n = Inr r \<longrightarrow> ur_Namespace r = ns \<and> ur_Name r = n)"

lemma stored_representable:
  assumes "documented_yaml Y" "stored lb Y store fs ns n = Inr r"
  shows "representable r" "validRegistration lb r"
proof -
  obtain p where "loadStored lb Y noFaults p fs = Inr r" using assms(2) by (auto simp: stored_def getUnlocked_Inr)
  then obtain s where "LoadUserRegistration lb Y s = Inr r"
    by (auto simp: loadStored_def split: sum.splits option.splits)
  then show "representable r" "validRegistration lb r"
    using assms(1) by (auto simp: registration_codec.load_iff documented_yaml_def)
qed

lemma owned_iff: "registrationOwnedBy r p \<longleftrightarrow> pr_Method p = MethodOIDC \<and> ownerOf r = Some (authenticatedPrincipal p)"
  by (auto simp: registrationOwnedBy_def authenticatedPrincipal_def split: option.splits)

lemma wf_store_write:
  assumes "wf_store lb Y store fs"
    and "\<And>ns' n'. (ns', n') \<noteq> (ns, n) \<Longrightarrow> stored lb Y store fs' ns' n' = stored lb Y store fs ns' n'"
    and "\<And>x. stored lb Y store fs' ns n = Inr x \<Longrightarrow> ur_Namespace x = ns \<and> ur_Name x = n"
  shows "wf_store lb Y store fs'"
  unfolding wf_store_def
proof (intro allI impI)
  fix ns' n' x assume x: "stored lb Y store fs' ns' n' = Inr x"
  show "ur_Namespace x = ns' \<and> ur_Name x = n'"
    using x assms(1,3) assms(2) [of ns' n'] by (cases "(ns', n') = (ns, n)") (auto simp: wf_store_def)
qed

text \<open>
  Claim C19.  Whatever anybody puts, no registration loses or changes its spec, and none changes its
  owner: a stored registration stays as it is, or an OIDC caller whose identity it names adopts it
  while it has no owner.  Every file keeps holding the registration its path names.
\<close>

theorem PutAs_immutable:
  assumes "documented_k8s (lib_k8s lb)" "documented_yaml Y" "wf_store lb Y store fs"
    and "representable r" "utf8Principal caller" "representableTime now"
    and "PutAs lb Y rnd now env store r caller fs = (fs', res)"
  shows "wf_store lb Y store fs' \<and>
    (\<forall>ns n old. stored lb Y store fs ns n = Inr old \<longrightarrow>
       (\<exists>new. stored lb Y store fs' ns n = Inr new \<and> ur_Spec new = ur_Spec old \<and>
         (new = old \<or>
          ownerOf old = None \<and> pr_Method caller = MethodOIDC \<and> pr_Identity caller = sp_Identity (ur_Spec old) \<and>
          ownerOf new = Some (authenticatedPrincipal caller))))"
  using assms(7)
proof (cases rule: PutAs_cases)
  case (adopting existing b c err)
  have e: "stored lb Y store fs (ur_Namespace r) (ur_Name r) = Inr existing" by (rule getUnlocked_stored(1) [OF adopting(1)])
  then have n: "ur_Namespace existing = ur_Namespace r" "ur_Name existing = ur_Name r" using assms(3) by (auto simp: wf_store_def)
  have y: "readsBackYaml Y (adopted (hexEncode b) caller existing)"
    using representable_adopted [OF stored_representable(1) [OF assms(2) e] assms(5)] assms(2) by (simp add: documented_yaml_def)
  note w = writeUnlocked_stored [OF assms(1) adopting(8) [unfolded n] adopting(7) y]
  have wf: "wf_store lb Y store fs'"
    by (rule wf_store_write [OF assms(3) w(2)]) (use w(1) e n in \<open>auto split: if_splits\<close>)
  have "\<exists>new. stored lb Y store fs' ns m = Inr new \<and> ur_Spec new = ur_Spec old \<and> (new = old \<or>
      ownerOf old = None \<and> pr_Method caller = MethodOIDC \<and> pr_Identity caller = sp_Identity (ur_Spec old) \<and>
      ownerOf new = Some (authenticatedPrincipal caller))" if o: "stored lb Y store fs ns m = Inr old" for ns m old
  proof (cases "(ns, m) = (ur_Namespace r, ur_Name r)")
    case True
    with o e have "old = existing" by simp
    with True w(1) o adopting(3-6) show ?thesis by (cases "err = None") auto
  next
    case False
    with o w(2) [of ns m] show ?thesis by auto
  qed
  with wf show ?thesis by blast
next
  case (creating b c err)
  have e: "stored lb Y store fs (ur_Namespace r) (ur_Name r) = Inl ErrNotFound" by (rule getUnlocked_stored(2) [OF creating(1)])
  have y: "readsBackYaml Y (newRegistration (hexEncode b) now r caller)"
    using representable_new [OF assms(4-6)] assms(2) by (simp add: documented_yaml_def)
  note w = writeUnlocked_stored [OF assms(1) creating(5,4) y]
  have wf: "wf_store lb Y store fs'"
    by (rule wf_store_write [OF assms(3) w(2)]) (use w(1) e in \<open>auto split: if_splits\<close>)
  have "stored lb Y store fs' ns m = Inr old" if o: "stored lb Y store fs ns m = Inr old" for ns m old
    using o e w(2) [of ns m] by (cases "(ns, m) = (ur_Namespace r, ur_Name r)") auto
  with wf show ?thesis by blast
qed (use assms(3) in auto)

lemma new_accepted: "documented_k8s K \<Longrightarrow> Accepted K (newRegistration i now r p)"
  by (simp add: Accepted_def AcceptanceCondition_def newRegistration_def documented_k8s_def acceptedCondition_def)

lemma PutAs_again:
  assumes "registrationValidate (lib_ssh lb) (lib_k8s lb) (lib_lower lb) r = None" "ur_Namespace r \<noteq> []"
    and "pr_Method caller = MethodOIDC \<longrightarrow> pr_Identity caller = sp_Identity (ur_Spec r) \<and> registrationOwnedBy y caller"
    and "stored lb Y store fs (ur_Namespace r) (ur_Name r) = Inr y" "ur_Spec y = ur_Spec r"
  shows "PutAs lb Y rnd now noFaults store r caller fs = (fs, Inr (y, False))"
  using assms by (auto simp: PutAs_def retainRegistration_def stored_def)

lemma PutAs_ok:
  assumes "PutAs lb Y rnd now env store r caller fs = (fs', Inr x)"
  shows "registrationValidate (lib_ssh lb) (lib_k8s lb) (lib_lower lb) r = None" "ur_Namespace r \<noteq> []"
    "pr_Method caller = MethodOIDC \<longrightarrow> pr_Identity caller = sp_Identity (ur_Spec r)"
  using assms by (auto simp: PutAs_def split: option.splits if_splits)


section \<open>Logging in with a registered key\<close>

lemma valid_keys_parse:
  assumes "documented_k8s (lib_k8s lb)" "validRegistration lb r" "k \<in> set (sp_PublicKeys (ur_Spec r))"
  shows "\<exists>c rest. ParseAuthorizedKey (lib_ssh lb) (pk_Key k) = Some (c, rest)"
  using assms by (auto simp: validRegistration_def registrationValidate_spec parsedKeys_def list_all2_conv_all_nth in_set_conv_nth)

lemma matchKeys_eq:
  assumes "\<forall>k \<in> set ks. \<exists>c rest. ParseAuthorizedKey L (pk_Key k) = Some (c, rest)"
  shows "matchKeys L key ks = Inr (list_ex (\<lambda>k. case ParseAuthorizedKey L (pk_Key k) of
      None \<Rightarrow> False | Some (c, _) \<Rightarrow> marshalKey L c = marshalKey L key) ks)"
  using assms by (induction ks) auto

lemma listFiles_valid: "listFiles lb Y env d es fs = Inr rs \<Longrightarrow> r \<in> set rs \<Longrightarrow> \<exists>name. loadStored lb Y env (joinPath d name) fs = Inr r"
  by (induction es arbitrary: rs) (fastforce split: if_splits sum.splits)+

lemma listFiles_all:
  "listFiles lb Y env d es fs = Inr rs \<Longrightarrow> (name, n) \<in> set es \<Longrightarrow> isRegular n \<Longrightarrow> extOf name = ''.yaml'' \<Longrightarrow>
   \<exists>r \<in> set rs. loadStored lb Y env (joinPath d name) fs = Inr r"
  by (induction es arbitrary: rs) (auto split: if_splits sum.splits)

lemma loadStored_valid: "loadStored lb Y env p fs = Inr r \<Longrightarrow> validRegistration lb r"
  by (auto simp: loadStored_def registration_codec.load_iff split: sum.splits option.splits)

definition keyRegistered :: "libs \<Rightarrow> string \<Rightarrow> PublicKey \<Rightarrow> UserRegistration \<Rightarrow> bool" where
  "keyRegistered lb identity key r \<longleftrightarrow> sp_Identity (ur_Spec r) = identity \<and> Accepted (lib_k8s lb) r \<and>
     list_ex (\<lambda>k. case ParseAuthorizedKey (lib_ssh lb) (pk_Key k) of
        None \<Rightarrow> False | Some (c, _) \<Rightarrow> marshalKey (lib_ssh lb) c = marshalKey (lib_ssh lb) key) (sp_PublicKeys (ur_Spec r))"

lemma matchRegistrations_eq:
  assumes "documented_k8s (lib_k8s lb)" "\<forall>r \<in> set rs. validRegistration lb r"
  shows "matchRegistrations lb i key rs =
    Inr (if list_ex (keyRegistered lb i key) rs then Some \<lparr>res_Identity = i, res_Provider = ''user-registration'', res_ValidBefore = None\<rparr> else None)"
  using assms(2)
proof (induction rs)
  case (Cons r rs)
  have "\<forall>k \<in> set (sp_PublicKeys (ur_Spec r)). \<exists>c rest. ParseAuthorizedKey (lib_ssh lb) (pk_Key k) = Some (c, rest)"
    using valid_keys_parse [OF assms(1)] Cons.prems by auto
  note matchKeys_eq [OF this, of key]
  with Cons show ?case by (auto simp: keyRegistered_def split: bool.splits)
qed simp

lemma extOf_yaml: "extOf (n @ ''.yaml'') = ''.yaml''"
  by (simp add: extOf_def)

lemma stored_listed:
  assumes "documented_k8s (lib_k8s lb)" "storeList lb Y env store ns fs = Inr rs" "map_of fs (namespaceDir store ns) = Some (Directory perm)"
    and "stored lb Y store fs ns n = Inr r"
  shows "r \<in> set rs"
proof -
  obtain p where p: "resourcePath (lib_k8s lb) store ns n = Inr p" "loadStored lb Y noFaults p fs = Inr r"
    using assms(4) by (auto simp: stored_def getUnlocked_Inr)
  then have q: "dns1123Label ns" "dns1123Subdomain n" "p = namespaceDir store ns @ ''/'' @ n @ ''.yaml''"
    using resourcePath_Inr [OF assms(1)] by auto
  obtain x where x: "map_of fs p = Some x" "isRegular x"
    using p(2) by (auto simp: loadStored_def readStoredFile_def osStat_def noFaults_def split: sum.splits option.splits if_splits)
  have l: "last (namespaceDir store ns) \<noteq> CHR ''/''" using label_shape [OF q(1)] by (auto simp: namespaceDir_append)
  have c: "childName (namespaceDir store ns) p = Some (n @ ''.yaml'')"
    using q(3) l subdomain_shape(1,2) [OF q(2)] by (simp add: childName_def joinPath_def cutPrefix_def)
  obtain es where es: "osReadDir env (namespaceDir store ns) fs = Inr es" "listFiles lb Y env (namespaceDir store ns) es fs = Inr rs"
    using assms(2,3) by (auto simp: storeList_def Let_def namespaceDir_def osReadDir_def split: if_splits)
  have "(n @ ''.yaml'', x) \<in> set es"
    using es(1) assms(3) c map_of_SomeD [OF x(1)] by (force simp: osReadDir_def split: if_splits)
  from listFiles_all [OF es(2) this x(2) extOf_yaml] obtain r' where r':
    "r' \<in> set rs" "loadStored lb Y env (joinPath (namespaceDir store ns) (n @ ''.yaml'')) fs = Inr r'" by blast
  have "joinPath (namespaceDir store ns) (n @ ''.yaml'') = p" using q(3) l by (simp add: joinPath_def)
  with loadStored_reads(1) [OF r'(2)] p(2) r'(1) show ?thesis by simp
qed

lemma storeList_valid: "storeList lb Y env store ns fs = Inr rs \<Longrightarrow> r \<in> set rs \<Longrightarrow> validRegistration lb r"
  by (auto simp: storeList_def Let_def split: sum.splits sys_err.splits dest!: listFiles_valid loadStored_valid)

text \<open>
  Claim C21.  When the registrations of the authentication namespace load, a key logs an identity in
  exactly if some accepted registration of that identity lists it; and every registration stored in
  that namespace takes part.
\<close>

theorem store_login:
  assumes "documented_k8s (lib_k8s lb)" "storeList lb Y env store (sr_authenticationNamespace store) fs = Inr rs"
    and "map_of fs (joinPath (sr_root store) (sr_authenticationNamespace store)) = Some (Directory perm)"
  shows "(\<forall>n r. stored lb Y store fs (sr_authenticationNamespace store) n = Inr r \<longrightarrow> r \<in> set rs) \<and>
    storeAuthenticate lb Y env store fs \<lparr>at_Identity = i, at_Method = MethodPublicKey, at_Password = pw, at_PublicKey = Some key\<rparr> =
      Inr (if list_ex (keyRegistered lb i key) rs
           then Some \<lparr>res_Identity = i, res_Provider = ''user-registration'', res_ValidBefore = None\<rparr> else None)"
proof -
  have "\<forall>r \<in> set rs. validRegistration lb r" using storeList_valid [OF assms(2)] by blast
  from matchRegistrations_eq [OF assms(1) this] stored_listed [OF assms(1,2) assms(3) [folded namespaceDir_def]] assms(2)
  show ?thesis by (simp add: storeAuthenticate_def)
qed

section \<open>A concrete store\<close>

definition demoStore :: Store where
  "demoStore = \<lparr>sr_root = ''/r'', sr_authenticationNamespace = ''default''\<rparr>"

definition demoRandom :: string where
  "demoRandom = ''0123456789abcdef''"

definition demoStored :: UserRegistration where
  "demoStored = newRegistration (hexEncode demoRandom) 0 demoRegistration demoPrincipal"

definition demoStoreYaml :: "UserRegistration yaml_lib" where
  "demoStoreYaml = \<lparr>yamlMarshal = \<lambda>r. if r = demoStored then Some ''doc'' else None,
     yamlUnmarshalStrict = \<lambda>s. if s = ''doc'' then Some demoStored else None\<rparr>"

lemma demoStored_representable: "representable demoStored" "wholeSeconds demoStored = demoStored" "representable demoRegistration"
  "utf8Principal demoPrincipal" "representableTime 0"
  by code_simp+

lemma demoStoreYaml_documented: "documented_yaml demoStoreYaml"
  using demoStored_representable by (auto simp: documented_yaml_def readsBackYaml_def demoStoreYaml_def)

lemma demoLibs_documented: "documented_k8s (lib_k8s demoLibs)"
  by (simp add: demoLibs_def demoK8s_documented)

lemma empty_wf_store: "wf_store lb Y store []"
  by (auto simp: wf_store_def stored_def getUnlocked_Inr loadStored_def readStoredFile_def osStat_def noFaults_def)

definition demoPut :: "string fs \<times> (store_err + UserRegistration \<times> bool)" where
  "demoPut = PutAs demoLibs demoStoreYaml (Some demoRandom) 0 noFaults demoStore demoRegistration demoPrincipal []"

lemma demoPut_result: "snd demoPut = Inr (demoStored, True)"
  by code_simp

lemma demoPut_eq: "PutAs demoLibs demoStoreYaml (Some demoRandom) 0 noFaults demoStore demoRegistration demoPrincipal [] = (fst demoPut, Inr (demoStored, True))"
  using demoPut_result by (simp add: demoPut_def prod_eq_iff)

lemmas demo_put_facts = demoLibs_documented demoStoreYaml_documented empty_wf_store demoStored_representable(3,4,5) demoPut_eq

theorem PutAs_immutable_witness:
  "wf_store demoLibs demoStoreYaml demoStore (fst demoPut)"
  using PutAs_immutable [OF demo_put_facts] by blast


definition demoKey :: PublicKey where
  "demoKey = PlainKey ''alpha''"

lemma demoList: "storeList demoLibs demoStoreYaml noFaults demoStore (sr_authenticationNamespace demoStore) (fst demoPut) = Inr [demoStored]"
  "map_of (fst demoPut) (joinPath (sr_root demoStore) (sr_authenticationNamespace demoStore)) = Some (Directory 0x1C0)"
  "list_ex (keyRegistered demoLibs ''ada'' demoKey) [demoStored]"
  by code_simp+

theorem store_login_witness:
  "storeAuthenticate demoLibs demoStoreYaml noFaults demoStore (fst demoPut)
     \<lparr>at_Identity = ''ada'', at_Method = MethodPublicKey, at_Password = [], at_PublicKey = Some demoKey\<rparr> =
   Inr (Some \<lparr>res_Identity = ''ada'', res_Provider = ''user-registration'', res_ValidBefore = None\<rparr>)"
  using store_login [OF demoLibs_documented demoList(1,2), of "''ada''" "[]" demoKey] demoList(3) by simp

end
