(* ===== verification/Ssh_Issuer.thy ===== *)
theory Ssh_Issuer
  imports Authorization Go_Sha256
begin

text \<open>
  The issuer of short-lived SSH user certificates (\<open>internal/sshcert/issuer.go\<close>).  The clock is in
  nanoseconds of Unix time; the random serial and the nonce of the signature are inputs.
\<close>

definition DefaultTTL :: duration where "DefaultTTL = 10 * Minute"

record Subject =
  sj_Issuer :: string
  sj_Subject :: string

record Issuer =
  is_signer :: Signer
  is_ttl :: duration
  is_clockSkew :: duration

datatype issuer_err =
    SignerRequired | BadTTL | BadClockSkew
  | KeyStat sys_err | KeyNotRegular | KeyPermissions perm | KeyRead sys_err | KeyParse
  | IssueArguments | SerialFailed | SignFailed

definition NewIssuer :: "Signer option \<Rightarrow> duration \<Rightarrow> duration \<Rightarrow> issuer_err + Issuer" where
  "NewIssuer signer ttl clockSkew =
     (case signer of
        None \<Rightarrow> Inl SignerRequired
      | Some s \<Rightarrow>
          let ttl = (if ttl = 0 then DefaultTTL else ttl) in
          if ttl < Minute \<or> ttl > Hour then Inl BadTTL
          else if clockSkew < 0 \<or> clockSkew > 5 * Minute then Inl BadClockSkew
          else Inr \<lparr>is_signer = s, is_ttl = ttl, is_clockSkew = clockSkew\<rparr>)"

definition LoadSigner :: "ssh_lib \<Rightarrow> os_env \<Rightarrow> string \<Rightarrow> string fs \<Rightarrow> issuer_err + Signer" where
  "LoadSigner L env path fs =
     (case osStat env SysStatRead path fs of
        Inl e \<Rightarrow> Inl (KeyStat e)
      | Inr info \<Rightarrow>
          if \<not> isRegular info then Inl KeyNotRegular
          else if permOf info AND 0x12 \<noteq> 0 then Inl (KeyPermissions (permOf info))
          else (case readFile env path fs of
              Inl e \<Rightarrow> Inl (KeyRead e)
            | Inr None \<Rightarrow> Inl KeyParse
            | Inr (Some contents) \<Rightarrow>
                (case ParsePrivateKey L contents of None \<Rightarrow> Inl KeyParse | Some s \<Rightarrow> Inr s)))"

definition issuerPublicKey :: "ssh_lib \<Rightarrow> Issuer \<Rightarrow> PublicKey" where
  "issuerPublicKey L issuer = signerPublicKey L (is_signer issuer)"

definition Lifetime :: "Issuer \<Rightarrow> duration" where
  "Lifetime issuer = is_ttl issuer"

definition certificateKeyID :: "Subject \<Rightarrow> string \<Rightarrow> string" where
  "certificateKeyID subject keyName =
     ''oidc:'' @ hexEncode (take 12 (sha256 (sj_Issuer subject @ [CHR 0x00] @ sj_Subject subject @ [CHR 0x00] @ keyName)))"

definition bigEndianUint64 :: "string \<Rightarrow> 64 word" where
  "bigEndianUint64 b = foldl (\<lambda>a c. push_bit 8 a OR of_char c) 0 b"

text \<open>\<open>time.Time.Unix\<close> converted to \<open>uint64\<close>.\<close>

definition unixSeconds :: "int \<Rightarrow> 64 word" where
  "unixSeconds t = word_of_int (t div Second)"

definition unsignedCertificate :: "Issuer \<Rightarrow> int \<Rightarrow> string \<Rightarrow> string \<Rightarrow> string \<Rightarrow> PublicKey \<Rightarrow> Subject \<Rightarrow> PublicKey" where
  "unsignedCertificate issuer now serialBytes identity keyName publicKey subject =
     Certificate [] publicKey (bigEndianUint64 serialBytes) UserCert (certificateKeyID subject keyName) [identity]
       (unixSeconds (now - is_clockSkew issuer)) (unixSeconds (now + is_ttl issuer)) []
       [(''permit-port-forwarding'', []), (''tearenv.io/authentication'', ''oidc'')] None []"

definition Issue :: "ssh_lib \<Rightarrow> string option \<Rightarrow> string \<Rightarrow> int \<Rightarrow> Issuer \<Rightarrow> string \<Rightarrow> string \<Rightarrow> PublicKey option \<Rightarrow> Subject \<Rightarrow> issuer_err + PublicKey" where
  "Issue L serial nonce now issuer identity keyName publicKey subject =
     (case publicKey of
        None \<Rightarrow> Inl IssueArguments
      | Some k \<Rightarrow>
          if trimSpace identity = [] \<or> trimSpace keyName = [] then Inl IssueArguments
          else (case serial of
              None \<Rightarrow> Inl SerialFailed
            | Some serialBytes \<Rightarrow>
                (case SignCert L (is_signer issuer) nonce (unsignedCertificate issuer now serialBytes identity keyName k subject) of
                   None \<Rightarrow> Inl SignFailed
                 | Some c \<Rightarrow> Inr c)))"

section \<open>Facts\<close>

definition wf_Issuer :: "Issuer \<Rightarrow> bool" where
  "wf_Issuer i \<longleftrightarrow> Minute \<le> is_ttl i \<and> is_ttl i \<le> Hour \<and> 0 \<le> is_clockSkew i \<and> is_clockSkew i \<le> 5 * Minute"

lemma NewIssuer_wf: "NewIssuer signer ttl skew = Inr i \<Longrightarrow> wf_Issuer i \<and> Some (is_signer i) = signer"
  by (auto simp: NewIssuer_def wf_Issuer_def Let_def split: option.splits if_splits)

lemma isCertificate_unsigned [simp]: "isCertificate (unsignedCertificate i now b ident k pk s)"
  by (simp add: unsignedCertificate_def)

lemma Issue_Inr:
  assumes "documented_SignCert L" "Issue L serial nonce now issuer identity keyName publicKey subject = Inr c"
  shows "\<exists>k b sig. publicKey = Some k \<and> serial = Some b \<and> trimSpace identity \<noteq> [] \<and> trimSpace keyName \<noteq> [] \<and>
    c = signedWith nonce (issuerPublicKey L issuer) sig (unsignedCertificate issuer now b identity keyName k subject) \<and>
    signatureVerifies L c"
proof -
  obtain k b where k: "publicKey = Some k" "serial = Some b" "trimSpace identity \<noteq> []" "trimSpace keyName \<noteq> []"
    "SignCert L (is_signer issuer) nonce (unsignedCertificate issuer now b identity keyName k subject) = Some c"
    using assms(2) by (auto simp: Issue_def split: option.splits if_splits)
  have "(\<exists>sig. c = signedWith nonce (signerPublicKey L (is_signer issuer)) sig (unsignedCertificate issuer now b identity keyName k subject)) \<and>
      signatureVerifies L c"
    using assms(1) isCertificate_unsigned k(5) unfolding documented_SignCert_def by (metis (no_types))
  then obtain sig where "c = signedWith nonce (issuerPublicKey L issuer) sig (unsignedCertificate issuer now b identity keyName k subject)"
    "signatureVerifies L c" unfolding issuerPublicKey_def by (elim conjE exE)
  with k(1-4) show ?thesis by (intro exI conjI)
qed

lemma uint_unixSeconds: "0 \<le> t \<Longrightarrow> t < 2 ^ 63 * Second \<Longrightarrow> uint (unixSeconds t) = t div Second"
proof -
  assume t: "0 \<le> t" "t < 2 ^ 63 * Second"
  then have "0 \<le> t div Second" "t div Second < 2 ^ 63" by (auto simp: Second_def)
  then have "t div Second < 2 ^ 64" by simp
  with \<open>0 \<le> t div Second\<close> show ?thesis unfolding unixSeconds_def by (simp add: uint_word_of_int_eq take_bit_int_eq_self)
qed

text \<open>The clocks for which a certificate's interval does not wrap around.\<close>

definition issuableTime :: "Issuer \<Rightarrow> int \<Rightarrow> bool" where
  "issuableTime i now \<longleftrightarrow> is_clockSkew i \<le> now \<and> now + is_ttl i < 2 ^ 63 * Second"

lemma unsigned_window:
  assumes "wf_Issuer i" "issuableTime i now"
  shows "uint (cert_ValidAfter (unsignedCertificate i now b ident kn k s)) = (now - is_clockSkew i) div Second"
    "uint (cert_ValidBefore (unsignedCertificate i now b ident kn k s)) = (now + is_ttl i) div Second"
    "uint (cert_ValidBefore (unsignedCertificate i now b ident kn k s)) < 2 ^ 63"
    "uint (cert_ValidAfter (unsignedCertificate i now b ident kn k s)) < 2 ^ 63"
proof -
  have a: "0 \<le> now - is_clockSkew i" "now - is_clockSkew i < 2 ^ 63 * Second" "0 \<le> now + is_ttl i" "now + is_ttl i < 2 ^ 63 * Second"
    using assms by (auto simp: issuableTime_def wf_Issuer_def duration_unit_defs)
  show "uint (cert_ValidAfter (unsignedCertificate i now b ident kn k s)) = (now - is_clockSkew i) div Second"
    "uint (cert_ValidBefore (unsignedCertificate i now b ident kn k s)) = (now + is_ttl i) div Second"
    using uint_unixSeconds a by (simp_all add: unsignedCertificate_def)
  then show "uint (cert_ValidBefore (unsignedCertificate i now b ident kn k s)) < 2 ^ 63"
    "uint (cert_ValidAfter (unsignedCertificate i now b ident kn k s)) < 2 ^ 63"
    using a by (auto simp: Second_def)
qed

lemma issued_login:
  assumes "documented_SignCert L" "documented_CheckCert L" "NewIssuer signer ttl skew = Inr issuer" "issuableTime issuer now"
    and "Issue L serial nonce now issuer identity keyName publicKey subject = Inr c"
  shows "certificateAuthenticate L ca clock \<lparr>at_Identity = who, at_Method = MethodPublicKey, at_Password = pw, at_PublicKey = Some c\<rparr> =
      Inr (if who = identity \<and> (now - is_clockSkew issuer) div Second \<le> clock \<and> clock < (now + is_ttl issuer) div Second
           then Some \<lparr>res_Identity = identity, res_Provider = ''oidc-ssh-certificate'',
             res_ValidBefore = Some ((now + is_ttl issuer) div Second * Second)\<rparr>
           else None) \<and>
    (now + is_ttl issuer) div Second * Second \<le> now + Hour \<and> now - 5 * Minute - Second < (now - is_clockSkew issuer) div Second * Second"
proof -
  note w = NewIssuer_wf [OF assms(3)]
  obtain k b sig where c: "c = signedWith nonce (issuerPublicKey L issuer) sig (unsignedCertificate issuer now b identity keyName k subject)"
    "signatureVerifies L c" using Issue_Inr [OF assms(1,5)] by blast
  let ?u = "unsignedCertificate issuer now b identity keyName k subject"
  have f: "isCertificate c" "cert_CertType c = UserCert" "cert_ValidPrincipals c = [identity]" "cert_CriticalOptions c = []"
    "extensionOf c oidcAuthenticationExtension = ''oidc''" "cert_ValidAfter c = cert_ValidAfter ?u" "cert_ValidBefore c = cert_ValidBefore ?u"
    using c(1) by (simp_all add: unsignedCertificate_def extensionOf_def oidcAuthenticationExtension_def)
  have o: "criticalOptionsSupported L c" using assms(1) f(1,4) by (simp add: documented_SignCert_def)
  note u = unsigned_window [OF conjunct1 [OF w] assms(4), of b identity keyName k subject]
  have win: "certInWindow clock c \<longleftrightarrow> (now - is_clockSkew issuer) div Second \<le> clock \<and> clock < (now + is_ttl issuer) div Second"
    using u by (auto simp: certInWindow_def f)
  have "CheckCert L q clock who c \<longleftrightarrow> who = identity \<and> (now - is_clockSkew issuer) div Second \<le> clock \<and> clock < (now + is_ttl issuer) div Second" for q
    using assms(2) f(1,3) o c(2) win by (auto simp: documented_CheckCert_def)
  moreover have "is_ttl issuer \<le> Hour" "is_clockSkew issuer \<le> 5 * Minute" using w by (auto simp: wf_Issuer_def)
  moreover have "(now + is_ttl issuer) div Second * Second \<le> now + is_ttl issuer"
    "now - is_clockSkew issuer - Second < (now - is_clockSkew issuer) div Second * Second"
    unfolding Second_def by linarith+
  ultimately show ?thesis using f u by (auto simp: certificateAuthenticate_def)
qed

section \<open>Properties\<close>

text \<open>
  An issued certificate logs its identity in, and nobody else, exactly while the clock is
  between the start of its validity and its expiry, provided the clock is in the range of the
  certificate's 64-bit seconds; it expires no later than an hour after it was issued, starts at most
  five minutes before, and the login expires with it.
\<close>

theorem issued_certificate_login:
  assumes "documented_SignCert L" "documented_CheckCert L" "NewIssuer signer ttl skew = Inr issuer" "issuableTime issuer now"
    and "Issue L serial nonce now issuer identity keyName publicKey subject = Inr c"
  shows "certificateAuthenticate L ca clock \<lparr>at_Identity = who, at_Method = MethodPublicKey, at_Password = pw, at_PublicKey = Some c\<rparr> =
      Inr (if who = identity \<and> (now - is_clockSkew issuer) div Second \<le> clock \<and> clock < (now + is_ttl issuer) div Second
           then Some \<lparr>res_Identity = identity, res_Provider = ''oidc-ssh-certificate'',
             res_ValidBefore = Some ((now + is_ttl issuer) div Second * Second)\<rparr>
           else None) \<and>
    (now + is_ttl issuer) div Second * Second \<le> now + Hour \<and> now - 5 * Minute - Second < (now - is_clockSkew issuer) div Second * Second"
  by (rule issued_login [OF assms])

definition demoIssuer :: Issuer where
  "demoIssuer = \<lparr>is_signer = ''ca'', is_ttl = 600000000000, is_clockSkew = 60000000000\<rparr>"

theorem issued_certificate_login_witness:
  "\<exists>c. Issue demoSsh (Some ''12345678'') ''n'' (1000000 * Second) demoIssuer ''ada'' ''laptop'' (Some (PlainKey ''alpha'')) \<lparr>sj_Issuer = ''https://id'', sj_Subject = ''1''\<rparr> = Inr c \<and>
     certificateAuthenticate demoSsh \<lparr>ca_authorityBytes = ''pub-ca''\<rparr> 1000100
       \<lparr>at_Identity = ''ada'', at_Method = MethodPublicKey, at_Password = [], at_PublicKey = Some c\<rparr> =
     Inr (Some \<lparr>res_Identity = ''ada'', res_Provider = ''oidc-ssh-certificate'', res_ValidBefore = Some (1000600 * Second)\<rparr>)"
proof -
  have n: "NewIssuer (Some ''ca'') 0 Minute = Inr demoIssuer" by code_simp
  have t: "issuableTime demoIssuer (1000000 * Second)" by code_simp
  obtain c where c: "Issue demoSsh (Some ''12345678'') ''n'' (1000000 * Second) demoIssuer ''ada'' ''laptop'' (Some (PlainKey ''alpha''))
      \<lparr>sj_Issuer = ''https://id'', sj_Subject = ''1''\<rparr> = Inr c"
  proof -
    have "trimSpace ''ada'' \<noteq> []" "trimSpace ''laptop'' \<noteq> []" by code_simp+
    then show ?thesis using that by (simp add: Issue_def demoSsh_def)
  qed
  have "(1000000 * Second + is_ttl demoIssuer) div Second = 1000600" "(1000000 * Second - is_clockSkew demoIssuer) div Second = 999940" by code_simp+
  with issued_certificate_login [OF demoSsh_SignCert demoSsh_CheckCert n t c, of "\<lparr>ca_authorityBytes = ''pub-ca''\<rparr>" 1000100 "''ada''" "[]"] c
  show ?thesis by auto
qed

end
