(* ===== verification/Go_Http.thy ===== *)
theory Go_Http
  imports Go_Url
begin

text \<open>
  The parts of \<open>mime\<close>, \<open>net/url\<close> and \<open>net/http\<close> the HTTP handlers rely on: media types, form
  bodies, requests and responses, and the routes of \<open>http.ServeMux\<close>.
\<close>

section \<open>Media types\<close>

definition tspecial :: "char \<Rightarrow> bool" where
  "tspecial c \<longleftrightarrow> c \<in> set ''()<>@,;:/[]?='' \<or> c = CHR 0x5C \<or> c = CHR 0x22"

definition token_char :: "char \<Rightarrow> bool" where
  "token_char c \<longleftrightarrow> CHR 0x20 < c \<and> c < CHR 0x7F \<and> \<not> tspecial c"

definition consumeToken :: "string \<Rightarrow> string \<times> string" where
  "consumeToken v = (takeWhile token_char v, dropWhile token_char v)"

fun quotedValue :: "string \<Rightarrow> string \<Rightarrow> (string \<times> string) option" where
  "quotedValue acc [] = None"
| "quotedValue acc (c # s) =
     (if c = CHR 0x22 then Some (acc, s)
      else if c = CHR 0x5C \<and> s \<noteq> [] \<and> tspecial (hd s) then
        (case s of [] \<Rightarrow> None | d # r \<Rightarrow> quotedValue (acc @ [d]) r)
      else if c = CHR 0x0D \<or> c = CHR 0x0A then None
      else quotedValue (acc @ [c]) s)"

text \<open>A value, a token or a quoted string; \<open>None\<close> when nothing is consumed.\<close>

definition consumeValue :: "string \<Rightarrow> (string \<times> string) option" where
  "consumeValue v =
     (case v of
        [] \<Rightarrow> None
      | c # s \<Rightarrow>
          if c = CHR 0x22 then quotedValue [] s
          else (case consumeToken v of (t, r) \<Rightarrow> if t = [] then None else Some (t, r)))"

definition trimLeftSpace :: "string \<Rightarrow> string" where
  "trimLeftSpace s = trimLeftRunes space_runes s"

definition consumeMediaParam :: "string \<Rightarrow> (string \<times> string \<times> string) option" where
  "consumeMediaParam v =
     (case cutPrefix (trimLeftSpace v) '';'' of
        None \<Rightarrow> None
      | Some r1 \<Rightarrow>
          (case consumeToken (trimLeftSpace r1) of (param, r2) \<Rightarrow>
             if param = [] then None
             else (case cutPrefix (trimLeftSpace r2) ''='' of
                 None \<Rightarrow> None
               | Some r3 \<Rightarrow>
                   (case consumeValue (trimLeftSpace r3) of
                      None \<Rightarrow> None
                    | Some (val, rest) \<Rightarrow> Some (map ascii_lower param, val, rest)))))"

lemma length_trimLeftSpace: "length (trimLeftSpace s) \<le> length s"
  using trimLeftRunes_suffix [of space_runes s] by (auto simp: trimLeftSpace_def dest: suffix_length_le)

lemma quotedValue_shorter: "quotedValue acc s = Some (v, r) \<Longrightarrow> length r < length s"
proof (induction acc s rule: quotedValue.induct)
  case (2 acc c s)
  then show ?case by (cases s) (fastforce split: if_splits)+
qed simp

lemma consumeValue_shorter: "consumeValue s = Some (v, r) \<Longrightarrow> length r \<le> length s"
  by (auto simp: consumeValue_def consumeToken_def split: list.splits if_splits dest!: quotedValue_shorter
      intro: le_SucI length_dropWhile_le)

lemma consumeMediaParam_shorter:
  assumes "consumeMediaParam v = Some (k, val, rest)"
  shows "length rest < length v"
proof -
  obtain r1 where r1: "cutPrefix (trimLeftSpace v) '';'' = Some r1"
    using assms by (auto simp: consumeMediaParam_def split: option.splits)
  obtain r2 r3 where r: "r2 = dropWhile token_char (trimLeftSpace r1)" "cutPrefix (trimLeftSpace r2) ''='' = Some r3"
    "consumeValue (trimLeftSpace r3) = Some (val, rest)"
    using assms r1 by (auto simp: consumeMediaParam_def consumeToken_def split: option.splits if_splits)
  have "length r1 < length (trimLeftSpace v)" using r1 by (cases "trimLeftSpace v") (auto simp: cutPrefix_def split: if_splits)
  moreover have "length r3 \<le> length (trimLeftSpace r2)" using r(2) by (auto simp: cutPrefix_def split: if_splits)
  moreover have "length r2 \<le> length (trimLeftSpace r1)" using r(1) by (simp add: length_dropWhile_le)
  ultimately show ?thesis
    using consumeValue_shorter [OF r(3)] length_trimLeftSpace [of v] length_trimLeftSpace [of r1]
      length_trimLeftSpace [of r2] length_trimLeftSpace [of r3] by linarith
qed

function mediaParams :: "string gomap \<Rightarrow> string \<Rightarrow> bool" where
  "mediaParams seen v =
     (if trimLeftSpace v = [] then True
      else case consumeMediaParam (trimLeftSpace v) of
        None \<Rightarrow> trimSpace v = '';''
      | Some (key, val, rest) \<Rightarrow>
          (case map_of seen key of
             Some old \<Rightarrow> old = val \<and> mediaParams seen rest
           | None \<Rightarrow> mediaParams (AList.update key val seen) rest))"
  by pat_completeness auto
termination
proof (relation "measure (length \<circ> snd)", goal_cases)
  case (2 seen v x a b c d)
  then show ?case using consumeMediaParam_shorter [of "trimLeftSpace v"] length_trimLeftSpace [of v] by (auto dest: less_le_trans)
next
  case (3 seen v x a b c)
  then show ?case using consumeMediaParam_shorter [of "trimLeftSpace v"] length_trimLeftSpace [of v] by (auto dest: less_le_trans)
qed simp

text \<open>\<open>mime.ParseMediaType\<close>, as far as its callers look: the type, or \<open>None\<close> for an error.\<close>

definition parseMediaType :: "(string \<Rightarrow> string) \<Rightarrow> string \<Rightarrow> string option" where
  "parseMediaType ul v =
     (case cut v (CHR '';'') of (base, _, _) \<Rightarrow>
        let mediatype = trimSpace (toLower ul base) in
        (case consumeToken mediatype of (typ, rest) \<Rightarrow>
           if typ = [] then None
           else if rest \<noteq> [] \<and> \<not> (hd rest = CHR ''/'' \<and> tl rest \<noteq> [] \<and> list_all token_char (tl rest)) then None
           else if mediaParams [] (drop (length base) v) then Some mediatype else None))"

section \<open>Forms\<close>

definition maxQueryParams :: nat where
  "maxQueryParams = 10000"

definition queryUnescape :: "string \<Rightarrow> string option" where
  "queryUnescape s = unescape EncodeQueryComponent s"

text \<open>\<open>url.ParseQuery\<close>: the pairs in order; \<open>None\<close> when any part is malformed.\<close>

fun queryPairs :: "string list \<Rightarrow> (string \<times> string) list option" where
  "queryPairs [] = Some []"
| "queryPairs (p # ps) =
     (if CHR '';'' \<in> set p then None
      else if p = [] then queryPairs ps
      else case cut p (CHR ''='') of (k, v, _) \<Rightarrow>
        (case (queryUnescape k, queryUnescape v, queryPairs ps) of
           (Some k', Some v', Some rest) \<Rightarrow> Some ((k', v') # rest)
         | _ \<Rightarrow> None))"

definition parseQuery :: "string \<Rightarrow> (string \<times> string) list option" where
  "parseQuery q = (if countOf q ''&'' + 1 > maxQueryParams then None else queryPairs (splitChar q (CHR ''&'')))"

text \<open>\<open>Values.Get\<close>: the first value of a key, or the empty string.\<close>

definition formGet :: "(string \<times> string) list \<Rightarrow> string \<Rightarrow> string" where
  "formGet form k = (case map_of form k of None \<Rightarrow> [] | Some v \<Rightarrow> v)"

section \<open>Requests and responses\<close>

text \<open>
  A request as the handlers see it: method, escaped path, raw query, two headers, and the body, which
  may fail while it is read.
\<close>

record HttpRequest =
  rq_Method :: string
  rq_Path :: string
  rq_RawQuery :: string
  rq_ContentType :: string
  rq_Authorization :: string
  rq_Body :: string
  rq_BodyFails :: bool

definition StatusOK :: nat where "StatusOK = 200"
definition StatusCreated :: nat where "StatusCreated = 201"
definition StatusBadRequest :: nat where "StatusBadRequest = 400"
definition StatusUnauthorized :: nat where "StatusUnauthorized = 401"
definition StatusForbidden :: nat where "StatusForbidden = 403"
definition StatusNotFound :: nat where "StatusNotFound = 404"
definition StatusMethodNotAllowed :: nat where "StatusMethodNotAllowed = 405"
definition StatusConflict :: nat where "StatusConflict = 409"
definition StatusRequestEntityTooLarge :: nat where "StatusRequestEntityTooLarge = 413"
definition StatusUnsupportedMediaType :: nat where "StatusUnsupportedMediaType = 415"
definition StatusInternalServerError :: nat where "StatusInternalServerError = 500"

lemmas status_defs = StatusOK_def StatusCreated_def StatusBadRequest_def StatusUnauthorized_def StatusForbidden_def
  StatusNotFound_def StatusMethodNotAllowed_def StatusConflict_def StatusRequestEntityTooLarge_def
  StatusUnsupportedMediaType_def StatusInternalServerError_def

record 'b HttpResponse =
  rs_Status :: nat
  rs_Header :: "string gomap"
  rs_Body :: 'b

text \<open>
  \<open>Request.ParseForm\<close> on a POST with a form content type: the pairs of the body, or \<open>None\<close> when the
  body cannot be read within the limit, the body does not parse or the query string does not.
\<close>

definition postForm :: "nat \<Rightarrow> HttpRequest \<Rightarrow> (string \<times> string) list option" where
  "postForm limit rq =
     (if rq_BodyFails rq \<or> length (rq_Body rq) > limit then None
      else case (parseQuery (rq_Body rq), parseQuery (rq_RawQuery rq)) of
        (Some form, Some _) \<Rightarrow> Some form
      | _ \<Rightarrow> None)"

section \<open>Routes\<close>

text \<open>
  The segments of a pattern: a literal or a wildcard for one segment.  A path that is not clean is
  redirected; a matching pattern of another method makes the answer 405.  A GET pattern also matches
  HEAD.
\<close>

datatype segment = Lit string | Wild string

definition cleanPath :: "string \<Rightarrow> bool" where
  "cleanPath p \<longleftrightarrow> p \<noteq> [] \<and> hd p = CHR ''/'' \<and>
     list_all (\<lambda>s. s \<noteq> [] \<and> s \<noteq> ''.'' \<and> s \<noteq> ''..'') (butlast (splitChar (tl p) (CHR ''/''))) \<and>
     last (splitChar (tl p) (CHR ''/'')) \<notin> {''.'', ''..''}"

fun matchSegments :: "segment list \<Rightarrow> string list \<Rightarrow> string gomap option" where
  "matchSegments [] [] = Some []"
| "matchSegments (Lit l # ps) (s # ss) = (if unescape EncodePath s = Some l then matchSegments ps ss else None)"
| "matchSegments (Wild w # ps) (s # ss) =
     (case (unescape EncodePath s, matchSegments ps ss) of
        (Some v, Some m) \<Rightarrow> if v = [] then None else Some ((w, v) # m)
      | _ \<Rightarrow> None)"
| "matchSegments _ _ = None"

datatype 'h routed = Handled 'h "string gomap" | NoRoute | WrongMethod | Redirected

definition methodMatches :: "string \<Rightarrow> string \<Rightarrow> bool" where
  "methodMatches pattern m \<longleftrightarrow> m = pattern \<or> (pattern = ''GET'' \<and> m = ''HEAD'')"

fun firstRoute :: "(string \<times> segment list \<times> 'h) list \<Rightarrow> string \<Rightarrow> string list \<Rightarrow> bool \<Rightarrow> 'h routed" where
  "firstRoute [] m segs other = (if other then WrongMethod else NoRoute)"
| "firstRoute ((pm, pat, h) # rs) m segs other =
     (case matchSegments pat segs of
        None \<Rightarrow> firstRoute rs m segs other
      | Some vs \<Rightarrow> if methodMatches pm m then Handled h vs else firstRoute rs m segs True)"

definition serveMux :: "(string \<times> segment list \<times> 'h) list \<Rightarrow> HttpRequest \<Rightarrow> 'h routed" where
  "serveMux routes rq =
     (if \<not> cleanPath (rq_Path rq) then Redirected
      else firstRoute routes (rq_Method rq) (splitChar (tl (rq_Path rq)) (CHR ''/'')) False)"

end
