(* ===== verification/Registration_Http.thy ===== *)
theory Registration_Http
  imports Registration_Properties Ssh_Issuer Go_Http
begin

text \<open>
  The registration API (\<open>internal/registration/http.go\<close>) and the token exchange
  (\<open>internal/registration/token_exchange.go\<close>): routes, authentication of callers, the put and get
  handlers with their status codes, and the exchange of an OIDC token for an SSH certificate of a
  registered key.
\<close>

section \<open>Responses\<close>

record tokenExchangeResponse =
  te_AccessToken :: string
  te_IssuedTokenType :: string
  te_TokenType :: string
  te_ExpiresIn :: int

record oauthErrorResponse =
  oe_Error :: string
  oe_ErrorDescription :: string

text \<open>
  A body is a text, an error of the store or of validation printed as a text, or a JSON document.
\<close>

datatype body =
    TextBody string | RegError reg_err | StoreError store_err
  | RegistrationBody UserRegistration | ConfigurationBody Configuration
  | TokenBody tokenExchangeResponse | OAuthBody oauthErrorResponse

type_synonym response = "body HttpResponse"

definition httpError :: "body \<Rightarrow> nat \<Rightarrow> response" where
  "httpError b status =
     \<lparr>rs_Status = status, rs_Header = [(''Content-Type'', ''text/plain; charset=utf-8''), (''X-Content-Type-Options'', ''nosniff'')], rs_Body = b\<rparr>"

definition writeJSON :: "string gomap \<Rightarrow> nat \<Rightarrow> body \<Rightarrow> response" where
  "writeJSON header status b = \<lparr>rs_Status = status, rs_Header = AList.update ''Content-Type'' ''application/json'' header, rs_Body = b\<rparr>"

definition writeRegistration :: "nat \<Rightarrow> UserRegistration \<Rightarrow> response" where
  "writeRegistration status r = writeJSON [] status (RegistrationBody r)"

definition health :: response where
  "health = \<lparr>rs_Status = StatusOK, rs_Header = [(''Content-Type'', ''text/plain; charset=utf-8'')], rs_Body = TextBody (''ok'' @ [CHR 0x0A])\<rparr>"

definition writeAuthenticationError :: response where
  "writeAuthenticationError =
     (let e = httpError (TextBody ''authentication required'') StatusUnauthorized
      in e\<lparr>rs_Header := AList.update ''WWW-Authenticate'' ''Bearer realm=\"tearenv-registration\", error=\"invalid_token\"'' (rs_Header e)\<rparr>)"

section \<open>Registrations\<close>

definition requestBodyLimit :: nat where "requestBodyLimit = 1048576"

fun isAnonymous :: "httpAuthenticator \<Rightarrow> bool" where
  "isAnonymous AnonymousAuth = True"
| "isAnonymous (StaticAuth _) = False"
| "isAnonymous (OIDCAuth _) = False"

definition authorize :: "httpAuthenticator \<Rightarrow> HttpRequest \<Rightarrow> response + Principal" where
  "authorize a rq =
     (case (if isAnonymous a then Inr [] else bearer (rq_Authorization rq)) of
        Inl _ \<Rightarrow> Inl writeAuthenticationError
      | Inr bearerToken \<Rightarrow>
          (case httpAuthenticate a bearerToken of
             Inl _ \<Rightarrow> Inl writeAuthenticationError
           | Inr caller \<Rightarrow> Inr caller))"

text \<open>What the handlers depend on besides the request: randomness (an identifier, a serial and a nonce), the clock and the file system.\<close>

record server_env =
  se_libs :: libs
  se_yaml :: "UserRegistration yaml_lib"
  se_os :: os_env
  se_random :: "string option"
  se_serial :: "string option"
  se_nonce :: string
  se_now :: int

definition putRegistration :: "server_env \<Rightarrow> Store \<Rightarrow> HttpRequest \<Rightarrow> string \<Rightarrow> string \<Rightarrow> Principal \<Rightarrow> string fs \<Rightarrow> string fs \<times> response" where
  "putRegistration se store rq pathNamespace pathName caller fs =
     (let mediaType = trimSpace (hd (splitChar (rq_ContentType rq) (CHR '';''))) in
      if mediaType \<noteq> ''application/json'' then (fs, httpError (TextBody ''Content-Type must be application/json'') StatusUnsupportedMediaType)
      else if rq_BodyFails rq then (fs, httpError (TextBody ''read request body'') StatusBadRequest)
      else if length (rq_Body rq) > requestBodyLimit then (fs, httpError (TextBody ''request body exceeds 1 MiB'') StatusRequestEntityTooLarge)
      else case LoadUserRegistration (se_libs se) (se_yaml se) (rq_Body rq) of
        Inl e \<Rightarrow> (fs, httpError (RegError e) StatusBadRequest)
      | Inr registration \<Rightarrow>
          if ur_Namespace registration \<noteq> pathNamespace \<or> ur_Name registration \<noteq> pathName
          then (fs, httpError (TextBody ''request path must match metadata.namespace and metadata.name'') StatusBadRequest)
          else (case PutAs (se_libs se) (se_yaml se) (se_random se) (se_now se) (se_os se) store registration caller fs of
              (fs', Inl e) \<Rightarrow>
                (fs', httpError (StoreError e)
                   (if e = ErrForbidden then StatusForbidden else if e = ErrConflict then StatusConflict else StatusInternalServerError))
            | (fs', Inr (saved, created)) \<Rightarrow> (fs', writeRegistration (if created then StatusCreated else StatusOK) saved)))"

definition getRegistration :: "server_env \<Rightarrow> Store \<Rightarrow> string \<Rightarrow> string \<Rightarrow> Principal \<Rightarrow> string fs \<Rightarrow> response" where
  "getRegistration se store pathNamespace pathName caller fs =
     (case GetAs (se_libs se) (se_yaml se) (se_os se) store pathNamespace pathName caller fs of
        Inl e \<Rightarrow>
          httpError (StoreError e)
            (if e = ErrNotFound then StatusNotFound else if e = ErrForbidden then StatusForbidden else StatusInternalServerError)
      | Inr r \<Rightarrow> writeRegistration StatusOK r)"

section \<open>Token exchange\<close>

definition TokenExchangeGrantType :: string where "TokenExchangeGrantType = ''urn:ietf:params:oauth:grant-type:token-exchange''"
definition SSHCertificateTokenType :: string where "SSHCertificateTokenType = ''https://tearenv.io/oauth/token-type/ssh-certificate''"
definition SSHConnectScope :: string where "SSHConnectScope = ''ssh:connect''"
definition maximumTokenExchangeBodySize :: nat where "maximumTokenExchangeBodySize = 65536"

record TokenExchangeOptions =
  to_Authenticator :: "httpAuthenticator option"
  to_Store :: "Store option"
  to_Issuer :: "Issuer option"
  to_Namespace :: string
  to_Audience :: string
  to_SubjectTokenType :: string

record tokenExchange =
  tx_Authenticator :: httpAuthenticator
  tx_Store :: Store
  tx_Issuer :: Issuer
  tx_Namespace :: string
  tx_Audience :: string
  tx_SubjectTokenType :: string

datatype exchange_err = ExchangeParts | ExchangeNames | ExchangeTokenType authn_err

definition NewTokenExchangeHandler :: "TokenExchangeOptions \<Rightarrow> exchange_err + tokenExchange" where
  "NewTokenExchangeHandler options =
     (case (to_Authenticator options, to_Store options, to_Issuer options) of
        (Some a, Some s, Some i) \<Rightarrow>
          if trimSpace (to_Namespace options) = [] \<or> trimSpace (to_Audience options) = [] then Inl ExchangeNames
          else (case NormalizeSubjectTokenType (to_SubjectTokenType options) of
              Inl e \<Rightarrow> Inl (ExchangeTokenType e)
            | Inr t \<Rightarrow> Inr \<lparr>tx_Authenticator = a, tx_Store = s, tx_Issuer = i, tx_Namespace = to_Namespace options,
                tx_Audience = to_Audience options, tx_SubjectTokenType = t\<rparr>)
      | _ \<Rightarrow> Inl ExchangeParts)"

definition noStore :: "string gomap" where
  "noStore = [(''Cache-Control'', ''no-store''), (''Pragma'', ''no-cache'')]"

definition writeOAuthError :: "nat \<Rightarrow> string \<Rightarrow> string \<Rightarrow> response" where
  "writeOAuthError status code description =
     writeJSON noStore status (OAuthBody \<lparr>oe_Error = code, oe_ErrorDescription = description\<rparr>)"

text \<open>The checks on the form, in order; the result is the requested key name.\<close>

definition checkExchangeForm :: "tokenExchange \<Rightarrow> (string \<times> string) list \<Rightarrow> response + string" where
  "checkExchangeForm tx form =
     (if formGet form ''grant_type'' \<noteq> TokenExchangeGrantType
      then Inl (writeOAuthError StatusBadRequest ''unsupported_grant_type'' ''grant_type must select OAuth token exchange'')
      else if formGet form ''subject_token_type'' \<noteq> tx_SubjectTokenType tx \<or> trimSpace (formGet form ''subject_token'') = []
      then Inl (writeOAuthError StatusBadRequest ''invalid_request'' ''the configured OIDC subject_token is required'')
      else if formGet form ''requested_token_type'' \<noteq> SSHCertificateTokenType
      then Inl (writeOAuthError StatusBadRequest ''invalid_request'' ''requested_token_type must select an SSH certificate'')
      else if formGet form ''audience'' \<noteq> tx_Audience tx
      then Inl (writeOAuthError StatusBadRequest ''invalid_target'' ''audience is not accepted'')
      else if SSHConnectScope \<notin> set (Go_Strings.fields (formGet form ''scope''))
      then Inl (writeOAuthError StatusBadRequest ''invalid_scope'' ''ssh:connect scope is required'')
      else if trimSpace (formGet form ''key_id'') = []
      then Inl (writeOAuthError StatusBadRequest ''invalid_request'' ''key_id is required'')
      else Inr (trimSpace (formGet form ''key_id'')))"

text \<open>The answer once the key of the caller is known, and once the caller is known.\<close>

definition issueFor :: "server_env \<Rightarrow> tokenExchange \<Rightarrow> string \<Rightarrow> Principal \<Rightarrow> PublicKey \<Rightarrow> response" where
  "issueFor se tx keyName caller publicKey =
     (case Issue (lib_ssh (se_libs se)) (se_serial se) (se_nonce se) (se_now se) (tx_Issuer tx) (pr_Identity caller) keyName
             (Some publicKey) \<lparr>sj_Issuer = pr_Issuer caller, sj_Subject = pr_Subject caller\<rparr> of
        Inl _ \<Rightarrow> writeOAuthError StatusInternalServerError ''server_error'' ''SSH certificate issuance failed''
      | Inr certificate \<Rightarrow>
          writeJSON noStore StatusOK
            (TokenBody \<lparr>te_AccessToken = trimSpace (MarshalAuthorizedKey (lib_ssh (se_libs se)) certificate),
               te_IssuedTokenType = SSHCertificateTokenType, te_TokenType = ''N_A'',
               te_ExpiresIn = Lifetime (tx_Issuer tx) div Second\<rparr>))"

definition registeredKey :: "server_env \<Rightarrow> tokenExchange \<Rightarrow> string \<Rightarrow> Principal \<Rightarrow> string fs \<Rightarrow> store_err + PublicKey" where
  "registeredKey se tx keyName caller fs =
     storePublicKey (se_libs se) (se_yaml se) (se_os se) (tx_Store tx) (tx_Namespace tx)
       (ResourceName (lib_k8s (se_libs se)) (lib_lower (se_libs se)) (pr_Identity caller)) keyName caller fs"

definition exchangeFor :: "server_env \<Rightarrow> tokenExchange \<Rightarrow> string \<Rightarrow> authn_err + Principal \<Rightarrow> string fs \<Rightarrow> response" where
  "exchangeFor se tx keyName authenticated fs =
     (case authenticated of
        Inl _ \<Rightarrow> writeOAuthError StatusBadRequest ''invalid_grant'' ''subject_token is invalid''
      | Inr caller \<Rightarrow>
          if pr_Method caller \<noteq> MethodOIDC then writeOAuthError StatusBadRequest ''invalid_grant'' ''subject_token is invalid''
          else (case registeredKey se tx keyName caller fs of
              Inl e \<Rightarrow>
                if e = ErrForbidden then writeOAuthError StatusBadRequest ''invalid_target'' ''registration is not owned by the subject''
                else writeOAuthError StatusBadRequest ''invalid_request'' ''registered key was not found''
            | Inr publicKey \<Rightarrow> issueFor se tx keyName caller publicKey))"

definition handleTokenExchange :: "server_env \<Rightarrow> tokenExchange \<Rightarrow> HttpRequest \<Rightarrow> string fs \<Rightarrow> response" where
  "handleTokenExchange se tx rq fs =
     (if parseMediaType (lib_lower (se_libs se)) (rq_ContentType rq) \<noteq> Some ''application/x-www-form-urlencoded''
      then writeOAuthError StatusUnsupportedMediaType ''invalid_request'' ''Content-Type must be application/x-www-form-urlencoded''
      else case postForm maximumTokenExchangeBodySize rq of
        None \<Rightarrow> writeOAuthError StatusBadRequest ''invalid_request'' ''invalid form body''
      | Some form \<Rightarrow>
          (case checkExchangeForm tx form of
             Inl r \<Rightarrow> r
           | Inr keyName \<Rightarrow> exchangeFor se tx keyName (httpAuthenticate (tx_Authenticator tx) (formGet form ''subject_token'')) fs))"

datatype parse_cert_err = CertParse | CertTrailing | NotUserCertificate

definition parseSSHCertificate :: "ssh_lib \<Rightarrow> string \<Rightarrow> parse_cert_err + PublicKey" where
  "parseSSHCertificate L encoded =
     (case ParseAuthorizedKey L encoded of
        None \<Rightarrow> Inl CertParse
      | Some (k, rest) \<Rightarrow>
          if trimSpace rest \<noteq> [] then Inl CertTrailing
          else if \<not> isCertificate k \<or> cert_CertType k \<noteq> UserCert then Inl NotUserCertificate
          else Inr k)"

section \<open>The handler\<close>

record HandlerOptions =
  ho_Authenticator :: "httpAuthenticator option"
  ho_Configuration :: Configuration
  ho_TokenExchange :: "tokenExchange option"

datatype endpoint = Health | Discovery | Exchange tokenExchange | PutEndpoint | GetEndpoint

definition registrationPath :: "segment list" where
  "registrationPath = [Lit ''apis'', Lit Group, Lit Version, Lit ''namespaces'', Wild ''namespace'', Lit UserRegistrationResource, Wild ''name'']"

definition routes :: "HandlerOptions \<Rightarrow> (string \<times> segment list \<times> endpoint) list" where
  "routes options =
     [(''GET'', [Lit ''healthz''], Health), (''GET'', [Lit ''readyz''], Health),
      (''GET'', [Lit ''.well-known'', Lit ''tearenv-configuration''], Discovery)] @
     (case ho_TokenExchange options of None \<Rightarrow> [] | Some tx \<Rightarrow> [(''POST'', [Lit ''oauth'', Lit ''token''], Exchange tx)]) @
     [(''PUT'', registrationPath, PutEndpoint), (''GET'', registrationPath, GetEndpoint)]"

definition redirect :: response where
  "redirect = \<lparr>rs_Status = 307, rs_Header = [], rs_Body = TextBody []\<rparr>"

definition NewHandlerWithOptions :: "server_env \<Rightarrow> Store \<Rightarrow> HandlerOptions \<Rightarrow> HttpRequest \<Rightarrow> string fs \<Rightarrow> string fs \<times> response" where
  "NewHandlerWithOptions se store options rq fs =
     (let a = (case ho_Authenticator options of None \<Rightarrow> AnonymousAuth | Some a \<Rightarrow> a);
          configuration = normalized (ho_Configuration options)
      in case serveMux (routes options) rq of
        Handled Health _ \<Rightarrow> (fs, health)
      | Handled Discovery _ \<Rightarrow> (fs, writeJSON [] StatusOK (ConfigurationBody configuration))
      | Handled (Exchange tx) _ \<Rightarrow> (fs, handleTokenExchange se tx rq fs)
      | Handled PutEndpoint vs \<Rightarrow>
          (case authorize a rq of
             Inl r \<Rightarrow> (fs, r)
           | Inr caller \<Rightarrow> putRegistration se store rq (formGet vs ''namespace'') (formGet vs ''name'') caller fs)
      | Handled GetEndpoint vs \<Rightarrow>
          (case authorize a rq of
             Inl r \<Rightarrow> (fs, r)
           | Inr caller \<Rightarrow> (fs, getRegistration se store (formGet vs ''namespace'') (formGet vs ''name'') caller fs))
      | NoRoute \<Rightarrow> (fs, httpError (TextBody ''404 page not found'') StatusNotFound)
      | WrongMethod \<Rightarrow> (fs, httpError (TextBody ''Method Not Allowed'') StatusMethodNotAllowed)
      | Redirected \<Rightarrow> (fs, redirect))"

definition NewHandler :: "server_env \<Rightarrow> Store \<Rightarrow> string \<Rightarrow> HttpRequest \<Rightarrow> string fs \<Rightarrow> string fs \<times> response" where
  "NewHandler se store bearerToken =
     (let static = (case NewStaticToken bearerToken of Inl _ \<Rightarrow> None | Inr a \<Rightarrow> Some (StaticAuth a));
          shared = (trimSpace bearerToken \<noteq> [])
      in NewHandlerWithOptions se store
        \<lparr>ho_Authenticator = (if shared then static else Some AnonymousAuth),
         ho_Configuration = \<lparr>cf_Mode = (if shared then MethodToken else MethodAnonymous), cf_TokenEndpoint = [], cf_OIDC = None\<rparr>,
         ho_TokenExchange = None\<rparr>)"

section \<open>Properties\<close>

lemma statuses_differ: "rs_Status (httpError b s) = s" "rs_Status (writeOAuthError s c d) = s"
  by (auto simp: httpError_def writeOAuthError_def writeJSON_def)

lemma checkExchangeForm_Inl: "checkExchangeForm tx form = Inl r \<Longrightarrow> rs_Status r = StatusBadRequest"
  by (auto simp: checkExchangeForm_def statuses_differ split: if_splits)

lemma checkExchangeForm_Inr:
  "checkExchangeForm tx form = Inr k \<Longrightarrow> formGet form ''audience'' = tx_Audience tx \<and> formGet form ''subject_token_type'' = tx_SubjectTokenType tx \<and>
     SSHConnectScope \<in> set (Go_Strings.fields (formGet form ''scope'')) \<and> k = trimSpace (formGet form ''key_id'') \<and> k \<noteq> []"
  by (auto simp: checkExchangeForm_def split: if_splits)

definition tokenFor :: "server_env \<Rightarrow> tokenExchange \<Rightarrow> PublicKey \<Rightarrow> body" where
  "tokenFor se tx c = TokenBody \<lparr>te_AccessToken = trimSpace (MarshalAuthorizedKey (lib_ssh (se_libs se)) c),
     te_IssuedTokenType = SSHCertificateTokenType, te_TokenType = ''N_A'', te_ExpiresIn = Lifetime (tx_Issuer tx) div Second\<rparr>"

lemma issueFor_OK:
  assumes "rs_Status (issueFor se tx keyName caller key) = StatusOK"
  shows "\<exists>c. Issue (lib_ssh (se_libs se)) (se_serial se) (se_nonce se) (se_now se) (tx_Issuer tx) (pr_Identity caller) keyName (Some key)
       \<lparr>sj_Issuer = pr_Issuer caller, sj_Subject = pr_Subject caller\<rparr> = Inr c \<and> rs_Body (issueFor se tx keyName caller key) = tokenFor se tx c"
  using assms by (auto simp: issueFor_def writeJSON_def tokenFor_def statuses_differ status_defs split: sum.splits)

lemma exchangeFor_OK:
  assumes "rs_Status (exchangeFor se tx keyName a fs) = StatusOK"
  shows "\<exists>caller key. a = Inr caller \<and> pr_Method caller = MethodOIDC \<and> registeredKey se tx keyName caller fs = Inr key \<and>
    exchangeFor se tx keyName a fs = issueFor se tx keyName caller key"
  using assms by (auto simp: exchangeFor_def statuses_differ status_defs split: sum.splits if_splits)

lemma handleTokenExchange_OK:
  assumes "rs_Status (handleTokenExchange se tx rq fs) = StatusOK"
  shows "\<exists>form keyName. postForm maximumTokenExchangeBodySize rq = Some form \<and> checkExchangeForm tx form = Inr keyName \<and>
    handleTokenExchange se tx rq fs = exchangeFor se tx keyName (httpAuthenticate (tx_Authenticator tx) (formGet form ''subject_token'')) fs"
  using assms checkExchangeForm_Inl
  by (auto simp: handleTokenExchange_def statuses_differ status_defs split: option.splits sum.splits if_splits)

lemma storePublicKey_Inr:
  assumes "storePublicKey lb Y env store ns n keyName caller fs = Inr key" "pr_Method caller = MethodOIDC"
  shows "\<exists>r. stored lb Y store fs ns n = Inr r \<and> registrationOwnedBy r caller \<and> Accepted (lib_k8s lb) r \<and>
    storedKey (lib_ssh lb) keyName (sp_PublicKeys (ur_Spec r)) = Inr key"
proof (cases "getUnlocked lb Y env store ns n fs")
  case (Inl e)
  with assms show ?thesis by (simp add: storePublicKey_def GetAs_def)
next
  case (Inr r)
  with assms have "registrationOwnedBy r caller" "Accepted (lib_k8s lb) r"
    "storedKey (lib_ssh lb) keyName (sp_PublicKeys (ur_Spec r)) = Inr key"
    by (simp_all add: storePublicKey_def GetAs_def split: if_splits)
  with getUnlocked_stored(1) [OF Inr] show ?thesis by blast
qed

lemma storedKey_Inr:
  "storedKey L keyName ks = Inr key \<Longrightarrow> \<exists>k rest. k \<in> set ks \<and> pk_Name k = keyName \<and> ParseAuthorizedKey L (pk_Key k) = Some (key, rest) \<and> trimSpace rest = []"
  by (induction ks) (auto split: if_splits option.splits)

text \<open>
  Claim C22.  The exchange hands out a certificate only to an OIDC caller for the configured audience and
  the scope ssh:connect, and only for a key that an accepted registration lists, which is stored under
  the caller's own derived name and is owned by the caller's issuer and subject.  The certificate
  names the caller's identity as its only principal, carries that key, is signed by the configured
  authority and expires within the hour.
\<close>

theorem token_exchange_sound:
  assumes "documented_SignCert (lib_ssh (se_libs se))" "NewIssuer signer ttl skew = Inr (tx_Issuer tx)" "issuableTime (tx_Issuer tx) (se_now se)"
    and "rs_Status (handleTokenExchange se tx rq fs) = StatusOK"
  shows "\<exists>form caller r k rest c.
    postForm maximumTokenExchangeBodySize rq = Some form \<and> formGet form ''audience'' = tx_Audience tx \<and>
    SSHConnectScope \<in> set (Go_Strings.fields (formGet form ''scope'')) \<and>
    httpAuthenticate (tx_Authenticator tx) (formGet form ''subject_token'') = Inr caller \<and> pr_Method caller = MethodOIDC \<and>
    stored (se_libs se) (se_yaml se) (tx_Store tx) fs (tx_Namespace tx)
      (ResourceName (lib_k8s (se_libs se)) (lib_lower (se_libs se)) (pr_Identity caller)) = Inr r \<and>
    registrationOwnedBy r caller \<and> Accepted (lib_k8s (se_libs se)) r \<and>
    k \<in> set (sp_PublicKeys (ur_Spec r)) \<and> pk_Name k = trimSpace (formGet form ''key_id'') \<and>
    ParseAuthorizedKey (lib_ssh (se_libs se)) (pk_Key k) = Some (cert_Key c, rest) \<and>
    isCertificate c \<and> cert_ValidPrincipals c = [pr_Identity caller] \<and> signatureVerifies (lib_ssh (se_libs se)) c \<and>
    cert_SignatureKey c = Some (issuerPublicKey (lib_ssh (se_libs se)) (tx_Issuer tx)) \<and>
    uint (cert_ValidBefore c) * Second \<le> se_now se + Hour \<and>
    rs_Body (handleTokenExchange se tx rq fs) =
      TokenBody \<lparr>te_AccessToken = trimSpace (MarshalAuthorizedKey (lib_ssh (se_libs se)) c),
        te_IssuedTokenType = SSHCertificateTokenType, te_TokenType = ''N_A'', te_ExpiresIn = Lifetime (tx_Issuer tx) div Second\<rparr>"
proof -
  obtain form keyName where f0: "postForm maximumTokenExchangeBodySize rq = Some form" "checkExchangeForm tx form = Inr keyName"
    "handleTokenExchange se tx rq fs = exchangeFor se tx keyName (httpAuthenticate (tx_Authenticator tx) (formGet form ''subject_token'')) fs"
    using handleTokenExchange_OK [OF assms(4)] by blast
  obtain caller key where f1: "httpAuthenticate (tx_Authenticator tx) (formGet form ''subject_token'') = Inr caller" "pr_Method caller = MethodOIDC"
    "registeredKey se tx keyName caller fs = Inr key"
    "exchangeFor se tx keyName (httpAuthenticate (tx_Authenticator tx) (formGet form ''subject_token'')) fs = issueFor se tx keyName caller key"
    using exchangeFor_OK [OF assms(4) [unfolded f0(3)]] by blast
  obtain c where f2: "Issue (lib_ssh (se_libs se)) (se_serial se) (se_nonce se) (se_now se) (tx_Issuer tx) (pr_Identity caller) keyName (Some key)
       \<lparr>sj_Issuer = pr_Issuer caller, sj_Subject = pr_Subject caller\<rparr> = Inr c" "rs_Body (issueFor se tx keyName caller key) = tokenFor se tx c"
    using issueFor_OK [OF assms(4) [unfolded f0(3) f1(4)]] by blast
  note h = f0(1,2) f1(1,2) f1(3) [unfolded registeredKey_def] f2(1) f2(2) [folded f1(4), folded f0(3), unfolded tokenFor_def]
  obtain r where r: "stored (se_libs se) (se_yaml se) (tx_Store tx) fs (tx_Namespace tx)
      (ResourceName (lib_k8s (se_libs se)) (lib_lower (se_libs se)) (pr_Identity caller)) = Inr r" "registrationOwnedBy r caller"
      "Accepted (lib_k8s (se_libs se)) r" "storedKey (lib_ssh (se_libs se)) keyName (sp_PublicKeys (ur_Spec r)) = Inr key"
    using storePublicKey_Inr [OF h(5,4)] by blast
  obtain k rest where k: "k \<in> set (sp_PublicKeys (ur_Spec r))" "pk_Name k = keyName"
    "ParseAuthorizedKey (lib_ssh (se_libs se)) (pk_Key k) = Some (key, rest)" using storedKey_Inr [OF r(4)] by blast
  obtain b sig where c: "c = signedWith (se_nonce se) (issuerPublicKey (lib_ssh (se_libs se)) (tx_Issuer tx)) sig
      (unsignedCertificate (tx_Issuer tx) (se_now se) b (pr_Identity caller) keyName key
        \<lparr>sj_Issuer = pr_Issuer caller, sj_Subject = pr_Subject caller\<rparr>)" "signatureVerifies (lib_ssh (se_libs se)) c"
    using Issue_Inr [OF assms(1) h(6)] by blast
  have f: "isCertificate c" "cert_ValidPrincipals c = [pr_Identity caller]" "cert_Key c = key"
    "cert_SignatureKey c = Some (issuerPublicKey (lib_ssh (se_libs se)) (tx_Issuer tx))"
    using c(1) by (simp_all add: unsignedCertificate_def)
  have "uint (cert_ValidBefore c) = (se_now se + is_ttl (tx_Issuer tx)) div Second"
    using unsigned_window(2) [OF conjunct1 [OF NewIssuer_wf [OF assms(2)]] assms(3)] c(1) by simp
  moreover have "is_ttl (tx_Issuer tx) \<le> Hour" using NewIssuer_wf [OF assms(2)] by (simp add: wf_Issuer_def)
  moreover have "(se_now se + is_ttl (tx_Issuer tx)) div Second * Second \<le> se_now se + is_ttl (tx_Issuer tx)"
    unfolding Second_def by linarith
  ultimately have t: "uint (cert_ValidBefore c) * Second \<le> se_now se + Hour" by simp
  note ch = checkExchangeForm_Inr [OF h(2)]
  show ?thesis
    by (rule exI [of _ form], rule exI [of _ caller], rule exI [of _ r], rule exI [of _ k], rule exI [of _ rest], rule exI [of _ c])
      (use h r k c(2) f t ch in simp)
qed

definition demoExchange :: tokenExchange where
  "demoExchange = \<lparr>tx_Authenticator = OIDCAuth demoOIDC, tx_Store = demoStore, tx_Issuer = demoIssuer, tx_Namespace = ''default'',
     tx_Audience = ''tearenv'', tx_SubjectTokenType = SubjectTokenTypeAccessToken\<rparr>"

definition demoForm :: "(string \<times> string) list" where
  "demoForm = [(''grant_type'', TokenExchangeGrantType), (''subject_token_type'', SubjectTokenTypeAccessToken), (''subject_token'', demoToken),
     (''requested_token_type'', SSHCertificateTokenType), (''audience'', ''tearenv''), (''scope'', ''openid ssh:connect''), (''key_id'', ''laptop'')]"

definition demoBody :: string where
  "demoBody = concat (map (\<lambda>(k, v). k @ ''='' @ map (\<lambda>c. if c = CHR '' '' then CHR ''+'' else c) v @ ''&'') demoForm)"

definition demoRequest :: HttpRequest where
  "demoRequest = \<lparr>rq_Method = ''POST'', rq_Path = ''/oauth/token'', rq_RawQuery = [], rq_ContentType = ''application/x-www-form-urlencoded; charset=utf-8'',
     rq_Authorization = [], rq_Body = demoBody, rq_BodyFails = False\<rparr>"

definition demoEnv :: server_env where
  "demoEnv = \<lparr>se_libs = demoLibs, se_yaml = demoStoreYaml, se_os = noFaults, se_random = Some demoRandom, se_serial = Some ''12345678'',
     se_nonce = ''n'', se_now = 1000000 * Second\<rparr>"

lemma demoBody_parts:
  "queryPairs (splitChar demoBody (CHR ''&'')) = Some demoForm" "countOf demoBody ''&'' < 10" "length demoBody < 600"
  by code_simp+

lemma demoRequest_form:
  "parseMediaType (lib_lower (se_libs demoEnv)) (rq_ContentType demoRequest) = Some ''application/x-www-form-urlencoded''"
  "postForm maximumTokenExchangeBodySize demoRequest = Some demoForm"
  "checkExchangeForm demoExchange demoForm = Inr ''laptop''"
  "formGet demoForm ''subject_token'' = demoToken" "tx_Authenticator demoExchange = OIDCAuth demoOIDC" "pr_Method demoPrincipal = MethodOIDC"
  "registeredKey demoEnv demoExchange ''laptop'' demoPrincipal (fst demoPut) = Inr demoKey"
proof -
  show "parseMediaType (lib_lower (se_libs demoEnv)) (rq_ContentType demoRequest) = Some ''application/x-www-form-urlencoded''" by code_simp
  have "countOf [] ''&'' = 0" "queryPairs (splitChar [] (CHR ''&'')) = Some []" by code_simp+
  with demoBody_parts show "postForm maximumTokenExchangeBodySize demoRequest = Some demoForm"
    by (simp add: postForm_def parseQuery_def demoRequest_def maximumTokenExchangeBodySize_def maxQueryParams_def)
  show "checkExchangeForm demoExchange demoForm = Inr ''laptop''" by code_simp
  show "formGet demoForm ''subject_token'' = demoToken" by (simp add: formGet_def demoForm_def)
  show "tx_Authenticator demoExchange = OIDCAuth demoOIDC" by (simp add: demoExchange_def)
  show "pr_Method demoPrincipal = MethodOIDC" by (simp add: demoPrincipal_def)
  show "registeredKey demoEnv demoExchange ''laptop'' demoPrincipal (fst demoPut) = Inr demoKey" by code_simp
qed

lemma demoExchange_OK: "rs_Status (handleTokenExchange demoEnv demoExchange demoRequest (fst demoPut)) = StatusOK"
proof -
  have "trimSpace (pr_Identity demoPrincipal) \<noteq> []" "trimSpace ''laptop'' \<noteq> []" by code_simp+
  then have "rs_Status (issueFor demoEnv demoExchange ''laptop'' demoPrincipal demoKey) = StatusOK"
    by (simp add: issueFor_def Issue_def demoEnv_def demoLibs_def demoSsh_def writeJSON_def)
  with demoRequest_form demoOIDC_login show ?thesis
    by (simp add: handleTokenExchange_def exchangeFor_def)
qed

theorem token_exchange_sound_witness:
  "\<exists>c. rs_Body (handleTokenExchange demoEnv demoExchange demoRequest (fst demoPut)) = tokenFor demoEnv demoExchange c \<and>
     cert_ValidPrincipals c = [''ada''] \<and> uint (cert_ValidBefore c) * Second \<le> 1000000 * Second + Hour"
proof -
  have d: "documented_SignCert (lib_ssh (se_libs demoEnv))" by (simp add: demoEnv_def demoLibs_def demoSsh_SignCert)
  have n: "NewIssuer (Some ''ca'') 0 Minute = Inr (tx_Issuer demoExchange)" by code_simp
  have t: "issuableTime (tx_Issuer demoExchange) (se_now demoEnv)" by code_simp
  have e: "se_now demoEnv = 1000000 * Second" "pr_Identity demoPrincipal = ''ada''" by (simp_all add: demoEnv_def demoPrincipal_def)
  from token_exchange_sound [OF d n t demoExchange_OK] demoRequest_form(2,4,5) demoOIDC_login e show ?thesis
    unfolding tokenFor_def by auto
qed

lemma PutAs_writes:
  assumes "PutAs lb Y rnd now env store r caller fs = (fs', res)" "fs' \<noteq> fs"
  shows "validRegistration lb r \<and> (pr_Method caller = MethodOIDC \<longrightarrow> pr_Identity caller = sp_Identity (ur_Spec r))"
  using assms by (auto simp: PutAs_def validRegistration_def split: option.splits if_splits)

lemma putRegistration_writes:
  assumes "putRegistration se store rq ns n caller fs = (fs', resp)" "fs' \<noteq> fs"
  shows "\<exists>r. LoadUserRegistration (se_libs se) (se_yaml se) (rq_Body rq) = Inr r \<and> ur_Namespace r = ns \<and> ur_Name r = n \<and>
    validRegistration (se_libs se) r \<and> (pr_Method caller = MethodOIDC \<longrightarrow> pr_Identity caller = sp_Identity (ur_Spec r))"
proof (cases "LoadUserRegistration (se_libs se) (se_yaml se) (rq_Body rq)")
  case (Inl e)
  with assms show ?thesis by (simp add: putRegistration_def Let_def split: if_splits)
next
  case (Inr r)
  obtain fs1 res where p: "PutAs (se_libs se) (se_yaml se) (se_random se) (se_now se) (se_os se) store r caller fs = (fs1, res)"
    by (cases "PutAs (se_libs se) (se_yaml se) (se_random se) (se_now se) (se_os se) store r caller fs")
  from assms Inr p have "fs1 = fs'" "ur_Namespace r = ns" "ur_Name r = n"
    by (auto simp: putRegistration_def Let_def split: if_splits sum.splits)
  with PutAs_writes [OF p] assms(2) Inr show ?thesis by blast
qed

lemma firstRoute_Handled:
  "firstRoute rs m segs other = Handled h vs \<Longrightarrow> \<exists>pm pat. (pm, pat, h) \<in> set rs \<and> matchSegments pat segs = Some vs \<and> methodMatches pm m"
proof (induction rs arbitrary: other)
  case (Cons r rs)
  obtain pm pat h' where r: "r = (pm, pat, h')" by (cases r)
  show ?case
  proof (cases "matchSegments pat segs")
    case None
    with Cons.prems r have "firstRoute rs m segs other = Handled h vs" by simp
    from Cons.IH [OF this] show ?thesis by auto
  next
    case (Some vs')
    show ?thesis
    proof (cases "methodMatches pm m")
      case True
      with Cons.prems r Some show ?thesis by auto
    next
      case False
      with Cons.prems Cons.IH [of True] r Some show ?thesis by auto
    qed
  qed
qed (simp split: if_splits)

lemma route_put:
  assumes "serveMux (routes options) rq = Handled PutEndpoint vs"
  shows "rq_Method rq = ''PUT''" "matchSegments registrationPath (splitChar (tl (rq_Path rq)) (CHR ''/'')) = Some vs"
proof -
  have "firstRoute (routes options) (rq_Method rq) (splitChar (tl (rq_Path rq)) (CHR ''/'')) False = Handled PutEndpoint vs"
    using assms by (simp add: serveMux_def split: if_splits)
  from firstRoute_Handled [OF this] show "rq_Method rq = ''PUT''"
    "matchSegments registrationPath (splitChar (tl (rq_Path rq)) (CHR ''/'')) = Some vs"
    by (auto simp: routes_def methodMatches_def split: option.splits)
qed

lemma matchSegments_keys: "matchSegments ps ss = Some vs \<Longrightarrow> map fst vs = concat (map (\<lambda>p. case p of Lit _ \<Rightarrow> [] | Wild w \<Rightarrow> [w]) ps)"
  by (induction ps ss arbitrary: vs rule: matchSegments.induct) (auto split: if_splits option.splits)

lemma registrationPath_values:
  "matchSegments registrationPath ss = Some vs \<Longrightarrow> vs = [(''namespace'', formGet vs ''namespace''), (''name'', formGet vs ''name'')]"
  using matchSegments_keys [of registrationPath ss vs] by (auto simp: registrationPath_def formGet_def map_eq_Cons_conv)


definition demoPutRequest :: HttpRequest where
  "demoPutRequest = \<lparr>rq_Method = ''PUT'', rq_Path = ''/apis/tearenv.io/v1alpha1/namespaces/default/userregistrations/ada'', rq_RawQuery = [],
     rq_ContentType = ''application/json'', rq_Authorization = ''Bearer '' @ demoToken, rq_Body = ''request'', rq_BodyFails = False\<rparr>"

definition demoApiYaml :: "UserRegistration yaml_lib" where
  "demoApiYaml = demoStoreYaml\<lparr>yamlUnmarshalStrict := \<lambda>s. if s = ''request'' then Some demoRegistration else if s = ''doc'' then Some demoStored else None\<rparr>"

definition demoOptions :: HandlerOptions where
  "demoOptions = \<lparr>ho_Authenticator = Some (OIDCAuth demoOIDC), ho_Configuration = \<lparr>cf_Mode = MethodOIDC, cf_TokenEndpoint = [], cf_OIDC = None\<rparr>,
     ho_TokenExchange = Some demoExchange\<rparr>"

definition demoApiEnv :: server_env where
  "demoApiEnv = demoEnv\<lparr>se_yaml := demoApiYaml, se_now := 0\<rparr>"

definition demoServe :: "string fs \<times> response" where
  "demoServe = NewHandlerWithOptions demoApiEnv demoStore demoOptions demoPutRequest []"

lemma demoServe_steps:
  "case serveMux (routes demoOptions) demoPutRequest of Handled PutEndpoint vs \<Rightarrow> vs = [(''namespace'', ''default''), (''name'', ''ada'')] | _ \<Rightarrow> False"
  "authorize (OIDCAuth demoOIDC) demoPutRequest = Inr demoPrincipal"
  "LoadUserRegistration (se_libs demoApiEnv) (se_yaml demoApiEnv) (rq_Body demoPutRequest) = Inr demoRegistration"
  "snd (PutAs (se_libs demoApiEnv) (se_yaml demoApiEnv) (se_random demoApiEnv) (se_now demoApiEnv) (se_os demoApiEnv) demoStore
     demoRegistration demoPrincipal []) = Inr (demoStored, True)"
  "fst (PutAs (se_libs demoApiEnv) (se_yaml demoApiEnv) (se_random demoApiEnv) (se_now demoApiEnv) (se_os demoApiEnv) demoStore
     demoRegistration demoPrincipal []) \<noteq> []"
  "trimSpace (hd (splitChar (rq_ContentType demoPutRequest) (CHR '';''))) = ''application/json''"
  by code_simp+

lemma demoServe_created: "fst demoServe \<noteq> []" "rs_Status (snd demoServe) = 201"
proof -
  obtain fs1 where p: "PutAs (se_libs demoApiEnv) (se_yaml demoApiEnv) (se_random demoApiEnv) (se_now demoApiEnv) (se_os demoApiEnv) demoStore
     demoRegistration demoPrincipal [] = (fs1, Inr (demoStored, True))" "fs1 \<noteq> []"
    using demoServe_steps(4,5) by (metis prod.collapse)
  have m: "serveMux (routes demoOptions) demoPutRequest = Handled PutEndpoint [(''namespace'', ''default''), (''name'', ''ada'')]"
    using demoServe_steps(1) by (auto split: routed.splits endpoint.splits)
  have e: "demoServe = (fs1, writeRegistration StatusCreated demoStored)"
    using m demoServe_steps(2,3,6) p
    by (simp add: demoServe_def NewHandlerWithOptions_def demoOptions_def putRegistration_def formGet_def requestBodyLimit_def
        demoPutRequest_def demoRegistration_def)
  show "fst demoServe \<noteq> []" using p(2) by (simp add: e)
  show "rs_Status (snd demoServe) = 201" by (simp add: e writeRegistration_def writeJSON_def StatusCreated_def)
qed


end
