(* ===== verification/Server.thy ===== *)
theory Server
  imports Authorization Lifecycle
begin

text \<open>
  The SSH server (\<open>internal/server/server.go\<close>, \<open>service.go\<close>, \<open>enrollment.go\<close>,
  \<open>authentication_expiry.go\<close>, \<open>hostkey.go\<close>, the counters of \<open>metrics.go\<close>, and
  \<open>internal/protocol\<close>): the handlers the SSH library calls for one connection.  A connection keeps
  the user name, what its login left in the context and whether it has been closed; a handler takes
  and returns it together with the server's counters and the environments it had provisioned.  The
  authenticator, enrollment, provisioner and gateway enter as the answers they give.
\<close>

section \<open>Protocol\<close>

definition EnrollRequestType :: string where "EnrollRequestType = ''tearenv-enroll''"
definition ServicesRequestType :: string where "ServicesRequestType = ''tearenv-services''"
definition enrollmentPrefix :: string where "enrollmentPrefix = ''enroll:''"

record ProtocolService =
  ps_Name :: string
  ps_LocalPort :: int

definition EnrollmentUser :: "string \<Rightarrow> string" where
  "EnrollmentUser identity = enrollmentPrefix @ identity"

definition EnrollmentIdentity :: "string \<Rightarrow> string option" where
  "EnrollmentIdentity user =
     (case cutPrefix user enrollmentPrefix of
        None \<Rightarrow> None
      | Some identity \<Rightarrow> if identity \<noteq> [] then Some identity else None)"

section \<open>Counters\<close>

datatype metric_result = MetricSuccess | MetricError | MetricRejected

record ServerMetrics =
  sm_ready :: int
  sm_authenticationAttempts :: "Method \<Rightarrow> metric_result \<Rightarrow> nat"
  sm_handshakeFailures :: nat
  sm_catalogRequests :: "metric_result \<Rightarrow> nat"
  sm_environmentProvisions :: "metric_result \<Rightarrow> nat"

record serverState =
  sv_metrics :: "ServerMetrics option"
  sv_provisions :: "(string \<times> bool) list"

definition onServerMetrics :: "(ServerMetrics \<Rightarrow> ServerMetrics) \<Rightarrow> serverState \<Rightarrow> serverState" where
  "onServerMetrics f sv = sv\<lparr>sv_metrics := map_option f (sv_metrics sv)\<rparr>"

definition SetReady :: "bool \<Rightarrow> serverState \<Rightarrow> serverState" where
  "SetReady ready = onServerMetrics (\<lambda>m. m\<lparr>sm_ready := (if ready then 1 else 0)\<rparr>)"

definition observeAuthentication :: "Method \<Rightarrow> metric_result \<Rightarrow> serverState \<Rightarrow> serverState" where
  "observeAuthentication method res = onServerMetrics (\<lambda>m. m\<lparr>sm_authenticationAttempts :=
     (sm_authenticationAttempts m)(method := (sm_authenticationAttempts m method)(res := sm_authenticationAttempts m method res + 1))\<rparr>)"

definition observeHandshakeFailure :: "serverState \<Rightarrow> serverState" where
  "observeHandshakeFailure = onServerMetrics (\<lambda>m. m\<lparr>sm_handshakeFailures := sm_handshakeFailures m + 1\<rparr>)"

definition observeCatalog :: "metric_result \<Rightarrow> serverState \<Rightarrow> serverState" where
  "observeCatalog res = onServerMetrics (\<lambda>m. m\<lparr>sm_catalogRequests := (sm_catalogRequests m)(res := sm_catalogRequests m res + 1)\<rparr>)"

definition observeEnvironmentProvision :: "metric_result \<Rightarrow> serverState \<Rightarrow> serverState" where
  "observeEnvironmentProvision res = onServerMetrics (\<lambda>m. m\<lparr>sm_environmentProvisions :=
     (sm_environmentProvisions m)(res := sm_environmentProvisions m res + 1)\<rparr>)"

text \<open>The collectors of \<open>NewMetrics\<close>, in registration order: full name and labels.\<close>

definition collectors :: "(string \<times> string list) list" where
  "collectors =
     [(''tearenv_daemon_ready'', []),
      (''tearenv_ssh_authentication_attempts_total'', [''method'', ''result'']),
      (''tearenv_ssh_handshake_failures_total'', []),
      (''tearenv_engine_service_catalog_requests_total'', [''result'']),
      (''tearenv_engine_environment_provision_attempts_total'', [''result'']),
      (''tearenv_engine_environment_provision_duration_seconds'', [''result'']),
      (''tearenv_engine_service_open_attempts_total'', [''service_type'', ''result'']),
      (''tearenv_engine_service_open_duration_seconds'', [''service_type'', ''result'']),
      (''tearenv_engine_active_connections'', [''service_type'']),
      (''tearenv_engine_scale_operations_total'', [''direction'', ''result'']),
      (''tearenv_engine_scale_operation_duration_seconds'', [''direction'', ''result'']),
      (''tearenv_engine_managed_workloads'', [])]"

definition zeroServerMetrics :: ServerMetrics where
  "zeroServerMetrics = \<lparr>sm_ready = 0, sm_authenticationAttempts = \<lambda>_ _. 0, sm_handshakeFailures = 0,
     sm_catalogRequests = \<lambda>_. 0, sm_environmentProvisions = \<lambda>_. 0\<rparr>"

text \<open>Registration stops at the first collector the registerer refuses.\<close>

definition NewMetrics :: "(string \<times> string list \<Rightarrow> bool) \<Rightarrow> string + (ServerMetrics \<times> Metrics)" where
  "NewMetrics registers =
     (case find (\<lambda>c. \<not> registers c) collectors of
        Some (name, _) \<Rightarrow> Inl name
      | None \<Rightarrow> Inr (zeroServerMetrics, zero_Metrics))"

section \<open>Connections\<close>

text \<open>
  \<open>cx_established\<close>: the handshake is over and the context knows the connection.  \<open>cx_timer\<close> is the
  deadline of the close timer, once it has been started.  Times are in nanoseconds.
\<close>

record connection =
  cx_User :: string
  cx_expiry :: "int option"
  cx_enrollment :: "(string \<times> string) option"
  cx_established :: bool
  cx_timer :: "int option"
  cx_closed :: bool

definition enforceAuthenticationExpiry :: "int \<Rightarrow> connection \<Rightarrow> connection \<times> bool" where
  "enforceAuthenticationExpiry now cx =
     (case cx_expiry cx of
        None \<Rightarrow> (cx, True)
      | Some validBefore \<Rightarrow>
          if \<not> cx_established cx \<or> \<not> now < validBefore
          then (if cx_established cx then cx\<lparr>cx_closed := True\<rparr> else cx, False)
          else (case cx_timer cx of
              None \<Rightarrow> (cx\<lparr>cx_timer := Some validBefore\<rparr>, True)
            | Some _ \<Rightarrow> (cx, True)))"

text \<open>The timer's function, and the one that runs it when the clock reaches the deadline.\<close>

definition expiryTimer :: "int \<Rightarrow> connection \<Rightarrow> connection" where
  "expiryTimer now cx =
     (case cx_timer cx of
        None \<Rightarrow> cx
      | Some deadline \<Rightarrow> if deadline \<le> now then cx\<lparr>cx_closed := True\<rparr> else cx)"

section \<open>Authentication\<close>

text \<open>
  The dependencies of the server: the authenticator's and the provisioner's answers, and the
  enrollment with its check of an invite.
\<close>

record 'e Config =
  sc_Authenticator :: "'e provider"
  sc_Invites :: "(string \<Rightarrow> string \<Rightarrow> bool) option"
  sc_Provisioner :: "(string \<Rightarrow> bool) option"

definition provisionEnvironment :: "'e Config \<Rightarrow> string \<Rightarrow> Method \<Rightarrow> serverState \<Rightarrow> serverState \<times> bool" where
  "provisionEnvironment config identity method sv =
     (case sc_Provisioner config of
        None \<Rightarrow> (sv, True)
      | Some provision \<Rightarrow>
          let sv1 = sv\<lparr>sv_provisions := sv_provisions sv @ [(identity, provision identity)]\<rparr> in
          if \<not> provision identity
          then (observeAuthentication method MetricError (observeEnvironmentProvision MetricError sv1), False)
          else (observeEnvironmentProvision MetricSuccess sv1, True))"

definition authenticateConnection :: "'e Config \<Rightarrow> Attempt \<Rightarrow> serverState \<times> connection \<Rightarrow> (serverState \<times> connection) \<times> bool" where
  "authenticateConnection config attempt = (\<lambda>(sv, cx).
     case sc_Authenticator config attempt of
       Inl _ \<Rightarrow> ((observeAuthentication (at_Method attempt) MetricError sv, cx), False)
     | Inr None \<Rightarrow> ((observeAuthentication (at_Method attempt) MetricRejected sv, cx), False)
     | Inr (Some r) \<Rightarrow>
         if res_Identity r \<noteq> at_Identity attempt
         then ((observeAuthentication (at_Method attempt) MetricRejected sv, cx), False)
         else (case provisionEnvironment config (res_Identity r) (at_Method attempt) sv of
             (sv1, False) \<Rightarrow> ((sv1, cx), False)
           | (sv1, True) \<Rightarrow>
               let cx1 = (case res_ValidBefore r of None \<Rightarrow> cx | Some t \<Rightarrow> cx\<lparr>cx_expiry := Some t, cx_timer := None\<rparr>)
               in ((observeAuthentication (at_Method attempt) MetricSuccess sv1, cx1), True)))"

definition methodEnrollment :: Method where "methodEnrollment = ''enrollment''"

definition passwordHandler :: "'e Config \<Rightarrow> string \<Rightarrow> serverState \<times> connection \<Rightarrow> (serverState \<times> connection) \<times> bool" where
  "passwordHandler config password = (\<lambda>(sv, cx).
     case EnrollmentIdentity (cx_User cx) of
       Some identity \<Rightarrow>
         if \<not> (case sc_Invites config of None \<Rightarrow> False | Some check \<Rightarrow> check identity password)
         then ((observeAuthentication methodEnrollment MetricRejected sv, cx), False)
         else (case provisionEnvironment config identity methodEnrollment sv of
             (sv1, False) \<Rightarrow> ((sv1, cx), False)
           | (sv1, True) \<Rightarrow>
               ((observeAuthentication methodEnrollment MetricSuccess sv1, cx\<lparr>cx_enrollment := Some (identity, password)\<rparr>), True))
     | None \<Rightarrow>
         authenticateConnection config
           \<lparr>at_Identity = cx_User cx, at_Method = MethodPassword, at_Password = password, at_PublicKey = None\<rparr> (sv, cx))"

definition publicKeyHandler :: "'e Config \<Rightarrow> PublicKey \<Rightarrow> serverState \<times> connection \<Rightarrow> (serverState \<times> connection) \<times> bool" where
  "publicKeyHandler config key = (\<lambda>(sv, cx).
     authenticateConnection config
       \<lparr>at_Identity = cx_User cx, at_Method = MethodPublicKey, at_Password = [], at_PublicKey = Some key\<rparr> (sv, cx))"

section \<open>Requests\<close>

datatype reply = Refused | Catalog "ProtocolService list" | EnrollResponse string

definition expiringRequestHandler :: "int \<Rightarrow> (serverState \<times> connection \<Rightarrow> (serverState \<times> connection) \<times> reply) \<Rightarrow>
    serverState \<times> connection \<Rightarrow> (serverState \<times> connection) \<times> reply" where
  "expiringRequestHandler now next = (\<lambda>(sv, cx).
     case enforceAuthenticationExpiry now cx of
       (cx1, False) \<Rightarrow> ((sv, cx1), Refused)
     | (cx1, True) \<Rightarrow> next (sv, cx1))"

definition serviceCatalogHandler :: "(string \<Rightarrow> 'g + Service list) \<Rightarrow> serverState \<times> connection \<Rightarrow> (serverState \<times> connection) \<times> reply" where
  "serviceCatalogHandler gatewayServices = (\<lambda>(sv, cx).
     if EnrollmentIdentity (cx_User cx) \<noteq> None then ((observeCatalog MetricRejected sv, cx), Refused)
     else (case gatewayServices (cx_User cx) of
         Inl _ \<Rightarrow> ((observeCatalog MetricError sv, cx), Refused)
       | Inr services \<Rightarrow>
           ((observeCatalog MetricSuccess sv, cx),
            Catalog (map (\<lambda>s. \<lparr>ps_Name = svc_Name s, ps_LocalPort = svc_LocalPort s\<rparr>) services))))"

text \<open>\<open>enroll\<close> is the enrollment's answer to redeeming an invite.\<close>

definition enrollmentHandler :: "(string \<Rightarrow> string \<Rightarrow> 'e + string) \<Rightarrow> serverState \<times> connection \<Rightarrow> (serverState \<times> connection) \<times> reply" where
  "enrollmentHandler enroll = (\<lambda>(sv, cx).
     case cx_enrollment cx of
       None \<Rightarrow> ((sv, cx), Refused)
     | Some (identity, invite) \<Rightarrow>
         (case enroll identity invite of
            Inl _ \<Rightarrow> ((sv, cx), Refused)
          | Inr token \<Rightarrow> ((sv, cx), EnrollResponse token)))"

section \<open>Channels\<close>

record directTCPIPRequest =
  dr_ServiceName :: string
  dr_ServicePort :: int
  dr_OriginHost :: string
  dr_OriginPort :: int

datatype reject_reason = Prohibited | ConnectionFailed

datatype 'c channel_outcome = Reject reject_reason string | AcceptFailed 'c | Proxied 'c

datatype 'c opened = ServiceDenied | OpenFailed | Opened 'c

text \<open>
  \<open>extra\<close> is the decoded extra data of the channel, \<open>None\<close> when it does not decode; \<open>accepts\<close> says
  whether the client completes the channel.  A target whose channel fails is closed.
\<close>

definition serviceChannelHandler :: "(string \<Rightarrow> string \<Rightarrow> 'c opened) \<Rightarrow> directTCPIPRequest option \<Rightarrow> bool \<Rightarrow>
    connection \<Rightarrow> 'c channel_outcome" where
  "serviceChannelHandler gatewayOpen extra accepts cx =
     (if EnrollmentIdentity (cx_User cx) \<noteq> None then Reject Prohibited ''enrollment connections cannot access services''
      else case extra of
        None \<Rightarrow> Reject ConnectionFailed ''invalid service request''
      | Some request \<Rightarrow>
          if dr_ServicePort request \<noteq> 0 then Reject ConnectionFailed ''invalid service request''
          else (case gatewayOpen (cx_User cx) (dr_ServiceName request) of
              ServiceDenied \<Rightarrow> Reject Prohibited ''service is not granted to this identity''
            | OpenFailed \<Rightarrow> Reject ConnectionFailed ''service target is unavailable''
            | Opened target \<Rightarrow> if accepts then Proxied target else AcceptFailed target))"

definition expiringChannelHandler :: "int \<Rightarrow> (connection \<Rightarrow> 'c channel_outcome) \<Rightarrow> connection \<Rightarrow> connection \<times> 'c channel_outcome" where
  "expiringChannelHandler now next cx =
     (case enforceAuthenticationExpiry now cx of
        (cx1, False) \<Rightarrow> (cx1, Reject Prohibited ''authentication expired'')
      | (cx1, True) \<Rightarrow> (cx1, next cx1))"

section \<open>The server\<close>

datatype new_err = AuthenticatorRequired | HostKeyRequired | PolicyRequired

text \<open>The request types the server answers, after the checks of the configuration.\<close>

definition newServer :: "bool \<Rightarrow> bool \<Rightarrow> bool \<Rightarrow> bool \<Rightarrow> bool \<Rightarrow> new_err + string list" where
  "newServer hasAuthenticator hasSigner hasGateway hasPolicy hasEnrollment =
     (if \<not> hasAuthenticator then Inl AuthenticatorRequired
      else if \<not> hasSigner then Inl HostKeyRequired
      else if \<not> hasGateway \<and> \<not> hasPolicy then Inl PolicyRequired
      else Inr (ServicesRequestType # (if hasEnrollment then [EnrollRequestType] else [])))"

definition serverRequest :: "int \<Rightarrow> (string \<Rightarrow> 'g + Service list) \<Rightarrow> (string \<Rightarrow> string \<Rightarrow> 'e + string) option \<Rightarrow> string \<Rightarrow>
    serverState \<times> connection \<Rightarrow> (serverState \<times> connection) \<times> reply" where
  "serverRequest now gatewayServices enroll requestType =
     (if requestType = ServicesRequestType then expiringRequestHandler now (serviceCatalogHandler gatewayServices)
      else case enroll of
        None \<Rightarrow> (\<lambda>s. (s, Refused))
      | Some f \<Rightarrow> if requestType = EnrollRequestType then expiringRequestHandler now (enrollmentHandler f) else (\<lambda>s. (s, Refused)))"

datatype 'e serve_err = ShutdownFailed 'e | ServeFailed

datatype serve_end = ServeNil | ServerClosed | ServeError

text \<open>The end of \<open>Serve\<close>: how the SSH server ended, whether the context is done, and the gateway's shutdown.\<close>

definition Serve :: "serve_end \<Rightarrow> bool \<Rightarrow> 'e option \<Rightarrow> 'e serve_err option" where
  "Serve served cancelled shutdown =
     (case shutdown of
        Some e \<Rightarrow> Some (ShutdownFailed e)
      | None \<Rightarrow>
          if served = ServerClosed \<and> cancelled then None
          else if served \<noteq> ServeNil then Some ServeFailed
          else None)"

section \<open>Host keys\<close>

datatype hostkey_err = HostKeyParse | HostKeyRead sys_err | HostKeyDirectory sys_err | HostKeyGenerate | HostKeyWrite

text \<open>\<open>os.WriteFile\<close>: the permission bits apply to a new file only; a failed write may leave part of it.\<close>

definition osWriteFile :: "os_env \<Rightarrow> string \<Rightarrow> 'c \<Rightarrow> perm \<Rightarrow> 'c fs \<Rightarrow> 'c fs \<times> bool" where
  "osWriteFile env path c bits fs =
     (case map_of fs path of
        Some (Directory _) \<Rightarrow> (fs, False)
      | old \<Rightarrow>
          let p = (case old of Some n \<Rightarrow> permOf n | None \<Rightarrow> bits AND NOT (umask env)) in
          if faults env SysWrite then (AList.update path (Regular p None) fs, False)
          else (AList.update path (Regular p (Some c)) fs, True))"

text \<open>\<open>generated\<close> is a fresh private key, when the system can make one: its PEM text and its signer.\<close>

definition LoadOrCreateHostKey :: "ssh_lib \<Rightarrow> (string \<times> Signer) option \<Rightarrow> os_env \<Rightarrow> string \<Rightarrow> string fs \<Rightarrow> string fs \<times> (hostkey_err + Signer)" where
  "LoadOrCreateHostKey L generated env path fs =
     (case readFile env path fs of
        Inr contents \<Rightarrow>
          (fs, case contents of
             None \<Rightarrow> Inl HostKeyParse
           | Some c \<Rightarrow> (case ParsePrivateKey L c of None \<Rightarrow> Inl HostKeyParse | Some s \<Rightarrow> Inr s))
      | Inl (IOError e) \<Rightarrow> (fs, Inl (HostKeyRead (IOError e)))
      | Inl NotExist \<Rightarrow>
          (case mkdirAll env (dirOf path) fs of
             (fs1, Some e) \<Rightarrow> (fs1, Inl (HostKeyDirectory e))
           | (fs1, None) \<Rightarrow>
               (case generated of
                  None \<Rightarrow> (fs1, Inl HostKeyGenerate)
                | Some (key, signer) \<Rightarrow>
                    (case osWriteFile env path key 0x180 fs1 of
                       (fs2, False) \<Rightarrow> (fs2, Inl HostKeyWrite)
                     | (fs2, True) \<Rightarrow> (fs2, Inr signer)))))"

end
