(* ===== verification/Server_Properties.thy ===== *)
theory Server_Properties
  imports Server
begin

text \<open>
  What one SSH connection can obtain.  A session is a sequence of handler calls as the SSH library
  makes them: authentication attempts, the end of the handshake after an accepted attempt, then
  requests and channels, and at any time the close timer.  The log records what the client got.
\<close>

section \<open>Sessions\<close>

datatype observation = SawCatalog int | SawService int string | SawToken int

record session =
  ss_server :: serverState
  ss_conn :: connection
  ss_accepted :: bool
  ss_log :: "observation list"

definition newConnection :: "string \<Rightarrow> connection" where
  "newConnection user = \<lparr>cx_User = user, cx_expiry = None, cx_enrollment = None, cx_established = False, cx_timer = None, cx_closed = False\<rparr>"

fun replyLog :: "int \<Rightarrow> reply \<Rightarrow> observation list" where
  "replyLog now Refused = []"
| "replyLog now (Catalog _) = [SawCatalog now]"
| "replyLog now (EnrollResponse _) = [SawToken now]"

fun channelLog :: "int \<Rightarrow> directTCPIPRequest option \<Rightarrow> 'c channel_outcome \<Rightarrow> observation list" where
  "channelLog now (Some req) (Proxied _) = [SawService now (dr_ServiceName req)]"
| "channelLog now req out = []"

text \<open>The gateway and the enrollment may answer every call differently.\<close>

inductive sessions :: "'e Config \<Rightarrow> (string \<Rightarrow> string \<Rightarrow> bool) \<Rightarrow> string \<Rightarrow> session \<Rightarrow> bool" for config granted user where
  start: "sessions config granted user \<lparr>ss_server = sv, ss_conn = newConnection user, ss_accepted = False, ss_log = []\<rparr>"
| password: "sessions config granted user s \<Longrightarrow> \<not> cx_established (ss_conn s) \<Longrightarrow>
    passwordHandler config pw (ss_server s, ss_conn s) = ((sv, cx), ok) \<Longrightarrow>
    sessions config granted user (s\<lparr>ss_server := sv, ss_conn := cx, ss_accepted := ok\<rparr>)"
| publicKey: "sessions config granted user s \<Longrightarrow> \<not> cx_established (ss_conn s) \<Longrightarrow>
    publicKeyHandler config key (ss_server s, ss_conn s) = ((sv, cx), ok) \<Longrightarrow>
    sessions config granted user (s\<lparr>ss_server := sv, ss_conn := cx, ss_accepted := ok\<rparr>)"
| established: "sessions config granted user s \<Longrightarrow> ss_accepted s \<Longrightarrow>
    sessions config granted user (s\<lparr>ss_conn := (ss_conn s)\<lparr>cx_established := True\<rparr>\<rparr>)"
| request: "sessions config granted user s \<Longrightarrow> cx_established (ss_conn s) \<Longrightarrow> \<not> cx_closed (ss_conn s) \<Longrightarrow>
    serverRequest now (gatewayServices :: string \<Rightarrow> unit + Service list) (enroll :: (string \<Rightarrow> string \<Rightarrow> unit + string) option) typ (ss_server s, ss_conn s) = ((sv, cx), r) \<Longrightarrow>
    sessions config granted user (s\<lparr>ss_server := sv, ss_conn := cx, ss_log := ss_log s @ replyLog now r\<rparr>)"
| channel: "sessions config granted user s \<Longrightarrow> cx_established (ss_conn s) \<Longrightarrow> \<not> cx_closed (ss_conn s) \<Longrightarrow>
    (\<And>i n c. gatewayOpen i n = Opened c \<Longrightarrow> granted i n) \<Longrightarrow>
    expiringChannelHandler now (serviceChannelHandler (gatewayOpen :: string \<Rightarrow> string \<Rightarrow> nat opened) req accepts) (ss_conn s) = (cx, outcome) \<Longrightarrow>
    sessions config granted user (s\<lparr>ss_conn := cx, ss_log := ss_log s @ channelLog now req outcome\<rparr>)"
| timer: "sessions config granted user s \<Longrightarrow>
    sessions config granted user (s\<lparr>ss_conn := expiryTimer now (ss_conn s)\<rparr>)"

section \<open>What a login leaves behind\<close>

definition provisionedFor :: "'e Config \<Rightarrow> string \<Rightarrow> serverState \<Rightarrow> bool" where
  "provisionedFor config identity sv \<longleftrightarrow> (sc_Provisioner config \<noteq> None \<longrightarrow> (identity, True) \<in> set (sv_provisions sv))"

definition loggedIn :: "'e Config \<Rightarrow> string \<Rightarrow> serverState \<Rightarrow> connection \<Rightarrow> bool" where
  "loggedIn config user sv cx \<longleftrightarrow> provisionedFor config user sv \<and>
     (\<exists>a r. sc_Authenticator config a = Inr (Some r) \<and> at_Identity a = user \<and> res_Identity r = user \<and>
        (res_ValidBefore r = None \<or> cx_expiry cx = res_ValidBefore r))"

text \<open>An enrollment kept in the connection was checked, for the user of the connection.\<close>

definition invited :: "'e Config \<Rightarrow> string \<Rightarrow> serverState \<Rightarrow> connection \<Rightarrow> bool" where
  "invited config user sv cx \<longleftrightarrow>
     (case cx_enrollment cx of
        None \<Rightarrow> True
      | Some (i, pw) \<Rightarrow> EnrollmentIdentity user = Some i \<and> provisionedFor config i sv \<and>
          (\<exists>check. sc_Invites config = Some check \<and> check i pw))"

lemma metrics_provisions [simp]:
  "sv_provisions (observeAuthentication m r sv) = sv_provisions sv" "sv_provisions (observeCatalog c sv) = sv_provisions sv"
  "sv_provisions (observeEnvironmentProvision c sv) = sv_provisions sv"
  by (simp_all add: observeAuthentication_def observeCatalog_def observeEnvironmentProvision_def onServerMetrics_def)

lemma provisionEnvironment_facts:
  assumes "provisionEnvironment config i m sv = (sv', ok)"
  shows "set (sv_provisions sv) \<subseteq> set (sv_provisions sv')" "ok \<Longrightarrow> provisionedFor config i sv'"
  using assms by (auto simp: provisionEnvironment_def provisionedFor_def Let_def split: option.splits if_splits)

lemma authenticateConnection_facts:
  assumes "authenticateConnection config a (sv, cx) = ((sv', cx'), ok)"
  shows "cx_User cx' = cx_User cx \<and> cx_established cx' = cx_established cx \<and> cx_enrollment cx' = cx_enrollment cx \<and>
    (cx_timer cx = None \<longrightarrow> cx_timer cx' = None) \<and> set (sv_provisions sv) \<subseteq> set (sv_provisions sv') \<and>
    (ok \<longrightarrow> provisionedFor config (at_Identity a) sv' \<and>
      (\<exists>r. sc_Authenticator config a = Inr (Some r) \<and> res_Identity r = at_Identity a \<and>
        (res_ValidBefore r = None \<or> cx_expiry cx' = res_ValidBefore r)))"
proof (cases "\<exists>r. sc_Authenticator config a = Inr (Some r) \<and> res_Identity r = at_Identity a")
  case True
  then obtain r where r: "sc_Authenticator config a = Inr (Some r)" "res_Identity r = at_Identity a" by blast
  obtain sv1 prov where p: "provisionEnvironment config (at_Identity a) (at_Method a) sv = (sv1, prov)"
    by (cases "provisionEnvironment config (at_Identity a) (at_Method a) sv")
  show ?thesis
  proof (cases prov)
    case True
    with assms r p have "sv' = observeAuthentication (at_Method a) MetricSuccess sv1"
      "cx' = (case res_ValidBefore r of None \<Rightarrow> cx | Some t \<Rightarrow> cx\<lparr>cx_expiry := Some t, cx_timer := None\<rparr>)" "ok"
      by (auto simp: authenticateConnection_def Let_def)
    with r provisionEnvironment_facts [OF p] True show ?thesis
      by (auto simp: provisionedFor_def split: option.splits)
  next
    case False
    with assms r p have "sv' = sv1" "cx' = cx" "\<not> ok" by (auto simp: authenticateConnection_def)
    with provisionEnvironment_facts [OF p] show ?thesis by simp
  qed
next
  case False
  with assms show ?thesis
    by (auto simp: authenticateConnection_def split: sum.splits option.splits if_splits)
qed

text \<open>Either handler keeps the user and what was provisioned, and acceptance means a login.\<close>

definition handled :: "'e Config \<Rightarrow> serverState \<Rightarrow> connection \<Rightarrow> serverState \<Rightarrow> connection \<Rightarrow> bool \<Rightarrow> bool" where
  "handled config sv cx sv' cx' ok \<longleftrightarrow> cx_User cx' = cx_User cx \<and> cx_established cx' = cx_established cx \<and>
     (cx_timer cx = None \<longrightarrow> cx_timer cx' = None) \<and>
     (invited config (cx_User cx) sv cx \<longrightarrow> invited config (cx_User cx) sv' cx') \<and>
     (ok \<and> EnrollmentIdentity (cx_User cx) = None \<longrightarrow> loggedIn config (cx_User cx) sv' cx')"

lemma provisionedFor_mono: "set (sv_provisions sv) \<subseteq> set (sv_provisions sv') \<Longrightarrow> provisionedFor config i sv \<Longrightarrow> provisionedFor config i sv'"
  by (auto simp: provisionedFor_def)

lemma invited_mono:
  "invited config user sv cx \<Longrightarrow> set (sv_provisions sv) \<subseteq> set (sv_provisions sv') \<Longrightarrow> cx_enrollment cx' = cx_enrollment cx \<Longrightarrow>
   invited config user sv' cx'"
  using provisionedFor_mono by (auto simp: invited_def split: option.splits prod.splits)

lemma authenticateConnection_handled:
  assumes "authenticateConnection config a (sv, cx) = ((sv', cx'), ok)" "at_Identity a = cx_User cx"
  shows "handled config sv cx sv' cx' ok"
proof -
  note f = authenticateConnection_facts [OF assms(1)]
  have "invited config (cx_User cx) sv cx \<longrightarrow> invited config (cx_User cx) sv' cx'"
    using f by (blast intro: invited_mono)
  moreover have "ok \<longrightarrow> loggedIn config (cx_User cx) sv' cx'"
    using f assms(2) unfolding loggedIn_def by auto
  ultimately show ?thesis using f by (simp add: handled_def)
qed

lemma publicKeyHandler_facts:
  "publicKeyHandler config key (sv, cx) = ((sv', cx'), ok) \<Longrightarrow> handled config sv cx sv' cx' ok"
  by (rule authenticateConnection_handled) (auto simp: publicKeyHandler_def)

lemma passwordHandler_facts:
  assumes "passwordHandler config pw (sv, cx) = ((sv', cx'), ok)"
  shows "handled config sv cx sv' cx' ok"
proof (cases "EnrollmentIdentity (cx_User cx)")
  case None
  with assms have "authenticateConnection config
      \<lparr>at_Identity = cx_User cx, at_Method = MethodPassword, at_Password = pw, at_PublicKey = None\<rparr> (sv, cx) = ((sv', cx'), ok)"
    by (simp add: passwordHandler_def)
  then show ?thesis by (rule authenticateConnection_handled) simp
next
  case (Some i)
  obtain sv1 prov where p: "provisionEnvironment config i methodEnrollment sv = (sv1, prov)"
    by (cases "provisionEnvironment config i methodEnrollment sv")
  note pf = provisionEnvironment_facts [OF p]
  show ?thesis
  proof (cases "\<exists>check. sc_Invites config = Some check \<and> check i pw")
    case False
    then have "sv' = observeAuthentication methodEnrollment MetricRejected sv" "cx' = cx"
      using assms Some by (auto simp: passwordHandler_def split: option.splits if_splits)
    with Some show ?thesis by (auto simp: handled_def intro: invited_mono)
  next
    case True
    then obtain check where c: "sc_Invites config = Some check" "check i pw" by blast
    show ?thesis
    proof (cases prov)
      case True
      then have "sv' = observeAuthentication methodEnrollment MetricSuccess sv1" "cx' = cx\<lparr>cx_enrollment := Some (i, pw)\<rparr>"
        using assms Some c p by (simp_all add: passwordHandler_def)
      with Some c pf(2) True show ?thesis by (simp add: handled_def invited_def provisionedFor_def)
    next
      case False
      then have "sv' = sv1" "cx' = cx" using assms Some c p by (simp_all add: passwordHandler_def)
      with Some pf(1) show ?thesis by (auto simp: handled_def intro: invited_mono)
    qed
  qed
qed

section \<open>The invariant of a session\<close>

text \<open>
  What was obtained at time \<open>t\<close>: catalog and services only by a logged-in identity before the expiry
  of its login, services only when granted to it, a token only with a checked invite.
\<close>

definition unexpired :: "int \<Rightarrow> connection \<Rightarrow> bool" where
  "unexpired t cx \<longleftrightarrow> (\<forall>e. cx_expiry cx = Some e \<longrightarrow> t < e \<and> cx_timer cx = Some e)"

fun permitted :: "'e Config \<Rightarrow> (string \<Rightarrow> string \<Rightarrow> bool) \<Rightarrow> string \<Rightarrow> serverState \<Rightarrow> connection \<Rightarrow> observation \<Rightarrow> bool" where
  "permitted config granted user sv cx (SawToken t) = (\<exists>i. EnrollmentIdentity user = Some i \<and> provisionedFor config i sv \<and>
     (\<exists>check pw. sc_Invites config = Some check \<and> check i pw))"
| "permitted config granted user sv cx (SawCatalog t) =
     (EnrollmentIdentity user = None \<and> loggedIn config user sv cx \<and> unexpired t cx)"
| "permitted config granted user sv cx (SawService t n) =
     (EnrollmentIdentity user = None \<and> loggedIn config user sv cx \<and> unexpired t cx \<and> granted user n)"

definition sessionInv :: "'e Config \<Rightarrow> (string \<Rightarrow> string \<Rightarrow> bool) \<Rightarrow> string \<Rightarrow> session \<Rightarrow> bool" where
  "sessionInv config granted user s \<longleftrightarrow> cx_User (ss_conn s) = user \<and> invited config user (ss_server s) (ss_conn s) \<and>
     (ss_accepted s \<and> EnrollmentIdentity user = None \<longrightarrow> loggedIn config user (ss_server s) (ss_conn s)) \<and>
     (cx_established (ss_conn s) \<longrightarrow> ss_accepted s) \<and>
     (\<not> cx_established (ss_conn s) \<longrightarrow> ss_log s = [] \<and> cx_timer (ss_conn s) = None) \<and>
     (\<forall>t. cx_timer (ss_conn s) = Some t \<longrightarrow> cx_expiry (ss_conn s) = Some t) \<and>
     list_all (permitted config granted user (ss_server s) (ss_conn s)) (ss_log s)"

lemma loggedIn_mono:
  "loggedIn config user sv cx \<Longrightarrow> set (sv_provisions sv) \<subseteq> set (sv_provisions sv') \<Longrightarrow> cx_expiry cx' = cx_expiry cx \<Longrightarrow> loggedIn config user sv' cx'"
  using provisionedFor_mono by (auto simp: loggedIn_def)

lemma unexpired_mono:
  "unexpired t cx \<Longrightarrow> cx_expiry cx' = cx_expiry cx \<Longrightarrow> (cx_timer cx \<noteq> None \<Longrightarrow> cx_timer cx' = cx_timer cx) \<Longrightarrow> unexpired t cx'"
  by (auto simp: unexpired_def)

lemma permitted_mono:
  assumes "permitted config granted user sv cx x" "set (sv_provisions sv) \<subseteq> set (sv_provisions sv')" "cx_expiry cx' = cx_expiry cx"
    and "cx_timer cx \<noteq> None \<Longrightarrow> cx_timer cx' = cx_timer cx"
  shows "permitted config granted user sv' cx' x"
proof -
  have l: "loggedIn config user sv cx \<Longrightarrow> loggedIn config user sv' cx'" by (rule loggedIn_mono [OF _ assms(2,3)])
  have p: "provisionedFor config i sv \<Longrightarrow> provisionedFor config i sv'" for i by (rule provisionedFor_mono [OF assms(2)])
  have u: "unexpired t cx \<Longrightarrow> unexpired t cx'" for t by (rule unexpired_mono [OF _ assms(3,4)])
  show ?thesis using assms(1) l p u by (cases x) auto
qed

lemma log_mono:
  "list_all (permitted config granted user sv cx) xs \<Longrightarrow> set (sv_provisions sv) \<subseteq> set (sv_provisions sv') \<Longrightarrow>
   cx_expiry cx' = cx_expiry cx \<Longrightarrow> (cx_timer cx \<noteq> None \<Longrightarrow> cx_timer cx' = cx_timer cx) \<Longrightarrow>
   list_all (permitted config granted user sv' cx') xs"
  unfolding list_all_iff by (blast intro: permitted_mono)

lemma enforce_cases:
  assumes "enforceAuthenticationExpiry now cx = (cx', ok)"
  obtains (unlimited) "cx_expiry cx = None" "cx' = cx" "ok"
  | (expired) e where "cx_expiry cx = Some e" "\<not> ok" "cx' = cx \<or> cx' = cx\<lparr>cx_closed := True\<rparr>"
  | (running) e where "cx_expiry cx = Some e" "now < e" "ok" "cx_timer cx \<noteq> None" "cx' = cx"
  | (timed) e where "cx_expiry cx = Some e" "now < e" "ok" "cx_timer cx = None" "cx' = cx\<lparr>cx_timer := Some e\<rparr>"
  using assms by (auto simp: enforceAuthenticationExpiry_def split: option.splits if_splits)

lemma enforce_frame:
  assumes "enforceAuthenticationExpiry now cx = (cx', ok)"
  shows "cx_User cx' = cx_User cx \<and> cx_expiry cx' = cx_expiry cx \<and> cx_enrollment cx' = cx_enrollment cx \<and>
    cx_established cx' = cx_established cx \<and> (cx_timer cx \<noteq> None \<longrightarrow> cx_timer cx' = cx_timer cx) \<and>
    (cx_timer cx' = cx_timer cx \<or> cx_timer cx' = cx_expiry cx)"
  using assms by (cases rule: enforce_cases) auto

lemma enforce_unexpired:
  assumes "enforceAuthenticationExpiry now cx = (cx', True)" "\<And>t. cx_timer cx = Some t \<Longrightarrow> cx_expiry cx = Some t"
  shows "unexpired now cx'"
  using assms(1) by (cases rule: enforce_cases) (use assms(2) in \<open>auto simp: unexpired_def\<close>)

lemma expiringRequestHandler_facts:
  assumes "expiringRequestHandler now next (sv, cx) = ((sv', cx'), r)"
  obtains "enforceAuthenticationExpiry now cx = (cx', False)" "sv' = sv" "r = Refused"
  | cx1 where "enforceAuthenticationExpiry now cx = (cx1, True)" "next (sv, cx1) = ((sv', cx'), r)"
  using assms by (auto simp: expiringRequestHandler_def split: prod.splits bool.splits)

lemma serviceCatalogHandler_facts:
  "serviceCatalogHandler g (sv, cx) = ((sv', cx'), r) \<Longrightarrow> cx' = cx \<and> sv_provisions sv' = sv_provisions sv \<and>
   (r = Refused \<or> (\<exists>c. r = Catalog c) \<and> EnrollmentIdentity (cx_User cx) = None)"
  by (auto simp: serviceCatalogHandler_def split: if_splits sum.splits)

lemma enrollmentHandler_facts:
  "enrollmentHandler f (sv, cx) = ((sv', cx'), r) \<Longrightarrow> cx' = cx \<and> sv' = sv \<and>
   (r = Refused \<or> (\<exists>t. r = EnrollResponse t) \<and> cx_enrollment cx \<noteq> None)"
  by (auto simp: enrollmentHandler_def split: option.splits sum.splits)

lemma serverRequest_facts:
  fixes enroll :: "(string \<Rightarrow> string \<Rightarrow> 'e + string) option"
  assumes "serverRequest now gatewayServices enroll typ (sv, cx) = ((sv', cx'), r)"
  shows "(sv', cx', r) = (sv, cx, Refused) \<or>
    (\<exists>ok. enforceAuthenticationExpiry now cx = (cx', ok) \<and> sv_provisions sv' = sv_provisions sv \<and>
      (r = Refused \<or> ok \<and> (\<exists>c. r = Catalog c) \<and> EnrollmentIdentity (cx_User cx) = None \<or> ok \<and> (\<exists>t. r = EnrollResponse t) \<and> cx_enrollment cx \<noteq> None))"
proof -
  consider (none) "serverRequest now gatewayServices enroll typ = (\<lambda>s. (s, Refused))"
    | (catalog) "serverRequest now gatewayServices enroll typ = expiringRequestHandler now (serviceCatalogHandler gatewayServices)"
    | (enroll) f :: "string \<Rightarrow> string \<Rightarrow> 'e + string" where "serverRequest now gatewayServices enroll typ = expiringRequestHandler now (enrollmentHandler f)"
  proof (cases "typ = ServicesRequestType")
    case True
    then show thesis by (intro that(2)) (simp add: serverRequest_def)
  next
    case False
    show thesis
    proof (cases enroll)
      case None
      with False show thesis by (intro that(1)) (simp add: serverRequest_def)
    next
      case (Some f)
      show thesis
      proof (cases "typ = EnrollRequestType")
        case True
        show thesis by (rule that(3) [of f]) (use False True Some in \<open>simp add: serverRequest_def\<close>)
      next
        case no: False
        show thesis by (rule that(1)) (use False no Some in \<open>simp add: serverRequest_def\<close>)
      qed
    qed
  qed
  then show ?thesis
  proof cases
    case none
    with assms show ?thesis by simp
  next
    case catalog
    with assms have "expiringRequestHandler now (serviceCatalogHandler gatewayServices) (sv, cx) = ((sv', cx'), r)" by simp
    then show ?thesis
    proof (cases rule: expiringRequestHandler_facts)
      case 1
      then show ?thesis by auto
    next
      case (2 cx1)
      with serviceCatalogHandler_facts [OF 2(2)] enforce_frame [OF 2(1)] show ?thesis by auto
    qed
  next
    case (enroll f)
    with assms have "expiringRequestHandler now (enrollmentHandler f) (sv, cx) = ((sv', cx'), r)" by simp
    then show ?thesis
    proof (cases rule: expiringRequestHandler_facts)
      case 1
      then show ?thesis by auto
    next
      case (2 cx1)
      with enrollmentHandler_facts [OF 2(2)] enforce_frame [OF 2(1)] show ?thesis by auto
    qed
  qed
qed

lemma channelHandler_facts:
  assumes "expiringChannelHandler now (serviceChannelHandler gatewayOpen req accepts) cx = (cx', out)"
  obtains ok where "enforceAuthenticationExpiry now cx = (cx', ok)"
    "channelLog now req out = [] \<or>
     (\<exists>n c. channelLog now req out = [SawService now n] \<and> ok \<and> EnrollmentIdentity (cx_User cx) = None \<and> gatewayOpen (cx_User cx) n = Opened c)"
proof -
  obtain cx1 ok where e: "enforceAuthenticationExpiry now cx = (cx1, ok)" by (cases "enforceAuthenticationExpiry now cx")
  have "cx' = cx1" using assms e by (cases ok) (auto simp: expiringChannelHandler_def)
  moreover have "channelLog now req out = [] \<or>
     (\<exists>n c. channelLog now req out = [SawService now n] \<and> ok \<and> EnrollmentIdentity (cx_User cx) = None \<and> gatewayOpen (cx_User cx) n = Opened c)"
    using assms e enforce_frame [OF e]
    by (cases ok) (auto simp: expiringChannelHandler_def serviceChannelHandler_def split: if_splits option.splits opened.splits)
  ultimately show thesis using that e by blast
qed

text \<open>A handler that ran under the expiry check keeps the invariant if what it handed out was permitted.\<close>

lemma log_inv:
  assumes I: "sessionInv config granted user s" and est: "cx_established (ss_conn s)"
    and e: "enforceAuthenticationExpiry now (ss_conn s) = (cx, ok)"
    and sub: "set (sv_provisions (ss_server s)) \<subseteq> set (sv_provisions sv)"
    and new: "list_all (permitted config granted user sv cx) new"
  shows "sessionInv config granted user (s\<lparr>ss_server := sv, ss_conn := cx, ss_log := ss_log s @ new\<rparr>)"
proof -
  note f = enforce_frame [OF e]
  have I': "cx_User (ss_conn s) = user" "invited config user (ss_server s) (ss_conn s)"
    "ss_accepted s \<and> EnrollmentIdentity user = None \<Longrightarrow> loggedIn config user (ss_server s) (ss_conn s)" "ss_accepted s"
    "\<And>t. cx_timer (ss_conn s) = Some t \<Longrightarrow> cx_expiry (ss_conn s) = Some t"
    "list_all (permitted config granted user (ss_server s) (ss_conn s)) (ss_log s)"
    using I est by (auto simp: sessionInv_def)
  have "list_all (permitted config granted user sv cx) (ss_log s)"
    by (rule log_mono [OF I'(6) sub]) (use f in auto)
  moreover have "loggedIn config user sv cx" if "EnrollmentIdentity user = None"
    by (rule loggedIn_mono [OF I'(3) sub]) (use that f I'(4) in auto)
  moreover have "invited config user sv cx" by (rule invited_mono [OF I'(2) sub]) (use f in auto)
  moreover have "cx_expiry cx = Some t" if "cx_timer cx = Some t" for t
    using that f I'(5) by (metis option.distinct(1))
  moreover have "cx_User cx = user" "cx_established cx" using f I'(1) est by auto
  ultimately show ?thesis using I'(4) new by (simp add: sessionInv_def)
qed

lemma permitted_now:
  assumes "sessionInv config granted user s" "cx_established (ss_conn s)"
    and e: "enforceAuthenticationExpiry now (ss_conn s) = (cx, True)"
    and sub: "set (sv_provisions (ss_server s)) \<subseteq> set (sv_provisions sv)" and n: "EnrollmentIdentity user = None"
  shows "loggedIn config user sv cx \<and> unexpired now cx"
proof -
  have "loggedIn config user (ss_server s) (ss_conn s)" using assms by (auto simp: sessionInv_def)
  then have "loggedIn config user sv cx" by (rule loggedIn_mono [OF _ sub]) (use enforce_frame [OF e] in auto)
  moreover have "unexpired now cx" by (rule enforce_unexpired [OF e]) (use assms(1) in \<open>auto simp: sessionInv_def\<close>)
  ultimately show ?thesis ..
qed

lemma invited_permits_token:
  assumes "sessionInv config granted user s" "cx_enrollment (ss_conn s) \<noteq> None" "set (sv_provisions (ss_server s)) \<subseteq> set (sv_provisions sv)"
  shows "permitted config granted user sv cx (SawToken now)"
proof -
  obtain i pw where e: "cx_enrollment (ss_conn s) = Some (i, pw)" using assms(2) by auto
  then have "EnrollmentIdentity user = Some i" "provisionedFor config i (ss_server s)" "\<exists>check. sc_Invites config = Some check \<and> check i pw"
    using assms(1) by (auto simp: sessionInv_def invited_def)
  with provisionedFor_mono [OF assms(3)] show ?thesis by auto
qed

lemma handled_inv:
  assumes "sessionInv config granted user s" "\<not> cx_established (ss_conn s)" "handled config (ss_server s) (ss_conn s) sv cx ok"
  shows "sessionInv config granted user (s\<lparr>ss_server := sv, ss_conn := cx, ss_accepted := ok\<rparr>)"
  using assms by (auto simp: sessionInv_def handled_def)

lemma timer_frame: "expiryTimer now cx = cx \<or> expiryTimer now cx = cx\<lparr>cx_closed := True\<rparr>"
  by (auto simp: expiryTimer_def split: option.splits)

lemma conn_inv:
  assumes I: "sessionInv config granted user s" and "cx_User cx = cx_User (ss_conn s)" "cx_expiry cx = cx_expiry (ss_conn s)"
    "cx_enrollment cx = cx_enrollment (ss_conn s)" "cx_timer cx = cx_timer (ss_conn s)"
    and "cx_established cx \<Longrightarrow> ss_accepted s" "\<not> cx_established cx \<Longrightarrow> \<not> cx_established (ss_conn s)"
  shows "sessionInv config granted user (s\<lparr>ss_conn := cx\<rparr>)"
proof -
  have "list_all (permitted config granted user (ss_server s) cx) (ss_log s)"
    by (rule log_mono [OF _ subset_refl]) (use assms in \<open>auto simp: sessionInv_def\<close>)
  moreover have "loggedIn config user (ss_server s) cx" if "loggedIn config user (ss_server s) (ss_conn s)"
    by (rule loggedIn_mono [OF that subset_refl]) (use assms in auto)
  moreover have "invited config user (ss_server s) cx"
    by (rule invited_mono [OF _ subset_refl]) (use assms in \<open>auto simp: sessionInv_def\<close>)
  ultimately show ?thesis using assms by (auto simp: sessionInv_def)
qed

lemma sessions_inv: "sessions config granted user s \<Longrightarrow> sessionInv config granted user s"
proof (induction rule: sessions.induct)
  case (start sv)
  then show ?case by (simp add: sessionInv_def newConnection_def invited_def)
next
  case (password s pw sv cx ok)
  show ?case by (rule handled_inv [OF password.IH password.hyps(2) passwordHandler_facts [OF password.hyps(3)]])
next
  case (publicKey s key sv cx ok)
  show ?case by (rule handled_inv [OF publicKey.IH publicKey.hyps(2) publicKeyHandler_facts [OF publicKey.hyps(3)]])
next
  case (established s)
  show ?case by (rule conn_inv [OF established.IH]) (use established.hyps in auto)
next
  case (request s now gatewayServices enroll rt sv cx r)
  note I = request.IH
  from serverRequest_facts [OF request.hyps(4)] consider "(sv, cx, r) = (ss_server s, ss_conn s, Refused)"
    | ok where "enforceAuthenticationExpiry now (ss_conn s) = (cx, ok)" "sv_provisions sv = sv_provisions (ss_server s)"
      "r = Refused \<or> ok \<and> (\<exists>c. r = Catalog c) \<and> EnrollmentIdentity (cx_User (ss_conn s)) = None \<or>
       ok \<and> (\<exists>t. r = EnrollResponse t) \<and> cx_enrollment (ss_conn s) \<noteq> None" by blast
  then show ?case
  proof cases
    case 1
    then show ?thesis using I by simp
  next
    case (2 ok)
    have sub: "set (sv_provisions (ss_server s)) \<subseteq> set (sv_provisions sv)" using 2(2) by simp
    have u: "cx_User (ss_conn s) = user" using I by (simp add: sessionInv_def)
    have "list_all (permitted config granted user sv cx) (replyLog now r)"
      using 2(3) permitted_now [OF I request.hyps(2) _ sub] 2(1) invited_permits_token [OF I _ sub] u by (cases ok) auto
    then show ?thesis by (rule log_inv [OF I request.hyps(2) 2(1) sub])
  qed
next
  case (channel s gatewayOpen now req accepts cx outcome)
  note I = channel.IH
  obtain ok where e: "enforceAuthenticationExpiry now (ss_conn s) = (cx, ok)"
    "channelLog now req outcome = [] \<or>
     (\<exists>n c. channelLog now req outcome = [SawService now n] \<and> ok \<and> EnrollmentIdentity (cx_User (ss_conn s)) = None \<and>
       gatewayOpen (cx_User (ss_conn s)) n = Opened c)"
    using channel.hyps(5) by (rule channelHandler_facts)
  have u: "cx_User (ss_conn s) = user" using I by (simp add: sessionInv_def)
  have "list_all (permitted config granted user (ss_server s) cx) (channelLog now req outcome)"
    using e permitted_now [OF I channel.hyps(2) _ subset_refl] u channel.hyps(4) by (cases ok) auto
  from log_inv [OF I channel.hyps(2) e(1) subset_refl this] show ?case by simp
next
  case (timer s now)
  have "sessionInv config granted user (s\<lparr>ss_conn := cx\<rparr>)" if "cx = ss_conn s \<or> cx = (ss_conn s)\<lparr>cx_closed := True\<rparr>" for cx
    by (rule conn_inv [OF timer.IH]) (use that timer.IH in \<open>auto simp: sessionInv_def\<close>)
  then show ?case using timer_frame by blast
qed

section \<open>Properties\<close>

text \<open>
  Claim C28.  Whatever sequence of logins, requests, channels and timer events a client drives a
  connection through, it obtains the catalog or a service only as a user for whom the authenticator
  accepted a login and whose environment was provisioned, before that login expired, and only a
  service granted to that very user; the connection then closes when the login expires.  An
  enrollment connection obtains nothing but a token, and that only for an identity whose invite was
  checked.
\<close>

theorem session_access:
  assumes "sessions config granted user s"
  shows "((\<exists>n. SawCatalog t \<in> set (ss_log s) \<or> SawService t n \<in> set (ss_log s)) \<longrightarrow>
      EnrollmentIdentity user = None \<and> provisionedFor config user (ss_server s) \<and>
      (\<exists>a r. sc_Authenticator config a = Inr (Some r) \<and> at_Identity a = user \<and> res_Identity r = user \<and>
        (\<forall>e. res_ValidBefore r = Some e \<longrightarrow> t < e \<and> (\<forall>now\<ge>e. cx_closed (expiryTimer now (ss_conn s)))))) \<and>
    (SawService t n \<in> set (ss_log s) \<longrightarrow> granted user n) \<and>
    (SawToken t \<in> set (ss_log s) \<longrightarrow> (\<exists>i pw check. EnrollmentIdentity user = Some i \<and>
      provisionedFor config i (ss_server s) \<and> sc_Invites config = Some check \<and> check i pw))"
proof (intro conjI)
  have P: "permitted config granted user (ss_server s) (ss_conn s) x" if "x \<in> set (ss_log s)" for x
    using sessions_inv [OF assms] that by (auto simp: sessionInv_def list_all_iff)
  show "SawService t n \<in> set (ss_log s) \<longrightarrow> granted user n" using P by fastforce
  show "SawToken t \<in> set (ss_log s) \<longrightarrow> (\<exists>i pw check. EnrollmentIdentity user = Some i \<and>
      provisionedFor config i (ss_server s) \<and> sc_Invites config = Some check \<and> check i pw)" using P by fastforce
  show "(\<exists>n. SawCatalog t \<in> set (ss_log s) \<or> SawService t n \<in> set (ss_log s)) \<longrightarrow>
      EnrollmentIdentity user = None \<and> provisionedFor config user (ss_server s) \<and>
      (\<exists>a r. sc_Authenticator config a = Inr (Some r) \<and> at_Identity a = user \<and> res_Identity r = user \<and>
        (\<forall>e. res_ValidBefore r = Some e \<longrightarrow> t < e \<and> (\<forall>now\<ge>e. cx_closed (expiryTimer now (ss_conn s)))))"
  proof
    assume "\<exists>n. SawCatalog t \<in> set (ss_log s) \<or> SawService t n \<in> set (ss_log s)"
    then have l: "EnrollmentIdentity user = None" "loggedIn config user (ss_server s) (ss_conn s)" "unexpired t (ss_conn s)"
      using P by fastforce+
    from l(2) obtain a r where r: "sc_Authenticator config a = Inr (Some r)" "at_Identity a = user" "res_Identity r = user"
      "res_ValidBefore r = None \<or> cx_expiry (ss_conn s) = res_ValidBefore r"
      by (auto simp: loggedIn_def)
    have "t < e \<and> (\<forall>now\<ge>e. cx_closed (expiryTimer now (ss_conn s)))" if "res_ValidBefore r = Some e" for e
      using r(4) l(3) that by (auto simp: unexpired_def expiryTimer_def)
    with l r show "EnrollmentIdentity user = None \<and> provisionedFor config user (ss_server s) \<and>
      (\<exists>a r. sc_Authenticator config a = Inr (Some r) \<and> at_Identity a = user \<and> res_Identity r = user \<and>
        (\<forall>e. res_ValidBefore r = Some e \<longrightarrow> t < e \<and> (\<forall>now\<ge>e. cx_closed (expiryTimer now (ss_conn s)))))"
      unfolding loggedIn_def by blast
  qed
qed

text \<open>A server whose logins expire at time 100, and a client that opens a service at time 50.\<close>

definition demoConfig :: "unit Config" where
  "demoConfig = \<lparr>sc_Authenticator = (\<lambda>a. if at_Password a = ''secret''
       then Inr (Some \<lparr>res_Identity = at_Identity a, res_Provider = ''demo'', res_ValidBefore = Some 100\<rparr>) else Inr None),
     sc_Invites = None, sc_Provisioner = Some (\<lambda>i. True)\<rparr>"

definition demoServer :: serverState where
  "demoServer = \<lparr>sv_metrics = None, sv_provisions = []\<rparr>"

definition demoLogin :: "serverState \<times> connection" where
  "demoLogin = fst (passwordHandler demoConfig ''secret'' (demoServer, newConnection ''alice''))"

definition demoGateway :: "string \<Rightarrow> string \<Rightarrow> nat opened" where
  "demoGateway i n = (if i = ''alice'' \<and> n = ''web'' then Opened 7 else ServiceDenied)"

definition demoDirect :: directTCPIPRequest where
  "demoDirect = \<lparr>dr_ServiceName = ''web'', dr_ServicePort = 0, dr_OriginHost = [], dr_OriginPort = 0\<rparr>"

definition demoChannel :: "connection \<times> nat channel_outcome" where
  "demoChannel = expiringChannelHandler 50 (serviceChannelHandler demoGateway (Some demoDirect) True) ((snd demoLogin)\<lparr>cx_established := True\<rparr>)"

definition demoSession :: session where
  "demoSession = \<lparr>ss_server = fst demoLogin, ss_conn = fst demoChannel, ss_accepted = True, ss_log = [SawService 50 ''web'']\<rparr>"

lemma demoSession_reached: "sessions demoConfig (\<lambda>i n. i = ''alice'' \<and> n = ''web'') ''alice'' demoSession"
proof -
  let ?g = "\<lambda>i n. i = ''alice'' \<and> n = ''web''"
  let ?s = "\<lparr>ss_server = demoServer, ss_conn = newConnection ''alice'', ss_accepted = False, ss_log = []\<rparr>"
  have p: "passwordHandler demoConfig ''secret'' (demoServer, newConnection ''alice'') = ((fst demoLogin, snd demoLogin), True)"
  proof -
    have "snd (passwordHandler demoConfig ''secret'' (demoServer, newConnection ''alice''))" by code_simp
    then show ?thesis by (simp add: demoLogin_def prod_eq_iff)
  qed
  have e: "cx_established (snd demoLogin) = False" by code_simp
  have c: "cx_closed (snd demoLogin) = False" by code_simp
  have o: "snd demoChannel = Proxied 7" by code_simp
  have 0: "sessions demoConfig ?g ''alice'' ?s" by (rule sessions.start)
  have 1: "sessions demoConfig ?g ''alice'' (?s\<lparr>ss_server := fst demoLogin, ss_conn := snd demoLogin, ss_accepted := True\<rparr>)"
    by (rule sessions.password [OF 0, where pw = "''secret''"]) (use p in \<open>simp_all add: newConnection_def\<close>)
  have 2: "sessions demoConfig ?g ''alice'' (?s\<lparr>ss_server := fst demoLogin, ss_conn := (snd demoLogin)\<lparr>cx_established := True\<rparr>, ss_accepted := True\<rparr>)"
    using sessions.established [OF 1] by simp
  have 3: "expiringChannelHandler 50 (serviceChannelHandler demoGateway (Some demoDirect) True) ((snd demoLogin)\<lparr>cx_established := True\<rparr>) =
      (fst demoChannel, Proxied 7)"
    using o by (simp add: demoChannel_def prod_eq_iff)
  have g: "i = ''alice'' \<and> n = ''web''" if "demoGateway i n = Opened k" for i n k
    using that by (simp add: demoGateway_def split: if_splits)
  note 4 = sessions.channel [OF 2 _ _ g, where now = 50 and req = "Some demoDirect" and accepts = True and
      cx = "fst demoChannel" and outcome = "Proxied 7"]
  show ?thesis using 4 3 c by (simp add: demoSession_def demoDirect_def)
qed

theorem session_access_witness:
  "\<exists>a r. sc_Authenticator demoConfig a = Inr (Some r) \<and> at_Identity a = ''alice'' \<and> res_ValidBefore r = Some 100 \<and>
     cx_closed (expiryTimer 100 (ss_conn demoSession))"
proof -
  have "SawService 50 ''web'' \<in> set (ss_log demoSession)" by (simp add: demoSession_def)
  with session_access [THEN conjunct1, OF demoSession_reached, of 50] obtain a r where
    "sc_Authenticator demoConfig a = Inr (Some r)" "at_Identity a = ''alice''"
    "\<And>e. res_ValidBefore r = Some e \<Longrightarrow> \<forall>now\<ge>e. cx_closed (expiryTimer now (ss_conn demoSession))" by blast
  moreover from this(1) have "res_ValidBefore r = Some 100" by (auto simp: demoConfig_def split: if_splits)
  ultimately show ?thesis by blast
qed

text \<open>
  The SSH library asks the public-key handler about a key before the client has signed anything with
  it.  The handler already provisions: whoever offers a key that would be accepted gets the
  environment of that identity reconciled, with the handshake still open and no proof of possession.
\<close>

theorem key_offer_provisions:
  assumes "sc_Provisioner config = Some provision" "provision user"
    and "sc_Authenticator config \<lparr>at_Identity = user, at_Method = MethodPublicKey, at_Password = [], at_PublicKey = Some key\<rparr> =
      Inr (Some \<lparr>res_Identity = user, res_Provider = p, res_ValidBefore = v\<rparr>)"
  shows "\<exists>s. sessions config granted user s \<and> \<not> cx_established (ss_conn s) \<and> ss_log s = [] \<and>
    (user, True) \<in> set (sv_provisions (ss_server s))"
proof -
  let ?s = "\<lparr>ss_server = demoServer, ss_conn = newConnection user, ss_accepted = False, ss_log = []\<rparr>"
  obtain sv cx ok where h: "publicKeyHandler config key (demoServer, newConnection user) = ((sv, cx), ok)" by (metis prod.collapse)
  have "(user, True) \<in> set (sv_provisions sv)"
    using h assms by (auto simp: publicKeyHandler_def authenticateConnection_def provisionEnvironment_def newConnection_def Let_def)
  moreover have "\<not> cx_established cx" using publicKeyHandler_facts [OF h] by (simp add: handled_def newConnection_def)
  moreover have "sessions config granted user (?s\<lparr>ss_server := sv, ss_conn := cx, ss_accepted := ok\<rparr>)"
    by (rule sessions.publicKey [OF sessions.start, where key = key]) (use h in \<open>simp_all add: newConnection_def\<close>)
  ultimately show ?thesis by fastforce
qed

section \<open>Host keys\<close>

lemma private_perm: "(0x180 AND NOT m) AND 0x3F = (0 :: perm)" for m :: perm
proof -
  have "(0x180 AND NOT m) AND 0x3F = (0x180 AND 0x3F) AND NOT m" by (simp only: and.assoc and.commute and.left_commute)
  then show ?thesis by simp
qed

text \<open>
  The host key is stable: once the server has obtained a host key, every later start that can
  read the file gets the same one and changes nothing.  A missing file is created readable by the
  owner only; an existing one is left as it is, and no other file is touched.
\<close>

theorem host_key_stable:
  assumes "LoadOrCreateHostKey L generated env path fs = (fs', Inr signer)"
    and "\<And>key s. generated = Some (key, s) \<Longrightarrow> ParsePrivateKey L key = Some s"
    and "\<not> faults later SysRead"
  shows "LoadOrCreateHostKey L regenerated later path fs' = (fs', Inr signer) \<and>
    (case map_of fs path of Some _ \<Rightarrow> fs' = fs
      | None \<Rightarrow> (\<exists>p key. map_of fs' path = Some (Regular p (Some key)) \<and> p AND 0x3F = 0))"
proof (cases "readFile env path fs")
  case (Inr contents)
  then obtain key p where k: "contents = Some key" "ParsePrivateKey L key = Some signer" "fs' = fs" "map_of fs path = Some (Regular p (Some key))"
    using assms(1) by (auto simp: LoadOrCreateHostKey_def readFile_def split: option.splits node.splits if_splits)
  then show ?thesis using assms(3) by (simp add: LoadOrCreateHostKey_def readFile_def)
next
  case (Inl err)
  then have n: "err = NotExist" "map_of fs path = None"
    using assms(1) by (auto simp: LoadOrCreateHostKey_def readFile_def split: option.splits node.splits if_splits)
  obtain fs1 where m: "mkdirAll env (dirOf path) fs = (fs1, None)"
    using assms(1) Inl n by (auto simp: LoadOrCreateHostKey_def split: prod.splits option.splits)
  then obtain key where k: "generated = Some (key, signer)" "osWriteFile env path key 0x180 fs1 = (fs', True)"
    using assms(1) Inl n by (auto simp: LoadOrCreateHostKey_def split: prod.splits option.splits bool.splits)
  have "map_of fs1 path = None" using mkdirAll_keep [OF m] n by simp
  then have "map_of fs' path = Some (Regular (0x180 AND NOT (umask env)) (Some key))"
    using k(2) by (auto simp: osWriteFile_def Let_def update_conv' split: if_splits)
  then show ?thesis
    using assms(2) [OF k(1)] assms(3) n private_perm by (simp add: LoadOrCreateHostKey_def readFile_def)
qed

definition demoHostKey :: "string fs \<times> (hostkey_err + Signer)" where
  "demoHostKey = LoadOrCreateHostKey demoSsh (Some (''k1'', ''k1'')) \<lparr>faults = \<lambda>_. False, tempNames = [], umask = 0\<rparr> ''/data/host_key'' []"

theorem host_key_stable_witness:
  "LoadOrCreateHostKey demoSsh (Some (''k2'', ''k2'')) \<lparr>faults = \<lambda>_. False, tempNames = [], umask = 0\<rparr> ''/data/host_key'' (fst demoHostKey) =
     (fst demoHostKey, Inr ''k1'')"
proof -
  have "snd demoHostKey = Inr ''k1''" by code_simp
  then have d: "LoadOrCreateHostKey demoSsh (Some (''k1'', ''k1'')) \<lparr>faults = \<lambda>_. False, tempNames = [], umask = 0\<rparr> ''/data/host_key'' [] =
      (fst demoHostKey, Inr ''k1'')"
    by (simp add: demoHostKey_def prod_eq_iff)
  show ?thesis by (rule host_key_stable [THEN conjunct1, OF d]) (simp_all add: demoSsh_def)
qed

end
