(* ===== verification/Kube.thy ===== *)
theory Kube
  imports Authorization Blueprint
begin

text \<open>
  The Kubernetes backends (\<open>internal/kube\<close>, \<open>internal/scaler\<close>): the Secret of authorized keys,
  the replica counts of workloads, and the server-side apply of a rendered environment.  The API
  server is a state \<open>'w\<close>, which includes what other clients do to it; each call takes it to the next
  one.  The client library's calls, its conflict retry, its REST mapper and its configuration loader
  are parameters.
\<close>

section \<open>The client library\<close>

text \<open>The reasons of an API error that the code tells apart.  Wrapping an error keeps its reason.\<close>

datatype api_err = NotFoundErr | ConflictErr | OtherErr

record Secret =
  sec_Name :: string
  sec_Type :: string
  sec_Data :: "json_text gomap option"
  sec_ResourceVersion :: string

record 'w secretClient =
  getSecret :: "string \<Rightarrow> 'w \<Rightarrow> 'w \<times> (api_err + Secret)"
  createSecret :: "string \<Rightarrow> Secret \<Rightarrow> 'w \<Rightarrow> 'w \<times> api_err option"
  updateSecret :: "string \<Rightarrow> Secret \<Rightarrow> 'w \<Rightarrow> 'w \<times> api_err option"

text \<open>
  What \<open>retry.RetryOnConflict\<close> documents: the function runs again as long as it ends in a conflict,
  for a number of times that the backoff limits, and its last error is returned.
\<close>

fun tries :: "('e \<Rightarrow> bool) \<Rightarrow> nat \<Rightarrow> ('w \<Rightarrow> 'w \<times> 'e option) \<Rightarrow> 'w \<Rightarrow> 'w \<times> 'e option" where
  "tries conflict 0 fn w = fn w"
| "tries conflict (Suc n) fn w =
     (case fn w of
        (w', Some e) \<Rightarrow> if conflict e then tries conflict n fn w' else (w', Some e)
      | (w', None) \<Rightarrow> (w', None))"

type_synonym ('w, 'e) retry = "('w \<Rightarrow> 'w \<times> 'e option) \<Rightarrow> 'w \<Rightarrow> 'w \<times> 'e option"

definition documented_RetryOnConflict :: "('e \<Rightarrow> bool) \<Rightarrow> ('w, 'e) retry \<Rightarrow> bool" where
  "documented_RetryOnConflict conflict retry \<longleftrightarrow> (\<forall>fn w. \<exists>n. retry fn w = tries conflict n fn w)"

section \<open>Authorized keys\<close>

definition PublicKeysDataKey :: string where "PublicKeysDataKey = ''authorized_keys.json''"
definition defaultFieldManager :: string where "defaultFieldManager = ''tearenv''"
definition SecretTypeOpaque :: string where "SecretTypeOpaque = ''Opaque''"

record AuthorizedKeyOptions =
  ak_Kubeconfig :: string
  ak_Context :: string
  ak_Namespace :: string
  ak_Secret :: string
  ak_Identity :: string

datatype kube_err =
    KubeNamespaceRequired | KubeSecretRequired | KubeConfigFailed | KubeClientFailed | SecretClientRequired
  | KubeKeys keys_err | SecretGet api_err | SecretCreate api_err | SecretUpdate api_err

fun kubeConflict :: "kube_err \<Rightarrow> bool" where
  "kubeConflict (SecretGet e) = (e = ConflictErr)"
| "kubeConflict (SecretCreate e) = (e = ConflictErr)"
| "kubeConflict (SecretUpdate e) = (e = ConflictErr)"
| "kubeConflict e = False"

text \<open>The bytes below a data key; a missing one reads as no bytes.\<close>

definition secretText :: "Secret \<Rightarrow> json_text" where
  "secretText s = (case sec_Data s of None \<Rightarrow> BlankText | Some d \<Rightarrow>
     (case map_of d PublicKeysDataKey of None \<Rightarrow> BlankText | Some t \<Rightarrow> t))"

definition withKeys :: "json \<Rightarrow> Secret \<Rightarrow> Secret" where
  "withKeys contents s =
     s\<lparr>sec_Data := Some (AList.update PublicKeysDataKey (JsonText contents) (case sec_Data s of None \<Rightarrow> [] | Some d \<Rightarrow> d))\<rparr>"

definition freshSecret :: "string \<Rightarrow> json \<Rightarrow> Secret" where
  "freshSecret name contents =
     \<lparr>sec_Name = name, sec_Type = SecretTypeOpaque, sec_Data = Some [(PublicKeysDataKey, JsonText contents)], sec_ResourceVersion = []\<rparr>"

definition upsertAttempt :: "ssh_lib \<Rightarrow> 'w secretClient \<Rightarrow> string \<Rightarrow> string \<Rightarrow> PublicKey option \<Rightarrow> 'w \<Rightarrow> 'w \<times> kube_err option" where
  "upsertAttempt L secrets name identity key w =
     (case getSecret secrets name w of
        (w1, Inl NotFoundErr) \<Rightarrow>
          (case UpsertPublicKey L BlankText identity key of
             Inl e \<Rightarrow> (w1, Some (KubeKeys e))
           | Inr contents \<Rightarrow>
               (case createSecret secrets defaultFieldManager (freshSecret name contents) w1 of
                  (w2, Some e) \<Rightarrow> (w2, Some (SecretCreate e))
                | (w2, None) \<Rightarrow> (w2, None)))
      | (w1, Inl e) \<Rightarrow> (w1, Some (SecretGet e))
      | (w1, Inr secret) \<Rightarrow>
          (case UpsertPublicKey L (secretText secret) identity key of
             Inl e \<Rightarrow> (w1, Some (KubeKeys e))
           | Inr contents \<Rightarrow>
               (case updateSecret secrets defaultFieldManager (withKeys contents secret) w1 of
                  (w2, Some e) \<Rightarrow> (w2, Some (SecretUpdate e))
                | (w2, None) \<Rightarrow> (w2, None))))"

definition UpsertAuthorizedKeySecret :: "('w, kube_err) retry \<Rightarrow> ssh_lib \<Rightarrow> 'w secretClient option \<Rightarrow> string \<Rightarrow> string \<Rightarrow> PublicKey option \<Rightarrow>
    'w \<Rightarrow> 'w \<times> kube_err option" where
  "UpsertAuthorizedKeySecret retry L secrets name identity key w =
     (case secrets of
        None \<Rightarrow> (w, Some SecretClientRequired)
      | Some c \<Rightarrow> retry (upsertAttempt L c name identity key) w)"

text \<open>
  The configuration loader takes an explicit path, when one is given, and a context name; a client
  made from its result gives the Secret client of a namespace.
\<close>

definition RegisterAuthorizedKey :: "(string option \<Rightarrow> string \<Rightarrow> 'cfg option) \<Rightarrow> ('cfg \<Rightarrow> (string \<Rightarrow> 'w secretClient) option) \<Rightarrow>
    ('w, kube_err) retry \<Rightarrow> ssh_lib \<Rightarrow> AuthorizedKeyOptions \<Rightarrow> PublicKey option \<Rightarrow> 'w \<Rightarrow> 'w \<times> kube_err option" where
  "RegisterAuthorizedKey clientConfig newForConfig retry L options key w =
     (if ak_Namespace options = [] then (w, Some KubeNamespaceRequired)
      else if ak_Secret options = [] then (w, Some KubeSecretRequired)
      else case clientConfig (if ak_Kubeconfig options \<noteq> [] then Some (ak_Kubeconfig options) else None) (ak_Context options) of
        None \<Rightarrow> (w, Some KubeConfigFailed)
      | Some config \<Rightarrow>
          (case newForConfig config of
             None \<Rightarrow> (w, Some KubeClientFailed)
           | Some secretsOf \<Rightarrow>
               UpsertAuthorizedKeySecret retry L (Some (secretsOf (ak_Namespace options))) (ak_Secret options) (ak_Identity options) key w))"

section \<open>Replica counts\<close>

record Target =
  tg_Kind :: string
  tg_Namespace :: string
  tg_Name :: string

datatype workload_kind = Deployments | StatefulSets

record Scale =
  scl_Replicas :: int
  scl_ResourceVersion :: string

record 'w scaleClient =
  getScale :: "workload_kind \<Rightarrow> string \<Rightarrow> string \<Rightarrow> 'w \<Rightarrow> 'w \<times> (api_err + Scale)"
  updateScale :: "workload_kind \<Rightarrow> string \<Rightarrow> string \<Rightarrow> Scale \<Rightarrow> 'w \<Rightarrow> 'w \<times> api_err option"

datatype scale_operation = GetOperation | UpdateOperation

datatype scale_err =
    ScaleClientRequired | ScaleTargetRequired | ScaleNegative int | ScaleKind string
  | ScaleCall scale_operation Target api_err

fun scaleConflict :: "scale_err \<Rightarrow> bool" where
  "scaleConflict (ScaleCall _ _ e) = (e = ConflictErr)"
| "scaleConflict e = False"

definition scaleAttempt :: "'w scaleClient \<Rightarrow> workload_kind \<Rightarrow> Target \<Rightarrow> int \<Rightarrow> 'w \<Rightarrow> 'w \<times> scale_err option" where
  "scaleAttempt client kind target replicas w =
     (case getScale client kind (tg_Namespace target) (tg_Name target) w of
        (w1, Inl e) \<Rightarrow> (w1, Some (ScaleCall GetOperation target e))
      | (w1, Inr scale) \<Rightarrow>
          (case updateScale client kind (tg_Namespace target) (tg_Name target) (scale\<lparr>scl_Replicas := replicas\<rparr>) w1 of
             (w2, Some e) \<Rightarrow> (w2, Some (ScaleCall UpdateOperation target e))
           | (w2, None) \<Rightarrow> (w2, None)))"

definition workloadsOf :: "string \<Rightarrow> workload_kind option" where
  "workloadsOf kind = (if kind = ''deployment'' then Some Deployments else if kind = ''statefulset'' then Some StatefulSets else None)"

definition kubeScale :: "('w, scale_err) retry \<Rightarrow> 'w scaleClient option \<Rightarrow> Target \<Rightarrow> int \<Rightarrow> 'w \<Rightarrow> 'w \<times> scale_err option" where
  "kubeScale retry backend target replicas w =
     (case backend of
        None \<Rightarrow> (w, Some ScaleClientRequired)
      | Some client \<Rightarrow>
          if tg_Namespace target = [] \<or> tg_Name target = [] then (w, Some ScaleTargetRequired)
          else if replicas < 0 then (w, Some (ScaleNegative replicas))
          else (case workloadsOf (tg_Kind target) of
              None \<Rightarrow> (w, Some (ScaleKind (tg_Kind target)))
            | Some kind \<Rightarrow> retry (scaleAttempt client kind target replicas) w))"

definition NewInClusterScaler :: "'cfg option \<Rightarrow> ('cfg \<Rightarrow> 'w scaleClient option) \<Rightarrow> kube_err + 'w scaleClient" where
  "NewInClusterScaler inClusterConfig newForConfig =
     (case inClusterConfig of
        None \<Rightarrow> Inl KubeConfigFailed
      | Some config \<Rightarrow> (case newForConfig config of None \<Rightarrow> Inl KubeClientFailed | Some client \<Rightarrow> Inr client))"

section \<open>Environments\<close>

text \<open>Group, version and plural resource name.\<close>

type_synonym gvr = "string \<times> string \<times> string"

definition blueprintFieldManager :: string where "blueprintFieldManager = ''tearenv-blueprint''"
definition namespaceResource :: gvr where "namespaceResource = ([], ''v1'', ''namespaces'')"

record applyOperation =
  op_resource :: gvr
  op_namespace :: string
  op_name :: string
  op_contents :: goval

text \<open>One server-side apply; no namespace makes it cluster-scoped.\<close>

record patchCall =
  pt_resource :: gvr
  pt_namespace :: "string option"
  pt_name :: string
  pt_contents :: goval
  pt_fieldManager :: string
  pt_force :: bool

record rest_mapper =
  parseGroupVersion :: "string \<Rightarrow> (string \<times> string) option"
  restMapping :: "string \<Rightarrow> string \<Rightarrow> string \<Rightarrow> (gvr \<times> bool) option"

type_synonym 'w patcher = "patchCall \<Rightarrow> 'w \<Rightarrow> 'w \<times> bool"

record 'w BlueprintApplier =
  ba_patcher :: "'w patcher option"
  ba_mapper :: "rest_mapper option"

definition NewBlueprintApplier :: "'w patcher option \<Rightarrow> rest_mapper option \<Rightarrow> 'w BlueprintApplier" where
  "NewBlueprintApplier client mapper =
     (case client of
        None \<Rightarrow> \<lparr>ba_patcher = None, ba_mapper = mapper\<rparr>
      | Some c \<Rightarrow> \<lparr>ba_patcher = Some c, ba_mapper = mapper\<rparr>)"

definition NewInClusterBlueprintApplier :: "'cfg option \<Rightarrow> ('cfg \<Rightarrow> 'w patcher option) \<Rightarrow> ('cfg \<Rightarrow> rest_mapper option) \<Rightarrow>
    kube_err + 'w BlueprintApplier" where
  "NewInClusterBlueprintApplier inClusterConfig newDynamic newDiscovery =
     (case inClusterConfig of
        None \<Rightarrow> Inl KubeConfigFailed
      | Some config \<Rightarrow>
          (case newDynamic config of
             None \<Rightarrow> Inl KubeClientFailed
           | Some client \<Rightarrow>
               (case newDiscovery config of
                  None \<Rightarrow> Inl KubeClientFailed
                | Some mapper \<Rightarrow> Inr (NewBlueprintApplier (Some client) (Some mapper)))))"

datatype reconcile_err =
    ApplierRequired | GroupVersionInvalid nat string | NoMapping nat string string | NotNamespaced nat string string
  | ApplyFailed string string string

definition namespaceContents :: "Instance \<Rightarrow> goval" where
  "namespaceContents inst =
     VMap [(''apiVersion'', VStr ''v1''), (''kind'', VStr ''Namespace''),
       (''metadata'', VMap [(''name'', VStr (in_Namespace inst)),
         (''labels'', VMap (map (\<lambda>(k, v). (k, VStr v)) (in_Labels inst)))])]"

definition namespaceOperation :: "Instance \<Rightarrow> applyOperation" where
  "namespaceOperation inst =
     \<lparr>op_resource = namespaceResource, op_namespace = [], op_name = in_Namespace inst, op_contents = namespaceContents inst\<rparr>"

definition resourceOperation :: "rest_mapper \<Rightarrow> string \<Rightarrow> nat \<Rightarrow> Resource \<Rightarrow> reconcile_err + applyOperation" where
  "resourceOperation mapper namespace index resource =
     (let apiVersion = asString (map_of resource ''apiVersion'');
          kind = asString (map_of resource ''kind'');
          name = asString (map_of (asMap (map_of resource ''metadata'')) ''name'')
      in case parseGroupVersion mapper apiVersion of
           None \<Rightarrow> Inl (GroupVersionInvalid index apiVersion)
         | Some (grp, version) \<Rightarrow>
             (case restMapping mapper grp kind version of
                None \<Rightarrow> Inl (NoMapping index apiVersion kind)
              | Some (resourceName, namespaced) \<Rightarrow>
                  if \<not> namespaced then Inl (NotNamespaced index apiVersion kind)
                  else Inr \<lparr>op_resource = resourceName, op_namespace = namespace, op_name = name, op_contents = VMap resource\<rparr>))"

fun resourceOperations :: "rest_mapper \<Rightarrow> string \<Rightarrow> nat \<Rightarrow> Resource list \<Rightarrow> reconcile_err + applyOperation list" where
  "resourceOperations mapper namespace index [] = Inr []"
| "resourceOperations mapper namespace index (r # rs) =
     (case resourceOperation mapper namespace index r of
        Inl e \<Rightarrow> Inl e
      | Inr operation \<Rightarrow> map_sum id ((#) operation) (resourceOperations mapper namespace (Suc index) rs))"

definition operations :: "rest_mapper \<Rightarrow> Instance \<Rightarrow> reconcile_err + applyOperation list" where
  "operations mapper inst =
     map_sum id ((#) (namespaceOperation inst)) (resourceOperations mapper (in_Namespace inst) 0 (in_Resources inst))"

definition patchOf :: "applyOperation \<Rightarrow> patchCall" where
  "patchOf operation =
     \<lparr>pt_resource = op_resource operation, pt_namespace = (if op_namespace operation \<noteq> [] then Some (op_namespace operation) else None),
      pt_name = op_name operation, pt_contents = op_contents operation, pt_fieldManager = blueprintFieldManager, pt_force = True\<rparr>"

fun applyAll :: "'w patcher \<Rightarrow> applyOperation list \<Rightarrow> 'w \<Rightarrow> 'w \<times> reconcile_err option" where
  "applyAll patch [] w = (w, None)"
| "applyAll patch (operation # rest) w =
     (case patch (patchOf operation) w of
        (w1, False) \<Rightarrow> (w1, Some (ApplyFailed (snd (snd (op_resource operation))) (op_namespace operation) (op_name operation)))
      | (w1, True) \<Rightarrow> applyAll patch rest w1)"

definition Reconcile :: "'w BlueprintApplier option \<Rightarrow> Instance \<Rightarrow> 'w \<Rightarrow> 'w \<times> reconcile_err option" where
  "Reconcile applier inst w =
     (case (Option.bind applier ba_patcher, Option.bind applier ba_mapper) of
        (Some patch, Some mapper) \<Rightarrow>
          (case operations mapper inst of
             Inl e \<Rightarrow> (w, Some e)
           | Inr ops \<Rightarrow> applyAll patch ops w)
      | _ \<Rightarrow> (w, Some ApplierRequired))"

end
