(* ===== verification/Kube_Properties.thy ===== *)
theory Kube_Properties
  imports Kube Authorization_Properties Blueprint_Properties
begin

text \<open>
  What the Kubernetes backends do to the cluster, given the documented behaviour of the API server:
  optimistic concurrency on Secrets and scales, and a retry that repeats whole attempts.
\<close>

section \<open>Retrying\<close>

lemma tries_ends: "tries conflict n fn w = r \<Longrightarrow> \<exists>w0. fn w0 = r"
  by (induction n arbitrary: w) (auto split: prod.splits option.splits if_splits)

lemma documented_retry_ends: "documented_RetryOnConflict conflict retry \<Longrightarrow> retry fn w = r \<Longrightarrow> \<exists>w0. fn w0 = r"
  unfolding documented_RetryOnConflict_def by (metis tries_ends)

lemma tries_documented: "documented_RetryOnConflict conflict (tries conflict n)"
  unfolding documented_RetryOnConflict_def by blast

section \<open>The Secret of authorized keys\<close>

text \<open>
  \<open>view w name\<close> is the stored Secret.  A successful update replaces exactly the version that was
  submitted, and a successful create found nothing.
\<close>

definition documented_secrets :: "('w \<Rightarrow> string \<Rightarrow> Secret option) \<Rightarrow> 'w secretClient \<Rightarrow> bool" where
  "documented_secrets view C \<longleftrightarrow>
     (\<forall>n w w' s. getSecret C n w = (w', Inr s) \<longrightarrow> view w' n = Some s \<and> sec_Name s = n) \<and>
     (\<forall>n w w'. getSecret C n w = (w', Inl NotFoundErr) \<longrightarrow> view w' n = None) \<and>
     (\<forall>m s w w'. createSecret C m s w = (w', None) \<longrightarrow>
        view w (sec_Name s) = None \<and> (\<exists>v. view w' (sec_Name s) = Some (s\<lparr>sec_ResourceVersion := v\<rparr>))) \<and>
     (\<forall>m s w w'. updateSecret C m s w = (w', None) \<longrightarrow>
        (\<exists>s0 v. view w (sec_Name s) = Some s0 \<and> sec_ResourceVersion s0 = sec_ResourceVersion s \<and>
           view w' (sec_Name s) = Some (s\<lparr>sec_ResourceVersion := v\<rparr>)))"

definition storedText :: "Secret option \<Rightarrow> json_text" where
  "storedText s = (case s of None \<Rightarrow> BlankText | Some s \<Rightarrow> secretText s)"

definition dataOf :: "Secret option \<Rightarrow> string \<Rightarrow> json_text option" where
  "dataOf s = map_of (case Option.bind s sec_Data of None \<Rightarrow> [] | Some d \<Rightarrow> d)"

lemma withKeys_simps [simp]:
  "sec_Name (withKeys j s) = sec_Name s" "sec_ResourceVersion (withKeys j s) = sec_ResourceVersion s"
  "secretText (withKeys j s\<lparr>sec_ResourceVersion := v\<rparr>) = JsonText j"
  "n \<noteq> PublicKeysDataKey \<Longrightarrow> dataOf (Some (withKeys j s\<lparr>sec_ResourceVersion := v\<rparr>)) n = dataOf (Some s) n"
  by (auto simp: withKeys_def secretText_def dataOf_def update_conv' split: option.splits)

lemma freshSecret_simps:
  "sec_Name (freshSecret name j) = name" "secretText (freshSecret name j\<lparr>sec_ResourceVersion := v\<rparr>) = JsonText j"
  "n \<noteq> PublicKeysDataKey \<Longrightarrow> dataOf (Some (freshSecret name j\<lparr>sec_ResourceVersion := v\<rparr>)) n = dataOf None n"
  by (simp_all add: freshSecret_def secretText_def dataOf_def)

text \<open>A successful attempt: what it replaced and what it left.\<close>

lemma upsertAttempt_success:
  assumes D: "documented_secrets view C" and u: "upsertAttempt L C name i key w = (w', None)"
  obtains w1 j s' where "UpsertPublicKey L (storedText (view w1 name)) i key = Inr j" "view w' name = Some s'"
    "secretText s' = JsonText j" "\<forall>n. n \<noteq> PublicKeysDataKey \<longrightarrow> dataOf (Some s') n = dataOf (view w1 name) n"
    "(\<exists>m s. createSecret C m s w1 = (w', None)) \<or> (\<exists>m s. updateSecret C m s w1 = (w', None))"
proof (cases "snd (getSecret C name w)")
  case (Inl e)
  obtain w1 where g: "getSecret C name w = (w1, Inl e)" using Inl by (metis prod.collapse)
  with u have n: "e = NotFoundErr" by (cases e) (auto simp: upsertAttempt_def)
  with u g obtain j where j: "UpsertPublicKey L BlankText i key = Inr j" "createSecret C defaultFieldManager (freshSecret name j) w1 = (w', None)"
    by (auto simp: upsertAttempt_def split: sum.splits option.splits prod.splits)
  have "view w1 name = None" using D g n by (auto simp: documented_secrets_def)
  moreover obtain v where v: "view w' (sec_Name (freshSecret name j)) = Some (freshSecret name j\<lparr>sec_ResourceVersion := v\<rparr>)"
    using D j(2) unfolding documented_secrets_def by meson
  ultimately show thesis
    by (intro that [of w1 j "freshSecret name j\<lparr>sec_ResourceVersion := v\<rparr>"])
      (use j in \<open>auto simp: storedText_def freshSecret_simps\<close>)
next
  case (Inr s)
  obtain w1 where g: "getSecret C name w = (w1, Inr s)" using Inr by (metis prod.collapse)
  with u obtain j where j: "UpsertPublicKey L (secretText s) i key = Inr j" "updateSecret C defaultFieldManager (withKeys j s) w1 = (w', None)"
    by (auto simp: upsertAttempt_def split: sum.splits option.splits prod.splits)
  have s: "view w1 name = Some s" "sec_Name s = name" using D g by (auto simp: documented_secrets_def)
  obtain v where v: "view w' (sec_Name (withKeys j s)) = Some (withKeys j s\<lparr>sec_ResourceVersion := v\<rparr>)"
    using D j(2) unfolding documented_secrets_def by meson
  show thesis
    by (rule that [of w1 j "withKeys j s\<lparr>sec_ResourceVersion := v\<rparr>"]) (use s v j in \<open>auto simp: storedText_def\<close>)
qed


text \<open>
  A one-Secret API server.  The number counts the writes by others that still come between a read and
  an update; each of them makes the update a conflict.
\<close>

type_synonym demo_world = "Secret option \<times> nat"

definition demoView :: "demo_world \<Rightarrow> string \<Rightarrow> Secret option" where
  "demoView w n = (case fst w of None \<Rightarrow> None | Some s \<Rightarrow> if sec_Name s = n then Some s else None)"

definition bumped :: "Secret \<Rightarrow> Secret" where
  "bumped s = s\<lparr>sec_ResourceVersion := CHR ''x'' # sec_ResourceVersion s\<rparr>"

definition demoSecrets :: "demo_world secretClient" where
  "demoSecrets = \<lparr>
     getSecret = (\<lambda>n w. (w, case demoView w n of None \<Rightarrow> Inl NotFoundErr | Some s \<Rightarrow> Inr s)),
     createSecret = (\<lambda>_ s w. if fst w = None then ((Some (bumped s), snd w), None) else (w, Some OtherErr)),
     updateSecret = (\<lambda>_ s w.
       case demoView w (sec_Name s) of
         None \<Rightarrow> (w, Some NotFoundErr)
       | Some s0 \<Rightarrow>
           if 0 < snd w then ((Some (bumped s0), snd w - 1), Some ConflictErr)
           else if sec_ResourceVersion s0 \<noteq> sec_ResourceVersion s then (w, Some ConflictErr)
           else ((Some (bumped s), 0), None))\<rparr>"

lemma demoSecrets_documented: "documented_secrets demoView demoSecrets"
  by (auto simp: documented_secrets_def demoSecrets_def demoView_def bumped_def split: option.splits if_splits)

definition demoStoredSecret :: Secret where
  "demoStoredSecret = \<lparr>sec_Name = ''keys'', sec_Type = SecretTypeOpaque, sec_Data = Some [(''note'', BlankText)], sec_ResourceVersion = ''1''\<rparr>"

definition demoRegister :: "demo_world \<times> kube_err option" where
  "demoRegister = UpsertAuthorizedKeySecret (tries kubeConflict 4) demoSsh (Some demoSecrets) ''keys'' ''ada'' (Some demoKeyA)
     (Some demoStoredSecret, 2)"


section \<open>Replica counts\<close>

definition documented_scales :: "('w \<Rightarrow> workload_kind \<Rightarrow> string \<Rightarrow> string \<Rightarrow> int option) \<Rightarrow> 'w scaleClient \<Rightarrow> bool" where
  "documented_scales replicasOf C \<longleftrightarrow>
     (\<forall>k ns n s w w'. updateScale C k ns n s w = (w', None) \<longrightarrow>
        replicasOf w' k ns n = Some (scl_Replicas s) \<and>
        (\<forall>k2 ns2 n2. (k2, ns2, n2) \<noteq> (k, ns, n) \<longrightarrow> replicasOf w' k2 ns2 n2 = replicasOf w k2 ns2 n2))"

text \<open>
  Scaling either refuses its arguments without calling the API, or works on the Deployment or
  StatefulSet that the target names; when it succeeds that workload has the requested, non-negative
  number of replicas, set by one update that touched no other workload.
\<close>

theorem kubeScale_outcome:
  assumes "documented_RetryOnConflict scaleConflict retry" "documented_scales replicasOf C"
    and "kubeScale retry backend target replicas w = (w', err)"
  shows "(backend = None \<or> tg_Namespace target = [] \<or> tg_Name target = [] \<or> replicas < 0 \<or>
      tg_Kind target \<notin> {''deployment'', ''statefulset''} \<longrightarrow> w' = w \<and> err \<noteq> None) \<and>
    (backend = Some C \<and> err = None \<longrightarrow> 0 \<le> replicas \<and>
      (\<exists>w1 kind. workloadsOf (tg_Kind target) = Some kind \<and>
        replicasOf w' kind (tg_Namespace target) (tg_Name target) = Some replicas \<and>
        (\<forall>k2 ns2 n2. (k2, ns2, n2) \<noteq> (kind, tg_Namespace target, tg_Name target) \<longrightarrow> replicasOf w' k2 ns2 n2 = replicasOf w1 k2 ns2 n2)))"
proof (rule conjI; rule impI)
  show "w' = w \<and> err \<noteq> None" if "backend = None \<or> tg_Namespace target = [] \<or> tg_Name target = [] \<or> replicas < 0 \<or>
      tg_Kind target \<notin> {''deployment'', ''statefulset''}"
    using that assms(3) by (auto simp: kubeScale_def workloadsOf_def split: option.splits if_splits)
next
  assume "backend = Some C \<and> err = None"
  then have b: "backend = Some C" and e: "err = None" by auto
  obtain kind where k: "0 \<le> replicas" "workloadsOf (tg_Kind target) = Some kind" "retry (scaleAttempt C kind target replicas) w = (w', None)"
    using assms(3) b e by (auto simp: kubeScale_def split: if_splits option.splits)
  obtain w0 where "scaleAttempt C kind target replicas w0 = (w', None)" using documented_retry_ends [OF assms(1) k(3)] by blast
  then obtain w1 s where u: "updateScale C kind (tg_Namespace target) (tg_Name target) (s\<lparr>scl_Replicas := replicas\<rparr>) w1 = (w', None)"
    by (auto simp: scaleAttempt_def split: prod.splits sum.splits option.splits)
  then have "replicasOf w' kind (tg_Namespace target) (tg_Name target) = Some replicas \<and>
      (\<forall>k2 ns2 n2. (k2, ns2, n2) \<noteq> (kind, tg_Namespace target, tg_Name target) \<longrightarrow> replicasOf w' k2 ns2 n2 = replicasOf w1 k2 ns2 n2)"
    using assms(2) unfolding documented_scales_def by (metis Scale.select_convs(1) Scale.simps(3) Scale.surjective Scale.update_convs(1))
  with k show "0 \<le> replicas \<and>
      (\<exists>w1 kind. workloadsOf (tg_Kind target) = Some kind \<and>
        replicasOf w' kind (tg_Namespace target) (tg_Name target) = Some replicas \<and>
        (\<forall>k2 ns2 n2. (k2, ns2, n2) \<noteq> (kind, tg_Namespace target, tg_Name target) \<longrightarrow> replicasOf w' k2 ns2 n2 = replicasOf w1 k2 ns2 n2))"
    by blast
qed

definition demoScales :: "((workload_kind \<times> string \<times> string \<Rightarrow> int option) \<times> nat) scaleClient" where
  "demoScales = \<lparr>
     getScale = (\<lambda>k ns n w. (w, case fst w (k, ns, n) of None \<Rightarrow> Inl NotFoundErr | Some r \<Rightarrow> Inr \<lparr>scl_Replicas = r, scl_ResourceVersion = []\<rparr>)),
     updateScale = (\<lambda>k ns n s w. if 0 < snd w then ((fst w, snd w - 1), Some ConflictErr)
       else (((fst w)((k, ns, n) := Some (scl_Replicas s)), 0), None))\<rparr>"

lemma demoScales_documented: "documented_scales (\<lambda>w k ns n. fst w (k, ns, n)) demoScales"
  by (auto simp: documented_scales_def demoScales_def split: if_splits)

theorem kubeScale_outcome_witness:
  "\<exists>w'. kubeScale (tries scaleConflict 4) (Some demoScales) \<lparr>tg_Kind = ''statefulset'', tg_Namespace = ''dev'', tg_Name = ''db''\<rparr> 2
      ((\<lambda>_. Some 0), 1) = (w', None) \<and> fst w' (StatefulSets, ''dev'', ''db'') = Some 2"
proof -
  obtain w' where k: "kubeScale (tries scaleConflict 4) (Some demoScales) \<lparr>tg_Kind = ''statefulset'', tg_Namespace = ''dev'', tg_Name = ''db''\<rparr> 2
      ((\<lambda>_. Some 0), 1) = (w', None)"
    by (simp add: kubeScale_def workloadsOf_def demoScales_def scaleAttempt_def eval_nat_numeral)
  with kubeScale_outcome [OF tries_documented demoScales_documented k, THEN conjunct2, THEN mp] show ?thesis
    by (simp add: workloadsOf_def)
qed

section \<open>Environments\<close>

text \<open>An API server that records every apply and accepts some of them.\<close>

definition recorder :: "(patchCall \<Rightarrow> bool) \<Rightarrow> patchCall list patcher" where
  "recorder accepts c calls = (calls @ [c], accepts c)"

lemma applyAll_recorded:
  "applyAll (recorder accepts) ops w = (w', err) \<Longrightarrow>
   \<exists>n. n \<le> length ops \<and> w' = w @ take n (map patchOf ops) \<and> (ops \<noteq> [] \<longrightarrow> 0 < n) \<and>
     list_all accepts (take (n - 1) (map patchOf ops)) \<and> (err = None \<longleftrightarrow> list_all accepts (map patchOf ops))"
proof (induction ops arbitrary: w)
  case Nil
  then show ?case by simp
next
  case (Cons x ops)
  show ?case
  proof (cases "accepts (patchOf x)")
    case True
    with Cons.prems have "applyAll (recorder accepts) ops (w @ [patchOf x]) = (w', err)"
      by (simp add: recorder_def [abs_def])
    from Cons.IH [OF this] obtain n where n: "n \<le> length ops" "w' = (w @ [patchOf x]) @ take n (map patchOf ops)"
      "list_all accepts (take (n - 1) (map patchOf ops))" "err = None \<longleftrightarrow> list_all accepts (map patchOf ops)" "ops \<noteq> [] \<longrightarrow> 0 < n"
      by blast
    have "list_all accepts (take n (map patchOf (x # ops)))" using n(1,3,5) True by (cases n) auto
    with n True show ?thesis by (intro exI [of _ "Suc n"]) simp
  next
    case False
    with Cons.prems have "w' = w @ [patchOf x]" "err \<noteq> None" by (auto simp: recorder_def)
    with False show ?thesis by (intro exI [of _ 1]) simp
  qed
qed

text \<open>The apply that a namespaced resource stands for.\<close>

definition operationFor :: "rest_mapper \<Rightarrow> string \<Rightarrow> Resource \<Rightarrow> applyOperation \<Rightarrow> bool" where
  "operationFor mapper ns r op \<longleftrightarrow> op_namespace op = ns \<and> op_contents op = VMap r \<and>
     op_name op = asString (map_of (asMap (map_of r ''metadata'')) ''name'') \<and>
     (\<exists>g v. parseGroupVersion mapper (asString (map_of r ''apiVersion'')) = Some (g, v) \<and>
        restMapping mapper g (asString (map_of r ''kind'')) v = Some (op_resource op, True))"

lemma resourceOperation_OK: "resourceOperation mapper ns i r = Inr op \<longleftrightarrow> operationFor mapper ns r op"
  by (cases op) (auto simp: resourceOperation_def operationFor_def Let_def split: option.splits)

lemma map_sum_Inr_iff: "map_sum f g x = Inr y \<longleftrightarrow> (\<exists>z. x = Inr z \<and> y = g z)"
  by (cases x) auto

lemma resourceOperations_OK: "resourceOperations mapper ns i rs = Inr ops \<longleftrightarrow> list_all2 (operationFor mapper ns) rs ops"
proof (induction rs arbitrary: i ops)
  case Nil
  then show ?case by auto
next
  case (Cons r rs)
  show ?case
  proof (cases "resourceOperation mapper ns i r")
    case (Inl e)
    then have "\<not> operationFor mapper ns r op" for op using resourceOperation_OK [of mapper ns i r op] by simp
    with Inl show ?thesis by (auto simp: list_all2_Cons1)
  next
    case (Inr op)
    then have "operationFor mapper ns r op' \<longleftrightarrow> op' = op" for op' using resourceOperation_OK [of mapper ns i r op'] by auto
    with Inr Cons.IH show ?thesis by (auto simp: map_sum_Inr_iff list_all2_Cons1)
  qed
qed

lemma operations_OK:
  "operations mapper inst = Inr ops \<longleftrightarrow>
   (\<exists>rs. ops = namespaceOperation inst # rs \<and> list_all2 (operationFor mapper (in_Namespace inst)) (in_Resources inst) rs)"
  by (auto simp: operations_def map_sum_Inr_iff resourceOperations_OK)


definition demoMapper :: rest_mapper where
  "demoMapper = \<lparr>parseGroupVersion = (\<lambda>s. if s = ''v1'' then Some ([], s) else Some (''apps'', ''v1'')),
     restMapping = (\<lambda>g k v. if k = ''Namespace'' then Some (([], v, ''namespaces''), False) else Some ((g, v, k), True))\<rparr>"

definition demoInstance :: Instance where
  "demoInstance = (case Instantiate demoK8s (\<lambda>s. s) (\<lambda>_. True) demoBlueprint ''ada'' of Inr inst \<Rightarrow> inst)"

definition demoReconcile :: "patchCall list \<times> reconcile_err option" where
  "demoReconcile = Reconcile (Some \<lparr>ba_patcher = Some (recorder (\<lambda>_. True)), ba_mapper = Some demoMapper\<rparr>) demoInstance []"


end
