(* ===== verification/Daemon.thy ===== *)
theory Daemon
  imports Registration_Http Environment Server Kube
begin

text \<open>
  The daemon command (\<open>cmd/tearenvd\<close>): option defaults, the service grant, the selection and
  configuration of the authentication mode and the start-up of \<open>serve\<close>.  The supervision of its
  listeners is in \<open>Daemon_Supervision\<close>, the flags in \<open>Daemon_Command\<close>.  The credentials file and the
  other files live in two file systems, since the contents of the former are JSON values.
\<close>

section \<open>Options\<close>

definition defaultListenAddress :: string where "defaultListenAddress = '':2222''"
definition defaultAPIAddress :: string where "defaultAPIAddress = ''127.0.0.1:8080''"
definition defaultMetricsAddress :: string where "defaultMetricsAddress = '':9090''"
definition defaultHostKeyPath :: string where "defaultHostKeyPath = ''.data/ssh_host_ed25519_key''"
definition defaultUsersPath :: string where "defaultUsersPath = ''.data/users.json''"
definition defaultRegistrationsPath :: string where "defaultRegistrationsPath = ''.data/registrations''"
definition defaultRegistrationNamespace :: string where "defaultRegistrationNamespace = ''default''"
definition defaultBlueprintName :: string where "defaultBlueprintName = ''developer-environment''"

record grantOptions =
  gr_usersPath :: string
  gr_identity :: string
  gr_name :: string
  gr_target :: string
  gr_localPort :: int
  gr_workloadKind :: string
  gr_workloadNamespace :: string
  gr_workloadName :: string
  gr_replicas :: int
  gr_readyTimeout :: duration
  gr_idleTimeout :: duration

definition defaultGrantOptions :: grantOptions where
  "defaultGrantOptions = \<lparr>gr_usersPath = defaultUsersPath, gr_identity = [], gr_name = [], gr_target = [], gr_localPort = 0,
     gr_workloadKind = [], gr_workloadNamespace = [], gr_workloadName = [], gr_replicas = 1,
     gr_readyTimeout = 2 * Minute, gr_idleTimeout = 10 * Minute\<rparr>"

record serveOptions =
  so_listenAddress :: string
  so_apiAddress :: string
  so_metricsAddress :: string
  so_hostKeyPath :: string
  so_usersPath :: string
  so_registrationsPath :: string
  so_registrationNamespace :: string
  so_registrationAuthMode :: string
  so_registrationTokenPath :: string
  so_oidcIssuerURL :: string
  so_oidcClientID :: string
  so_oidcAudience :: string
  so_oidcIdentityClaim :: string
  so_oidcScopes :: "string list"
  so_oidcSubjectTokenType :: string
  so_oidcDeviceFlow :: bool
  so_oidcCAPath :: string
  so_sshUserCAKeyPath :: string
  so_sshCertificateTTL :: duration
  so_sshCertificateSkew :: duration
  so_blueprintPath :: string
  so_scalerName :: string
  so_kubernetes :: bool

definition defaultServeOptions :: serveOptions where
  "defaultServeOptions =
     \<lparr>so_listenAddress = defaultListenAddress, so_apiAddress = defaultAPIAddress, so_metricsAddress = defaultMetricsAddress,
      so_hostKeyPath = defaultHostKeyPath, so_usersPath = defaultUsersPath, so_registrationsPath = defaultRegistrationsPath,
      so_registrationNamespace = defaultRegistrationNamespace, so_registrationAuthMode = [], so_registrationTokenPath = [],
      so_oidcIssuerURL = [], so_oidcClientID = [], so_oidcAudience = [], so_oidcIdentityClaim = ''preferred_username'',
      so_oidcScopes = [''openid'', ''profile''], so_oidcSubjectTokenType = ''id-token'', so_oidcDeviceFlow = False,
      so_oidcCAPath = [], so_sshUserCAKeyPath = [], so_sshCertificateTTL = 10 * Minute, so_sshCertificateSkew = 30 * Second,
      so_blueprintPath = [], so_scalerName = [], so_kubernetes = False\<rparr>"

section \<open>Blueprints and grants\<close>

datatype daemon_err =
    OutputFailed | InitBlueprint bp_err
  | BadLocalPort int | BadReplicas int | GrantFailed cred_err
  | ExclusiveModes | AnonymousCombined | AnonymousNotLoopback
  | TokenCombined | SecretRead sys_err | SecretEmpty | SecretShort | TokenFileRequired | TokenInvalid authn_err
  | OIDCCombined | ClientIDRequired | CAKeyRequired | OIDCFailed authn_err | CAKeyFailed issuer_err | IssuerFailed issuer_err
  | AuthorityFailed cert_err | ExchangeFailed exchange_err
  | UnsupportedMode string
  | AutomaticCollector | MetricsFailed string
  | CredentialsFailed cred_err | StoreFailed store_err | HostKeyFailed hostkey_err
  | ScalerConflict string | ScalerConfig | UnsupportedScaler string
  | BlueprintNeedsKubernetes | BlueprintRead sys_err | BlueprintLoad bp_err | ApplierConfig | ManagerFailed env_err
  | ServerFailed new_err | ListenSSH | ListenAPI | ListenMetrics

definition initializeBlueprint :: "k8s_lib \<Rightarrow> Blueprint yaml_lib \<Rightarrow> bool \<Rightarrow> string \<Rightarrow> daemon_err + string" where
  "initializeBlueprint K Y outputOk name =
     (case blueprintMarshal K Y (Default name) of
        Inl e \<Rightarrow> Inl (InitBlueprint e)
      | Inr contents \<Rightarrow> if outputOk then Inr contents else Inl OutputFailed)"

definition grantedService :: "grantOptions \<Rightarrow> Service" where
  "grantedService options =
     \<lparr>svc_Name = gr_name options, svc_Target = gr_target options, svc_LocalPort = gr_localPort options,
      svc_Workload = (if gr_workloadKind options \<noteq> [] then
          Some \<lparr>wl_Kind = gr_workloadKind options, wl_Namespace = gr_workloadNamespace options, wl_Name = gr_workloadName options,
                wl_Replicas = gr_replicas options, wl_ReadyTimeout = gr_readyTimeout options, wl_IdleTimeout = gr_idleTimeout options\<rparr>
        else None)\<rparr>"

definition grantServiceCommand :: "os_env \<Rightarrow> grantOptions \<Rightarrow> json fs \<Rightarrow> json fs \<times> daemon_err option" where
  "grantServiceCommand env options fs =
     (if gr_localPort options > 65535 then (fs, Some (BadLocalPort (gr_localPort options)))
      else if gr_replicas options < 1 \<or> gr_replicas options > 2147483647 then (fs, Some (BadReplicas (gr_replicas options)))
      else case GrantService env (gr_usersPath options) (gr_identity options) (grantedService options) fs of
        (fs', Some e) \<Rightarrow> (fs', Some (GrantFailed e))
      | (fs', None) \<Rightarrow> (fs', None))"

section \<open>Authentication\<close>

definition loopbackListenAddress :: "string \<Rightarrow> bool" where
  "loopbackListenAddress address =
     (if trimSpace address = [] then True
      else case splitHostPort address of
        None \<Rightarrow> False
      | Some (host, _) \<Rightarrow> equalFold host ''localhost'' \<or> loopbackIP host)"

definition loadOptionalSecret :: "os_env \<Rightarrow> string \<Rightarrow> string fs \<Rightarrow> daemon_err + string" where
  "loadOptionalSecret env path fs =
     (if trimSpace path = [] then Inr []
      else case readFile env path fs of
        Inl e \<Rightarrow> Inl (SecretRead e)
      | Inr contents \<Rightarrow>
          let secret = trimSpace (case contents of None \<Rightarrow> [] | Some s \<Rightarrow> s) in
          if secret = [] then Inl SecretEmpty
          else if length secret < 32 then Inl SecretShort
          else Inr secret)"

datatype sshLogin = StoreLogin Store | CertificateLogin CertificateAuthority

record authenticationRuntime =
  ar_api :: httpAuthenticator
  ar_ssh :: sshLogin
  ar_configuration :: Configuration
  ar_tokenExchange :: "tokenExchange option"

text \<open>The libraries behind the configuration: see \<open>Authn\<close> for the OIDC part.\<close>

record daemon_libs =
  dl_libs :: libs
  dl_oidc :: "oidcHTTPClient \<Rightarrow> oidc_lib"
  dl_systemPool :: bool
  dl_hasCerts :: "string \<Rightarrow> bool"
  dl_os :: os_env

definition hasOIDCOptions :: "serveOptions \<Rightarrow> bool" where
  "hasOIDCOptions options \<longleftrightarrow> trimSpace (so_oidcIssuerURL options) \<noteq> [] \<or> trimSpace (so_oidcClientID options) \<noteq> [] \<or>
     trimSpace (so_oidcAudience options) \<noteq> [] \<or> trimSpace (so_sshUserCAKeyPath options) \<noteq> [] \<or>
     trimSpace (so_oidcCAPath options) \<noteq> []"

definition hasTokenOption :: "serveOptions \<Rightarrow> bool" where
  "hasTokenOption options \<longleftrightarrow> trimSpace (so_registrationTokenPath options) \<noteq> []"

definition authenticationMode :: "libs \<Rightarrow> serveOptions \<Rightarrow> daemon_err + string" where
  "authenticationMode lb options =
     (let mode = toLower (lib_lower lb) (trimSpace (so_registrationAuthMode options)) in
      if mode \<noteq> [] then Inr mode
      else if hasOIDCOptions options \<and> hasTokenOption options then Inl ExclusiveModes
      else if hasOIDCOptions options then Inr MethodOIDC
      else if hasTokenOption options then Inr MethodToken
      else Inr MethodAnonymous)"

definition configureAnonymous :: "serveOptions \<Rightarrow> Store \<Rightarrow> daemon_err + authenticationRuntime" where
  "configureAnonymous options store =
     (if hasOIDCOptions options \<or> hasTokenOption options then Inl AnonymousCombined
      else if \<not> loopbackListenAddress (so_apiAddress options) then Inl AnonymousNotLoopback
      else Inr \<lparr>ar_api = AnonymousAuth, ar_ssh = StoreLogin store,
        ar_configuration = \<lparr>cf_Mode = MethodAnonymous, cf_TokenEndpoint = [], cf_OIDC = None\<rparr>, ar_tokenExchange = None\<rparr>)"

definition configureToken :: "os_env \<Rightarrow> serveOptions \<Rightarrow> Store \<Rightarrow> string fs \<Rightarrow> daemon_err + authenticationRuntime" where
  "configureToken env options store fs =
     (if hasOIDCOptions options then Inl TokenCombined
      else case loadOptionalSecret env (so_registrationTokenPath options) fs of
        Inl e \<Rightarrow> Inl e
      | Inr token \<Rightarrow>
          if token = [] then Inl TokenFileRequired
          else (case NewStaticToken token of
              Inl e \<Rightarrow> Inl (TokenInvalid e)
            | Inr a \<Rightarrow> Inr \<lparr>ar_api = StaticAuth a, ar_ssh = StoreLogin store,
                ar_configuration = \<lparr>cf_Mode = MethodToken, cf_TokenEndpoint = [], cf_OIDC = None\<rparr>, ar_tokenExchange = None\<rparr>))"

definition oidcConfigOf :: "serveOptions \<Rightarrow> string \<Rightarrow> OIDCConfig" where
  "oidcConfigOf options subjectTokenType =
     \<lparr>og_IssuerURL = so_oidcIssuerURL options, og_ClientID = so_oidcClientID options, og_Audience = so_oidcAudience options,
      og_IdentityClaim = so_oidcIdentityClaim options, og_SubjectTokenType = subjectTokenType, og_CAFile = so_oidcCAPath options\<rparr>"

definition oidcConfiguration :: "serveOptions \<Rightarrow> string \<Rightarrow> Configuration" where
  "oidcConfiguration options subjectTokenType = normalized
     \<lparr>cf_Mode = MethodOIDC, cf_TokenEndpoint = ''/oauth/token'',
      cf_OIDC = Some \<lparr>oc_IssuerURL = so_oidcIssuerURL options, oc_ClientID = so_oidcClientID options, oc_Audience = so_oidcAudience options,
        oc_Scopes = so_oidcScopes options, oc_IdentityClaim = so_oidcIdentityClaim options,
        oc_SubjectTokenType = subjectTokenType, oc_DeviceFlow = so_oidcDeviceFlow options\<rparr>\<rparr>"

definition exchangeOptions :: "serveOptions \<Rightarrow> Store \<Rightarrow> OIDC \<Rightarrow> Issuer \<Rightarrow> string \<Rightarrow> TokenExchangeOptions" where
  "exchangeOptions options store oidcLogin issuer subjectTokenType =
     \<lparr>to_Authenticator = Some (OIDCAuth oidcLogin), to_Store = Some store, to_Issuer = Some issuer,
      to_Namespace = so_registrationNamespace options, to_Audience = so_oidcAudience options, to_SubjectTokenType = subjectTokenType\<rparr>"

text \<open>The certificate issuer, from the key file, and the authority the SSH server trusts.\<close>

definition configureIssuer :: "daemon_libs \<Rightarrow> serveOptions \<Rightarrow> string fs \<Rightarrow> daemon_err + Issuer \<times> CertificateAuthority" where
  "configureIssuer D options fs =
     (case LoadSigner (lib_ssh (dl_libs D)) (dl_os D) (so_sshUserCAKeyPath options) fs of
        Inl e \<Rightarrow> Inl (CAKeyFailed e)
      | Inr caSigner \<Rightarrow>
          (case NewIssuer (Some caSigner) (so_sshCertificateTTL options) (so_sshCertificateSkew options) of
             Inl e \<Rightarrow> Inl (IssuerFailed e)
           | Inr issuer \<Rightarrow>
               (case NewCertificateAuthority (lib_ssh (dl_libs D)) (Some (issuerPublicKey (lib_ssh (dl_libs D)) issuer)) of
                  Inl e \<Rightarrow> Inl (AuthorityFailed e)
                | Inr ca \<Rightarrow> Inr (issuer, ca))))"

definition configureOIDC :: "daemon_libs \<Rightarrow> serveOptions \<Rightarrow> Store \<Rightarrow> string fs \<Rightarrow> daemon_err + authenticationRuntime" where
  "configureOIDC D options store fs =
     (if hasTokenOption options then Inl OIDCCombined
      else if trimSpace (so_oidcClientID options) = [] then Inl ClientIDRequired
      else if trimSpace (so_sshUserCAKeyPath options) = [] then Inl CAKeyRequired
      else let typeValue = (if trimSpace (so_oidcSubjectTokenType options) = [] then ''id-token''
               else trimSpace (so_oidcSubjectTokenType options)) in
        (case NormalizeSubjectTokenType typeValue of
           Inl e \<Rightarrow> Inl (OIDCFailed e)
         | Inr subjectTokenType \<Rightarrow>
             (case NewOIDC (dl_oidc D) (dl_systemPool D) (dl_hasCerts D) (dl_os D) fs (oidcConfigOf options subjectTokenType) of
                Inl e \<Rightarrow> Inl (OIDCFailed e)
              | Inr oidcLogin \<Rightarrow>
                  (case configureIssuer D options fs of
                     Inl e \<Rightarrow> Inl e
                   | Inr (issuer, ca) \<Rightarrow>
                       (case NewTokenExchangeHandler (exchangeOptions options store oidcLogin issuer subjectTokenType) of
                          Inl e \<Rightarrow> Inl (ExchangeFailed e)
                        | Inr exchange \<Rightarrow>
                            Inr \<lparr>ar_api = OIDCAuth oidcLogin, ar_ssh = CertificateLogin ca,
                              ar_configuration = oidcConfiguration options subjectTokenType, ar_tokenExchange = Some exchange\<rparr>)))))"

definition configureAuthentication :: "daemon_libs \<Rightarrow> serveOptions \<Rightarrow> Store \<Rightarrow> string fs \<Rightarrow> daemon_err + authenticationRuntime" where
  "configureAuthentication D options store fs =
     (case authenticationMode (dl_libs D) options of
        Inl e \<Rightarrow> Inl e
      | Inr mode \<Rightarrow>
          if mode = MethodAnonymous then configureAnonymous options store
          else if mode = MethodToken then configureToken (dl_os D) options store fs
          else if mode = MethodOIDC then configureOIDC D options store fs
          else Inl (UnsupportedMode mode))"

section \<open>Start-up\<close>

datatype scalerBackend = KubernetesScaler

definition newScalerBackend :: "bool \<Rightarrow> string \<Rightarrow> daemon_err + scalerBackend option" where
  "newScalerBackend inCluster name =
     (if name = [] then Inr None
      else if name = ''kubernetes'' then (if inCluster then Inr (Some KubernetesScaler) else Inl ScalerConfig)
      else Inl (UnsupportedScaler name))"

definition selectedScaler :: "libs \<Rightarrow> serveOptions \<Rightarrow> daemon_err + string" where
  "selectedScaler lb options =
     (let name = toLower (lib_lower lb) (trimSpace (so_scalerName options)) in
      if \<not> so_kubernetes options then Inr name
      else if name \<noteq> [] \<and> name \<noteq> ''kubernetes'' then Inl (ScalerConflict name)
      else Inr ''kubernetes'')"

text \<open>The registry accepts the two automatic collectors, then those of the daemon.\<close>

definition newMetricsEndpoint :: "bool \<Rightarrow> (string \<times> string list \<Rightarrow> bool) \<Rightarrow> daemon_err + ServerMetrics \<times> Metrics" where
  "newMetricsEndpoint automatic registers =
     (if \<not> automatic then Inl AutomaticCollector
      else case NewMetrics registers of
        Inl name \<Rightarrow> Inl (MetricsFailed name)
      | Inr m \<Rightarrow> Inr m)"

datatype policySource = CredentialsPolicy | ManagerPolicy Manager

definition configureEnvironment :: "k8s_lib \<Rightarrow> Blueprint yaml_lib \<Rightarrow> os_env \<Rightarrow> bool \<Rightarrow> serveOptions \<Rightarrow> string \<Rightarrow> string fs \<Rightarrow>
    daemon_err + policySource" where
  "configureEnvironment K Y env inCluster options scaler fs =
     (if so_blueprintPath options = [] then Inr CredentialsPolicy
      else if scaler \<noteq> ''kubernetes'' then Inl BlueprintNeedsKubernetes
      else case readFile env (so_blueprintPath options) fs of
        Inl e \<Rightarrow> Inl (BlueprintRead e)
      | Inr contents \<Rightarrow>
          (case blueprintLoad K Y (case contents of None \<Rightarrow> [] | Some s \<Rightarrow> s) of
             Inl e \<Rightarrow> Inl (BlueprintLoad e)
           | Inr document \<Rightarrow>
               if \<not> inCluster then Inl ApplierConfig
               else (case NewManager K document True True of
                   Inl e \<Rightarrow> Inl (ManagerFailed e)
                 | Inr manager \<Rightarrow> Inr (ManagerPolicy manager))))"

text \<open>
  The addresses of the listeners in the order they are opened: SSH, then the API and the metrics when
  their address is not empty.  A failure closes what was opened.
\<close>

definition openListeners :: "(string \<Rightarrow> bool) \<Rightarrow> serveOptions \<Rightarrow> daemon_err + string list" where
  "openListeners listens options =
     (if \<not> listens (so_listenAddress options) then Inl ListenSSH
      else if so_apiAddress options \<noteq> [] \<and> \<not> listens (so_apiAddress options) then Inl ListenAPI
      else if so_metricsAddress options \<noteq> [] \<and> \<not> listens (so_metricsAddress options) then Inl ListenMetrics
      else Inr (so_listenAddress options #
        (if so_apiAddress options \<noteq> [] then [so_apiAddress options] else []) @
        (if so_metricsAddress options \<noteq> [] then [so_metricsAddress options] else [])))"

record daemon_env =
  de_libs :: daemon_libs
  de_blueprintYaml :: "Blueprint yaml_lib"
  de_inCluster :: bool
  de_generatedKey :: "(string \<times> Signer) option"
  de_automaticCollectors :: bool
  de_registers :: "string \<times> string list \<Rightarrow> bool"
  de_listens :: "string \<Rightarrow> bool"

record daemon =
  dn_credentials :: Credentials
  dn_store :: Store
  dn_auth :: authenticationRuntime
  dn_hostKey :: Signer
  dn_policy :: policySource
  dn_gateway :: lifecycleGateway
  dn_requests :: "string list"
  dn_api :: "HandlerOptions option"
  dn_listeners :: "string list"

text \<open>The parts after the files: scaler, environment, gateway, server and listeners.\<close>

definition assemble :: "daemon_env \<Rightarrow> serveOptions \<Rightarrow> Metrics \<Rightarrow> Credentials \<Rightarrow> Store \<Rightarrow> authenticationRuntime \<Rightarrow> Signer \<Rightarrow> string fs \<Rightarrow>
    daemon_err + daemon" where
  "assemble E options metrics credentials store auth hostKey fs =
     (case selectedScaler (dl_libs (de_libs E)) options of
        Inl e \<Rightarrow> Inl e
      | Inr scaler \<Rightarrow>
          (case newScalerBackend (de_inCluster E) scaler of
             Inl e \<Rightarrow> Inl e
           | Inr backend \<Rightarrow>
               (case configureEnvironment (lib_k8s (dl_libs (de_libs E))) (de_blueprintYaml E) (dl_os (de_libs E)) (de_inCluster E)
                   options scaler fs of
                  Inl e \<Rightarrow> Inl e
                | Inr policy \<Rightarrow>
                    (case newServer True True True True False of
                       Inl e \<Rightarrow> Inl (ServerFailed e)
                     | Inr requests \<Rightarrow>
                         (case openListeners (de_listens E) options of
                            Inl e \<Rightarrow> Inl e
                          | Inr addresses \<Rightarrow>
                              Inr \<lparr>dn_credentials = credentials, dn_store = store, dn_auth = auth, dn_hostKey = hostKey, dn_policy = policy,
                                dn_gateway = NewLifecycleGateway (backend \<noteq> None) (Some metrics), dn_requests = requests,
                                dn_api = (if so_apiAddress options \<noteq> [] then
                                  Some \<lparr>ho_Authenticator = Some (ar_api auth), ho_Configuration = ar_configuration auth,
                                    ho_TokenExchange = ar_tokenExchange auth\<rparr> else None),
                                dn_listeners = addresses\<rparr>)))))"

definition prepareServe :: "daemon_env \<Rightarrow> serveOptions \<Rightarrow> json fs \<Rightarrow> string fs \<Rightarrow> string fs \<times> (daemon_err + daemon)" where
  "prepareServe E options credentialsFs fs =
     (let D = de_libs E; lb = dl_libs D; env = dl_os D in
      case newMetricsEndpoint (de_automaticCollectors E) (de_registers E) of
        Inl e \<Rightarrow> (fs, Inl e)
      | Inr (_, metrics) \<Rightarrow>
          (case LoadCredentials env (so_usersPath options) credentialsFs of
             Inl e \<Rightarrow> (fs, Inl (CredentialsFailed e))
           | Inr credentials \<Rightarrow>
               (case NewStore (lib_k8s lb) env (so_registrationsPath options) (so_registrationNamespace options) fs of
                  (fs1, Inl e) \<Rightarrow> (fs1, Inl (StoreFailed e))
                | (fs1, Inr store) \<Rightarrow>
                    (case configureAuthentication D options store fs1 of
                       Inl e \<Rightarrow> (fs1, Inl e)
                     | Inr auth \<Rightarrow>
                         (case LoadOrCreateHostKey (lib_ssh lb) (de_generatedKey E) env (so_hostKeyPath options) fs1 of
                            (fs2, Inl e) \<Rightarrow> (fs2, Inl (HostKeyFailed e))
                          | (fs2, Inr hostKey) \<Rightarrow> (fs2, assemble E options metrics credentials store auth hostKey fs2))))))"

end
