(* ===== verification/Daemon_Properties.thy ===== *)
theory Daemon_Properties
  imports Daemon
begin

text \<open>
  What the start-up of the daemon guarantees: the parts that answer HTTP and SSH are configured from
  one authentication mode and fit together.
\<close>

section \<open>Configured authentication\<close>

lemma loadOptionalSecret_Inr:
  "loadOptionalSecret env p fs = Inr s \<Longrightarrow> s \<noteq> [] \<Longrightarrow> 32 \<le> length s \<and> trimSpace s = s"
  by (auto simp: loadOptionalSecret_def Let_def split: sum.splits option.splits if_splits)

lemma NewStaticToken_accepts:
  "NewStaticToken s = Inr a \<Longrightarrow> want a = sha256 (trimSpace s)"
  by (auto simp: NewStaticToken_def Let_def split: if_splits)

lemma configureIssuer_Inr:
  "configureIssuer D options fs = Inr (issuer, ca) \<Longrightarrow> wf_Issuer issuer \<and>
   NewIssuer (Some (is_signer issuer)) (so_sshCertificateTTL options) (so_sshCertificateSkew options) = Inr issuer \<and>
   ca_authorityBytes ca = marshalKey (lib_ssh (dl_libs D)) (issuerPublicKey (lib_ssh (dl_libs D)) issuer)"
  by (auto simp: configureIssuer_def NewCertificateAuthority_def dest: NewIssuer_wf split: sum.splits)

lemma NewTokenExchangeHandler_Inr:
  "NewTokenExchangeHandler (exchangeOptions options store a issuer t) = Inr tx \<Longrightarrow>
   tx = \<lparr>tx_Authenticator = OIDCAuth a, tx_Store = store, tx_Issuer = issuer, tx_Namespace = so_registrationNamespace options,
     tx_Audience = so_oidcAudience options, tx_SubjectTokenType = t\<rparr> \<or> NormalizeSubjectTokenType t \<noteq> Inr t"
  by (auto simp: NewTokenExchangeHandler_def exchangeOptions_def split: if_splits sum.splits)

lemma NormalizeSubjectTokenType_fixed: "NormalizeSubjectTokenType v = Inr t \<Longrightarrow> NormalizeSubjectTokenType t = Inr t"
proof -
  assume "NormalizeSubjectTokenType v = Inr t"
  then have "t = SubjectTokenTypeAccessToken \<or> t = SubjectTokenTypeIDToken"
    by (auto simp: NormalizeSubjectTokenType_def Let_def split: if_splits)
  moreover have "NormalizeSubjectTokenType SubjectTokenTypeAccessToken = Inr SubjectTokenTypeAccessToken"
    "NormalizeSubjectTokenType SubjectTokenTypeIDToken = Inr SubjectTokenTypeIDToken" by code_simp+
  ultimately show ?thesis by auto
qed

text \<open>The parts of a runtime in OIDC mode.\<close>

lemma configureOIDC_Inr:
  assumes "configureOIDC D options store fs = Inr rt"
  obtains a issuer ca t where
    "NewOIDC (dl_oidc D) (dl_systemPool D) (dl_hasCerts D) (dl_os D) fs (oidcConfigOf options t) = Inr a"
    "configureIssuer D options fs = Inr (issuer, ca)" "NormalizeSubjectTokenType t = Inr t"
    "rt = \<lparr>ar_api = OIDCAuth a, ar_ssh = CertificateLogin ca, ar_configuration = oidcConfiguration options t,
      ar_tokenExchange = Some \<lparr>tx_Authenticator = OIDCAuth a, tx_Store = store, tx_Issuer = issuer, tx_Namespace = so_registrationNamespace options,
        tx_Audience = so_oidcAudience options, tx_SubjectTokenType = t\<rparr>\<rparr>"
proof -
  obtain v t a issuer ca tx where c: "NormalizeSubjectTokenType v = Inr t"
    "NewOIDC (dl_oidc D) (dl_systemPool D) (dl_hasCerts D) (dl_os D) fs (oidcConfigOf options t) = Inr a"
    "configureIssuer D options fs = Inr (issuer, ca)"
    "NewTokenExchangeHandler (exchangeOptions options store a issuer t) = Inr tx"
    "rt = \<lparr>ar_api = OIDCAuth a, ar_ssh = CertificateLogin ca, ar_configuration = oidcConfiguration options t, ar_tokenExchange = Some tx\<rparr>"
    using assms by (auto simp: configureOIDC_def Let_def split: if_splits sum.splits prod.splits)
  note n = NormalizeSubjectTokenType_fixed [OF c(1)]
  from NewTokenExchangeHandler_Inr [OF c(4)] n c that show thesis by blast
qed

lemma oidcConfiguration_simps [simp]:
  "cf_Mode (oidcConfiguration options t) = MethodOIDC" "cf_TokenEndpoint (oidcConfiguration options t) = ''/oauth/token''"
proof -
  have "trimSpace MethodOIDC = MethodOIDC" "trimSpace ''/oauth/token'' = ''/oauth/token''" by code_simp+
  then show "cf_Mode (oidcConfiguration options t) = MethodOIDC" "cf_TokenEndpoint (oidcConfiguration options t) = ''/oauth/token''"
    by (simp_all add: oidcConfiguration_def normalized_def)
qed

lemma configureAuthentication_cases:
  assumes "configureAuthentication D options store fs = Inr rt"
  obtains "configureAnonymous options store = Inr rt"
  | "configureToken (dl_os D) options store fs = Inr rt"
  | "configureOIDC D options store fs = Inr rt"
  using assms by (auto simp: configureAuthentication_def split: sum.splits if_splits)

text \<open>Only OpenID Connect comes with a token exchange.\<close>

lemma exchange_needs_OIDC:
  assumes "configureAuthentication D options store fs = Inr rt" "ar_tokenExchange rt = Some tx"
  shows "configureOIDC D options store fs = Inr rt"
  using assms(1)
proof (cases rule: configureAuthentication_cases)
  case 1
  then show ?thesis using assms(2) by (auto simp: configureAnonymous_def split: if_splits)
next
  case 2
  then show ?thesis using assms(2) by (auto simp: configureToken_def split: if_splits sum.splits)
qed

text \<open>
  Claim C39.  The daemon never serves an unauthenticated registration API on an address other hosts can
  reach, and what it configures fits together: the advertised mode is that of the API's authenticator;
  without OpenID Connect the SSH side trusts the registration store and there is no token exchange; a
  shared token has at least 32 characters and only its SHA-256 image is accepted; with OpenID Connect
  the exchange uses the API's authenticator, the same store and the same token type, and the SSH
  side is configured with the public key of the exchange's issuer, whose certificates live between a
  minute and an hour.
\<close>

theorem authentication_configured:
  assumes "configureAuthentication D options store fs = Inr rt"
  shows "cf_Mode (ar_configuration rt) = authenticatorMethod (ar_api rt) \<and>
    (case ar_api rt of
       AnonymousAuth \<Rightarrow> loopbackListenAddress (so_apiAddress options) \<and> ar_ssh rt = StoreLogin store \<and> ar_tokenExchange rt = None
     | StaticAuth a \<Rightarrow> ar_ssh rt = StoreLogin store \<and> ar_tokenExchange rt = None \<and>
         (\<exists>secret. 32 \<le> length secret \<and> loadOptionalSecret (dl_os D) (so_registrationTokenPath options) fs = Inr secret \<and>
            (\<forall>t p. staticAuthenticate a t = Inr p \<longleftrightarrow> sha256 (trimSpace t) = sha256 secret \<and>
               p = \<lparr>pr_Method = MethodToken, pr_Issuer = [], pr_Subject = [], pr_Identity = []\<rparr>))
     | OIDCAuth a \<Rightarrow> (\<exists>tx ca. ar_tokenExchange rt = Some tx \<and> tx_Authenticator tx = OIDCAuth a \<and> tx_Store tx = store \<and>
         tx_SubjectTokenType tx = oi_subjectTokenType a \<and> ar_ssh rt = CertificateLogin ca \<and>
         isUserAuthority (lib_ssh (dl_libs D)) ca (Some (issuerPublicKey (lib_ssh (dl_libs D)) (tx_Issuer tx))) \<and>
         Minute \<le> Lifetime (tx_Issuer tx) \<and> Lifetime (tx_Issuer tx) \<le> Hour))"
  using assms
proof (cases rule: configureAuthentication_cases)
  case 1
  then show ?thesis by (auto simp: configureAnonymous_def split: if_splits)
next
  case 2
  then obtain secret a where s: "loadOptionalSecret (dl_os D) (so_registrationTokenPath options) fs = Inr secret" "secret \<noteq> []"
    "NewStaticToken secret = Inr a" "rt = \<lparr>ar_api = StaticAuth a, ar_ssh = StoreLogin store,
       ar_configuration = \<lparr>cf_Mode = MethodToken, cf_TokenEndpoint = [], cf_OIDC = None\<rparr>, ar_tokenExchange = None\<rparr>"
    by (auto simp: configureToken_def split: if_splits sum.splits)
  from loadOptionalSecret_Inr [OF s(1,2)] NewStaticToken_accepts [OF s(3)]
  have "32 \<le> length secret" "want a = sha256 secret" by simp_all
  moreover have "staticAuthenticate a t = Inr p \<longleftrightarrow> sha256 (trimSpace t) = sha256 secret \<and>
      p = \<lparr>pr_Method = MethodToken, pr_Issuer = [], pr_Subject = [], pr_Identity = []\<rparr>" for t p
    using \<open>want a = sha256 secret\<close> by (auto simp: staticAuthenticate_def)
  ultimately show ?thesis using s by auto
next
  case 3
  then obtain a issuer ca t where c: "NewOIDC (dl_oidc D) (dl_systemPool D) (dl_hasCerts D) (dl_os D) fs (oidcConfigOf options t) = Inr a"
    "configureIssuer D options fs = Inr (issuer, ca)" "NormalizeSubjectTokenType t = Inr t"
    "rt = \<lparr>ar_api = OIDCAuth a, ar_ssh = CertificateLogin ca, ar_configuration = oidcConfiguration options t,
      ar_tokenExchange = Some \<lparr>tx_Authenticator = OIDCAuth a, tx_Store = store, tx_Issuer = issuer, tx_Namespace = so_registrationNamespace options,
        tx_Audience = so_oidcAudience options, tx_SubjectTokenType = t\<rparr>\<rparr>" by (rule configureOIDC_Inr)
  have "oi_subjectTokenType a = t"
    using c(1,3) by (auto simp: NewOIDC_def newOIDCWithVerifier_def oidcConfigOf_def Let_def split: if_splits sum.splits)
  with c(4) configureIssuer_Inr [OF c(2)] show ?thesis
    by (auto simp: isUserAuthority_def wf_Issuer_def Lifetime_def)
qed

definition demoDaemon :: daemon_libs where
  "demoDaemon = \<lparr>dl_libs = demoLibs, dl_oidc = \<lambda>_. demoOidc, dl_systemPool = True, dl_hasCerts = \<lambda>_. True, dl_os = noFaults\<rparr>"

definition demoServeOptions :: serveOptions where
  "demoServeOptions = defaultServeOptions\<lparr>so_apiAddress := '':8080'', so_oidcIssuerURL := ''https://id.example/'', so_oidcClientID := ''cli'',
     so_oidcAudience := ''tearenv'', so_oidcIdentityClaim := [], so_oidcSubjectTokenType := ''access-token'', so_sshUserCAKeyPath := ''/ca'',
     so_sshCertificateSkew := Minute\<rparr>"

definition demoCAFiles :: "string fs" where
  "demoCAFiles = [(''/ca'', Regular 0x180 (Some ''ca''))]"

definition demoRuntime :: authenticationRuntime where
  "demoRuntime = \<lparr>ar_api = OIDCAuth demoOIDC, ar_ssh = CertificateLogin \<lparr>ca_authorityBytes = marshalKey demoSsh (PlainKey ''pub-ca'')\<rparr>,
     ar_configuration = oidcConfiguration demoServeOptions SubjectTokenTypeAccessToken, ar_tokenExchange = Some demoExchange\<rparr>"

lemma demoOptions_facts:
  "authenticationMode demoLibs demoServeOptions = Inr MethodOIDC" "\<not> hasTokenOption demoServeOptions"
  "trimSpace (so_oidcClientID demoServeOptions) \<noteq> []" "trimSpace (so_sshUserCAKeyPath demoServeOptions) \<noteq> []"
  "trimSpace (so_oidcSubjectTokenType demoServeOptions) = ''access-token''"
  "NormalizeSubjectTokenType ''access-token'' = Inr SubjectTokenTypeAccessToken"
  "MethodOIDC \<noteq> MethodAnonymous" "MethodOIDC \<noteq> MethodToken"
  by code_simp+

lemma demoOIDC_configured: "NewOIDC (\<lambda>_. demoOidc) True (\<lambda>_. True) noFaults fs (oidcConfigOf demoServeOptions SubjectTokenTypeAccessToken) = Inr demoOIDC"
proof -
  have "httpsIssuer ''https://id.example''" "trimRight (trimSpace ''https://id.example/'') ''/'' = ''https://id.example''"
    "NormalizeSubjectTokenType SubjectTokenTypeAccessToken = Inr SubjectTokenTypeAccessToken" "trimSpace ''tearenv'' = ''tearenv''"
    "SubjectTokenTypeAccessToken \<noteq> SubjectTokenTypeIDToken" "trimSpace [] = []" by code_simp+
  then show ?thesis
    by (simp add: NewOIDC_def oidcConfigOf_def demoServeOptions_def defaultServeOptions_def newOIDCHTTPClient_def demoOIDC_def demoOidc_def Let_def)
qed

lemma demoIssuer_configured:
  "configureIssuer demoDaemon demoServeOptions demoCAFiles = Inr (demoIssuer, \<lparr>ca_authorityBytes = marshalKey demoSsh (PlainKey ''pub-ca'')\<rparr>)"
proof -
  have l: "LoadSigner demoSsh noFaults ''/ca'' demoCAFiles = Inr ''ca''" by code_simp
  have n: "NewIssuer (Some ''ca'') (10 * Minute) Minute = Inr demoIssuer" by code_simp
  have "issuerPublicKey demoSsh demoIssuer = PlainKey ''pub-ca''" by code_simp
  with l n show ?thesis
    by (simp add: configureIssuer_def demoDaemon_def demoLibs_def demoServeOptions_def defaultServeOptions_def NewCertificateAuthority_def)
qed

lemma demoRuntime_configured: "configureAuthentication demoDaemon demoServeOptions demoStore demoCAFiles = Inr demoRuntime"
proof -
  have "NewTokenExchangeHandler (exchangeOptions demoServeOptions demoStore demoOIDC demoIssuer SubjectTokenTypeAccessToken) = Inr demoExchange"
  proof -
    have "trimSpace ''default'' \<noteq> []" "trimSpace ''tearenv'' \<noteq> []"
      "NormalizeSubjectTokenType SubjectTokenTypeAccessToken = Inr SubjectTokenTypeAccessToken" by code_simp+
    then show ?thesis
      by (simp add: NewTokenExchangeHandler_def exchangeOptions_def demoServeOptions_def defaultServeOptions_def defaultRegistrationNamespace_def demoExchange_def)
  qed
  with demoOptions_facts demoIssuer_configured demoOIDC_configured [of demoCAFiles] show ?thesis
    by (simp add: configureAuthentication_def configureOIDC_def demoRuntime_def demoDaemon_def)
qed

theorem authentication_configured_witness:
  "cf_Mode (ar_configuration demoRuntime) = ''oidc'' \<and> Lifetime (tx_Issuer demoExchange) \<le> Hour"
  using authentication_configured [OF demoRuntime_configured] by (simp add: demoRuntime_def MethodOIDC_def)

text \<open>
  The audience flag is trimmed for the advertisement and for the verifier of access tokens, but not for
  the token endpoint.  If it has surrounding white space, the daemon starts, and every exchange that
  asks for the advertised audience is refused.
\<close>

theorem padded_audience_refused:
  assumes "configureAuthentication D options store fs0 = Inr rt" "ar_tokenExchange rt = Some tx"
    and "cf_OIDC (ar_configuration rt) = Some advertised" "trimSpace (so_oidcAudience options) \<noteq> so_oidcAudience options"
    and "postForm maximumTokenExchangeBodySize rq = Some form" "formGet form ''audience'' = oc_Audience advertised"
  shows "rs_Status (handleTokenExchange se tx rq fs) \<noteq> StatusOK"
proof
  assume ok: "rs_Status (handleTokenExchange se tx rq fs) = StatusOK"
  have "formGet form ''audience'' = tx_Audience tx"
    using handleTokenExchange_OK [OF ok] assms(5) checkExchangeForm_Inr by fastforce
  moreover have "configureOIDC D options store fs0 = Inr rt" by (rule exchange_needs_OIDC [OF assms(1,2)])
  then obtain a issuer ca t where "rt = \<lparr>ar_api = OIDCAuth a, ar_ssh = CertificateLogin ca, ar_configuration = oidcConfiguration options t,
      ar_tokenExchange = Some \<lparr>tx_Authenticator = OIDCAuth a, tx_Store = store, tx_Issuer = issuer, tx_Namespace = so_registrationNamespace options,
        tx_Audience = so_oidcAudience options, tx_SubjectTokenType = t\<rparr>\<rparr>" by (rule configureOIDC_Inr)
  then have "tx_Audience tx = so_oidcAudience options" "oc_Audience advertised = trimSpace (so_oidcAudience options)"
    using assms(2,3) by (auto simp: oidcConfiguration_def normalized_def normalizedOIDC_def)
  ultimately show False using assms(4,6) by simp
qed

section \<open>From the token endpoint to a login\<close>

text \<open>The SSH side of a runtime: the store, or the certificate check at the current time in seconds.\<close>

definition sshAuthenticate :: "libs \<Rightarrow> UserRegistration yaml_lib \<Rightarrow> os_env \<Rightarrow> int \<Rightarrow> string fs \<Rightarrow> sshLogin \<Rightarrow> (store_err + cert_err) provider" where
  "sshAuthenticate lb Y env clock fs login attempt =
     (case login of
        StoreLogin store \<Rightarrow> map_sum Inl id (storeAuthenticate lb Y env store fs attempt)
      | CertificateLogin ca \<Rightarrow> map_sum Inr id (certificateAuthenticate (lib_ssh lb) ca clock attempt))"

text \<open>
  Claim C40.  In a daemon configured for OpenID Connect, the certificate that the token endpoint hands to
  a caller logs exactly that caller's identity in on the SSH side, from the start of its validity until
  its expiry, whatever the clock, and the login ends with it.
\<close>

theorem exchanged_certificate_login:
  assumes "documented_SignCert (lib_ssh (dl_libs D))" "documented_CheckCert (lib_ssh (dl_libs D))"
    and "configureAuthentication D options store fs0 = Inr rt" "ar_tokenExchange rt = Some tx"
    and "se_libs se = dl_libs D" "issuableTime (tx_Issuer tx) (se_now se)"
    and "rs_Status (handleTokenExchange se tx rq fs) = StatusOK"
  shows "\<exists>form caller c. postForm maximumTokenExchangeBodySize rq = Some form \<and>
    httpAuthenticate (ar_api rt) (formGet form ''subject_token'') = Inr caller \<and> pr_Method caller = MethodOIDC \<and>
    rs_Body (handleTokenExchange se tx rq fs) = tokenFor se tx c \<and>
    (\<forall>Y env clock fs' who pw.
      sshAuthenticate (se_libs se) Y env clock fs' (ar_ssh rt) \<lparr>at_Identity = who, at_Method = MethodPublicKey, at_Password = pw, at_PublicKey = Some c\<rparr> =
      Inr (if who = pr_Identity caller \<and> (se_now se - is_clockSkew (tx_Issuer tx)) div Second \<le> clock \<and>
             clock < (se_now se + Lifetime (tx_Issuer tx)) div Second
           then Some \<lparr>res_Identity = pr_Identity caller, res_Provider = ''oidc-ssh-certificate'',
             res_ValidBefore = Some ((se_now se + Lifetime (tx_Issuer tx)) div Second * Second)\<rparr>
           else None))"
proof -
  have "configureOIDC D options store fs0 = Inr rt" by (rule exchange_needs_OIDC [OF assms(3,4)])
  then obtain a issuer ca t where c: "configureIssuer D options fs0 = Inr (issuer, ca)"
    "rt = \<lparr>ar_api = OIDCAuth a, ar_ssh = CertificateLogin ca, ar_configuration = oidcConfiguration options t,
      ar_tokenExchange = Some \<lparr>tx_Authenticator = OIDCAuth a, tx_Store = store, tx_Issuer = issuer, tx_Namespace = so_registrationNamespace options,
        tx_Audience = so_oidcAudience options, tx_SubjectTokenType = t\<rparr>\<rparr>" by (rule configureOIDC_Inr)
  then have tx: "tx_Issuer tx = issuer" "tx_Authenticator tx = OIDCAuth a" "ar_api rt = OIDCAuth a" "ar_ssh rt = CertificateLogin ca"
    using assms(4) by auto
  obtain form keyName where f0: "postForm maximumTokenExchangeBodySize rq = Some form"
    "handleTokenExchange se tx rq fs = exchangeFor se tx keyName (httpAuthenticate (tx_Authenticator tx) (formGet form ''subject_token'')) fs"
    using handleTokenExchange_OK [OF assms(7)] by blast
  obtain caller key where f1: "httpAuthenticate (tx_Authenticator tx) (formGet form ''subject_token'') = Inr caller" "pr_Method caller = MethodOIDC"
    "exchangeFor se tx keyName (httpAuthenticate (tx_Authenticator tx) (formGet form ''subject_token'')) fs = issueFor se tx keyName caller key"
    using exchangeFor_OK [OF assms(7) [unfolded f0(2)]] by blast
  obtain k where k: "Issue (lib_ssh (se_libs se)) (se_serial se) (se_nonce se) (se_now se) issuer (pr_Identity caller) keyName (Some key)
       \<lparr>sj_Issuer = pr_Issuer caller, sj_Subject = pr_Subject caller\<rparr> = Inr k" "rs_Body (issueFor se tx keyName caller key) = tokenFor se tx k"
    using issueFor_OK [OF assms(7) [unfolded f0(2) f1(3)]] tx(1) by blast
  note ci = configureIssuer_Inr [OF c(1)]
  note L = assms(1,2) [folded assms(5)]
  note login = issued_login [OF L conjunct1 [OF conjunct2 [OF ci]] assms(6) [unfolded tx(1)] k(1), THEN conjunct1]
  show ?thesis
    by (rule exI [of _ form], rule exI [of _ caller], rule exI [of _ k])
      (use f0 f1 k tx login in \<open>simp add: sshAuthenticate_def Lifetime_def\<close>)
qed

theorem exchanged_certificate_login_witness:
  "\<exists>c. rs_Body (handleTokenExchange demoEnv demoExchange demoRequest (fst demoPut)) = tokenFor demoEnv demoExchange c \<and>
     sshAuthenticate demoLibs demoStoreYaml noFaults 1000000 [] (ar_ssh demoRuntime)
       \<lparr>at_Identity = ''ada'', at_Method = MethodPublicKey, at_Password = [], at_PublicKey = Some c\<rparr> =
     Inr (Some \<lparr>res_Identity = ''ada'', res_Provider = ''oidc-ssh-certificate'', res_ValidBefore = Some (1000600 * Second)\<rparr>)"
proof -
  have d: "documented_SignCert (lib_ssh (dl_libs demoDaemon))" "documented_CheckCert (lib_ssh (dl_libs demoDaemon))"
    by (simp_all add: demoDaemon_def demoLibs_def demoSsh_SignCert demoSsh_CheckCert)
  have e: "ar_tokenExchange demoRuntime = Some demoExchange" "se_libs demoEnv = dl_libs demoDaemon" "se_libs demoEnv = demoLibs"
    "tx_Issuer demoExchange = demoIssuer" "ar_api demoRuntime = OIDCAuth demoOIDC"
    by (simp_all add: demoRuntime_def demoEnv_def demoDaemon_def demoExchange_def)
  have t: "issuableTime (tx_Issuer demoExchange) (se_now demoEnv)" by code_simp
  have w: "(se_now demoEnv - is_clockSkew demoIssuer) div Second \<le> 1000000" "1000000 < (se_now demoEnv + Lifetime demoIssuer) div Second"
    "(se_now demoEnv + Lifetime demoIssuer) div Second = 1000600" by code_simp+
  from exchanged_certificate_login [OF d demoRuntime_configured e(1,2) t demoExchange_OK] obtain form caller c where
    c: "postForm maximumTokenExchangeBodySize demoRequest = Some form"
      "httpAuthenticate (ar_api demoRuntime) (formGet form ''subject_token'') = Inr caller"
      "rs_Body (handleTokenExchange demoEnv demoExchange demoRequest (fst demoPut)) = tokenFor demoEnv demoExchange c"
      "\<And>Y env clock fs' who pw.
      sshAuthenticate demoLibs Y env clock fs' (ar_ssh demoRuntime) \<lparr>at_Identity = who, at_Method = MethodPublicKey, at_Password = pw, at_PublicKey = Some c\<rparr> =
      Inr (if who = pr_Identity caller \<and> (se_now demoEnv - is_clockSkew demoIssuer) div Second \<le> clock \<and>
             clock < (se_now demoEnv + Lifetime demoIssuer) div Second
           then Some \<lparr>res_Identity = pr_Identity caller, res_Provider = ''oidc-ssh-certificate'',
             res_ValidBefore = Some ((se_now demoEnv + Lifetime demoIssuer) div Second * Second)\<rparr>
           else None)"
    unfolding e(3,4) by blast
  have "caller = demoPrincipal" using c(1,2) demoRequest_form(2,4) demoOIDC_login e(5) by simp
  then have "pr_Identity caller = ''ada''" by (simp add: demoPrincipal_def)
  with c(3,4) w show ?thesis by auto
qed

end
