(* ===== verification/Proxy.thy ===== *)
theory Proxy
  imports Tearenv_Prelude "HOL-Library.Sublist"
begin

text \<open>
  Joining two byte streams (\<open>internal/proxy/proxy.go\<close>).  The two copies run concurrently: a step is a
  chunk carried by one of them or its end, and any sequence of steps may happen.  A stream has the bytes
  its peer will still send and the bytes written to it.
\<close>

record stream =
  st_in :: string
  st_out :: string
  st_canCloseWrite :: bool
  st_writeClosed :: bool
  st_closed :: bool

datatype side = LeftSide | RightSide

record join_state =
  jn_stream :: "side \<Rightarrow> stream"
  jn_copying :: "side \<Rightarrow> bool"

fun other :: "side \<Rightarrow> side" where
  "other LeftSide = RightSide"
| "other RightSide = LeftSide"

lemma other_other [simp]: "other (other d) = d" "other d \<noteq> d" "d \<noteq> other d"
  by (cases d; simp)+

lemma side_cases: "c = d \<or> c = other d"
  by (cases c; cases d) simp_all

text \<open>
  The copy to side \<open>d\<close> reads from the other side.  \<open>Chunk\<close>: \<open>n\<close> bytes are read and written;
  \<open>SourceEnded\<close>: the source is at its end; \<open>ReadFailed\<close>: reading fails; \<open>WriteFailed\<close>: of \<open>n\<close> bytes read
  only \<open>k\<close> are written.  The last three end the copy.
\<close>

datatype join_event = Chunk side nat | SourceEnded side | ReadFailed side | WriteFailed side nat nat

fun eventSide :: "join_event \<Rightarrow> side" where
  "eventSide (Chunk d n) = d"
| "eventSide (SourceEnded d) = d"
| "eventSide (ReadFailed d) = d"
| "eventSide (WriteFailed d n k) = d"

definition carry :: "side \<Rightarrow> nat \<Rightarrow> nat \<Rightarrow> join_state \<Rightarrow> join_state" where
  "carry d n k s =
     (let src = jn_stream s (other d); dst = jn_stream s d in
      s\<lparr>jn_stream := (jn_stream s)(other d := src\<lparr>st_in := drop n (st_in src)\<rparr>, d := dst\<lparr>st_out := st_out dst @ take k (st_in src)\<rparr>)\<rparr>)"

text \<open>The end of a copy closes the write side of its destination; the end of both closes the streams.\<close>

definition closeAll :: "join_state \<Rightarrow> join_state" where
  "closeAll s = s\<lparr>jn_stream := (\<lambda>d. (jn_stream s d)\<lparr>st_closed := True\<rparr>)\<rparr>"

definition endCopy :: "side \<Rightarrow> join_state \<Rightarrow> join_state" where
  "endCopy d s =
     (let dst = jn_stream s d;
          s1 = s\<lparr>jn_stream := (jn_stream s)(d := dst\<lparr>st_writeClosed := st_writeClosed dst \<or> st_canCloseWrite dst\<rparr>),
                 jn_copying := (jn_copying s)(d := False)\<rparr> in
      if jn_copying s1 (other d) then s1 else closeAll s1)"

definition joinStep :: "join_event \<Rightarrow> join_state \<Rightarrow> join_state option" where
  "joinStep e s =
     (let d = eventSide e; available = length (st_in (jn_stream s (other d))) in
      if \<not> jn_copying s d then None
      else case e of
        Chunk _ n \<Rightarrow> if n \<le> available then Some (carry d n n s) else None
      | SourceEnded _ \<Rightarrow> if available = 0 then Some (endCopy d s) else None
      | ReadFailed _ \<Rightarrow> Some (endCopy d s)
      | WriteFailed _ n k \<Rightarrow> if n \<le> available \<and> k < n then Some (endCopy d (carry d n k s)) else None)"

fun joinRun :: "join_event list \<Rightarrow> join_state \<Rightarrow> join_state option" where
  "joinRun [] s = Some s"
| "joinRun (e # es) s = Option.bind (joinStep e s) (joinRun es)"

text \<open>\<open>Join\<close> starts both copies.\<close>

definition Join :: "stream \<Rightarrow> stream \<Rightarrow> join_state" where
  "Join left right = \<lparr>jn_stream = (\<lambda>d. case d of LeftSide \<Rightarrow> left | RightSide \<Rightarrow> right), jn_copying = (\<lambda>_. True)\<rparr>"

section \<open>Properties\<close>

text \<open>
  The invariant, with the bytes each side sends: what has been written to a side is the beginning of
  what the other side sends, all of it up to the rest while nothing failed; a write side is closed only
  when its copy has ended; the streams are closed when both have.
\<close>

definition joinInv :: "bool \<Rightarrow> (side \<Rightarrow> string) \<Rightarrow> join_state \<Rightarrow> bool" where
  "joinInv clean sent s \<longleftrightarrow> (\<forall>d.
     (jn_copying s d \<or> clean \<longrightarrow> st_out (jn_stream s d) @ st_in (jn_stream s (other d)) = sent (other d)) \<and>
     prefix (st_out (jn_stream s d)) (sent (other d)) \<and>
     (\<not> jn_copying s d \<and> clean \<longrightarrow> st_in (jn_stream s (other d)) = []) \<and>
     (st_writeClosed (jn_stream s d) \<longleftrightarrow> \<not> jn_copying s d \<and> st_canCloseWrite (jn_stream s d)) \<and>
     (st_closed (jn_stream s d) \<longleftrightarrow> \<not> jn_copying s LeftSide \<and> \<not> jn_copying s RightSide))"

fun failure :: "join_event \<Rightarrow> bool" where
  "failure (ReadFailed _) = True"
| "failure (WriteFailed _ _ _) = True"
| "failure _ = False"

lemma all_sides: "(\<forall>d. P d) \<longleftrightarrow> P d \<and> P (other d)" for P :: "side \<Rightarrow> bool"
  by (metis (full_types) side.exhaust other.simps)

lemma both_ended: "\<not> f LeftSide \<and> \<not> f RightSide \<longleftrightarrow> \<not> f d \<and> \<not> f (other d)" for f :: "side \<Rightarrow> bool"
  by (cases d) auto

lemma taken: "a @ x = y \<Longrightarrow> prefix (a @ take n x) y"
  by (auto simp: take_is_prefix)

lemma carry_inv:
  assumes "joinInv clean sent s" "jn_copying s d" "n \<le> length (st_in (jn_stream s (other d)))"
  shows "joinInv clean sent (carry d n n s)"
  using assms
  unfolding joinInv_def all_sides [where d = d] both_ended [where d = d]
  by (auto simp: carry_def Let_def intro: taken)

lemma endCopy_inv:
  assumes "joinInv clean sent s" "jn_copying s d" "st_in (jn_stream s (other d)) = [] \<or> \<not> clean'" "clean' \<longrightarrow> clean"
  shows "joinInv clean' sent (endCopy d s)"
  using assms
  unfolding joinInv_def all_sides [where d = d] both_ended [where d = d]
  by (auto simp: endCopy_def closeAll_def Let_def)

lemma joinStep_inv:
  assumes "joinInv clean sent s" "joinStep e s = Some s'"
  shows "joinInv (clean \<and> \<not> failure e) sent s'"
proof (cases e)
  case (WriteFailed d n k)
  then have c: "jn_copying s d" "n \<le> length (st_in (jn_stream s (other d)))" "k < n" "s' = endCopy d (carry d n k s)"
    using assms(2) by (auto simp: joinStep_def Let_def split: if_splits)
  then show ?thesis using assms(1) WriteFailed
    unfolding joinInv_def all_sides [where d = d] both_ended [where d = d]
    by (auto simp: carry_def endCopy_def closeAll_def Let_def intro: taken)
qed (use assms carry_inv endCopy_inv in \<open>auto simp: joinStep_def Let_def split: if_splits\<close>)

lemma joinRun_inv:
  "joinInv clean sent s \<Longrightarrow> joinRun es s = Some s' \<Longrightarrow> joinInv (clean \<and> list_all (\<lambda>e. \<not> failure e) es) sent s'"
proof (induction es arbitrary: s clean)
  case (Cons e es)
  then obtain s1 where s1: "joinStep e s = Some s1" "joinRun es s1 = Some s'" by (auto simp: bind_eq_Some_conv)
  from Cons.IH [OF joinStep_inv [OF Cons.prems(1) s1(1)] s1(2)] show ?case by (simp add: conj_assoc)
qed simp

definition fresh :: "stream \<Rightarrow> bool" where
  "fresh t \<longleftrightarrow> st_out t = [] \<and> \<not> st_writeClosed t \<and> \<not> st_closed t"

lemma Join_inv:
  "fresh left \<Longrightarrow> fresh right \<Longrightarrow> joinInv True (\<lambda>d. case d of LeftSide \<Rightarrow> st_in left | RightSide \<Rightarrow> st_in right) (Join left right)"
  by (auto simp: joinInv_def all_sides [where d = LeftSide] Join_def fresh_def)

text \<open>
  Claim C37.  However the two copies of a joined pair interleave, each side has been given a beginning of
  what the other side sends, in order; the write side of a stream is closed when, and only when, the
  copy to it has ended and it can be; both streams stay open until both copies have ended, and are then
  closed; and if no read or write failed by then, everything has been delivered both ways.
\<close>

theorem join_delivers:
  assumes "fresh left" "fresh right" "joinRun es (Join left right) = Some s"
  shows "prefix (st_out (jn_stream s LeftSide)) (st_in right) \<and> prefix (st_out (jn_stream s RightSide)) (st_in left) \<and>
    (\<forall>d. st_writeClosed (jn_stream s d) \<longleftrightarrow> \<not> jn_copying s d \<and> st_canCloseWrite (jn_stream s d)) \<and>
    (\<forall>d. st_closed (jn_stream s d) \<longleftrightarrow> \<not> jn_copying s LeftSide \<and> \<not> jn_copying s RightSide) \<and>
    (list_all (\<lambda>e. \<not> failure e) es \<longrightarrow> (\<forall>d. \<not> jn_copying s d \<longrightarrow>
      st_out (jn_stream s d) = (case d of LeftSide \<Rightarrow> st_in right | RightSide \<Rightarrow> st_in left)))"
  using joinRun_inv [OF Join_inv [OF assms(1,2)] assms(3)]
  unfolding joinInv_def all_sides [where d = LeftSide]
  by auto

definition demoLeft :: stream where
  "demoLeft = \<lparr>st_in = ''request'', st_out = [], st_canCloseWrite = True, st_writeClosed = False, st_closed = False\<rparr>"
definition demoRight :: stream where
  "demoRight = \<lparr>st_in = ''answer'', st_out = [], st_canCloseWrite = False, st_writeClosed = False, st_closed = False\<rparr>"
definition demoJoin :: "join_event list" where
  "demoJoin = [Chunk RightSide 7, Chunk LeftSide 2, SourceEnded RightSide, Chunk LeftSide 4, SourceEnded LeftSide]"

theorem join_delivers_witness:
  "\<exists>s. joinRun demoJoin (Join demoLeft demoRight) = Some s \<and> st_closed (jn_stream s LeftSide) \<and>
     st_out (jn_stream s LeftSide) = ''answer'' \<and> st_out (jn_stream s RightSide) = ''request''"
proof -
  have f: "fresh demoLeft" "fresh demoRight" by (simp_all add: fresh_def demoLeft_def demoRight_def)
  obtain s where s: "joinRun demoJoin (Join demoLeft demoRight) = Some s" "\<not> jn_copying s LeftSide" "\<not> jn_copying s RightSide"
    by (simp add: demoJoin_def Join_def demoLeft_def demoRight_def joinStep_def carry_def endCopy_def closeAll_def Let_def)
  have "list_all (\<lambda>e. \<not> failure e) demoJoin" by (simp add: demoJoin_def)
  with join_delivers [OF f s(1)] s show ?thesis by (auto simp: demoLeft_def demoRight_def)
qed

end
