(* ===== verification/Command_Flags.thy ===== *)
theory Command_Flags
  imports Tearenv_Prelude
begin

text \<open>
  Flags of a command, as the two commands register them with the command library.  The library parses
  the arguments into pairs of a name and a value; a flag says what its value does to the options.
\<close>

datatype 'a flag =
    StringVar "string \<Rightarrow> 'a \<Rightarrow> 'a"
  | BoolVar "bool \<Rightarrow> 'a \<Rightarrow> 'a"
  | IntVar "int \<Rightarrow> 'a \<Rightarrow> 'a"
  | UintVar "int \<Rightarrow> 'a \<Rightarrow> 'a"
  | DurationVar "int \<Rightarrow> 'a \<Rightarrow> 'a"
  | StringSliceVar "(string list \<Rightarrow> string list) \<Rightarrow> 'a \<Rightarrow> 'a"

datatype flag_value = StringValue string | BoolValue bool | NumberValue int | StringsValue "string list"

definition int64 :: "int \<Rightarrow> bool" where
  "int64 n \<longleftrightarrow> -(2 ^ 63) \<le> n \<and> n < 2 ^ 63"

definition uint64 :: "int \<Rightarrow> bool" where
  "uint64 n \<longleftrightarrow> 0 \<le> n \<and> n < 2 ^ 64"

text \<open>A list flag replaces its default when it is first given, and is extended by every further use.\<close>

fun applyFlag :: "bool \<Rightarrow> 'a flag \<Rightarrow> flag_value \<Rightarrow> 'a \<Rightarrow> 'a option" where
  "applyFlag again (StringVar f) (StringValue s) a = Some (f s a)"
| "applyFlag again (BoolVar f) (BoolValue b) a = Some (f b a)"
| "applyFlag again (IntVar f) (NumberValue n) a = (if int64 n then Some (f n a) else None)"
| "applyFlag again (UintVar f) (NumberValue n) a = (if uint64 n then Some (f n a) else None)"
| "applyFlag again (DurationVar f) (NumberValue n) a = (if int64 n then Some (f n a) else None)"
| "applyFlag again (StringSliceVar f) (StringsValue ss) a = Some (f (\<lambda>old. if again then old @ ss else ss) a)"
| "applyFlag _ _ _ _ = None"

text \<open>The flags are applied in the order they are given; \<open>used\<close> are the ones given before.\<close>

fun applyFlags :: "(string \<times> 'a flag) list \<Rightarrow> string list \<Rightarrow> (string \<times> flag_value) list \<Rightarrow> 'a \<Rightarrow> 'a option" where
  "applyFlags table used [] a = Some a"
| "applyFlags table used ((name, v) # given) a =
     (case map_of table name of
        None \<Rightarrow> None
      | Some f \<Rightarrow> Option.bind (applyFlag (name \<in> set used) f v a) (applyFlags table (name # used) given))"

text \<open>Parsing the flags of a command: required ones must be given.\<close>

definition parseFlags :: "(string \<times> 'a flag) list \<Rightarrow> string list \<Rightarrow> (string \<times> flag_value) list \<Rightarrow> 'a \<Rightarrow> 'a option" where
  "parseFlags table required given defaults =
     (if set required \<subseteq> set (map fst given) then applyFlags table [] given defaults else None)"

section \<open>What a flag ends up as\<close>

text \<open>The last value given to a flag, or the default.\<close>

definition flagString :: "(string \<times> flag_value) list \<Rightarrow> string \<Rightarrow> string \<Rightarrow> string" where
  "flagString given name d = (case map_of (rev given) name of Some (StringValue v) \<Rightarrow> v | _ \<Rightarrow> d)"

definition flagNumber :: "(string \<times> flag_value) list \<Rightarrow> string \<Rightarrow> int \<Rightarrow> int" where
  "flagNumber given name d = (case map_of (rev given) name of Some (NumberValue v) \<Rightarrow> v | _ \<Rightarrow> d)"

text \<open>A flag that does not touch what \<open>g\<close> reads.\<close>

fun leaves :: "('a \<Rightarrow> 'b) \<Rightarrow> 'a flag \<Rightarrow> bool" where
  "leaves g (StringVar f) \<longleftrightarrow> (\<forall>v a. g (f v a) = g a)"
| "leaves g (BoolVar f) \<longleftrightarrow> (\<forall>v a. g (f v a) = g a)"
| "leaves g (IntVar f) \<longleftrightarrow> (\<forall>v a. g (f v a) = g a)"
| "leaves g (UintVar f) \<longleftrightarrow> (\<forall>v a. g (f v a) = g a)"
| "leaves g (DurationVar f) \<longleftrightarrow> (\<forall>v a. g (f v a) = g a)"
| "leaves g (StringSliceVar f) \<longleftrightarrow> (\<forall>v a. g (f v a) = g a)"

fun_cases applyFlag_elims: "applyFlag again f v a = Some a'"

lemma leaves_applyFlag: "leaves g f \<Longrightarrow> applyFlag again f v a = Some a' \<Longrightarrow> g a' = g a"
  by (elim applyFlag_elims) (auto split: if_splits)

text \<open>One flag of the table sets what \<open>g\<close> reads; the others leave it.\<close>

definition only :: "string \<Rightarrow> ('a \<Rightarrow> 'b) \<Rightarrow> (string \<times> 'a flag) list \<Rightarrow> bool" where
  "only name g table \<longleftrightarrow> (\<forall>(n, f) \<in> set table. n \<noteq> name \<longrightarrow> leaves g f)"

lemma only_other:
  assumes "only name g table" "map_of table n = Some f" "n \<noteq> name" "applyFlag again f v a = Some a'"
  shows "g a' = g a"
  using assms by (auto simp: only_def dest!: map_of_SomeD intro: leaves_applyFlag)

lemma map_of_rev_Cons:
  "map_of (rev ((n, v) # given)) name = (case map_of (rev given) name of Some w \<Rightarrow> Some w | None \<Rightarrow> if n = name then Some v else None)"
  by (simp add: map_add_def split: option.split)

text \<open>The last use of a flag decides what it sets; without a use that is the default.\<close>

lemma applyFlags_last:
  assumes "map_of table name = Some f" "only name g table"
  shows "applyFlags table used given a = Some a' \<Longrightarrow>
    (case map_of (rev given) name of
       None \<Rightarrow> g a' = g a
     | Some v \<Rightarrow> \<exists>again b c. applyFlag again f v b = Some c \<and> g a' = g c)"
proof (induction given arbitrary: used a)
  case (Cons nv given)
  obtain n v where nv: "nv = (n, v)" by force
  from Cons.prems obtain f' b where s: "map_of table n = Some f'" "applyFlag (n \<in> set used) f' v a = Some b"
    "applyFlags table (n # used) given b = Some a'"
    by (auto simp: nv bind_eq_Some_conv split: option.splits)
  note IH = Cons.IH [OF s(3)]
  show ?case
  proof (cases "map_of (rev given) name")
    case None
    with IH have g: "g a' = g b" by simp
    have "n \<noteq> name \<Longrightarrow> g b = g a" by (rule only_other [OF assms(2) s(1) _ s(2)])
    moreover have "n = name \<Longrightarrow> f' = f" using s(1) assms(1) by simp
    ultimately show ?thesis unfolding nv map_of_rev_Cons using None g s(2) by auto
  next
    case (Some w)
    with IH show ?thesis unfolding nv map_of_rev_Cons by simp
  qed
qed simp

lemma applyFlags_string:
  assumes "applyFlags table used given a = Some a'" "map_of table name = Some (StringVar u)" "only name g table"
    and "\<And>v b. g (u v b) = v"
  shows "g a' = flagString given name (g a)"
  using applyFlags_last [OF assms(2,3,1)]
  by (auto simp: flagString_def assms(4) split: option.splits elim!: applyFlag_elims)

lemma applyFlags_uint:
  assumes "applyFlags table used given a = Some a'" "map_of table name = Some (UintVar u)" "only name g table"
    and "\<And>v b. g (u v b) = v"
  shows "g a' = flagNumber given name (g a) \<and> (uint64 (g a) \<longrightarrow> uint64 (g a'))"
  using applyFlags_last [OF assms(2,3,1)]
  by (auto simp: flagNumber_def assms(4) split: option.splits if_splits elim!: applyFlag_elims)

lemma applyFlags_int:
  assumes "applyFlags table used given a = Some a'" "map_of table name = Some f" "f = IntVar u \<or> f = DurationVar u" "only name g table"
    and "\<And>v b. g (u v b) = v"
  shows "g a' = flagNumber given name (g a) \<and> (int64 (g a) \<longrightarrow> int64 (g a'))"
  using applyFlags_last [OF assms(2,4,1)] assms(3)
  by (auto simp: flagNumber_def assms(5) split: option.splits if_splits elim!: applyFlag_elims)

end
