(* ===== verification/Go_JsonPrint.thy ===== *)
theory Go_JsonPrint
  imports Go_JsonText
begin

text \<open>
  The text \<open>encoding/json\<close> writes, for the places where the program hands out bytes: strings are
  quoted with HTML-safe escapes and bytes that are not UTF-8 become the escaped replacement
  character.  A document is laid out as a list of tokens with the white space before each; the
  compact and the indented form differ in that white space only.  \<open>parseJson_print\<close> is the round
  trip: the parser of \<open>Go_JsonText\<close> reads every printed document back.
\<close>

section \<open>Strings\<close>

definition hexU :: "char \<Rightarrow> string" where
  "hexU c = CHR ''u'' # CHR ''0'' # CHR ''0'' # hexByte c"

definition quoteByte :: "char \<Rightarrow> string" where
  "quoteByte c =
     (case map_of (map (\<lambda>(a, b). (b, a)) (filter (\<lambda>(a, _). a \<noteq> CHR ''/'') simpleEscapes)) c of
        Some e \<Rightarrow> [CHR 0x5C, e]
      | None \<Rightarrow> if c < CHR 0x20 \<or> c \<in> set ''<>&'' then CHR 0x5C # hexU c else [c])"

definition lineSeparators :: "(string \<times> string) list" where
  "lineSeparators = [([CHR 0xE2, CHR 0x80, CHR 0xA8], ''u2028''), ([CHR 0xE2, CHR 0x80, CHR 0xA9], ''u2029'')]"

function quoteBody :: "string \<Rightarrow> string" where
  "quoteBody [] = []"
| "quoteBody (a # r) =
     (case runeLen (a # r) of
        0 \<Rightarrow> CHR 0x5C # ''ufffd'' @ quoteBody r
      | Suc 0 \<Rightarrow> quoteByte a @ quoteBody r
      | Suc n \<Rightarrow>
          (case map_of lineSeparators (a # take n r) of
             Some e \<Rightarrow> CHR 0x5C # e
           | None \<Rightarrow> a # take n r) @ quoteBody (drop n r))"
  by pat_completeness auto
termination by (relation "measure length") auto

definition quoteString :: "string \<Rightarrow> string" where
  "quoteString s = CHR 0x22 # quoteBody s @ [CHR 0x22]"

declare quoteBody.simps(2) [simp del]
declare stringBody.simps(2) [simp del]

lemma stringBody_escape:
  "escape s = Some (b, r) \<Longrightarrow> stringBody acc (CHR 0x5C # s) = stringBody (acc @ b) r"
  by (simp add: stringBody.simps(2))

lemma stringBody_literal:
  "c \<noteq> CHR 0x22 \<Longrightarrow> \<not> c < CHR 0x20 \<Longrightarrow> c \<noteq> CHR 0x5C \<Longrightarrow> stringBody acc (c # s) = stringBody (acc @ [c]) s"
  by (simp add: stringBody.simps(2))

lemma char_div_mod: "char_of (16 * (of_char c div 16) + of_char c mod 16 :: nat) = (c :: char)"
  by simp

lemma hex4_digits:
  "hexVal a = Some w \<Longrightarrow> hexVal b = Some x \<Longrightarrow> hexVal c = Some y \<Longrightarrow> hexVal d = Some z \<Longrightarrow>
   hex4 (a # b # c # d # s) = Some (16 * (16 * (16 * w + x) + y) + z)"
  by (simp add: hex4_def numeral_eq_Suc)

lemma escape_u:
  "hex4 (a # b # c # d # s) = Some x \<Longrightarrow> \<not> surrogateHigh x \<Longrightarrow> \<not> surrogateLow x \<Longrightarrow>
   escape (CHR ''u'' # a # b # c # d # s) = Some (encodeRune x, s)"
  by (simp add: escape_def simpleEscapes_def Let_def)

lemma escape_hexU:
  assumes "c < CHR 0x80"
  shows "escape (hexU c @ s) = Some ([c], s)"
proof -
  let ?n = "of_char c :: nat"
  have n: "?n < 128" using assms by (simp add: less_char_def)
  have z: "hexVal (CHR ''0'') = Some 0" by (simp add: hexVal_def is_digit_def)
  have h: "hexVal (hexDigit (?n div 16)) = Some (?n div 16)" "hexVal (hexDigit (?n mod 16)) = Some (?n mod 16)"
    using hexDigit_facts of_char_div_16 by auto
  have "hex4 (CHR ''0'' # CHR ''0'' # hexDigit (?n div 16) # hexDigit (?n mod 16) # s) = Some ?n"
    using hex4_digits [OF z z h, of s] by simp
  moreover have "encodeRune ?n = [c]" using n by (simp add: encodeRune_def byte_def)
  moreover have "\<not> surrogateHigh ?n" "\<not> surrogateLow ?n" using n by (auto simp: surrogateHigh_def surrogateLow_def)
  ultimately show ?thesis using escape_u by (simp add: hexU_def hexByte_def)
qed

lemma stringBody_quoteByte:
  assumes "c < CHR 0x80"
  shows "stringBody acc (quoteByte c @ s) = stringBody (acc @ [c]) s"
proof (cases "map_of (map (\<lambda>(a, b). (b, a)) (filter (\<lambda>(a, _). a \<noteq> CHR ''/'') simpleEscapes)) c")
  case None
  show ?thesis
  proof (cases "c < CHR 0x20 \<or> c \<in> set ''<>&''")
    case True
    with stringBody_escape [OF escape_hexU [OF assms], of acc s] None True show ?thesis
      by (simp add: quoteByte_def)
  next
    case False
    with None have "c \<noteq> CHR 0x22" "c \<noteq> CHR 0x5C" by (auto simp: simpleEscapes_def)
    with None False show ?thesis by (simp add: quoteByte_def stringBody_literal)
  qed
next
  case (Some e)
  then have "map_of simpleEscapes e = Some c" by (auto simp: simpleEscapes_def split: if_splits)
  then have "escape (e # s) = Some ([c], s)" by (simp add: escape_def)
  with Some stringBody_escape [of "e # s"] show ?thesis by (simp add: quoteByte_def)
qed

lemma stringBody_highs:
  "list_all (\<lambda>c. CHR 0x80 \<le> c) bs \<Longrightarrow> stringBody acc (bs @ s) = stringBody (acc @ bs) s"
proof (induction bs arbitrary: acc)
  case (Cons c bs)
  then have "CHR 0x80 \<le> c" by simp
  then have "c \<noteq> CHR 0x22" "\<not> c < CHR 0x20" "c \<noteq> CHR 0x5C" by (auto simp: less_char_def less_eq_char_def)
  with Cons show ?case by (simp add: stringBody_literal)
qed simp

text \<open>A sequence of two or more bytes has no ASCII byte in it.\<close>

lemma runeLen_high:
  assumes "runeLen (a # r) = Suc (Suc n)"
  shows "list_all (\<lambda>c. CHR 0x80 \<le> c) (a # take (Suc n) r)"
  using assms
  by (cases rule: runeLen_cases)
    (auto simp: cont_byte_def byte_between_def not_less split: if_splits elim: order_trans [rotated])

lemma escape_unicode:
  "escape (''u2028'' @ s) = Some ([CHR 0xE2, CHR 0x80, CHR 0xA8], s)" "escape (''u2029'' @ s) = Some ([CHR 0xE2, CHR 0x80, CHR 0xA9], s)"
  "escape (''ufffd'' @ s) = Some ([CHR 0xEF, CHR 0xBF, CHR 0xBD], s)"
proof -
  have v: "hexVal (CHR ''0'') = Some 0" "hexVal (CHR ''2'') = Some 2" "hexVal (CHR ''8'') = Some 8" "hexVal (CHR ''9'') = Some 9"
    "hexVal (CHR ''f'') = Some 15" "hexVal (CHR ''d'') = Some 13" by code_simp+
  have h: "hex4 (CHR ''2'' # CHR ''0'' # CHR ''2'' # CHR ''8'' # s) = Some 0x2028" "hex4 (CHR ''2'' # CHR ''0'' # CHR ''2'' # CHR ''9'' # s) = Some 0x2029"
    "hex4 (CHR ''f'' # CHR ''f'' # CHR ''f'' # CHR ''d'' # s) = Some 0xFFFD"
    using hex4_digits [OF v(2,1,2,3), of s] hex4_digits [OF v(2,1,2,4), of s] hex4_digits [OF v(5,5,5,6), of s] by simp_all
  have e: "encodeRune 0x2028 = [CHR 0xE2, CHR 0x80, CHR 0xA8]" "encodeRune 0x2029 = [CHR 0xE2, CHR 0x80, CHR 0xA9]"
    "encodeRune 0xFFFD = [CHR 0xEF, CHR 0xBF, CHR 0xBD]" by (simp_all add: encodeRune_def byte_def char_of_eq_iff)
  show "escape (''u2028'' @ s) = Some ([CHR 0xE2, CHR 0x80, CHR 0xA8], s)" "escape (''u2029'' @ s) = Some ([CHR 0xE2, CHR 0x80, CHR 0xA9], s)"
    "escape (''ufffd'' @ s) = Some ([CHR 0xEF, CHR 0xBF, CHR 0xBD], s)"
    using h [THEN escape_u] e by (simp_all add: surrogateHigh_def surrogateLow_def)
qed

lemma stringBody_quoteBody: "stringBody acc (quoteBody s @ t) = stringBody (acc @ coerceUTF8 s) t"
proof (induction s arbitrary: acc rule: quoteBody.induct)
  case (2 a r)
  consider (bad) "runeLen (a # r) = 0" | (one) "runeLen (a # r) = Suc 0" | (more) n where "runeLen (a # r) = Suc (Suc n)"
    by (metis nat.exhaust)
  then show ?case
  proof cases
    case bad
    have "stringBody acc (CHR 0x5C # ''ufffd'' @ quoteBody r @ t) = stringBody (acc @ [CHR 0xEF, CHR 0xBF, CHR 0xBD]) (quoteBody r @ t)"
      by (rule stringBody_escape [OF escape_unicode(3)])
    then have "stringBody acc (quoteBody (a # r) @ t) = stringBody (acc @ [CHR 0xEF, CHR 0xBF, CHR 0xBD]) (quoteBody r @ t)"
      by (simp only: quoteBody.simps(2) bad nat.case append_Cons append_assoc)
    with bad 2 show ?thesis by (simp add: coerceUTF8.simps(2))
  next
    case one
    then have "a < CHR 0x80" by (cases rule: runeLen_cases) auto
    with one 2 stringBody_quoteByte [of a acc] show ?thesis by (simp add: coerceUTF8.simps(2) quoteBody.simps(2))
  next
    case more
    have "stringBody acc ((case map_of lineSeparators (a # take (Suc n) r) of Some e \<Rightarrow> CHR 0x5C # e | None \<Rightarrow> a # take (Suc n) r) @ u) =
        stringBody (acc @ a # take (Suc n) r) u" for u
    proof (cases "map_of lineSeparators (a # take (Suc n) r)")
      case None
      with stringBody_highs [OF runeLen_high [OF more], of acc u] show ?thesis by simp
    next
      case (Some e)
      then have "escape (e @ u) = Some (a # take (Suc n) r, u)"
        using escape_unicode(1,2) [of u] by (auto simp: lineSeparators_def split: if_splits)
      from stringBody_escape [OF this, of acc] Some show ?thesis by simp
    qed
    with more 2 show ?thesis by (simp add: coerceUTF8.simps(2) quoteBody.simps(2))
  qed
qed simp

lemma stringBody_quoted: "stringBody [] (tl (quoteString s) @ t) = Some (coerceUTF8 s, t)"
  using stringBody_quoteBody [of "[]" s "CHR 0x22 # t"] by (simp add: quoteString_def stringBody.simps(2))


section \<open>Documents\<close>

text \<open>
  \<open>jsonLayout nl sp d lead j\<close> lays out a document at depth \<open>d\<close>: \<open>lead\<close> stands before its first token,
  \<open>nl d\<close> starts a line at depth \<open>d\<close> and \<open>sp\<close> follows a colon.  Empty arrays and objects stay on
  their line.
\<close>

type_synonym layout = "(string \<times> jtok) list"

fun jsonLayout :: "(nat \<Rightarrow> string) \<Rightarrow> string \<Rightarrow> nat \<Rightarrow> string \<Rightarrow> json \<Rightarrow> layout"
  and elemsLayout :: "(nat \<Rightarrow> string) \<Rightarrow> string \<Rightarrow> nat \<Rightarrow> json list \<Rightarrow> layout"
  and fieldsLayout :: "(nat \<Rightarrow> string) \<Rightarrow> string \<Rightarrow> nat \<Rightarrow> (string \<times> json) list \<Rightarrow> layout" where
  "jsonLayout nl sp d lead (JStr s) = [(lead, TString s)]"
| "jsonLayout nl sp d lead (JArr vs) =
     (lead, TOpenArr) # elemsLayout nl sp (Suc d) vs @ [(if vs = [] then [] else nl d, TCloseArr)]"
| "jsonLayout nl sp d lead (JObj kvs) =
     (lead, TOpenObj) # fieldsLayout nl sp (Suc d) kvs @ [(if kvs = [] then [] else nl d, TCloseObj)]"
| "jsonLayout nl sp d lead v = [(lead, TScalar v)]"
| "elemsLayout nl sp d [] = []"
| "elemsLayout nl sp d (v # vs) =
     jsonLayout nl sp d (nl d) v @ (if vs = [] then [] else ([], TComma) # elemsLayout nl sp d vs)"
| "fieldsLayout nl sp d [] = []"
| "fieldsLayout nl sp d ((k, v) # kvs) =
     (nl d, TString k) # ([], TColon) # jsonLayout nl sp d sp v @ (if kvs = [] then [] else ([], TComma) # fieldsLayout nl sp d kvs)"

fun tokenText :: "jtok \<Rightarrow> string" where
  "tokenText TOpenArr = ''[''"
| "tokenText TCloseArr = '']''"
| "tokenText TOpenObj = ''{''"
| "tokenText TCloseObj = ''}''"
| "tokenText TColon = '':''"
| "tokenText TComma = '',''"
| "tokenText (TString s) = quoteString s"
| "tokenText (TScalar (JNum n)) = n"
| "tokenText (TScalar (JBool b)) = (if b then ''true'' else ''false'')"
| "tokenText (TScalar _) = ''null''"

definition layoutText :: "layout \<Rightarrow> string" where
  "layoutText l = concat (map (\<lambda>(ws, t). ws @ tokenText t) l)"

text \<open>\<open>json.Marshal\<close>, and an \<open>Encoder\<close> with and without \<open>SetIndent("", "  ")\<close>.\<close>

definition compactJson :: "json \<Rightarrow> string" where
  "compactJson j = layoutText (jsonLayout (\<lambda>_. []) [] 0 [] j)"

definition encodeLine :: "json \<Rightarrow> string" where
  "encodeLine j = compactJson j @ [CHR 0x0A]"

definition indentedJson :: "json \<Rightarrow> string" where
  "indentedJson j = layoutText (jsonLayout (\<lambda>d. CHR 0x0A # replicate (2 * d) (CHR '' '')) '' '' 0 [] j) @ [CHR 0x0A]"

section \<open>The round trip\<close>

text \<open>What a reader gets: strings and keys without their invalid bytes.\<close>

fun readable :: "json \<Rightarrow> json" where
  "readable (JStr s) = JStr (coerceUTF8 s)"
| "readable (JArr vs) = JArr (map readable vs)"
| "readable (JObj kvs) = JObj (map (\<lambda>(k, v). (coerceUTF8 k, readable v)) kvs)"
| "readable v = v"

fun wf_numbers :: "json \<Rightarrow> bool" where
  "wf_numbers (JNum n) = (jsonNumber n \<and> list_all number_char n)"
| "wf_numbers (JArr vs) = list_all wf_numbers vs"
| "wf_numbers (JObj kvs) = list_all (\<lambda>(_, v). wf_numbers v) kvs"
| "wf_numbers v = True"

fun nesting :: "json \<Rightarrow> nat" where
  "nesting (JArr vs) = Suc (fold max (map nesting vs) 0)"
| "nesting (JObj kvs) = Suc (fold max (map (\<lambda>(_, v). nesting v) kvs) 0)"
| "nesting v = 0"

fun readToken :: "jtok \<Rightarrow> jtok" where
  "readToken (TString s) = TString (coerceUTF8 s)"
| "readToken t = t"

fun wf_token :: "jtok \<Rightarrow> bool" where
  "wf_token (TScalar (JNum n)) = (jsonNumber n \<and> list_all number_char n)"
| "wf_token (TScalar (JBool _)) = True"
| "wf_token (TScalar JNull) = True"
| "wf_token (TScalar _) = False"
| "wf_token _ = True"

lemma le_fold_max: "x \<in> set xs \<Longrightarrow> x \<le> fold max xs (n :: nat)" "n \<le> fold max xs n"
proof (induction xs arbitrary: n)
  case (Cons y xs)
  {
    case 1
    then show ?case using Cons(1,2) [of "max y n"] by (auto intro: order_trans [of _ "max y n"])
  next
    case 2
    then show ?case using Cons(2) [of "max y n"] by simp
  }
qed simp_all

lemma nextToken_string: "nextToken (CHR 0x22) (tl (quoteString s) @ t) = Some (TString (coerceUTF8 s), t)"
  by (simp add: nextToken_def punctuation_def stringBody_quoted)

lemma nextToken_number:
  assumes "jsonNumber (c # n)" "list_all number_char (c # n)" "s = [] \<or> \<not> number_char (hd s)"
  shows "nextToken c (n @ s) = Some (TScalar (JNum (c # n)), s)"
proof -
  have t: "takeWhile number_char (n @ s) = n" "dropWhile number_char (n @ s) = s"
    using assms(2,3) by (cases s; auto simp: list_all_iff takeWhile_eq_all_conv dropWhile_append3 takeWhile_append dropWhile_append)+
  have "number_char c" using assms(2) by simp
  then have "map_of punctuation c = None" "c \<noteq> CHR 0x22"
    by (auto simp: punctuation_def number_char_def is_digit_def)
  with t assms(1,2) show ?thesis by (simp add: nextToken_def)
qed

text \<open>A number is not followed by a character it could go on with.\<close>

definition ends :: "string \<Rightarrow> bool" where
  "ends s \<longleftrightarrow> s = [] \<or> \<not> number_char (hd s)"

lemma space_not_number: "json_space c \<Longrightarrow> \<not> number_char c"
  by (auto simp: json_space_def number_char_def is_digit_def)

lemma jsonTokens_space: "list_all json_space ws \<Longrightarrow> jsonTokens (ws @ s) = jsonTokens s"
  by (induction ws) auto

lemma jsonTokens_token:
  assumes "wf_token t" "case t of TScalar _ \<Rightarrow> ends s | _ \<Rightarrow> True"
  shows "jsonTokens (tokenText t @ s) = map_option ((#) (readToken t)) (jsonTokens s)"
proof -
  have step: "jsonTokens (c # r) = map_option ((#) u) (jsonTokens s)" if "nextToken c r = Some (u, s)" "\<not> json_space c" for c r u
    using that by (auto split: option.splits)
  show ?thesis
  proof (cases t)
    case (TString b)
    then show ?thesis using step [OF nextToken_string, of b] by (simp add: json_space_def quoteString_def del: jsonTokens.simps)
  next
    case (TScalar v)
    show ?thesis
    proof (cases v)
      case (JNum n)
      with assms TScalar obtain c m where n: "n = c # m" "jsonNumber (c # m)" "list_all number_char (c # m)"
        by (cases n) (auto simp: jsonNumber_def cut_def integerPart_def digits_def)
      have "nextToken c (m @ s) = Some (TScalar (JNum (c # m)), s)"
        by (rule nextToken_number [OF n(2,3)]) (use assms(2) TScalar in \<open>simp add: ends_def\<close>)
      moreover have "\<not> json_space c" using space_not_number [of c] n(3) by auto
      ultimately have "jsonTokens (c # m @ s) = map_option ((#) (TScalar (JNum (c # m)))) (jsonTokens s)" by (rule step)
      with n(1) TScalar JNum show ?thesis by (simp del: jsonTokens.simps)
    next
      case (JBool b)
      have "nextToken (CHR ''t'') (''rue'' @ s) = Some (TScalar (JBool True), s)" "nextToken (CHR ''f'') (''alse'' @ s) = Some (TScalar (JBool False), s)"
        by (simp_all add: nextToken_def punctuation_def number_char_def is_digit_def jsonLiterals_def eval_nat_numeral)
      from this [THEN step] JBool TScalar show ?thesis by (simp add: json_space_def del: jsonTokens.simps)
    next
      case JNull
      have "nextToken (CHR ''n'') (''ull'' @ s) = Some (TScalar JNull, s)"
        by (simp add: nextToken_def punctuation_def number_char_def is_digit_def jsonLiterals_def eval_nat_numeral)
      from step [OF this] JNull TScalar show ?thesis by (simp add: json_space_def del: jsonTokens.simps)
    qed (use assms(1) TScalar in simp_all)
  qed (simp_all add: nextToken_def punctuation_def json_space_def split: option.splits)
qed


fun good :: "layout \<Rightarrow> bool" where
  "good [] = True"
| "good ((ws, t) # l) =
     (list_all json_space ws \<and> wf_token t \<and> good l \<and>
      (case t of TScalar _ \<Rightarrow> (case l of [] \<Rightarrow> True | (_, u) # _ \<Rightarrow> u \<in> {TComma, TCloseArr, TCloseObj}) | _ \<Rightarrow> True))"

definition separates :: "layout \<Rightarrow> bool" where
  "separates l = (case l of [] \<Rightarrow> True | (_, u) # _ \<Rightarrow> u \<in> {TComma, TCloseArr, TCloseObj})"

lemma ends_layout: "good l \<Longrightarrow> separates l \<Longrightarrow> ends s \<Longrightarrow> ends (layoutText l @ s)"
proof (induction l)
  case (Cons x l)
  obtain ws t where x: "x = (ws, t)" by (cases x)
  show ?case
  proof (cases ws)
    case Nil
    have "t \<in> {TComma, TCloseArr, TCloseObj}" using Cons.prems(2) x by (simp add: separates_def)
    with Nil x show ?thesis by (auto simp: ends_def layoutText_def number_char_def is_digit_def)
  next
    case (Cons c cs)
    then have "json_space c" using \<open>good (x # l)\<close> x by simp
    with space_not_number Cons x show ?thesis by (simp add: ends_def layoutText_def)
  qed
qed (simp add: layoutText_def)

lemma jsonTokens_layout:
  "good l \<Longrightarrow> ends s \<Longrightarrow> jsonTokens (layoutText l @ s) = map_option ((@) (map (readToken \<circ> snd) l)) (jsonTokens s)"
proof (induction l)
  case Nil
  then show ?case by (simp add: layoutText_def option.map_ident)
next
  case (Cons x l)
  obtain ws t where x: "x = (ws, t)" by (cases x)
  have e: "layoutText (x # l) @ s = ws @ tokenText t @ (layoutText l @ s)" by (simp add: layoutText_def x)
  have "case t of TScalar _ \<Rightarrow> ends (layoutText l @ s) | _ \<Rightarrow> True"
    using Cons.prems x ends_layout [of l s] by (auto simp: separates_def split: jtok.splits list.splits)
  with Cons x show ?case
    unfolding e by (simp add: jsonTokens_space jsonTokens_token option.map_comp comp_def)
qed

lemma good_layout:
  assumes "\<And>d. list_all json_space (nl d)" "list_all json_space sp"
  shows "list_all json_space lead \<Longrightarrow> wf_numbers v \<Longrightarrow> good l \<Longrightarrow> separates l \<Longrightarrow> good (jsonLayout nl sp d lead v @ l)"
    and "list_all wf_numbers vs \<Longrightarrow> good l \<Longrightarrow> separates l \<Longrightarrow> good (elemsLayout nl sp d vs @ l)"
    and "list_all (\<lambda>(_, v). wf_numbers v) kvs \<Longrightarrow> good l \<Longrightarrow> separates l \<Longrightarrow> good (fieldsLayout nl sp d kvs @ l)"
  using assms
proof (induction nl sp d lead v and nl sp d vs and nl sp d kvs arbitrary: l and l and l
    rule: jsonLayout_elemsLayout_fieldsLayout.induct)
qed (auto simp: separates_def)

lemma layout_first:
  "jsonLayout nl sp d lead v = (lead, t) # l \<Longrightarrow> t \<noteq> TCloseArr" "jsonLayout nl sp d lead v \<noteq> []"
  by (cases v; auto)+

abbreviation toks :: "layout \<Rightarrow> jtok list" where
  "toks l \<equiv> map (readToken \<circ> snd) l"

lemma parse_layout:
  shows "length st + nesting v \<le> maxNestingDepth \<Longrightarrow>
      parserRun (st, WantValue) (toks (jsonLayout nl sp d lead v) @ ts) = parserRun (st, Have (readable v)) ts"
    and "\<forall>v \<in> set vs. Suc (length st) + nesting v \<le> maxNestingDepth \<Longrightarrow> vs \<noteq> [] \<Longrightarrow>
      parserRun (InArr ws # st, WantValue) (toks (elemsLayout nl sp d vs) @ TCloseArr # ts) =
      parserRun (st, Have (JArr (ws @ map readable vs))) ts"
    and "\<forall>(k, v) \<in> set kvs. Suc (length st) + nesting v \<le> maxNestingDepth \<Longrightarrow> kvs \<noteq> [] \<Longrightarrow>
      parserRun (InObj ps k0 # st, WantKey) (toks (fieldsLayout nl sp d kvs) @ TCloseObj # ts) =
      parserRun (st, Have (JObj (ps @ map (\<lambda>(k, v). (coerceUTF8 k, readable v)) kvs))) ts"
proof (induction nl sp d lead v and nl sp d vs and nl sp d kvs arbitrary: st ts and st ts ws and st ts ps k0
    rule: jsonLayout_elemsLayout_fieldsLayout.induct)
  case (2 nl sp d lead vs)
  show ?case
  proof (cases "vs = []")
    case False
    have n: "\<forall>v \<in> set vs. Suc (length st) + nesting v \<le> maxNestingDepth"
      using 2(2) le_fold_max(1) [of _ "map nesting vs" 0] by fastforce
    have "length st < maxNestingDepth" using 2(2) by simp
    moreover obtain v vs' where v: "vs = v # vs'" using False by (cases vs) auto
    obtain t l where "jsonLayout nl sp (Suc d) (nl (Suc d)) v = (nl (Suc d), t) # l"
      using layout_first(2) [of nl sp "Suc d" "nl (Suc d)" v] by (cases v) auto
    with v layout_first(1) [OF this] obtain l' where l': "toks (elemsLayout nl sp (Suc d) vs) = readToken t # l'" "readToken t \<noteq> TCloseArr"
      by (cases t) auto
    then have "parserRun (InArr [] # st, WantFirst) (toks (elemsLayout nl sp (Suc d) vs) @ TCloseArr # ts) =
        parserRun (InArr [] # st, WantValue) (toks (elemsLayout nl sp (Suc d) vs) @ TCloseArr # ts)" by simp
    ultimately show ?thesis using 2(1) [OF n False, of "[]" ts] by (simp add: comp_def)
  qed (use 2(2) in simp)
next
  case (3 nl sp d lead kvs)
  show ?case
  proof (cases "kvs = []")
    case False
    have n: "\<forall>(k, v) \<in> set kvs. Suc (length st) + nesting v \<le> maxNestingDepth"
      using 3(2) le_fold_max(1) [of _ "map (\<lambda>(_, v). nesting v) kvs" 0] by fastforce
    have "length st < maxNestingDepth" using 3(2) by simp
    moreover have "parserRun (InObj [] [] # st, WantFirstKey) (toks (fieldsLayout nl sp (Suc d) kvs) @ TCloseObj # ts) =
        parserRun (InObj [] [] # st, WantKey) (toks (fieldsLayout nl sp (Suc d) kvs) @ TCloseObj # ts)"
      using False by (cases kvs) auto
    ultimately show ?thesis using 3(1) [OF n False, of "[]" "[]" ts] by (simp add: comp_def)
  qed (use 3(2) in simp)
next
  case (6 nl sp d v vs)
  then show ?case by (cases "vs = []") auto
next
  case (8 nl sp d k v kvs)
  then show ?case by (cases "kvs = []") auto
qed auto

text \<open>Every printed document is read back, invalid bytes replaced.\<close>

lemma parse_layoutText:
  assumes "\<And>d. list_all json_space (nl d)" "list_all json_space sp" "list_all json_space s"
    and "wf_numbers j" "nesting j \<le> maxNestingDepth"
  shows "parseJson (layoutText (jsonLayout nl sp d [] j) @ s) = Some (readable j)"
proof -
  have "good (jsonLayout nl sp d [] j)" using good_layout(1) [OF assms(1,2), of "[]" j "[]"] assms(4) by (simp add: separates_def)
  moreover have "ends s" using assms(3) space_not_number by (cases s) (auto simp: ends_def)
  moreover have "jsonTokens s = Some []" using jsonTokens_space [OF assms(3), of "[]"] by simp
  moreover have "parserRun ([], WantValue) (toks (jsonLayout nl sp d [] j) @ []) = Some (readable j)"
    using parse_layout(1) [of "[]" j nl sp d "[]" "[]"] assms(5) by simp
  ultimately show ?thesis by (simp add: parseJson_def jsonTokens_layout)
qed

lemma parseJson_print:
  assumes "wf_numbers j" "nesting j \<le> maxNestingDepth"
  shows "parseJson (compactJson j) = Some (readable j)" "parseJson (encodeLine j) = Some (readable j)"
    "parseJson (indentedJson j) = Some (readable j)"
proof -
  have "list_all json_space (CHR 0x0A # replicate n (CHR '' ''))" "json_space (CHR 0x0A)" "json_space (CHR '' '')" for n
    by (auto simp: json_space_def list_all_iff)
  then show "parseJson (compactJson j) = Some (readable j)" "parseJson (encodeLine j) = Some (readable j)"
    "parseJson (indentedJson j) = Some (readable j)"
    using parse_layoutText [of "\<lambda>_. []" "[]" "[]" j 0] parse_layoutText [of "\<lambda>_. []" "[]" "[CHR 0x0A]" j 0]
      parse_layoutText [of "\<lambda>d. CHR 0x0A # replicate (2 * d) (CHR '' '')" "'' ''" "[CHR 0x0A]" j 0] assms
    by (simp_all add: compactJson_def encodeLine_def indentedJson_def)
qed

end
