(* ===== verification/Client_Files.thy ===== *)
theory Client_Files
  imports Libraries Go_Files Go_JsonPrint
begin

text \<open>
  What the client keeps on disk: the profile of a login (\<open>internal/profile/profile.go\<close>), a JSON text
  written by replace-by-rename, and the private key (\<open>internal/client/private_key.go\<close>).  Making a
  key, its PEM text and its signer are the SSH library's.
\<close>

section \<open>The profile\<close>

record Profile =
  pf_ServerAddress :: string
  pf_APIURL :: string
  pf_Namespace :: string
  pf_Identity :: string
  pf_AuthenticationMode :: string
  pf_KeyName :: string
  pf_OIDCDevice :: bool
  pf_Token :: string
  pf_PrivateKey :: string
  pf_KnownHosts :: string
  pf_Insecure :: bool

definition zero_Profile :: Profile where
  "zero_Profile = \<lparr>pf_ServerAddress = [], pf_APIURL = [], pf_Namespace = [], pf_Identity = [], pf_AuthenticationMode = [],
     pf_KeyName = [], pf_OIDCDevice = False, pf_Token = [], pf_PrivateKey = [], pf_KnownHosts = [], pf_Insecure = False\<rparr>"

definition profileFields :: "Profile fields" where
  "profileFields =
     [field ''server'' dec_string pf_ServerAddress pf_ServerAddress_update,
      field ''api_url'' dec_string pf_APIURL pf_APIURL_update,
      field ''namespace'' dec_string pf_Namespace pf_Namespace_update,
      field ''identity'' dec_string pf_Identity pf_Identity_update,
      field ''authentication_mode'' dec_string pf_AuthenticationMode pf_AuthenticationMode_update,
      field ''key_name'' dec_string pf_KeyName pf_KeyName_update,
      field ''oidc_device'' dec_bool pf_OIDCDevice pf_OIDCDevice_update,
      field ''token'' dec_string pf_Token pf_Token_update,
      field ''private_key'' dec_string pf_PrivateKey pf_PrivateKey_update,
      field ''known_hosts'' dec_string pf_KnownHosts pf_KnownHosts_update,
      field ''insecure_skip_host_key_check'' dec_bool pf_Insecure pf_Insecure_update]"

definition dec_Profile :: "Profile dec" where
  "dec_Profile = dec_struct False profileFields"

definition emitString :: "string \<Rightarrow> string \<Rightarrow> (string \<times> json) list" where
  "emitString n s = emitIf (s \<noteq> []) n (JStr s)"

definition enc_Profile :: "Profile \<Rightarrow> json" where
  "enc_Profile p = JObj
     (emit ''server'' (JStr (pf_ServerAddress p)) @ emitString ''api_url'' (pf_APIURL p) @ emitString ''namespace'' (pf_Namespace p) @
      emit ''identity'' (JStr (pf_Identity p)) @ emitString ''authentication_mode'' (pf_AuthenticationMode p) @
      emitString ''key_name'' (pf_KeyName p) @ emitIf (pf_OIDCDevice p) ''oidc_device'' (JBool (pf_OIDCDevice p)) @
      emitString ''token'' (pf_Token p) @ emitString ''private_key'' (pf_PrivateKey p) @
      emitString ''known_hosts'' (pf_KnownHosts p) @
      emitIf (pf_Insecure p) ''insecure_skip_host_key_check'' (JBool (pf_Insecure p)))"

datatype profile_err =
    ProfileStat sys_err | ProfilePermissions perm | ProfileRead sys_err | ProfileParse
  | ServerRequired | IdentityRequired | TokenOrKeyRequired | OIDCIncomplete | KnownHostsRequired | ProfileWrite sys_err

definition profileValidate :: "Profile \<Rightarrow> profile_err option" where
  "profileValidate p =
     (if pf_ServerAddress p = [] then Some ServerRequired
      else if pf_Identity p = [] then Some IdentityRequired
      else if pf_Token p = [] \<and> pf_PrivateKey p = [] then Some TokenOrKeyRequired
      else if pf_AuthenticationMode p = ''oidc'' \<and>
        (pf_APIURL p = [] \<or> pf_Namespace p = [] \<or> pf_KeyName p = [] \<or> pf_PrivateKey p = []) then Some OIDCIncomplete
      else if \<not> pf_Insecure p \<and> pf_KnownHosts p = [] then Some KnownHostsRequired
      else None)"

definition profileLoad :: "os_env \<Rightarrow> string \<Rightarrow> string fs \<Rightarrow> profile_err + Profile" where
  "profileLoad env path fs =
     (case osStat env SysStatRead path fs of
        Inl e \<Rightarrow> Inl (ProfileStat e)
      | Inr info \<Rightarrow>
          if permOf info AND 0x3F \<noteq> 0 then Inl (ProfilePermissions (permOf info))
          else (case readFile env path fs of
              Inl e \<Rightarrow> Inl (ProfileRead e)
            | Inr contents \<Rightarrow>
                (case Option.bind contents parseJson of
                   None \<Rightarrow> Inl ProfileParse
                 | Some j \<Rightarrow>
                     (case dec_Profile j zero_Profile of
                        Inl _ \<Rightarrow> Inl ProfileParse
                      | Inr p \<Rightarrow> (case profileValidate p of Some e \<Rightarrow> Inl e | None \<Rightarrow> Inr p)))))"

text \<open>All states of the file system during the call, and its error.\<close>

definition profileSave :: "os_env \<Rightarrow> string \<Rightarrow> Profile \<Rightarrow> string fs \<Rightarrow> string fs list \<times> profile_err option" where
  "profileSave env path p fs =
     (case profileValidate p of
        Some e \<Rightarrow> ([fs], Some e)
      | None \<Rightarrow>
          (case atomicWrite env ''.tearenv-profile-'' path (indentedJson (enc_Profile p)) fs of
             (trace, err) \<Rightarrow> (trace, map_option ProfileWrite err)))"

section \<open>The private key\<close>

record keygen_lib =
  GenerateKey :: "string option"
  MarshalPrivateKey :: "string \<Rightarrow> string \<Rightarrow> string option"
  NewSignerFromKey :: "string \<Rightarrow> Signer option"

text \<open>The PEM text of a key is parsed into the signer of that key.\<close>

definition documented_keygen :: "ssh_lib \<Rightarrow> keygen_lib \<Rightarrow> bool" where
  "documented_keygen L G \<longleftrightarrow>
     (\<forall>k c pem. MarshalPrivateKey G k c = Some pem \<longrightarrow> ParsePrivateKey L pem = NewSignerFromKey G k)"

datatype key_err =
    ClientKeyStat sys_err | ClientKeyPermissions perm | ClientKeyRead sys_err | ClientKeyParse
  | ClientKeyDirectory sys_err | ClientKeyGenerate | ClientKeyEncode | ClientKeyWrite sys_err | ClientKeySigner

definition LoadPrivateKey :: "ssh_lib \<Rightarrow> os_env \<Rightarrow> string \<Rightarrow> string fs \<Rightarrow> key_err + Signer" where
  "LoadPrivateKey L env path fs =
     (case osStat env SysStatRead path fs of
        Inl e \<Rightarrow> Inl (ClientKeyStat e)
      | Inr info \<Rightarrow>
          if permOf info AND 0x3F \<noteq> 0 then Inl (ClientKeyPermissions (permOf info))
          else (case readFile env path fs of
              Inl e \<Rightarrow> Inl (ClientKeyRead e)
            | Inr contents \<Rightarrow>
                (case Option.bind contents (ParsePrivateKey L) of None \<Rightarrow> Inl ClientKeyParse | Some s \<Rightarrow> Inr s)))"

fun keyNotExist :: "key_err \<Rightarrow> bool" where
  "keyNotExist (ClientKeyStat e) = (e = NotExist)"
| "keyNotExist (ClientKeyRead e) = (e = NotExist)"
| "keyNotExist _ = False"

definition createPrivateKey :: "keygen_lib \<Rightarrow> os_env \<Rightarrow> string \<Rightarrow> string \<Rightarrow> string fs \<Rightarrow> string fs list \<times> (key_err + Signer)" where
  "createPrivateKey G env path identity fs =
     (case GenerateKey G of
        None \<Rightarrow> ([fs], Inl ClientKeyGenerate)
      | Some key \<Rightarrow>
          (case MarshalPrivateKey G key (''tearenv '' @ identity) of
             None \<Rightarrow> ([fs], Inl ClientKeyEncode)
           | Some pem \<Rightarrow>
               (case replaceFile env ''.tearenv-key-'' path pem fs of
                  (trace, Some e) \<Rightarrow> (trace, Inl (ClientKeyWrite e))
                | (trace, None) \<Rightarrow>
                    (trace, case NewSignerFromKey G key of None \<Rightarrow> Inl ClientKeySigner | Some s \<Rightarrow> Inr s))))"

definition LoadOrCreatePrivateKey :: "ssh_lib \<Rightarrow> keygen_lib \<Rightarrow> os_env \<Rightarrow> string \<Rightarrow> string \<Rightarrow> string fs \<Rightarrow> string fs list \<times> (key_err + Signer)" where
  "LoadOrCreatePrivateKey L G env path identity fs =
     (case LoadPrivateKey L env path fs of
        Inr signer \<Rightarrow> ([fs], Inr signer)
      | Inl e \<Rightarrow>
          if \<not> keyNotExist e then ([fs], Inl e)
          else (case mkdirAll env (dirOf path) fs of
              (fs1, Some err) \<Rightarrow> ([fs, fs1], Inl (ClientKeyDirectory err))
            | (fs1, None) \<Rightarrow>
                (case createPrivateKey G env path identity fs1 of (trace, res) \<Rightarrow> (fs # trace, res))))"

section \<open>Facts\<close>

definition utf8_Profile :: "Profile \<Rightarrow> bool" where
  "utf8_Profile p \<longleftrightarrow> list_all valid_utf8 [pf_ServerAddress p, pf_APIURL p, pf_Namespace p, pf_Identity p, pf_AuthenticationMode p,
     pf_KeyName p, pf_Token p, pf_PrivateKey p, pf_KnownHosts p]"

lemma readable_emit:
  "is_ascii n \<Longrightarrow> valid_utf8 s \<Longrightarrow> map (\<lambda>(k, v). (coerceUTF8 k, readable v)) (emit n (JStr s)) = emit n (JStr s)"
  "is_ascii n \<Longrightarrow> valid_utf8 s \<Longrightarrow> map (\<lambda>(k, v). (coerceUTF8 k, readable v)) (emitString n s) = emitString n s"
  "is_ascii n \<Longrightarrow> map (\<lambda>(k, v). (coerceUTF8 k, readable v)) (emitIf c n (JBool b)) = emitIf c n (JBool b)"
  by (simp_all add: emit_def emitString_def emitIf_def valid_utf8_def coerceUTF8_ascii)

lemma nesting_flat: "list_all (\<lambda>(_, v). nesting v = 0) kvs \<Longrightarrow> nesting (JObj kvs) = 1"
proof -
  have "list_all (\<lambda>(_, v). nesting v = 0) kvs \<Longrightarrow> fold max (map (\<lambda>(_, v). nesting v) kvs) 0 = (0 :: nat)"
    by (induction kvs) auto
  then show "list_all (\<lambda>(_, v). nesting v = 0) kvs \<Longrightarrow> nesting (JObj kvs) = 1" by simp
qed

lemma flat_emit:
  "list_all (\<lambda>(_, v). P v) (emit n j) = P j" "list_all (\<lambda>(_, v). P v) (emitIf c n j) = (c \<longrightarrow> P j)"
  by (simp_all add: emit_def emitIf_def)

lemma enc_Profile_text:
  "wf_numbers (enc_Profile p)" "nesting (enc_Profile p) \<le> maxNestingDepth" "utf8_Profile p \<Longrightarrow> readable (enc_Profile p) = enc_Profile p"
proof -
  show "wf_numbers (enc_Profile p)" by (simp add: enc_Profile_def emitString_def flat_emit)
  show "nesting (enc_Profile p) \<le> maxNestingDepth"
    unfolding enc_Profile_def by (subst nesting_flat) (simp_all add: emitString_def flat_emit maxNestingDepth_def)
  show "readable (enc_Profile p) = enc_Profile p" if "utf8_Profile p"
    using that by (simp add: enc_Profile_def utf8_Profile_def readable_emit)
qed

text \<open>Decoding an object member by member.\<close>

lemma dec_struct_append:
  "dec_struct strict fs (JObj (a @ b)) s =
     (case dec_struct strict fs (JObj a) s of Inl e \<Rightarrow> Inl e | Inr s' \<Rightarrow> dec_struct strict fs (JObj b) s')"
  by (simp add: dec_struct.simps rfold_append split: sum.split)

lemma dec_member:
  assumes "map_of fs n = Some (snd (field n d get upd))" "is_ascii n"
  shows "d j (get s) = Inr v \<Longrightarrow> dec_struct strict fs (JObj (emit n j)) s = Inr (upd (\<lambda>_. v) s)"
    and "(present \<Longrightarrow> d j (get s) = Inr v) \<Longrightarrow> (\<not> present \<Longrightarrow> upd (\<lambda>_. v) s = s) \<Longrightarrow>
      dec_struct strict fs (JObj (emitIf present n j)) s = Inr (upd (\<lambda>_. v) s)"
  using assms by (auto simp: emit_def emitIf_def field_def dec_struct_field dec_struct_done)

lemma profileFields_string:
  assumes "valid_utf8 v"
  shows
    "dec_struct False profileFields (JObj (emit ''server'' (JStr v))) s = Inr (s\<lparr>pf_ServerAddress := v\<rparr>)"
    and "pf_APIURL s = [] \<Longrightarrow> dec_struct False profileFields (JObj (emitString ''api_url'' v)) s = Inr (s\<lparr>pf_APIURL := v\<rparr>)"
    and "pf_Namespace s = [] \<Longrightarrow> dec_struct False profileFields (JObj (emitString ''namespace'' v)) s = Inr (s\<lparr>pf_Namespace := v\<rparr>)"
    and "dec_struct False profileFields (JObj (emit ''identity'' (JStr v))) s = Inr (s\<lparr>pf_Identity := v\<rparr>)"
    and "pf_AuthenticationMode s = [] \<Longrightarrow> dec_struct False profileFields (JObj (emitString ''authentication_mode'' v)) s = Inr (s\<lparr>pf_AuthenticationMode := v\<rparr>)"
    and "pf_KeyName s = [] \<Longrightarrow> dec_struct False profileFields (JObj (emitString ''key_name'' v)) s = Inr (s\<lparr>pf_KeyName := v\<rparr>)"
    and "pf_Token s = [] \<Longrightarrow> dec_struct False profileFields (JObj (emitString ''token'' v)) s = Inr (s\<lparr>pf_Token := v\<rparr>)"
    and "pf_PrivateKey s = [] \<Longrightarrow> dec_struct False profileFields (JObj (emitString ''private_key'' v)) s = Inr (s\<lparr>pf_PrivateKey := v\<rparr>)"
    and "pf_KnownHosts s = [] \<Longrightarrow> dec_struct False profileFields (JObj (emitString ''known_hosts'' v)) s = Inr (s\<lparr>pf_KnownHosts := v\<rparr>)"
proof -
  have d: "coerceUTF8 v = v" using assms by (simp add: valid_utf8_def)
  have m: "map_of profileFields ''server'' = Some (snd (field ''server'' dec_string pf_ServerAddress pf_ServerAddress_update))" by (simp add: profileFields_def field_def)
  show "dec_struct False profileFields (JObj (emit ''server'' (JStr v))) s = Inr (s\<lparr>pf_ServerAddress := v\<rparr>)" by (rule dec_member(1) [OF m]) (simp_all add: d)
  have m: "map_of profileFields ''api_url'' = Some (snd (field ''api_url'' dec_string pf_APIURL pf_APIURL_update))" by (simp add: profileFields_def field_def)
  show "dec_struct False profileFields (JObj (emitString ''api_url'' v)) s = Inr (s\<lparr>pf_APIURL := v\<rparr>)" if "pf_APIURL s = []"
    unfolding emitString_def by (rule dec_member(2) [OF m]) (use that in \<open>simp_all add: d\<close>)
  have m: "map_of profileFields ''namespace'' = Some (snd (field ''namespace'' dec_string pf_Namespace pf_Namespace_update))" by (simp add: profileFields_def field_def)
  show "dec_struct False profileFields (JObj (emitString ''namespace'' v)) s = Inr (s\<lparr>pf_Namespace := v\<rparr>)" if "pf_Namespace s = []"
    unfolding emitString_def by (rule dec_member(2) [OF m]) (use that in \<open>simp_all add: d\<close>)
  have m: "map_of profileFields ''identity'' = Some (snd (field ''identity'' dec_string pf_Identity pf_Identity_update))" by (simp add: profileFields_def field_def)
  show "dec_struct False profileFields (JObj (emit ''identity'' (JStr v))) s = Inr (s\<lparr>pf_Identity := v\<rparr>)" by (rule dec_member(1) [OF m]) (simp_all add: d)
  have m: "map_of profileFields ''authentication_mode'' = Some (snd (field ''authentication_mode'' dec_string pf_AuthenticationMode pf_AuthenticationMode_update))" by (simp add: profileFields_def field_def)
  show "dec_struct False profileFields (JObj (emitString ''authentication_mode'' v)) s = Inr (s\<lparr>pf_AuthenticationMode := v\<rparr>)" if "pf_AuthenticationMode s = []"
    unfolding emitString_def by (rule dec_member(2) [OF m]) (use that in \<open>simp_all add: d\<close>)
  have m: "map_of profileFields ''key_name'' = Some (snd (field ''key_name'' dec_string pf_KeyName pf_KeyName_update))" by (simp add: profileFields_def field_def)
  show "dec_struct False profileFields (JObj (emitString ''key_name'' v)) s = Inr (s\<lparr>pf_KeyName := v\<rparr>)" if "pf_KeyName s = []"
    unfolding emitString_def by (rule dec_member(2) [OF m]) (use that in \<open>simp_all add: d\<close>)
  have m: "map_of profileFields ''token'' = Some (snd (field ''token'' dec_string pf_Token pf_Token_update))" by (simp add: profileFields_def field_def)
  show "dec_struct False profileFields (JObj (emitString ''token'' v)) s = Inr (s\<lparr>pf_Token := v\<rparr>)" if "pf_Token s = []"
    unfolding emitString_def by (rule dec_member(2) [OF m]) (use that in \<open>simp_all add: d\<close>)
  have m: "map_of profileFields ''private_key'' = Some (snd (field ''private_key'' dec_string pf_PrivateKey pf_PrivateKey_update))" by (simp add: profileFields_def field_def)
  show "dec_struct False profileFields (JObj (emitString ''private_key'' v)) s = Inr (s\<lparr>pf_PrivateKey := v\<rparr>)" if "pf_PrivateKey s = []"
    unfolding emitString_def by (rule dec_member(2) [OF m]) (use that in \<open>simp_all add: d\<close>)
  have m: "map_of profileFields ''known_hosts'' = Some (snd (field ''known_hosts'' dec_string pf_KnownHosts pf_KnownHosts_update))" by (simp add: profileFields_def field_def)
  show "dec_struct False profileFields (JObj (emitString ''known_hosts'' v)) s = Inr (s\<lparr>pf_KnownHosts := v\<rparr>)" if "pf_KnownHosts s = []"
    unfolding emitString_def by (rule dec_member(2) [OF m]) (use that in \<open>simp_all add: d\<close>)
qed

lemma profileFields_bool:
  "\<not> pf_OIDCDevice s \<Longrightarrow> dec_struct False profileFields (JObj (emitIf b ''oidc_device'' (JBool b))) s = Inr (s\<lparr>pf_OIDCDevice := b\<rparr>)"
  "\<not> pf_Insecure s \<Longrightarrow> dec_struct False profileFields (JObj (emitIf b ''insecure_skip_host_key_check'' (JBool b))) s = Inr (s\<lparr>pf_Insecure := b\<rparr>)"
proof -
  have m: "map_of profileFields ''oidc_device'' = Some (snd (field ''oidc_device'' dec_bool pf_OIDCDevice pf_OIDCDevice_update))"
    "map_of profileFields ''insecure_skip_host_key_check'' = Some (snd (field ''insecure_skip_host_key_check'' dec_bool pf_Insecure pf_Insecure_update))"
    by (simp_all add: profileFields_def field_def)
  show "\<not> pf_OIDCDevice s \<Longrightarrow> dec_struct False profileFields (JObj (emitIf b ''oidc_device'' (JBool b))) s = Inr (s\<lparr>pf_OIDCDevice := b\<rparr>)"
    by (rule dec_member(2) [OF m(1)]) simp_all
  show "\<not> pf_Insecure s \<Longrightarrow> dec_struct False profileFields (JObj (emitIf b ''insecure_skip_host_key_check'' (JBool b))) s = Inr (s\<lparr>pf_Insecure := b\<rparr>)"
    by (rule dec_member(2) [OF m(2)]) simp_all
qed

lemma dec_enc_Profile:
  assumes "utf8_Profile p"
  shows "dec_Profile (enc_Profile p) zero_Profile = Inr p"
  using assms
  by (cases p) (simp add: dec_Profile_def enc_Profile_def utf8_Profile_def zero_Profile_def dec_struct_append
      profileFields_string profileFields_bool)

section \<open>Properties\<close>

definition reads :: "os_env \<Rightarrow> bool" where
  "reads env \<longleftrightarrow> \<not> faults env SysStatRead \<and> \<not> faults env SysRead"

definition profileNode :: "Profile \<Rightarrow> string node" where
  "profileNode p = Regular 0x180 (Some (indentedJson (enc_Profile p)))"

lemma profileLoad_node:
  assumes "map_of fs path = Some (profileNode p)" "profileValidate p = None" "utf8_Profile p" "reads env"
  shows "profileLoad env path fs = Inr p"
  using assms enc_Profile_text dec_enc_Profile [OF assms(3)] parseJson_print(3) [OF enc_Profile_text(1,2)]
  by (simp add: profileLoad_def profileNode_def osStat_def readFile_def reads_def)


definition demoProfile :: Profile where
  "demoProfile = zero_Profile\<lparr>pf_ServerAddress := ''127.0.0.1:2222'', pf_Identity := ''ada'', pf_PrivateKey := ''/home/ada/key'',
     pf_Token := ''<a & b>'', pf_KnownHosts := ''/home/ada/known_hosts''\<rparr>"

definition demoProfileSave :: "string fs list \<times> profile_err option" where
  "demoProfileSave = profileSave \<lparr>faults = \<lambda>_. False, tempNames = [''1''], umask = 0\<rparr> ''/home/ada/config.json'' demoProfile []"


lemma createPrivateKey_loads:
  assumes "documented_keygen L G" "separate ''.tearenv-key-'' path" "createPrivateKey G env path identity fs = (trace, Inr signer)"
  shows "\<exists>pem. map_of (last trace) path = Some (Regular 0x180 (Some pem)) \<and> ParsePrivateKey L pem = Some signer"
proof -
  obtain key pem where k: "MarshalPrivateKey G key (''tearenv '' @ identity) = Some pem" "NewSignerFromKey G key = Some signer"
    "replaceFile env ''.tearenv-key-'' path pem fs = (trace, None)"
    using assms(3) by (auto simp: createPrivateKey_def split: option.splits prod.splits)
  with assms(1) replaceFile_result [OF assms(2) k(3)] show ?thesis by (auto simp: documented_keygen_def)
qed

lemma client_key_facts:
  assumes "documented_keygen L G" "separate ''.tearenv-key-'' path"
    and "LoadOrCreatePrivateKey L G env path identity fs = (trace, Inr signer)" "reads later"
  shows "LoadPrivateKey L later path (last trace) = Inr signer \<and>
    (\<exists>p pem. map_of (last trace) path = Some (Regular p (Some pem)) \<and> p AND 0x3F = 0 \<and> ParsePrivateKey L pem = Some signer) \<and>
    (map_of fs path \<noteq> None \<longrightarrow> trace = [fs])"
proof -
  have "\<exists>p pem. map_of (last trace) path = Some (Regular p (Some pem)) \<and> p AND 0x3F = 0 \<and> ParsePrivateKey L pem = Some signer \<and>
      (map_of fs path \<noteq> None \<longrightarrow> trace = [fs])"
  proof (cases "LoadPrivateKey L env path fs")
    case (Inr s)
    with assms(3) have "trace = [fs]" "s = signer" by (auto simp: LoadOrCreatePrivateKey_def)
    with Inr show ?thesis
      by (auto simp: LoadPrivateKey_def osStat_def readFile_def bind_eq_Some_conv split: if_splits option.splits node.splits)
  next
    case (Inl e)
    then have e: "keyNotExist e" using assms(3) by (auto simp: LoadOrCreatePrivateKey_def split: if_splits)
    with Inl have n: "map_of fs path = None"
      by (auto simp: LoadPrivateKey_def osStat_def readFile_def split: if_splits option.splits node.splits)
    obtain fs1 t where "createPrivateKey G env path identity fs1 = (t, Inr signer)" "trace = fs # t"
      using assms(3) Inl e by (auto simp: LoadOrCreatePrivateKey_def split: prod.splits option.splits)
    moreover from this have "t \<noteq> []" by (auto simp: createPrivateKey_def replaceFile_def split: option.splits prod.splits)
    ultimately show ?thesis using createPrivateKey_loads [OF assms(1,2)] n by fastforce
  qed
  then show ?thesis using assms(4) by (auto simp: LoadPrivateKey_def osStat_def readFile_def reads_def)
qed

lemma client_key_loaded:
  assumes "documented_keygen L G" "separate ''.tearenv-key-'' path"
    and "LoadOrCreatePrivateKey L G env path identity fs = (trace, Inr signer)" "reads later"
  shows "LoadPrivateKey L later path (last trace) = Inr signer"
  using client_key_facts [OF assms] by blast

text \<open>
  The private key a login obtained is the one every later command loads.  A key file that
  was there is neither replaced nor repaired: it is used as it is, and only when nobody but its owner
  may read it; a file that was made is private from the start.
\<close>

theorem client_key_stable:
  assumes "documented_keygen L G" "separate ''.tearenv-key-'' path"
    and "LoadOrCreatePrivateKey L G env path identity fs = (trace, Inr signer)" "reads later"
  shows "LoadPrivateKey L later path (last trace) = Inr signer \<and>
    (\<exists>p pem. map_of (last trace) path = Some (Regular p (Some pem)) \<and> p AND 0x3F = 0 \<and> ParsePrivateKey L pem = Some signer) \<and>
    (map_of fs path \<noteq> None \<longrightarrow> trace = [fs])"
  by (rule client_key_facts [OF assms])

definition demoKeygen :: keygen_lib where
  "demoKeygen = \<lparr>GenerateKey = Some ''k9'', MarshalPrivateKey = \<lambda>k c. if k = [] then None else Some k,
     NewSignerFromKey = \<lambda>k. if k = [] then None else Some k\<rparr>"

lemma demoKeygen_documented: "documented_keygen demoSsh demoKeygen"
  by (simp add: documented_keygen_def demoKeygen_def demoSsh_def)

definition demoClientKey :: "string fs list \<times> (key_err + Signer)" where
  "demoClientKey = LoadOrCreatePrivateKey demoSsh demoKeygen \<lparr>faults = \<lambda>_. False, tempNames = [''1''], umask = 0\<rparr> ''/home/ada/key'' ''ada'' []"

theorem client_key_stable_witness:
  "LoadPrivateKey demoSsh \<lparr>faults = \<lambda>_. False, tempNames = [], umask = 0\<rparr> ''/home/ada/key'' (last (fst demoClientKey)) = Inr ''k9''"
proof -
  have e: "snd demoClientKey = Inr ''k9''" by code_simp
  have d: "LoadOrCreatePrivateKey demoSsh demoKeygen \<lparr>faults = \<lambda>_. False, tempNames = [''1''], umask = 0\<rparr> ''/home/ada/key'' ''ada'' [] =
      (fst demoClientKey, Inr ''k9'')" using e by (simp add: demoClientKey_def prod_eq_iff)
  have "separate ''.tearenv-key-'' ''/home/ada/key''" by code_simp
  from client_key_stable [OF demoKeygen_documented this d] show ?thesis by (simp add: reads_def)
qed

end
