(* ===== verification/Client_Api.thy ===== *)
theory Client_Api
  imports Registration_Http Go_JsonPrint
begin

text \<open>
  The client's side of the HTTP interface: discovery of the authentication configuration and the
  exchange of an OIDC token for an SSH certificate (\<open>internal/client/authentication.go\<close>), and the
  submission of a registration (\<open>internal/client/registration.go\<close>).  The HTTP client is a parameter
  that turns a request into a response, or an error, and the next state of the world.
\<close>

section \<open>Requests\<close>

record clientRequest =
  cq_Method :: string
  cq_URL :: URL
  cq_Header :: "string gomap"
  cq_Body :: string

text \<open>A response's body is the bytes up to its end, or up to where reading it fails.\<close>

record clientResponse =
  cp_Code :: nat
  cp_Body :: string
  cp_Fails :: bool

type_synonym 'w httpClient = "clientRequest \<Rightarrow> 'w \<Rightarrow> 'w \<times> clientResponse option"

datatype client_err =
    HTTPClientRequired | BadRequest | DoFailed | ReadFailed | ResponseTooLarge
  | APIURLNotAbsolute | APIURLQuery | APIURLParse | APIURLScheme | APIURLHost | EndpointParse | EndpointScheme
  | DiscoverStatus nat | DecodeFailed | NoMode
  | PrivateKeyRequired | OIDCRequired | SubjectTokenType authn_err | SubjectTokenRequired
  | ExchangeStatus nat "string option" | UnexpectedTokenType | InvalidCertificate | NotAUserCertificate
  | KeyMismatch | PrincipalMissing | CertSignerFailed
  | RegistrationInvalid reg_err | NamespaceRequired | EncodeFailed | SubmitStatus nat "string option"
  | ResponseInvalid reg_err | ResponseMismatch | PendingApproval | Rejected "string option"

text \<open>\<open>http.NewRequest\<close>; an empty port is dropped from the host.\<close>

definition NewRequest :: "string \<Rightarrow> string \<Rightarrow> string gomap \<Rightarrow> string \<Rightarrow> client_err + clientRequest" where
  "NewRequest method endpoint header requestBody =
     (case parseURL endpoint of
        None \<Rightarrow> Inl BadRequest
      | Some u \<Rightarrow>
          Inr \<lparr>cq_Method = method, cq_URL = (if suffix '':'' (url_Host u) then u\<lparr>url_Host := butlast (url_Host u)\<rparr> else u),
               cq_Header = header, cq_Body = requestBody\<rparr>)"

definition authenticationResponseLimit :: nat where "authenticationResponseLimit = 1048576"
definition registrationResponseLimit :: nat where "registrationResponseLimit = 1048576"

text \<open>\<open>io.ReadAll\<close> of a body through a reader limited to one byte more than the limit.\<close>

definition readLimited :: "nat \<Rightarrow> clientResponse \<Rightarrow> client_err + string" where
  "readLimited limit response =
     (if length (cp_Body response) \<le> limit \<and> cp_Fails response then Inl ReadFailed
      else if length (cp_Body response) > limit then Inl ResponseTooLarge
      else Inr (cp_Body response))"

definition doLimitedRequest :: "'w httpClient option \<Rightarrow> clientRequest \<Rightarrow> 'w \<Rightarrow> 'w \<times> (client_err + string \<times> nat)" where
  "doLimitedRequest httpClient request w =
     (case httpClient of
        None \<Rightarrow> (w, Inl HTTPClientRequired)
      | Some send \<Rightarrow>
          (case send request w of
             (w', None) \<Rightarrow> (w', Inl DoFailed)
           | (w', Some response) \<Rightarrow>
               (w', case readLimited authenticationResponseLimit response of
                  Inl e \<Rightarrow> Inl e
                | Inr contents \<Rightarrow> Inr (contents, cp_Code response))))"

definition successful :: "nat \<Rightarrow> bool" where
  "successful status \<longleftrightarrow> 200 \<le> status \<and> status < 300"

definition resolveAPIEndpoint :: "string \<Rightarrow> string \<Rightarrow> client_err + string" where
  "resolveAPIEndpoint baseURL endpoint =
     (case parseURL (trimSpace baseURL) of
        None \<Rightarrow> Inl APIURLNotAbsolute
      | Some base \<Rightarrow>
          if url_Scheme base \<notin> {''http'', ''https''} \<or> url_Host base = [] then Inl APIURLNotAbsolute
          else if url_RawQuery base \<noteq> [] \<or> url_Fragment base \<noteq> [] then Inl APIURLQuery
          else (case parseURL (trimSpace endpoint) of
              None \<Rightarrow> Inl EndpointParse
            | Some reference \<Rightarrow>
                if url_Scheme reference \<noteq> [] \<and> url_Scheme reference \<notin> {''http'', ''https''} then Inl EndpointScheme
                else if url_Scheme reference \<noteq> [] then Inr (URLString reference)
                else Inr (URLString (ResolveReference
                  (base\<lparr>url_Path := trimRight (url_Path base) ''/'' @ ''/'', url_RawPath := []\<rparr>)
                  (reference\<lparr>url_Path := trimLeft (url_Path reference) ''/'', url_RawPath := []\<rparr>)))))"

section \<open>Discovery\<close>

definition zero_OIDCConfiguration :: OIDCConfiguration where
  "zero_OIDCConfiguration = \<lparr>oc_IssuerURL = [], oc_ClientID = [], oc_Audience = [], oc_Scopes = [], oc_IdentityClaim = [],
     oc_SubjectTokenType = [], oc_DeviceFlow = False\<rparr>"

definition dec_OIDCConfiguration :: "OIDCConfiguration dec" where
  "dec_OIDCConfiguration = dec_struct False
     [field ''issuerURL'' dec_string oc_IssuerURL oc_IssuerURL_update,
      field ''clientID'' dec_string oc_ClientID oc_ClientID_update,
      field ''audience'' dec_string oc_Audience oc_Audience_update,
      field ''scopes'' (dec_slice dec_string []) (Some \<circ> oc_Scopes) (\<lambda>f. oc_Scopes_update (\<lambda>s. elems (f (Some s)))),
      field ''identityClaim'' dec_string oc_IdentityClaim oc_IdentityClaim_update,
      field ''subjectTokenType'' dec_string oc_SubjectTokenType oc_SubjectTokenType_update,
      field ''deviceFlow'' dec_bool oc_DeviceFlow oc_DeviceFlow_update]"

definition dec_Configuration :: "Configuration dec" where
  "dec_Configuration = dec_struct False
     [field ''mode'' dec_string cf_Mode cf_Mode_update,
      field ''tokenEndpoint'' dec_string cf_TokenEndpoint cf_TokenEndpoint_update,
      field ''oidc'' (dec_ptr dec_OIDCConfiguration zero_OIDCConfiguration) cf_OIDC cf_OIDC_update]"

text \<open>What the server writes for it.\<close>

definition enc_OIDCConfiguration :: "OIDCConfiguration \<Rightarrow> json" where
  "enc_OIDCConfiguration c = JObj
     [(''issuerURL'', JStr (oc_IssuerURL c)), (''clientID'', JStr (oc_ClientID c)), (''audience'', JStr (oc_Audience c)),
      (''scopes'', JArr (map JStr (oc_Scopes c))), (''identityClaim'', JStr (oc_IdentityClaim c)),
      (''subjectTokenType'', JStr (oc_SubjectTokenType c)), (''deviceFlow'', JBool (oc_DeviceFlow c))]"

definition enc_Configuration :: "Configuration \<Rightarrow> json" where
  "enc_Configuration c = JObj
     (emit ''mode'' (JStr (cf_Mode c)) @ emitIf (cf_TokenEndpoint c \<noteq> []) ''tokenEndpoint'' (JStr (cf_TokenEndpoint c)) @
      (case cf_OIDC c of None \<Rightarrow> [] | Some oc \<Rightarrow> [(''oidc'', enc_OIDCConfiguration oc)]))"

definition decodeConfiguration :: "string \<Rightarrow> client_err + Configuration" where
  "decodeConfiguration contents =
     (case parseJson contents of
        None \<Rightarrow> Inl DecodeFailed
      | Some j \<Rightarrow>
          (case dec_Configuration j \<lparr>cf_Mode = [], cf_TokenEndpoint = [], cf_OIDC = None\<rparr> of
             Inl _ \<Rightarrow> Inl DecodeFailed
           | Inr c \<Rightarrow> if cf_Mode (normalized c) = [] then Inl NoMode else Inr (normalized c)))"

definition DiscoverAuthentication :: "'w httpClient option \<Rightarrow> string \<Rightarrow> 'w \<Rightarrow> 'w \<times> (client_err + Configuration)" where
  "DiscoverAuthentication httpClient baseURL w =
     (case resolveAPIEndpoint baseURL ''/.well-known/tearenv-configuration'' of
        Inl e \<Rightarrow> (w, Inl e)
      | Inr endpoint \<Rightarrow>
          (case NewRequest ''GET'' endpoint [(''Accept'', ''application/json'')] [] of
             Inl e \<Rightarrow> (w, Inl e)
           | Inr request \<Rightarrow>
               (case doLimitedRequest httpClient request w of
                  (w', Inl e) \<Rightarrow> (w', Inl e)
                | (w', Inr (contents, status)) \<Rightarrow>
                    (w', if \<not> successful status then Inl (DiscoverStatus status) else decodeConfiguration contents))))"

section \<open>Certificate exchange\<close>

text \<open>\<open>url.Values.Encode\<close> for keys with one value each, sorted by key.\<close>

definition formEncode :: "(string \<times> string) list \<Rightarrow> string" where
  "formEncode form =
     (case map (\<lambda>(k, v). urlEscape EncodeQueryComponent k @ ''='' @ urlEscape EncodeQueryComponent v) (sort_key fst form) of
        [] \<Rightarrow> []
      | p # ps \<Rightarrow> p @ concat (map (\<lambda>q. ''&'' @ q) ps))"

definition exchangeForm :: "OIDCConfiguration \<Rightarrow> string \<Rightarrow> string \<Rightarrow> string \<Rightarrow> (string \<times> string) list" where
  "exchangeForm oc subjectTokenType subjectToken keyName =
     [(''grant_type'', TokenExchangeGrantType), (''subject_token'', trimSpace subjectToken),
      (''subject_token_type'', subjectTokenType), (''requested_token_type'', SSHCertificateTokenType),
      (''scope'', SSHConnectScope), (''key_id'', trimSpace keyName)] @
     (if trimSpace (oc_Audience oc) \<noteq> [] then [(''audience'', oc_Audience oc)] else [])"

text \<open>
  \<open>json.Unmarshal\<close> whose error is ignored: members that decode are set, the others are not.
\<close>

fun dec_lenient :: "'s fields \<Rightarrow> json \<Rightarrow> 's \<Rightarrow> 's" where
  "dec_lenient fs (JObj kvs) s =
     fold (\<lambda>(k, j) s. case fieldFor fs (coerceUTF8 k) of
         Some f \<Rightarrow> (case f j s of Inl _ \<Rightarrow> s | Inr s' \<Rightarrow> s')
       | None \<Rightarrow> s) kvs s"
| "dec_lenient fs _ s = s"

definition oauthErrorFields :: "oauthErrorResponse fields" where
  "oauthErrorFields =
     [field ''error'' dec_string oe_Error oe_Error_update,
      field ''error_description'' dec_string oe_ErrorDescription oe_ErrorDescription_update]"

text \<open>The message of a refused exchange; \<open>None\<close> stands for the text of the status code.\<close>

definition exchangeMessage :: "string \<Rightarrow> string option" where
  "exchangeMessage contents =
     (let r = (case parseJson contents of
          None \<Rightarrow> \<lparr>oe_Error = [], oe_ErrorDescription = []\<rparr>
        | Some j \<Rightarrow> dec_lenient oauthErrorFields j \<lparr>oe_Error = [], oe_ErrorDescription = []\<rparr>);
          description = trimSpace (oe_ErrorDescription r);
          code = trimSpace (oe_Error r)
      in if description \<noteq> [] then Some description else if code \<noteq> [] then Some code else None)"

definition tokenFields :: "(string \<times> string) fields" where
  "tokenFields =
     [field ''access_token'' dec_string fst apfst, field ''issued_token_type'' dec_string snd apsnd]"

definition certificatePrincipal :: "PublicKey \<Rightarrow> string \<Rightarrow> client_err option" where
  "certificatePrincipal certificate identity =
     (if identity \<in> set (cert_ValidPrincipals certificate) then None else Some PrincipalMissing)"

text \<open>\<open>ssh.NewCertSigner\<close> yields a signer that presents the certificate.\<close>

type_synonym newCertSigner = "PublicKey \<Rightarrow> Signer \<Rightarrow> Signer option"

definition documented_NewCertSigner :: "ssh_lib \<Rightarrow> newCertSigner \<Rightarrow> bool" where
  "documented_NewCertSigner L N \<longleftrightarrow> (\<forall>c s s'. N c s = Some s' \<longrightarrow> signerPublicKey L s' = c)"

text \<open>The checks on the certificate of the response, in order.\<close>

definition acceptCertificate :: "ssh_lib \<Rightarrow> newCertSigner \<Rightarrow> string \<Rightarrow> Signer \<Rightarrow> string \<Rightarrow> client_err + Signer" where
  "acceptCertificate L N identity privateSigner accessToken =
     (case ParseAuthorizedKey L accessToken of
        None \<Rightarrow> Inl InvalidCertificate
      | Some (certificate, rest) \<Rightarrow>
          if trimSpace rest \<noteq> [] then Inl InvalidCertificate
          else if \<not> isCertificate certificate \<or> cert_CertType certificate \<noteq> UserCert then Inl NotAUserCertificate
          else if marshalKey L (cert_Key certificate) \<noteq> marshalKey L (signerPublicKey L privateSigner) then Inl KeyMismatch
          else (case certificatePrincipal certificate identity of
              Some e \<Rightarrow> Inl e
            | None \<Rightarrow> (case N certificate privateSigner of None \<Rightarrow> Inl CertSignerFailed | Some s \<Rightarrow> Inr s)))"

definition decodeExchange :: "ssh_lib \<Rightarrow> newCertSigner \<Rightarrow> string \<Rightarrow> Signer \<Rightarrow> string \<Rightarrow> nat \<Rightarrow> client_err + Signer" where
  "decodeExchange L N identity privateSigner contents status =
     (if \<not> successful status then Inl (ExchangeStatus status (exchangeMessage contents))
      else case parseJson contents of
        None \<Rightarrow> Inl DecodeFailed
      | Some j \<Rightarrow>
          (case dec_struct False tokenFields j ([], []) of
             Inl _ \<Rightarrow> Inl DecodeFailed
           | Inr (accessToken, issuedTokenType) \<Rightarrow>
               if issuedTokenType \<noteq> SSHCertificateTokenType then Inl UnexpectedTokenType
               else acceptCertificate L N identity privateSigner accessToken))"

text \<open>The request, once the arguments are checked.\<close>

definition exchangeRequest :: "string \<Rightarrow> Configuration \<Rightarrow> string \<Rightarrow> string \<Rightarrow> client_err + clientRequest" where
  "exchangeRequest baseURL configuration subjectToken keyName =
     (case cf_OIDC configuration of
        None \<Rightarrow> Inl OIDCRequired
      | Some oc \<Rightarrow>
          (case NormalizeSubjectTokenType (oc_SubjectTokenType oc) of
             Inl e \<Rightarrow> Inl (SubjectTokenType e)
           | Inr subjectTokenType \<Rightarrow>
               if trimSpace subjectToken = [] then Inl SubjectTokenRequired
               else (case resolveAPIEndpoint baseURL (cf_TokenEndpoint configuration) of
                   Inl e \<Rightarrow> Inl e
                 | Inr endpoint \<Rightarrow>
                     NewRequest ''POST'' endpoint
                       [(''Accept'', ''application/json''), (''Content-Type'', ''application/x-www-form-urlencoded'')]
                       (formEncode (exchangeForm oc subjectTokenType subjectToken keyName)))))"

definition ExchangeSSHCertificate :: "ssh_lib \<Rightarrow> newCertSigner \<Rightarrow> 'w httpClient option \<Rightarrow> string \<Rightarrow> Configuration \<Rightarrow>
    string \<Rightarrow> string \<Rightarrow> string \<Rightarrow> Signer option \<Rightarrow> 'w \<Rightarrow> 'w \<times> (client_err + Signer)" where
  "ExchangeSSHCertificate L N httpClient baseURL configuration subjectToken keyName identity privateSigner w =
     (case privateSigner of
        None \<Rightarrow> (w, Inl PrivateKeyRequired)
      | Some key \<Rightarrow>
          (case exchangeRequest baseURL (normalized configuration) subjectToken keyName of
             Inl e \<Rightarrow> (w, Inl e)
           | Inr request \<Rightarrow>
               (case doLimitedRequest httpClient request w of
                  (w', Inl e) \<Rightarrow> (w', Inl e)
                | (w', Inr (contents, status)) \<Rightarrow> (w', decodeExchange L N identity key contents status))))"

section \<open>Registration\<close>

record registrationRequestOptions =
  ro_bearerToken :: string

type_synonym RegistrationRequestOption = "registrationRequestOptions \<Rightarrow> registrationRequestOptions"

definition WithRegistrationToken :: "string \<Rightarrow> RegistrationRequestOption" where
  "WithRegistrationToken token options = options\<lparr>ro_bearerToken := trimSpace token\<rparr>"

definition WithBearerToken :: "string \<Rightarrow> RegistrationRequestOption" where
  "WithBearerToken token = WithRegistrationToken token"

definition userRegistrationURL :: "string \<Rightarrow> string \<Rightarrow> string \<Rightarrow> client_err + string" where
  "userRegistrationURL baseURL namespace name =
     (case parseURL (trimSpace baseURL) of
        None \<Rightarrow> Inl APIURLParse
      | Some parsed \<Rightarrow>
          if url_Scheme parsed \<noteq> ''http'' \<and> url_Scheme parsed \<noteq> ''https'' then Inl APIURLScheme
          else if url_Host parsed = [] then Inl APIURLHost
          else if url_RawQuery parsed \<noteq> [] \<or> url_Fragment parsed \<noteq> [] then Inl APIURLQuery
          else Inr (URLString (parsed\<lparr>url_RawPath := [], url_Path := []\<rparr>) @ trimRight (EscapedPath parsed) ''/'' @
            ''/apis/'' @ APIVersion @ ''/namespaces/'' @ pathEscape namespace @ ''/'' @ UserRegistrationResource @ ''/'' @ pathEscape name))"

definition zero_UserRegistration :: UserRegistration where
  "zero_UserRegistration = \<lparr>ur_APIVersion = [], ur_Kind = [], ur_Name = [], ur_Namespace = [], ur_UID = [], ur_ResourceVersion = [],
     ur_Generation = 0, ur_CreationTimestamp = None, ur_Spec = \<lparr>sp_Identity = [], sp_PublicKeys = []\<rparr>, ur_Status = None\<rparr>"

text \<open>
  What the answer of the API means: the registration to hand back, the zero value for an error that
  precedes it, and the error.
\<close>

definition nonBlank :: "string \<Rightarrow> string option" where
  "nonBlank s = (if trimSpace s = [] then None else Some (trimSpace s))"

definition acceptanceError :: "k8s_lib \<Rightarrow> UserRegistration \<Rightarrow> client_err option" where
  "acceptanceError K accepted =
     (case AcceptanceCondition K accepted of
        None \<Rightarrow> Some PendingApproval
      | Some condition \<Rightarrow>
          if cond_Status condition = ''Unknown'' then Some PendingApproval
          else if cond_Status condition = ''False''
          then Some (Rejected (case nonBlank (cond_Message condition) of None \<Rightarrow> nonBlank (cond_Reason condition) | Some m \<Rightarrow> Some m))
          else None)"

definition decodeSubmission :: "libs \<Rightarrow> UserRegistration yaml_lib \<Rightarrow> UserRegistration \<Rightarrow> clientResponse \<Rightarrow>
    UserRegistration \<times> client_err option" where
  "decodeSubmission lb Y registration response =
     (case readLimited registrationResponseLimit response of
        Inl e \<Rightarrow> (zero_UserRegistration, Some e)
      | Inr contents \<Rightarrow>
          if \<not> successful (cp_Code response)
          then (zero_UserRegistration, Some (SubmitStatus (cp_Code response) (nonBlank contents)))
          else (case LoadUserRegistration lb Y contents of
              Inl e \<Rightarrow> (zero_UserRegistration, Some (ResponseInvalid e))
            | Inr accepted \<Rightarrow>
                if ur_Namespace accepted \<noteq> ur_Namespace registration \<or> ur_Name accepted \<noteq> ur_Name registration \<or>
                  ur_Spec accepted \<noteq> ur_Spec registration then (zero_UserRegistration, Some ResponseMismatch)
                else (accepted, acceptanceError (lib_k8s lb) accepted)))"

definition submissionHeader :: "RegistrationRequestOption list \<Rightarrow> string gomap" where
  "submissionHeader requestOptions =
     (let options = fold (\<lambda>configure opts. configure opts) requestOptions \<lparr>ro_bearerToken = []\<rparr> in
      [(''Accept'', ''application/json''), (''Content-Type'', ''application/json'')] @
      (if ro_bearerToken options \<noteq> [] then [(''Authorization'', ''Bearer '' @ ro_bearerToken options)] else []))"

text \<open>\<open>toJSON\<close> is \<open>json.Marshal\<close> on the Kubernetes object, whose metadata encode themselves.\<close>

definition SubmitUserRegistration :: "libs \<Rightarrow> UserRegistration yaml_lib \<Rightarrow> (UserRegistration \<Rightarrow> string option) \<Rightarrow> 'w httpClient option \<Rightarrow>
    string \<Rightarrow> UserRegistration \<Rightarrow> RegistrationRequestOption list \<Rightarrow> 'w \<Rightarrow> 'w \<times> UserRegistration \<times> client_err option" where
  "SubmitUserRegistration lb Y toJSON httpClient baseURL registration requestOptions w =
     (case httpClient of
        None \<Rightarrow> (w, zero_UserRegistration, Some HTTPClientRequired)
      | Some send \<Rightarrow>
          (case registrationValidate (lib_ssh lb) (lib_k8s lb) (lib_lower lb) registration of
             Some e \<Rightarrow> (w, zero_UserRegistration, Some (RegistrationInvalid e))
           | None \<Rightarrow>
               if ur_Namespace registration = [] then (w, zero_UserRegistration, Some NamespaceRequired)
               else (case userRegistrationURL baseURL (ur_Namespace registration) (ur_Name registration) of
                   Inl e \<Rightarrow> (w, zero_UserRegistration, Some e)
                 | Inr endpoint \<Rightarrow>
                     (case toJSON registration of
                        None \<Rightarrow> (w, zero_UserRegistration, Some EncodeFailed)
                      | Some encoded \<Rightarrow>
                          (case NewRequest ''PUT'' endpoint (submissionHeader requestOptions) encoded of
                             Inl e \<Rightarrow> (w, zero_UserRegistration, Some e)
                           | Inr request \<Rightarrow>
                               (case send request w of
                                  (w', None) \<Rightarrow> (w', zero_UserRegistration, Some DoFailed)
                                | (w', Some response) \<Rightarrow> (w', decodeSubmission lb Y registration response)))))))"

end
