(* ===== verification/Client_Oidc.thy ===== *)
theory Client_Oidc
  imports Client_Api
begin

text \<open>
  The client's OpenID Connect login (\<open>internal/client/oidc.go\<close>): the device flow, the browser flow with
  its callback handler, state, nonce and PKCE, and the validation of the token response.  The OAuth and
  OIDC libraries are a record of parameters; the requests that reach the callback server and the other
  things the login waits for are a list of events, in the order in which the login sees them.
\<close>

section \<open>The libraries\<close>

text \<open>A token response: the access token, and the extra member \<open>id_token\<close> when it is a string.\<close>

record oauthToken =
  tk_AccessToken :: string
  tk_IDToken :: "string option"

record oauthConfig =
  oa_Issuer :: string
  oa_ClientID :: string
  oa_Scopes :: "string list"
  oa_RedirectURL :: string

record deviceAuthorization =
  da_VerificationURI :: string
  da_VerificationURIComplete :: string
  da_UserCode :: string

record oauth_lib =
  newProvider :: "string \<Rightarrow> bool"
  deviceAuth :: "oauthConfig \<Rightarrow> deviceAuthorization option"
  deviceAccessToken :: "oauthConfig \<Rightarrow> deviceAuthorization \<Rightarrow> oauthToken option"
  authCodeURL :: "oauthConfig \<Rightarrow> string \<Rightarrow> (string \<times> string) list \<Rightarrow> string"
  exchangeCode :: "oauthConfig \<Rightarrow> string \<Rightarrow> string \<Rightarrow> oauthToken option"
  verifyIDToken :: "string \<Rightarrow> string \<Rightarrow> string \<Rightarrow> json option"

section \<open>Logins\<close>

datatype oidc_err =
    OIDCHTTPClientRequired | IssuerAndClientRequired | LoginTokenType authn_err | DiscoverProviderFailed
  | DeviceNotAdvertised | DeviceAuthFailed | DeviceOutput | DeviceTokenFailed
  | CallbackListen | RandomFailed | BrowserOutput | WaitCancelled | CallbackServeFailed | CallbackServerStopped
  | StateMismatch | AuthorizationFailed string | NoCode | CodeExchangeFailed
  | NoTokenResponse | NoIDToken | IDTokenInvalid | ClaimsInvalid | NonceMismatch | NoIdentityClaim
  | NoAccessToken | UnsupportedTokenType

record OIDCLoginResult =
  lr_SubjectToken :: string
  lr_SubjectTokenType :: string
  lr_Identity :: string

text \<open>
  What a login sees of the outside: whether its output can be written, the random bytes of its calls,
  the address of the callback listener, and the events it waits for.
\<close>

datatype wait_event = Visit string string | ContextDone | ServeEnded bool

record login_world =
  lo_outputFails :: bool
  lo_random :: "nat \<Rightarrow> nat \<Rightarrow> string option"
  lo_listener :: "string option"
  lo_events :: "wait_event list"

section \<open>Device flow\<close>

text \<open>The line shown to the user; every flow returns its output with its result.\<close>

definition deviceInstructions :: "deviceAuthorization \<Rightarrow> string" where
  "deviceInstructions device =
     ''Open '' @ (if da_VerificationURIComplete device = [] then da_VerificationURI device else da_VerificationURIComplete device) @
     '' and enter code '' @ da_UserCode device @ [CHR 0x0A]"

definition oidcDeviceLogin :: "oauth_lib \<Rightarrow> login_world \<Rightarrow> oauthConfig \<Rightarrow> string \<times> (oidc_err + oauthToken)" where
  "oidcDeviceLogin lib world oauthConfig =
     (case deviceAuth lib oauthConfig of
        None \<Rightarrow> ([], Inl DeviceAuthFailed)
      | Some device \<Rightarrow>
          if lo_outputFails world then ([], Inl DeviceOutput)
          else (deviceInstructions device,
            case deviceAccessToken lib oauthConfig device of None \<Rightarrow> Inl DeviceTokenFailed | Some t \<Rightarrow> Inr t))"

section \<open>Browser flow\<close>

definition randomURLToken :: "(nat \<Rightarrow> string option) \<Rightarrow> nat \<Rightarrow> oidc_err + string" where
  "randomURLToken rand n =
     (case rand n of None \<Rightarrow> Inl RandomFailed | Some contents \<Rightarrow> Inr (base64RawURL contents))"

text \<open>\<open>URL.Query\<close>: malformed pairs are left out.\<close>

fun wellFormedPairs :: "string list \<Rightarrow> (string \<times> string) list" where
  "wellFormedPairs [] = []"
| "wellFormedPairs (p # ps) =
     (if CHR '';'' \<in> set p \<or> p = [] then wellFormedPairs ps
      else case cut p (CHR ''='') of (k, v, _) \<Rightarrow>
        (case (queryUnescape k, queryUnescape v) of
           (Some k', Some v') \<Rightarrow> (k', v') # wellFormedPairs ps
         | _ \<Rightarrow> wellFormedPairs ps))"

definition Query :: "string \<Rightarrow> (string \<times> string) list" where
  "Query q = (if countOf q ''&'' + 1 > maxQueryParams then [] else wellFormedPairs (splitChar q (CHR ''&'')))"

definition authorizationCallback :: "string \<Rightarrow> string \<Rightarrow> oidc_err + string" where
  "authorizationCallback state rawQuery =
     (let query = Query rawQuery in
      if formGet query ''state'' \<noteq> state then Inl StateMismatch
      else if formGet query ''error'' \<noteq> [] then Inl (AuthorizationFailed (formGet query ''error''))
      else if formGet query ''code'' = [] then Inl NoCode
      else Inr (formGet query ''code''))"

text \<open>The page the handler of \<open>/callback\<close> shows.\<close>

definition callbackPage :: "string \<Rightarrow> string \<Rightarrow> nat \<times> string" where
  "callbackPage state rawQuery =
     (case authorizationCallback state rawQuery of
        Inl _ \<Rightarrow> (StatusBadRequest, ''Tearenv login failed. You may close this window.'' @ [CHR 0x0A])
      | Inr _ \<Rightarrow> (StatusOK, ''Tearenv login completed. You may close this window.'' @ [CHR 0x0A]))"

text \<open>The first thing that ends the wait; \<open>None\<close> while there is none.\<close>

fun awaitCallback :: "string \<Rightarrow> wait_event list \<Rightarrow> (oidc_err + string) option" where
  "awaitCallback state [] = None"
| "awaitCallback state (Visit path q # es) = (if path = ''/callback'' then Some (authorizationCallback state q) else awaitCallback state es)"
| "awaitCallback state (ContextDone # es) = Some (Inl WaitCancelled)"
| "awaitCallback state (ServeEnded stopped # es) = Some (Inl (if stopped then CallbackServerStopped else CallbackServeFailed))"

definition codeChallenge :: "string \<Rightarrow> string" where
  "codeChallenge verifier = base64RawURL (sha256 verifier)"

text \<open>State, nonce and verifier of one login.\<close>

definition browserSecrets :: "login_world \<Rightarrow> oidc_err + (string \<times> string \<times> string)" where
  "browserSecrets world =
     (case randomURLToken (lo_random world 0) 32 of
        Inl e \<Rightarrow> Inl e
      | Inr state \<Rightarrow>
          (case randomURLToken (lo_random world 1) 32 of
             Inl e \<Rightarrow> Inl e
           | Inr nonce \<Rightarrow>
               (case randomURLToken (lo_random world 2) 48 of
                  Inl e \<Rightarrow> Inl e
                | Inr verifier \<Rightarrow> Inr (state, nonce, verifier))))"

text \<open>The URL the user is sent to.\<close>

definition authorizationURL :: "oauth_lib \<Rightarrow> oauthConfig \<Rightarrow> string \<times> string \<times> string \<Rightarrow> string" where
  "authorizationURL lib config secrets =
     (case secrets of (state, nonce, verifier) \<Rightarrow>
        authCodeURL lib config state
          [(''nonce'', nonce), (''code_challenge'', codeChallenge verifier), (''code_challenge_method'', ''S256'')])"

definition redirectURL :: "string \<Rightarrow> string" where
  "redirectURL address = ''http://'' @ address @ ''/callback''"

definition oidcBrowserLogin :: "oauth_lib \<Rightarrow> login_world \<Rightarrow> oauthConfig \<Rightarrow> string \<times> (oidc_err + oauthToken \<times> string) option" where
  "oidcBrowserLogin lib world oauthConfig =
     (case lo_listener world of
        None \<Rightarrow> ([], Some (Inl CallbackListen))
      | Some address \<Rightarrow>
          let config = oauthConfig\<lparr>oa_RedirectURL := redirectURL address\<rparr> in
          (case browserSecrets world of
             Inl e \<Rightarrow> ([], Some (Inl e))
           | Inr (state, nonce, verifier) \<Rightarrow>
               if lo_outputFails world then ([], Some (Inl BrowserOutput))
               else
                 (''Open this URL to authenticate:'' @ [CHR 0x0A] @ authorizationURL lib config (state, nonce, verifier) @ [CHR 0x0A],
                  case awaitCallback state (lo_events world) of
                    None \<Rightarrow> None
                  | Some (Inl e) \<Rightarrow> Some (Inl e)
                  | Some (Inr code) \<Rightarrow>
                      Some (case exchangeCode lib config code verifier of
                          None \<Rightarrow> Inl CodeExchangeFailed
                        | Some token \<Rightarrow> Inr (token, nonce)))))"

section \<open>Validation\<close>

definition selectOIDCSubjectToken :: "string \<Rightarrow> oauthToken \<Rightarrow> string \<Rightarrow> oidc_err + string" where
  "selectOIDCSubjectToken subjectTokenType token rawIDToken =
     (if subjectTokenType = SubjectTokenTypeIDToken then Inr (trimSpace rawIDToken)
      else if subjectTokenType = SubjectTokenTypeAccessToken then
        (if trimSpace (tk_AccessToken token) = [] then Inl NoAccessToken else Inr (trimSpace (tk_AccessToken token)))
      else Inl UnsupportedTokenType)"

text \<open>A claim that is a string; an absent claim is an error, a null one the empty string.\<close>

definition stringClaim :: "json gomap \<Rightarrow> string \<Rightarrow> string option" where
  "stringClaim claims name =
     (case map_of claims name of
        None \<Rightarrow> None
      | Some j \<Rightarrow> (case dec_string j [] of Inl _ \<Rightarrow> None | Inr s \<Rightarrow> Some s))"

text \<open>The checks on the claims: the nonce, when there is one, and the identity.\<close>

definition checkClaims :: "OIDCConfiguration \<Rightarrow> string \<Rightarrow> json gomap \<Rightarrow> oidc_err + string" where
  "checkClaims configuration nonce claims =
     (if nonce \<noteq> [] \<and> stringClaim claims ''nonce'' \<noteq> Some nonce then Inl NonceMismatch
      else case stringClaim claims (oc_IdentityClaim configuration) of
        None \<Rightarrow> Inl NoIdentityClaim
      | Some identity \<Rightarrow> if trimSpace identity = [] then Inl NoIdentityClaim else Inr (trimSpace identity))"

definition validateOIDCToken :: "oauth_lib \<Rightarrow> OIDCConfiguration \<Rightarrow> oauthToken option \<Rightarrow> string \<Rightarrow> oidc_err + OIDCLoginResult" where
  "validateOIDCToken lib configuration token nonce =
     (case token of
        None \<Rightarrow> Inl NoTokenResponse
      | Some t \<Rightarrow>
          (case tk_IDToken t of
             None \<Rightarrow> Inl NoIDToken
           | Some rawIDToken \<Rightarrow>
               if trimSpace rawIDToken = [] then Inl NoIDToken
               else (case verifyIDToken lib (oc_IssuerURL configuration) (oc_ClientID configuration) rawIDToken of
                   None \<Rightarrow> Inl IDTokenInvalid
                 | Some document \<Rightarrow>
                     (case dec_map decodeRaw JNull document [] of
                        Inl _ \<Rightarrow> Inl ClaimsInvalid
                      | Inr claims \<Rightarrow>
                          (case checkClaims configuration nonce claims of
                             Inl e \<Rightarrow> Inl e
                           | Inr identity \<Rightarrow>
                               (case NormalizeSubjectTokenType (oc_SubjectTokenType configuration) of
                                  Inl e \<Rightarrow> Inl (LoginTokenType e)
                                | Inr subjectTokenType \<Rightarrow>
                                    (case selectOIDCSubjectToken subjectTokenType t rawIDToken of
                                       Inl e \<Rightarrow> Inl e
                                     | Inr subjectToken \<Rightarrow>
                                         Inr \<lparr>lr_SubjectToken = subjectToken, lr_SubjectTokenType = subjectTokenType,
                                              lr_Identity = identity\<rparr>)))))))"

section \<open>The login\<close>

definition loginConfiguration :: "OIDCConfiguration \<Rightarrow> OIDCConfiguration" where
  "loginConfiguration configuration =
     normalizedOIDC (if trimSpace (oc_IdentityClaim configuration) = []
       then configuration\<lparr>oc_IdentityClaim := ''preferred_username''\<rparr> else configuration)"

definition oauthConfigOf :: "OIDCConfiguration \<Rightarrow> oauthConfig" where
  "oauthConfigOf c = \<lparr>oa_Issuer = oc_IssuerURL c, oa_ClientID = oc_ClientID c, oa_Scopes = oc_Scopes c, oa_RedirectURL = []\<rparr>"

text \<open>The token and the nonce of the chosen flow; the device flow has no nonce.\<close>

definition obtainToken ::
    "oauth_lib \<Rightarrow> login_world \<Rightarrow> OIDCConfiguration \<Rightarrow> bool \<Rightarrow> string \<times> (oidc_err + oauthToken \<times> string) option" where
  "obtainToken lib world c device =
     (if device then
        if \<not> oc_DeviceFlow c then ([], Some (Inl DeviceNotAdvertised))
        else (case oidcDeviceLogin lib world (oauthConfigOf c) of
            (out, Inl e) \<Rightarrow> (out, Some (Inl e))
          | (out, Inr t) \<Rightarrow> (out, Some (Inr (t, []))))
      else oidcBrowserLogin lib world (oauthConfigOf c))"

text \<open>The output and the result; no result while a browser login waits for its callback.\<close>

definition OIDCLogin ::
    "bool \<Rightarrow> oauth_lib \<Rightarrow> login_world \<Rightarrow> OIDCConfiguration \<Rightarrow> bool \<Rightarrow> string \<times> (oidc_err + OIDCLoginResult) option" where
  "OIDCLogin hasClient lib world configuration device =
     (if \<not> hasClient then ([], Some (Inl OIDCHTTPClientRequired))
      else if trimSpace (oc_IssuerURL configuration) = [] \<or> trimSpace (oc_ClientID configuration) = []
      then ([], Some (Inl IssuerAndClientRequired))
      else
        let c = loginConfiguration configuration in
        (case NormalizeSubjectTokenType (oc_SubjectTokenType c) of
           Inl e \<Rightarrow> ([], Some (Inl (LoginTokenType e)))
         | Inr _ \<Rightarrow>
             if \<not> newProvider lib (oc_IssuerURL c) then ([], Some (Inl DiscoverProviderFailed))
             else (case obtainToken lib world c device of
                 (out, None) \<Rightarrow> (out, None)
               | (out, Some (Inl e)) \<Rightarrow> (out, Some (Inl e))
               | (out, Some (Inr (token, nonce))) \<Rightarrow> (out, Some (validateOIDCToken lib c (Some token) nonce)))))"

text \<open>\<open>openBrowser\<close>: the command by operating system.\<close>

definition openBrowser :: "string \<Rightarrow> string \<Rightarrow> string list" where
  "openBrowser goos target =
     (if goos = ''darwin'' then [''open'', target]
      else if goos = ''windows'' then [''rundll32'', ''url.dll,FileProtocolHandler'', target]
      else [''xdg-open'', target])"

section \<open>Properties\<close>

lemma checkClaims_Inr:
  "checkClaims c nonce claims = Inr i \<longleftrightarrow> (nonce = [] \<or> stringClaim claims ''nonce'' = Some nonce) \<and>
     (\<exists>s. stringClaim claims (oc_IdentityClaim c) = Some s \<and> i = trimSpace s \<and> i \<noteq> [])"
  by (auto simp: checkClaims_def split: option.splits)

lemma selectOIDCSubjectToken_Inr:
  "selectOIDCSubjectToken ty t raw = Inr s \<longleftrightarrow>
     (ty = SubjectTokenTypeIDToken \<and> s = trimSpace raw) \<or>
     (ty \<noteq> SubjectTokenTypeIDToken \<and> ty = SubjectTokenTypeAccessToken \<and> s = trimSpace (tk_AccessToken t) \<and> s \<noteq> [])"
  by (auto simp: selectOIDCSubjectToken_def)

lemma validateOIDCToken_Inr:
  "validateOIDCToken lib c token nonce = Inr r \<longleftrightarrow>
   (\<exists>t raw document claims. token = Some t \<and> tk_IDToken t = Some raw \<and> trimSpace raw \<noteq> [] \<and>
     verifyIDToken lib (oc_IssuerURL c) (oc_ClientID c) raw = Some document \<and> dec_map decodeRaw JNull document [] = Inr claims \<and>
     checkClaims c nonce claims = Inr (lr_Identity r) \<and> NormalizeSubjectTokenType (oc_SubjectTokenType c) = Inr (lr_SubjectTokenType r) \<and>
     selectOIDCSubjectToken (lr_SubjectTokenType r) t raw = Inr (lr_SubjectToken r))"
  by (cases r) (auto simp: validateOIDCToken_def split: option.splits sum.splits)

lemma browserSecrets_Inr:
  "browserSecrets world = Inr (state, nonce, verifier) \<longleftrightarrow>
   (\<exists>a b c. lo_random world 0 32 = Some a \<and> lo_random world 1 32 = Some b \<and> lo_random world 2 48 = Some c \<and>
     state = base64RawURL a \<and> nonce = base64RawURL b \<and> verifier = base64RawURL c)"
  by (auto simp: browserSecrets_def randomURLToken_def split: option.splits)

text \<open>The wait ends with a code only at the first visit of the callback.\<close>

definition otherVisits :: "wait_event list \<Rightarrow> bool" where
  "otherVisits es = list_all (\<lambda>e. case e of Visit p _ \<Rightarrow> p \<noteq> ''/callback'' | _ \<Rightarrow> False) es"

lemma awaitCallback_code:
  "awaitCallback state es = Some (Inr code) \<longleftrightarrow>
   (\<exists>before q after. es = before @ Visit ''/callback'' q # after \<and> otherVisits before \<and> authorizationCallback state q = Inr code)"
proof
  assume "awaitCallback state es = Some (Inr code)"
  then show "\<exists>before q after. es = before @ Visit ''/callback'' q # after \<and> otherVisits before \<and>
      authorizationCallback state q = Inr code"
  proof (induction state es rule: awaitCallback.induct)
    case (2 state path q es)
    show ?case
    proof (cases "path = ''/callback''")
      case True
      with 2(2) show ?thesis by (intro exI [where x = "[]"] exI) (simp add: otherVisits_def)
    next
      case False
      then obtain before q' after where "es = before @ Visit ''/callback'' q' # after" "otherVisits before"
        "authorizationCallback state q' = Inr code" using 2 by auto
      with False show ?thesis by (intro exI [where x = "Visit path q # before"] exI) (auto simp: otherVisits_def)
    qed
  qed simp_all
next
  assume "\<exists>before q after. es = before @ Visit ''/callback'' q # after \<and> otherVisits before \<and>
      authorizationCallback state q = Inr code"
  then obtain before q after where "es = before @ Visit ''/callback'' q # after" "otherVisits before"
    and code: "authorizationCallback state q = Inr code" by blast
  moreover have "awaitCallback state (before @ Visit ''/callback'' q # after) = Some (authorizationCallback state q)"
    if "otherVisits before"
    using that by (induction before) (auto simp: otherVisits_def split: wait_event.splits)
  ultimately show "awaitCallback state es = Some (Inr code)" by simp
qed

lemma authorizationCallback_Inr:
  "authorizationCallback state q = Inr code \<longleftrightarrow>
   formGet (Query q) ''state'' = state \<and> formGet (Query q) ''error'' = [] \<and> formGet (Query q) ''code'' = code \<and> code \<noteq> []"
  by (auto simp: authorizationCallback_def Let_def)

lemma oidcBrowserLogin_Inr:
  "oidcBrowserLogin lib world config = (out, Some (Inr (token, nonce))) \<longleftrightarrow>
   (\<exists>address state verifier code. lo_listener world = Some address \<and> browserSecrets world = Inr (state, nonce, verifier) \<and>
     \<not> lo_outputFails world \<and> awaitCallback state (lo_events world) = Some (Inr code) \<and>
     exchangeCode lib (config\<lparr>oa_RedirectURL := redirectURL address\<rparr>) code verifier = Some token \<and>
     out = ''Open this URL to authenticate:'' @ [CHR 0x0A] @
       authorizationURL lib (config\<lparr>oa_RedirectURL := redirectURL address\<rparr>) (state, nonce, verifier) @ [CHR 0x0A])"
  by (auto simp: oidcBrowserLogin_def Let_def split: option.splits sum.splits prod.splits)

lemma oidcDeviceLogin_Inr:
  "oidcDeviceLogin lib world config = (out, Inr token) \<longleftrightarrow>
   (\<exists>device. deviceAuth lib config = Some device \<and> \<not> lo_outputFails world \<and> out = deviceInstructions device \<and>
     deviceAccessToken lib config device = Some token)"
  by (auto simp: oidcDeviceLogin_def split: option.splits)

lemma obtainToken_Inr:
  "obtainToken lib world c device = (out, Some (Inr (token, nonce))) \<longleftrightarrow>
   (if device then oc_DeviceFlow c \<and> nonce = [] \<and> oidcDeviceLogin lib world (oauthConfigOf c) = (out, Inr token)
    else oidcBrowserLogin lib world (oauthConfigOf c) = (out, Some (Inr (token, nonce))))"
  by (auto simp: obtainToken_def split: prod.splits sum.splits)

lemma OIDCLogin_Inr:
  "OIDCLogin hasClient lib world configuration device = (out, Some (Inr r)) \<longleftrightarrow>
   hasClient \<and> trimSpace (oc_IssuerURL configuration) \<noteq> [] \<and> trimSpace (oc_ClientID configuration) \<noteq> [] \<and>
   newProvider lib (oc_IssuerURL (loginConfiguration configuration)) \<and>
   (\<exists>token nonce. obtainToken lib world (loginConfiguration configuration) device = (out, Some (Inr (token, nonce))) \<and>
     validateOIDCToken lib (loginConfiguration configuration) (Some token) nonce = Inr r)"
  by (auto simp: OIDCLogin_def Let_def validateOIDCToken_Inr split: option.splits sum.splits prod.splits)

text \<open>What a verified token says about the login: the claims and the subject token.\<close>

definition vouchedFor :: "oauth_lib \<Rightarrow> OIDCConfiguration \<Rightarrow> oauthToken \<Rightarrow> string \<Rightarrow> OIDCLoginResult \<Rightarrow> bool" where
  "vouchedFor lib c token nonce r \<longleftrightarrow>
     (\<exists>raw document claims claim. tk_IDToken token = Some raw \<and>
        verifyIDToken lib (oc_IssuerURL c) (oc_ClientID c) raw = Some document \<and> dec_map decodeRaw JNull document [] = Inr claims \<and>
        (nonce = [] \<or> stringClaim claims ''nonce'' = Some nonce) \<and>
        stringClaim claims (oc_IdentityClaim c) = Some claim \<and> lr_Identity r = trimSpace claim \<and> lr_Identity r \<noteq> [] \<and>
        NormalizeSubjectTokenType (oc_SubjectTokenType c) = Inr (lr_SubjectTokenType r) \<and> lr_SubjectToken r \<noteq> [] \<and>
        lr_SubjectToken r = trimSpace (if lr_SubjectTokenType r = SubjectTokenTypeIDToken then raw else tk_AccessToken token))"

lemma validateOIDCToken_vouched:
  "validateOIDCToken lib c (Some token) nonce = Inr r \<Longrightarrow> vouchedFor lib c token nonce r"
  unfolding validateOIDCToken_Inr vouchedFor_def checkClaims_Inr selectOIDCSubjectToken_Inr by auto

text \<open>
  Claim C25.  A browser login ends with an identity only if the first visit of its callback page brought
  the state of this login and a code, the code was redeemed with the verifier whose SHA-256 is the
  challenge in the URL shown to the user, and the ID token verified for the configured issuer and
  client carries this login's nonce and, in the identity claim, that identity.
\<close>

theorem browser_login_checked:
  assumes "OIDCLogin hasClient lib world configuration False = (out, Some (Inr r))"
  shows "\<exists>address a b v before query after token.
    let c = loginConfiguration configuration; config = (oauthConfigOf c)\<lparr>oa_RedirectURL := redirectURL address\<rparr> in
    lo_listener world = Some address \<and>
    lo_random world 0 32 = Some a \<and> lo_random world 1 32 = Some b \<and> lo_random world 2 48 = Some v \<and>
    out = ''Open this URL to authenticate:'' @ [CHR 0x0A] @
      authCodeURL lib config (base64RawURL a)
        [(''nonce'', base64RawURL b), (''code_challenge'', base64RawURL (sha256 (base64RawURL v))),
         (''code_challenge_method'', ''S256'')] @ [CHR 0x0A] \<and>
    lo_events world = before @ Visit ''/callback'' query # after \<and> otherVisits before \<and>
    formGet (Query query) ''state'' = base64RawURL a \<and> formGet (Query query) ''error'' = [] \<and>
    formGet (Query query) ''code'' \<noteq> [] \<and>
    exchangeCode lib config (formGet (Query query) ''code'') (base64RawURL v) = Some token \<and>
    vouchedFor lib c token (base64RawURL b) r"
proof -
  from assms obtain token nonce where
      flow: "oidcBrowserLogin lib world (oauthConfigOf (loginConfiguration configuration)) = (out, Some (Inr (token, nonce)))"
    and valid: "validateOIDCToken lib (loginConfiguration configuration) (Some token) nonce = Inr r"
    by (auto simp: OIDCLogin_Inr obtainToken_Inr)
  show ?thesis
    using flow validateOIDCToken_vouched [OF valid]
    unfolding oidcBrowserLogin_Inr browserSecrets_Inr awaitCallback_code authorizationCallback_Inr authorizationURL_def
      codeChallenge_def Let_def prod.case
    by blast
qed

section \<open>A login\<close>

definition demoOauth :: oauth_lib where
  "demoOauth =
     \<lparr>newProvider = (\<lambda>issuer. issuer = ''https://id.example''),
      deviceAuth = (\<lambda>_. None), deviceAccessToken = (\<lambda>_ _. None),
      authCodeURL = (\<lambda>c state extra. oa_Issuer c @ ''/authorize?state='' @ state @ concat (map (\<lambda>(k, v). ''&'' @ k @ ''='' @ v) extra)),
      exchangeCode = (\<lambda>c code verifier. if code = ''x'' \<and> verifier = ''dg'' then Some \<lparr>tk_AccessToken = ''at'', tk_IDToken = Some ''id''\<rparr> else None),
      verifyIDToken = (\<lambda>issuer client raw. if client = ''cli'' \<and> raw = ''id''
        then Some (JObj [(''nonce'', JStr ''bg''), (''preferred_username'', JStr ''alice '')]) else None)\<rparr>"

definition demoLoginWorld :: login_world where
  "demoLoginWorld =
     \<lparr>lo_outputFails = False, lo_random = (\<lambda>i n. Some (if i = 0 then ''s'' else if i = 1 then ''n'' else ''v'')),
      lo_listener = Some ''127.0.0.1:4000'',
      lo_events = [Visit ''/favicon.ico'' [], Visit ''/callback'' ''state=cw&code=x'', ContextDone]\<rparr>"

definition demoClientOIDC :: OIDCConfiguration where
  "demoClientOIDC = \<lparr>oc_IssuerURL = ''https://id.example/'', oc_ClientID = ''cli'', oc_Audience = [], oc_Scopes = [],
     oc_IdentityClaim = [], oc_SubjectTokenType = [], oc_DeviceFlow = False\<rparr>"

lemma demoBrowserLogin_bytes:
  "b64Char 28 = CHR ''c''" "b64Char 48 = CHR ''w''" "b64Char 27 = CHR ''b''" "b64Char 32 = CHR ''g''" "b64Char 29 = CHR ''d''"
  by code_simp+

lemma demoBrowserLogin_callback: "awaitCallback ''cw'' (lo_events demoLoginWorld) = Some (Inr ''x'')"
  by code_simp

lemma demoBrowserLogin_configuration:
  "trimSpace (oc_IssuerURL demoClientOIDC) \<noteq> []" "trimSpace (oc_ClientID demoClientOIDC) \<noteq> []"
  "loginConfiguration demoClientOIDC =
     \<lparr>oc_IssuerURL = ''https://id.example'', oc_ClientID = ''cli'', oc_Audience = [], oc_Scopes = [''openid''],
      oc_IdentityClaim = ''preferred_username'', oc_SubjectTokenType = SubjectTokenTypeAccessToken, oc_DeviceFlow = False\<rparr>"
  by code_simp+

lemma demoBrowserLogin_validate:
  "validateOIDCToken demoOauth (loginConfiguration demoClientOIDC) (Some \<lparr>tk_AccessToken = ''at'', tk_IDToken = Some ''id''\<rparr>) ''bg'' =
     Inr \<lparr>lr_SubjectToken = ''at'', lr_SubjectTokenType = SubjectTokenTypeAccessToken, lr_Identity = ''alice''\<rparr>"
  by code_simp

definition demoBrowserLogin :: "string \<times> (oidc_err + OIDCLoginResult) option" where
  "demoBrowserLogin = OIDCLogin True demoOauth demoLoginWorld demoClientOIDC False"

lemma demoBrowserLogin_run:
  "snd demoBrowserLogin = Some (Inr \<lparr>lr_SubjectToken = ''at'', lr_SubjectTokenType = SubjectTokenTypeAccessToken, lr_Identity = ''alice''\<rparr>)"
proof -
  have secrets: "browserSecrets demoLoginWorld = Inr (''cw'', ''bg'', ''dg'')"
    by (simp add: browserSecrets_Inr demoBrowserLogin_bytes demoLoginWorld_def)
  have "\<exists>out. OIDCLogin True demoOauth demoLoginWorld demoClientOIDC False =
      (out, Some (Inr \<lparr>lr_SubjectToken = ''at'', lr_SubjectTokenType = SubjectTokenTypeAccessToken, lr_Identity = ''alice''\<rparr>))"
    unfolding OIDCLogin_Inr obtainToken_Inr oidcBrowserLogin_Inr
    using demoBrowserLogin_configuration demoBrowserLogin_callback demoBrowserLogin_validate secrets
    by (auto simp: demoOauth_def demoLoginWorld_def intro!: exI)
  then show ?thesis by (auto simp: demoBrowserLogin_def)
qed

theorem browser_login_checked_witness:
  "\<exists>query token. fst demoBrowserLogin \<noteq> [] \<and>
     lo_events demoLoginWorld = [Visit ''/favicon.ico'' []] @ Visit ''/callback'' query # [ContextDone] \<and>
     formGet (Query query) ''code'' = ''x'' \<and>
     vouchedFor demoOauth (loginConfiguration demoClientOIDC) token ''bg''
       \<lparr>lr_SubjectToken = ''at'', lr_SubjectTokenType = SubjectTokenTypeAccessToken, lr_Identity = ''alice''\<rparr>"
proof -
  have run: "OIDCLogin True demoOauth demoLoginWorld demoClientOIDC False =
      (fst demoBrowserLogin, Some (Inr \<lparr>lr_SubjectToken = ''at'', lr_SubjectTokenType = SubjectTokenTypeAccessToken, lr_Identity = ''alice''\<rparr>))"
    using demoBrowserLogin_run by (simp add: demoBrowserLogin_def prod_eq_iff)
  have code: "formGet (Query ''state=cw&code=x'') ''code'' = ''x''" by code_simp
  show ?thesis
    using browser_login_checked [OF run] code
    by (auto simp: Let_def demoLoginWorld_def demoBrowserLogin_bytes otherVisits_def Cons_eq_append_conv)
qed

end
