(* ===== verification/Client_Services.thy ===== *)
theory Client_Services
  imports Server Go_JsonPrint
begin

text \<open>
  The client's SSH connections (\<open>internal/client/client.go\<close>, \<open>services.go\<close>): dialling, enrollment, the
  service catalog and the local listeners.  The network and the SSH client library are a record of
  answers; every operation returns what it did to connections and listeners, in order, with its result.
\<close>

section \<open>The network\<close>

type_synonym hostKeyCallback = "string \<Rightarrow> PublicKey \<Rightarrow> bool"

datatype auth_method = AuthPublicKeys Signer | AuthPassword string

record sshClientConfig =
  hc_User :: string
  hc_Auth :: "auth_method list"
  hc_HostKeyCallback :: hostKeyCallback
  hc_Timeout :: int

text \<open>
  \<open>'c\<close> is a connection.  A request is answered with a verdict and a payload, unless the connection
  fails; \<open>nw_unmarshalToken\<close> is the SSH library's decoder of an enrollment response.
\<close>

record 'c network =
  nw_dial :: "string \<Rightarrow> int \<Rightarrow> bool"
  nw_setDeadline :: bool
  nw_handshake :: "string \<Rightarrow> sshClientConfig \<Rightarrow> 'c option"
  nw_clearDeadline :: bool
  nw_request :: "'c \<Rightarrow> string \<Rightarrow> (bool \<times> string) option"
  nw_unmarshalToken :: "string \<Rightarrow> string option"
  nw_listen :: "string \<Rightarrow> string option"

datatype net_event =
    RawDialed string | DeadlineSet int | RawClosed | Established | DeadlineCleared | Requested string | ConnectionClosed
  | Listening nat string | Ready string string | ListenerClosed nat
  | ChannelRequested nat string | Joined nat | LocalClosed nat

datatype ssh_client_err =
    DialFailed | DeadlineFailed | HandshakeFailed | ClientIdentityRequired | InviteRequired | HostKeyVerifierRequired
  | EnrollRequestFailed | EnrollmentRejected | EnrollResponseInvalid | EmptyToken
  | ClientTokenOrKeyRequired | NegativeDialTimeout | ServicesRequestFailed | CatalogRejected | CatalogInvalid
  | ServiceRequired | NameAndAddressRequired | RequestedTwice string | ListenFailed string string | AcceptFailedFor string

definition DefaultServerAddress :: string where "DefaultServerAddress = ''127.0.0.1:2222''"
definition DefaultIdentity :: string where "DefaultIdentity = ''tunnel''"
definition DefaultDialTimeout :: int where "DefaultDialTimeout = 10 * Second"

definition dialSSH :: "'c network \<Rightarrow> string \<Rightarrow> sshClientConfig \<Rightarrow> int \<Rightarrow> net_event list \<times> (ssh_client_err + 'c)" where
  "dialSSH nw address config timeout =
     (if \<not> nw_dial nw address timeout then ([], Inl DialFailed)
      else if \<not> nw_setDeadline nw then ([RawDialed address, RawClosed], Inl DeadlineFailed)
      else case nw_handshake nw address config of
        None \<Rightarrow> ([RawDialed address, DeadlineSet timeout, RawClosed], Inl HandshakeFailed)
      | Some connection \<Rightarrow>
          if \<not> nw_clearDeadline nw then ([RawDialed address, DeadlineSet timeout, Established, ConnectionClosed], Inl DeadlineFailed)
          else ([RawDialed address, DeadlineSet timeout, Established, DeadlineCleared], Inr connection))"

text \<open>Every use of a connection ends by closing it.\<close>

definition withConnection :: "net_event list \<times> (ssh_client_err + 'c) \<Rightarrow> ('c \<Rightarrow> net_event list \<times> (ssh_client_err + 'a)) \<Rightarrow>
    net_event list \<times> (ssh_client_err + 'a)" where
  "withConnection dialled body =
     (case dialled of
        (evs, Inl e) \<Rightarrow> (evs, Inl e)
      | (evs, Inr connection) \<Rightarrow> (case body connection of (evs', r) \<Rightarrow> (evs @ evs' @ [ConnectionClosed], r)))"

section \<open>Enrollment\<close>

record EnrollmentConfig =
  en_ServerAddress :: string
  en_Identity :: string
  en_Invite :: string
  en_HostKey :: "hostKeyCallback option"
  en_DialTimeout :: int

definition requestEnrollment :: "'c network \<Rightarrow> 'c \<Rightarrow> net_event list \<times> (ssh_client_err + string)" where
  "requestEnrollment nw connection =
     ([Requested EnrollRequestType],
      case nw_request nw connection EnrollRequestType of
        None \<Rightarrow> Inl EnrollRequestFailed
      | Some (accepted, response) \<Rightarrow>
          if \<not> accepted then Inl EnrollmentRejected
          else (case nw_unmarshalToken nw response of
              None \<Rightarrow> Inl EnrollResponseInvalid
            | Some token \<Rightarrow> if token = [] then Inl EmptyToken else Inr token))"

definition Enroll_client :: "'c network \<Rightarrow> EnrollmentConfig \<Rightarrow> net_event list \<times> (ssh_client_err + string)" where
  "Enroll_client nw config =
     (let address = (if en_ServerAddress config = [] then DefaultServerAddress else en_ServerAddress config);
          timeout = (if en_DialTimeout config = 0 then DefaultDialTimeout else en_DialTimeout config) in
      if en_Identity config = [] then ([], Inl ClientIdentityRequired)
      else if en_Invite config = [] then ([], Inl InviteRequired)
      else case en_HostKey config of
        None \<Rightarrow> ([], Inl HostKeyVerifierRequired)
      | Some hostKey \<Rightarrow>
          withConnection
            (dialSSH nw address \<lparr>hc_User = EnrollmentUser (en_Identity config), hc_Auth = [AuthPassword (en_Invite config)],
               hc_HostKeyCallback = hostKey, hc_Timeout = timeout\<rparr> timeout)
            (requestEnrollment nw))"

section \<open>The service client\<close>

record ServiceClientConfig =
  cc_ServerAddress :: string
  cc_Identity :: string
  cc_Token :: string
  cc_Signer :: "Signer option"
  cc_HostKey :: "hostKeyCallback option"
  cc_DialTimeout :: int

record LocalService =
  ls_Name :: string
  ls_ListenAddress :: string

definition setDefaults :: "ServiceClientConfig \<Rightarrow> ServiceClientConfig" where
  "setDefaults c =
     c\<lparr>cc_ServerAddress := (if cc_ServerAddress c = [] then DefaultServerAddress else cc_ServerAddress c),
       cc_Identity := (if cc_Identity c = [] then DefaultIdentity else cc_Identity c),
       cc_DialTimeout := (if cc_DialTimeout c = 0 then DefaultDialTimeout else cc_DialTimeout c)\<rparr>"

definition serviceConfigValidate :: "ServiceClientConfig \<Rightarrow> ssh_client_err option" where
  "serviceConfigValidate c =
     (if cc_Token c = [] \<and> cc_Signer c = None then Some ClientTokenOrKeyRequired
      else if cc_HostKey c = None then Some HostKeyVerifierRequired
      else if cc_DialTimeout c < 0 then Some NegativeDialTimeout
      else None)"

definition authMethods :: "ServiceClientConfig \<Rightarrow> auth_method list" where
  "authMethods c = (case cc_Signer c of None \<Rightarrow> [] | Some s \<Rightarrow> [AuthPublicKeys s]) @
     (if cc_Token c \<noteq> [] then [AuthPassword (cc_Token c)] else [])"

definition serviceDial :: "'c network \<Rightarrow> ServiceClientConfig \<Rightarrow> net_event list \<times> (ssh_client_err + 'c)" where
  "serviceDial nw c =
     dialSSH nw (cc_ServerAddress c)
       \<lparr>hc_User = cc_Identity c, hc_Auth = authMethods c,
        hc_HostKeyCallback = (case cc_HostKey c of None \<Rightarrow> (\<lambda>_ _. False) | Some k \<Rightarrow> k), hc_Timeout = cc_DialTimeout c\<rparr>
       (cc_DialTimeout c)"

section \<open>The catalog\<close>

definition dec_ProtocolService :: "ProtocolService dec" where
  "dec_ProtocolService = dec_struct False
     [field ''name'' dec_string ps_Name ps_Name_update,
      field ''local_port'' (dec_uint 32) ps_LocalPort ps_LocalPort_update]"

definition decodeCatalog :: "string \<Rightarrow> ssh_client_err + ProtocolService list" where
  "decodeCatalog payload =
     (case parseJson payload of
        None \<Rightarrow> Inl CatalogInvalid
      | Some j \<Rightarrow>
          (case dec_slice dec_ProtocolService \<lparr>ps_Name = [], ps_LocalPort = 0\<rparr> j None of
             Inl _ \<Rightarrow> Inl CatalogInvalid
           | Inr services \<Rightarrow> Inr (elems services)))"

definition requestServices :: "'c network \<Rightarrow> 'c \<Rightarrow> net_event list \<times> (ssh_client_err + ProtocolService list)" where
  "requestServices nw connection =
     ([Requested ServicesRequestType],
      case nw_request nw connection ServicesRequestType of
        None \<Rightarrow> Inl ServicesRequestFailed
      | Some (accepted, payload) \<Rightarrow> if \<not> accepted then Inl CatalogRejected else decodeCatalog payload)"

definition ListServices :: "'c network \<Rightarrow> ServiceClientConfig \<Rightarrow> net_event list \<times> (ssh_client_err + ProtocolService list)" where
  "ListServices nw config =
     (let c = setDefaults config in
      case serviceConfigValidate c of
        Some e \<Rightarrow> ([], Inl e)
      | None \<Rightarrow> withConnection (serviceDial nw c) (requestServices nw))"

section \<open>Local listeners\<close>

text \<open>The names seen so far are threaded through.\<close>

fun checkRequested :: "string list \<Rightarrow> LocalService list \<Rightarrow> ssh_client_err option" where
  "checkRequested seen [] = None"
| "checkRequested seen (s # ss) =
     (if ls_Name s = [] \<or> ls_ListenAddress s = [] then Some NameAndAddressRequired
      else if ls_Name s \<in> set seen then Some (RequestedTwice (ls_Name s))
      else checkRequested (ls_Name s # seen) ss)"

definition checkServices :: "LocalService list \<Rightarrow> ssh_client_err option" where
  "checkServices services = (if services = [] then Some ServiceRequired else checkRequested [] services)"

text \<open>\<open>i\<close> is the number of the next listener; the addresses are the ones the system gave.\<close>

fun listenAll :: "'c network \<Rightarrow> nat \<Rightarrow> LocalService list \<Rightarrow> net_event list \<times> nat \<times> ssh_client_err option" where
  "listenAll nw i [] = ([], i, None)"
| "listenAll nw i (s # ss) =
     (case nw_listen nw (ls_ListenAddress s) of
        None \<Rightarrow> ([], i, Some (ListenFailed (ls_Name s) (ls_ListenAddress s)))
      | Some address \<Rightarrow>
          (case listenAll nw (Suc i) ss of (evs, n, e) \<Rightarrow> (Listening i address # Ready (ls_Name s) address # evs, n, e)))"

text \<open>
  What the running listeners meet, in order: a local connection \<open>l\<close> accepted by a listener, with whether
  its channel opens; a failing accept, with whether the listener had been closed; the end of the context.
\<close>

datatype run_input = LocalAccepted nat nat bool | AcceptError nat bool | ContextEnded

definition connectService :: "string \<Rightarrow> nat \<Rightarrow> nat \<Rightarrow> bool \<Rightarrow> net_event list" where
  "connectService name i l opens =
     [ChannelRequested l (joinHostPort name ''0''), if opens then Joined l else LocalClosed l]"

text \<open>No result while the listeners run.\<close>

fun serveListeners :: "LocalService list \<Rightarrow> run_input list \<Rightarrow> net_event list \<times> (ssh_client_err + unit) option" where
  "serveListeners services [] = ([], None)"
| "serveListeners services (LocalAccepted i l opens # es) =
     (if i < length services then
        (case serveListeners services es of (evs, r) \<Rightarrow> (connectService (ls_Name (services ! i)) i l opens @ evs, r))
      else serveListeners services es)"
| "serveListeners services (AcceptError i listenerClosed # es) =
     (if listenerClosed \<or> \<not> i < length services then serveListeners services es
      else ([], Some (Inl (AcceptFailedFor (ls_Name (services ! i))))))"
| "serveListeners services (ContextEnded # es) = ([], Some (Inr ()))"

definition closeListeners :: "nat \<Rightarrow> net_event list" where
  "closeListeners n = map ListenerClosed [0..<n]"

definition runOn :: "'c network \<Rightarrow> LocalService list \<Rightarrow> run_input list \<Rightarrow> net_event list \<times> (ssh_client_err + unit) option" where
  "runOn nw services inputs =
     (case listenAll nw 0 services of
        (evs, n, Some e) \<Rightarrow> (evs @ closeListeners n @ [ConnectionClosed], Some (Inl e))
      | (evs, n, None) \<Rightarrow>
          (case serveListeners services inputs of
             (evs', None) \<Rightarrow> (evs @ evs', None)
           | (evs', Some r) \<Rightarrow> (evs @ evs' @ closeListeners n @ [ConnectionClosed], Some r)))"

definition RunServices :: "'c network \<Rightarrow> ServiceClientConfig \<Rightarrow> LocalService list \<Rightarrow> run_input list \<Rightarrow>
    net_event list \<times> (ssh_client_err + unit) option" where
  "RunServices nw config services inputs =
     (let c = setDefaults config in
      case serviceConfigValidate c of
        Some e \<Rightarrow> ([], Some (Inl e))
      | None \<Rightarrow>
          (case checkServices services of
             Some e \<Rightarrow> ([], Some (Inl e))
           | None \<Rightarrow>
               (case serviceDial nw c of
                  (evs, Inl e) \<Rightarrow> (evs, Some (Inl e))
                | (evs, Inr connection) \<Rightarrow> (case runOn nw services inputs of (evs', r) \<Rightarrow> (evs @ evs', r)))))"

end
