(* ===== verification/Client_Command.thy ===== *)
theory Client_Command
  imports Command_Flags Client_Files Client_Oidc Client_Services
begin

text \<open>
  The client's command (\<open>cmd/tearenv\<close>): \<open>login\<close>, \<open>services\<close> and \<open>connect\<close> over the client library, with
  their options and default paths.  A login is a sequence of steps that return all states of the file
  system on their way, the next state of the world behind the HTTP client, and a result.
\<close>

section \<open>Options\<close>

definition defaultAPIURL :: string where "defaultAPIURL = ''http://127.0.0.1:8080''"

record loginOptions =
  lg_serverAddress :: string
  lg_apiURL :: string
  lg_namespace :: string
  lg_identity :: string
  lg_identityDefault :: string
  lg_privateKeyPath :: string
  lg_registrationPath :: string
  lg_registrationTokenPath :: string
  lg_profilePath :: string
  lg_knownHostsPath :: string
  lg_insecure :: bool
  lg_oidcDevice :: bool
  lg_discoverAuthentication :: bool

record connectOptions =
  cn_profilePath :: string
  cn_listenHost :: string
  cn_serverAddress :: string
  cn_identity :: string
  cn_privateKeyPath :: string
  cn_knownHostsPath :: string
  cn_insecure :: bool
  cn_oidcDevice :: bool

record servicesOptions =
  so_profilePath :: string
  so_oidcDevice :: bool

text \<open>The user's surroundings: host name, home and configuration directory, when they can be found.\<close>

record user_env =
  ue_hostname :: "string option"
  ue_home :: "string option"
  ue_config :: "string option"

definition defaultIdentity :: "user_env \<Rightarrow> string" where
  "defaultIdentity u =
     (case ue_hostname u of
        None \<Rightarrow> DefaultIdentity
      | Some hostname \<Rightarrow> if trimSpace hostname = [] then DefaultIdentity else hostname)"

definition defaultKnownHostsPath :: "user_env \<Rightarrow> string" where
  "defaultKnownHostsPath u =
     (case ue_home u of None \<Rightarrow> [] | Some home \<Rightarrow> joinPath (joinPath home ''.ssh'') ''known_hosts'')"

definition defaultProfilePath :: "user_env \<Rightarrow> string" where
  "defaultProfilePath u =
     (case ue_config u of None \<Rightarrow> ''.tearenv.json'' | Some d \<Rightarrow> joinPath (joinPath d ''tearenv'') ''config.json'')"

definition defaultPrivateKeyPath :: "user_env \<Rightarrow> string" where
  "defaultPrivateKeyPath u =
     (case ue_config u of None \<Rightarrow> ''.tearenv_id_ed25519'' | Some d \<Rightarrow> joinPath (joinPath d ''tearenv'') ''id_ed25519'')"

definition defaultRegistrationPath :: "user_env \<Rightarrow> string" where
  "defaultRegistrationPath u =
     (case ue_config u of None \<Rightarrow> ''.tearenv_user_registration.yaml''
      | Some d \<Rightarrow> joinPath (joinPath d ''tearenv'') ''user-registration.yaml'')"

definition newLoginCommand :: "user_env \<Rightarrow> loginOptions" where
  "newLoginCommand u =
     \<lparr>lg_serverAddress = DefaultServerAddress, lg_apiURL = defaultAPIURL, lg_namespace = ''default'', lg_identity = [],
      lg_identityDefault = defaultIdentity u, lg_privateKeyPath = defaultPrivateKeyPath u,
      lg_registrationPath = defaultRegistrationPath u, lg_registrationTokenPath = [], lg_profilePath = defaultProfilePath u,
      lg_knownHostsPath = defaultKnownHostsPath u, lg_insecure = False, lg_oidcDevice = False, lg_discoverAuthentication = True\<rparr>"

definition loginFlags :: "(string \<times> loginOptions flag) list" where
  "loginFlags =
     [(''api-url'', StringVar (\<lambda>v s. s\<lparr>lg_apiURL := v\<rparr>)), (''namespace'', StringVar (\<lambda>v s. s\<lparr>lg_namespace := v\<rparr>)),
      (''server'', StringVar (\<lambda>v s. s\<lparr>lg_serverAddress := v\<rparr>)), (''identity'', StringVar (\<lambda>v s. s\<lparr>lg_identity := v\<rparr>)),
      (''registration-token-file'', StringVar (\<lambda>v s. s\<lparr>lg_registrationTokenPath := v\<rparr>)),
      (''private-key'', StringVar (\<lambda>v s. s\<lparr>lg_privateKeyPath := v\<rparr>)), (''registration'', StringVar (\<lambda>v s. s\<lparr>lg_registrationPath := v\<rparr>)),
      (''config'', StringVar (\<lambda>v s. s\<lparr>lg_profilePath := v\<rparr>)), (''known-hosts'', StringVar (\<lambda>v s. s\<lparr>lg_knownHostsPath := v\<rparr>)),
      (''insecure-skip-host-key-check'', BoolVar (\<lambda>v s. s\<lparr>lg_insecure := v\<rparr>)), (''oidc-device'', BoolVar (\<lambda>v s. s\<lparr>lg_oidcDevice := v\<rparr>))]"

definition newServicesCommand :: "user_env \<Rightarrow> servicesOptions" where
  "newServicesCommand u = \<lparr>so_profilePath = defaultProfilePath u, so_oidcDevice = False\<rparr>"

definition servicesFlags :: "(string \<times> servicesOptions flag) list" where
  "servicesFlags = [(''config'', StringVar (\<lambda>v s. s\<lparr>so_profilePath := v\<rparr>)), (''oidc-device'', BoolVar (\<lambda>v s. s\<lparr>so_oidcDevice := v\<rparr>))]"

definition newConnectCommand :: "user_env \<Rightarrow> connectOptions" where
  "newConnectCommand u =
     \<lparr>cn_profilePath = defaultProfilePath u, cn_listenHost = ''127.0.0.1'', cn_serverAddress = [], cn_identity = [],
      cn_privateKeyPath = [], cn_knownHostsPath = [], cn_insecure = False, cn_oidcDevice = False\<rparr>"

definition connectFlags :: "(string \<times> connectOptions flag) list" where
  "connectFlags =
     [(''config'', StringVar (\<lambda>v s. s\<lparr>cn_profilePath := v\<rparr>)), (''listen-host'', StringVar (\<lambda>v s. s\<lparr>cn_listenHost := v\<rparr>)),
      (''server'', StringVar (\<lambda>v s. s\<lparr>cn_serverAddress := v\<rparr>)), (''identity'', StringVar (\<lambda>v s. s\<lparr>cn_identity := v\<rparr>)),
      (''private-key'', StringVar (\<lambda>v s. s\<lparr>cn_privateKeyPath := v\<rparr>)), (''known-hosts'', StringVar (\<lambda>v s. s\<lparr>cn_knownHostsPath := v\<rparr>)),
      (''insecure-skip-host-key-check'', BoolVar (\<lambda>v s. s\<lparr>cn_insecure := v\<rparr>)), (''oidc-device'', BoolVar (\<lambda>v s. s\<lparr>cn_oidcDevice := v\<rparr>))]"

section \<open>What a command runs with\<close>

text \<open>
  The libraries, the HTTP client, the outside of an OIDC login, the operating system, the token
  variable of the environment, what can be read from the standard input (and whether reading then
  fails), and whether prompts and output can be written.
\<close>

record 'w client_env =
  ce_libs :: libs
  ce_yaml :: "UserRegistration yaml_lib"
  ce_toJSON :: "UserRegistration \<Rightarrow> string option"
  ce_keygen :: keygen_lib
  ce_newCertSigner :: newCertSigner
  ce_http :: "'w httpClient option"
  ce_oauth :: oauth_lib
  ce_login :: login_world
  ce_os :: os_env
  ce_tokenVariable :: string
  ce_input :: string
  ce_inputFails :: bool
  ce_promptFails :: bool
  ce_outputFails :: bool
  ce_knownhosts :: "string \<Rightarrow> hostKeyCallback option"

datatype login_err =
    TokenFileStat sys_err | TokenFilePermissions perm | TokenFileRead sys_err | TokenFileEmpty
  | TokenWithOIDC | OIDCNotConfigured | OIDCLoginFailed oidc_err | IdentityMismatch
  | PromptFailed | InputFailed | LoginKey key_err | RegistrationMarshal reg_err | RegistrationSave sys_err
  | RegistrationSubmit client_err | AcceptedMarshal reg_err | AcceptedSave sys_err | ExchangeFailed client_err
  | LoginProfile profile_err | OutputFailed

section \<open>Inputs of a login\<close>

definition loadRegistrationToken :: "os_env \<Rightarrow> string \<Rightarrow> string \<Rightarrow> string fs \<Rightarrow> login_err + string" where
  "loadRegistrationToken env variable path fs =
     (if trimSpace path = [] then Inr (trimSpace variable)
      else case osStat env SysStatRead path fs of
        Inl e \<Rightarrow> Inl (TokenFileStat e)
      | Inr info \<Rightarrow>
          if permOf info AND 0x3F \<noteq> 0 then Inl (TokenFilePermissions (permOf info))
          else (case readFile env path fs of
              Inl e \<Rightarrow> Inl (TokenFileRead e)
            | Inr contents \<Rightarrow>
                let token = trimSpace (case contents of None \<Rightarrow> [] | Some c \<Rightarrow> c) in
                if token = [] then Inl TokenFileEmpty else Inr token))"

text \<open>The first line of the input; its end is not an error.\<close>

definition readLine :: "string \<Rightarrow> bool \<Rightarrow> string option" where
  "readLine input fails =
     (if CHR 0x0A \<in> set input then Some (takeWhile (\<lambda>c. c \<noteq> CHR 0x0A) input @ [CHR 0x0A])
      else if fails then None else Some input)"

definition loginIdentity :: "string \<Rightarrow> string \<Rightarrow> string \<Rightarrow> bool \<Rightarrow> bool \<Rightarrow> string \<times> (login_err + string)" where
  "loginIdentity v fallback input inputFails promptFails =
     (if trimSpace v \<noteq> [] then ([], Inr (trimSpace v))
      else
        let fallback = (if fallback = [] then DefaultIdentity else fallback) in
        if promptFails then ([], Inl PromptFailed)
        else (''Identity ['' @ fallback @ '']: '',
          case readLine input inputFails of
            None \<Rightarrow> Inl InputFailed
          | Some line \<Rightarrow> Inr (if trimSpace line = [] then fallback else trimSpace line)))"

text \<open>A server that cannot be asked how it authenticates is taken to use tokens, or nothing.\<close>

definition loginAuthentication :: "'w client_env \<Rightarrow> loginOptions \<Rightarrow> string \<Rightarrow> 'w \<Rightarrow> 'w \<times> Configuration" where
  "loginAuthentication ce options registrationToken w =
     (if \<not> lg_discoverAuthentication options then (w, \<lparr>cf_Mode = MethodAnonymous, cf_TokenEndpoint = [], cf_OIDC = None\<rparr>)
      else case DiscoverAuthentication (ce_http ce) (lg_apiURL options) w of
        (w', Inr configuration) \<Rightarrow> (w', configuration)
      | (w', Inl e) \<Rightarrow>
          (w', \<lparr>cf_Mode = (if registrationToken \<noteq> [] then MethodToken else MethodAnonymous), cf_TokenEndpoint = [], cf_OIDC = None\<rparr>))"

text \<open>The prompts, and the identity with the bearer token; no result while an OIDC login waits.\<close>

definition loginOIDC :: "'w client_env \<Rightarrow> loginOptions \<Rightarrow> string \<Rightarrow> Configuration \<Rightarrow> string \<times> (login_err + string \<times> string) option" where
  "loginOIDC ce options registrationToken authentication =
     (if registrationToken \<noteq> [] then ([], Some (Inl TokenWithOIDC))
      else case cf_OIDC authentication of
        None \<Rightarrow> ([], Some (Inl OIDCNotConfigured))
      | Some oc \<Rightarrow>
          (case OIDCLogin (\<not> Option.is_none (ce_http ce)) (ce_oauth ce) (ce_login ce) oc (lg_oidcDevice options) of
             (prompts, None) \<Rightarrow> (prompts, None)
           | (prompts, Some (Inl e)) \<Rightarrow> (prompts, Some (Inl (OIDCLoginFailed e)))
           | (prompts, Some (Inr r)) \<Rightarrow>
               (prompts, Some (if trimSpace (lg_identity options) \<noteq> [] \<and> trimSpace (lg_identity options) \<noteq> lr_Identity r
                  then Inl IdentityMismatch else Inr (lr_Identity r, lr_SubjectToken r)))))"

definition loginPrincipal :: "'w client_env \<Rightarrow> loginOptions \<Rightarrow> string \<Rightarrow> Configuration \<Rightarrow> string \<times> (login_err + string \<times> string) option" where
  "loginPrincipal ce options registrationToken authentication =
     (if cf_Mode authentication = MethodOIDC then loginOIDC ce options registrationToken authentication
      else case loginIdentity (lg_identity options) (lg_identityDefault options) (ce_input ce) (ce_inputFails ce) (ce_promptFails ce) of
        (prompts, Inl e) \<Rightarrow> (prompts, Some (Inl e))
      | (prompts, Inr identity) \<Rightarrow> (prompts, Some (Inr (identity, registrationToken))))"

section \<open>Steps\<close>

text \<open>
  A step starts in a file system and a world; it returns the states of the file system on its way, with
  the first one, the next world, and its result.  The next step goes on from the last state.
\<close>

type_synonym ('w, 'a) step = "string fs \<Rightarrow> 'w \<Rightarrow> string fs list \<times> 'w \<times> (login_err + 'a)"

definition andThen :: "('w, 'a) step \<Rightarrow> ('a \<Rightarrow> ('w, 'b) step) \<Rightarrow> ('w, 'b) step" where
  "andThen m f fs w =
     (case m fs w of
        (tr, w1, Inl e) \<Rightarrow> (tr, w1, Inl e)
      | (tr, w1, Inr a) \<Rightarrow> (case f a (last tr) w1 of (tr', w2, r) \<Rightarrow> (tr @ tr', w2, r)))"

definition returns :: "login_err + 'a \<Rightarrow> ('w, 'a) step" where
  "returns r fs w = ([fs], w, r)"

text \<open>\<open>saveProtectedFile\<close> makes the directory and replaces the file.\<close>

definition saveProtectedFile :: "os_env \<Rightarrow> string \<Rightarrow> string \<Rightarrow> string fs \<Rightarrow> string fs list \<times> sys_err option" where
  "saveProtectedFile env path contents fs = atomicWrite env ''.tearenv-registration-'' path contents fs"

definition saveStep :: "(sys_err \<Rightarrow> login_err) \<Rightarrow> os_env \<Rightarrow> string \<Rightarrow> string \<Rightarrow> ('w, unit) step" where
  "saveStep fails env path contents fs w =
     (case saveProtectedFile env path contents fs of
        (tr, Some e) \<Rightarrow> (tr, w, Inl (fails e))
      | (tr, None) \<Rightarrow> (tr, w, Inr ()))"

definition keyStep :: "'w client_env \<Rightarrow> loginOptions \<Rightarrow> string \<Rightarrow> ('w, Signer) step" where
  "keyStep ce options identity fs w =
     (case LoadOrCreatePrivateKey (lib_ssh (ce_libs ce)) (ce_keygen ce) (ce_os ce) (lg_privateKeyPath options) identity fs of
        (tr, Inl e) \<Rightarrow> (tr, w, Inl (LoginKey e))
      | (tr, Inr signer) \<Rightarrow> (tr, w, Inr signer))"

definition loginKeyName :: "'w client_env \<Rightarrow> loginOptions \<Rightarrow> string" where
  "loginKeyName ce options = KeyName (lib_k8s (ce_libs ce)) (lib_lower (ce_libs ce)) (lg_identityDefault options)"

text \<open>The registration that a login asks for.\<close>

definition loginRegistration :: "'w client_env \<Rightarrow> loginOptions \<Rightarrow> string \<Rightarrow> Signer \<Rightarrow> UserRegistration" where
  "loginRegistration ce options identity signer =
     zero_UserRegistration\<lparr>ur_APIVersion := APIVersion, ur_Kind := UserRegistrationKind,
       ur_Name := ResourceName (lib_k8s (ce_libs ce)) (lib_lower (ce_libs ce)) identity, ur_Namespace := lg_namespace options,
       ur_Spec := \<lparr>sp_Identity = identity, sp_PublicKeys =
         [\<lparr>pk_Name = loginKeyName ce options,
           pk_Key = trimSpace (MarshalAuthorizedKey (lib_ssh (ce_libs ce)) (signerPublicKey (lib_ssh (ce_libs ce)) signer))\<rparr>]\<rparr>\<rparr>"

definition prepareStep :: "'w client_env \<Rightarrow> loginOptions \<Rightarrow> UserRegistration \<Rightarrow> ('w, unit) step" where
  "prepareStep ce options registration =
     (case MarshalUserRegistration (ce_libs ce) (ce_yaml ce) registration of
        Inl e \<Rightarrow> returns (Inl (RegistrationMarshal e))
      | Inr contents \<Rightarrow> saveStep RegistrationSave (ce_os ce) (lg_registrationPath options) contents)"

text \<open>A refused registration that came with a resource is still saved, when it can be.\<close>

definition keepRefused :: "'w client_env \<Rightarrow> loginOptions \<Rightarrow> UserRegistration \<Rightarrow> string fs \<Rightarrow> string fs list" where
  "keepRefused ce options accepted fs =
     (if ur_APIVersion accepted = [] then [fs]
      else case MarshalUserRegistration (ce_libs ce) (ce_yaml ce) accepted of
        Inl _ \<Rightarrow> [fs]
      | Inr contents \<Rightarrow> fst (saveProtectedFile (ce_os ce) (lg_registrationPath options) contents fs))"

definition submitStep :: "'w client_env \<Rightarrow> loginOptions \<Rightarrow> string \<Rightarrow> UserRegistration \<Rightarrow> ('w, UserRegistration) step" where
  "submitStep ce options bearerToken registration fs w =
     (case SubmitUserRegistration (ce_libs ce) (ce_yaml ce) (ce_toJSON ce) (ce_http ce) (lg_apiURL options) registration
         [WithBearerToken bearerToken] w of
        (w', accepted, Some e) \<Rightarrow> (keepRefused ce options accepted fs, w', Inl (RegistrationSubmit e))
      | (w', accepted, None) \<Rightarrow> ([fs], w', Inr accepted))"

definition keepStep :: "'w client_env \<Rightarrow> loginOptions \<Rightarrow> UserRegistration \<Rightarrow> ('w, unit) step" where
  "keepStep ce options accepted =
     (case MarshalUserRegistration (ce_libs ce) (ce_yaml ce) accepted of
        Inl e \<Rightarrow> returns (Inl (AcceptedMarshal e))
      | Inr contents \<Rightarrow> saveStep AcceptedSave (ce_os ce) (lg_registrationPath options) contents)"

definition exchangeStep :: "'w client_env \<Rightarrow> loginOptions \<Rightarrow> Configuration \<Rightarrow> string \<Rightarrow> string \<Rightarrow> Signer \<Rightarrow> ('w, unit) step" where
  "exchangeStep ce options authentication bearerToken identity signer fs w =
     (if cf_Mode authentication = MethodOIDC
      then case ExchangeSSHCertificate (lib_ssh (ce_libs ce)) (ce_newCertSigner ce) (ce_http ce) (lg_apiURL options) authentication
          bearerToken (loginKeyName ce options) identity (Some signer) w of
        (w', Inl e) \<Rightarrow> ([fs], w', Inl (ExchangeFailed e))
      | (w', Inr _) \<Rightarrow> ([fs], w', Inr ())
      else ([fs], w, Inr ()))"

definition loginProfile :: "'w client_env \<Rightarrow> loginOptions \<Rightarrow> Configuration \<Rightarrow> string \<Rightarrow> Profile" where
  "loginProfile ce options authentication identity =
     \<lparr>pf_ServerAddress = lg_serverAddress options, pf_APIURL = lg_apiURL options, pf_Namespace = lg_namespace options,
      pf_Identity = identity, pf_AuthenticationMode = cf_Mode authentication, pf_KeyName = loginKeyName ce options,
      pf_OIDCDevice = lg_oidcDevice options, pf_Token = [], pf_PrivateKey = lg_privateKeyPath options,
      pf_KnownHosts = lg_knownHostsPath options, pf_Insecure = lg_insecure options\<rparr>"

definition profileStep :: "'w client_env \<Rightarrow> loginOptions \<Rightarrow> Profile \<Rightarrow> ('w, unit) step" where
  "profileStep ce options saved fs w =
     (case profileSave (ce_os ce) (lg_profilePath options) saved fs of
        (tr, Some e) \<Rightarrow> (tr, w, Inl (LoginProfile e))
      | (tr, None) \<Rightarrow> (tr, w, if ce_outputFails ce then Inl OutputFailed else Inr ()))"

text \<open>From the identity on.\<close>

definition registerStep :: "'w client_env \<Rightarrow> loginOptions \<Rightarrow> Configuration \<Rightarrow> string \<Rightarrow> string \<Rightarrow> ('w, Signer) step" where
  "registerStep ce options authentication identity bearerToken =
     andThen (keyStep ce options identity) (\<lambda>signer.
       let registration = loginRegistration ce options identity signer in
       andThen (prepareStep ce options registration) (\<lambda>_.
         andThen (submitStep ce options bearerToken registration) (\<lambda>accepted.
           andThen (keepStep ce options accepted) (\<lambda>_.
             andThen (exchangeStep ce options authentication bearerToken identity signer) (\<lambda>_. returns (Inr signer))))))"

text \<open>The prompts, and no further result while an OIDC login waits.\<close>

definition login :: "'w client_env \<Rightarrow> loginOptions \<Rightarrow> string fs \<Rightarrow> 'w \<Rightarrow> string \<times> (string fs list \<times> 'w \<times> (login_err + unit)) option" where
  "login ce options fs w =
     (case loadRegistrationToken (ce_os ce) (ce_tokenVariable ce) (lg_registrationTokenPath options) fs of
        Inl e \<Rightarrow> ([], Some ([fs], w, Inl e))
      | Inr registrationToken \<Rightarrow>
          (case loginAuthentication ce options registrationToken w of
             (w1, authentication) \<Rightarrow>
               (case loginPrincipal ce options registrationToken authentication of
                  (prompts, None) \<Rightarrow> (prompts, None)
                | (prompts, Some (Inl e)) \<Rightarrow> (prompts, Some ([fs], w1, Inl e))
                | (prompts, Some (Inr (identity, bearerToken))) \<Rightarrow>
                    (prompts, Some (andThen (registerStep ce options authentication identity bearerToken)
                       (\<lambda>_. profileStep ce options (loginProfile ce options authentication identity)) fs w1)))))"

section \<open>Services and connections\<close>

datatype connect_err =
    ConnectProfile profile_err | KnownHostsPathRequired | KnownHostsInvalid | ConnectKey key_err | ConnectDiscovery client_err
  | OIDCNoLongerAdvertised | ConnectOIDC oidc_err | SavedIdentityMismatch | ConnectExchange client_err
  | ConnectSsh ssh_client_err | ServiceNotGranted string | NoServicesGranted

text \<open>\<open>net.JoinHostPort\<close> with the decimal port, unless the specification gives an address.\<close>

definition selectService :: "ProtocolService list \<Rightarrow> string \<Rightarrow> string \<Rightarrow> connect_err + LocalService" where
  "selectService catalog listenHost specification =
     (case cut specification (CHR ''='') of (name, listenAddress, overridden) \<Rightarrow>
        (case find (\<lambda>s. ps_Name s = name) (rev catalog) of
           None \<Rightarrow> Inl (ServiceNotGranted name)
         | Some service \<Rightarrow>
             Inr \<lparr>ls_Name = name,
                  ls_ListenAddress = (if overridden then listenAddress else joinHostPort listenHost (decString (ps_LocalPort service)))\<rparr>))"

definition selectServices :: "ProtocolService list \<Rightarrow> string list \<Rightarrow> string \<Rightarrow> connect_err + LocalService list" where
  "selectServices catalog specifications listenHost =
     (let specifications = (if specifications = [] then sort (remdups (map ps_Name catalog)) else specifications) in
      case rmap (selectService catalog listenHost) specifications of
        Inl e \<Rightarrow> Inl e
      | Inr selected \<Rightarrow> if selected = [] then Inl NoServicesGranted else Inr selected)"

definition hostKeyCallbackOf :: "'w client_env \<Rightarrow> string \<Rightarrow> bool \<Rightarrow> string fs \<Rightarrow> connect_err + hostKeyCallback" where
  "hostKeyCallbackOf ce path insecure fs =
     (if insecure then Inr (\<lambda>_ _. True)
      else if path = [] then Inl KnownHostsPathRequired
      else case readFile (ce_os ce) path fs of
        Inl _ \<Rightarrow> Inl KnownHostsInvalid
      | Inr contents \<Rightarrow>
          (case ce_knownhosts ce (case contents of None \<Rightarrow> [] | Some c \<Rightarrow> c) of
             None \<Rightarrow> Inl KnownHostsInvalid
           | Some callback \<Rightarrow> Inr callback))"

text \<open>The certificate of a profile that logs in with OIDC: discovery, a login and an exchange, each anew.\<close>

definition certificateSigner :: "'w client_env \<Rightarrow> Profile \<Rightarrow> bool \<Rightarrow> Signer \<Rightarrow> 'w \<Rightarrow> string \<times> 'w \<times> (connect_err + Signer) option" where
  "certificateSigner ce saved forceDevice signer w =
     (case DiscoverAuthentication (ce_http ce) (pf_APIURL saved) w of
        (w1, Inl e) \<Rightarrow> ([], w1, Some (Inl (ConnectDiscovery e)))
      | (w1, Inr authentication) \<Rightarrow>
          (case (cf_Mode authentication = MethodOIDC, cf_OIDC authentication) of
             (True, Some oc) \<Rightarrow>
               (case OIDCLogin (\<not> Option.is_none (ce_http ce)) (ce_oauth ce) (ce_login ce) oc (pf_OIDCDevice saved \<or> forceDevice) of
                  (prompts, None) \<Rightarrow> (prompts, w1, None)
                | (prompts, Some (Inl e)) \<Rightarrow> (prompts, w1, Some (Inl (ConnectOIDC e)))
                | (prompts, Some (Inr r)) \<Rightarrow>
                    if lr_Identity r \<noteq> pf_Identity saved then (prompts, w1, Some (Inl SavedIdentityMismatch))
                    else (case ExchangeSSHCertificate (lib_ssh (ce_libs ce)) (ce_newCertSigner ce) (ce_http ce) (pf_APIURL saved)
                        authentication (lr_SubjectToken r) (pf_KeyName saved) (pf_Identity saved) (Some signer) w1 of
                      (w2, Inl e) \<Rightarrow> (prompts, w2, Some (Inl (ConnectExchange e)))
                    | (w2, Inr s) \<Rightarrow> (prompts, w2, Some (Inr s))))
           | _ \<Rightarrow> ([], w1, Some (Inl OIDCNoLongerAdvertised))))"

definition serviceClientConfig :: "'w client_env \<Rightarrow> Profile \<Rightarrow> hostKeyCallback \<Rightarrow> bool \<Rightarrow> string fs \<Rightarrow> 'w \<Rightarrow>
    string \<times> 'w \<times> (connect_err + ServiceClientConfig) option" where
  "serviceClientConfig ce saved hostKey forceDevice fs w =
     (let config = \<lparr>cc_ServerAddress = pf_ServerAddress saved, cc_Identity = pf_Identity saved, cc_Token = pf_Token saved,
          cc_Signer = None, cc_HostKey = Some hostKey, cc_DialTimeout = 0\<rparr> in
      if pf_PrivateKey saved = [] then ([], w, Some (Inr config))
      else case LoadPrivateKey (lib_ssh (ce_libs ce)) (ce_os ce) (pf_PrivateKey saved) fs of
        Inl e \<Rightarrow> ([], w, Some (Inl (ConnectKey e)))
      | Inr signer \<Rightarrow>
          if pf_AuthenticationMode saved \<noteq> MethodOIDC then ([], w, Some (Inr (config\<lparr>cc_Signer := Some signer\<rparr>)))
          else (case certificateSigner ce saved forceDevice signer w of
              (prompts, w', None) \<Rightarrow> (prompts, w', None)
            | (prompts, w', Some (Inl e)) \<Rightarrow> (prompts, w', Some (Inl e))
            | (prompts, w', Some (Inr s)) \<Rightarrow> (prompts, w', Some (Inr (config\<lparr>cc_Signer := Some s\<rparr>)))))"

text \<open>The saved profile with the options of \<open>connect\<close> in front.\<close>

definition overrideProfile :: "connectOptions \<Rightarrow> Profile \<Rightarrow> Profile" where
  "overrideProfile options saved =
     saved\<lparr>pf_ServerAddress := (if cn_serverAddress options \<noteq> [] then cn_serverAddress options else pf_ServerAddress saved),
           pf_Identity := (if cn_identity options \<noteq> [] then cn_identity options else pf_Identity saved),
           pf_PrivateKey := (if cn_privateKeyPath options \<noteq> [] then cn_privateKeyPath options else pf_PrivateKey saved),
           pf_KnownHosts := (if cn_knownHostsPath options \<noteq> [] then cn_knownHostsPath options else pf_KnownHosts saved),
           pf_Insecure := (cn_insecure options \<or> pf_Insecure saved)\<rparr>"

text \<open>What \<open>services\<close> and \<open>connect\<close> have in common: the configuration for a loaded profile.\<close>

definition profileClientConfig :: "'w client_env \<Rightarrow> Profile \<Rightarrow> bool \<Rightarrow> string fs \<Rightarrow> 'w \<Rightarrow>
    string \<times> 'w \<times> (connect_err + ServiceClientConfig) option" where
  "profileClientConfig ce saved forceDevice fs w =
     (case hostKeyCallbackOf ce (pf_KnownHosts saved) (pf_Insecure saved) fs of
        Inl e \<Rightarrow> ([], w, Some (Inl e))
      | Inr hostKey \<Rightarrow> serviceClientConfig ce saved hostKey forceDevice fs w)"

definition catalogLine :: "ProtocolService \<Rightarrow> string" where
  "catalogLine s = ps_Name s @ [CHR 0x09] @ ''127.0.0.1:'' @ decString (ps_LocalPort s) @ [CHR 0x0A]"

text \<open>The prompts, the connection's events, the next world, and the lines written.\<close>

definition services :: "'w client_env \<Rightarrow> 'c network \<Rightarrow> servicesOptions \<Rightarrow> string fs \<Rightarrow> 'w \<Rightarrow>
    string \<times> net_event list \<times> 'w \<times> (connect_err + string) option" where
  "services ce nw options fs w =
     (case profileLoad (ce_os ce) (so_profilePath options) fs of
        Inl e \<Rightarrow> ([], [], w, Some (Inl (ConnectProfile e)))
      | Inr saved \<Rightarrow>
          (case profileClientConfig ce saved (so_oidcDevice options) fs w of
             (prompts, w', None) \<Rightarrow> (prompts, [], w', None)
           | (prompts, w', Some (Inl e)) \<Rightarrow> (prompts, [], w', Some (Inl e))
           | (prompts, w', Some (Inr config)) \<Rightarrow>
               (case ListServices nw config of
                  (evs, Inl e) \<Rightarrow> (prompts, evs, w', Some (Inl (ConnectSsh e)))
                | (evs, Inr catalog) \<Rightarrow> (prompts, evs, w', Some (Inr (concat (map catalogLine catalog)))))))"

text \<open>\<open>connect\<close> selects from the catalog and runs the listeners; no result while they run.\<close>

definition connectRun :: "'c network \<Rightarrow> ServiceClientConfig \<Rightarrow> string list \<Rightarrow> string \<Rightarrow> run_input list \<Rightarrow>
    net_event list \<times> (connect_err + unit) option" where
  "connectRun nw config specifications listenHost inputs =
     (case ListServices nw config of
        (evs, Inl e) \<Rightarrow> (evs, Some (Inl (ConnectSsh e)))
      | (evs, Inr catalog) \<Rightarrow>
          (case selectServices catalog specifications listenHost of
             Inl e \<Rightarrow> (evs, Some (Inl e))
           | Inr requested \<Rightarrow>
               (case RunServices nw config requested inputs of
                  (evs', None) \<Rightarrow> (evs @ evs', None)
                | (evs', Some (Inl e)) \<Rightarrow> (evs @ evs', Some (Inl (ConnectSsh e)))
                | (evs', Some (Inr _)) \<Rightarrow> (evs @ evs', Some (Inr ())))))"

definition connect :: "'w client_env \<Rightarrow> 'c network \<Rightarrow> connectOptions \<Rightarrow> string list \<Rightarrow> run_input list \<Rightarrow> string fs \<Rightarrow> 'w \<Rightarrow>
    string \<times> net_event list \<times> 'w \<times> (connect_err + unit) option" where
  "connect ce nw options specifications inputs fs w =
     (case profileLoad (ce_os ce) (cn_profilePath options) fs of
        Inl e \<Rightarrow> ([], [], w, Some (Inl (ConnectProfile e)))
      | Inr loaded \<Rightarrow>
          (case profileClientConfig ce (overrideProfile options loaded) (cn_oidcDevice options) fs w of
             (prompts, w', None) \<Rightarrow> (prompts, [], w', None)
           | (prompts, w', Some (Inl e)) \<Rightarrow> (prompts, [], w', Some (Inl e))
           | (prompts, w', Some (Inr config)) \<Rightarrow>
               (case connectRun nw config specifications (cn_listenHost options) inputs of
                  (evs, r) \<Rightarrow> (prompts, evs, w', r))))"

end
