(* ===== verification/Client_Exchange.thy ===== *)
theory Client_Exchange
  imports Client_Api Client_Files
begin

text \<open>
  The client's HTTP operations and the registration API, each against the other: what the client
  accepts from any server, and what it obtains from the handler of \<open>Registration_Http\<close> when that
  handler is the server.
\<close>

section \<open>What the client accepts\<close>

lemma acceptCertificate_Inr:
  "acceptCertificate L N identity key token = Inr s \<longleftrightarrow>
   (\<exists>c rest. ParseAuthorizedKey L token = Some (c, rest) \<and> trimSpace rest = [] \<and> isCertificate c \<and> cert_CertType c = UserCert \<and>
     marshalKey L (cert_Key c) = marshalKey L (signerPublicKey L key) \<and> identity \<in> set (cert_ValidPrincipals c) \<and> N c key = Some s)"
  by (auto simp: acceptCertificate_def certificatePrincipal_def split: option.splits if_splits)

lemma decodeExchange_Inr:
  "decodeExchange L N identity key contents status = Inr s \<longleftrightarrow> successful status \<and>
   (\<exists>j token. parseJson contents = Some j \<and> dec_struct False tokenFields j ([], []) = Inr (token, SSHCertificateTokenType) \<and>
     acceptCertificate L N identity key token = Inr s)"
  by (auto simp: decodeExchange_def split: option.splits sum.splits if_splits)

lemma doLimitedRequest_Inr:
  "doLimitedRequest client request w = (w', Inr (contents, status)) \<longleftrightarrow>
   (\<exists>send response. client = Some send \<and> send request w = (w', Some response) \<and> length (cp_Body response) \<le> authenticationResponseLimit \<and>
     \<not> cp_Fails response \<and> contents = cp_Body response \<and> status = cp_Code response)"
  by (auto simp: doLimitedRequest_def readLimited_def split: option.splits prod.splits sum.splits if_splits)

lemma exchange_Inr:
  "ExchangeSSHCertificate L N client baseURL configuration token keyName identity signer w = (w', Inr s) \<longleftrightarrow>
   (\<exists>key request contents status. signer = Some key \<and> exchangeRequest baseURL (normalized configuration) token keyName = Inr request \<and>
     doLimitedRequest client request w = (w', Inr (contents, status)) \<and> decodeExchange L N identity key contents status = Inr s)"
  by (auto simp: ExchangeSSHCertificate_def split: option.splits sum.splits prod.splits)

text \<open>
  Whatever a server answers, the client comes out of a certificate exchange only with a
  signer for a user certificate that carries the client's own public key and names the expected
  identity, taken from one complete answer of at most 1 MiB with a status of success and the expected
  token type.
\<close>

theorem certificate_exchange_checked:
  assumes "documented_NewCertSigner L N"
    and "ExchangeSSHCertificate L N client baseURL configuration token keyName identity signer w = (w', Inr s)"
  shows "\<exists>key send request response j accessToken c rest.
    signer = Some key \<and> client = Some send \<and> exchangeRequest baseURL (normalized configuration) token keyName = Inr request \<and>
    send request w = (w', Some response) \<and> length (cp_Body response) \<le> 1048576 \<and> \<not> cp_Fails response \<and>
    200 \<le> cp_Code response \<and> cp_Code response < 300 \<and> parseJson (cp_Body response) = Some j \<and>
    dec_struct False tokenFields j ([], []) = Inr (accessToken, SSHCertificateTokenType) \<and>
    ParseAuthorizedKey L accessToken = Some (c, rest) \<and> trimSpace rest = [] \<and>
    isCertificate c \<and> cert_CertType c = UserCert \<and> identity \<in> set (cert_ValidPrincipals c) \<and>
    marshalKey L (cert_Key c) = marshalKey L (signerPublicKey L key) \<and> signerPublicKey L s = c"
  using assms
  unfolding exchange_Inr doLimitedRequest_Inr decodeExchange_Inr acceptCertificate_Inr documented_NewCertSigner_def
    successful_def authenticationResponseLimit_def
  by (elim exE conjE) (intro exI conjI; assumption | blast)

section \<open>Forms\<close>

lemma splitChar_append: "sep \<notin> set a \<Longrightarrow> splitChar (a @ sep # b) sep = a # splitChar b sep"
  by (induction a) auto

lemma countOf_char: "countOf s [c] = length (filter ((=) c) s)"
proof (induction s)
  case (Cons x s)
  then show ?case by (cases "c = x") (simp_all add: countOf.simps [of "x # s"])
qed (simp add: countOf.simps)

lemma cut_found: "sep \<notin> set a \<Longrightarrow> cut (a @ sep # b) sep = (a, b, True)"
  by (induction a) (auto simp: cut_def)

definition queryByte :: "char \<Rightarrow> bool" where
  "queryByte c \<longleftrightarrow> c \<notin> {CHR ''&'', CHR ''='', CHR '';''}"

lemma escaped_query_bytes: "list_all queryByte (urlEscape EncodeQueryComponent s)"
proof -
  have h: "queryByte (upperHex n)" if "n < 16" for n
  proof -
    have "list_all (\<lambda>n. queryByte (upperHex n)) [0..<16]" by code_simp
    with that show ?thesis by (simp add: list_all_iff)
  qed
  have "list_all queryByte (escapeByte EncodeQueryComponent c)" for c
  proof (cases "shouldEscape EncodeQueryComponent c")
    case True
    have "(of_char c :: nat) < 256" by simp
    then show ?thesis using True h [of "of_char c div 16"] h [of "of_char c mod 16"]
      by (auto simp: escapeByte_def queryByte_def less_mult_imp_div_less)
  next
    case False
    then show ?thesis
      by (auto simp: escapeByte_def queryByte_def shouldEscape_def is_letter_def is_lower_def is_upper_def is_digit_def)
  qed
  then show ?thesis by (induction s) auto
qed

definition pairText :: "string \<times> string \<Rightarrow> string" where
  "pairText p = urlEscape EncodeQueryComponent (fst p) @ ''='' @ urlEscape EncodeQueryComponent (snd p)"

lemma pairText_bytes: "CHR ''&'' \<notin> set (pairText p)" "CHR '';'' \<notin> set (pairText p)" "pairText p \<noteq> []"
  using escaped_query_bytes [of "fst p"] escaped_query_bytes [of "snd p"]
  by (auto simp: pairText_def list_all_iff queryByte_def)

lemma cut_pairText:
  "cut (pairText p) (CHR ''='') = (urlEscape EncodeQueryComponent (fst p), urlEscape EncodeQueryComponent (snd p), True)"
proof -
  have "CHR ''='' \<notin> set (urlEscape EncodeQueryComponent (fst p))"
    using escaped_query_bytes [of "fst p"] by (auto simp: list_all_iff queryByte_def)
  then show ?thesis by (simp add: pairText_def cut_found)
qed

lemma queryPairs_pairTexts: "queryPairs (map pairText ps) = Some ps"
proof (induction ps)
  case (Cons p ps)
  then show ?case using pairText_bytes [of p] cut_pairText [of p] by (simp add: queryUnescape_def unescape_query)
qed simp

lemma splitChar_pairTexts:
  "splitChar (pairText p @ concat (map (\<lambda>q. ''&'' @ pairText q) ps)) (CHR ''&'') = map pairText (p # ps)"
proof (induction ps arbitrary: p)
  case Nil
  then show ?case using pairText_bytes(1) [of p] by (simp add: splitChar_single)
next
  case (Cons q ps)
  then show ?case using splitChar_append [OF pairText_bytes(1) [of p]] by simp
qed

lemma formEncode_eq: "formEncode form = (case map pairText (sort_key fst form) of [] \<Rightarrow> [] | p # ps \<Rightarrow> p @ concat (map (\<lambda>q. ''&'' @ q) ps))"
proof -
  have "(\<lambda>(k, v). urlEscape EncodeQueryComponent k @ ''='' @ urlEscape EncodeQueryComponent v) = pairText"
    by (auto simp: pairText_def)
  then show ?thesis by (simp only: formEncode_def)
qed

text \<open>The server reads the form the client wrote, sorted by key.\<close>

lemma parseQuery_formEncode:
  assumes "length form \<le> maxQueryParams"
  shows "parseQuery (formEncode form) = Some (sort_key fst form)"
proof (cases "sort_key fst form")
  case Nil
  then have "formEncode form = []" by (simp add: formEncode_eq)
  then show ?thesis using Nil by (simp add: parseQuery_def countOf.simps maxQueryParams_def)
next
  case (Cons p ps)
  have e: "formEncode form = pairText p @ concat (map (\<lambda>q. ''&'' @ pairText q) ps)"
    by (simp add: formEncode_eq Cons comp_def)
  have z: "filter ((=) (CHR ''&'')) (pairText q) = []" for q
    using pairText_bytes(1) [of q] by (auto simp: filter_empty_conv)
  have "length (filter ((=) (CHR ''&'')) (concat (map (\<lambda>q. ''&'' @ pairText q) ps))) = length ps"
    by (induction ps) (simp_all add: z)
  then have "countOf (formEncode form) ''&'' + 1 = length (sort_key fst form)" by (simp add: countOf_char e z Cons)
  then have "countOf (formEncode form) ''&'' + 1 \<le> maxQueryParams" using assms by simp
  with queryPairs_pairTexts [of "p # ps"] splitChar_pairTexts [of p ps] show ?thesis
    by (simp add: parseQuery_def e Cons del: list.map)
qed

lemma formGet_sorted: "distinct (map fst form) \<Longrightarrow> formGet (sort_key fst form) k = formGet form k"
proof -
  assume d: "distinct (map fst form)"
  have "mset (map fst (sort_key fst form)) = mset (map fst form)" by (metis mset_map mset_sort)
  then have "distinct (map fst (sort_key fst form))" using d by (metis mset_eq_imp_distinct_iff)
  then have "map_of (sort_key fst form) = map_of form" using d by (intro map_of_inject_set [THEN iffD2]) simp_all
  then show ?thesis by (simp add: formGet_def)
qed

section \<open>The registration API as the server\<close>

text \<open>What arrives at the server's handlers for a request of the client, and what goes back.\<close>

definition toServerRequest :: "clientRequest \<Rightarrow> HttpRequest" where
  "toServerRequest request =
     \<lparr>rq_Method = cq_Method request, rq_Path = (if EscapedPath (cq_URL request) = [] then ''/'' else EscapedPath (cq_URL request)),
      rq_RawQuery = url_RawQuery (cq_URL request), rq_ContentType = formGet (cq_Header request) ''Content-Type'',
      rq_Authorization = formGet (cq_Header request) ''Authorization'', rq_Body = cq_Body request, rq_BodyFails = False\<rparr>"

definition enc_tokenExchangeResponse :: "tokenExchangeResponse \<Rightarrow> json" where
  "enc_tokenExchangeResponse t = JObj
     [(''access_token'', JStr (te_AccessToken t)), (''issued_token_type'', JStr (te_IssuedTokenType t)),
      (''token_type'', JStr (te_TokenType t)), (''expires_in'', enc_int (te_ExpiresIn t))]"

definition enc_oauthErrorResponse :: "oauthErrorResponse \<Rightarrow> json" where
  "enc_oauthErrorResponse e = JObj
     [(''error'', JStr (oe_Error e)), (''error_description'', JStr (oe_ErrorDescription e))]"

text \<open>The bytes of a body; the texts of errors and of registrations are parameters.\<close>

record body_texts =
  bt_registration :: "UserRegistration \<Rightarrow> string"
  bt_regError :: "reg_err \<Rightarrow> string"
  bt_storeError :: "store_err \<Rightarrow> string"

fun bodyText :: "body_texts \<Rightarrow> body \<Rightarrow> string" where
  "bodyText T (TextBody s) = s"
| "bodyText T (RegError e) = bt_regError T e"
| "bodyText T (StoreError e) = bt_storeError T e"
| "bodyText T (RegistrationBody r) = bt_registration T r"
| "bodyText T (ConfigurationBody c) = compactJson (enc_Configuration c)"
| "bodyText T (TokenBody t) = compactJson (enc_tokenExchangeResponse t)"
| "bodyText T (OAuthBody e) = compactJson (enc_oauthErrorResponse e)"

definition served :: "body_texts \<Rightarrow> (HttpRequest \<Rightarrow> 'w \<Rightarrow> 'w \<times> response) \<Rightarrow> 'w httpClient" where
  "served T handler request w =
     (case handler (toServerRequest request) w of
        (w', r) \<Rightarrow> (w', Some \<lparr>cp_Code = rs_Status r, cp_Body = bodyText T (rs_Body r), cp_Fails = False\<rparr>))"

lemma exchange_route:
  assumes "rq_Path rq = ''/oauth/token''" "rq_Method rq = ''POST''" "ho_TokenExchange options = Some tx"
  shows "NewHandlerWithOptions se store options rq fs = (fs, handleTokenExchange se tx rq fs)"
proof -
  have s: "splitChar (tl ''/oauth/token'') (CHR ''/'') = [''oauth'', ''token'']" "cleanPath ''/oauth/token''"
    "unescape EncodePath ''oauth'' = Some ''oauth''" "unescape EncodePath ''token'' = Some ''token''" by code_simp+
  have "serveMux (routes options) rq = Handled (Exchange tx) []"
    using assms s by (simp add: serveMux_def routes_def registrationPath_def methodMatches_def Group_def del: splitChar.simps unescape.simps)
  then show ?thesis by (simp add: NewHandlerWithOptions_def Let_def)
qed

lemma toLower_ascii: "is_ascii s \<Longrightarrow> toLower ul s = map ascii_lower s"
  by (simp add: toLower_def)

lemma form_media_type: "parseMediaType ul ''application/x-www-form-urlencoded'' = Some ''application/x-www-form-urlencoded''"
proof -
  have "parseMediaType (\<lambda>s. s) ''application/x-www-form-urlencoded'' = Some ''application/x-www-form-urlencoded''" by code_simp
  moreover have "cut ''application/x-www-form-urlencoded'' (CHR '';'') = (''application/x-www-form-urlencoded'', [], False)"
    "is_ascii ''application/x-www-form-urlencoded''" by code_simp+
  ultimately show ?thesis unfolding parseMediaType_def by (simp only: case_prod_conv toLower_ascii)
qed

text \<open>The answer of the token endpoint to the form the client writes.\<close>

lemma exchangeForm_facts:
  fixes oc :: OIDCConfiguration and t token keyName :: string
  defines "form \<equiv> sort_key fst (exchangeForm oc t token keyName)"
  assumes "trimSpace (oc_Audience oc) \<noteq> []"
  shows "formGet form ''grant_type'' = TokenExchangeGrantType" "formGet form ''subject_token'' = trimSpace token"
    "formGet form ''subject_token_type'' = t" "formGet form ''requested_token_type'' = SSHCertificateTokenType"
    "formGet form ''scope'' = SSHConnectScope" "formGet form ''key_id'' = trimSpace keyName" "formGet form ''audience'' = oc_Audience oc"
    "parseQuery (formEncode (exchangeForm oc t token keyName)) = Some form"
proof -
  have "distinct (map fst (exchangeForm oc t token keyName))" by (simp add: exchangeForm_def)
  note g = formGet_sorted [OF this, folded form_def]
  show "formGet form ''grant_type'' = TokenExchangeGrantType" "formGet form ''subject_token'' = trimSpace token"
    "formGet form ''subject_token_type'' = t" "formGet form ''requested_token_type'' = SSHCertificateTokenType"
    "formGet form ''scope'' = SSHConnectScope" "formGet form ''key_id'' = trimSpace keyName" "formGet form ''audience'' = oc_Audience oc"
    unfolding g using assms(2) by (simp_all add: exchangeForm_def formGet_def)
  have "length (exchangeForm oc t token keyName) \<le> maxQueryParams" by (simp add: exchangeForm_def maxQueryParams_def)
  then show "parseQuery (formEncode (exchangeForm oc t token keyName)) = Some form"
    unfolding form_def by (rule parseQuery_formEncode)
qed

definition formRequest :: "string \<Rightarrow> string \<Rightarrow> HttpRequest \<Rightarrow> bool" where
  "formRequest path form rq \<longleftrightarrow> rq_Method rq = ''POST'' \<and> rq_Path rq = path \<and> rq_RawQuery rq = [] \<and>
     rq_ContentType rq = ''application/x-www-form-urlencoded'' \<and> rq_Body rq = form \<and> \<not> rq_BodyFails rq"

lemma handle_exchangeForm:
  assumes "formRequest path (formEncode (exchangeForm oc (tx_SubjectTokenType tx) token keyName)) rq"
    and "length (rq_Body rq) \<le> maximumTokenExchangeBodySize" "oc_Audience oc = tx_Audience tx" "trimSpace (tx_Audience tx) \<noteq> []"
    and "trimSpace token \<noteq> []" "trimSpace keyName \<noteq> []"
  shows "handleTokenExchange se tx rq fs = exchangeFor se tx (trimSpace keyName) (httpAuthenticate (tx_Authenticator tx) token) fs"
proof -
  have q: "parseQuery [] = Some []" by code_simp
  have sc: "SSHConnectScope \<in> set (Go_Strings.fields SSHConnectScope)" by code_simp
  note f = exchangeForm_facts [where oc = oc and t = "tx_SubjectTokenType tx" and token = token and keyName = keyName]
  have "postForm maximumTokenExchangeBodySize rq = Some (sort_key fst (exchangeForm oc (tx_SubjectTokenType tx) token keyName))"
    using assms(1,2) f(8) assms(3,4) q by (simp add: postForm_def formRequest_def)
  moreover have "checkExchangeForm tx (sort_key fst (exchangeForm oc (tx_SubjectTokenType tx) token keyName)) = Inr (trimSpace keyName)"
    using f assms(3-6) sc by (simp add: checkExchangeForm_def)
  ultimately show ?thesis
    using f(2) assms(1,3,4) form_media_type http_auth.trimmed by (simp add: handleTokenExchange_def formRequest_def)
qed

lemma decString_no_zero: "0 < n \<Longrightarrow> decString n \<noteq> [] \<and> hd (decString n) \<noteq> CHR ''0''"
proof (induction n rule: decString.induct)
  case (1 n)
  show ?case
  proof (cases "n < 10")
    case True
    have "list_all (\<lambda>n. hd (decString n) \<noteq> CHR ''0'') [1..9]" by code_simp
    with True "1.prems" decString_digits [of n] show ?thesis by (simp add: list_all_iff)
  next
    case False
    with 1 show ?thesis by (subst (1 2) decString.simps) simp
  qed
qed

lemma wf_enc_int: "0 < n \<Longrightarrow> wf_numbers (enc_int n)"
proof -
  assume n: "0 < n"
  have d: "list_all is_digit (decString n)" "decString n \<noteq> []" "hd (decString n) \<noteq> CHR ''0''" "hd (decString n) \<noteq> CHR ''-''"
    using decString_digits [of n] decString_no_zero [OF n] n by (cases "decString n"; auto simp: is_digit_def)+
  have e: "c \<in> set (decString n) \<Longrightarrow> c \<noteq> CHR ''e'' \<and> c \<noteq> CHR ''E'' \<and> c \<noteq> CHR ''.'' \<and> number_char c" for c
    using d(1) by (auto simp: list_all_iff is_digit_def number_char_def)
  have "takeWhile P s = s" if "\<And>c. c \<in> set s \<Longrightarrow> P c" for P and s :: string using that by (induction s) auto
  then have m: "takeWhile (\<lambda>c. c \<notin> set ''eE'') (decString n) = decString n" "dropWhile (\<lambda>c. c \<notin> set ''eE'') (decString n) = []"
    using e by auto
  have "cut (decString n) (CHR ''.'') = (decString n, [], False)" using e by (auto simp: cut_def)
  then have "jsonNumber (decString n)"
    unfolding jsonNumber_def Let_def using d m by (simp add: integerPart_def digits_def del: set_simps insert_iff takeWhile_eq_all_conv dropWhile_eq_Nil_conv)
  then show ?thesis using n e by (simp add: enc_int_def list_all_iff)
qed

lemma decode_token_response:
  assumes "is_ascii (te_AccessToken t)" "is_ascii (te_IssuedTokenType t)" "is_ascii (te_TokenType t)" "0 < te_ExpiresIn t"
  shows "\<exists>j. parseJson (compactJson (enc_tokenExchangeResponse t)) = Some j \<and>
    dec_struct False tokenFields j ([], []) = Inr (te_AccessToken t, te_IssuedTokenType t)"
proof -
  let ?j = "enc_tokenExchangeResponse t"
  have "wf_numbers ?j" using wf_enc_int [OF assms(4)] by (simp add: enc_tokenExchangeResponse_def)
  moreover have "nesting ?j \<le> maxNestingDepth" by (simp add: enc_tokenExchangeResponse_def enc_int_def maxNestingDepth_def)
  moreover have "readable ?j = ?j"
    using assms by (simp add: enc_tokenExchangeResponse_def coerceUTF8_ascii enc_int_def)
  ultimately have p: "parseJson (compactJson ?j) = Some ?j" using parseJson_print(1) by fastforce
  have n: "foldName ''access_token'' \<noteq> foldName ''token_type''" "foldName ''access_token'' \<noteq> foldName ''expires_in''"
    "foldName ''issued_token_type'' \<noteq> foldName ''token_type''" "foldName ''issued_token_type'' \<noteq> foldName ''expires_in''" by code_simp+
  have "dec_struct False tokenFields ?j ([], []) = Inr (te_AccessToken t, te_IssuedTokenType t)"
    using n assms by (simp add: enc_tokenExchangeResponse_def tokenFields_def dec_struct.simps fieldFor_def field_def coerceUTF8_ascii)
  with p show ?thesis by blast
qed

text \<open>What the client makes of the answers of the token endpoint.\<close>

lemma not_successful: "\<not> successful StatusBadRequest" "\<not> successful StatusInternalServerError" "\<not> successful StatusUnsupportedMediaType"
  by (simp_all add: successful_def status_defs)

lemma decode_issueFor:
  assumes "\<And>c. issue = Inr c \<Longrightarrow> readsBack (lib_ssh (se_libs se)) c" "Second \<le> Lifetime (tx_Issuer tx)"
    and "issue = Issue (lib_ssh (se_libs se)) (se_serial se) (se_nonce se) (se_now se) (tx_Issuer tx) (pr_Identity caller) keyName
           (Some registered) \<lparr>sj_Issuer = pr_Issuer caller, sj_Subject = pr_Subject caller\<rparr>"
  shows "decodeExchange (lib_ssh (se_libs se)) N identity key (bodyText T (rs_Body (issueFor se tx keyName caller registered)))
      (rs_Status (issueFor se tx keyName caller registered)) = Inr s \<longleftrightarrow>
    (\<exists>c. issue = Inr c \<and> isCertificate c \<and> cert_CertType c = UserCert \<and>
      marshalKey (lib_ssh (se_libs se)) (cert_Key c) = marshalKey (lib_ssh (se_libs se)) (signerPublicKey (lib_ssh (se_libs se)) key) \<and>
      identity \<in> set (cert_ValidPrincipals c) \<and> N c key = Some s)"
proof (cases issue)
  case (Inl e)
  then show ?thesis by (simp add: issueFor_def assms(3) [symmetric] decodeExchange_Inr statuses_differ not_successful)
next
  case (Inr c)
  let ?t = "\<lparr>te_AccessToken = trimSpace (MarshalAuthorizedKey (lib_ssh (se_libs se)) c), te_IssuedTokenType = SSHCertificateTokenType,
     te_TokenType = ''N_A'', te_ExpiresIn = Lifetime (tx_Issuer tx) div Second\<rparr>"
  have r: "rs_Body (issueFor se tx keyName caller registered) = TokenBody ?t" "rs_Status (issueFor se tx keyName caller registered) = StatusOK"
    using Inr by (simp_all add: issueFor_def assms(3) [symmetric] writeJSON_def)
  have a: "is_ascii (trimSpace (MarshalAuthorizedKey (lib_ssh (se_libs se)) c))"
    "ParseAuthorizedKey (lib_ssh (se_libs se)) (trimSpace (MarshalAuthorizedKey (lib_ssh (se_libs se)) c)) = Some (c, [])"
    using assms(1) [OF Inr] by (auto simp: readsBack_def)
  have "0 < Lifetime (tx_Issuer tx) div Second" using assms(2) by (simp add: Second_def pos_imp_zdiv_pos_iff)
  moreover have "is_ascii SSHCertificateTokenType" "is_ascii ''N_A''" by code_simp+
  ultimately obtain j where j: "parseJson (compactJson (enc_tokenExchangeResponse ?t)) = Some j"
    "dec_struct False tokenFields j ([], []) = Inr (te_AccessToken ?t, te_IssuedTokenType ?t)"
    using decode_token_response [of ?t] a(1) by auto
  have t: "trimSpace [] = []" by code_simp
  show ?thesis
    using j a(2) Inr r t by (auto simp: decodeExchange_Inr acceptCertificate_Inr successful_def StatusOK_def)
qed

section \<open>The exchange from end to end\<close>

definition issuedTo :: "server_env \<Rightarrow> tokenExchange \<Rightarrow> string \<Rightarrow> Principal \<Rightarrow> PublicKey \<Rightarrow> issuer_err + PublicKey" where
  "issuedTo se tx keyName caller registered =
     Issue (lib_ssh (se_libs se)) (se_serial se) (se_nonce se) (se_now se) (tx_Issuer tx) (pr_Identity caller) keyName
       (Some registered) \<lparr>sj_Issuer = pr_Issuer caller, sj_Subject = pr_Subject caller\<rparr>"

lemma issuedTo_Inr:
  assumes "documented_SignCert (lib_ssh (se_libs se))" "issuedTo se tx keyName caller registered = Inr c"
  shows "isCertificate c \<and> cert_CertType c = UserCert \<and> cert_Key c = registered \<and> cert_ValidPrincipals c = [pr_Identity caller]"
  using Issue_Inr [OF assms(1) assms(2) [unfolded issuedTo_def]] by (auto simp: unsignedCertificate_def)

text \<open>The client's answers fit in what it reads, and certificates are read back from their text.\<close>

definition readableTokens :: "body_texts \<Rightarrow> server_env \<Rightarrow> tokenExchange \<Rightarrow> string \<Rightarrow> authn_err + Principal \<Rightarrow> string fs \<Rightarrow> bool" where
  "readableTokens T se tx keyName authenticated fs \<longleftrightarrow> (\<forall>caller registered c. authenticated = Inr caller \<longrightarrow>
     registeredKey se tx keyName caller fs = Inr registered \<longrightarrow> issuedTo se tx keyName caller registered = Inr c \<longrightarrow>
     readsBack (lib_ssh (se_libs se)) c \<and>
     length (bodyText T (rs_Body (issueFor se tx keyName caller registered))) \<le> authenticationResponseLimit)"

lemma decode_exchangeFor:
  assumes "documented_SignCert (lib_ssh (se_libs se))" "readableTokens T se tx keyName a fs" "Second \<le> Lifetime (tx_Issuer tx)"
  shows "length (bodyText T (rs_Body (exchangeFor se tx keyName a fs))) \<le> authenticationResponseLimit \<and>
      decodeExchange (lib_ssh (se_libs se)) N identity key (bodyText T (rs_Body (exchangeFor se tx keyName a fs)))
        (rs_Status (exchangeFor se tx keyName a fs)) = Inr s \<longleftrightarrow>
    (\<exists>caller registered c. a = Inr caller \<and> pr_Method caller = MethodOIDC \<and> registeredKey se tx keyName caller fs = Inr registered \<and>
      issuedTo se tx keyName caller registered = Inr c \<and> pr_Identity caller = identity \<and>
      marshalKey (lib_ssh (se_libs se)) registered = marshalKey (lib_ssh (se_libs se)) (signerPublicKey (lib_ssh (se_libs se)) key) \<and>
      N c key = Some s)"
proof (cases "\<exists>caller registered. a = Inr caller \<and> pr_Method caller = MethodOIDC \<and> registeredKey se tx keyName caller fs = Inr registered")
  case True
  then obtain caller registered where t: "a = Inr caller" "pr_Method caller = MethodOIDC"
    "registeredKey se tx keyName caller fs = Inr registered" by blast
  then have e: "exchangeFor se tx keyName a fs = issueFor se tx keyName caller registered" by (simp add: exchangeFor_def)
  have "decodeExchange (lib_ssh (se_libs se)) N identity key (bodyText T (rs_Body (issueFor se tx keyName caller registered)))
      (rs_Status (issueFor se tx keyName caller registered)) = Inr s \<longleftrightarrow>
    (\<exists>c. issuedTo se tx keyName caller registered = Inr c \<and> isCertificate c \<and> cert_CertType c = UserCert \<and>
      marshalKey (lib_ssh (se_libs se)) (cert_Key c) = marshalKey (lib_ssh (se_libs se)) (signerPublicKey (lib_ssh (se_libs se)) key) \<and>
      identity \<in> set (cert_ValidPrincipals c) \<and> N c key = Some s)"
    by (rule decode_issueFor [OF _ assms(3) issuedTo_def]) (use assms(2) t in \<open>auto simp: readableTokens_def\<close>)
  with e t assms(2) issuedTo_Inr [OF assms(1), of tx keyName caller registered] show ?thesis
    by (auto simp: readableTokens_def)
next
  case False
  then have "\<not> successful (rs_Status (exchangeFor se tx keyName a fs))"
    by (auto simp: exchangeFor_def statuses_differ not_successful split: sum.split)
  with False show ?thesis by (auto simp: decodeExchange_Inr)
qed

lemma exchangeRequest_Inr:
  "exchangeRequest baseURL conf token keyName = Inr request \<Longrightarrow> cf_OIDC conf = Some oc \<Longrightarrow>
   NormalizeSubjectTokenType (oc_SubjectTokenType oc) = Inr t \<Longrightarrow>
   trimSpace token \<noteq> [] \<and> cq_Method request = ''POST'' \<and> cq_Body request = formEncode (exchangeForm oc t token keyName) \<and>
   formGet (cq_Header request) ''Content-Type'' = ''application/x-www-form-urlencoded''"
  by (auto simp: exchangeRequest_def NewRequest_def formGet_def split: sum.splits option.splits if_splits)

lemma exchange_iff:
  assumes "documented_SignCert (lib_ssh (se_libs se))"
    and "readableTokens T se tx (trimSpace keyName) (httpAuthenticate (tx_Authenticator tx) token) fs" "Second \<le> Lifetime (tx_Issuer tx)"
    and "ho_TokenExchange options = Some tx" "cf_OIDC (normalized configuration) = Some oc" "oc_Audience oc = tx_Audience tx"
    and "trimSpace (tx_Audience tx) \<noteq> []" "NormalizeSubjectTokenType (oc_SubjectTokenType oc) = Inr (tx_SubjectTokenType tx)"
    and "exchangeRequest baseURL (normalized configuration) token keyName = Inr request" "EscapedPath (cq_URL request) = ''/oauth/token''"
    and "url_RawQuery (cq_URL request) = []" "length (cq_Body request) \<le> maximumTokenExchangeBodySize" "trimSpace keyName \<noteq> []"
  shows "ExchangeSSHCertificate (lib_ssh (se_libs se)) N (Some (served T (NewHandlerWithOptions se store options))) baseURL configuration
      token keyName identity (Some key) fs = (fs, Inr s) \<longleftrightarrow>
    (\<exists>caller registered c. httpAuthenticate (tx_Authenticator tx) token = Inr caller \<and> pr_Method caller = MethodOIDC \<and>
      registeredKey se tx (trimSpace keyName) caller fs = Inr registered \<and> issuedTo se tx (trimSpace keyName) caller registered = Inr c \<and>
      pr_Identity caller = identity \<and>
      marshalKey (lib_ssh (se_libs se)) registered = marshalKey (lib_ssh (se_libs se)) (signerPublicKey (lib_ssh (se_libs se)) key) \<and>
      N c key = Some s)"
proof -
  let ?rq = "toServerRequest request" and ?a = "httpAuthenticate (tx_Authenticator tx) token"
  let ?r = "exchangeFor se tx (trimSpace keyName) ?a fs"
  note x = exchangeRequest_Inr [OF assms(9,5,8)]
  have rq: "formRequest ''/oauth/token'' (formEncode (exchangeForm oc (tx_SubjectTokenType tx) token keyName)) ?rq"
    using x assms(10,11) by (simp add: formRequest_def toServerRequest_def)
  have "length (rq_Body ?rq) \<le> maximumTokenExchangeBodySize" using assms(12) by (simp add: toServerRequest_def)
  from handle_exchangeForm [OF rq this assms(6,7) _ assms(13)] x have h: "handleTokenExchange se tx ?rq fs = ?r" by blast
  have "NewHandlerWithOptions se store options ?rq fs = (fs, ?r)"
    using exchange_route [OF _ _ assms(4), of ?rq] rq h by (simp add: formRequest_def)
  then have s: "served T (NewHandlerWithOptions se store options) request fs =
      (fs, Some \<lparr>cp_Code = rs_Status ?r, cp_Body = bodyText T (rs_Body ?r), cp_Fails = False\<rparr>)"
    by (simp add: served_def)
  have "ExchangeSSHCertificate (lib_ssh (se_libs se)) N (Some (served T (NewHandlerWithOptions se store options))) baseURL configuration
      token keyName identity (Some key) fs = (fs, Inr s) \<longleftrightarrow>
    length (bodyText T (rs_Body ?r)) \<le> authenticationResponseLimit \<and>
    decodeExchange (lib_ssh (se_libs se)) N identity key (bodyText T (rs_Body ?r)) (rs_Status ?r) = Inr s"
    unfolding exchange_Inr doLimitedRequest_Inr by (simp add: assms(9) s)
  with decode_exchangeFor [OF assms(1-3)] show ?thesis by simp
qed

text \<open>
  Claim C31.  The client and the registration API fit together.  Where the client was told the
  server's audience and token type, its exchange ends with a signer exactly when the server accepts
  the token as that of an OIDC caller with the expected identity, finds the named key in the caller's
  accepted registration, it is the client's own key, and the issuer issues a certificate for it.
\<close>

theorem exchange_end_to_end:
  assumes "documented_SignCert (lib_ssh (se_libs se))"
    and "readableTokens T se tx (trimSpace keyName) (httpAuthenticate (tx_Authenticator tx) token) fs" "Second \<le> Lifetime (tx_Issuer tx)"
    and "ho_TokenExchange options = Some tx" "cf_OIDC (normalized configuration) = Some oc" "oc_Audience oc = tx_Audience tx"
    and "trimSpace (tx_Audience tx) \<noteq> []" "NormalizeSubjectTokenType (oc_SubjectTokenType oc) = Inr (tx_SubjectTokenType tx)"
    and "exchangeRequest baseURL (normalized configuration) token keyName = Inr request" "EscapedPath (cq_URL request) = ''/oauth/token''"
    and "url_RawQuery (cq_URL request) = []" "length (cq_Body request) \<le> maximumTokenExchangeBodySize" "trimSpace keyName \<noteq> []"
  shows "ExchangeSSHCertificate (lib_ssh (se_libs se)) N (Some (served T (NewHandlerWithOptions se store options))) baseURL configuration
      token keyName identity (Some key) fs = (fs, Inr s) \<longleftrightarrow>
    (\<exists>caller registered c. httpAuthenticate (tx_Authenticator tx) token = Inr caller \<and> pr_Method caller = MethodOIDC \<and>
      registeredKey se tx (trimSpace keyName) caller fs = Inr registered \<and> issuedTo se tx (trimSpace keyName) caller registered = Inr c \<and>
      pr_Identity caller = identity \<and>
      marshalKey (lib_ssh (se_libs se)) registered = marshalKey (lib_ssh (se_libs se)) (signerPublicKey (lib_ssh (se_libs se)) key) \<and>
      N c key = Some s)"
  by (rule exchange_iff [OF assms])

section \<open>Witnesses\<close>

text \<open>
  A server and a client that share an SSH library which knows one certificate text: the registered
  key's certificate for the stored registration.
\<close>

definition demoCertificate :: PublicKey where
  "demoCertificate = signedWith ''n'' (PlainKey ''pub-ca'') ''signed''
     (unsignedCertificate demoIssuer (1000000 * Second) ''12345678'' ''ada'' ''laptop'' demoKey
        \<lparr>sj_Issuer = ''https://id.example'', sj_Subject = ''sub-1''\<rparr>)"

definition demoClientSsh :: ssh_lib where
  "demoClientSsh = demoSsh\<lparr>
     ParseAuthorizedKey := \<lambda>s. if s = ''cert-1'' then Some (demoCertificate, []) else ParseAuthorizedKey demoSsh s,
     MarshalAuthorizedKey := \<lambda>k. if isCertificate k then ''cert-1'' @ [CHR 0x0A] else MarshalAuthorizedKey demoSsh k,
     signerPublicKey := \<lambda>s. if s = ''ada-key'' then demoKey else if s = ''ada-cert'' then demoCertificate else signerPublicKey demoSsh s,
     SignCert := \<lambda>s n c. if s \<in> {''ada-key'', ''ada-cert''} then None else SignCert demoSsh s n c\<rparr>"

definition demoNewCertSigner :: newCertSigner where
  "demoNewCertSigner c s = (if c = demoCertificate \<and> s = ''ada-key'' then Some ''ada-cert'' else None)"

definition demoClientEnv :: server_env where
  "demoClientEnv = demoEnv\<lparr>se_libs := demoLibs\<lparr>lib_ssh := demoClientSsh\<rparr>\<rparr>"

definition demoConfiguration :: Configuration where
  "demoConfiguration = \<lparr>cf_Mode = ''oidc'', cf_TokenEndpoint = ''/oauth/token'',
     cf_OIDC = Some \<lparr>oc_IssuerURL = ''https://id.example/'', oc_ClientID = ''cli'', oc_Audience = ''tearenv'', oc_Scopes = [''email''],
       oc_IdentityClaim = ''preferred_username'', oc_SubjectTokenType = ''access-token'', oc_DeviceFlow = True\<rparr>\<rparr>"

definition demoTexts :: body_texts where
  "demoTexts = \<lparr>bt_registration = \<lambda>r. [], bt_regError = \<lambda>e. [], bt_storeError = \<lambda>e. []\<rparr>"

definition demoExchangeRequest :: clientRequest where
  "demoExchangeRequest = (case exchangeRequest ''https://api.example/'' (normalized demoConfiguration) demoToken '' laptop'' of Inr r \<Rightarrow> r)"

definition demoAPI :: "string fs httpClient" where
  "demoAPI = served demoTexts (NewHandlerWithOptions demoClientEnv demoStore demoOptions)"

lemma demoClient_documented:
  "documented_SignCert demoClientSsh" "documented_NewCertSigner demoClientSsh demoNewCertSigner" "lib_ssh (se_libs demoClientEnv) = demoClientSsh"
  by (auto simp: documented_SignCert_def documented_NewCertSigner_def demoClientSsh_def demoNewCertSigner_def demoSsh_def
      demoClientEnv_def demoLibs_def split: if_splits)

lemma demoExchange_request:
  "exchangeRequest ''https://api.example/'' (normalized demoConfiguration) demoToken '' laptop'' = Inr demoExchangeRequest"
  "EscapedPath (cq_URL demoExchangeRequest) = ''/oauth/token''" "url_RawQuery (cq_URL demoExchangeRequest) = []"
  "length (cq_Body demoExchangeRequest) < 600"
proof -
  have "\<not> (case exchangeRequest ''https://api.example/'' (normalized demoConfiguration) demoToken '' laptop'' of Inl _ \<Rightarrow> True | Inr _ \<Rightarrow> False)"
    by code_simp
  then show "exchangeRequest ''https://api.example/'' (normalized demoConfiguration) demoToken '' laptop'' = Inr demoExchangeRequest"
    by (simp add: demoExchangeRequest_def split: sum.splits)
  show "EscapedPath (cq_URL demoExchangeRequest) = ''/oauth/token''" "url_RawQuery (cq_URL demoExchangeRequest) = []"
    "length (cq_Body demoExchangeRequest) < 600" by code_simp+
qed

lemma demoExchange_steps:
  "trimSpace '' laptop'' = ''laptop''" "httpAuthenticate (tx_Authenticator demoExchange) demoToken = Inr demoPrincipal"
  "pr_Method demoPrincipal = MethodOIDC" "pr_Identity demoPrincipal = ''ada''"
  "registeredKey demoClientEnv demoExchange ''laptop'' demoPrincipal (fst demoPut) = Inr demoKey"
  "issuedTo demoClientEnv demoExchange ''laptop'' demoPrincipal demoKey = Inr demoCertificate"
proof -
  show t: "trimSpace '' laptop'' = ''laptop''" by code_simp
  show "httpAuthenticate (tx_Authenticator demoExchange) demoToken = Inr demoPrincipal"
    using demoOIDC_login by (simp add: demoExchange_def)
  show "pr_Method demoPrincipal = MethodOIDC" "pr_Identity demoPrincipal = ''ada''" by (simp_all add: demoPrincipal_def)
  show "registeredKey demoClientEnv demoExchange ''laptop'' demoPrincipal (fst demoPut) = Inr demoKey" by code_simp
  have t: "trimSpace ''ada'' \<noteq> []" "trimSpace ''laptop'' \<noteq> []" by code_simp+
  have i: "is_signer demoIssuer = ''ca''" by (simp add: demoIssuer_def)
  have c: "SignCert demoClientSsh ''ca'' n k = Some (signedWith n (PlainKey ''pub-ca'') ''signed'' k)" for n k
    by (simp add: demoClientSsh_def demoSsh_def)
  have e: "lib_ssh (se_libs demoClientEnv) = demoClientSsh" "se_serial demoClientEnv = Some ''12345678''" "se_nonce demoClientEnv = ''n''"
    "se_now demoClientEnv = 1000000 * Second" "tx_Issuer demoExchange = demoIssuer"
    by (simp_all add: demoClientEnv_def demoEnv_def demoExchange_def)
  have p: "pr_Identity demoPrincipal = ''ada''" "pr_Issuer demoPrincipal = ''https://id.example''" "pr_Subject demoPrincipal = ''sub-1''"
    by (simp_all add: demoPrincipal_def)
  show "issuedTo demoClientEnv demoExchange ''laptop'' demoPrincipal demoKey = Inr demoCertificate"
    unfolding issuedTo_def Issue_def e p option.case i c demoCertificate_def using t by simp
qed

lemma demo_readableTokens:
  "readableTokens demoTexts demoClientEnv demoExchange ''laptop'' (httpAuthenticate (tx_Authenticator demoExchange) demoToken) (fst demoPut)"
proof -
  have c: "isCertificate demoCertificate" by (simp add: demoCertificate_def)
  have m: "trimSpace (MarshalAuthorizedKey demoClientSsh demoCertificate) = ''cert-1''"
  proof -
    have "trimSpace (''cert-1'' @ [CHR 0x0A]) = ''cert-1''" by code_simp
    with c show ?thesis by (simp add: demoClientSsh_def)
  qed
  moreover have "is_ascii ''cert-1''" by code_simp
  ultimately have r: "readsBack demoClientSsh demoCertificate" by (simp add: readsBack_def, simp add: demoClientSsh_def)
  have "rs_Body (issueFor demoClientEnv demoExchange ''laptop'' demoPrincipal demoKey) =
      TokenBody \<lparr>te_AccessToken = ''cert-1'', te_IssuedTokenType = SSHCertificateTokenType, te_TokenType = ''N_A'',
        te_ExpiresIn = Lifetime demoIssuer div Second\<rparr>"
    unfolding issueFor_def unfolding demoExchange_steps(6) [unfolded issuedTo_def] sum.case writeJSON_def
    unfolding demoClient_documented(3) m by (simp add: demoExchange_def)
  moreover have "length (bodyText demoTexts (TokenBody \<lparr>te_AccessToken = ''cert-1'', te_IssuedTokenType = SSHCertificateTokenType, te_TokenType = ''N_A'',
        te_ExpiresIn = Lifetime demoIssuer div Second\<rparr>)) < 600" by code_simp
  ultimately have "length (bodyText demoTexts (rs_Body (issueFor demoClientEnv demoExchange ''laptop'' demoPrincipal demoKey))) < 600"
    by (simp only:)
  then have l: "length (bodyText demoTexts (rs_Body (issueFor demoClientEnv demoExchange ''laptop'' demoPrincipal demoKey))) \<le> authenticationResponseLimit"
    unfolding authenticationResponseLimit_def by linarith
  show ?thesis
    unfolding readableTokens_def demoClient_documented(3) demoExchange_steps(2)
    using r l demoExchange_steps(5,6) by auto
qed

lemma demoExchange_fit:
  obtains oc where "cf_OIDC (normalized demoConfiguration) = Some oc" "oc_Audience oc = tx_Audience demoExchange"
    "trimSpace (tx_Audience demoExchange) \<noteq> []" "NormalizeSubjectTokenType (oc_SubjectTokenType oc) = Inr (tx_SubjectTokenType demoExchange)"
proof -
  let ?oc = "the (cf_OIDC (normalized demoConfiguration))"
  have "cf_OIDC (normalized demoConfiguration) = Some ?oc" by (simp add: normalized_def demoConfiguration_def)
  moreover have "oc_Audience ?oc = tx_Audience demoExchange" "trimSpace (tx_Audience demoExchange) \<noteq> []"
    "NormalizeSubjectTokenType (oc_SubjectTokenType ?oc) = Inr (tx_SubjectTokenType demoExchange)" by code_simp+
  ultimately show ?thesis using that by blast
qed

lemma demoExchange_parts:
  "documented_SignCert (lib_ssh (se_libs demoClientEnv))" "Second \<le> Lifetime (tx_Issuer demoExchange)"
  "ho_TokenExchange demoOptions = Some demoExchange" "length (cq_Body demoExchangeRequest) \<le> maximumTokenExchangeBodySize"
  "trimSpace '' laptop'' \<noteq> []" "marshalKey demoClientSsh demoKey = marshalKey demoClientSsh (signerPublicKey demoClientSsh ''ada-key'')"
  "demoNewCertSigner demoCertificate ''ada-key'' = Some ''ada-cert''"
proof -
  show "documented_SignCert (lib_ssh (se_libs demoClientEnv))" by (simp add: demoClient_documented)
  show "Second \<le> Lifetime (tx_Issuer demoExchange)" by code_simp
  show "ho_TokenExchange demoOptions = Some demoExchange" by (simp add: demoOptions_def)
  show "length (cq_Body demoExchangeRequest) \<le> maximumTokenExchangeBodySize"
    using demoExchange_request(4) by (simp add: maximumTokenExchangeBodySize_def)
  show "trimSpace '' laptop'' \<noteq> []" by (simp add: demoExchange_steps(1))
  show "marshalKey demoClientSsh demoKey = marshalKey demoClientSsh (signerPublicKey demoClientSsh ''ada-key'')"
    "demoNewCertSigner demoCertificate ''ada-key'' = Some ''ada-cert''"
    by (simp_all add: demoClientSsh_def demoNewCertSigner_def)
qed

lemma demoExchange_key:
  "readableTokens demoTexts demoClientEnv demoExchange (trimSpace '' laptop'') (httpAuthenticate (tx_Authenticator demoExchange) demoToken) (fst demoPut)"
  "registeredKey demoClientEnv demoExchange (trimSpace '' laptop'') demoPrincipal (fst demoPut) = Inr demoKey"
  "issuedTo demoClientEnv demoExchange (trimSpace '' laptop'') demoPrincipal demoKey = Inr demoCertificate"
  unfolding demoExchange_steps(1) by (rule demo_readableTokens demoExchange_steps(5,6))+

lemmas demoExchange_premises = demoExchange_parts(1) demoExchange_key(1) demoExchange_parts(2,3)

lemma demoExchange_run:
  "ExchangeSSHCertificate demoClientSsh demoNewCertSigner (Some demoAPI) ''https://api.example/'' demoConfiguration demoToken '' laptop'' ''ada''
     (Some ''ada-key'') (fst demoPut) = (fst demoPut, Inr ''ada-cert'')"
proof -
  obtain oc where oc: "cf_OIDC (normalized demoConfiguration) = Some oc" "oc_Audience oc = tx_Audience demoExchange"
    "trimSpace (tx_Audience demoExchange) \<noteq> []" "NormalizeSubjectTokenType (oc_SubjectTokenType oc) = Inr (tx_SubjectTokenType demoExchange)"
    by (rule demoExchange_fit)
  note e = exchange_iff [OF demoExchange_premises oc demoExchange_request(1-3) demoExchange_parts(4,5), where N = demoNewCertSigner and
      store = demoStore and identity = "''ada''" and key = "''ada-key''" and s = "''ada-cert''", unfolded demoClient_documented(3), folded demoAPI_def]
  show ?thesis
    by (rule e [THEN iffD2], rule exI [of _ demoPrincipal], rule exI [of _ demoKey], rule exI [of _ demoCertificate])
      (intro conjI demoExchange_steps(2-4) demoExchange_key(2,3) demoExchange_parts(6,7))
qed

theorem exchange_end_to_end_witness:
  "\<exists>caller registered. httpAuthenticate (tx_Authenticator demoExchange) demoToken = Inr caller \<and> pr_Identity caller = ''ada'' \<and>
     registeredKey demoClientEnv demoExchange (trimSpace '' laptop'') caller (fst demoPut) = Inr registered"
proof -
  obtain oc where oc: "cf_OIDC (normalized demoConfiguration) = Some oc" "oc_Audience oc = tx_Audience demoExchange"
    "trimSpace (tx_Audience demoExchange) \<noteq> []" "NormalizeSubjectTokenType (oc_SubjectTokenType oc) = Inr (tx_SubjectTokenType demoExchange)"
    by (rule demoExchange_fit)
  note e = exchange_end_to_end [OF demoExchange_premises oc demoExchange_request(1-3) demoExchange_parts(4,5), where N = demoNewCertSigner and
      store = demoStore and identity = "''ada''" and key = "''ada-key''" and s = "''ada-cert''", unfolded demoClient_documented(3), folded demoAPI_def]
  from e [THEN iffD1, OF demoExchange_run] show ?thesis by blast
qed

theorem certificate_exchange_checked_witness:
  "isCertificate demoCertificate \<and> ''ada'' \<in> set (cert_ValidPrincipals demoCertificate) \<and>
   marshalKey demoClientSsh (cert_Key demoCertificate) = marshalKey demoClientSsh (signerPublicKey demoClientSsh ''ada-key'')"
proof -
  from certificate_exchange_checked [OF demoClient_documented(2) demoExchange_run]
  obtain c where "isCertificate c" "''ada'' \<in> set (cert_ValidPrincipals c)" "signerPublicKey demoClientSsh ''ada-cert'' = c"
    "marshalKey demoClientSsh (cert_Key c) = marshalKey demoClientSsh (signerPublicKey demoClientSsh ''ada-key'')" by blast
  moreover have "signerPublicKey demoClientSsh ''ada-cert'' = demoCertificate" by (simp add: demoClientSsh_def)
  ultimately show ?thesis by simp
qed

end
