(* ===== verification/Client_Command_Properties.thy ===== *)
theory Client_Command_Properties
  imports Client_Command Client_Exchange
begin

text \<open>
  The client's command: a profile is saved only for a registration that was accepted, what a login
  leaves is what later commands use, and the services a user asks for are the ones that are opened.
\<close>

section \<open>Files that a step leaves alone\<close>

text \<open>A path that writing \<open>path\<close> with temporary names \<open>pfx\<close> does not touch.\<close>

definition apart :: "string \<Rightarrow> string \<Rightarrow> string \<Rightarrow> bool" where
  "apart pfx path q \<longleftrightarrow> q \<noteq> path \<and> \<not> prefix (joinPath (dirOf path) pfx) q \<and> q \<notin> set (ancestors (dirOf path)) \<and> separate pfx path"

definition leaves :: "string \<Rightarrow> ('w, 'a) step \<Rightarrow> bool" where
  "leaves q m \<longleftrightarrow> (\<forall>fs w. fst (m fs w) \<noteq> [] \<and> (\<forall>fs' \<in> set (fst (m fs w)). map_of fs' q = map_of fs q))"

lemma replaceFile_leaves:
  assumes "apart pfx path q"
  shows "fst (replaceFile env pfx path c fs) \<noteq> [] \<and> (\<forall>fs' \<in> set (fst (replaceFile env pfx path c fs)). map_of fs' q = map_of fs q)"
proof (cases "createTemp env (dirOf path) pfx fs")
  case None
  then show ?thesis by (simp add: replaceFile_def)
next
  case (Some tmp)
  have t: "tmp \<noteq> path" using createTemp_Some [OF Some] assms by (auto simp: apart_def)
  have q: "q \<noteq> tmp" using Some assms by (auto simp: apart_def createTemp_def find_Some_iff joinPath_append split: if_splits)
  obtain tr e where w: "writeTemp env tmp path c (AList.update tmp (Regular (0x180 AND NOT (umask env)) None) fs) = (tr, e)"
    by (cases "writeTemp env tmp path c (AList.update tmp (Regular (0x180 AND NOT (umask env)) None) fs)")
  note ws = writeTemp_states(1,5) [OF w t]
  have "map_of fs' q = map_of fs q" if "fs' \<in> set tr" for fs'
    using ws(2) [OF that, of q] q assms by (simp add: apart_def)
  moreover from this ws(1) have "map_of (last tr) q = map_of fs q" by simp
  ultimately show ?thesis using Some w q ws(1) by (auto simp: replaceFile_def removeFile_def)
qed

lemma atomicWrite_leaves:
  assumes "apart pfx path q"
  shows "fst (atomicWrite env pfx path c fs) \<noteq> [] \<and> (\<forall>fs' \<in> set (fst (atomicWrite env pfx path c fs)). map_of fs' q = map_of fs q)"
proof -
  obtain fs1 e where m: "mkdirAll env (dirOf path) fs = (fs1, e)" by (cases "mkdirAll env (dirOf path) fs")
  then have "map_of fs1 q = map_of fs q" using mkdirs_keep assms by (fastforce simp: mkdirAll_def apart_def)
  then show ?thesis using m replaceFile_leaves [OF assms, of env c fs1] by (cases e) (auto simp: atomicWrite_def split: prod.splits)
qed

lemma LoadOrCreatePrivateKey_leaves:
  assumes "apart ''.tearenv-key-'' path q"
  shows "fst (LoadOrCreatePrivateKey L G env path identity fs) \<noteq> [] \<and>
    (\<forall>fs' \<in> set (fst (LoadOrCreatePrivateKey L G env path identity fs)). map_of fs' q = map_of fs q)"
proof -
  obtain fs1 e where m: "mkdirAll env (dirOf path) fs = (fs1, e)" by (cases "mkdirAll env (dirOf path) fs")
  then have "map_of fs1 q = map_of fs q" using mkdirs_keep assms by (fastforce simp: mkdirAll_def apart_def)
  then show ?thesis using m replaceFile_leaves [OF assms, of env _ fs1]
    by (auto simp: LoadOrCreatePrivateKey_def createPrivateKey_def split: sum.splits option.splits prod.splits)
       (metis fst_conv)+
qed

lemma leaves_andThen: "leaves q m \<Longrightarrow> (\<And>a. leaves q (f a)) \<Longrightarrow> leaves q (andThen m f)"
  unfolding leaves_def andThen_def
  by (auto split: prod.split sum.split) (metis fst_conv last_in_set)+

lemma leaves_returns: "leaves q (returns r)"
  by (simp add: leaves_def returns_def)

lemma step_traces:
  "fst (saveStep fails env path contents fs w) = fst (saveProtectedFile env path contents fs)"
  "fst (keyStep ce options identity fs w) =
     fst (LoadOrCreatePrivateKey (lib_ssh (ce_libs ce)) (ce_keygen ce) (ce_os ce) (lg_privateKeyPath options) identity fs)"
  "fst (submitStep ce options b r fs w) \<in> {[fs]} \<union> range (\<lambda>accepted. keepRefused ce options accepted fs)"
  "fst (exchangeStep ce options authentication b identity signer fs w) = [fs]"
  "fst (profileStep ce options p fs w) = fst (profileSave (ce_os ce) (lg_profilePath options) p fs)"
  by (auto simp: saveStep_def keyStep_def submitStep_def exchangeStep_def profileStep_def split: prod.split option.split sum.split)

lemma leaves_saveStep: "apart ''.tearenv-registration-'' path q \<Longrightarrow> leaves q (saveStep fails env path contents)"
  unfolding leaves_def step_traces saveProtectedFile_def by (intro allI atomicWrite_leaves)

definition loginApart :: "loginOptions \<Rightarrow> string \<Rightarrow> bool" where
  "loginApart options q \<longleftrightarrow> apart ''.tearenv-key-'' (lg_privateKeyPath options) q \<and>
     apart ''.tearenv-registration-'' (lg_registrationPath options) q"

text \<open>The part of \<open>registerStep\<close> that has the key.\<close>

definition afterKey :: "'w client_env \<Rightarrow> loginOptions \<Rightarrow> Configuration \<Rightarrow> string \<Rightarrow> string \<Rightarrow> Signer \<Rightarrow> ('w, Signer) step" where
  "afterKey ce options authentication identity bearerToken signer =
     (let registration = loginRegistration ce options identity signer in
      andThen (prepareStep ce options registration) (\<lambda>_.
        andThen (submitStep ce options bearerToken registration) (\<lambda>accepted.
          andThen (keepStep ce options accepted) (\<lambda>_.
            andThen (exchangeStep ce options authentication bearerToken identity signer) (\<lambda>_. returns (Inr signer))))))"

lemma registerStep_afterKey:
  "registerStep ce options authentication identity bearerToken =
     andThen (keyStep ce options identity) (afterKey ce options authentication identity bearerToken)"
  by (simp add: registerStep_def afterKey_def [abs_def])

lemma submitStep_leaves:
  assumes "apart ''.tearenv-registration-'' (lg_registrationPath options) q"
  shows "leaves q (submitStep ce options b r)"
  unfolding leaves_def
proof (intro allI)
  fix fs w
  note a = atomicWrite_leaves [OF assms]
  have "keepRefused ce options acc fs \<noteq> [] \<and> (\<forall>fs' \<in> set (keepRefused ce options acc fs). map_of fs' q = map_of fs q)" for acc
    by (simp add: a keepRefused_def saveProtectedFile_def split: sum.split)
  then show "fst (submitStep ce options b r fs w) \<noteq> [] \<and> (\<forall>fs' \<in> set (fst (submitStep ce options b r fs w)). map_of fs' q = map_of fs q)"
    using step_traces(3) [of ce options b r fs w] by (elim UnE rangeE) simp_all
qed

lemma afterKey_leaves:
  assumes "apart ''.tearenv-registration-'' (lg_registrationPath options) q"
  shows "leaves q (afterKey ce options authentication identity bearerToken signer)"
proof -
  have "leaves q (prepareStep ce options r)" "leaves q (keepStep ce options r)" for r
    using assms by (auto simp: prepareStep_def keepStep_def leaves_returns leaves_saveStep split: sum.split)
  moreover have "leaves q (exchangeStep ce options authentication bearerToken identity signer)"
    by (simp add: leaves_def step_traces)
  ultimately show ?thesis
    unfolding afterKey_def Let_def using submitStep_leaves [OF assms] by (intro leaves_andThen leaves_returns)
qed

lemma registerStep_leaves:
  assumes "loginApart options q"
  shows "leaves q (registerStep ce options authentication identity bearerToken)"
  unfolding registerStep_afterKey
proof (rule leaves_andThen)
  show "leaves q (keyStep ce options identity)"
    unfolding leaves_def step_traces using assms by (intro allI LoadOrCreatePrivateKey_leaves) (simp add: loginApart_def)
qed (rule afterKey_leaves, use assms in \<open>simp add: loginApart_def\<close>)

section \<open>What a registration went through\<close>

lemma andThen_Inr:
  "andThen m f fs w = (t, w', Inr b) \<longleftrightarrow>
   (\<exists>tr w1 a tr'. m fs w = (tr, w1, Inr a) \<and> f a (last tr) w1 = (tr', w', Inr b) \<and> t = tr @ tr')"
  by (auto simp: andThen_def split: prod.splits sum.splits)

text \<open>
  The registration \<open>asked\<close> has been answered by \<open>accepted\<close>, which is what was asked for and neither
  pending nor rejected.
\<close>

definition registrationAnswered :: "'w client_env \<Rightarrow> loginOptions \<Rightarrow> string \<Rightarrow> UserRegistration \<Rightarrow> UserRegistration \<Rightarrow> bool" where
  "registrationAnswered ce options bearerToken asked accepted \<longleftrightarrow>
     (\<exists>send request w w' response.
        ce_http ce = Some send \<and> send request w = (w', Some response) \<and> cq_Method request = ''PUT'' \<and>
        cq_Header request = submissionHeader [WithBearerToken bearerToken] \<and> ce_toJSON ce asked = Some (cq_Body request) \<and>
        successful (cp_Code response) \<and> LoadUserRegistration (ce_libs ce) (ce_yaml ce) (cp_Body response) = Inr accepted) \<and>
     ur_Namespace accepted = ur_Namespace asked \<and> ur_Name accepted = ur_Name asked \<and> ur_Spec accepted = ur_Spec asked \<and>
     (\<exists>condition. AcceptanceCondition (lib_k8s (ce_libs ce)) accepted = Some condition \<and>
        cond_Status condition \<noteq> ''Unknown'' \<and> cond_Status condition \<noteq> ''False'')"

lemma decodeSubmission_None:
  "decodeSubmission lb Y asked response = (accepted, None) \<Longrightarrow>
   successful (cp_Code response) \<and> LoadUserRegistration lb Y (cp_Body response) = Inr accepted \<and>
   ur_Namespace accepted = ur_Namespace asked \<and> ur_Name accepted = ur_Name asked \<and> ur_Spec accepted = ur_Spec asked \<and>
   (\<exists>condition. AcceptanceCondition (lib_k8s lb) accepted = Some condition \<and>
      cond_Status condition \<noteq> ''Unknown'' \<and> cond_Status condition \<noteq> ''False'')"
  by (auto simp: decodeSubmission_def acceptanceError_def readLimited_def split: sum.splits if_splits option.splits)

lemma SubmitUserRegistration_None:
  assumes "SubmitUserRegistration (ce_libs ce) (ce_yaml ce) (ce_toJSON ce) (ce_http ce) url asked [WithBearerToken bearerToken] w =
    (w', accepted, None)"
  shows "registrationAnswered ce options bearerToken asked accepted"
proof -
  obtain send endpoint encoded request response where r: "ce_http ce = Some send" "ce_toJSON ce asked = Some encoded"
      "NewRequest ''PUT'' endpoint (submissionHeader [WithBearerToken bearerToken]) encoded = Inr request"
      "send request w = (w', Some response)" "decodeSubmission (ce_libs ce) (ce_yaml ce) asked response = (accepted, None)"
    using assms by (auto simp: SubmitUserRegistration_def split: option.splits sum.splits prod.splits if_splits)
  then have "cq_Method request = ''PUT''" "cq_Header request = submissionHeader [WithBearerToken bearerToken]" "cq_Body request = encoded"
    by (auto simp: NewRequest_def split: option.splits)
  with r decodeSubmission_None [OF r(5)] show ?thesis unfolding registrationAnswered_def by blast
qed

definition exchanged :: "'w client_env \<Rightarrow> loginOptions \<Rightarrow> Configuration \<Rightarrow> string \<Rightarrow> string \<Rightarrow> Signer \<Rightarrow> bool" where
  "exchanged ce options authentication bearerToken identity signer \<longleftrightarrow>
     (\<exists>w1 w2 s. ExchangeSSHCertificate (lib_ssh (ce_libs ce)) (ce_newCertSigner ce) (ce_http ce) (lg_apiURL options) authentication
        bearerToken (loginKeyName ce options) identity (Some signer) w1 = (w2, Inr s))"

lemma registerStep_Inr:
  assumes "registerStep ce options authentication identity bearerToken fs w = (tr, w', Inr signer)"
  shows "\<exists>tr1 w1 rest accepted. LoadOrCreatePrivateKey (lib_ssh (ce_libs ce)) (ce_keygen ce) (ce_os ce) (lg_privateKeyPath options) identity fs =
      (tr1, Inr signer) \<and> afterKey ce options authentication identity bearerToken signer (last tr1) w1 = (rest, w', Inr signer) \<and>
    tr = tr1 @ rest \<and> registrationAnswered ce options bearerToken (loginRegistration ce options identity signer) accepted \<and>
    (cf_Mode authentication = MethodOIDC \<longrightarrow> exchanged ce options authentication bearerToken identity signer)"
proof -
  from assms obtain tr1 w1 key rest where k: "keyStep ce options identity fs w = (tr1, w1, Inr key)"
      "afterKey ce options authentication identity bearerToken key (last tr1) w1 = (rest, w', Inr signer)" "tr = tr1 @ rest"
    unfolding registerStep_afterKey andThen_Inr by blast
  then obtain tr2 w2 tr3 w3 accepted tr4 w4 tr5 w5 where
      s: "submitStep ce options bearerToken (loginRegistration ce options identity key) (last tr2) w2 = (tr3, w3, Inr accepted)"
      "exchangeStep ce options authentication bearerToken identity key (last tr4) w4 = (tr5, w5, Inr ())" "key = signer"
    unfolding afterKey_def Let_def andThen_Inr returns_def by auto
  have "LoadOrCreatePrivateKey (lib_ssh (ce_libs ce)) (ce_keygen ce) (ce_os ce) (lg_privateKeyPath options) identity fs = (tr1, Inr signer)"
    using k(1) s(3) by (auto simp: keyStep_def split: prod.splits sum.splits)
  moreover have "registrationAnswered ce options bearerToken (loginRegistration ce options identity signer) accepted"
    using s(1,3) SubmitUserRegistration_None by (fastforce simp: submitStep_def split: prod.splits option.splits)
  moreover have "cf_Mode authentication = MethodOIDC \<longrightarrow> exchanged ce options authentication bearerToken identity signer"
    using s(2,3) by (auto simp: exchangeStep_def exchanged_def split: prod.splits sum.splits)
  ultimately show ?thesis using k s(3) by blast
qed

section \<open>Logins\<close>

text \<open>The files of a login do not get into each other's way; so it is with the default paths.\<close>

definition separateFiles :: "loginOptions \<Rightarrow> bool" where
  "separateFiles options \<longleftrightarrow> loginApart options (lg_profilePath options) \<and> separate ''.tearenv-profile-'' (lg_profilePath options) \<and>
     apart ''.tearenv-registration-'' (lg_registrationPath options) (lg_privateKeyPath options) \<and>
     apart ''.tearenv-profile-'' (lg_profilePath options) (lg_privateKeyPath options)"

lemma profileSave_cases:
  assumes "separate ''.tearenv-profile-'' path" "profileSave env path p fs = (trace, err)" "fs' \<in> set trace"
  shows "map_of fs' path = map_of fs path \<or> map_of fs' path = Some (profileNode p)"
  using assms atomicWrite_states [OF assms(1), of fs' env "indentedJson (enc_Profile p)" fs]
  by (auto simp: profileSave_def profileNode_def split: option.splits prod.splits)

lemma login_Some:
  "login ce options fs w = (prompts, Some (tr, w', r)) \<longleftrightarrow>
   (case loadRegistrationToken (ce_os ce) (ce_tokenVariable ce) (lg_registrationTokenPath options) fs of
      Inl e \<Rightarrow> prompts = [] \<and> tr = [fs] \<and> w' = w \<and> r = Inl e
    | Inr token \<Rightarrow>
        (case loginAuthentication ce options token w of
           (w1, authentication) \<Rightarrow>
             (\<exists>e. loginPrincipal ce options token authentication = (prompts, Some (Inl e)) \<and> tr = [fs] \<and> w' = w1 \<and> r = Inl e) \<or>
             (\<exists>identity bearer. loginPrincipal ce options token authentication = (prompts, Some (Inr (identity, bearer))) \<and>
                andThen (registerStep ce options authentication identity bearer)
                  (\<lambda>_. profileStep ce options (loginProfile ce options authentication identity)) fs w1 = (tr, w', r))))"
  by (auto simp: login_def split: sum.splits prod.splits option.splits)


lemma LoadPrivateKey_local: "map_of fs p = map_of fs' p \<Longrightarrow> LoadPrivateKey L env p fs = LoadPrivateKey L env p fs'"
  unfolding LoadPrivateKey_def by (simp only: osStat_local [of fs p fs' env SysStatRead] readFile_local [of fs p fs' env])

text \<open>
  Claim C26.  After a login that succeeded, every later command reads the profile of that login, and the
  private key of the profile is the very key that the accepted registration carries for the identity;
  without OIDC the SSH client is then configured for that server and identity with that key.
\<close>

theorem login_enables_connect:
  assumes "separateFiles options" "separate ''.tearenv-key-'' (lg_privateKeyPath options)"
    and "documented_keygen (lib_ssh (ce_libs ce)) (ce_keygen ce)"
    and "login ce options fs w = (prompts, Some (tr, w', Inr ()))"
    and "ce_libs later = ce_libs ce" "reads (ce_os later)"
  shows "\<exists>token w1 authentication identity bearer signer accepted profile.
    loadRegistrationToken (ce_os ce) (ce_tokenVariable ce) (lg_registrationTokenPath options) fs = Inr token \<and>
    loginAuthentication ce options token w = (w1, authentication) \<and>
    loginPrincipal ce options token authentication = (prompts, Some (Inr (identity, bearer))) \<and>
    profile = loginProfile ce options authentication identity \<and>
    registrationAnswered ce options bearer (loginRegistration ce options identity signer) accepted \<and>
    sp_Identity (ur_Spec accepted) = identity \<and>
    map pk_Key (sp_PublicKeys (ur_Spec accepted)) =
      [trimSpace (MarshalAuthorizedKey (lib_ssh (ce_libs ce)) (signerPublicKey (lib_ssh (ce_libs ce)) signer))] \<and>
    (utf8_Profile profile \<longrightarrow> profileLoad (ce_os later) (lg_profilePath options) (last tr) = Inr profile) \<and>
    LoadPrivateKey (lib_ssh (ce_libs later)) (ce_os later) (pf_PrivateKey profile) (last tr) = Inr signer \<and>
    (cf_Mode authentication \<noteq> MethodOIDC \<longrightarrow> (\<forall>hostKey device v.
      serviceClientConfig later profile hostKey device (last tr) v =
        ([], v, Some (Inr \<lparr>cc_ServerAddress = lg_serverAddress options, cc_Identity = identity, cc_Token = [], cc_Signer = Some signer,
          cc_HostKey = Some hostKey, cc_DialTimeout = 0\<rparr>))))"
proof -
  from assms(4) obtain token w1 authentication identity bearer tr1 w2 signer tr2 where
      inputs: "loadRegistrationToken (ce_os ce) (ce_tokenVariable ce) (lg_registrationTokenPath options) fs = Inr token"
      "loginAuthentication ce options token w = (w1, authentication)"
      "loginPrincipal ce options token authentication = (prompts, Some (Inr (identity, bearer)))"
    and reg: "registerStep ce options authentication identity bearer fs w1 = (tr1, w2, Inr signer)"
    and prof: "profileStep ce options (loginProfile ce options authentication identity) (last tr1) w2 = (tr2, w', Inr ())"
    and tr: "tr = tr1 @ tr2"
    unfolding login_Some by (auto simp: andThen_Inr split: sum.splits prod.splits)
  let ?p = "loginProfile ce options authentication identity"
  have save: "profileSave (ce_os ce) (lg_profilePath options) ?p (last tr1) = (tr2, None)"
    using prof by (auto simp: profileStep_def split: prod.splits option.splits)
  then have valid: "profileValidate ?p = None" by (auto simp: profileSave_def split: option.splits prod.splits)
  have written: "atomicWrite (ce_os ce) ''.tearenv-profile-'' (lg_profilePath options) (indentedJson (enc_Profile ?p)) (last tr1) = (tr2, None)"
    using save valid by (auto simp: profileSave_def split: prod.splits)
  have kept: "tr2 \<noteq> []" "map_of (last tr2) (lg_privateKeyPath options) = map_of (last tr1) (lg_privateKeyPath options)"
    using atomicWrite_leaves [where env = "ce_os ce" and pfx = "''.tearenv-profile-''" and path = "lg_profilePath options"
        and q = "lg_privateKeyPath options" and c = "indentedJson (enc_Profile ?p)" and fs = "last tr1"] written assms(1)
    by (auto simp: separateFiles_def)
  have node: "map_of (last tr) (lg_profilePath options) = Some (profileNode ?p)"
    using atomicWrite_result [OF _ written] assms(1) kept(1) tr by (simp add: separateFiles_def profileNode_def)
  obtain tr0 w0 rest accepted where k: "LoadOrCreatePrivateKey (lib_ssh (ce_libs ce)) (ce_keygen ce) (ce_os ce) (lg_privateKeyPath options) identity fs = (tr0, Inr signer)"
      "afterKey ce options authentication identity bearer signer (last tr0) w0 = (rest, w2, Inr signer)" "tr1 = tr0 @ rest"
      "registrationAnswered ce options bearer (loginRegistration ce options identity signer) accepted"
    using registerStep_Inr [OF reg] by blast
  have "leaves (lg_privateKeyPath options) (afterKey ce options authentication identity bearer signer)"
    by (rule afterKey_leaves) (use assms(1) in \<open>simp add: separateFiles_def\<close>)
  then have "rest \<noteq> []" "map_of (last rest) (lg_privateKeyPath options) = map_of (last tr0) (lg_privateKeyPath options)"
    using k(2) unfolding leaves_def by (metis fst_conv, metis fst_conv last_in_set)
  with kept tr k(3) have "map_of (last tr) (lg_privateKeyPath options) = map_of (last tr0) (lg_privateKeyPath options)" by simp
  then have key: "LoadPrivateKey (lib_ssh (ce_libs later)) (ce_os later) (lg_privateKeyPath options) (last tr) = Inr signer"
    using client_key_loaded [OF assms(3,2) k(1) assms(6)] assms(5) LoadPrivateKey_local by metis
  have "ur_Spec accepted = ur_Spec (loginRegistration ce options identity signer)" using k(4) by (simp add: registrationAnswered_def)
  then have "sp_Identity (ur_Spec accepted) = identity" "map pk_Key (sp_PublicKeys (ur_Spec accepted)) =
      [trimSpace (MarshalAuthorizedKey (lib_ssh (ce_libs ce)) (signerPublicKey (lib_ssh (ce_libs ce)) signer))]"
    by (simp_all add: loginRegistration_def)
  moreover have "utf8_Profile ?p \<longrightarrow> profileLoad (ce_os later) (lg_profilePath options) (last tr) = Inr ?p"
    using profileLoad_node [OF node valid _ assms(6)] by blast
  moreover have paths: "pf_PrivateKey ?p = lg_privateKeyPath options" "lg_privateKeyPath options \<noteq> []"
    using valid by (auto simp: loginProfile_def profileValidate_def split: if_splits)
  moreover have "cf_Mode authentication \<noteq> MethodOIDC \<longrightarrow> (\<forall>hostKey device v.
      serviceClientConfig later ?p hostKey device (last tr) v =
        ([], v, Some (Inr \<lparr>cc_ServerAddress = lg_serverAddress options, cc_Identity = identity, cc_Token = [], cc_Signer = Some signer,
          cc_HostKey = Some hostKey, cc_DialTimeout = 0\<rparr>)))"
    using key paths by (simp add: serviceClientConfig_def Let_def) (simp add: loginProfile_def)
  ultimately show ?thesis
    using inputs k(4) key by (intro exI [where x = token] exI [where x = w1] exI [where x = authentication] exI [where x = identity]
        exI [where x = bearer] exI [where x = signer] exI [where x = accepted] exI [where x = ?p] conjI) (assumption | rule refl | simp)+
qed

section \<open>A login at work\<close>

definition demoAccepted :: UserRegistration where
  "demoAccepted = demoRegistration\<lparr>
     ur_Spec := \<lparr>sp_Identity = ''ada'', sp_PublicKeys = [\<lparr>pk_Name = ''laptop'', pk_Key = ''ssh-ed25519 7075622d6b39''\<rparr>]\<rparr>,
     ur_Status := Some \<lparr>st_ObservedGeneration = 0, st_AuthenticatedPrincipal = None, st_Conditions =
       [\<lparr>cond_Type = ''Accepted'', cond_Status = ''True'', cond_ObservedGeneration = 0, cond_Reason = [], cond_Message = [],
         cond_LastTransitionTime = 0\<rparr>]\<rparr>\<rparr>"

definition demoCommandOs :: os_env where
  "demoCommandOs = \<lparr>faults = \<lambda>_. False, tempNames = [''1''], umask = 0\<rparr>"

definition demoCommandEnv :: "nat client_env" where
  "demoCommandEnv =
     \<lparr>ce_libs = demoLibs,
      ce_yaml = \<lparr>yamlMarshal = \<lambda>r. Some (ur_Name r), yamlUnmarshalStrict = \<lambda>s. if s = ''ada'' then Some demoAccepted else None\<rparr>,
      ce_toJSON = \<lambda>r. Some (ur_Name r), ce_keygen = demoKeygen, ce_newCertSigner = (\<lambda>_ _. None),
      ce_http = Some (\<lambda>r n. (Suc n, Some \<lparr>cp_Code = 200, cp_Body = ''ada'', cp_Fails = False\<rparr>)),
      ce_oauth = \<lparr>newProvider = \<lambda>_. False, deviceAuth = \<lambda>_. None, deviceAccessToken = \<lambda>_ _. None, authCodeURL = \<lambda>_ _ _. [],
        exchangeCode = \<lambda>_ _ _. None, verifyIDToken = \<lambda>_ _ _. None\<rparr>,
      ce_login = \<lparr>lo_outputFails = False, lo_random = \<lambda>_ _. None, lo_listener = None, lo_events = []\<rparr>,
      ce_os = demoCommandOs, ce_tokenVariable = '' secret '',
      ce_input = ''ada'' @ [CHR 0x0A], ce_inputFails = False, ce_promptFails = False, ce_outputFails = False,
      ce_knownhosts = \<lambda>_. None\<rparr>"

definition demoUser :: user_env where
  "demoUser = \<lparr>ue_hostname = Some ''laptop'', ue_home = Some ''/h'', ue_config = Some ''/c''\<rparr>"

text \<open>The options are the defaults, except for the API and that it is not asked how it authenticates.\<close>

definition demoLoginOptions :: loginOptions where
  "demoLoginOptions =
     \<lparr>lg_serverAddress = ''127.0.0.1:2222'', lg_apiURL = ''http://a'', lg_namespace = ''default'', lg_identity = [],
      lg_identityDefault = ''laptop'', lg_privateKeyPath = ''/c/tearenv/id_ed25519'',
      lg_registrationPath = ''/c/tearenv/user-registration.yaml'', lg_registrationTokenPath = [],
      lg_profilePath = ''/c/tearenv/config.json'', lg_knownHostsPath = ''/h/.ssh/known_hosts'',
      lg_insecure = False, lg_oidcDevice = False, lg_discoverAuthentication = False\<rparr>"

lemma demoLoginOptions_defaults: "demoLoginOptions = (newLoginCommand demoUser)\<lparr>lg_apiURL := ''http://a'', lg_discoverAuthentication := False\<rparr>"
  by code_simp

definition demoSaved :: Profile where
  "demoSaved =
     \<lparr>pf_ServerAddress = ''127.0.0.1:2222'', pf_APIURL = ''http://a'', pf_Namespace = ''default'', pf_Identity = ''ada'',
      pf_AuthenticationMode = ''anonymous'', pf_KeyName = ''laptop'', pf_OIDCDevice = False, pf_Token = [],
      pf_PrivateKey = ''/c/tearenv/id_ed25519'', pf_KnownHosts = ''/h/.ssh/known_hosts'', pf_Insecure = False\<rparr>"

definition demoLoginRun :: "string \<times> (string fs list \<times> nat \<times> (login_err + unit)) option" where
  "demoLoginRun = login demoCommandEnv demoLoginOptions [] 0"

text \<open>The default paths are separate files.\<close>

lemma demoLogin_separate: "separateFiles demoLoginOptions" "separate ''.tearenv-key-'' (lg_privateKeyPath demoLoginOptions)"
  by code_simp+


abbreviation (input) "demoAsked \<equiv> demoAccepted\<lparr>ur_Status := None\<rparr>"

definition demoAnonymous :: Configuration where
  "demoAnonymous = \<lparr>cf_Mode = MethodAnonymous, cf_TokenEndpoint = [], cf_OIDC = None\<rparr>"

text \<open>The files after the key and after the registration have been written.\<close>

definition demoKeyFiles :: "string fs" where
  "demoKeyFiles =
     [(''/c'', Directory 448), (''/c/tearenv'', Directory 448), (''/c/tearenv/id_ed25519'', Regular 384 (Some ''k9''))]"

definition demoRegisteredFiles :: "string fs" where
  "demoRegisteredFiles = demoKeyFiles @ [(''/c/tearenv/user-registration.yaml'', Regular 384 (Some ''ada''))]"

lemma demoCommandEnv_libs: "ce_libs demoCommandEnv = demoLibs" "lib_ssh demoLibs = demoSsh" "lib_k8s demoLibs = demoK8s" "lib_lower demoLibs = (\<lambda>s. s)"
  by (simp_all add: demoCommandEnv_def demoLibs_def)

lemma demoCommandEnv_fields:
  "ce_os demoCommandEnv = demoCommandOs" "ce_tokenVariable demoCommandEnv = '' secret ''" "ce_input demoCommandEnv = ''ada'' @ [CHR 0x0A]"
  "ce_inputFails demoCommandEnv = False" "ce_promptFails demoCommandEnv = False" "ce_keygen demoCommandEnv = demoKeygen"
  "ce_outputFails demoCommandEnv = False"
  by (simp_all add: demoCommandEnv_def)

lemma demoLoginOptions_fields:
  "lg_identity demoLoginOptions = []" "lg_identityDefault demoLoginOptions = ''laptop''" "lg_registrationTokenPath demoLoginOptions = []"
  "lg_apiURL demoLoginOptions = ''http://a''" "lg_privateKeyPath demoLoginOptions = ''/c/tearenv/id_ed25519''"
  "lg_registrationPath demoLoginOptions = ''/c/tearenv/user-registration.yaml''"
  "lg_profilePath demoLoginOptions = ''/c/tearenv/config.json''"
  by (simp_all add: demoLoginOptions_def)

lemma demoLogin_names:
  "ResourceName demoK8s (\<lambda>s. s) ''ada'' = ''ada''" "KeyName demoK8s (\<lambda>s. s) ''laptop'' = ''laptop''"
proof -
  have n: "trimSpace ''ada'' = ''ada''" "normalizeName (\<lambda>s. s) ''ada'' = ''ada''" "IsDNS1123Subdomain demoK8s ''ada'' = []"
    "trimSpace ''laptop'' = ''laptop''" "normalizeName (\<lambda>s. s) ''laptop'' = ''laptop''" "IsDNS1123Subdomain demoK8s ''laptop'' = []"
    "replaceAll ''laptop'' ''.'' ''-'' = ''laptop''" by code_simp+
  have m: "DNS1123SubdomainMaxLength demoK8s = 253" "DNS1123LabelMaxLength demoK8s = 63" by (simp_all add: demoK8s_def)
  show "ResourceName demoK8s (\<lambda>s. s) ''ada'' = ''ada''" using n m by (simp add: ResourceName_def Let_def)
  have "ResourceName demoK8s (\<lambda>s. s) ''laptop'' = ''laptop''" using n m by (simp add: ResourceName_def Let_def)
  then show "KeyName demoK8s (\<lambda>s. s) ''laptop'' = ''laptop''" using n m by (simp add: KeyName_def Let_def)
qed

lemma demoLogin_keyName: "loginKeyName demoCommandEnv demoLoginOptions = ''laptop''"
  by (simp add: loginKeyName_def demoCommandEnv_libs demoLogin_names) (simp add: demoLoginOptions_def demoLogin_names)

lemma demoLogin_inputs:
  "loadRegistrationToken (ce_os demoCommandEnv) (ce_tokenVariable demoCommandEnv) (lg_registrationTokenPath demoLoginOptions) [] = Inr ''secret''"
  "loginPrincipal demoCommandEnv demoLoginOptions ''secret'' demoAnonymous = (''Identity [laptop]: '', Some (Inr (''ada'', ''secret'')))"
  "loginRegistration demoCommandEnv demoLoginOptions ''ada'' ''k9'' = demoAsked"
proof -
  show "loadRegistrationToken (ce_os demoCommandEnv) (ce_tokenVariable demoCommandEnv) (lg_registrationTokenPath demoLoginOptions) [] = Inr ''secret''"
    "loginPrincipal demoCommandEnv demoLoginOptions ''secret'' demoAnonymous = (''Identity [laptop]: '', Some (Inr (''ada'', ''secret'')))"
  proof -
    have "trimSpace '' secret '' = ''secret''" "trimSpace [] = []" by code_simp+
    then show "loadRegistrationToken (ce_os demoCommandEnv) (ce_tokenVariable demoCommandEnv) (lg_registrationTokenPath demoLoginOptions) [] = Inr ''secret''"
      by (simp add: loadRegistrationToken_def demoCommandEnv_fields demoLoginOptions_fields)
    have "loginIdentity [] ''laptop'' (''ada'' @ [CHR 0x0A]) False False = (''Identity [laptop]: '', Inr ''ada'')" by code_simp
    then show "loginPrincipal demoCommandEnv demoLoginOptions ''secret'' demoAnonymous = (''Identity [laptop]: '', Some (Inr (''ada'', ''secret'')))"
      by (simp add: loginPrincipal_def demoCommandEnv_fields demoLoginOptions_fields demoAnonymous_def MethodAnonymous_def MethodOIDC_def)
  qed
  have "trimSpace (MarshalAuthorizedKey demoSsh (signerPublicKey demoSsh ''k9'')) = ''ssh-ed25519 7075622d6b39''" by code_simp
  then show "loginRegistration demoCommandEnv demoLoginOptions ''ada'' ''k9'' = demoAsked"
    unfolding loginRegistration_def demoCommandEnv_libs demoLogin_names demoLogin_keyName
    by (simp add: demoAccepted_def demoRegistration_def zero_UserRegistration_def) (simp add: demoLoginOptions_def)
qed

lemma demoLogin_profile: "loginProfile demoCommandEnv demoLoginOptions demoAnonymous ''ada'' = demoSaved"
  by (simp add: loginProfile_def demoLogin_keyName demoSaved_def demoAnonymous_def MethodAnonymous_def) (simp add: demoLoginOptions_def)

lemma demoLogin_authentication: "loginAuthentication demoCommandEnv demoLoginOptions ''secret'' n = (n, demoAnonymous)"
  by (simp add: loginAuthentication_def demoLoginOptions_def demoAnonymous_def)

definition demoEndpoint :: string where
  "demoEndpoint = ''http://a/apis/tearenv.io/v1alpha1/namespaces/default/userregistrations/ada''"

lemma demoLogin_valid:
  "registrationValidate demoSsh demoK8s (\<lambda>s. s) demoAsked = None" "registrationValidate demoSsh demoK8s (\<lambda>s. s) demoAccepted = None"
  "acceptanceError demoK8s demoAccepted = None"
proof -
  have "IsDNS1123Subdomain demoK8s ''ada'' = []" "IsDNS1123Label demoK8s ''default'' = []" "validIdentity ''ada''"
    "validatePublicKeys demoSsh demoK8s [\<lparr>pk_Name = ''laptop'', pk_Key = ''ssh-ed25519 7075622d6b39''\<rparr>] = None" by code_simp+
  then show "registrationValidate demoSsh demoK8s (\<lambda>s. s) demoAsked = None" "registrationValidate demoSsh demoK8s (\<lambda>s. s) demoAccepted = None"
    by (simp_all add: registrationValidate_def demoAccepted_def demoRegistration_def demoLogin_names validateAuthenticatedPrincipal_def)
qed code_simp

lemma demoLogin_marshal:
  "MarshalUserRegistration (ce_libs demoCommandEnv) (ce_yaml demoCommandEnv) demoAsked = Inr ''ada''"
  "MarshalUserRegistration (ce_libs demoCommandEnv) (ce_yaml demoCommandEnv) demoAccepted = Inr ''ada''"
  "LoadUserRegistration (ce_libs demoCommandEnv) (ce_yaml demoCommandEnv) ''ada'' = Inr demoAccepted"
  "acceptanceError (lib_k8s (ce_libs demoCommandEnv)) demoAccepted = None"
proof -
  have "ur_Name demoAccepted = ''ada''" by (simp add: demoAccepted_def demoRegistration_def)
  moreover have "ce_yaml demoCommandEnv = \<lparr>yamlMarshal = \<lambda>r. Some (ur_Name r), yamlUnmarshalStrict = \<lambda>s. if s = ''ada'' then Some demoAccepted else None\<rparr>"
    by (simp add: demoCommandEnv_def)
  ultimately show "MarshalUserRegistration (ce_libs demoCommandEnv) (ce_yaml demoCommandEnv) demoAsked = Inr ''ada''"
    "MarshalUserRegistration (ce_libs demoCommandEnv) (ce_yaml demoCommandEnv) demoAccepted = Inr ''ada''"
    "LoadUserRegistration (ce_libs demoCommandEnv) (ce_yaml demoCommandEnv) ''ada'' = Inr demoAccepted"
    by (simp_all add: MarshalUserRegistration_def LoadUserRegistration_def demoCommandEnv_libs demoLogin_valid)
qed (simp add: demoCommandEnv_libs demoLogin_valid)

lemma demoLogin_request:
  "userRegistrationURL ''http://a'' ''default'' ''ada'' = Inr demoEndpoint"
  "case NewRequest ''PUT'' demoEndpoint (submissionHeader [WithBearerToken ''secret'']) ''ada'' of Inl _ \<Rightarrow> False | Inr _ \<Rightarrow> True"
  by code_simp+

lemma demoLogin_submit:
  "submitStep demoCommandEnv demoLoginOptions ''secret'' demoAsked fs 0 = ([fs], Suc 0, Inr demoAccepted)"
proof -
  have "decodeSubmission (ce_libs demoCommandEnv) (ce_yaml demoCommandEnv) demoAsked \<lparr>cp_Code = 200, cp_Body = ''ada'', cp_Fails = False\<rparr> =
      (demoAccepted, None)"
    by (simp add: decodeSubmission_def readLimited_def registrationResponseLimit_def successful_def demoLogin_marshal)
  moreover have "registrationValidate (lib_ssh (ce_libs demoCommandEnv)) (lib_k8s (ce_libs demoCommandEnv)) (lib_lower (ce_libs demoCommandEnv)) demoAsked = None"
    using demoLogin_marshal(1) by (auto simp: MarshalUserRegistration_def split: option.splits)
  moreover have "ce_http demoCommandEnv = Some (\<lambda>r n. (Suc n, Some \<lparr>cp_Code = 200, cp_Body = ''ada'', cp_Fails = False\<rparr>))"
    "ce_toJSON demoCommandEnv = (\<lambda>r. Some (ur_Name r))" by (simp_all add: demoCommandEnv_def)
  moreover have "ur_Namespace demoAccepted = ''default''" "ur_Name demoAccepted = ''ada''" by (simp_all add: demoAccepted_def demoRegistration_def)
  ultimately show ?thesis
    using demoLogin_request by (auto simp: demoLoginOptions_fields submitStep_def SubmitUserRegistration_def split: sum.splits)
qed

lemma demoLogin_key: "\<exists>tr. keyStep demoCommandEnv demoLoginOptions ''ada'' [] 0 = (tr, 0, Inr ''k9'') \<and> last tr = demoKeyFiles"
proof -
  let ?k = "LoadOrCreatePrivateKey demoSsh demoKeygen demoCommandOs ''/c/tearenv/id_ed25519'' ''ada'' []"
  have "snd ?k = Inr ''k9''" "last (fst ?k) = demoKeyFiles" by code_simp+
  then show ?thesis
    by (intro exI [where x = "fst ?k"]) (auto simp: keyStep_def demoCommandEnv_libs demoCommandEnv_fields demoLoginOptions_fields split: prod.splits)
qed

lemma demoLogin_save:
  assumes "fs = demoKeyFiles \<or> fs = demoRegisteredFiles"
  shows "\<exists>tr. saveStep fails demoCommandOs ''/c/tearenv/user-registration.yaml'' ''ada'' fs n = (tr, n, Inr ()) \<and>
    last tr = demoRegisteredFiles"
proof -
  let ?s = "\<lambda>fs. saveProtectedFile demoCommandOs ''/c/tearenv/user-registration.yaml'' ''ada'' fs"
  have "snd (?s demoKeyFiles) = None" "last (fst (?s demoKeyFiles)) = demoRegisteredFiles"
    "snd (?s demoRegisteredFiles) = None" "last (fst (?s demoRegisteredFiles)) = demoRegisteredFiles" by code_simp+
  with assms have "snd (?s fs) = None" "last (fst (?s fs)) = demoRegisteredFiles" by auto
  then show ?thesis by (intro exI [where x = "fst (?s fs)"]) (auto simp: saveStep_def split: prod.splits)
qed

lemma demoLogin_saved:
  "\<exists>tr. profileStep demoCommandEnv demoLoginOptions demoSaved demoRegisteredFiles n = (tr, n, Inr ()) \<and> tr \<noteq> [] \<and>
     map_of (last tr) (lg_profilePath demoLoginOptions) = Some (profileNode demoSaved)"
proof -
  let ?w = "atomicWrite demoCommandOs ''.tearenv-profile-'' (lg_profilePath demoLoginOptions) (indentedJson (enc_Profile demoSaved)) demoRegisteredFiles"
  have v: "profileValidate demoSaved = None" by code_simp
  have s: "separate ''.tearenv-profile-'' ''/c/tearenv/config.json''" by code_simp
  have "writable demoCommandOs ''.tearenv-profile-'' ''/c/tearenv/config.json'' demoRegisteredFiles" by code_simp
  then have w: "?w = (fst ?w, None)" using atomicWrite_live s by (metis demoLoginOptions_fields(7) prod.collapse)
  have "map_of (last (fst ?w)) (lg_profilePath demoLoginOptions) = Some (profileNode demoSaved)"
    using atomicWrite_result [OF _ w] s by (simp add: demoLoginOptions_fields profileNode_def)
  moreover have "fst ?w \<noteq> []" by (simp add: atomicWrite_def split: prod.split option.split)
  moreover have "profileStep demoCommandEnv demoLoginOptions demoSaved demoRegisteredFiles n = (fst ?w, n, Inr ())"
    unfolding profileStep_def profileSave_def demoCommandEnv_fields v by (subst w) simp
  ultimately show ?thesis by blast
qed

lemma demoLogin_run:
  "\<exists>tr tr'. demoLoginRun = (''Identity [laptop]: '', Some (tr @ tr', Suc 0, Inr ())) \<and> tr' \<noteq> [] \<and>
     map_of (last tr') (lg_profilePath demoLoginOptions) = Some (profileNode demoSaved)"
proof -
  obtain t1 where k: "keyStep demoCommandEnv demoLoginOptions ''ada'' [] 0 = (t1, 0, Inr ''k9'')" "last t1 = demoKeyFiles"
    using demoLogin_key by blast
  obtain t2 where p: "prepareStep demoCommandEnv demoLoginOptions demoAsked demoKeyFiles 0 = (t2, 0, Inr ())" "last t2 = demoRegisteredFiles"
    using demoLogin_save [of demoKeyFiles RegistrationSave 0] by (auto simp: prepareStep_def demoLogin_marshal demoCommandEnv_fields demoLoginOptions_fields)
  obtain t3 where q: "keepStep demoCommandEnv demoLoginOptions demoAccepted demoRegisteredFiles (Suc 0) = (t3, Suc 0, Inr ())" "last t3 = demoRegisteredFiles"
    using demoLogin_save [of demoRegisteredFiles AcceptedSave "Suc 0"] by (auto simp: keepStep_def demoLogin_marshal demoCommandEnv_fields demoLoginOptions_fields)
  obtain t4 where r: "profileStep demoCommandEnv demoLoginOptions demoSaved demoRegisteredFiles (Suc 0) = (t4, Suc 0, Inr ())" "t4 \<noteq> []"
      "map_of (last t4) (lg_profilePath demoLoginOptions) = Some (profileNode demoSaved)"
    using demoLogin_saved by blast
  have x: "exchangeStep demoCommandEnv demoLoginOptions demoAnonymous ''secret'' ''ada'' ''k9'' fs n = ([fs], n, Inr ())" for fs n
    by (simp add: exchangeStep_def demoAnonymous_def MethodAnonymous_def MethodOIDC_def)
  have "registerStep demoCommandEnv demoLoginOptions demoAnonymous ''ada'' ''secret'' [] 0 =
      (t1 @ t2 @ [demoRegisteredFiles] @ t3 @ [demoRegisteredFiles] @ [demoRegisteredFiles], Suc 0, Inr ''k9'')"
    by (simp add: registerStep_def andThen_def k p demoLogin_inputs demoLogin_submit q x returns_def Let_def)
  then have "demoLoginRun = (''Identity [laptop]: '', Some ((t1 @ t2 @ [demoRegisteredFiles] @ t3 @ [demoRegisteredFiles] @ [demoRegisteredFiles]) @ t4, Suc 0, Inr ()))"
    by (simp add: demoLoginRun_def login_def demoLogin_inputs demoLogin_authentication andThen_def r(1) demoLogin_profile)
  with r(2,3) show ?thesis by blast
qed


theorem login_enables_connect_witness:
  "\<exists>tr (accepted :: UserRegistration). snd demoLoginRun = Some (tr, Suc 0, Inr ()) \<and> sp_Identity (ur_Spec accepted) = ''ada'' \<and>
     profileLoad demoCommandOs (lg_profilePath demoLoginOptions) (last tr) = Inr demoSaved"
proof -
  obtain tr where tr: "login demoCommandEnv demoLoginOptions [] 0 = (''Identity [laptop]: '', Some (tr, Suc 0, Inr ()))"
    using demoLogin_run by (auto simp: demoLoginRun_def)
  have d: "documented_keygen (lib_ssh (ce_libs demoCommandEnv)) (ce_keygen demoCommandEnv)"
    using demoKeygen_documented by (simp add: demoCommandEnv_def demoLibs_def)
  have os: "ce_os demoCommandEnv = demoCommandOs" "reads demoCommandOs" by (simp_all add: demoCommandEnv_def demoCommandOs_def reads_def)
  have os': "reads (ce_os demoCommandEnv)" using os by simp
  obtain token w1 authentication identity bearer and accepted :: UserRegistration and profile where c:
      "loadRegistrationToken (ce_os demoCommandEnv) (ce_tokenVariable demoCommandEnv) (lg_registrationTokenPath demoLoginOptions) [] = Inr token"
      "loginAuthentication demoCommandEnv demoLoginOptions token 0 = (w1, authentication)"
      "loginPrincipal demoCommandEnv demoLoginOptions token authentication = (''Identity [laptop]: '', Some (Inr (identity, bearer)))"
      "profile = loginProfile demoCommandEnv demoLoginOptions authentication identity" "sp_Identity (ur_Spec accepted) = identity"
      "utf8_Profile profile \<longrightarrow> profileLoad (ce_os demoCommandEnv) (lg_profilePath demoLoginOptions) (last tr) = Inr profile"
    using login_enables_connect [OF demoLogin_separate d tr refl os'] by (elim exE conjE) (rule that)
  then have "token = ''secret''" "authentication = demoAnonymous" using demoLogin_inputs(1) demoLogin_authentication by auto
  moreover from this c(3) demoLogin_inputs(2) have "identity = ''ada''" by simp
  moreover have "utf8_Profile demoSaved" by code_simp
  ultimately show ?thesis using c tr os(1) by (auto simp: demoLoginRun_def demoLogin_profile)
qed


end
