(* ===== verification/Client_Services_Properties.thy ===== *)
theory Client_Services_Properties
  imports Client_Services Client_Exchange Server_Properties
begin

text \<open>
  The client's connections: everything opened is closed again, local connections reach their own
  service, and what the client gets when the SSH server of \<open>Server\<close> is at the other end.
\<close>

section \<open>Connections and listeners\<close>

text \<open>
  What is open: the raw connection, its deadline, the SSH connection and the listeners.  A step that
  closes what is not open, or uses the connection when it is not open or while the handshake's deadline
  still stands, is none.
\<close>

record open_things =
  ot_raw :: bool
  ot_deadline :: bool
  ot_connection :: bool
  ot_listeners :: "nat list"

definition nothingOpen :: open_things where
  "nothingOpen = \<lparr>ot_raw = False, ot_deadline = False, ot_connection = False, ot_listeners = []\<rparr>"

fun openStep :: "open_things \<Rightarrow> net_event \<Rightarrow> open_things option" where
  "openStep t (RawDialed _) = (if ot_raw t then None else Some (t\<lparr>ot_raw := True\<rparr>))"
| "openStep t (DeadlineSet _) = (if ot_raw t then Some (t\<lparr>ot_deadline := True\<rparr>) else None)"
| "openStep t RawClosed = (if ot_raw t \<and> \<not> ot_connection t then Some (t\<lparr>ot_raw := False, ot_deadline := False\<rparr>) else None)"
| "openStep t Established = (if ot_raw t \<and> ot_deadline t then Some (t\<lparr>ot_connection := True\<rparr>) else None)"
| "openStep t DeadlineCleared = (if ot_raw t then Some (t\<lparr>ot_deadline := False\<rparr>) else None)"
| "openStep t ConnectionClosed = (if ot_connection t then Some (t\<lparr>ot_raw := False, ot_deadline := False, ot_connection := False\<rparr>) else None)"
| "openStep t (Listening i _) = (if i \<in> set (ot_listeners t) then None else Some (t\<lparr>ot_listeners := ot_listeners t @ [i]\<rparr>))"
| "openStep t (ListenerClosed i) = (if i \<in> set (ot_listeners t) then Some (t\<lparr>ot_listeners := remove1 i (ot_listeners t)\<rparr>) else None)"
| "openStep t (Joined l) = Some t"
| "openStep t (LocalClosed l) = Some t"
| "openStep t (Ready _ _) = Some t"
| "openStep t (Requested _) = (if ot_connection t \<and> \<not> ot_deadline t then Some t else None)"
| "openStep t (ChannelRequested _ _) = (if ot_connection t \<and> \<not> ot_deadline t then Some t else None)"

fun openAfter :: "open_things \<Rightarrow> net_event list \<Rightarrow> open_things option" where
  "openAfter t [] = Some t"
| "openAfter t (e # es) = (case openStep t e of None \<Rightarrow> None | Some t' \<Rightarrow> openAfter t' es)"

lemma openAfter_append: "openAfter t (xs @ ys) = Option.bind (openAfter t xs) (\<lambda>t'. openAfter t' ys)"
  by (induction xs arbitrary: t) (auto split: option.splits)

definition connected :: "nat \<Rightarrow> open_things" where
  "connected n = \<lparr>ot_raw = True, ot_deadline = False, ot_connection = True, ot_listeners = [0..<n]\<rparr>"

lemma dialSSH_open:
  "openAfter nothingOpen (fst (dialSSH nw address config timeout)) =
     Some (case snd (dialSSH nw address config timeout) of Inl _ \<Rightarrow> nothingOpen | Inr _ \<Rightarrow> connected 0)"
  by (auto simp: dialSSH_def nothingOpen_def connected_def split: option.splits)

lemma withConnection_open:
  assumes "openAfter nothingOpen (fst d) = Some (case snd d of Inl _ \<Rightarrow> nothingOpen | Inr _ \<Rightarrow> connected 0)"
    and "\<And>c. openAfter (connected 0) (fst (body c)) = Some (connected 0)"
  shows "openAfter nothingOpen (fst (withConnection d body)) = Some nothingOpen"
proof (cases d)
  case (Pair evs r)
  then show ?thesis
    using assms(1) assms(2) [of "case r of Inr c \<Rightarrow> c"]
    by (cases r) (auto simp: withConnection_def openAfter_append connected_def nothingOpen_def split: prod.split)
qed

lemma listenAll_open:
  "listenAll nw i services = (evs, n, e) \<Longrightarrow> openAfter (connected i) evs = Some (connected n) \<and> i \<le> n \<and>
     (e = None \<longrightarrow> n = i + length services)"
proof (induction services arbitrary: i evs n e)
  case (Cons s ss)
  have step: "openAfter (connected i) (Listening i address # Ready name address # es) = openAfter (connected (Suc i)) es" for address name es
    by (simp add: connected_def)
  show ?case
  proof (cases "nw_listen nw (ls_ListenAddress s)")
    case (Some address)
    obtain evs' n' e' where r: "listenAll nw (Suc i) ss = (evs', n', e')" by (cases "listenAll nw (Suc i) ss")
    with Cons.prems Some have "evs = Listening i address # Ready (ls_Name s) address # evs'" "n = n'" "e = e'" by auto
    with Cons.IH [OF r] show ?thesis by (simp only: step) simp
  qed (use Cons.prems in auto)
qed simp

lemma serveListeners_open: "openAfter (connected n) (fst (serveListeners services inputs)) = Some (connected n)"
proof (induction services inputs rule: serveListeners.induct)
  case (2 services i l opens es)
  then show ?case by (auto simp: connectService_def connected_def split: prod.splits)
qed (auto split: prod.splits)

lemma closeListeners_open: "openAfter (connected n) (closeListeners n) = Some (connected 0)"
proof -
  have "openAfter \<lparr>ot_raw = True, ot_deadline = False, ot_connection = True, ot_listeners = ls\<rparr> (map ListenerClosed ls) = Some (connected 0)" for ls
    by (induction ls) (simp_all add: connected_def)
  then show ?thesis by (simp add: connected_def closeListeners_def)
qed

lemma runOn_open:
  "openAfter (connected 0) (fst (runOn nw services inputs)) =
     Some (if snd (runOn nw services inputs) = None then connected (length services) else nothingOpen)"
proof -
  obtain evs n e where l: "listenAll nw 0 services = (evs, n, e)" by (cases "listenAll nw 0 services")
  have closing: "openAfter (connected n) (closeListeners n @ [ConnectionClosed]) = Some nothingOpen"
    by (simp add: openAfter_append closeListeners_open) (simp add: connected_def nothingOpen_def)
  obtain evs' r where s: "serveListeners services inputs = (evs', r)" by (cases "serveListeners services inputs")
  show ?thesis
    using listenAll_open [OF l] l s closing serveListeners_open [of n services inputs]
    by (cases e; cases r) (auto simp: runOn_def openAfter_append bind_eq_Some_conv)
qed


section \<open>Local connections\<close>

lemma listenAll_channels: "listenAll nw i services = (evs, n, e) \<Longrightarrow> ChannelRequested l a \<notin> set evs"
  by (induction services arbitrary: i evs n e) (auto split: option.splits prod.splits)

lemma serveListeners_channels:
  "ChannelRequested l a \<in> set (fst (serveListeners services inputs)) \<Longrightarrow>
   \<exists>i opens. LocalAccepted i l opens \<in> set inputs \<and> i < length services \<and> a = joinHostPort (ls_Name (services ! i)) ''0'' \<and>
     (if opens then Joined l else LocalClosed l) \<in> set (fst (serveListeners services inputs))"
proof (induction services inputs rule: serveListeners.induct)
  case (2 services i l' opens es)
  obtain evs r where r: "serveListeners services es = (evs, r)" by (cases "serveListeners services es")
  show ?case
  proof (cases "ChannelRequested l a \<in> set evs")
    case True
    then have "ChannelRequested l a \<in> set (fst (serveListeners services es))" by (simp add: r)
    then obtain j op where "LocalAccepted j l op \<in> set es" "j < length services" "a = joinHostPort (ls_Name (services ! j)) ''0''"
      "(if op then Joined l else LocalClosed l) \<in> set evs"
      using "2.IH" r by (cases "i < length services") auto
    then show ?thesis using r by (intro exI [where x = j] exI [where x = op]) (auto split: if_split)
  next
    case False
    with "2.prems" r have "i < length services" "l' = l" "a = joinHostPort (ls_Name (services ! i)) ''0''"
      by (auto simp: connectService_def split: if_splits)
    then show ?thesis using r by (intro exI [where x = i] exI [where x = opens]) (simp add: connectService_def)
  qed
next
  case (3 services i listenerClosed es)
  show ?case
  proof (cases "listenerClosed \<or> \<not> i < length services")
    case True
    then have "serveListeners services (AcceptError i listenerClosed # es) = serveListeners services es" by simp
    with "3.IH" [OF True] "3.prems" show ?thesis by (metis list.set_intros(2))
  qed (use "3.prems" in simp)
qed simp_all

lemma checkRequested_None:
  "checkRequested seen services = None \<longleftrightarrow>
   list_all (\<lambda>s. ls_Name s \<noteq> [] \<and> ls_ListenAddress s \<noteq> []) services \<and> distinct (map ls_Name services) \<and>
   set (map ls_Name services) \<inter> set seen = {}"
  by (induction seen services rule: checkRequested.induct) auto

text \<open>
  A channel for an address as the SSH library asks for it, at the handler of the server: the target,
  when the server completes the channel.
\<close>

definition channelTarget :: "(string \<Rightarrow> string \<Rightarrow> 't opened) \<Rightarrow> connection \<Rightarrow> string \<Rightarrow> 't option" where
  "channelTarget gatewayOpen cx address =
     (case splitHostPort address of
        None \<Rightarrow> None
      | Some (host, port) \<Rightarrow>
          (case parseUint port 16 of
             None \<Rightarrow> None
           | Some p \<Rightarrow>
               (case serviceChannelHandler gatewayOpen
                   (Some \<lparr>dr_ServiceName = host, dr_ServicePort = p, dr_OriginHost = ''0.0.0.0'', dr_OriginPort = 0\<rparr>) True cx of
                  Proxied target \<Rightarrow> Some target
                | _ \<Rightarrow> None)))"

definition plainName :: "string \<Rightarrow> bool" where
  "plainName name \<longleftrightarrow> set name \<inter> {CHR '':'', CHR ''['', CHR '']''} = {}"

lemma channelTarget_service:
  assumes "plainName name" "EnrollmentIdentity (cx_User cx) = None"
  shows "channelTarget gatewayOpen cx (joinHostPort name ''0'') =
    (case gatewayOpen (cx_User cx) name of Opened target \<Rightarrow> Some target | _ \<Rightarrow> None)"
proof -
  have z: "parseUint ''0'' 16 = Some 0" by code_simp
  have "splitHostPort (joinHostPort name ''0'') = Some (name, ''0'')"
    using assms(1) by (intro splitHostPort_joinHostPort) (auto simp: plainName_def)
  then show ?thesis using assms(2) z by (auto simp: channelTarget_def serviceChannelHandler_def split: opened.splits)
qed

text \<open>
  Claim C34.  Every local connection that is carried to the server came in at a listener of the service
  it is carried to: the channel names that service, and no other service has the name; at the server's
  handler it ends at the target which the gateway opens for this user and that service, or at none.
\<close>

theorem local_connections_reach_their_service:
  assumes "RunServices nw config services inputs = (evs, r)" "ChannelRequested l address \<in> set evs"
    and "list_all (\<lambda>s. plainName (ls_Name s)) services" "EnrollmentIdentity (cx_User cx) = None"
  shows "\<exists>i opens. LocalAccepted i l opens \<in> set inputs \<and> i < length services \<and>
    (if opens then Joined l else LocalClosed l) \<in> set evs \<and>
    (\<forall>j < length services. ls_Name (services ! j) = ls_Name (services ! i) \<longrightarrow> j = i) \<and>
    channelTarget gatewayOpen cx address =
      (case gatewayOpen (cx_User cx) (ls_Name (services ! i)) of Opened target \<Rightarrow> Some target | _ \<Rightarrow> None)"
proof -
  from assms(1,2) have checked: "checkServices services = None"
    by (auto simp: RunServices_def Let_def split: option.splits)
  obtain dialled d where dial: "serviceDial nw (setDefaults config) = (dialled, d)" by (cases "serviceDial nw (setDefaults config)")
  then have "ChannelRequested l address \<notin> set dialled"
    by (auto simp: serviceDial_def dialSSH_def split: if_splits option.splits)
  then have run: "ChannelRequested l address \<in> set (fst (runOn nw services inputs))" "set (fst (runOn nw services inputs)) \<subseteq> set evs"
    using assms(1,2) dial by (auto simp: RunServices_def Let_def split: option.splits sum.splits prod.splits)
  obtain listened n e where l: "listenAll nw 0 services = (listened, n, e)" by (cases "listenAll nw 0 services")
  have "ChannelRequested l address \<in> set (fst (serveListeners services inputs))"
    "set (fst (serveListeners services inputs)) \<subseteq> set (fst (runOn nw services inputs))"
    using run(1) l listenAll_channels [OF l]
    by (auto simp: runOn_def closeListeners_def split: option.splits prod.splits)
  then obtain i opens where i: "LocalAccepted i l opens \<in> set inputs" "i < length services"
      "address = joinHostPort (ls_Name (services ! i)) ''0''" "(if opens then Joined l else LocalClosed l) \<in> set evs"
    using serveListeners_channels run(2) by (metis subsetD)
  have "distinct (map ls_Name services)" using checked by (auto simp: checkServices_def checkRequested_None split: if_splits)
  then have unique: "\<forall>j < length services. ls_Name (services ! j) = ls_Name (services ! i) \<longrightarrow> j = i"
    using i(2) nth_eq_iff_index_eq [of "map ls_Name services"] by auto
  have "plainName (ls_Name (services ! i))" using assms(3) i(2) by (simp add: list_all_length)
  then show ?thesis using i unique channelTarget_service assms(4) by metis
qed

section \<open>The server at the other end\<close>

text \<open>
  The SSH library offers the client's methods in order until the server's handler accepts one, after
  the client has accepted the host key.
\<close>

fun serverAccepts :: "ssh_lib \<Rightarrow> 'e Config \<Rightarrow> auth_method \<Rightarrow> serverState \<times> connection \<Rightarrow> (serverState \<times> connection) \<times> bool" where
  "serverAccepts L config (AuthPassword p) = passwordHandler config p"
| "serverAccepts L config (AuthPublicKeys s) = publicKeyHandler config (signerPublicKey L s)"

fun tryMethods :: "ssh_lib \<Rightarrow> 'e Config \<Rightarrow> auth_method list \<Rightarrow> serverState \<times> connection \<Rightarrow> (serverState \<times> connection) option" where
  "tryMethods L config [] s = None"
| "tryMethods L config (m # ms) s =
     (case serverAccepts L config m s of (s', ok) \<Rightarrow> if ok then Some s' else tryMethods L config ms s')"

record 'e remote =
  rm_lib :: ssh_lib
  rm_config :: "'e Config"
  rm_hostKey :: PublicKey
  rm_services :: "string \<Rightarrow> 'e + Service list"
  rm_enroll :: "(string \<Rightarrow> string \<Rightarrow> 'e + string) option"
  rm_now :: int
  rm_state :: serverState

definition remoteHandshake :: "'e remote \<Rightarrow> string \<Rightarrow> sshClientConfig \<Rightarrow> (serverState \<times> connection) option" where
  "remoteHandshake R address config =
     (if hc_HostKeyCallback config address (rm_hostKey R)
      then map_option (\<lambda>(sv, cx). (sv, cx\<lparr>cx_established := True\<rparr>))
        (tryMethods (rm_lib R) (rm_config R) (hc_Auth config) (rm_state R, newConnection (hc_User config)))
      else None)"

definition enc_ProtocolService :: "ProtocolService \<Rightarrow> json" where
  "enc_ProtocolService s = JObj [(''name'', JStr (ps_Name s)), (''local_port'', enc_int (ps_LocalPort s))]"

definition remoteRequest :: "(string \<Rightarrow> string) \<Rightarrow> 'e remote \<Rightarrow> serverState \<times> connection \<Rightarrow> string \<Rightarrow> (bool \<times> string) option" where
  "remoteRequest encToken R s requestType =
     Some (case snd (serverRequest (rm_now R) (rm_services R) (rm_enroll R) requestType s) of
        Refused \<Rightarrow> (False, [])
      | Catalog services \<Rightarrow> (True, compactJson (JArr (map enc_ProtocolService services)))
      | EnrollResponse token \<Rightarrow> (True, encToken token))"

definition connectedTo :: "(string \<Rightarrow> string) \<Rightarrow> (string \<Rightarrow> string option) \<Rightarrow> 'e remote \<Rightarrow> (serverState \<times> connection) network" where
  "connectedTo encToken decToken R =
     \<lparr>nw_dial = \<lambda>_ _. True, nw_setDeadline = True, nw_handshake = remoteHandshake R, nw_clearDeadline = True,
      nw_request = remoteRequest encToken R, nw_unmarshalToken = decToken, nw_listen = Some\<rparr>"

lemma dialSSH_connectedTo:
  "snd (dialSSH (connectedTo encToken decToken R) address config timeout) =
     (case remoteHandshake R address config of None \<Rightarrow> Inl HandshakeFailed | Some c \<Rightarrow> Inr c)"
  by (simp add: dialSSH_def connectedTo_def split: option.split)

lemma withConnection_Inr:
  "snd (withConnection d body) = Inr r \<longleftrightarrow> (\<exists>c. snd d = Inr c \<and> snd (body c) = Inr r)"
  by (cases d) (auto simp: withConnection_def split: sum.splits prod.splits)

subsection \<open>Enrollment\<close>

lemma EnrollmentIdentity_user: "identity \<noteq> [] \<Longrightarrow> EnrollmentIdentity (EnrollmentUser identity) = Some identity"
  by (simp add: EnrollmentIdentity_def EnrollmentUser_def cutPrefix_def)

definition provisions :: "'e Config \<Rightarrow> string \<Rightarrow> bool" where
  "provisions config identity \<longleftrightarrow> (case sc_Provisioner config of None \<Rightarrow> True | Some provision \<Rightarrow> provision identity)"

lemma invite_login:
  assumes "identity \<noteq> []"
  shows "tryMethods L config [AuthPassword invite] (sv, newConnection (EnrollmentUser identity)) = Some (sv', cx) \<longleftrightarrow>
    (\<exists>check. sc_Invites config = Some check \<and> check identity invite) \<and> provisions config identity \<and>
    sv' = observeAuthentication methodEnrollment MetricSuccess (fst (provisionEnvironment config identity methodEnrollment sv)) \<and>
    cx = (newConnection (EnrollmentUser identity))\<lparr>cx_enrollment := Some (identity, invite)\<rparr>"
  using assms
  by (auto simp: passwordHandler_def EnrollmentIdentity_user newConnection_def provisionEnvironment_def provisions_def Let_def
      split: option.splits prod.splits if_splits)

lemma requests_differ: "EnrollRequestType \<noteq> ServicesRequestType"
  by (simp add: EnrollRequestType_def ServicesRequestType_def)

lemma requestEnrollment_remote:
  assumes "\<And>t. decToken (encToken t) = Some t"
    and "cx_User cx = EnrollmentUser identity" "cx_expiry cx = None" "cx_enrollment cx = Some (identity, invite)"
  shows "snd (requestEnrollment (connectedTo encToken decToken R) (sv, cx)) = Inr token \<longleftrightarrow>
    token \<noteq> [] \<and> (\<exists>enroll. rm_enroll R = Some enroll \<and> enroll identity invite = Inr token)"
  using assms requests_differ
  by (auto simp: requestEnrollment_def connectedTo_def remoteRequest_def serverRequest_def expiringRequestHandler_def
      enforceAuthenticationExpiry_def enrollmentHandler_def split: option.splits sum.splits)

text \<open>
  Claim C32.  Enrolling against the daemon's SSH server yields a token exactly when the client trusts the
  server's host key, the server knows the invite for the identity, the environment is provisioned and
  the enrollment redeems the invite for that identity; the token is the one the enrollment made.
\<close>

theorem enrollment_end_to_end:
  assumes "\<And>t. decToken (encToken t) = Some t"
  shows "snd (Enroll_client (connectedTo encToken decToken R) config) = Inr token \<longleftrightarrow>
    en_Identity config \<noteq> [] \<and> en_Invite config \<noteq> [] \<and> token \<noteq> [] \<and>
    (\<exists>trusts. en_HostKey config = Some trusts \<and>
      trusts (if en_ServerAddress config = [] then DefaultServerAddress else en_ServerAddress config) (rm_hostKey R)) \<and>
    (\<exists>check. sc_Invites (rm_config R) = Some check \<and> check (en_Identity config) (en_Invite config)) \<and>
    provisions (rm_config R) (en_Identity config) \<and>
    (\<exists>enroll. rm_enroll R = Some enroll \<and> enroll (en_Identity config) (en_Invite config) = Inr token)"
proof (cases "en_Identity config = [] \<or> en_Invite config = [] \<or> en_HostKey config = None")
  case True
  then show ?thesis by (auto simp: Enroll_client_def Let_def split: option.splits)
next
  case False
  then obtain trusts where t: "en_HostKey config = Some trusts" "en_Identity config \<noteq> []" "en_Invite config \<noteq> []" by auto
  let ?R = "connectedTo encToken decToken R"
  let ?address = "if en_ServerAddress config = [] then DefaultServerAddress else en_ServerAddress config"
  have answer: "snd (requestEnrollment ?R (sv, cx\<lparr>cx_established := True\<rparr>)) = Inr token \<longleftrightarrow>
      token \<noteq> [] \<and> (\<exists>enroll. rm_enroll R = Some enroll \<and> enroll (en_Identity config) (en_Invite config) = Inr token)"
    if "cx = (newConnection (EnrollmentUser (en_Identity config)))\<lparr>cx_enrollment := Some (en_Identity config, en_Invite config)\<rparr>" for sv cx
    using that by (intro requestEnrollment_remote assms) (simp_all add: newConnection_def)
  have "snd (Enroll_client ?R config) = Inr token \<longleftrightarrow>
      trusts ?address (rm_hostKey R) \<and>
      (\<exists>sv cx. tryMethods (rm_lib R) (rm_config R) [AuthPassword (en_Invite config)]
          (rm_state R, newConnection (EnrollmentUser (en_Identity config))) = Some (sv, cx) \<and>
        snd (requestEnrollment ?R (sv, cx\<lparr>cx_established := True\<rparr>)) = Inr token)"
    using t by (auto simp: Enroll_client_def Let_def withConnection_Inr dialSSH_connectedTo remoteHandshake_def
        split: option.splits simp del: tryMethods.simps)
  then show ?thesis using t answer by (simp add: invite_login [OF t(2)] del: tryMethods.simps) blast
qed

subsection \<open>The catalog\<close>

definition publishable :: "ProtocolService \<Rightarrow> bool" where
  "publishable s \<longleftrightarrow> valid_utf8 (ps_Name s) \<and> 0 \<le> ps_LocalPort s \<and> ps_LocalPort s < 2 ^ 32"

lemma decode_ProtocolService:
  assumes "publishable s"
  shows "dec_ProtocolService (enc_ProtocolService s) \<lparr>ps_Name = [], ps_LocalPort = 0\<rparr> = Inr s"
proof -
  let ?fields = "[field ''name'' dec_string ps_Name ps_Name_update, field ''local_port'' (dec_uint 32) ps_LocalPort ps_LocalPort_update]"
  have "dec_string (JStr (ps_Name s)) [] = Inr (ps_Name s)"
    using dec_string_enc assms by (simp add: publishable_def enc_string_def)
  then have one: "dec_struct False ?fields (JObj (emit ''name'' (JStr (ps_Name s)))) \<lparr>ps_Name = [], ps_LocalPort = 0\<rparr> =
      Inr \<lparr>ps_Name = ps_Name s, ps_LocalPort = 0\<rparr>"
    by (subst dec_member(1) [where d = dec_string and get = ps_Name and upd = ps_Name_update]) (simp_all add: field_def)
  have "dec_uint 32 (enc_int (ps_LocalPort s)) 0 = Inr (ps_LocalPort s)"
    by (rule dec_uint_enc) (use assms in \<open>simp_all add: publishable_def\<close>)
  then have two: "dec_struct False ?fields (JObj (emit ''local_port'' (enc_int (ps_LocalPort s)))) \<lparr>ps_Name = ps_Name s, ps_LocalPort = 0\<rparr> = Inr s"
    by (subst dec_member(1) [where d = "dec_uint 32" and get = ps_LocalPort and upd = ps_LocalPort_update])
      (auto simp: field_def intro: ProtocolService.equality)
  have "enc_ProtocolService s = JObj (emit ''name'' (JStr (ps_Name s)) @ emit ''local_port'' (enc_int (ps_LocalPort s)))"
    by (simp add: enc_ProtocolService_def emit_def)
  then show ?thesis by (simp only: dec_ProtocolService_def dec_struct_append one two sum.case)
qed

lemma catalog_text:
  assumes "list_all publishable services"
  shows "parseJson (compactJson (JArr (map enc_ProtocolService services))) = Some (JArr (map enc_ProtocolService services))"
proof -
  have wf: "wf_numbers (enc_int n)" if "0 \<le> n" for n
  proof (cases "n = 0")
    case True
    have "wf_numbers (enc_int 0)" by code_simp
    with True show ?thesis by simp
  next
    case False
    with that show ?thesis by (intro wf_enc_int) simp
  qed
  have one: "wf_numbers (enc_ProtocolService s)" "nesting (enc_ProtocolService s) = 1" "readable (enc_ProtocolService s) = enc_ProtocolService s"
    if "publishable s" for s
    using that wf by (simp_all add: enc_ProtocolService_def publishable_def valid_utf8_def enc_int_def coerceUTF8_ascii)
  have "wf_numbers (JArr (map enc_ProtocolService services))" using assms one(1) by (auto simp: list_all_iff)
  moreover have "fold max (map nesting (map enc_ProtocolService services)) 0 \<le> 1"
  proof -
    have "fold max ns m \<le> (1 :: nat)" if "list_all (\<lambda>n. n \<le> 1) ns" "m \<le> 1" for ns m
      using that by (induction ns arbitrary: m) auto
    then show ?thesis using assms one(2) by (simp add: list_all_iff)
  qed
  then have "nesting (JArr (map enc_ProtocolService services)) \<le> maxNestingDepth" by (simp add: maxNestingDepth_def)
  moreover have "readable (JArr (map enc_ProtocolService services)) = JArr (map enc_ProtocolService services)"
    using assms one(3) by (simp add: list_all_iff)
  ultimately show ?thesis using parseJson_print(1) by fastforce
qed

text \<open>The catalog's round trip.\<close>

lemma decodeCatalog_text:
  assumes "list_all publishable services"
  shows "decodeCatalog (compactJson (JArr (map enc_ProtocolService services))) = Inr services"
proof -
  have "dec_elems dec_ProtocolService \<lparr>ps_Name = [], ps_LocalPort = 0\<rparr> (map enc_ProtocolService services) [] = Inr services"
    by (rule dec_elems_enc) (use assms decode_ProtocolService in \<open>simp add: list_all_iff\<close>)
  then show ?thesis using catalog_text [OF assms] by (simp add: decodeCatalog_def elems_def)
qed

lemma tryMethods_user: "tryMethods L config ms (sv, cx) = Some (sv', cx') \<Longrightarrow> cx_User cx' = cx_User cx"
proof (induction ms arbitrary: sv cx)
  case (Cons m ms)
  obtain sv1 cx1 ok where m: "serverAccepts L config m (sv, cx) = ((sv1, cx1), ok)"
    by (metis prod.exhaust)
  then have "cx_User cx1 = cx_User cx"
    by (cases m) (auto simp: passwordHandler_def publicKeyHandler_def authenticateConnection_def Let_def
        split: option.splits sum.splits prod.splits if_splits bool.splits)
  with Cons m show ?case by (auto split: if_splits)
qed simp

text \<open>The connection of a login, and that it may still be used.\<close>

definition clientLogin :: "'e remote \<Rightarrow> ServiceClientConfig \<Rightarrow> serverState \<times> connection \<Rightarrow> bool" where
  "clientLogin R c s \<longleftrightarrow> tryMethods (rm_lib R) (rm_config R) (authMethods c) (rm_state R, newConnection (cc_Identity c)) = Some s"

definition stillValid :: "int \<Rightarrow> connection \<Rightarrow> bool" where
  "stillValid now cx \<longleftrightarrow> (case cx_expiry cx of None \<Rightarrow> True | Some validBefore \<Rightarrow> now < validBefore)"

lemma requestServices_remote:
  assumes "\<And>services. rm_services R (cx_User cx) = Inr services \<Longrightarrow>
      list_all publishable (map (\<lambda>s. \<lparr>ps_Name = svc_Name s, ps_LocalPort = svc_LocalPort s\<rparr>) services)"
  shows "snd (requestServices (connectedTo encToken decToken R) (sv, cx\<lparr>cx_established := True\<rparr>)) = Inr catalog \<longleftrightarrow>
    stillValid (rm_now R) cx \<and> EnrollmentIdentity (cx_User cx) = None \<and>
    (\<exists>services. rm_services R (cx_User cx) = Inr services \<and>
      catalog = map (\<lambda>s. \<lparr>ps_Name = svc_Name s, ps_LocalPort = svc_LocalPort s\<rparr>) services)"
proof -
  let ?reply = "snd (serviceCatalogHandler (rm_services R) (sv, cx))"
  have e: "snd (enforceAuthenticationExpiry (rm_now R) (cx\<lparr>cx_established := True\<rparr>)) = stillValid (rm_now R) cx"
    "cx_User (fst (enforceAuthenticationExpiry (rm_now R) (cx\<lparr>cx_established := True\<rparr>))) = cx_User cx"
    by (auto simp: enforceAuthenticationExpiry_def stillValid_def split: option.splits)
  have "snd (serverRequest (rm_now R) (rm_services R) (rm_enroll R) ServicesRequestType (sv, cx\<lparr>cx_established := True\<rparr>)) =
      (if stillValid (rm_now R) cx then ?reply else Refused)"
    using e by (auto simp: serverRequest_def expiringRequestHandler_def serviceCatalogHandler_def split: prod.splits bool.splits sum.splits)
  then show ?thesis
    using assms decodeCatalog_text
    by (auto simp: requestServices_def connectedTo_def remoteRequest_def serviceCatalogHandler_def simp del: map_map split: sum.splits)
qed

text \<open>
  Claim C33.  Listing the services against the daemon's SSH server gives the catalog exactly when the
  client trusts the host key and one of its methods logs the identity in, the authentication has not
  expired, the identity is not an enrollment name and the gateway has an answer; and then it gives the
  names and ports of the gateway's services for that identity, in their order.
\<close>

theorem catalog_end_to_end:
  assumes "\<And>identity services. rm_services R identity = Inr services \<Longrightarrow>
      list_all publishable (map (\<lambda>s. \<lparr>ps_Name = svc_Name s, ps_LocalPort = svc_LocalPort s\<rparr>) services)"
    and "c = setDefaults config"
  shows "snd (ListServices (connectedTo encToken decToken R) config) = Inr catalog \<longleftrightarrow>
    serviceConfigValidate c = None \<and> (\<exists>trusts. cc_HostKey c = Some trusts \<and> trusts (cc_ServerAddress c) (rm_hostKey R)) \<and>
    (\<exists>sv cx. clientLogin R c (sv, cx) \<and> stillValid (rm_now R) cx) \<and> EnrollmentIdentity (cc_Identity c) = None \<and>
    (\<exists>services. rm_services R (cc_Identity c) = Inr services \<and>
      catalog = map (\<lambda>s. \<lparr>ps_Name = svc_Name s, ps_LocalPort = svc_LocalPort s\<rparr>) services)"
proof (cases "serviceConfigValidate c")
  case (Some e)
  with assms(2) show ?thesis by (simp add: ListServices_def Let_def)
next
  case None
  then obtain trusts where k: "cc_HostKey c = Some trusts" by (auto simp: serviceConfigValidate_def split: if_splits)
  have "snd (ListServices (connectedTo encToken decToken R) config) = Inr catalog \<longleftrightarrow>
      trusts (cc_ServerAddress c) (rm_hostKey R) \<and>
      (\<exists>sv cx. clientLogin R c (sv, cx) \<and>
        snd (requestServices (connectedTo encToken decToken R) (sv, cx\<lparr>cx_established := True\<rparr>)) = Inr catalog)"
    using None k assms(2)
    by (auto simp: ListServices_def Let_def withConnection_Inr serviceDial_def dialSSH_connectedTo remoteHandshake_def clientLogin_def
        split: option.splits simp del: tryMethods.simps)
  moreover have "cx_User cx = cc_Identity c" if "clientLogin R c (sv, cx)" for sv cx
    using that tryMethods_user by (fastforce simp: clientLogin_def newConnection_def)
  moreover have "snd (requestServices (connectedTo encToken decToken R) (sv, cx\<lparr>cx_established := True\<rparr>)) = Inr catalog \<longleftrightarrow>
      stillValid (rm_now R) cx \<and> EnrollmentIdentity (cx_User cx) = None \<and>
      (\<exists>services. rm_services R (cx_User cx) = Inr services \<and>
        catalog = map (\<lambda>s. \<lparr>ps_Name = svc_Name s, ps_LocalPort = svc_LocalPort s\<rparr>) services)" for sv cx
    by (rule requestServices_remote) (rule assms(1))
  ultimately have "snd (ListServices (connectedTo encToken decToken R) config) = Inr catalog \<longleftrightarrow>
      trusts (cc_ServerAddress c) (rm_hostKey R) \<and>
      (\<exists>sv cx. clientLogin R c (sv, cx) \<and> stillValid (rm_now R) cx \<and> EnrollmentIdentity (cc_Identity c) = None \<and>
        (\<exists>services. rm_services R (cc_Identity c) = Inr services \<and>
          catalog = map (\<lambda>s. \<lparr>ps_Name = svc_Name s, ps_LocalPort = svc_LocalPort s\<rparr>) services))"
    by (simp cong: conj_cong)
  then show ?thesis using None k by simp blast
qed

section \<open>A client and a server\<close>

definition demoRemote :: "unit remote" where
  "demoRemote =
     \<lparr>rm_lib = demoSsh,
      rm_config = \<lparr>sc_Authenticator = (\<lambda>a. Inr (if at_Identity a = ''alice'' \<and> at_Password a = ''secret''
          then Some \<lparr>res_Identity = ''alice'', res_Provider = ''demo'', res_ValidBefore = Some 100\<rparr> else None)),
        sc_Invites = Some (\<lambda>i v. i = ''bob'' \<and> v = ''invite''), sc_Provisioner = Some (\<lambda>i. True)\<rparr>,
      rm_hostKey = PlainKey ''host'',
      rm_services = (\<lambda>i. Inr (if i = ''alice'' then [\<lparr>svc_Name = ''web'', svc_Target = ''web.dev:80'', svc_LocalPort = 8080, svc_Workload = None\<rparr>] else [])),
      rm_enroll = Some (\<lambda>i v. Inr ''token''), rm_now = 50, rm_state = demoServer\<rparr>"

abbreviation "demoNetwork \<equiv> connectedTo id Some demoRemote"

definition trustsHost :: hostKeyCallback where
  "trustsHost address key \<longleftrightarrow> address = ''127.0.0.1:2222'' \<and> key = PlainKey ''host''"

definition demoClientConfig :: ServiceClientConfig where
  "demoClientConfig = \<lparr>cc_ServerAddress = [], cc_Identity = ''alice'', cc_Token = ''secret'', cc_Signer = None,
     cc_HostKey = Some trustsHost, cc_DialTimeout = 0\<rparr>"

theorem enrollment_end_to_end_witness:
  "snd (Enroll_client demoNetwork \<lparr>en_ServerAddress = [], en_Identity = ''bob'', en_Invite = ''invite'', en_HostKey = Some trustsHost, en_DialTimeout = 0\<rparr>) =
     Inr ''token''"
  by (subst enrollment_end_to_end)
    (simp_all add: demoRemote_def trustsHost_def DefaultServerAddress_def provisions_def)

theorem catalog_end_to_end_witness:
  "snd (ListServices demoNetwork demoClientConfig) = Inr [\<lparr>ps_Name = ''web'', ps_LocalPort = 8080\<rparr>]"
proof (subst catalog_end_to_end [OF _ refl])
  show "list_all publishable (map (\<lambda>s. \<lparr>ps_Name = svc_Name s, ps_LocalPort = svc_LocalPort s\<rparr>) services)"
    if "rm_services demoRemote identity = Inr services" for identity services
  proof -
    have "valid_utf8 ''web''" by code_simp
    with that show ?thesis by (auto simp: demoRemote_def publishable_def split: if_splits)
  qed
  have "EnrollmentIdentity ''alice'' = None" by code_simp
  moreover have "\<exists>s. clientLogin demoRemote (setDefaults demoClientConfig) s \<and> stillValid 50 (snd s)"
    by (simp add: clientLogin_def authMethods_def setDefaults_def demoClientConfig_def demoRemote_def passwordHandler_def
        authenticateConnection_def provisionEnvironment_def newConnection_def Let_def calculation stillValid_def)
  ultimately show "serviceConfigValidate (setDefaults demoClientConfig) = None \<and>
      (\<exists>trusts. cc_HostKey (setDefaults demoClientConfig) = Some trusts \<and>
        trusts (cc_ServerAddress (setDefaults demoClientConfig)) (rm_hostKey demoRemote)) \<and>
      (\<exists>sv cx. clientLogin demoRemote (setDefaults demoClientConfig) (sv, cx) \<and> stillValid (rm_now demoRemote) cx) \<and>
      EnrollmentIdentity (cc_Identity (setDefaults demoClientConfig)) = None \<and>
      (\<exists>services. rm_services demoRemote (cc_Identity (setDefaults demoClientConfig)) = Inr services \<and>
        [\<lparr>ps_Name = ''web'', ps_LocalPort = 8080\<rparr>] = map (\<lambda>s. \<lparr>ps_Name = svc_Name s, ps_LocalPort = svc_LocalPort s\<rparr>) services)"
    by (simp add: setDefaults_def demoClientConfig_def demoRemote_def serviceConfigValidate_def trustsHost_def DefaultServerAddress_def
        DefaultDialTimeout_def Second_def)
qed

definition demoRun :: "net_event list \<times> (ssh_client_err + unit) option" where
  "demoRun = RunServices demoNetwork demoClientConfig [\<lparr>ls_Name = ''web'', ls_ListenAddress = ''127.0.0.1:8080''\<rparr>]
     [LocalAccepted 0 5 True, ContextEnded]"

theorem local_connections_reach_their_service_witness:
  "\<exists>address. ChannelRequested 5 address \<in> set (fst demoRun) \<and> Joined 5 \<in> set (fst demoRun) \<and>
     channelTarget demoGateway (newConnection ''alice'') address = Some 7"
proof -
  let ?services = "[\<lparr>ls_Name = ''web'', ls_ListenAddress = ''127.0.0.1:8080''\<rparr>]"
  have run: "RunServices demoNetwork demoClientConfig ?services [LocalAccepted 0 5 True, ContextEnded] = (fst demoRun, snd demoRun)"
    by (simp add: demoRun_def)
  have e: "EnrollmentIdentity ''alice'' = None" by code_simp
  have "\<exists>c. snd (serviceDial demoNetwork (setDefaults demoClientConfig)) = Inr c"
    by (simp add: serviceDial_def dialSSH_connectedTo remoteHandshake_def authMethods_def setDefaults_def demoClientConfig_def
        demoRemote_def passwordHandler_def authenticateConnection_def provisionEnvironment_def newConnection_def Let_def e
        trustsHost_def DefaultServerAddress_def)
  then obtain dialled c where d: "serviceDial demoNetwork (setDefaults demoClientConfig) = (dialled, Inr c)"
    by (metis prod.collapse)
  have "serviceConfigValidate (setDefaults demoClientConfig) = None"
    by (simp add: serviceConfigValidate_def setDefaults_def demoClientConfig_def DefaultDialTimeout_def Second_def)
  then have "fst demoRun = dialled @ fst (runOn demoNetwork ?services [LocalAccepted 0 5 True, ContextEnded])"
    using d by (simp add: demoRun_def RunServices_def Let_def checkServices_def split: prod.split)
  moreover have "ChannelRequested 5 ''web:0'' \<in> set (fst (runOn demoNetwork ?services [LocalAccepted 0 5 True, ContextEnded]))"
    by (simp add: runOn_def connectedTo_def connectService_def joinHostPort_def)
  ultimately have channel: "ChannelRequested 5 ''web:0'' \<in> set (fst demoRun)" by simp
  have plain: "list_all (\<lambda>s. plainName (ls_Name s)) ?services" by (simp add: plainName_def)
  have user: "cx_User (newConnection ''alice'') = ''alice''" by (simp add: newConnection_def)
  obtain i opens where i: "LocalAccepted i 5 opens \<in> set [LocalAccepted 0 5 True, ContextEnded]"
    "(if opens then Joined 5 else LocalClosed 5) \<in> set (fst demoRun)"
    "channelTarget demoGateway (newConnection ''alice'') ''web:0'' =
      (case demoGateway (cx_User (newConnection ''alice'')) (ls_Name (?services ! i)) of Opened target \<Rightarrow> Some target | _ \<Rightarrow> None)"
    using local_connections_reach_their_service [OF run channel plain, where gatewayOpen = demoGateway] e user by metis
  then have "i = 0" "opens" by auto
  with i(2,3) have "Joined 5 \<in> set (fst demoRun)" "channelTarget demoGateway (newConnection ''alice'') ''web:0'' = Some 7"
    by (simp_all add: demoGateway_def user)
  with channel show ?thesis by blast
qed

end
