(* ===== verification/Client_Connect_Properties.thy ===== *)
theory Client_Connect_Properties
  imports Client_Command Client_Exchange Client_Services_Properties
begin

text \<open>
  \<open>services\<close> and \<open>connect\<close>: whom a connection is made as and with what, and which services are opened.
\<close>

section \<open>The configuration of a connection\<close>

text \<open>A signer whose public key is a user certificate for the identity and the key.\<close>

definition certificateFor :: "ssh_lib \<Rightarrow> Signer \<Rightarrow> string \<Rightarrow> Signer \<Rightarrow> bool" where
  "certificateFor L key identity s \<longleftrightarrow>
     isCertificate (signerPublicKey L s) \<and> cert_CertType (signerPublicKey L s) = UserCert \<and>
     identity \<in> set (cert_ValidPrincipals (signerPublicKey L s)) \<and>
     marshalKey L (cert_Key (signerPublicKey L s)) = marshalKey L (signerPublicKey L key)"

lemma exchanged_certificate:
  assumes "documented_NewCertSigner L N"
    and "ExchangeSSHCertificate L N client url configuration token keyName identity (Some key) w = (w', Inr s)"
  shows "certificateFor L key identity s"
proof -
  from assms(2) obtain contents status where "decodeExchange L N identity key contents status = Inr s"
    by (auto simp: exchange_Inr)
  then obtain token' where "acceptCertificate L N identity key token' = Inr s" by (auto simp: decodeExchange_Inr)
  then obtain c where c: "isCertificate c" "cert_CertType c = UserCert" "marshalKey L (cert_Key c) = marshalKey L (signerPublicKey L key)"
    "identity \<in> set (cert_ValidPrincipals c)" "N c key = Some s" by (auto simp: acceptCertificate_Inr)
  with assms(1) have "signerPublicKey L s = c" by (auto simp: documented_NewCertSigner_def)
  with c show ?thesis by (simp add: certificateFor_def)
qed

lemma certificateSigner_Inr:
  assumes "certificateSigner ce saved forceDevice key w = (prompts, w', Some (Inr s))"
  shows "\<exists>w1 authentication oc r. DiscoverAuthentication (ce_http ce) (pf_APIURL saved) w = (w1, Inr authentication) \<and>
    cf_Mode authentication = MethodOIDC \<and> cf_OIDC authentication = Some oc \<and>
    OIDCLogin (\<not> Option.is_none (ce_http ce)) (ce_oauth ce) (ce_login ce) oc (pf_OIDCDevice saved \<or> forceDevice) = (prompts, Some (Inr r)) \<and>
    lr_Identity r = pf_Identity saved \<and>
    ExchangeSSHCertificate (lib_ssh (ce_libs ce)) (ce_newCertSigner ce) (ce_http ce) (pf_APIURL saved) authentication
      (lr_SubjectToken r) (pf_KeyName saved) (pf_Identity saved) (Some key) w1 = (w', Inr s)"
  using assms unfolding certificateSigner_def
  by (auto split: prod.splits sum.splits option.splits if_splits bool.splits)

text \<open>
  Claim C27.  The client connects as the identity of the profile and with the host key check it was
  given, and authenticates with the key in the profile's key file; a profile that logs in with OIDC
  first goes through a login of that very identity, anew for every command, and then connects with a
  user certificate that names the identity and carries that key.
\<close>

theorem connection_identity_vouched:
  assumes "documented_NewCertSigner (lib_ssh (ce_libs ce)) (ce_newCertSigner ce)"
    and "serviceClientConfig ce saved hostKey forceDevice fs w = (prompts, w', Some (Inr config))"
  shows "cc_Identity config = pf_Identity saved \<and> cc_ServerAddress config = pf_ServerAddress saved \<and>
    cc_Token config = pf_Token saved \<and> cc_HostKey config = Some hostKey \<and>
    (if pf_PrivateKey saved = [] then cc_Signer config = None
     else \<exists>key s. LoadPrivateKey (lib_ssh (ce_libs ce)) (ce_os ce) (pf_PrivateKey saved) fs = Inr key \<and> cc_Signer config = Some s \<and>
       (if pf_AuthenticationMode saved = MethodOIDC
        then certificateFor (lib_ssh (ce_libs ce)) key (pf_Identity saved) s \<and>
          (\<exists>oc r. OIDCLogin (\<not> Option.is_none (ce_http ce)) (ce_oauth ce) (ce_login ce) oc (pf_OIDCDevice saved \<or> forceDevice) =
             (prompts, Some (Inr r)) \<and> lr_Identity r = pf_Identity saved)
        else s = key))"
proof (cases "pf_PrivateKey saved = []")
  case True
  then show ?thesis using assms(2) by (auto simp: serviceClientConfig_def Let_def)
next
  case False
  then obtain key where key: "LoadPrivateKey (lib_ssh (ce_libs ce)) (ce_os ce) (pf_PrivateKey saved) fs = Inr key"
    using assms(2) by (auto simp: serviceClientConfig_def Let_def split: sum.splits)
  show ?thesis
  proof (cases "pf_AuthenticationMode saved = MethodOIDC")
    case True
    obtain s where s: "certificateSigner ce saved forceDevice key w = (prompts, w', Some (Inr s))"
      "config = \<lparr>cc_ServerAddress = pf_ServerAddress saved, cc_Identity = pf_Identity saved, cc_Token = pf_Token saved,
         cc_Signer = Some s, cc_HostKey = Some hostKey, cc_DialTimeout = 0\<rparr>"
      using assms(2) False True key by (auto simp: serviceClientConfig_def Let_def split: prod.splits option.splits sum.splits)
    obtain w1 authentication oc r where c:
        "OIDCLogin (\<not> Option.is_none (ce_http ce)) (ce_oauth ce) (ce_login ce) oc (pf_OIDCDevice saved \<or> forceDevice) = (prompts, Some (Inr r))"
        "lr_Identity r = pf_Identity saved"
        "ExchangeSSHCertificate (lib_ssh (ce_libs ce)) (ce_newCertSigner ce) (ce_http ce) (pf_APIURL saved) authentication
          (lr_SubjectToken r) (pf_KeyName saved) (pf_Identity saved) (Some key) w1 = (w', Inr s)"
      using certificateSigner_Inr [OF s(1)] by blast
    from exchanged_certificate [OF assms(1) c(3)] show ?thesis using False True key s(2) c(1,2) by auto
  next
    case other: False
    with assms(2) False key show ?thesis by (auto simp: serviceClientConfig_def Let_def)
  qed
qed

section \<open>The services that are opened\<close>

text \<open>The service of a name: the last entry of the catalog with it.\<close>

definition entryOf :: "ProtocolService list \<Rightarrow> string \<Rightarrow> ProtocolService option" where
  "entryOf catalog name = find (\<lambda>s. ps_Name s = name) (rev catalog)"

lemma entryOf_Some: "entryOf catalog name = Some s \<Longrightarrow> ps_Name s = name \<and> s \<in> set catalog"
  by (auto simp: entryOf_def find_Some_iff in_set_conv_nth) (metis length_rev nth_mem set_rev in_set_conv_nth)

lemma entryOf_None: "entryOf catalog name = None \<longleftrightarrow> name \<notin> ps_Name ` set catalog"
  by (auto simp: entryOf_def find_None_iff)

lemma selectService_Inr:
  "selectService catalog host spec = Inr s \<longleftrightarrow>
   (case cut spec (CHR ''='') of (name, address, overridden) \<Rightarrow>
      ls_Name s = name \<and> (\<exists>service. entryOf catalog name = Some service \<and>
        ls_ListenAddress s = (if overridden then address else joinHostPort host (decString (ps_LocalPort service)))))"
  by (cases s) (auto simp: selectService_def entryOf_def split: prod.splits option.splits)

text \<open>
  Claim C36.  The services a user asks for are opened in the order asked, each only if it is in the
  catalog, at the address after its equals sign, or else at the listen host and the catalog's port;
  asking for one that is not granted, or for none when none is granted, is an error.  Asking for nothing
  opens every granted service once, in the order of the names, and such a selection is never refused by
  the listeners.
\<close>

theorem selected_services:
  "(selectServices catalog specifications host = Inr selected \<longleftrightarrow> selected \<noteq> [] \<and>
      list_all2 (\<lambda>specification s. case cut specification (CHR ''='') of (name, address, overridden) \<Rightarrow>
          ls_Name s = name \<and> (\<exists>service. entryOf catalog name = Some service \<and>
            ls_ListenAddress s = (if overridden then address else joinHostPort host (decString (ps_LocalPort service)))))
        (if specifications = [] then sort (remdups (map ps_Name catalog)) else specifications) selected) \<and>
   (catalog \<noteq> [] \<and> list_all (\<lambda>s. ps_Name s \<noteq> [] \<and> CHR ''='' \<notin> set (ps_Name s)) catalog \<longrightarrow>
      (\<exists>all. selectServices catalog [] host = Inr all \<and> map ls_Name all = sort (remdups (map ps_Name catalog)) \<and>
         checkServices all = None))"
proof (intro conjI impI)
  have "selectServices catalog specifications host = Inr selected \<longleftrightarrow> selected \<noteq> [] \<and>
      rmap (selectService catalog host) (if specifications = [] then sort (remdups (map ps_Name catalog)) else specifications) = Inr selected"
    by (auto simp: selectServices_def Let_def split: sum.splits)
  then show "selectServices catalog specifications host = Inr selected \<longleftrightarrow> selected \<noteq> [] \<and>
      list_all2 (\<lambda>specification s. case cut specification (CHR ''='') of (name, address, overridden) \<Rightarrow>
          ls_Name s = name \<and> (\<exists>service. entryOf catalog name = Some service \<and>
            ls_ListenAddress s = (if overridden then address else joinHostPort host (decString (ps_LocalPort service)))))
        (if specifications = [] then sort (remdups (map ps_Name catalog)) else specifications) selected"
    by (simp only: rmap_Inr_iff selectService_Inr)
next
  assume names: "catalog \<noteq> [] \<and> list_all (\<lambda>s. ps_Name s \<noteq> [] \<and> CHR ''='' \<notin> set (ps_Name s)) catalog"
  let ?names = "sort (remdups (map ps_Name catalog))"
  define pick where "pick name = \<lparr>ls_Name = name, ls_ListenAddress = joinHostPort host (decString (ps_LocalPort (the (entryOf catalog name))))\<rparr>" for name
  have "selectService catalog host name = Inr (pick name)" if listed: "name \<in> set ?names" for name
  proof -
    from listed names have "cut name (CHR ''='') = (name, [], False)" by (auto simp: cut_def list_all_iff)
    moreover obtain service where "entryOf catalog name = Some service"
      using listed entryOf_None [of catalog name] by (cases "entryOf catalog name") auto
    ultimately show ?thesis by (simp add: selectService_Inr pick_def)
  qed
  then have "rmap (selectService catalog host) ?names = Inr (map pick ?names)" by (rule rmap_total)
  moreover have ne: "?names \<noteq> []" using names by (metis map_is_Nil_conv remdups_eq_nil_iff set_empty set_sort)
  ultimately have "selectServices catalog [] host = Inr (map pick ?names)"
    by (simp add: selectServices_def Let_def del: sort_key_simps)
  moreover have m: "map ls_Name (map pick ?names) = ?names" by (simp add: pick_def comp_def)
  moreover have "checkServices (map pick ?names) = None"
  proof -
    have "list_all (\<lambda>s. ls_Name s \<noteq> [] \<and> ls_ListenAddress s \<noteq> []) (map pick ?names)"
      using names by (auto simp: list_all_iff pick_def joinHostPort_def)
    moreover have "distinct (map ls_Name (map pick ?names))" unfolding m by simp
    ultimately show ?thesis using ne by (simp add: checkServices_def checkRequested_None)
  qed
  ultimately show "\<exists>all. selectServices catalog [] host = Inr all \<and> map ls_Name all = ?names \<and> checkServices all = None" by blast
qed

section \<open>Selections\<close>

definition demoCatalog :: "ProtocolService list" where
  "demoCatalog = [\<lparr>ps_Name = ''web'', ps_LocalPort = 8080\<rparr>, \<lparr>ps_Name = ''db'', ps_LocalPort = 5432\<rparr>]"

theorem selected_services_witness:
  "(\<exists>s. selectServices demoCatalog [''db=[::1]:9''] ''127.0.0.1'' = Inr [s] \<and> ls_ListenAddress s = ''[::1]:9'') \<and>
   (\<exists>all. selectServices demoCatalog [] ''127.0.0.1'' = Inr all \<and> map ls_Name all = [''db'', ''web''] \<and> checkServices all = None)"
proof
  have cuts: "cut ''db=[::1]:9'' (CHR ''='') = (''db'', ''[::1]:9'', True)" "entryOf demoCatalog ''db'' = Some \<lparr>ps_Name = ''db'', ps_LocalPort = 5432\<rparr>"
    by code_simp+
  have "selectServices demoCatalog [''db=[::1]:9''] ''127.0.0.1'' = Inr [\<lparr>ls_Name = ''db'', ls_ListenAddress = ''[::1]:9''\<rparr>]"
    by (rule selected_services [THEN conjunct1, THEN iffD2]) (simp add: cuts)
  then show "\<exists>s. selectServices demoCatalog [''db=[::1]:9''] ''127.0.0.1'' = Inr [s] \<and> ls_ListenAddress s = ''[::1]:9''" by auto
  have "list_all (\<lambda>s. ps_Name s \<noteq> [] \<and> CHR ''='' \<notin> set (ps_Name s)) demoCatalog" "demoCatalog \<noteq> []" by (simp_all add: demoCatalog_def)
  moreover have "sort (remdups (map ps_Name demoCatalog)) = [''db'', ''web'']" by code_simp
  ultimately show "\<exists>all. selectServices demoCatalog [] ''127.0.0.1'' = Inr all \<and> map ls_Name all = [''db'', ''web''] \<and> checkServices all = None"
    using selected_services [where catalog = demoCatalog, THEN conjunct2] by auto
qed

section \<open>A connection with a certificate\<close>

definition demoDiscovery :: string where
  "demoDiscovery = ''{\"mode\":\"oidc\",\"tokenEndpoint\":\"/oauth/token\",\"oidc\":{\"issuerURL\":\"https://id\",\"clientID\":\"cli\",\"audience\":\"tearenv\",\"identityClaim\":\"user\",\"deviceFlow\":true}}''"

definition demoDiscovered :: Configuration where
  "demoDiscovered = \<lparr>cf_Mode = ''oidc'', cf_TokenEndpoint = ''/oauth/token'', cf_OIDC = Some \<lparr>oc_IssuerURL = ''https://id'', oc_ClientID = ''cli'',
     oc_Audience = ''tearenv'', oc_Scopes = [''openid''], oc_IdentityClaim = ''user'', oc_SubjectTokenType = SubjectTokenTypeAccessToken,
     oc_DeviceFlow = True\<rparr>\<rparr>"

definition demoOidcHttp :: "string fs httpClient" where
  "demoOidcHttp request w = (if cq_Method request = ''GET'' then (w, Some \<lparr>cp_Code = 200, cp_Body = demoDiscovery, cp_Fails = False\<rparr>)
     else demoAPI request w)"

definition demoDeviceOauth :: oauth_lib where
  "demoDeviceOauth =
     \<lparr>newProvider = \<lambda>issuer. issuer = ''https://id'',
      deviceAuth = \<lambda>_. Some \<lparr>da_VerificationURI = ''https://id/d'', da_VerificationURIComplete = [], da_UserCode = ''AB''\<rparr>,
      deviceAccessToken = \<lambda>_ _. Some \<lparr>tk_AccessToken = demoToken, tk_IDToken = Some ''id''\<rparr>,
      authCodeURL = \<lambda>_ _ _. [], exchangeCode = \<lambda>_ _ _. None,
      verifyIDToken = \<lambda>_ _ raw. if raw = ''id'' then Some (JObj [(''user'', JStr ''ada'')]) else None\<rparr>"

definition demoOidcEnv :: "string fs client_env" where
  "demoOidcEnv =
     \<lparr>ce_libs = demoLibs\<lparr>lib_ssh := demoClientSsh\<rparr>, ce_yaml = demoYaml, ce_toJSON = \<lambda>_. None, ce_keygen = demoKeygen,
      ce_newCertSigner = demoNewCertSigner, ce_http = Some demoOidcHttp, ce_oauth = demoDeviceOauth,
      ce_login = \<lparr>lo_outputFails = False, lo_random = \<lambda>_ _. None, lo_listener = None, lo_events = []\<rparr>,
      ce_os = \<lparr>faults = \<lambda>_. False, tempNames = [], umask = 0\<rparr>, ce_tokenVariable = [],
      ce_input = [], ce_inputFails = False, ce_promptFails = False, ce_outputFails = False, ce_knownhosts = \<lambda>_. None\<rparr>"

definition demoOidcProfile :: Profile where
  "demoOidcProfile = zero_Profile\<lparr>pf_ServerAddress := ''127.0.0.1:2222'', pf_APIURL := ''https://api.example/'', pf_Namespace := ''default'',
     pf_Identity := ''ada'', pf_AuthenticationMode := ''oidc'', pf_KeyName := '' laptop'', pf_OIDCDevice := True, pf_PrivateKey := ''/k'', pf_Insecure := True\<rparr>"

lemma demoDiscovery_decodes: "decodeConfiguration demoDiscovery = Inr demoDiscovered"
  by code_simp

lemma demoOidc_discover: "DiscoverAuthentication (Some demoOidcHttp) ''https://api.example/'' w = (w, Inr demoDiscovered)"
proof -
  have "case resolveAPIEndpoint ''https://api.example/'' ''/.well-known/tearenv-configuration'' of Inl _ \<Rightarrow> False | Inr endpoint \<Rightarrow>
      (case NewRequest ''GET'' endpoint [(''Accept'', ''application/json'')] [] of Inl _ \<Rightarrow> False | Inr r \<Rightarrow> cq_Method r = ''GET'')"
    by code_simp
  moreover have "length demoDiscovery \<le> authenticationResponseLimit" by (simp add: demoDiscovery_def authenticationResponseLimit_def)
  ultimately show ?thesis using demoDiscovery_decodes
    by (auto simp: DiscoverAuthentication_def doLimitedRequest_def readLimited_def demoOidcHttp_def successful_def split: sum.splits)
qed

lemma demoOidc_exchange:
  "ExchangeSSHCertificate demoClientSsh demoNewCertSigner (Some demoOidcHttp) ''https://api.example/'' demoDiscovered demoToken '' laptop'' ''ada''
     (Some ''ada-key'') (fst demoPut) = (fst demoPut, Inr ''ada-cert'')"
proof -
  have r: "exchangeRequest ''https://api.example/'' (normalized demoDiscovered) demoToken '' laptop'' = Inr demoExchangeRequest" by code_simp
  have m: "cq_Method demoExchangeRequest \<noteq> ''GET''" by code_simp
  obtain contents status where d: "doLimitedRequest (Some demoAPI) demoExchangeRequest (fst demoPut) = (fst demoPut, Inr (contents, status))"
      "decodeExchange demoClientSsh demoNewCertSigner ''ada'' ''ada-key'' contents status = Inr ''ada-cert''"
    using demoExchange_run demoExchange_request(1) unfolding exchange_Inr by auto
  have "doLimitedRequest (Some demoOidcHttp) demoExchangeRequest (fst demoPut) = (fst demoPut, Inr (contents, status))"
    using d(1) m by (simp add: doLimitedRequest_def demoOidcHttp_def)
  with r d(2) show ?thesis unfolding exchange_Inr by blast
qed

lemma demoOidc_login:
  "\<exists>out. OIDCLogin True demoDeviceOauth (ce_login demoOidcEnv) (the (cf_OIDC demoDiscovered)) True =
     (out, Some (Inr \<lparr>lr_SubjectToken = demoToken, lr_SubjectTokenType = SubjectTokenTypeAccessToken, lr_Identity = ''ada''\<rparr>))"
proof -
  have "trimSpace (oc_IssuerURL (the (cf_OIDC demoDiscovered))) \<noteq> []" "trimSpace (oc_ClientID (the (cf_OIDC demoDiscovered))) \<noteq> []"
    "loginConfiguration (the (cf_OIDC demoDiscovered)) = the (cf_OIDC demoDiscovered)"
    "validateOIDCToken demoDeviceOauth (the (cf_OIDC demoDiscovered)) (Some \<lparr>tk_AccessToken = demoToken, tk_IDToken = Some ''id''\<rparr>) [] =
       Inr \<lparr>lr_SubjectToken = demoToken, lr_SubjectTokenType = SubjectTokenTypeAccessToken, lr_Identity = ''ada''\<rparr>"
    by code_simp+
  then show ?thesis
    unfolding OIDCLogin_Inr obtainToken_Inr oidcDeviceLogin_Inr
    by (auto simp: demoDeviceOauth_def demoOidcEnv_def demoDiscovered_def)
qed

theorem connection_identity_vouched_witness:
  "\<exists>prompts config s. serviceClientConfig demoOidcEnv demoOidcProfile trustsHost False [(''/k'', Regular 384 (Some ''ada-key''))] (fst demoPut) =
       (prompts, fst demoPut, Some (Inr config)) \<and> cc_Identity config = ''ada'' \<and> cc_Signer config = Some s \<and>
     certificateFor demoClientSsh ''ada-key'' ''ada'' s"
proof -
  let ?fs = "[(''/k'', Regular 384 (Some ''ada-key''))]"
  have key: "LoadPrivateKey demoClientSsh (ce_os demoOidcEnv) ''/k'' ?fs = Inr ''ada-key''"
    by (simp add: LoadPrivateKey_def osStat_def readFile_def demoOidcEnv_def demoClientSsh_def demoSsh_def)
  obtain out where login: "OIDCLogin True demoDeviceOauth (ce_login demoOidcEnv) (the (cf_OIDC demoDiscovered)) True =
     (out, Some (Inr \<lparr>lr_SubjectToken = demoToken, lr_SubjectTokenType = SubjectTokenTypeAccessToken, lr_Identity = ''ada''\<rparr>))"
    using demoOidc_login by blast
  have env: "lib_ssh (ce_libs demoOidcEnv) = demoClientSsh" "ce_newCertSigner demoOidcEnv = demoNewCertSigner"
    "ce_http demoOidcEnv = Some demoOidcHttp" "ce_oauth demoOidcEnv = demoDeviceOauth" by (simp_all add: demoOidcEnv_def)
  have prof: "pf_PrivateKey demoOidcProfile = ''/k''" "pf_APIURL demoOidcProfile = ''https://api.example/''" "pf_Identity demoOidcProfile = ''ada''"
    "pf_AuthenticationMode demoOidcProfile = MethodOIDC" "pf_KeyName demoOidcProfile = '' laptop''" "pf_OIDCDevice demoOidcProfile"
    by (simp_all add: demoOidcProfile_def zero_Profile_def MethodOIDC_def)
  have mode: "cf_Mode demoDiscovered = MethodOIDC" "cf_OIDC demoDiscovered = Some (the (cf_OIDC demoDiscovered))"
    by (simp_all add: demoDiscovered_def MethodOIDC_def)
  have "certificateSigner demoOidcEnv demoOidcProfile False ''ada-key'' (fst demoPut) = (out, fst demoPut, Some (Inr ''ada-cert''))"
    unfolding certificateSigner_def env prof demoOidc_discover prod.case sum.case mode(1)
    by (subst mode(2)) (simp add: login demoOidc_exchange prof)
  then have "\<exists>config. serviceClientConfig demoOidcEnv demoOidcProfile trustsHost False ?fs (fst demoPut) = (out, fst demoPut, Some (Inr config))"
    by (simp add: serviceClientConfig_def Let_def prof env key)
  then obtain config where run: "serviceClientConfig demoOidcEnv demoOidcProfile trustsHost False ?fs (fst demoPut) = (out, fst demoPut, Some (Inr config))"
    by blast
  have "documented_NewCertSigner (lib_ssh (ce_libs demoOidcEnv)) (ce_newCertSigner demoOidcEnv)" using demoClient_documented(2) by (simp add: env)
  from connection_identity_vouched [OF this run] key run show ?thesis by (auto simp: prof env)
qed


end
