(* ===== verification/Spec2Isabelle.thy ===== *)
theory Spec2Isabelle
  imports Authorization_Properties Environment Lifecycle_Properties Registration_Http Server_Properties Kube_Properties Daemon_Properties Proxy Client_Command_Properties Client_Connect_Properties
begin

text \<open>
  Verification of tearenv, an identity-aware gateway to on-demand development services.

  A daemon (\<open>tearenvd\<close>) accepts SSH connections.  A login is decided by an authenticator: personal
  tokens and invites in a credentials file, public keys in a document or in the registration store, or
  certificates that the daemon issues for OpenID Connect callers through an HTTP API.  Before a login
  is accepted, the environment of the identity is provisioned from a blueprint.  A connection then asks
  for the catalog and opens channels to named services; the lifecycle gateway starts the workload of a
  service on the first connection and stops it when it has been idle.

  \<^bold>\<open>Theories and code.\<close>
  \<^item> \<open>Tearenv_Prelude\<close>: results as sums, Go maps as association lists, shared lemmas.
    \<open>Go_Strings\<close>, \<open>Go_Encoding\<close>, \<open>Go_Sha256\<close>, \<open>Go_Time\<close>, \<open>Go_Duration\<close>, \<open>Go_Files\<close>, \<open>Go_Json\<close>,
    \<open>Go_JsonText\<close>, \<open>Go_Url\<close>, \<open>Go_Http\<close> model what the code uses of the Go library; \<open>Libraries\<close> holds the
    third-party libraries as records of functions, with what they document as \<open>documented_\<dots>\<close> predicates
    and instances of these.
  \<^item> \<open>Services\<close>, \<open>Credentials\<close>, \<open>Credentials_File\<close>: \<open>internal/authorization/credentials.go\<close>.  The file is a
    JSON value in a file system; operations take and return both, and a write is a trace of file-system
    states, so that a crash can be placed between any two.
  \<^item> \<open>Authorization\<close>, \<open>Authorization_Properties\<close>: the provider chain, the authorized-keys document and the
    certificate login (\<open>authorization.go\<close>, \<open>public_keys.go\<close>, \<open>certificates.go\<close>).
  \<^item> \<open>Lifecycle\<close>, \<open>Lifecycle_Invariants\<close>, \<open>Lifecycle_Properties\<close>: \<open>internal/server/lifecycle.go\<close>.  The state
    has the runtimes, the timers, the open connections, the gauges and the calls made to the backend;
    \<open>reachable\<close> interleaves opens, closes, timers that fire, callbacks and the shutdown.
  \<^item> \<open>User_Registration\<close>: \<open>api/v1alpha1\<close>.  \<open>Blueprint\<close>, \<open>Blueprint_Rendering\<close>, \<open>Blueprint_Properties\<close>:
    \<open>internal/blueprint\<close>.  \<open>Environment\<close>: \<open>internal/environment/manager.go\<close>.
  \<^item> \<open>Authn\<close>: \<open>internal/authn\<close>.  \<open>Ssh_Issuer\<close>: \<open>internal/sshcert\<close>.  \<open>Registration_Store\<close>,
    \<open>Registration_Properties\<close>, \<open>Registration_Http\<close>: \<open>internal/registration\<close>, the store, its SSH login, the
    HTTP routes and the token exchange.
  \<^item> \<open>Server\<close>, \<open>Server_Properties\<close>: \<open>internal/server\<close> apart from the lifecycle, and \<open>internal/protocol\<close>.  A
    session is any sequence of handler calls that the SSH library can make for one connection.
  \<^item> \<open>Kube\<close>, \<open>Kube_Properties\<close>: \<open>internal/kube\<close> over an API server that is a state with calls on it.

  \<^bold>\<open>What the lemmas show.\<close>  Each component has lemmas for every operation's success and failure, and
  an invariant where it has state (credentials file, lifecycle gateway, registration store, session).
  The properties state who can log in and with what, that stored policy changes only as an operation
  says, that workloads in use are not stopped, that environments stay in their namespace, and that
  names and values round-trip.  Four interfaces are locales that the model's own definitions
  interpret: the authenticator, the document store, the policy and the HTTP authenticator.

  \<^bold>\<open>Conventions.\<close>  Errors are values of a datatype per component, without the message texts.  Strings
  are lists of bytes.  Times and durations are nanoseconds in \<open>int\<close>; ranges are written out where Go's
  width matters, and certificate times are 64-bit words.  The environment's choices (random bytes,
  temporary names, the clock, failing system calls, the order in which a map is iterated) are
  arguments.  The readiness loop of a dial is a \<open>partial_function\<close> and is proved to return.  JSON
  nesting is limited to 10000 as in the library.

  \<^bold>\<open>Not modelled.\<close>  Logging and error texts; metrics histograms; the byte-level SSH, HTTP and TLS protocols
  and the copying of streams (\<open>internal/proxy\<close>), which belong to libraries or have no state of their
  own; the client (\<open>internal/client\<close>, \<open>internal/profile\<close>, \<open>cmd/tearenv\<close>) and the daemon's start-up
  (\<open>cmd/tearenvd\<close>), which are next.
\<close>

end
